(* ===== verification/Prelude.thy ===== *)
theory Prelude
  imports Main "HOL-Library.Char_ord" "HOL-Library.List_Lexorder" "HOL-Library.Product_Lexorder"
begin

text \<open>
  What every component of the model shares: Rust's fixed-width integer operations on \<open>int\<close>,
  the tables of the SQLite schema as key-ordered association lists, the transaction monad
  (state passing with an error value and rollback), and the small relational logic that
  carries a property of single SQL statements over a whole operation.
\<close>

named_theorems tx_simps "unfolding of the transaction combinators"
named_theorems tx_rules "syntax-directed rules for relations kept by a transaction"
named_theorems others_simps "row updates seen from the other players' rows"
named_theorems tbl_own "statements on the rows of one player"
named_theorems tbl_wf "operations that keep a table ordered by its primary key"

section \<open>Fixed-width integers\<close>

text \<open>
  The model uses \<open>int\<close> for the code's \<open>i64\<close>, \<open>i32\<close> and \<open>i16\<close>. Where an operation can leave
  the width, what Rust does is written out: saturating operations clamp, a plain operator of
  the release profile wraps, and a conversion that can fail returns an option.
\<close>

abbreviation i64_max :: int where "i64_max \<equiv> 9223372036854775807"
abbreviation i64_min :: int where "i64_min \<equiv> - 9223372036854775808"
abbreviation i32_max :: int where "i32_max \<equiv> 2147483647"
abbreviation i32_min :: int where "i32_min \<equiv> - 2147483648"
abbreviation i16_max :: int where "i16_max \<equiv> 32767"
abbreviation i16_min :: int where "i16_min \<equiv> - 32768"

definition in_i64 :: "int \<Rightarrow> bool" where
  "in_i64 x \<longleftrightarrow> i64_min \<le> x \<and> x \<le> i64_max"

definition in_i32 :: "int \<Rightarrow> bool" where
  "in_i32 x \<longleftrightarrow> i32_min \<le> x \<and> x \<le> i32_max"

definition clamp_int :: "int \<Rightarrow> int \<Rightarrow> int \<Rightarrow> int" where
  "clamp_int lo hi x = (if x < lo then lo else if hi < x then hi else x)"

definition sat_i64 :: "int \<Rightarrow> int" where
  "sat_i64 x = clamp_int i64_min i64_max x"

definition sat_i32 :: "int \<Rightarrow> int" where
  "sat_i32 x = clamp_int i32_min i32_max x"

definition wrap_i64 :: "int \<Rightarrow> int" where
  "wrap_i64 x = (x + 2 ^ 63) mod 2 ^ 64 - 2 ^ 63"

definition wrap_i32 :: "int \<Rightarrow> int" where
  "wrap_i32 x = (x + 2 ^ 31) mod 2 ^ 32 - 2 ^ 31"

definition wrap_i16 :: "int \<Rightarrow> int" where
  "wrap_i16 x = (x + 2 ^ 15) mod 2 ^ 16 - 2 ^ 15"

lemma clamp_int_bounds: "lo \<le> hi \<Longrightarrow> lo \<le> clamp_int lo hi x \<and> clamp_int lo hi x \<le> hi"
  by (simp add: clamp_int_def)

lemma clamp_int_id [simp]: "lo \<le> x \<Longrightarrow> x \<le> hi \<Longrightarrow> clamp_int lo hi x = x"
  by (simp add: clamp_int_def)

lemma clamp_int_mono: "lo \<le> hi \<Longrightarrow> x \<le> y \<Longrightarrow> clamp_int lo hi x \<le> clamp_int lo hi y"
  by (simp add: clamp_int_def)

lemma wrap_i64_id: "in_i64 x \<Longrightarrow> wrap_i64 x = x"
  by (simp add: wrap_i64_def in_i64_def)

lemma wrap_i32_id: "in_i32 x \<Longrightarrow> wrap_i32 x = x"
  by (simp add: wrap_i32_def in_i32_def)

lemma wrap_i64_range: "in_i64 (wrap_i64 x)"
proof -
  have "0 \<le> (x + 2 ^ 63) mod 2 ^ 64" "(x + 2 ^ 63) mod 2 ^ 64 < 2 ^ 64"
    by simp_all
  then show ?thesis by (simp add: wrap_i64_def in_i64_def)
qed

lemma sat_i64_range: "in_i64 (sat_i64 x)"
  by (simp add: sat_i64_def clamp_int_def in_i64_def)

lemma sat_i64_id: "in_i64 x \<Longrightarrow> sat_i64 x = x"
  by (simp add: sat_i64_def in_i64_def)

lemma sat_i32_range: "in_i32 (sat_i32 x)"
  by (simp add: sat_i32_def clamp_int_def in_i32_def)

section \<open>Tables\<close>

text \<open>
  A table is the list of its rows in primary-key order, each row a pair of its key and its
  other columns: what a \<open>WITHOUT ROWID\<close> table of the schema stores. The key of a player-owned
  table starts with the USN.
\<close>

type_synonym ('k, 'v) table = "('k \<times> 'v) list"

definition tbl_get :: "('k, 'v) table \<Rightarrow> 'k \<Rightarrow> 'v option" where
  "tbl_get t k = map_of t k"

text \<open>Insert a row at its place in the key order, or replace the row that has the key.\<close>

primrec tbl_put :: "'k::linorder \<Rightarrow> 'v \<Rightarrow> ('k, 'v) table \<Rightarrow> ('k, 'v) table" where
  "tbl_put k v [] = [(k, v)]"
| "tbl_put k v (r # t) =
     (if fst r < k then r # tbl_put k v t
      else if fst r = k then (k, v) # t
      else (k, v) # r # t)"

text \<open>\<open>UPDATE ... SET\<close> on the rows whose key satisfies the \<open>WHERE\<close> clause.\<close>

definition tbl_set :: "('k \<Rightarrow> 'v \<Rightarrow> bool) \<Rightarrow> ('v \<Rightarrow> 'v) \<Rightarrow> ('k, 'v) table \<Rightarrow> ('k, 'v) table" where
  "tbl_set p f t = map (\<lambda>(k, v). (k, if p k v then f v else v)) t"

abbreviation tbl_at :: "'k \<Rightarrow> ('v \<Rightarrow> 'v) \<Rightarrow> ('k, 'v) table \<Rightarrow> ('k, 'v) table" where
  "tbl_at k f t \<equiv> tbl_set (\<lambda>k' _. k' = k) f t"

text \<open>\<open>DELETE ... WHERE\<close>, and the rows a \<open>SELECT ... WHERE\<close> walks in key order.\<close>

definition tbl_delete :: "('k \<Rightarrow> bool) \<Rightarrow> ('k, 'v) table \<Rightarrow> ('k, 'v) table" where
  "tbl_delete p t = filter (\<lambda>r. \<not> p (fst r)) t"

definition tbl_select :: "('k \<Rightarrow> 'v \<Rightarrow> bool) \<Rightarrow> ('k, 'v) table \<Rightarrow> ('k, 'v) table" where
  "tbl_select p t = filter (\<lambda>(k, v). p k v) t"

definition tbl_has :: "('k, 'v) table \<Rightarrow> 'k \<Rightarrow> bool" where
  "tbl_has t k \<longleftrightarrow> tbl_get t k \<noteq> None"

text \<open>\<open>INSERT OR IGNORE\<close>, and \<open>INSERT ... ON CONFLICT DO UPDATE\<close>.\<close>

definition tbl_ignore :: "'k::linorder \<Rightarrow> 'v \<Rightarrow> ('k, 'v) table \<Rightarrow> ('k, 'v) table" where
  "tbl_ignore k v t = (if tbl_has t k then t else tbl_put k v t)"

definition tbl_upsert :: "'k::linorder \<Rightarrow> 'v \<Rightarrow> ('v \<Rightarrow> 'v) \<Rightarrow> ('k, 'v) table \<Rightarrow> ('k, 'v) table" where
  "tbl_upsert k v f t =
     (case tbl_get t k of None \<Rightarrow> tbl_put k v t | Some old \<Rightarrow> tbl_put k (f old) t)"

text \<open>The primary-key constraint: keys strictly ascending, hence distinct.\<close>

definition tbl_ok :: "('k::linorder, 'v) table \<Rightarrow> bool" where
  "tbl_ok t \<longleftrightarrow> sorted_wrt (<) (map fst t)"

subsection \<open>Reading after writing\<close>

lemma tbl_get_Nil [simp]: "tbl_get [] k = None"
  by (simp add: tbl_get_def)

lemma tbl_get_put [simp]: "tbl_get (tbl_put k v t) k' = (if k' = k then Some v else tbl_get t k')"
  by (induction t) (auto simp: tbl_get_def)

lemma tbl_get_set:
  "tbl_get (tbl_set p f t) k = map_option (\<lambda>v. if p k v then f v else v) (tbl_get t k)"
  by (induction t) (auto simp: tbl_get_def tbl_set_def)

lemma tbl_get_at [simp]:
  "tbl_get (tbl_at k f t) k' = (if k' = k then map_option f (tbl_get t k) else tbl_get t k')"
  by (cases "tbl_get t k'") (auto simp: tbl_get_set)

lemma tbl_get_delete [simp]:
  "tbl_get (tbl_delete p t) k = (if p k then None else tbl_get t k)"
  by (induction t) (auto simp: tbl_get_def tbl_delete_def)

lemma tbl_get_ignore [simp]:
  "tbl_get (tbl_ignore k v t) k' =
     (if k' = k \<and> tbl_get t k = None then Some v else tbl_get t k')"
  by (auto simp: tbl_ignore_def tbl_has_def)

lemma tbl_get_upsert [simp]:
  "tbl_get (tbl_upsert k v f t) k' =
     (if k' = k then Some (case tbl_get t k of None \<Rightarrow> v | Some old \<Rightarrow> f old) else tbl_get t k')"
  by (auto simp: tbl_upsert_def split: option.splits)

lemma tbl_has_put [simp]: "tbl_has (tbl_put k v t) k' \<longleftrightarrow> k' = k \<or> tbl_has t k'"
  by (simp add: tbl_has_def)

lemma tbl_get_SomeD: "tbl_get t k = Some v \<Longrightarrow> (k, v) \<in> set t"
  by (simp add: tbl_get_def map_of_SomeD)

lemma tbl_get_None_iff: "tbl_get t k = None \<longleftrightarrow> k \<notin> fst ` set t"
  by (simp add: tbl_get_def map_of_eq_None_iff)

subsection \<open>The key order is kept\<close>

lemma set_tbl_put_subset: "set (tbl_put k v t) \<subseteq> insert (k, v) (set t)"
  by (induction t) auto

lemma fst_set_tbl_put: "fst ` set (tbl_put k v t) = insert k (fst ` set t)"
  by (induction t) auto

lemma tbl_ok_Nil [simp, tbl_wf]: "tbl_ok []"
  by (simp add: tbl_ok_def)

lemma tbl_ok_Cons: "tbl_ok (r # t) \<longleftrightarrow> (\<forall>k \<in> fst ` set t. fst r < k) \<and> tbl_ok t"
  by (auto simp: tbl_ok_def)

lemma tbl_ok_put [tbl_wf]: "tbl_ok t \<Longrightarrow> tbl_ok (tbl_put k v t)"
  by (induction t) (auto simp: tbl_ok_Cons fst_set_tbl_put tbl_ok_def intro: order_less_trans)

lemma map_fst_tbl_set [simp]: "map fst (tbl_set p f t) = map fst t"
  by (induction t) (auto simp: tbl_set_def)

lemma tbl_ok_set [tbl_wf]: "tbl_ok t \<Longrightarrow> tbl_ok (tbl_set p f t)"
  by (simp add: tbl_ok_def)

lemma tbl_ok_delete [tbl_wf]: "tbl_ok t \<Longrightarrow> tbl_ok (tbl_delete p t)"
  by (induction t) (auto simp: tbl_delete_def tbl_ok_Cons)

lemma tbl_ok_ignore [tbl_wf]: "tbl_ok t \<Longrightarrow> tbl_ok (tbl_ignore k v t)"
  by (simp add: tbl_ignore_def tbl_ok_put)

lemma tbl_ok_upsert [tbl_wf]: "tbl_ok t \<Longrightarrow> tbl_ok (tbl_upsert k v f t)"
  by (auto simp: tbl_upsert_def tbl_ok_put split: option.split)

lemma tbl_ok_distinct: "tbl_ok t \<Longrightarrow> distinct (map fst t)"
  by (simp add: tbl_ok_def strict_sorted_iff)

lemma tbl_get_eq_Some_iff: "tbl_ok t \<Longrightarrow> tbl_get t k = Some v \<longleftrightarrow> (k, v) \<in> set t"
  by (simp add: tbl_get_def tbl_ok_distinct)

subsection \<open>The interface of a keyed store\<close>

text \<open>
  What the persistence layer relies on when it reads a row back by its key. The laws are stated
  once; every component's read-after-write fact is an instance of the table interpretation.
\<close>

locale keyed_store =
  fixes lookup :: "'m \<Rightarrow> 'k \<Rightarrow> 'v option"
    and store :: "'k \<Rightarrow> 'v \<Rightarrow> 'm \<Rightarrow> 'm"
    and remove :: "('k \<Rightarrow> bool) \<Rightarrow> 'm \<Rightarrow> 'm"
    and ok :: "'m \<Rightarrow> bool"
  assumes lookup_store: "lookup (store k v m) k' = (if k' = k then Some v else lookup m k')"
    and lookup_remove: "lookup (remove p m) k = (if p k then None else lookup m k)"
    and ok_store: "ok m \<Longrightarrow> ok (store k v m)"
    and ok_remove: "ok m \<Longrightarrow> ok (remove p m)"
begin

lemma store_twice: "lookup (store k v (store k w m)) = lookup (store k v m)"
  by (simp add: fun_eq_iff lookup_store)

lemma store_commute:
  "k \<noteq> k' \<Longrightarrow> lookup (store k v (store k' v' m)) = lookup (store k' v' (store k v m))"
  by (auto simp: fun_eq_iff lookup_store)

lemma remove_store: "p k \<Longrightarrow> lookup (remove p (store k v m)) = lookup (remove p m)"
  by (auto simp: fun_eq_iff lookup_store lookup_remove)

lemma ok_store_remove: "ok m \<Longrightarrow> ok (store k v (remove p m))"
  by (simp add: ok_store ok_remove)

end

interpretation tbl: keyed_store tbl_get tbl_put tbl_delete tbl_ok
  by unfold_locales (simp_all add: tbl_wf)

subsection \<open>The rows of the other players\<close>

text \<open>
  \<open>others u t\<close> is a player-owned table without the rows of player \<open>u\<close>; \<open>others1\<close> is the same
  for the tables whose whole key is the USN. An operation of player \<open>u\<close> keeps both.
\<close>

definition others :: "'u \<Rightarrow> ('u \<times> 'k, 'v) table \<Rightarrow> ('u \<times> 'k, 'v) table" where
  "others u t = filter (\<lambda>r. fst (fst r) \<noteq> u) t"

definition others1 :: "'u \<Rightarrow> ('u, 'v) table \<Rightarrow> ('u, 'v) table" where
  "others1 u t = filter (\<lambda>r. fst r \<noteq> u) t"

lemma others_put [others_simps]: "others u (tbl_put (u, k) v t) = others u t"
  by (induction t) (auto simp: others_def)

lemma others_ignore [others_simps]: "others u (tbl_ignore (u, k) v t) = others u t"
  by (simp add: tbl_ignore_def others_put)

lemma others_upsert [others_simps]: "others u (tbl_upsert (u, k) v f t) = others u t"
  by (auto simp: tbl_upsert_def others_put split: option.split)

lemma others_set:
  assumes "\<And>k v. p k v \<Longrightarrow> fst k = u"
  shows "others u (tbl_set p f t) = others u t"
  using assms by (induction t) (auto simp: others_def tbl_set_def)

lemma others_at [others_simps]: "others u (tbl_at (u, k) f t) = others u t"
  by (rule others_set) simp

lemma others1_put [others_simps]: "others1 u (tbl_put u v t) = others1 u t"
  by (induction t) (auto simp: others1_def)

lemma others1_ignore [others_simps]: "others1 u (tbl_ignore u v t) = others1 u t"
  by (simp add: tbl_ignore_def others1_put)

lemma others1_upsert [others_simps]: "others1 u (tbl_upsert u v f t) = others1 u t"
  by (auto simp: tbl_upsert_def others1_put split: option.split)

lemma others1_at [others_simps]: "others1 u (tbl_at u f t) = others1 u t"
  by (induction t) (auto simp: others1_def tbl_set_def)

lemma tbl_get_others: "fst k \<noteq> u \<Longrightarrow> tbl_get (others u t) k = tbl_get t k"
  by (induction t) (auto simp: tbl_get_def others_def)

lemma tbl_get_others1: "k \<noteq> u \<Longrightarrow> tbl_get (others1 u t) k = tbl_get t k"
  by (induction t) (auto simp: tbl_get_def others1_def)

lemma tbl_ok_filter [tbl_wf]: "tbl_ok t \<Longrightarrow> tbl_ok (filter p t)"
  by (induction t) (auto simp: tbl_ok_Cons)

lemma tbl_get_filter:
  assumes "tbl_ok t"
  shows "tbl_get (filter p t) k = Some v \<longleftrightarrow> tbl_get t k = Some v \<and> p (k, v)"
  using assms by (auto simp: tbl_get_eq_Some_iff tbl_ok_filter)

lemma tbl_get_others_if: "tbl_get (others u t) k = (if fst k = u then None else tbl_get t k)"
  by (induction t) (auto simp: tbl_get_def others_def)

lemma tbl_get_others1_if: "tbl_get (others1 u t) k = (if k = u then None else tbl_get t k)"
  by (induction t) (auto simp: tbl_get_def others1_def)

text \<open>Equal other rows means equal lookups and equal selections for every other player.\<close>

lemma others_lookup:
  "others u t' = others u t \<Longrightarrow> fst k \<noteq> u \<Longrightarrow> tbl_get t' k = tbl_get t k"
  by (metis tbl_get_others)

lemma others1_lookup:
  "others1 u t' = others1 u t \<Longrightarrow> k \<noteq> u \<Longrightarrow> tbl_get t' k = tbl_get t k"
  by (metis tbl_get_others1)

subsection \<open>Steps on the rows of one player\<close>

text \<open>
  \<open>table_step u t t'\<close>: player \<open>u\<close> may have changed and added rows of his own, but the rows of
  every other player are the same, no row is gone, and the key order is kept. A statement is
  \<open>own_rows u\<close> if it is such a step on every table; the primed versions are for the tables whose
  whole key is the USN.
\<close>

definition table_step :: "'u \<Rightarrow> ('u::linorder \<times> 'k::linorder, 'v) table \<Rightarrow> ('u \<times> 'k, 'v) table \<Rightarrow> bool" where
  "table_step u t t' \<longleftrightarrow> others u t' = others u t \<and> (tbl_ok t \<longrightarrow> tbl_ok t')
     \<and> (\<forall>k. tbl_has t k \<longrightarrow> tbl_has t' k)"

definition table_step1 :: "'u \<Rightarrow> ('u::linorder, 'v) table \<Rightarrow> ('u, 'v) table \<Rightarrow> bool" where
  "table_step1 u t t' \<longleftrightarrow> others1 u t' = others1 u t \<and> (tbl_ok t \<longrightarrow> tbl_ok t')
     \<and> (\<forall>k. tbl_has t k \<longrightarrow> tbl_has t' k)"

definition own_rows ::
  "'u \<Rightarrow> (('u::linorder \<times> 'k::linorder, 'v) table \<Rightarrow> ('u \<times> 'k, 'v) table) \<Rightarrow> bool" where
  "own_rows u f \<longleftrightarrow> (\<forall>t. table_step u t (f t))"

definition own_rows1 :: "'u \<Rightarrow> (('u::linorder, 'v) table \<Rightarrow> ('u, 'v) table) \<Rightarrow> bool" where
  "own_rows1 u f \<longleftrightarrow> (\<forall>t. table_step1 u t (f t))"

lemma table_step_refl [simp]: "table_step u t t"
  by (simp add: table_step_def)

lemma table_step1_refl [simp]: "table_step1 u t t"
  by (simp add: table_step1_def)

lemma table_step_trans: "table_step u t t' \<Longrightarrow> table_step u t' t'' \<Longrightarrow> table_step u t t''"
  by (auto simp: table_step_def)

lemma table_step1_trans: "table_step1 u t t' \<Longrightarrow> table_step1 u t' t'' \<Longrightarrow> table_step1 u t t''"
  by (auto simp: table_step1_def)

lemma tbl_has_ignore [simp]: "tbl_has (tbl_ignore k v t) k' \<longleftrightarrow> k' = k \<or> tbl_has t k'"
  by (auto simp: tbl_has_def)

lemma tbl_has_upsert [simp]: "tbl_has (tbl_upsert k v f t) k' \<longleftrightarrow> k' = k \<or> tbl_has t k'"
  by (auto simp: tbl_has_def)

lemma tbl_has_set [simp]: "tbl_has (tbl_set p f t) k \<longleftrightarrow> tbl_has t k"
  by (simp add: tbl_has_def tbl_get_set)

lemma own_rows_put [tbl_own]: "own_rows u (tbl_put (u, k) v)"
  by (simp add: own_rows_def table_step_def others_simps tbl_wf)

lemma own_rows_ignore [tbl_own]: "own_rows u (tbl_ignore (u, k) v)"
  by (simp add: own_rows_def table_step_def others_simps tbl_wf)

lemma own_rows_upsert [tbl_own]: "own_rows u (tbl_upsert (u, k) v f)"
  by (simp add: own_rows_def table_step_def others_simps tbl_wf)

lemma own_rows_at [tbl_own]: "own_rows u (tbl_at (u, k) f)"
  by (simp add: own_rows_def table_step_def others_simps tbl_wf)

lemma own_rows_set: "(\<And>k v. p k v \<Longrightarrow> fst k = u) \<Longrightarrow> own_rows u (tbl_set p f)"
  by (simp add: own_rows_def table_step_def others_set tbl_wf)

lemma own_rows1_put [tbl_own]: "own_rows1 u (tbl_put u v)"
  by (simp add: own_rows1_def table_step1_def others_simps tbl_wf)

lemma own_rows1_ignore [tbl_own]: "own_rows1 u (tbl_ignore u v)"
  by (simp add: own_rows1_def table_step1_def others_simps tbl_wf)

lemma own_rows1_upsert [tbl_own]: "own_rows1 u (tbl_upsert u v f)"
  by (simp add: own_rows1_def table_step1_def others_simps tbl_wf)

lemma own_rows1_at [tbl_own]: "own_rows1 u (tbl_at u f)"
  by (simp add: own_rows1_def table_step1_def others_simps tbl_wf)

lemma table_step_lookup: "table_step u t t' \<Longrightarrow> fst k \<noteq> u \<Longrightarrow> tbl_get t' k = tbl_get t k"
  by (rule others_lookup [of u]) (simp_all add: table_step_def)

lemma table_step1_lookup: "table_step1 u t t' \<Longrightarrow> k \<noteq> u \<Longrightarrow> tbl_get t' k = tbl_get t k"
  by (rule others1_lookup [of u]) (simp_all add: table_step1_def)

lemma tbl_has_Nil: "tbl_has [] k \<longleftrightarrow> False"
  by (simp add: tbl_has_def)

lemma tbl_has_Cons: "tbl_has (r # t) k \<longleftrightarrow> k = fst r \<or> tbl_has t k"
  by (cases r) (auto simp: tbl_has_def tbl_get_def)

lemma tbl_get_Cons: "tbl_get (r # t) k = (if k = fst r then Some (snd r) else tbl_get t k)"
  by (cases r) (auto simp: tbl_get_def)

text \<open>Looking a row up by another column, around an insertion.\<close>

lemma find_tbl_put_new: "find P t = None \<Longrightarrow> P (k, v) \<Longrightarrow> find P (tbl_put k v t) = Some (k, v)"
  by (induction t) (auto split: if_splits)

lemma find_tbl_put_other:
  "\<not> tbl_has t k \<Longrightarrow> \<not> P (k, v) \<Longrightarrow> find P (tbl_put k v t) = find P t"
  by (induction t) (auto simp: tbl_has_def tbl_get_def split: if_splits)

text \<open>\<open>COALESCE(MAX(c),0)\<close>.\<close>

definition max_or_zero :: "int list \<Rightarrow> int" where
  "max_or_zero xs = (if xs = [] then 0 else foldr max xs (hd xs))"

lemma foldr_max_ge: "x \<in> set xs \<or> x = z \<Longrightarrow> x \<le> foldr max xs (z::int)"
  by (induction xs) auto

lemma foldr_max_in: "foldr max xs (z::int) \<in> insert z (set xs)"
  by (induction xs) (auto simp: max_def)

lemma max_or_zero_ge: "x \<in> set xs \<Longrightarrow> x \<le> max_or_zero xs"
  by (auto simp: max_or_zero_def intro: foldr_max_ge)

lemma max_or_zero_in: "xs \<noteq> [] \<Longrightarrow> max_or_zero xs \<in> set xs"
  using foldr_max_in [of xs "hd xs"] by (auto simp: max_or_zero_def)

section \<open>Transactions\<close>

text \<open>
  A step of a transaction reads and writes the state and either fails with an error or gives a
  value and the new state: Rust's \<open>Result\<close> with \<open>?\<close> inside one SQLite transaction.
  \<open>tx_commit\<close> runs a whole transaction: an error rolls the state back.
\<close>

type_synonym ('e, 's, 'a) tx = "'s \<Rightarrow> 'e + ('a \<times> 's)"

definition tx_return :: "'a \<Rightarrow> ('e, 's, 'a) tx" where
  "tx_return x = (\<lambda>s. Inr (x, s))"

definition tx_fail :: "'e \<Rightarrow> ('e, 's, 'a) tx" where
  "tx_fail e = (\<lambda>_. Inl e)"

definition tx_bind :: "('e, 's, 'a) tx \<Rightarrow> ('a \<Rightarrow> ('e, 's, 'b) tx) \<Rightarrow> ('e, 's, 'b) tx" where
  "tx_bind m f = (\<lambda>s. case m s of Inl e \<Rightarrow> Inl e | Inr r \<Rightarrow> f (fst r) (snd r))"

definition tx_then :: "('e, 's, 'a) tx \<Rightarrow> ('e, 's, 'b) tx \<Rightarrow> ('e, 's, 'b) tx" where
  "tx_then m n = tx_bind m (\<lambda>_. n)"

definition tx_gets :: "('s \<Rightarrow> 'a) \<Rightarrow> ('e, 's, 'a) tx" where
  "tx_gets f = (\<lambda>s. Inr (f s, s))"

definition tx_modify :: "('s \<Rightarrow> 's) \<Rightarrow> ('e, 's, unit) tx" where
  "tx_modify f = (\<lambda>s. Inr ((), f s))"

definition tx_require :: "bool \<Rightarrow> 'e \<Rightarrow> ('e, 's, unit) tx" where
  "tx_require b e = (if b then tx_return () else tx_fail e)"

definition tx_expect :: "'e \<Rightarrow> 'a option \<Rightarrow> ('e, 's, 'a) tx" where
  "tx_expect e v = (case v of None \<Rightarrow> tx_fail e | Some x \<Rightarrow> tx_return x)"

definition tx_lift :: "'e + 'a \<Rightarrow> ('e, 's, 'a) tx" where
  "tx_lift r = (case r of Inl e \<Rightarrow> tx_fail e | Inr x \<Rightarrow> tx_return x)"

text \<open>\<open>for\<close> loops: for effect only, and collecting the values of the iterations.\<close>

fun tx_each :: "('a \<Rightarrow> ('e, 's, unit) tx) \<Rightarrow> 'a list \<Rightarrow> ('e, 's, unit) tx" where
  "tx_each f [] = tx_return ()"
| "tx_each f (x # xs) = tx_then (f x) (tx_each f xs)"

fun tx_collect :: "('a \<Rightarrow> ('e, 's, 'b) tx) \<Rightarrow> 'a list \<Rightarrow> ('e, 's, 'b list) tx" where
  "tx_collect f [] = tx_return []"
| "tx_collect f (x # xs) =
     tx_bind (f x) (\<lambda>y. tx_bind (tx_collect f xs) (\<lambda>ys. tx_return (y # ys)))"

definition tx_commit :: "('e, 's, 'a) tx \<Rightarrow> 's \<Rightarrow> ('e + 'a) \<times> 's" where
  "tx_commit m s = (case m s of Inl e \<Rightarrow> (Inl e, s) | Inr r \<Rightarrow> (Inr (fst r), snd r))"

lemma tx_return_Inr [tx_simps]: "tx_return x s = Inr r \<longleftrightarrow> r = (x, s)"
  by (auto simp: tx_return_def)

lemma tx_fail_Inr [tx_simps]: "tx_fail e s = Inr r \<longleftrightarrow> False"
  by (simp add: tx_fail_def)

lemma tx_bind_Inr [tx_simps]:
  "tx_bind m f s = Inr r \<longleftrightarrow> (\<exists>x t. m s = Inr (x, t) \<and> f x t = Inr r)"
  by (auto simp: tx_bind_def split: sum.split)

lemma tx_then_Inr [tx_simps]:
  "tx_then m n s = Inr r \<longleftrightarrow> (\<exists>x t. m s = Inr (x, t) \<and> n t = Inr r)"
  by (auto simp: tx_then_def tx_bind_Inr)

lemma tx_gets_Inr [tx_simps]: "tx_gets f s = Inr r \<longleftrightarrow> r = (f s, s)"
  by (auto simp: tx_gets_def)

lemma tx_modify_Inr [tx_simps]: "tx_modify f s = Inr r \<longleftrightarrow> r = ((), f s)"
  by (auto simp: tx_modify_def)

lemma tx_require_Inr [tx_simps]: "tx_require b e s = Inr r \<longleftrightarrow> b \<and> r = ((), s)"
  by (auto simp: tx_require_def tx_return_def tx_fail_def)

lemma tx_expect_Inr [tx_simps]: "tx_expect e v s = Inr r \<longleftrightarrow> (\<exists>x. v = Some x \<and> r = (x, s))"
  by (auto simp: tx_expect_def tx_return_def tx_fail_def split: option.split)

lemma tx_lift_Inr [tx_simps]: "tx_lift q s = Inr r \<longleftrightarrow> (\<exists>x. q = Inr x \<and> r = (x, s))"
  by (auto simp: tx_lift_def tx_return_def tx_fail_def split: sum.split)

lemma tx_sum_case_Inr [tx_simps]:
  "(case q of Inl e \<Rightarrow> tx_fail (f e) | Inr x \<Rightarrow> m x) s = Inr r \<longleftrightarrow> (\<exists>x. q = Inr x \<and> m x s = Inr r)"
  by (cases q) (auto simp: tx_fail_def)

text \<open>Running the combinators forward, for evaluation.\<close>

lemmas tx_run = tx_return_def tx_fail_def tx_bind_def tx_then_def tx_gets_def tx_modify_def
  tx_require_def tx_expect_def tx_lift_def tx_commit_def

lemma tx_then_run: "m s = Inr (x, t) \<Longrightarrow> tx_then m n s = n t"
  by (simp add: tx_run)

lemma tx_bind_run: "m s = Inr (x, t) \<Longrightarrow> tx_bind m f s = f x t"
  by (simp add: tx_run)

subsection \<open>Relations kept by a transaction\<close>

text \<open>
  \<open>tx_rel R m\<close>: whenever \<open>m\<close> succeeds, \<open>R\<close> relates the state before to the state after. For a
  reflexive and transitive \<open>R\<close> the rules below follow the syntax of \<open>m\<close>, so that a fact about
  the single statements gives the fact about the operation.
\<close>

definition tx_rel :: "('s \<Rightarrow> 's \<Rightarrow> bool) \<Rightarrow> ('e, 's, 'a) tx \<Rightarrow> bool" where
  "tx_rel R m \<longleftrightarrow> (\<forall>s x t. m s = Inr (x, t) \<longrightarrow> R s t)"

lemma tx_relD: "tx_rel R m \<Longrightarrow> m s = Inr (x, t) \<Longrightarrow> R s t"
  by (auto simp: tx_rel_def)

lemma tx_relI: "(\<And>s x t. m s = Inr (x, t) \<Longrightarrow> R s t) \<Longrightarrow> tx_rel R m"
  by (auto simp: tx_rel_def)

lemma tx_then_rel:
  assumes "tx_then m n s = Inr (x, t)" and "tx_rel R n"
  obtains y s1 where "m s = Inr (y, s1)" "R s1 t"
  using assms by (auto simp: tx_simps dest: tx_relD)

locale step_relation =
  fixes R :: "'s \<Rightarrow> 's \<Rightarrow> bool"
  assumes refl: "R s s"
    and trans: "R s t \<Longrightarrow> R t v \<Longrightarrow> R s v"
begin

lemma return: "tx_rel R (tx_return x)"
  by (auto simp: tx_rel_def tx_simps refl)

lemma fail: "tx_rel R (tx_fail e)"
  by (auto simp: tx_rel_def tx_simps)

lemma gets: "tx_rel R (tx_gets f)"
  by (auto simp: tx_rel_def tx_simps refl)

lemma require: "tx_rel R (tx_require b e)"
  by (auto simp: tx_rel_def tx_simps refl)

lemma expect: "tx_rel R (tx_expect e v)"
  by (auto simp: tx_rel_def tx_simps refl)

lemma lift: "tx_rel R (tx_lift q)"
  by (auto simp: tx_rel_def tx_simps refl)

lemma bind: "tx_rel R m \<Longrightarrow> (\<And>x. tx_rel R (f x)) \<Longrightarrow> tx_rel R (tx_bind m f)"
  by (rule tx_relI) (auto simp: tx_simps intro: trans dest!: tx_relD)

lemma seq: "tx_rel R m \<Longrightarrow> tx_rel R n \<Longrightarrow> tx_rel R (tx_then m n)"
  by (simp add: tx_then_def bind)

lemma modify: "(\<And>s. R s (f s)) \<Longrightarrow> tx_rel R (tx_modify f)"
  by (auto simp: tx_rel_def tx_simps)

lemma each: "(\<And>x. tx_rel R (f x)) \<Longrightarrow> tx_rel R (tx_each f xs)"
  by (induction xs) (auto intro: seq return)

lemma collect: "(\<And>x. tx_rel R (f x)) \<Longrightarrow> tx_rel R (tx_collect f xs)"
  by (induction xs) (auto intro!: bind return)

lemma cond: "(b \<Longrightarrow> tx_rel R m) \<Longrightarrow> (\<not> b \<Longrightarrow> tx_rel R n) \<Longrightarrow> tx_rel R (if b then m else n)"
  by simp

lemma option_case:
  "(v = None \<Longrightarrow> tx_rel R m) \<Longrightarrow> (\<And>x. v = Some x \<Longrightarrow> tx_rel R (f x)) \<Longrightarrow>
   tx_rel R (case v of None \<Rightarrow> m | Some x \<Rightarrow> f x)"
  by (cases v) simp_all

lemma prod_case: "(\<And>x y. p = (x, y) \<Longrightarrow> tx_rel R (f x y)) \<Longrightarrow> tx_rel R (case p of (x, y) \<Rightarrow> f x y)"
  by (cases p) simp

lemma let_bound: "tx_rel R (f v) \<Longrightarrow> tx_rel R (Let v f)"
  by simp

lemma sum_case:
  "(\<And>e. q = Inl e \<Longrightarrow> tx_rel R (f e)) \<Longrightarrow> (\<And>x. q = Inr x \<Longrightarrow> tx_rel R (g x)) \<Longrightarrow>
   tx_rel R (case q of Inl e \<Rightarrow> f e | Inr x \<Rightarrow> g x)"
  by (cases q) simp_all

lemmas rules = return fail gets require expect lift bind seq each collect cond option_case
  prod_case sum_case let_bound

end

lemma tx_commit_Inr: "tx_commit m s = (Inr x, t) \<longleftrightarrow> m s = Inr (x, t)"
  by (auto simp: tx_commit_def split: sum.splits)

lemma tx_commit_Inl: "tx_commit m s = (Inl e, t) \<longleftrightarrow> m s = Inl e \<and> t = s"
  by (auto simp: tx_commit_def split: sum.splits)

text \<open>An operation keeps an observation of the state when every statement of it does.\<close>

interpretation keeps: step_relation "\<lambda>s t. f t = f s" for f
  by unfold_locales simp_all

abbreviation tx_keeps :: "('s \<Rightarrow> 'o) \<Rightarrow> ('e, 's, 'a) tx \<Rightarrow> bool" where
  "tx_keeps f m \<equiv> tx_rel (\<lambda>s t. f t = f s) m"

end
