(* ===== verification/Floats.thy ===== *)
theory Floats
  imports Complex_Main Prelude
begin

text \<open>
  Rust's \<open>f64\<close> and \<open>f32\<close> and SQLite's \<open>REAL\<close>: IEEE-754 values as NaN, the two infinities or an
  exact rational, with every result rounded to nearest, ties to even, in the format's precision
  and exponent range. The two zeros are one value: no modelled code divides by a zero, prints
  one or inspects its sign bit. The wire codec keeps doubles as bit patterns and is not
  concerned.
\<close>

datatype flt = NaN | PInf | NInf | Fin rat

type_synonym f64 = flt
type_synonym f32 = flt

section \<open>Rounding to a binary format\<close>

fun nbits :: "nat \<Rightarrow> nat" where
  "nbits n = (if n = 0 then 0 else Suc (nbits (n div 2)))"

declare nbits.simps [simp del]

text \<open>The binary logarithm of a positive rational, rounded down.\<close>

definition ilog2 :: "rat \<Rightarrow> int" where
  "ilog2 q = (let ab = quotient_of q;
                  k = int (nbits (nat (fst ab))) - int (nbits (nat (snd ab)))
              in if 2 powi k \<le> q then k else k - 1)"

text \<open>Round half to even.\<close>

definition rne :: "rat \<Rightarrow> int" where
  "rne x = (let f = \<lfloor>x\<rfloor>; r = x - of_int f
            in if r < 1 / 2 then f else if 1 / 2 < r then f + 1 else if even f then f else f + 1)"

text \<open>
  A format has \<open>p\<close> bits of significand, least exponent \<open>emin\<close> of the last place (subnormals) and
  overflows from \<open>2 powi emax\<close> on.
\<close>

definition ulp_exp :: "int \<Rightarrow> int \<Rightarrow> rat \<Rightarrow> int" where
  "ulp_exp p emin q = max (ilog2 \<bar>q\<bar> - (p - 1)) emin"

definition round_fmt :: "int \<Rightarrow> int \<Rightarrow> int \<Rightarrow> rat \<Rightarrow> flt" where
  "round_fmt p emin emax q =
     (if q = 0 then Fin 0
      else let e = ulp_exp p emin q; v = of_int (rne (q / 2 powi e)) * 2 powi e
           in if 2 powi emax \<le> v then PInf else if v \<le> - (2 powi emax) then NInf else Fin v)"

definition round64 :: "rat \<Rightarrow> f64" where
  "round64 = round_fmt 53 (- 1074) 1024"

definition round32 :: "rat \<Rightarrow> f32" where
  "round32 = round_fmt 24 (- 149) 128"

section \<open>Arithmetic, comparison, conversion\<close>

fun is_finite :: "flt \<Rightarrow> bool" where
  "is_finite (Fin _) = True"
| "is_finite _ = False"

definition fzero :: flt where "fzero = Fin 0"

text \<open>A comparison with a NaN is false.\<close>

fun flt_less :: "flt \<Rightarrow> flt \<Rightarrow> bool" where
  "flt_less (Fin a) (Fin b) = (a < b)"
| "flt_less NInf (Fin b) = True"
| "flt_less NInf PInf = True"
| "flt_less (Fin a) PInf = True"
| "flt_less _ _ = False"

fun flt_eq :: "flt \<Rightarrow> flt \<Rightarrow> bool" where
  "flt_eq NaN _ = False"
| "flt_eq _ NaN = False"
| "flt_eq a b = (a = b)"

definition flt_le :: "flt \<Rightarrow> flt \<Rightarrow> bool" where
  "flt_le a b \<longleftrightarrow> flt_less a b \<or> flt_eq a b"

fun fneg :: "flt \<Rightarrow> flt" where
  "fneg NaN = NaN"
| "fneg PInf = NInf"
| "fneg NInf = PInf"
| "fneg (Fin a) = Fin (- a)"

text \<open>The operations over a rounding function, so that both widths share them.\<close>

fun fadd_with :: "(rat \<Rightarrow> flt) \<Rightarrow> flt \<Rightarrow> flt \<Rightarrow> flt" where
  "fadd_with rd (Fin a) (Fin b) = rd (a + b)"
| "fadd_with rd NaN _ = NaN"
| "fadd_with rd _ NaN = NaN"
| "fadd_with rd PInf NInf = NaN"
| "fadd_with rd NInf PInf = NaN"
| "fadd_with rd PInf _ = PInf"
| "fadd_with rd _ PInf = PInf"
| "fadd_with rd NInf _ = NInf"
| "fadd_with rd _ NInf = NInf"

definition inf_of_sign :: "bool \<Rightarrow> flt" where
  "inf_of_sign pos = (if pos then PInf else NInf)"

fun flt_sgn :: "flt \<Rightarrow> int" where
  "flt_sgn NaN = 0"
| "flt_sgn PInf = 1"
| "flt_sgn NInf = - 1"
| "flt_sgn (Fin a) = (if 0 < a then 1 else if a < 0 then - 1 else 0)"

fun fmul_with :: "(rat \<Rightarrow> flt) \<Rightarrow> flt \<Rightarrow> flt \<Rightarrow> flt" where
  "fmul_with rd (Fin a) (Fin b) = rd (a * b)"
| "fmul_with rd a b =
     (if a = NaN \<or> b = NaN \<or> flt_sgn a = 0 \<or> flt_sgn b = 0 then NaN
      else inf_of_sign (flt_sgn a = flt_sgn b))"

definition fadd :: "f64 \<Rightarrow> f64 \<Rightarrow> f64" where
  "fadd = fadd_with round64"

definition fsub :: "f64 \<Rightarrow> f64 \<Rightarrow> f64" where
  "fsub a b = fadd a (fneg b)"

definition fmul :: "f64 \<Rightarrow> f64 \<Rightarrow> f64" where
  "fmul = fmul_with round64"

text \<open>Division; a zero divisor counts as the positive zero.\<close>

fun fdiv :: "f64 \<Rightarrow> f64 \<Rightarrow> f64" where
  "fdiv (Fin a) (Fin b) =
     (if b = 0 then (if a = 0 then NaN else inf_of_sign (0 < a)) else round64 (a / b))"
| "fdiv (Fin a) PInf = Fin 0"
| "fdiv (Fin a) NInf = Fin 0"
| "fdiv PInf (Fin b) = inf_of_sign (0 \<le> b)"
| "fdiv NInf (Fin b) = inf_of_sign (b < 0)"
| "fdiv _ _ = NaN"

definition fadd32 :: "f32 \<Rightarrow> f32 \<Rightarrow> f32" where
  "fadd32 = fadd_with round32"

definition fmul32 :: "f32 \<Rightarrow> f32 \<Rightarrow> f32" where
  "fmul32 = fmul_with round32"

text \<open>\<open>as f32\<close> rounds a double; \<open>f64::from\<close> of a single is exact, so it is the identity here.\<close>

fun to_f32 :: "f64 \<Rightarrow> f32" where
  "to_f32 (Fin a) = round32 a"
| "to_f32 x = x"

text \<open>\<open>as f64\<close> and \<open>as f32\<close> from an integer.\<close>

definition f64_of_int :: "int \<Rightarrow> f64" where
  "f64_of_int n = round64 (of_int n)"

definition f32_of_int :: "int \<Rightarrow> f32" where
  "f32_of_int n = round32 (of_int n)"

definition trunc_rat :: "rat \<Rightarrow> int" where
  "trunc_rat q = (if 0 \<le> q then \<lfloor>q\<rfloor> else - \<lfloor>- q\<rfloor>)"

text \<open>\<open>f64::round\<close>: half away from zero.\<close>

definition round_away :: "rat \<Rightarrow> int" where
  "round_away q = (if 0 \<le> q then \<lfloor>q + 1 / 2\<rfloor> else - \<lfloor>1 / 2 - q\<rfloor>)"

fun flt_map_int :: "(rat \<Rightarrow> int) \<Rightarrow> flt \<Rightarrow> flt" where
  "flt_map_int f (Fin a) = Fin (of_int (f a))"
| "flt_map_int f x = x"

definition ftrunc :: "flt \<Rightarrow> flt" where "ftrunc = flt_map_int trunc_rat"
definition fround :: "flt \<Rightarrow> flt" where "fround = flt_map_int round_away"
definition fceil :: "flt \<Rightarrow> flt" where "fceil = flt_map_int (\<lambda>q. \<lceil>q\<rceil>)"

text \<open>\<open>f64::max\<close> and \<open>min\<close> return the other argument of a NaN; \<open>clamp\<close> keeps a NaN.\<close>

definition fmax :: "flt \<Rightarrow> flt \<Rightarrow> flt" where
  "fmax a b = (if a = NaN then b else if b = NaN then a else if flt_less a b then b else a)"

definition fmin :: "flt \<Rightarrow> flt \<Rightarrow> flt" where
  "fmin a b = (if a = NaN then b else if b = NaN then a else if flt_less b a then b else a)"

definition fclamp :: "flt \<Rightarrow> flt \<Rightarrow> flt \<Rightarrow> flt" where
  "fclamp x lo hi = (if flt_less x lo then lo else if flt_less hi x then hi else x)"

text \<open>\<open>as i64\<close>, \<open>as i32\<close>: truncation, saturating at the width, and 0 for a NaN.\<close>

fun flt_as_int :: "int \<Rightarrow> int \<Rightarrow> flt \<Rightarrow> int" where
  "flt_as_int lo hi NaN = 0"
| "flt_as_int lo hi PInf = hi"
| "flt_as_int lo hi NInf = lo"
| "flt_as_int lo hi (Fin a) = clamp_int lo hi (trunc_rat a)"

definition as_i64 :: "flt \<Rightarrow> int" where "as_i64 = flt_as_int i64_min i64_max"
definition as_i32 :: "flt \<Rightarrow> int" where "as_i32 = flt_as_int i32_min i32_max"

text \<open>The order of SQLite's \<open>MAX(a,b)\<close> on two stored reals (neither can be a NaN).\<close>

definition sql_max :: "f64 \<Rightarrow> f64 \<Rightarrow> f64" where
  "sql_max a b = (if flt_less a b then b else a)"

abbreviation fnonneg :: "flt \<Rightarrow> bool" where
  "fnonneg x \<equiv> flt_le fzero x"

section \<open>Facts about rounding\<close>

lemma nbits_bounds: "0 < n \<Longrightarrow> 0 < nbits n \<and> 2 ^ (nbits n - 1) \<le> n \<and> n < 2 ^ nbits n"
proof (induction n rule: nbits.induct)
  case (1 n)
  show ?case
  proof (cases "n = 1")
    case True
    then show ?thesis by (simp add: nbits.simps)
  next
    case False
    with 1(2) have pos: "0 < n div 2" and n0: "n \<noteq> 0" by auto
    from "1.IH" [OF n0 pos]
    have IH: "0 < nbits (n div 2)" "2 ^ (nbits (n div 2) - 1) \<le> n div 2"
      "n div 2 < 2 ^ nbits (n div 2)" by auto
    have eq: "nbits n = Suc (nbits (n div 2))"
      using n0 by (simp add: nbits.simps [of n])
    from IH(1) obtain k where k: "nbits (n div 2) = Suc k"
      by (cases "nbits (n div 2)") auto
    from IH(2,3) have "2 ^ k \<le> n div 2" "n div 2 < 2 * 2 ^ k" by (simp_all add: k)
    then have "2 * 2 ^ k \<le> n" "n < 2 * (2 * 2 ^ k)" by linarith+
    then show ?thesis by (simp add: eq k)
  qed
qed

lemma powi_two_pos [simp]: "(0::rat) < 2 powi k"
  by (simp add: zero_less_power_int)

lemma powi_two_step: "(2::rat) powi (k + 1) = 2 * 2 powi k"
  by (simp add: power_int_add)

lemma powi_two_mono: "j \<le> k \<Longrightarrow> (2::rat) powi j \<le> 2 powi k"
  by (rule power_int_increasing) simp_all

lemma powi_two_nat: "(2::rat) powi int n = 2 ^ n"
  by simp

lemma nbits_powi:
  assumes "0 < n"
  shows "2 powi (int (nbits n) - 1) \<le> (of_nat n :: rat)" "(of_nat n :: rat) < 2 powi int (nbits n)"
proof -
  from nbits_bounds [OF assms] have b: "0 < nbits n" "2 ^ (nbits n - 1) \<le> n" "n < 2 ^ nbits n"
    by auto
  have "(of_nat (2 ^ (nbits n - 1)) :: rat) \<le> of_nat n" using b(2) by (rule of_nat_mono)
  then show "2 powi (int (nbits n) - 1) \<le> (of_nat n :: rat)"
    using b(1) by (simp only: of_nat_power of_nat_numeral flip: powi_two_nat) (simp add: of_nat_diff)
  have "(of_nat n :: rat) < of_nat (2 ^ nbits n)" using b(3) by (simp only: of_nat_less_iff)
  then show "(of_nat n :: rat) < 2 powi int (nbits n)"
    by (simp only: of_nat_power of_nat_numeral powi_two_nat)
qed

lemma powi_two_add: "(2::rat) powi j * 2 powi k = 2 powi (j + k)"
  by (simp add: power_int_add)

lemma ilog2_bounds:
  assumes "0 < q"
  shows "2 powi ilog2 q \<le> q" "q < 2 powi (ilog2 q + 1)"
proof -
  obtain a b where ab: "quotient_of q = (a, b)" by (cases "quotient_of q")
  then have b: "0 < b" and q: "q = of_int a / of_int b"
    using quotient_of_denom_pos quotient_of_div by blast+
  with assms have a: "0 < a" by (simp add: zero_less_divide_iff)
  let ?A = "nbits (nat a)" and ?B = "nbits (nat b)"
  have A: "2 powi (int ?A - 1) \<le> (of_int a :: rat)" "(of_int a :: rat) < 2 powi int ?A"
    using nbits_powi [of "nat a"] a by (simp_all add: of_nat_nat)
  have B: "2 powi (int ?B - 1) \<le> (of_int b :: rat)" "(of_int b :: rat) < 2 powi int ?B"
    using nbits_powi [of "nat b"] b by (simp_all add: of_nat_nat)
  let ?k = "int ?A - int ?B"
  have split: "(2::rat) powi (?k + 1) * 2 powi (int ?B - 1) = 2 powi int ?A"
    "(2::rat) powi (?k - 1) * 2 powi int ?B = 2 powi (int ?A - 1)"
    by (simp_all only: powi_two_add) (simp_all add: algebra_simps)
  have hi: "q < 2 powi (?k + 1)"
  proof -
    have "of_int a < (2::rat) powi (?k + 1) * 2 powi (int ?B - 1)" using A(2) split by simp
    also have "\<dots> \<le> 2 powi (?k + 1) * of_int b" using B(1) by (simp add: mult_left_mono)
    finally show ?thesis using b by (simp add: q pos_divide_less_eq)
  qed
  have lo: "2 powi (?k - 1) \<le> q"
  proof -
    have "2 powi (?k - 1) * of_int b \<le> (2::rat) powi (?k - 1) * 2 powi int ?B"
      using B(2) by (simp add: mult_left_mono)
    also have "\<dots> \<le> of_int a" using A(1) split by simp
    finally show ?thesis using b by (simp add: q pos_le_divide_eq)
  qed
  have eq: "ilog2 q = (if 2 powi ?k \<le> q then ?k else ?k - 1)"
    by (simp add: ilog2_def ab Let_def)
  show "2 powi ilog2 q \<le> q" "q < 2 powi (ilog2 q + 1)"
    using hi lo by (auto simp: eq)
qed

lemma flt_le_Fin [simp]: "flt_le (Fin a) (Fin b) \<longleftrightarrow> a \<le> b"
  by (auto simp: flt_le_def)

lemma flt_le_simps [simp]:
  "\<not> flt_le NaN x" "\<not> flt_le x NaN" "flt_le PInf PInf" "flt_le NInf NInf" "flt_le (Fin a) PInf"
  "\<not> flt_le PInf (Fin a)" "flt_le NInf (Fin a)" "\<not> flt_le (Fin a) NInf" "flt_le NInf PInf"
  "\<not> flt_le PInf NInf"
  by (cases x; auto simp: flt_le_def)+

lemma fnonneg_simps [simp]:
  "fnonneg (Fin a) \<longleftrightarrow> 0 \<le> a" "fnonneg PInf" "\<not> fnonneg NInf" "\<not> fnonneg NaN"
  by (auto simp: fzero_def)

lemma rne_ge:
  assumes "of_int n \<le> x"
  shows "n \<le> rne x"
proof -
  from assms have "n \<le> \<lfloor>x\<rfloor>" by (simp add: le_floor_iff)
  then show ?thesis by (auto simp: rne_def Let_def)
qed

lemma rne_le:
  assumes "x \<le> of_int n"
  shows "rne x \<le> n"
proof (cases "\<lfloor>x\<rfloor> = n")
  case True
  then have "of_int n \<le> x" by (metis of_int_floor_le)
  with assms have "x = of_int n" by simp
  then show ?thesis by (simp add: rne_def)
next
  case False
  from assms have "\<lfloor>x\<rfloor> \<le> n" by (simp add: floor_le_iff)
  with False have "\<lfloor>x\<rfloor> + 1 \<le> n" by simp
  then show ?thesis by (auto simp: rne_def Let_def)
qed

lemma rne_of_int [simp]: "rne (of_int n) = n"
  by (simp add: rne_def)

text \<open>The values a format holds exactly.\<close>

definition representable :: "int \<Rightarrow> int \<Rightarrow> int \<Rightarrow> rat \<Rightarrow> bool" where
  "representable p emin emax v \<longleftrightarrow>
     (\<exists>m e. v = of_int m * 2 powi e \<and> of_int \<bar>m\<bar> < (2::rat) powi p \<and> emin \<le> e) \<and> \<bar>v\<bar> < 2 powi emax"

definition f64_ok :: "f64 \<Rightarrow> bool" where
  "f64_ok x \<longleftrightarrow> (case x of Fin v \<Rightarrow> representable 53 (- 1074) 1024 v | _ \<Rightarrow> x \<noteq> NaN)"

lemma round_fmt_not_NaN: "round_fmt p emin emax q \<noteq> NaN"
  by (simp add: round_fmt_def Let_def)

lemma round_fmt_nonneg:
  assumes "0 \<le> q"
  shows "fnonneg (round_fmt p emin emax q)"
proof -
  let ?e = "ulp_exp p emin q"
  from assms have "0 \<le> q / 2 powi ?e" by (simp add: order_less_imp_le)
  then have "0 \<le> rne (q / 2 powi ?e)" using rne_ge [of 0] by simp
  then have v: "0 \<le> (of_int (rne (q / 2 powi ?e)) :: rat) * 2 powi ?e"
    by (simp add: order_less_imp_le)
  have "\<not> (of_int (rne (q / 2 powi ?e)) :: rat) * 2 powi ?e \<le> - (2 powi emax)"
    using v powi_two_pos [of emax] by linarith
  with v show ?thesis
    by (simp add: round_fmt_def Let_def)
qed

lemma ilog2_less:
  assumes "0 < q" "q < 2 powi k"
  shows "ilog2 q < k"
proof (rule ccontr)
  assume "\<not> ilog2 q < k"
  then have "(2::rat) powi k \<le> 2 powi ilog2 q" by (intro powi_two_mono) simp
  with assms ilog2_bounds(1) [OF assms(1)] show False by simp
qed

lemma ilog2_ge:
  assumes "2 powi k \<le> q"
  shows "k \<le> ilog2 q"
proof (rule ccontr)
  assume "\<not> k \<le> ilog2 q"
  then have "(2::rat) powi (ilog2 q + 1) \<le> 2 powi k" by (intro powi_two_mono) simp
  moreover have "0 < q" using assms powi_two_pos [of k] by linarith
  ultimately show False using assms ilog2_bounds(2) by fastforce
qed

text \<open>A value that is a multiple of the unit in the last place is kept.\<close>

lemma round_fmt_multiple:
  assumes "q = of_int m * 2 powi ulp_exp p emin q" "\<bar>q\<bar> < 2 powi emax"
  shows "round_fmt p emin emax q = Fin q"
proof (cases "q = 0")
  case True
  then show ?thesis by (simp add: round_fmt_def)
next
  case False
  let ?e = "ulp_exp p emin q"
  have "q / 2 powi ?e = of_int m"
    by (subst assms(1)) (simp add: less_imp_neq [OF powi_two_pos, THEN not_sym])
  then have "of_int (rne (q / 2 powi ?e)) * 2 powi ?e = q"
    using assms(1) by simp
  with assms(2) False show ?thesis
    by (auto simp: round_fmt_def Let_def)
qed

lemma powi_two_multiple:
  assumes "e \<le> k"
  shows "\<exists>m. (2::rat) powi k = of_int m * 2 powi e"
proof
  have "(2::rat) powi k = 2 powi int (nat (k - e)) * 2 powi e"
    using assms by (simp only: powi_two_add) simp
  also have "\<dots> = of_int (2 ^ nat (k - e)) * 2 powi e"
    by (simp only: powi_two_nat of_int_power of_int_numeral)
  finally show "(2::rat) powi k = of_int (2 ^ nat (k - e)) * 2 powi e" .
qed

lemma round_fmt_representable:
  assumes "representable p emin emax v"
  shows "round_fmt p emin emax v = Fin v"
proof (cases "v = 0")
  case True
  then show ?thesis by (simp add: round_fmt_def)
next
  case False
  from assms obtain m e where v: "v = of_int m * 2 powi e" "of_int \<bar>m\<bar> < (2::rat) powi p" "emin \<le> e"
    and big: "\<bar>v\<bar> < 2 powi emax"
    by (auto simp: representable_def)
  have "\<bar>v\<bar> = of_int \<bar>m\<bar> * 2 powi e" by (simp add: v(1) abs_mult order_less_imp_le)
  also have "\<dots> < 2 powi p * 2 powi e" using v(2) by simp
  finally have "\<bar>v\<bar> < 2 powi (p + e)" by (simp only: powi_two_add)
  with False have "ilog2 \<bar>v\<bar> < p + e" by (intro ilog2_less) auto
  with v(3) have ue: "ulp_exp p emin v \<le> e" by (simp add: ulp_exp_def)
  then obtain n where "(2::rat) powi e = of_int n * 2 powi ulp_exp p emin v"
    using powi_two_multiple by blast
  then have "v = of_int (m * n) * 2 powi ulp_exp p emin v" by (simp add: v(1))
  then show ?thesis using big by (rule round_fmt_multiple)
qed

lemma representable_int:
  assumes "of_int \<bar>n\<bar> < (2::rat) powi p" "emin \<le> 0" "p \<le> emax"
  shows "representable p emin emax (of_int n)"
  unfolding representable_def
proof (intro conjI exI)
  show "of_int n = of_int n * (2::rat) powi 0" by simp
  have "(2::rat) powi p \<le> 2 powi emax" using assms(3) by (rule powi_two_mono)
  then show "\<bar>of_int n\<bar> < (2::rat) powi emax" using assms(1) by simp
qed (use assms in simp_all)

lemma round64_int: "\<bar>n\<bar> < 9007199254740992 \<Longrightarrow> round64 (of_int n) = Fin (of_int n)"
  unfolding round64_def
proof (rule round_fmt_representable, rule representable_int)
  assume "\<bar>n\<bar> < 9007199254740992"
  then have "(of_int \<bar>n\<bar> :: rat) < of_int 9007199254740992" by (simp only: of_int_less_iff)
  then show "(of_int \<bar>n\<bar> :: rat) < 2 powi 53" by simp
qed simp_all

lemma f64_of_int_exact: "\<bar>n\<bar> < 9007199254740992 \<Longrightarrow> f64_of_int n = Fin (of_int n)"
  by (simp add: f64_of_int_def round64_int)

text \<open>Rounding up or down never passes a representable value.\<close>

lemma round_fmt_lower:
  assumes v: "representable p emin emax v" "0 \<le> v" "v \<le> q"
    and w: "round_fmt p emin emax q = Fin w" and p: "1 \<le> p"
  shows "v \<le> w"
proof (cases "q = 0")
  case True
  with v w show ?thesis by (simp add: round_fmt_def)
next
  case False
  with v have q: "0 < q" by simp
  let ?e = "ulp_exp p emin q"
  have w': "w = of_int (rne (q / 2 powi ?e)) * 2 powi ?e"
    using w False by (auto simp: round_fmt_def Let_def split: if_splits)
  from v(1) obtain m j where m: "v = of_int m * 2 powi j" "of_int \<bar>m\<bar> < (2::rat) powi p" "emin \<le> j"
    by (auto simp: representable_def)
  show ?thesis
  proof (cases "?e \<le> j")
    case True
    then obtain n where "(2::rat) powi j = of_int n * 2 powi ?e"
      using powi_two_multiple by blast
    then have vm: "v = of_int (m * n) * 2 powi ?e" by (simp add: m(1))
    with v(3) have "of_int (m * n) \<le> q / 2 powi ?e" by (simp add: pos_le_divide_eq)
    then have "m * n \<le> rne (q / 2 powi ?e)" by (rule rne_ge)
    then have "(of_int (m * n) :: rat) \<le> of_int (rne (q / 2 powi ?e))" by (simp only: of_int_le_iff)
    then show ?thesis unfolding w' vm by (rule mult_right_mono) (simp add: order_less_imp_le)
  next
    case j: False
    with m(3) q have e: "ilog2 q = ?e + (p - 1)" by (simp add: ulp_exp_def)
    have "of_int m \<le> (of_int \<bar>m\<bar> :: rat)" by simp
    with m(2) have "of_int m < (2::rat) powi p" by linarith
    then have "v < 2 powi p * 2 powi j" unfolding m(1) by simp
    also have "\<dots> \<le> 2 powi (?e + (p - 1))" unfolding powi_two_add using j by (intro powi_two_mono) simp
    finally have vlt: "v < 2 powi (p - 1) * 2 powi ?e" by (simp only: powi_two_add ac_simps)
    from q e ilog2_bounds(1) [of q] have "2 powi (p - 1) * 2 powi ?e \<le> q"
      by (simp only: powi_two_add ac_simps)
    then have "(2::rat) powi (p - 1) \<le> q / 2 powi ?e" by (simp add: pos_le_divide_eq)
    then have "of_int (2 ^ nat (p - 1)) \<le> q / 2 powi ?e"
      using p by (simp add: power_int_def)
    then have "2 ^ nat (p - 1) \<le> rne (q / 2 powi ?e)" by (rule rne_ge)
    then have "(of_int (2 ^ nat (p - 1)) :: rat) \<le> of_int (rne (q / 2 powi ?e))"
      by (simp only: of_int_le_iff)
    then have "(2::rat) powi (p - 1) \<le> of_int (rne (q / 2 powi ?e))"
      using p by (simp add: power_int_def)
    then have "2 powi (p - 1) * 2 powi ?e \<le> w" unfolding w' by (rule mult_right_mono) (simp add: order_less_imp_le)
    with vlt show ?thesis by simp
  qed
qed

lemma round_fmt_upper:
  assumes v: "representable p emin emax v" "0 \<le> q" "q \<le> v" and p: "1 \<le> p"
  shows "\<exists>w. round_fmt p emin emax q = Fin w \<and> 0 \<le> w \<and> w \<le> v"
proof (cases "q = 0")
  case True
  with v show ?thesis by (simp add: round_fmt_def)
next
  case False
  with v have q: "0 < q" by simp
  let ?e = "ulp_exp p emin q"
  from v(1) obtain m j where m: "v = of_int m * 2 powi j" "of_int \<bar>m\<bar> < (2::rat) powi p" "emin \<le> j"
    and big: "\<bar>v\<bar> < 2 powi emax"
    by (auto simp: representable_def)
  have e: "?e \<le> j"
  proof (rule ccontr)
    assume j: "\<not> ?e \<le> j"
    with m(3) q have e: "ilog2 q = ?e + (p - 1)" by (simp add: ulp_exp_def)
    have "of_int m \<le> (of_int \<bar>m\<bar> :: rat)" by simp
    with m(2) have "of_int m < (2::rat) powi p" by linarith
    then have "v < 2 powi p * 2 powi j" unfolding m(1) by simp
    also have "\<dots> \<le> 2 powi (?e + (p - 1))" unfolding powi_two_add using j by (intro powi_two_mono) simp
    also have "\<dots> \<le> q" using ilog2_bounds(1) [OF q] e by simp
    finally show False using v(3) by simp
  qed
  then obtain n where "(2::rat) powi j = of_int n * 2 powi ?e"
    using powi_two_multiple by blast
  then have vm: "v = of_int (m * n) * 2 powi ?e" by (simp add: m(1))
  with v(3) have "q / 2 powi ?e \<le> of_int (m * n)" by (simp add: pos_divide_le_eq)
  then have "rne (q / 2 powi ?e) \<le> m * n" by (rule rne_le)
  then have "(of_int (rne (q / 2 powi ?e)) :: rat) \<le> of_int (m * n)" by (simp only: of_int_le_iff)
  then have up: "of_int (rne (q / 2 powi ?e)) * 2 powi ?e \<le> v"
    unfolding vm by (rule mult_right_mono) (simp add: order_less_imp_le)
  have "0 \<le> q / 2 powi ?e" using q by (simp add: order_less_imp_le)
  then have "0 \<le> rne (q / 2 powi ?e)" using rne_ge [of 0] by simp
  then have lo: "0 \<le> (of_int (rne (q / 2 powi ?e)) :: rat) * 2 powi ?e" by (simp add: order_less_imp_le)
  have "\<not> (of_int (rne (q / 2 powi ?e)) :: rat) * 2 powi ?e \<le> - (2 powi emax)"
    using lo powi_two_pos [of emax] by linarith
  with up lo big False show ?thesis by (auto simp: round_fmt_def Let_def)
qed

lemma round64_upto_int:
  assumes "0 \<le> q" "q \<le> of_int n" "\<bar>n\<bar> < 9007199254740992"
  shows "\<exists>w. round64 q = Fin w \<and> 0 \<le> w \<and> w \<le> of_int n"
proof -
  have "(of_int \<bar>n\<bar> :: rat) < of_int 9007199254740992" using assms(3) by (simp only: of_int_less_iff)
  then have "representable 53 (- 1074) 1024 (of_int n)" by (intro representable_int) simp_all
  with assms(1,2) show ?thesis unfolding round64_def by (intro round_fmt_upper) simp_all
qed

lemma round_fmt_result:
  assumes w: "round_fmt p emin emax q = Fin w" and p: "1 \<le> p" and emax: "0 \<le> emax"
  shows "representable p emin emax w"
proof (cases "q = 0")
  case True
  with w have "w = 0" by (simp add: round_fmt_def)
  then show ?thesis unfolding representable_def
    by (intro conjI exI [of _ 0] exI [of _ emin]) simp_all
next
  case False
  let ?e = "ulp_exp p emin q" and ?r = "rne (q / 2 powi ulp_exp p emin q)"
  have w': "w = of_int ?r * 2 powi ?e" and big: "\<bar>w\<bar> < 2 powi emax"
    using w False by (auto simp: round_fmt_def Let_def split: if_splits)
  have "\<bar>q\<bar> < 2 powi (ilog2 \<bar>q\<bar> + 1)" using False by (intro ilog2_bounds) simp
  also have "\<dots> \<le> 2 powi (p + ?e)" by (intro powi_two_mono) (simp add: ulp_exp_def)
  finally have q: "\<bar>q\<bar> / 2 powi ?e < 2 powi p"
    by (simp add: pos_divide_less_eq powi_two_add)
  have P: "(2::rat) powi p = of_int (2 ^ nat p)" using p by (simp add: power_int_def)
  have ab: "\<bar>q / 2 powi ?e\<bar> \<le> of_int (2 ^ nat p)"
    using q by (simp add: P abs_divide order_less_imp_le)
  have r: "\<bar>?r\<bar> \<le> 2 ^ nat p"
  proof -
    from ab have "q / 2 powi ?e \<le> of_int (2 ^ nat p)" "of_int (- (2 ^ nat p)) \<le> q / 2 powi ?e"
      by (auto simp only: abs_le_iff of_int_minus)
    then have "?r \<le> 2 ^ nat p" "- (2 ^ nat p) \<le> ?r" by (auto intro: rne_le rne_ge)
    then show ?thesis by simp
  qed
  have emin: "emin \<le> ?e" by (simp add: ulp_exp_def)
  show ?thesis
  proof (cases "\<bar>?r\<bar> = 2 ^ nat p")
    case False
    with r have "of_int \<bar>?r\<bar> < (2::rat) powi p" unfolding P of_int_less_iff by simp
    with w' big emin show ?thesis unfolding representable_def by blast
  next
    case True
    define m where "m = sgn ?r * 2 ^ nat (p - 1)"
    have "nat p = Suc (nat (p - 1))" using p by simp
    then have "\<bar>?r\<bar> = 2 * 2 ^ nat (p - 1)" using True by simp
    then have "?r = 2 * m" unfolding m_def using mult_sgn_abs [of ?r] by (metis mult.left_commute)
    then have eq: "w = of_int m * 2 powi (?e + 1)" by (simp add: w' powi_two_step)
    have "\<bar>m\<bar> \<le> 2 ^ nat (p - 1)" by (simp add: m_def abs_mult abs_sgn_eq)
    also have "(2::int) ^ nat (p - 1) < 2 ^ nat p" using p by simp
    finally have "of_int \<bar>m\<bar> < (2::rat) powi p" unfolding P of_int_less_iff .
    with eq big emin show ?thesis unfolding representable_def by fastforce
  qed
qed

lemma f64_ok_round64: "f64_ok (round64 q)"
  using round_fmt_not_NaN [of 53 "- 1074" 1024 q] round_fmt_result [of 53 "- 1074" 1024 q]
  by (cases "round_fmt 53 (- 1074) 1024 q") (simp_all add: f64_ok_def round64_def)

lemma f64_ok_inf [simp]: "f64_ok PInf" "f64_ok NInf" "\<not> f64_ok NaN"
  by (simp_all add: f64_ok_def)

lemma round64_nonneg: "0 \<le> q \<Longrightarrow> fnonneg (round64 q)"
  by (simp add: round64_def round_fmt_nonneg)

lemma fadd_nonneg: "fnonneg a \<Longrightarrow> fnonneg b \<Longrightarrow> fnonneg (fadd a b)"
  by (cases a; cases b) (simp_all add: fadd_def round64_nonneg)

lemma fadd_ok: "f64_ok a \<Longrightarrow> fnonneg a \<Longrightarrow> fnonneg b \<Longrightarrow> f64_ok (fadd a b)"
  by (cases a; cases b) (simp_all add: fadd_def f64_ok_round64 f64_ok_inf)

lemma fadd_result_ok: "fnonneg (fadd a b) \<Longrightarrow> f64_ok (fadd a b)"
  by (cases a; cases b) (simp_all add: fadd_def f64_ok_round64)

text \<open>Adding a non-negative amount to a stored double never lowers it.\<close>

lemma fadd_ge:
  assumes "f64_ok a" "fnonneg a" "fnonneg b"
  shows "flt_le a (fadd a b)"
proof (cases "\<exists>x y. a = Fin x \<and> b = Fin y")
  case True
  then obtain x y where ab: "a = Fin x" "b = Fin y" by blast
  with assms have x: "representable 53 (- 1074) 1024 x" "0 \<le> x" "x \<le> x + y"
    by (simp_all add: f64_ok_def)
  show ?thesis
  proof (cases "round64 (x + y)")
    case (Fin w)
    with x have "x \<le> w" unfolding round64_def by (rule round_fmt_lower) simp
    then show ?thesis by (simp add: ab fadd_def Fin)
  next
    case NInf
    with round64_nonneg [of "x + y"] x show ?thesis by simp
  next
    case NaN
    then show ?thesis by (simp add: round64_def round_fmt_not_NaN)
  qed (simp add: ab fadd_def)
next
  case False
  with assms show ?thesis by (cases a; cases b) (simp_all add: fadd_def)
qed

text \<open>A deduction that the balance covers leaves a finite-or-infinite non-negative balance.\<close>

lemma fsub_nonneg: "flt_le b a \<Longrightarrow> is_finite b \<Longrightarrow> fnonneg a \<Longrightarrow> fnonneg (fsub a b)"
  by (cases a; cases b) (simp_all add: fsub_def fadd_def round64_nonneg)

lemma fsub_ok: "f64_ok a \<Longrightarrow> fnonneg a \<Longrightarrow> is_finite b \<Longrightarrow> f64_ok (fsub a b)"
  by (cases a; cases b) (simp_all add: fsub_def fadd_def f64_ok_round64 f64_ok_inf)

lemma fadd_int_exact:
  "\<bar>a + b\<bar> < 9007199254740992 \<Longrightarrow> fadd (Fin (of_int a)) (Fin (of_int b)) = Fin (of_int (a + b))"
  using round64_int [of "a + b"] by (simp add: fadd_def)

lemma fsub_int_exact:
  "\<bar>a - b\<bar> < 9007199254740992 \<Longrightarrow> fsub (Fin (of_int a)) (Fin (of_int b)) = Fin (of_int (a - b))"
  using round64_int [of "a - b"] by (simp add: fsub_def fadd_def)

lemma sql_max_ge: "a \<noteq> NaN \<Longrightarrow> flt_le a (sql_max a b)"
  by (cases a; cases b) (auto simp: sql_max_def)

lemma sql_max_nonneg: "fnonneg a \<Longrightarrow> fnonneg (sql_max a b)"
  by (cases a; cases b) (auto simp: sql_max_def)

lemma flt_le_refl: "a \<noteq> NaN \<Longrightarrow> flt_le a a"
  by (cases a) auto

lemma flt_le_trans: "flt_le a b \<Longrightarrow> flt_le b c \<Longrightarrow> flt_le a c"
  by (cases a; cases b; cases c) auto

lemma trunc_rat_int [simp]: "trunc_rat (of_int n) = n"
  by (simp add: trunc_rat_def)

lemma trunc_rat_bounds: "0 \<le> q \<Longrightarrow> 0 \<le> trunc_rat q \<and> of_int (trunc_rat q) \<le> q"
  by (simp add: trunc_rat_def)

lemma as_i64_range: "in_i64 (as_i64 x)"
  by (cases x) (auto simp: as_i64_def in_i64_def clamp_int_def)

lemma as_i32_range: "in_i32 (as_i32 x)"
  by (cases x) (auto simp: as_i32_def in_i32_def clamp_int_def)

text \<open>Computing a rounded value: its binade, and the integer significand it is nearest to.\<close>

lemma ilog2_eqI:
  assumes a: "2 powi k \<le> q" "q < 2 powi (k + 1)"
  shows "ilog2 q = k"
proof -
  have "0 < q" using a powi_two_pos [of k] by linarith
  with ilog2_less [OF this a(2)] ilog2_ge [OF a(1)] show ?thesis by simp
qed

lemma rne_eqI:
  assumes a: "\<bar>x - of_int n\<bar> < 1 / 2"
  shows "rne x = n"
proof (cases "of_int n \<le> x")
  case True
  with a have "\<lfloor>x\<rfloor> = n" by (intro floor_unique) linarith+
  with a True show ?thesis by (simp add: rne_def Let_def)
next
  case False
  with a have "of_int (n - 1) \<le> x" "x < of_int (n - 1) + 1" by (simp_all add: abs_if split: if_splits)
  then have "\<lfloor>x\<rfloor> = n - 1" by (rule floor_unique)
  with a False show ?thesis by (simp add: rne_def Let_def)
qed

lemma round64_eqI:
  assumes "2 powi k \<le> q" "q < 2 powi (k + 1)" "- 1022 \<le> k" "\<bar>q * 2 powi (52 - k) - of_int n\<bar> < 1 / 2"
    and "of_int n * 2 powi (k - 52) < (2::rat) powi 1024" "0 \<le> n"
  shows "round64 q = Fin (of_int n * 2 powi (k - 52))"
proof -
  have "0 < q" using assms(1) powi_two_pos [of k] by linarith
  with assms(3) ilog2_eqI [OF assms(1,2)] have e: "ulp_exp 53 (- 1074) q = k - 52" by (simp add: ulp_exp_def)
  have "q / 2 powi (k - 52) = q * 2 powi (52 - k)"
    using powi_two_add [of "k - 52" "52 - k"] by (simp add: field_simps)
  with assms(4) have r: "rne (q / 2 powi (k - 52)) = n" by (intro rne_eqI) simp
  have "0 \<le> of_int n * (2::rat) powi (k - 52)" using assms(6) by (simp add: order_less_imp_le)
  then have "\<not> of_int n * (2::rat) powi (k - 52) \<le> - (2 powi 1024)" using powi_two_pos [of 1024] by linarith
  with assms(5) \<open>0 < q\<close> e r show ?thesis by (auto simp: round64_def round_fmt_def Let_def)
qed

end
