(* ===== verification/Domain.thy ===== *)
theory Domain
  imports Floats
begin

text \<open>
  The crate \<open>domain\<close> (\<open>crates/domain/src/lib.rs\<close>, \<open>consume_reward.rs\<close>): the enums as datatypes,
  every struct as a record with the source's field names behind a short prefix, the device clock
  and its calendar day, and the shared \<open>Consume\<close> reward contract. A \<open>[T; 3]\<close> is a triple, a
  \<open>BTreeMap\<close> a key-ordered table, a \<open>Vec\<close> a list.
\<close>

type_synonym usn = int

section \<open>Errors and enums\<close>

datatype domain_error =
    InvalidUtcOffset int
  | InvalidAmount
  | IdentityMismatch
  | StaleRequest
  | AlreadyClaimed
  | AlreadyOwned
  | InsufficientBalance
  | Locked
  | InvalidStage
  | InsufficientEnergy

datatype currency_kind =
  Ch1Like | Ch2Like | Ch2Note | Candy | Chocolate | Fans | Gingerbread | ChocoMilk

definition all_currencies :: "currency_kind list" where
  "all_currencies = [Ch1Like, Ch2Like, Ch2Note, Candy, Chocolate, Fans, Gingerbread, ChocoMilk]"

fun currency_key :: "currency_kind \<Rightarrow> string" where
  "currency_key Ch1Like = ''ch1_like''"
| "currency_key Ch2Like = ''ch2_like''"
| "currency_key Ch2Note = ''ch2_note''"
| "currency_key Candy = ''candy''"
| "currency_key Chocolate = ''chocolate''"
| "currency_key Fans = ''fans''"
| "currency_key Gingerbread = ''gingerbread''"
| "currency_key ChocoMilk = ''choco_milk''"

datatype content_kind =
  Character | Costume | Guitar | Music | Skill | Unit | Follower | Prop | Buff | Gift

text \<open>Both enums derive \<open>Ord\<close>: the order of declaration.\<close>

fun currency_index :: "currency_kind \<Rightarrow> nat" where
  "currency_index Ch1Like = 0"
| "currency_index Ch2Like = 1"
| "currency_index Ch2Note = 2"
| "currency_index Candy = 3"
| "currency_index Chocolate = 4"
| "currency_index Fans = 5"
| "currency_index Gingerbread = 6"
| "currency_index ChocoMilk = 7"

fun content_index :: "content_kind \<Rightarrow> nat" where
  "content_index Character = 0"
| "content_index Costume = 1"
| "content_index Guitar = 2"
| "content_index Music = 3"
| "content_index Skill = 4"
| "content_index Unit = 5"
| "content_index Follower = 6"
| "content_index Prop = 7"
| "content_index Buff = 8"
| "content_index Gift = 9"

lemma currency_index_inject: "currency_index a = currency_index b \<longleftrightarrow> a = b"
  by (cases a; cases b) simp_all

lemma content_index_inject: "content_index a = content_index b \<longleftrightarrow> a = b"
  by (cases a; cases b) simp_all

instantiation currency_kind :: linorder
begin

definition less_eq_currency_kind :: "currency_kind \<Rightarrow> currency_kind \<Rightarrow> bool" where
  "less_eq_currency_kind a b \<longleftrightarrow> currency_index a \<le> currency_index b"

definition less_currency_kind :: "currency_kind \<Rightarrow> currency_kind \<Rightarrow> bool" where
  "less_currency_kind a b \<longleftrightarrow> currency_index a < currency_index b"

instance
  by standard (auto simp: less_eq_currency_kind_def less_currency_kind_def currency_index_inject)

end

instantiation content_kind :: linorder
begin

definition less_eq_content_kind :: "content_kind \<Rightarrow> content_kind \<Rightarrow> bool" where
  "less_eq_content_kind a b \<longleftrightarrow> content_index a \<le> content_index b"

definition less_content_kind :: "content_kind \<Rightarrow> content_kind \<Rightarrow> bool" where
  "less_content_kind a b \<longleftrightarrow> content_index a < content_index b"

instance
  by standard (auto simp: less_eq_content_kind_def less_content_kind_def content_index_inject)

end

lemma all_currencies_complete: "k \<in> set all_currencies"
  by (cases k) (simp_all add: all_currencies_def)

lemma currency_key_inject: "currency_key a = currency_key b \<longleftrightarrow> a = b"
  by (cases a; cases b) simp_all

section \<open>The device clock\<close>

record device_clock =
  unix_seconds :: int
  utc_offset_minutes :: int

definition device_clock_new :: "int \<Rightarrow> int \<Rightarrow> domain_error + device_clock" where
  "device_clock_new secs offset =
     (if \<not> (- 14 * 60 \<le> offset \<and> offset \<le> 14 * 60) then Inl (InvalidUtcOffset offset)
      else Inr \<lparr>unix_seconds = secs, utc_offset_minutes = offset\<rparr>)"

text \<open>\<open>div_euclid\<close> by a positive divisor is HOL's flooring \<open>div\<close>; the sum is a plain \<open>i64\<close> sum.\<close>

definition local_epoch_day :: "device_clock \<Rightarrow> int" where
  "local_epoch_day c = wrap_i64 (unix_seconds c + utc_offset_minutes c * 60) div 86400"

section \<open>Structs\<close>

datatype reward =
    RCurrency currency_kind f64
  | RContent content_kind int int

record user_identity =
  id_usn :: "usn"
  id_user_id :: "string"

record login_session =
  ls_identity :: "user_identity"
  ls_nonce :: "int"
  ls_capability :: "string"
  ls_clock :: "device_clock"

record reward_grant =
  rg_reward_type :: "int"
  rg_reward_id :: "int"
  rg_amount :: "f64"

record mail_snapshot =
  ml_post_id :: "int"
  ml_subject :: "string"
  ml_body :: "string"
  ml_created_at :: "int"
  ml_read :: "bool"
  ml_claimed :: "bool"
  ml_reward :: "reward_grant"

record mailbox_snapshot =
  mb_cursor :: "int"
  mb_mail :: "mail_snapshot list"

record ad_level_snapshot =
  al_ad_level_id :: "int"
  al_level :: "int"
  al_experience :: "int"

record purchase_outcome =
  po_chocolate :: "f64"
  po_candy :: "f64"
  po_rewards :: "reward_grant list"
  po_ad_level :: "ad_level_snapshot option"

record content_purchase_outcome =
  cpo_chocolate :: "f64"
  cpo_candy :: "f64"
  cpo_kind :: "content_kind"
  cpo_content_id :: "int"
  cpo_level :: "int"

record package_purchase_outcome =
  ppo_chocolate :: "f64"
  ppo_candy :: "f64"
  ppo_music_ids :: "int list"

record pass_anchor_snapshot =
  pa_anchor_day :: "int"
  pa_anchor_season :: "int"
  pa_utc_offset_minutes :: "int"

record pass_progress_snapshot =
  pp_season :: "int"
  pp_points :: "int"
  pp_step :: "int"
  pp_version :: "int"

record pass_claim_snapshot =
  pc_season :: "int"
  pc_version :: "int"
  pc_lane :: "int"
  pc_step :: "int"
  pc_claimed_at :: "int"

record pass_snapshot =
  ps_anchor :: "pass_anchor_snapshot"
  ps_progress :: "pass_progress_snapshot list"
  ps_claims :: "pass_claim_snapshot list"
  ps_premium_seasons :: "int list"
  ps_tickets :: "int list"

record pass_fill_outcome =
  pfo_season :: "int"
  pfo_points :: "int"
  pfo_version :: "int"
  pfo_chocolate :: "f64"
  pfo_candy :: "f64"

record pass_claim_outcome =
  pco_season :: "int"
  pco_lane :: "int"
  pco_step :: "int"
  pco_version :: "int"
  pco_claimed_at :: "int"
  pco_rewards :: "reward_grant list"

record ch3_energy_snapshot =
  ce_amount :: "int"
  ce_cap :: "int"
  ce_calculated_at :: "int"

record ch3_stage_snapshot =
  cs_stage_id :: "int"
  cs_chapter :: "int"
  cs_stage_index :: "int"
  cs_completed :: "bool"
  cs_best_star :: "int"
  cs_best_score :: "int"

record ch3_chapter_claim_snapshot =
  ccc_chapter :: "int"
  ccc_reward_num :: "int"

record follower_profile_snapshot =
  fp_profile_id :: "int"
  fp_level :: "int"
  fp_experience :: "int"
  fp_add_candy :: "int"

record ch3_snapshot =
  c3_energy :: "ch3_energy_snapshot"
  c3_stages :: "ch3_stage_snapshot list"
  c3_chapter_claims :: "ch3_chapter_claim_snapshot list"
  c3_profiles :: "follower_profile_snapshot list"

record ch3_settlement =
  cst_stage :: "ch3_stage_snapshot"
  cst_energy :: "ch3_energy_snapshot"
  cst_profile :: "follower_profile_snapshot"
  cst_rewards :: "reward_grant list"

record ch3_stream_settlement =
  css_stage_id :: "int"
  css_energy :: "ch3_energy_snapshot"
  css_profile :: "follower_profile_snapshot"
  css_reward_rolls :: "(int \<times> reward_grant list) list"

record ch3_stage_definition =
  csd_stage_id :: "int"
  csd_chapter :: "int"
  csd_stage_index :: "int"
  csd_story :: "bool"

record music_review_snapshot =
  mr_music_id :: "int"
  mr_difficulty :: "int"
  mr_point :: "f64"

record bookmark_snapshot =
  bm_music_id :: "int"
  bm_flag :: "int"

record music_score_snapshot =
  ms_music_id :: "int"
  ms_difficulty :: "int"
  ms_score :: "int"
  ms_grade :: "int"
  ms_play_count :: "int"
  ms_combo_grade :: "int"
  ms_gp :: "int"
  ms_multiple :: "f64"
  ms_achievement :: "int"
  ms_play_type :: "int"
  ms_played_at :: "string"
  ms_mission_clear :: "int"
  ms_is_credit :: "int"

record music_state_snapshot =
  mst_music_id :: "int"
  mst_encore_appears :: "bool"
  mst_encore_ready_at :: "int"
  mst_encore_follower_id :: "int option"
  mst_ch3_active_until :: "int"

record music_encore_reward_outcome =
  mero_rewards :: "(int \<times> int) list"
  mero_profiles :: "follower_profile_snapshot list"
  mero_rejected_music_ids :: "int list"

record follower_gift_outcome =
  fgo_gift_id :: "int"
  fgo_remaining :: "int"
  fgo_profile :: "follower_profile_snapshot"

record follower_profile_reward_outcome =
  fpro_profile_id :: "int"
  fpro_level :: "int"
  fpro_rewards :: "reward_grant list"
  fpro_profile :: "follower_profile_snapshot"

record follower_quest_snapshot =
  fq_current_id :: "int"
  fq_complete_id :: "int"
  fq_completed :: "bool"
  fq_infinite :: "bool"
  fq_condition_values :: "f64 \<times> f64 \<times> f64"
  fq_claimed :: "bool \<times> bool \<times> bool"

record follower_quest_outcome =
  fqo_quest :: "follower_quest_snapshot"
  fqo_complete_id :: "int"
  fqo_next :: "bool"
  fqo_rewards :: "reward_grant list"

record ad_reward_outcome =
  aro_ad_id :: "int"
  aro_day_count :: "int"
  aro_total_count :: "int"
  aro_last_view_time :: "int"
  aro_rewards :: "reward_grant list"
  aro_profile :: "follower_profile_snapshot option"

record select_reward_snapshot =
  sr_group_id :: "int"
  sr_reward_group_id :: "int"
  sr_alternate_reward_group_id :: "int"

record area_snapshot =
  ar_area :: "int"
  ar_area_level :: "int"
  ar_fans :: "f64"
  ar_candy :: "f64"
  ar_current_costume :: "int option"
  ar_current_guitar :: "int option"
  ar_current_music :: "int option"
  ar_gp :: "f64"
  ar_unlocked :: "bool"

record owned_content_snapshot =
  oc_kind :: "content_kind"
  oc_area :: "int"
  oc_content_id :: "int"

record content_level_snapshot =
  cl_kind :: "content_kind"
  cl_content_id :: "int"
  cl_level :: "int"
  cl_reward_level :: "int"

record skill_activation_snapshot =
  sa_skill_id :: "int"
  sa_active :: "bool"
  sa_active_from :: "int"
  sa_active_until :: "int"
  sa_reset_ready_at :: "int"

record buff_timer_snapshot =
  bt_buff_id :: "int"
  bt_active_at :: "int"
  bt_expires_at :: "int"

record follower_gift_snapshot =
  fg_gift_id :: "int"
  fg_quantity :: "int"

record follower_affection_claim_snapshot =
  fac_profile_id :: "int"
  fac_level :: "int"

record ad_state_snapshot =
  as_ad_id :: "int"
  as_day_count :: "int"
  as_total_count :: "int"
  as_last_view_time :: "int"

record messenger_snapshot =
  mg_room_id :: "int"
  mg_last_confirm_index :: "int"
  mg_unlock_group_list :: "string"
  mg_update_time_ticks :: "int"

record progress_snapshot =
  pr_id :: "int"
  pr_level :: "int"
  pr_quantity :: "f64"
  pr_quantity_text :: "string"

record player_snapshot =
  pl_identity :: "user_identity"
  pl_nickname :: "string"
  pl_fan_level :: "int"
  pl_avatar_id :: "int option"
  pl_title_id :: "int option"
  pl_last_save_time :: "int"
  pl_samseck_step :: "int"
  pl_device_uuid :: "string"
  pl_currencies :: "(currency_kind \<times> f64) list"
  pl_areas :: "area_snapshot list"
  pl_owned_content :: "owned_content_snapshot list"
  pl_content_levels :: "content_level_snapshot list"
  pl_tutorials :: "int list"
  pl_pass :: "pass_snapshot"
  pl_skill_activations :: "skill_activation_snapshot list"
  pl_buff_timers :: "buff_timer_snapshot list"
  pl_gifts :: "follower_gift_snapshot list"
  pl_affection_claims :: "follower_affection_claim_snapshot list"
  pl_ad_levels :: "ad_level_snapshot list"
  pl_ad_state :: "ad_state_snapshot list"
  pl_messengers :: "messenger_snapshot list"
  pl_follower_quests :: "follower_quest_snapshot list"
  pl_achievements :: "progress_snapshot list"
  pl_daily_missions :: "progress_snapshot list"
  pl_ch3 :: "ch3_snapshot"
  pl_music_reviews :: "music_review_snapshot list"
  pl_bookmarks :: "bookmark_snapshot list"
  pl_music_scores :: "music_score_snapshot list"
  pl_music_states :: "music_state_snapshot list"
  pl_selected_rewards :: "select_reward_snapshot list"

record ad_level_progression =
  alp_group_id :: "int"
  alp_thresholds :: "(int \<times> int) list"

record ad_profile_grant =
  apg_profile_id :: "int"
  apg_experience :: "int"
  apg_level_thresholds :: "(int \<times> int \<times> int) list"

record game_reward_claim_command =
  grc_kind :: "string"
  grc_id :: "int"
  grc_level :: "int"
  grc_quantity :: "f64"
  grc_threshold :: "f64"
  grc_local_day :: "int"
  grc_reward :: "reward_grant option"

record reward_purchase_command =
  rpc_transaction_id :: "string"
  rpc_purchase_kind :: "string"
  rpc_target_id :: "int"
  rpc_cost :: "(currency_kind \<times> f64) option"
  rpc_rewards :: "reward_grant list"
  rpc_ad_progression :: "ad_level_progression option"

record content_purchase_command =
  cpc_kind :: "content_kind"
  cpc_area :: "int"
  cpc_content_id :: "int"
  cpc_currency :: "currency_kind"
  cpc_price :: "f64"
  cpc_price_increment :: "f64"
  cpc_max_level :: "int"

record core_save_patch =
  csp_ch1_like :: "f64 option"
  csp_fans :: "int option"
  csp_fan_level :: "int option"
  csp_current_costume :: "int option"
  csp_current_music :: "int option"

record area_save_patch =
  asp_area :: "int"
  asp_like_amount :: "f64 option"
  asp_fans :: "int option"
  asp_fan_level :: "int option"
  asp_current_costume :: "int option"
  asp_current_music :: "int option"
  asp_current_guitar :: "int option"
  asp_candy :: "f64 option"
  asp_tutorial_list :: "string option"
  asp_gp1 :: "string option"
  asp_gp2 :: "string option"

record content_save_patch =
  cnp_kind :: "content_kind"
  cnp_area :: "int"
  cnp_content_id :: "int"
  cnp_level :: "int option"
  cnp_reward_level :: "int option"

record music_state_save_patch =
  msp_music_id :: "int"
  msp_encore_appears :: "bool"
  msp_encore_follower_id :: "int option"

record progress_save_patch =
  prp_id :: "int"
  prp_quantity :: "f64"
  prp_quantity_text :: "string option"

record skill_activation_save_patch =
  sap_skill_id :: "int"
  sap_active :: "bool"
  sap_active_from :: "int"
  sap_active_until :: "int"

record messenger_save_patch =
  mgp_room_id :: "int"
  mgp_last_confirm_index :: "int"
  mgp_unlock_group_list :: "string"
  mgp_update_time_ticks :: "int"

record pass_progress_save_patch =
  ppp_event_type :: "string"
  ppp_season :: "int"
  ppp_points :: "int"
  ppp_step :: "int"
  ppp_version :: "int"

record follower_quest_save_patch =
  fqp_current_id :: "int"
  fqp_condition_values :: "f64 \<times> f64 \<times> f64"

record user_save_patch =
  usp_core :: "core_save_patch option"
  usp_areas :: "area_save_patch list"
  usp_content :: "content_save_patch list"
  usp_music_states :: "music_state_save_patch list"
  usp_achievements :: "progress_save_patch list"
  usp_daily_missions :: "progress_save_patch list"
  usp_skill_activations :: "skill_activation_save_patch list"
  usp_messengers :: "messenger_save_patch list"
  usp_pass_progress :: "pass_progress_save_patch list"
  usp_follower_quests :: "follower_quest_save_patch list"

record attendance_result =
  at_status :: "string"
  at_attendance_count :: "int"
  at_attendance_date :: "int"
  at_max_continuous_count :: "int"
text \<open>\<open>PlayerSnapshot::currency\<close>: the first entry of the kind, 0 when there is none.\<close>

definition player_currency :: "player_snapshot \<Rightarrow> currency_kind \<Rightarrow> f64" where
  "player_currency p kind =
     (case find (\<lambda>c. fst c = kind) (pl_currencies p) of None \<Rightarrow> fzero | Some c \<Rightarrow> snd c)"

section \<open>The Consume reward contract\<close>

record reward_rules =
  costume_fan_bonuses :: "(int, int \<times> f32) table"

definition empty_rules :: reward_rules where
  "empty_rules = \<lparr>costume_fan_bonuses = []\<rparr>"

datatype quantity_unit = Count | ProductionMultiplier | FanGainMultiplier

record consume_reward =
  cr_id :: int
  cr_currency :: "currency_kind option"
  cr_area :: int
  cr_unit :: quantity_unit

definition consume_from_id :: "int \<Rightarrow> consume_reward option" where
  "consume_from_id i =
     map_option (\<lambda>(currency, area, unit).
         \<lparr>cr_id = i, cr_currency = currency, cr_area = area, cr_unit = unit\<rparr>)
      (if i = 1 then Some (Some Chocolate, 0, Count)
       else if i = 2 then Some (Some Candy, 0, Count)
       else if i = 3 then Some (Some Ch1Like, 1, Count)
       else if i = 4 then Some (Some Ch1Like, 1, ProductionMultiplier)
       else if i = 5 then Some (Some Ch2Note, 2, Count)
       else if i = 6 then Some (Some Ch2Like, 2, Count)
       else if i = 7 then Some (Some Ch2Like, 2, ProductionMultiplier)
       else if i = 8 then Some (Some Fans, 1, FanGainMultiplier)
       else if i = 9 then Some (Some Fans, 2, FanGainMultiplier)
       else if i = 10 then Some (Some Ch2Note, 2, ProductionMultiplier)
       else if i = 11 then Some (None, 3, Count)
       else None)"

text \<open>
  The fan gain: single-precision additions of the bonuses in order, then one double-precision
  product. A non-finite or negative input and a result outside \<open>0..2^31\<close> are errors.
\<close>

fun fan_basis :: "f32 \<Rightarrow> f32 list \<Rightarrow> domain_error + f32" where
  "fan_basis basis [] = Inr basis"
| "fan_basis basis (b # bs) =
     (if \<not> is_finite b \<or> flt_less b fzero then Inl InvalidAmount
      else fan_basis (fadd32 basis b) bs)"

definition fan_reward_count :: "f32 list \<Rightarrow> f64 \<Rightarrow> domain_error + int" where
  "fan_reward_count bonuses multiplier =
     (if \<not> is_finite multiplier \<or> flt_less multiplier fzero then Inl InvalidAmount
      else case fan_basis (Fin 1) bonuses of
        Inl e \<Rightarrow> Inl e
      | Inr basis \<Rightarrow>
          let result = fmul basis multiplier
          in if \<not> is_finite result
                \<or> \<not> (flt_le fzero result \<and> flt_less result (Fin 2147483648))
             then Inl InvalidAmount
             else Inr (as_i32 (ftrunc result)))"

subsection \<open>Facts\<close>

lemma consume_from_id_SomeD:
  "consume_from_id i = Some c \<Longrightarrow> cr_id c = i \<and> 1 \<le> i \<and> i \<le> 11"
  by (auto simp: consume_from_id_def split: if_splits)

lemma fan_reward_count_range:
  assumes "fan_reward_count bs m = Inr n"
  shows "0 \<le> n \<and> n \<le> i32_max"
proof -
  from assms obtain basis r where r: "fmul basis m = Fin r" "0 \<le> r" "r < 2147483648"
      and n: "n = as_i32 (ftrunc (Fin r))"
    unfolding fan_reward_count_def Let_def
    by (cases "fan_basis (Fin 1) bs"; cases "fmul (projr (fan_basis (Fin 1) bs)) m")
       (auto split: if_splits)
  from r have fl: "0 \<le> \<lfloor>r\<rfloor>" "\<lfloor>r\<rfloor> \<le> i32_max" by (simp_all add: floor_le_iff)
  with r n show ?thesis by (simp add: as_i32_def ftrunc_def trunc_rat_def)
qed

lemma local_epoch_day_eq:
  "in_i64 (unix_seconds c + utc_offset_minutes c * 60) \<Longrightarrow>
   local_epoch_day c = (unix_seconds c + utc_offset_minutes c * 60) div 86400"
  by (simp add: local_epoch_day_def wrap_i64_id)

end
