(* ===== verification/Decimal.thy ===== *)
theory Decimal
  imports Prelude
begin

text \<open>
  The text operations the program takes from Rust's standard library: decimal printing and
  parsing of integers, ASCII case folding, and the digit and white-space classes. A \<open>string\<close> is
  a UTF-8 byte sequence (what the database and the wire store); a \<open>ustr\<close> is the sequence of
  Unicode scalar values of a \<open>str\<close>, for the code that walks over its characters.
\<close>

type_synonym ustr = "nat list"

section \<open>Bytes\<close>

definition is_digit :: "char \<Rightarrow> bool" where
  "is_digit c \<longleftrightarrow> 48 \<le> (of_char c :: nat) \<and> (of_char c :: nat) \<le> 57"

definition digit_char :: "nat \<Rightarrow> char" where
  "digit_char d = char_of (48 + d)"

definition digit_val :: "char \<Rightarrow> nat" where
  "digit_val c = of_char c - 48"

fun show_nat :: "nat \<Rightarrow> string" where
  "show_nat n = (if n < 10 then [digit_char n] else show_nat (n div 10) @ [digit_char (n mod 10)])"

declare show_nat.simps [simp del]

definition show_int :: "int \<Rightarrow> string" where
  "show_int i = (if i < 0 then CHR ''-'' # show_nat (nat (- i)) else show_nat (nat i))"

definition dec_val :: "string \<Rightarrow> nat" where
  "dec_val s = foldl (\<lambda>a c. 10 * a + digit_val c) 0 s"

text \<open>\<open>str::parse::<i64>\<close>: an optional sign, at least one digit, no overflow.\<close>

definition parse_i64 :: "string \<Rightarrow> int option" where
  "parse_i64 s =
     (let (neg, ds) = (case s of [] \<Rightarrow> (False, [])
                       | c # cs \<Rightarrow> if c = CHR ''-'' then (True, cs)
                                   else if c = CHR ''+'' then (False, cs) else (False, s))
      in if ds = [] \<or> \<not> list_all is_digit ds then None
         else let v = (if neg then - int (dec_val ds) else int (dec_val ds))
              in if in_i64 v then Some v else None)"

definition ascii_lower :: "char \<Rightarrow> char" where
  "ascii_lower c = (if 65 \<le> (of_char c :: nat) \<and> (of_char c :: nat) \<le> 90
                    then char_of ((of_char c :: nat) + 32) else c)"

definition to_lower :: "string \<Rightarrow> string" where
  "to_lower s = map ascii_lower s"

definition eq_ignore_case :: "string \<Rightarrow> string \<Rightarrow> bool" where
  "eq_ignore_case a b \<longleftrightarrow> to_lower a = to_lower b"

section \<open>Unicode scalar values\<close>

definition u_digit :: "nat \<Rightarrow> bool" where
  "u_digit c \<longleftrightarrow> 48 \<le> c \<and> c \<le> 57"

text \<open>\<open>char::is_whitespace\<close>: the Unicode property White_Space.\<close>

definition u_space :: "nat \<Rightarrow> bool" where
  "u_space c \<longleftrightarrow> 9 \<le> c \<and> c \<le> 13 \<or> c = 32 \<or> c = 133 \<or> c = 160 \<or> c = 5760
     \<or> 8192 \<le> c \<and> c \<le> 8202 \<or> c = 8232 \<or> c = 8233 \<or> c = 8239 \<or> c = 8287 \<or> c = 12288"

definition u_trim_start :: "ustr \<Rightarrow> ustr" where
  "u_trim_start s = dropWhile u_space s"

definition u_trim :: "ustr \<Rightarrow> ustr" where
  "u_trim s = rev (dropWhile u_space (rev (dropWhile u_space s)))"

definition u_val :: "ustr \<Rightarrow> nat" where
  "u_val s = foldl (\<lambda>a c. 10 * a + (c - 48)) 0 s"

definition u_of_int :: "int \<Rightarrow> ustr" where
  "u_of_int i = map of_char (show_int i)"

section \<open>Facts\<close>

lemma digit_val_char: "d < 10 \<Longrightarrow> digit_val (digit_char d) = d"
  by (simp add: digit_val_def digit_char_def of_char_of)

lemma is_digit_char: "d < 10 \<Longrightarrow> is_digit (digit_char d)"
  by (simp add: is_digit_def digit_char_def of_char_of)

lemma dec_val_snoc: "dec_val (s @ [c]) = 10 * dec_val s + digit_val c"
  by (simp add: dec_val_def)

lemma dec_val_show_nat: "dec_val (show_nat n) = n"
proof (induction n rule: show_nat.induct)
  case (1 n)
  then show ?case
    by (subst show_nat.simps) (simp add: dec_val_snoc digit_val_char, simp add: dec_val_def digit_val_char)
qed

lemma show_nat_digits: "list_all is_digit (show_nat n)"
proof (induction n rule: show_nat.induct)
  case (1 n)
  then show ?case by (subst show_nat.simps) (simp add: is_digit_char)
qed

lemma show_nat_not_Nil: "show_nat n \<noteq> []"
  by (subst show_nat.simps) simp

lemma show_nat_inject: "show_nat m = show_nat n \<longleftrightarrow> m = n"
  by (metis dec_val_show_nat)

lemma not_is_digit_sign [simp]: "\<not> is_digit (CHR ''-'')" "\<not> is_digit (CHR ''+'')"
  by (simp_all add: is_digit_def)

lemma parse_show_i64:
  assumes "in_i64 i"
  shows "parse_i64 (show_int i) = Some i"
proof -
  obtain c cs where c: "show_nat (nat i) = c # cs" using show_nat_not_Nil by (cases "show_nat (nat i)") auto
  with show_nat_digits [of "nat i"] have "is_digit c" by simp
  then have sign: "c \<noteq> CHR ''-''" "c \<noteq> CHR ''+''" using not_is_digit_sign by blast+
  show ?thesis
  proof (cases "i < 0")
    case True
    with assms show ?thesis
      by (simp add: parse_i64_def show_int_def show_nat_not_Nil show_nat_digits dec_val_show_nat)
  next
    case False
    with assms sign show_nat_digits [of "nat i"] dec_val_show_nat [of "nat i"] show ?thesis
      by (simp add: parse_i64_def show_int_def c)
  qed
qed

lemma u_val_snoc: "u_val (s @ [c]) = 10 * u_val s + (c - 48)"
  by (simp add: u_val_def)

lemma u_val_Nil [simp]: "u_val [] = 0"
  by (simp add: u_val_def)

lemma foldl_dec_start:
  "foldl (\<lambda>a c. 10 * a + f c) (n::nat) s = n * 10 ^ length s + foldl (\<lambda>a c. 10 * a + f c) 0 s"
proof (induction s rule: rev_induct)
  case (snoc c s)
  then show ?case by (simp add: algebra_simps)
qed simp

lemma u_val_Cons: "u_val (c # s) = (c - 48) * 10 ^ length s + u_val s"
  unfolding u_val_def by (simp add: foldl_dec_start [of _ "c - 48"])

lemma u_val_dropWhile_zero: "u_val (dropWhile (\<lambda>c. c = 48) s) = u_val s"
  by (induction s) (auto simp: u_val_Cons)

end
