(* ===== verification/Policy.thy ===== *)
theory Policy
  imports Domain Decimal
begin

text \<open>
  The crate \<open>policy-memorial\<close> (\<open>crates/policy-memorial/src/lib.rs\<close>): the arithmetic of the
  memorial balance. \<open>MemorialPolicy::embedded\<close> deserialises \<open>policy/memorial-policy.json\<close>;
  the record is \<open>memorial_policy\<close>, and \<open>embedded_policy\<close> has the values of that file. Texts are sequences of Unicode scalar values.
\<close>

definition pass_seasons :: int where "pass_seasons = 13"
definition skill_reset_seconds :: int where "skill_reset_seconds = 5 * 60"
definition encore_base_seconds :: f64 where "encore_base_seconds = fmul (Fin 60) (Fin 60)"
definition max_single_stage_energy_cost :: int where "max_single_stage_energy_cost = 5"
definition pass_point_multiplier :: int where "pass_point_multiplier = 10"

text \<open>The decimal literals \<open>0.1\<close> and \<open>0.30\<close> are the nearest doubles.\<close>

definition f64_tenth :: f64 where "f64_tenth = round64 (1 / 10)"
definition f64_three_tenths :: f64 where "f64_three_tenths = round64 (3 / 10)"

definition costume_fan_bonus :: "int \<Rightarrow> bool \<Rightarrow> f64 \<Rightarrow> f64 \<Rightarrow> f64" where
  "costume_fan_bonus area is_default official category_max =
     (if is_default then official else if area = 1 then f64_three_tenths else category_max)"

definition default_settings :: "(string \<times> string) list" where
  "default_settings =
     [(''shop_call_wait'', ''0''), (''ad_cancel_delay'', ''0''), (''force_menu_restric'', ''N''),
      (''max_bundle_texutre_loading'', ''10''), (''weather_snow'', ''N''),
      (''check_time_cheat'', ''N''), (''ap_max'', ''200''), (''ap_time'', ''1''),
      (''ap_use'', ''5''), (''character_exp'', ''450'')]"

text \<open>The record of \<open>policy/memorial-policy.json\<close>; the keys no Rust field names are ignored.\<close>

record legacy_item_policy =
  lip_kind :: content_kind
  lip_area :: int
  lip_id :: int

record upgrade_cost_policy =
  single_digit_currencies :: "string list"
  formula_cap_min :: int
  formula_cap_max :: int

record memorial_shop_reward =
  shr_reward_type :: int
  shr_id :: int
  shr_quantity :: f64

record memorial_shop_item =
  shi_id :: int
  shi_product_id_ios :: string
  shi_product_id_android :: string
  shi_resource_name :: string
  shi_reward_group :: int
  shi_sort_index :: int
  shi_title :: "(string, string) table"
  shi_description :: "(string, string) table"
  shi_rewards :: "memorial_shop_reward list"

record memorial_shop_policy =
  shp_shop_category :: int
  shp_product_type :: int
  shp_sell_type :: int
  shp_sell_value :: int
  shp_area_list :: string
  shp_items :: "memorial_shop_item list"

record memorial_policy =
  policy_version :: int
  follower_gift_icons :: "(int, string) table"
  legacy_items :: "legacy_item_policy list"
  progression_multiplier :: f64
  scaled_achievement_ids :: "int list"
  preserve_skill_unlock_requirements :: bool
  cosmetic_price :: int
  skill_cooldown_multiplier :: f64
  policy_skill_reset_seconds :: int
  policy_encore_base_seconds :: f64
  policy_max_single_stage_energy_cost :: int
  policy_ch3_energy_cap :: int
  ch3_energy_restore_seconds :: int
  ch3_reward_multiplier :: int
  ch3_profile_exp_per_clear :: int
  policy_pass_point_multiplier :: int
  upgrade_costs :: upgrade_cost_policy
  memorial_shop :: memorial_shop_policy

definition embedded_legacy_items :: "legacy_item_policy list" where
  "embedded_legacy_items =
    map (\<lambda>(k, a, i). \<lparr>lip_kind = k, lip_area = a, lip_id = i\<rparr>)
       [(Costume, 1, 9), (Costume, 1, 10), (Costume, 1, 12), (Costume, 1, 13), (Costume, 1, 20),
       (Costume, 1, 29), (Costume, 1, 30), (Costume, 1, 31), (Costume, 2, 203), (Costume, 2,
       208), (Costume, 2, 209), (Costume, 2, 227), (Costume, 2, 228), (Guitar, 1, 6), (Guitar, 1,
       8), (Guitar, 1, 10), (Guitar, 1, 35), (Guitar, 1, 36), (Guitar, 1, 37), (Guitar, 1, 38),
       (Guitar, 2, 208), (Guitar, 2, 214), (Guitar, 2, 241), (Guitar, 2, 242), (Guitar, 2, 243),
       (Guitar, 2, 244), (Music, 1, 12), (Music, 1, 13), (Music, 2, 211)]"

text \<open>The items of the memorial shop; a text outside ASCII is given by its UTF-8 bytes.\<close>

definition shop_item ::
  "int \<Rightarrow> string \<Rightarrow> string \<Rightarrow> string \<Rightarrow> int \<Rightarrow> int \<Rightarrow> (string, string) table
   \<Rightarrow> (string, string) table \<Rightarrow> (int \<times> int \<times> int) list \<Rightarrow> memorial_shop_item" where
  "shop_item i ios android resource grp sort_index title description rewards =
     \<lparr>shi_id = i, shi_product_id_ios = ios, shi_product_id_android = android,
      shi_resource_name = resource, shi_reward_group = grp, shi_sort_index = sort_index,
      shi_title = title, shi_description = description,
      shi_rewards = map (\<lambda>(t, r, q). \<lparr>shr_reward_type = t, shr_id = r, shr_quantity = Fin (of_int q)\<rparr>) rewards\<rparr>"

definition embedded_shop_items :: "memorial_shop_item list" where
  "embedded_shop_items =
     [shop_item 50001 ''ios_choco_525'' ''and_choco_525'' ''icon_shop_09'' 95001 10 [(''en'',
       ''525 Chocolate''), (''ja'', map char_of [227 :: nat, 131, 129, 227, 131, 167, 227, 130,
       179, 53, 50, 53, 229, 128, 139]), (''ko'', map char_of [236 :: nat, 180, 136, 236, 189,
       156, 235, 166, 191, 32, 53, 50, 53, 234, 176, 156]), (''zhChs'', map char_of [53 :: nat,
       50, 53, 228, 184, 170, 229, 183, 167, 229, 133, 139, 229, 138, 155]), (''zhCht'',
       map char_of [53 :: nat, 50, 53, 229, 128, 139, 229, 183, 167, 229, 133, 139, 229, 138,
       155])] [(''en'', ''Receive 525 Chocolate''), (''ja'', map char_of [227 :: nat, 131, 129,
       227, 131, 167, 227, 130, 179, 53, 50, 53, 229, 128, 139, 229, 143, 150, 229, 190, 151]),
       (''ko'', map char_of [236 :: nat, 180, 136, 236, 189, 156, 235, 166, 191, 32, 53, 50, 53,
       234, 176, 156, 32, 235, 176, 155, 234, 184, 176]), (''zhChs'', map char_of [233 :: nat,
       162, 134, 229, 143, 150, 53, 50, 53, 228, 184, 170, 229, 183, 167, 229, 133, 139, 229,
       138, 155]), (''zhCht'', map char_of [233 :: nat, 160, 152, 229, 143, 150, 53, 50, 53, 229,
       128, 139, 229, 183, 167, 229, 133, 139, 229, 138, 155])] [(1, 1, 525)],
      shop_item 50002 ''ios_choco_2200'' ''and_choco_2200'' ''icon_shop_10'' 95002 20 [(''en'',
       ''2200 Chocolate''), (''ja'', map char_of [227 :: nat, 131, 129, 227, 131, 167, 227, 130,
       179, 50, 50, 48, 48, 229, 128, 139]), (''ko'', map char_of [236 :: nat, 180, 136, 236,
       189, 156, 235, 166, 191, 32, 50, 44, 50, 48, 48, 234, 176, 156]), (''zhChs'',
       map char_of [50 :: nat, 50, 48, 48, 228, 184, 170, 229, 183, 167, 229, 133, 139, 229, 138,
       155]), (''zhCht'', map char_of [50 :: nat, 50, 48, 48, 229, 128, 139, 229, 183, 167, 229,
       133, 139, 229, 138, 155])] [(''en'', ''Receive 2200 Chocolate''), (''ja'',
       map char_of [227 :: nat, 131, 129, 227, 131, 167, 227, 130, 179, 50, 50, 48, 48, 229, 128,
       139, 229, 143, 150, 229, 190, 151]), (''ko'', map char_of [236 :: nat, 180, 136, 236, 189,
       156, 235, 166, 191, 32, 50, 44, 50, 48, 48, 234, 176, 156, 32, 235, 176, 155, 234, 184,
       176]), (''zhChs'', map char_of [233 :: nat, 162, 134, 229, 143, 150, 50, 50, 48, 48, 228,
       184, 170, 229, 183, 167, 229, 133, 139, 229, 138, 155]), (''zhCht'',
       map char_of [233 :: nat, 160, 152, 229, 143, 150, 50, 50, 48, 48, 229, 128, 139, 229, 183,
       167, 229, 133, 139, 229, 138, 155])] [(1, 1, 2200)],
      shop_item 50003 ''ios_choco_5750'' ''and_choco_5750'' ''icon_shop_11'' 95003 30 [(''en'',
       ''5750 Chocolate''), (''ja'', map char_of [227 :: nat, 131, 129, 227, 131, 167, 227, 130,
       179, 53, 55, 53, 48, 229, 128, 139]), (''ko'', map char_of [236 :: nat, 180, 136, 236,
       189, 156, 235, 166, 191, 32, 53, 44, 55, 53, 48, 234, 176, 156]), (''zhChs'',
       map char_of [53 :: nat, 55, 53, 48, 228, 184, 170, 229, 183, 167, 229, 133, 139, 229, 138,
       155]), (''zhCht'', map char_of [53 :: nat, 55, 53, 48, 229, 128, 139, 229, 183, 167, 229,
       133, 139, 229, 138, 155])] [(''en'', ''Receive 5750 Chocolate''), (''ja'',
       map char_of [227 :: nat, 131, 129, 227, 131, 167, 227, 130, 179, 53, 55, 53, 48, 229, 128,
       139, 229, 143, 150, 229, 190, 151]), (''ko'', map char_of [236 :: nat, 180, 136, 236, 189,
       156, 235, 166, 191, 32, 53, 44, 55, 53, 48, 234, 176, 156, 32, 235, 176, 155, 234, 184,
       176]), (''zhChs'', map char_of [233 :: nat, 162, 134, 229, 143, 150, 53, 55, 53, 48, 228,
       184, 170, 229, 183, 167, 229, 133, 139, 229, 138, 155]), (''zhCht'',
       map char_of [233 :: nat, 160, 152, 229, 143, 150, 53, 55, 53, 48, 229, 128, 139, 229, 183,
       167, 229, 133, 139, 229, 138, 155])] [(1, 1, 5750)],
      shop_item 50004 ''ios_choco_12000'' ''and_choco_12000'' ''icon_shop_12'' 95004 40 [(''en'',
       ''12000 Chocolate''), (''ja'', map char_of [227 :: nat, 131, 129, 227, 131, 167, 227, 130,
       179, 49, 50, 48, 48, 48, 229, 128, 139]), (''ko'', map char_of [236 :: nat, 180, 136, 236,
       189, 156, 235, 166, 191, 32, 49, 50, 44, 48, 48, 48, 234, 176, 156]), (''zhChs'',
       map char_of [49 :: nat, 50, 48, 48, 48, 228, 184, 170, 229, 183, 167, 229, 133, 139, 229,
       138, 155]), (''zhCht'', map char_of [49 :: nat, 50, 48, 48, 48, 229, 128, 139, 229, 183,
       167, 229, 133, 139, 229, 138, 155])] [(''en'', ''Receive 12000 Chocolate''), (''ja'',
       map char_of [227 :: nat, 131, 129, 227, 131, 167, 227, 130, 179, 49, 50, 48, 48, 48, 229,
       128, 139, 229, 143, 150, 229, 190, 151]), (''ko'', map char_of [236 :: nat, 180, 136, 236,
       189, 156, 235, 166, 191, 32, 49, 50, 44, 48, 48, 48, 234, 176, 156, 32, 235, 176, 155,
       234, 184, 176]), (''zhChs'', map char_of [233 :: nat, 162, 134, 229, 143, 150, 49, 50, 48,
       48, 48, 228, 184, 170, 229, 183, 167, 229, 133, 139, 229, 138, 155]), (''zhCht'',
       map char_of [233 :: nat, 160, 152, 229, 143, 150, 49, 50, 48, 48, 48, 229, 128, 139, 229,
       183, 167, 229, 133, 139, 229, 138, 155])] [(1, 1, 12000)],
      shop_item 50005 ''ios_beginner_pack'' ''and_beginner_pack'' ''icon_shop_06'' 95005 50 [(''en'',
       ''Beginner Pack''), (''ja'', map char_of [229 :: nat, 136, 157, 229, 191, 131, 232, 128,
       133, 227, 131, 145, 227, 131, 131, 227, 130, 175]), (''ko'', map char_of [236 :: nat, 180,
       136, 235, 179, 180, 236, 158, 144, 32, 237, 140, 168, 237, 130, 164, 236, 167, 128]),
       (''zhChs'', map char_of [230 :: nat, 150, 176, 230, 137, 139, 231, 164, 188, 229, 140,
       133]), (''zhCht'', map char_of [230 :: nat, 150, 176, 230, 137, 139, 231, 166, 174, 229,
       140, 133])] [(''en'', ''A special pack for new players''), (''ja'',
       map char_of [229 :: nat, 136, 157, 229, 191, 131, 232, 128, 133, 229, 144, 145, 227, 129,
       145, 227, 129, 174, 231, 137, 185, 229, 136, 165, 227, 131, 145, 227, 131, 131, 227, 130,
       175]), (''ko'', map char_of [236 :: nat, 180, 136, 235, 179, 180, 236, 158, 144, 235, 165,
       188, 32, 236, 156, 132, 237, 149, 156, 32, 237, 138, 185, 235, 179, 132, 32, 237, 140,
       168, 237, 130, 164, 236, 167, 128]), (''zhChs'', map char_of [228 :: nat, 184, 186, 230,
       150, 176, 231, 142, 169, 229, 174, 182, 229, 135, 134, 229, 164, 135, 231, 154, 132, 231,
       137, 185, 229, 136, 171, 231, 164, 188, 229, 140, 133]), (''zhCht'',
       map char_of [231 :: nat, 130, 186, 230, 150, 176, 231, 142, 169, 229, 174, 182, 230, 186,
       150, 229, 130, 153, 231, 154, 132, 231, 137, 185, 229, 136, 165, 231, 166, 174, 229, 140,
       133])] [(1, 1, 2200), (1, 2, 100000)],
      shop_item 50006 ''ios_master_pack'' ''and_master_pack'' ''icon_shop_07'' 95006 60 [(''en'',
       ''Master Pack''), (''ja'', map char_of [227 :: nat, 131, 158, 227, 130, 185, 227, 130,
       191, 227, 131, 188, 227, 131, 145, 227, 131, 131, 227, 130, 175]), (''ko'',
       map char_of [235 :: nat, 167, 136, 236, 138, 164, 237, 132, 176, 32, 237, 140, 168, 237,
       130, 164, 236, 167, 128]), (''zhChs'', map char_of [229 :: nat, 164, 167, 229, 184, 136,
       231, 164, 188, 229, 140, 133]), (''zhCht'', map char_of [229 :: nat, 164, 167, 229, 184,
       171, 231, 166, 174, 229, 140, 133])] [(''en'', ''A special pack for rapid growth''),
       (''ja'', map char_of [230 :: nat, 136, 144, 233, 149, 183, 227, 129, 174, 227, 129, 159,
       227, 130, 129, 227, 129, 174, 231, 137, 185, 229, 136, 165, 227, 131, 145, 227, 131, 131,
       227, 130, 175]), (''ko'', map char_of [236 :: nat, 132, 177, 236, 158, 165, 236, 157, 132,
       32, 236, 156, 132, 237, 149, 156, 32, 237, 138, 185, 235, 179, 132, 32, 237, 140, 168,
       237, 130, 164, 236, 167, 128]), (''zhChs'', map char_of [229 :: nat, 191, 171, 233, 128,
       159, 230, 136, 144, 233, 149, 191, 231, 137, 185, 229, 136, 171, 231, 164, 188, 229, 140,
       133]), (''zhCht'', map char_of [229 :: nat, 191, 171, 233, 128, 159, 230, 136, 144, 233,
       149, 183, 231, 137, 185, 229, 136, 165, 231, 166, 174, 229, 140, 133])] [(1, 1, 12000),
       (1, 2, 1000000), (6, 4, 1)],
      shop_item 50007 ''ios_guitar_girl_premium'' ''and_guitar_girl_premium'' ''icon_shop_30'' 95007 70 [(''en'',
       ''Guitar Girl Premium''), (''ja'', map char_of [227 :: nat, 130, 174, 227, 130, 191, 227,
       131, 188, 229, 176, 145, 229, 165, 179, 227, 131, 151, 227, 131, 172, 227, 131, 159, 227,
       130, 162, 227, 131, 160]), (''ko'', map char_of [234 :: nat, 184, 176, 237, 131, 128, 32,
       236, 134, 140, 235, 133, 128, 32, 237, 148, 132, 235, 166, 172, 235, 175, 184, 236, 151,
       132]), (''zhChs'', map char_of [229 :: nat, 144, 137, 228, 187, 150, 229, 176, 145, 229,
       165, 179, 233, 171, 152, 231, 186, 167, 231, 137, 136]), (''zhCht'',
       map char_of [229 :: nat, 144, 137, 228, 187, 150, 229, 176, 145, 229, 165, 179, 233, 171,
       152, 231, 180, 154, 231, 137, 136])] [(''en'', ''Unlock premium features''), (''ja'',
       map char_of [227 :: nat, 131, 151, 227, 131, 172, 227, 131, 159, 227, 130, 162, 227, 131,
       160, 230, 169, 159, 232, 131, 189, 227, 130, 146, 232, 167, 163, 230, 148, 190]), (''ko'',
       map char_of [237 :: nat, 148, 132, 235, 166, 172, 235, 175, 184, 236, 151, 132, 32, 234,
       184, 176, 235, 138, 165, 32, 236, 158, 160, 234, 184, 136, 32, 237, 149, 180, 236, 160,
       156]), (''zhChs'', map char_of [232 :: nat, 167, 163, 233, 148, 129, 233, 171, 152, 231,
       186, 167, 229, 138, 159, 232, 131, 189]), (''zhCht'', map char_of [232 :: nat, 167, 163,
       233, 142, 150, 233, 171, 152, 231, 180, 154, 229, 138, 159, 232, 131, 189])] [(6, 4, 1)],
      shop_item 50008 ''ios_continuous_tap'' ''and_continuous_tap'' ''icon_shop_05'' 95008 80 [(''en'',
       ''Continuous Tap''), (''ja'', map char_of [233 :: nat, 128, 163, 231, 182, 154, 227, 130,
       191, 227, 131, 131, 227, 131, 151]), (''ko'', map char_of [236 :: nat, 151, 176, 236, 134,
       141, 32, 237, 131, 173]), (''zhChs'', map char_of [232 :: nat, 191, 158, 231, 187, 173,
       231, 130, 185, 229, 135, 187]), (''zhCht'', map char_of [233 :: nat, 128, 163, 231, 186,
       140, 233, 187, 158, 230, 147, 138])] [(''en'', ''Unlock continuous tapping''), (''ja'',
       map char_of [233 :: nat, 128, 163, 231, 182, 154, 227, 130, 191, 227, 131, 131, 227, 131,
       151, 230, 169, 159, 232, 131, 189, 227, 130, 146, 232, 167, 163, 230, 148, 190]), (''ko'',
       map char_of [236 :: nat, 151, 176, 236, 134, 141, 32, 237, 131, 173, 32, 234, 184, 176,
       235, 138, 165, 32, 236, 158, 160, 234, 184, 136, 32, 237, 149, 180, 236, 160, 156]),
       (''zhChs'', map char_of [232 :: nat, 167, 163, 233, 148, 129, 232, 191, 158, 231, 187,
       173, 231, 130, 185, 229, 135, 187, 229, 138, 159, 232, 131, 189]), (''zhCht'',
       map char_of [232 :: nat, 167, 163, 233, 142, 150, 233, 128, 163, 231, 186, 140, 233, 187,
       158, 230, 147, 138, 229, 138, 159, 232, 131, 189])] [(6, 5, 1)]]"

definition embedded_policy :: memorial_policy where
  "embedded_policy =
     \<lparr>policy_version = 1,
      follower_gift_icons =
        [(1, ''icon_gift_gingerman''), (2, ''icon_gift_chocomilk''), (3, ''icon_gift_sandwich''),
        (4, ''icon_gift_bread''), (5, ''icon_gift_grapefruit''), (6, ''icon_gift_coffee'')],
      legacy_items = embedded_legacy_items,
      progression_multiplier = f64_tenth,
      scaled_achievement_ids = [3, 4, 203, 204],
      preserve_skill_unlock_requirements = True,
      cosmetic_price = 10,
      skill_cooldown_multiplier = f64_tenth,
      policy_skill_reset_seconds = 300,
      policy_encore_base_seconds = Fin 3600,
      policy_max_single_stage_energy_cost = 5,
      policy_ch3_energy_cap = 200,
      ch3_energy_restore_seconds = 1,
      ch3_reward_multiplier = 10,
      ch3_profile_exp_per_clear = 450,
      policy_pass_point_multiplier = 10,
      upgrade_costs = \<lparr>single_digit_currencies = [''CP'', ''Candy''],
                       formula_cap_min = 10, formula_cap_max = 20\<rparr>,
      memorial_shop = \<lparr>shp_shop_category = 4, shp_product_type = 4, shp_sell_type = 0,
                       shp_sell_value = 0, shp_area_list = ''ALL'',
                       shp_items = embedded_shop_items\<rparr>\<rparr>"

definition uses_single_digit_cost :: "memorial_policy \<Rightarrow> string \<Rightarrow> bool" where
  "uses_single_digit_cost p currency =
     list_ex (\<lambda>c. eq_ignore_case c currency) (single_digit_currencies (upgrade_costs p))"

section \<open>Requirements\<close>

definition scaled_requirement :: "f64 \<Rightarrow> bool \<Rightarrow> f64" where
  "scaled_requirement official preserve_first_fan_level =
     (if preserve_first_fan_level \<or> flt_le official fzero then official
      else fmax (fceil (fmul official f64_tenth)) (Fin 1))"

definition achievement_requirement :: "memorial_policy \<Rightarrow> int \<Rightarrow> f64 \<Rightarrow> f64" where
  "achievement_requirement p i official =
     (if i \<in> set (scaled_achievement_ids p) then scaled_requirement official False else official)"

definition scaled_fan_requirement :: "f64 \<Rightarrow> f64 \<Rightarrow> f64" where
  "scaled_fan_requirement official first_level =
     (if flt_le official first_level then official
      else fadd first_level (fceil (fmul (fsub official first_level) f64_tenth)))"

text \<open>
  \<open>scaled_requirement_text\<close>: the loop over the digits from the right with a carry, then a new
  leading digit if the carry is left.
\<close>

fun add_carry :: "nat list \<Rightarrow> nat \<Rightarrow> nat list" where
  "add_carry [] carry = (if carry \<noteq> 0 then [49] else [])"
| "add_carry (d # ds) carry =
     (let value = (d - 48) + carry; carry' = value div 10
      in (48 + value mod 10) # (if carry' = 0 then ds else add_carry ds carry'))"

definition scaled_requirement_text :: "ustr \<Rightarrow> ustr option" where
  "scaled_requirement_text official =
     (let value = u_trim official
      in if value = [] \<or> \<not> list_all u_digit value then None
         else let canonical = dropWhile (\<lambda>c. c = 48) value
              in if canonical = [] then Some [48]
                 else let quotient = butlast canonical; remainder = last canonical;
                          scaled = (if quotient = [] then [48] else quotient)
                      in Some (if remainder \<noteq> 48 then rev (add_carry (rev scaled) 1)
                               else scaled))"

section \<open>Percentages in descriptions\<close>

text \<open>
  \<open>rewrite_percentage\<close>: a run of digits and dots that starts with a digit and is followed by
  optional white space and a percent sign (ASCII or full-width) becomes the new percentage;
  everything else is copied. One iteration of the \<open>while let\<close> takes one run or one character.
\<close>

definition u_number :: "nat \<Rightarrow> bool" where
  "u_number c \<longleftrightarrow> u_digit c \<or> c = 46"

function rewrite_percentage :: "ustr \<Rightarrow> int \<Rightarrow> ustr" where
  "rewrite_percentage [] percent = []"
| "rewrite_percentage (c # cs) percent =
     (if \<not> u_digit c then c # rewrite_percentage cs percent
      else let run = takeWhile u_number cs; rest = dropWhile u_number cs;
               after = u_trim_start rest
           in (if after \<noteq> [] \<and> (hd after = 37 \<or> hd after = 65285) then u_of_int percent
               else c # run) @ rewrite_percentage rest percent)"
  by pat_completeness auto
termination
  by (relation "measure (\<lambda>(s, _). length s)") (auto simp: le_imp_less_Suc length_dropWhile_le)

section \<open>Upgrade costs\<close>

text \<open>The products stay far below the pointer width: the count is that of the distinct prices.\<close>

definition memorial_upgrade_cost :: "nat \<Rightarrow> nat \<Rightarrow> int" where
  "memorial_upgrade_cost rank count =
     (if count = 0 then 0 else if count = 1 then 1
      else 1 + int (9 * min rank (count - 1) div (count - 1)))"

definition premium_upgrade_cap :: "upgrade_cost_policy \<Rightarrow> f64 \<Rightarrow> f64 \<Rightarrow> f64 \<Rightarrow> int" where
  "premium_upgrade_cap p final_price minimum maximum =
     (if flt_le final_price fzero then 0
      else if flt_le maximum minimum then formula_cap_min p
      else let ratio = fclamp (fdiv (fsub final_price minimum) (fsub maximum minimum)) (Fin 0) (Fin 1)
           in formula_cap_min p
              + as_i64 (fround (fmul ratio (f64_of_int (formula_cap_max p - formula_cap_min p)))))"

definition premium_upgrade_increment :: "int \<Rightarrow> f64 \<Rightarrow> int \<Rightarrow> int \<Rightarrow> f64" where
  "premium_upgrade_increment max_level official_base first_target_level cap =
     (if flt_less fzero official_base \<and> first_target_level < max_level
      then fdiv (f64_of_int (cap - 1)) (f64_of_int (max_level - first_target_level))
      else fzero)"

section \<open>Timers\<close>

definition skill_cooldown :: "f64 \<Rightarrow> f64" where
  "skill_cooldown official_seconds = fmax (fmul official_seconds f64_tenth) fzero"

definition encore_cooldown :: "f64 \<Rightarrow> f64 \<Rightarrow> f64" where
  "encore_cooldown official_at_level official_base =
     (if flt_le official_base fzero then encore_base_seconds
      else fmul encore_base_seconds
             (fclamp (fdiv official_at_level official_base) (Fin 0) (Fin 1)))"

definition pass_season :: "device_clock \<Rightarrow> int \<Rightarrow> int \<Rightarrow> int" where
  "pass_season clock anchor_day anchor_season =
     (let elapsed = sat_i64 (local_epoch_day clock - anchor_day)
      in wrap_i64 (wrap_i64 (anchor_season - 1) + elapsed) mod pass_seasons + 1)"

definition ch3_energy_cap_for :: "int \<Rightarrow> int" where
  "ch3_energy_cap_for max_single_run_cost = sat_i64 (max_single_run_cost * 5)"

definition memorial_ch3_energy_cap :: "memorial_policy \<Rightarrow> int" where
  "memorial_ch3_energy_cap p =
     max (policy_ch3_energy_cap p) (ch3_energy_cap_for (policy_max_single_stage_energy_cost p))"


section \<open>Facts\<close>

subsection \<open>Decimal texts\<close>

lemma add_carry_digits:
  "list_all u_digit ds \<Longrightarrow> carry \<le> 1 \<Longrightarrow> list_all u_digit (add_carry ds carry)"
  by (induction ds carry rule: add_carry.induct) (auto simp: u_digit_def Let_def)

lemma add_carry_value:
  "list_all u_digit ds \<Longrightarrow> u_val (rev (add_carry ds 1)) = u_val (rev ds) + 1"
proof (induction ds)
  case (Cons d ds)
  then have d: "48 \<le> d" "d \<le> 57" and IH: "u_val (rev (add_carry ds 1)) = u_val (rev ds) + 1"
    by (simp_all add: u_digit_def)
  show ?case
  proof (cases "d = 57")
    case True
    with IH show ?thesis by (simp add: u_val_snoc)
  next
    case False
    with d have "d - 48 + 1 < 10" by simp
    then show ?thesis by (simp add: u_val_snoc)
  qed
qed (simp add: u_val_def)

lemma add_carry_one:
  "u_digit d \<Longrightarrow> add_carry (d # ds) 1 = (if d = 57 then 48 # add_carry ds 1 else Suc d # ds)"
  by (auto simp: u_digit_def Let_def)

lemma add_carry_last:
  "list_all u_digit ds \<Longrightarrow> (ds = [] \<or> 48 < last ds) \<Longrightarrow> 48 < last (add_carry ds 1)"
proof (induction ds)
  case (Cons d ds)
  then have d: "u_digit d" by simp
  show ?case
  proof (cases ds)
    case Nil
    with d show ?thesis by (auto simp: add_carry_one [simplified] u_digit_def)
  next
    case (Cons e es)
    with Cons.prems Cons.IH have "48 < last (add_carry ds 1)" by simp
    moreover have "add_carry ds 1 \<noteq> []" by (simp add: Cons Let_def)
    ultimately show ?thesis unfolding add_carry_one [OF d] using Cons.prems Cons by auto
  qed
qed simp

lemma u_trim_idem_dropWhile: "list_all p s \<Longrightarrow> list_all p (dropWhile q s)"
  by (induction s) auto

lemma hd_dropWhile_zero:
  "list_all u_digit s \<Longrightarrow> dropWhile (\<lambda>c. c = 48) s = [] \<or> 48 < hd (dropWhile (\<lambda>c. c = 48) s)"
  by (induction s) (auto simp: u_digit_def)

text \<open>The digits the text function computes on: a canonical, non-empty digit string.\<close>

definition round_up_tenth :: "ustr \<Rightarrow> ustr" where
  "round_up_tenth canonical =
     (let quotient = butlast canonical; scaled = (if quotient = [] then [48] else quotient)
      in if last canonical \<noteq> 48 then rev (add_carry (rev scaled) 1) else scaled)"

lemma round_up_tenth_value:
  assumes "list_all u_digit c" "c \<noteq> []"
  shows "u_val (round_up_tenth c) = (u_val c + 9) div 10 \<and> list_all u_digit (round_up_tenth c)"
proof -
  obtain q r where c: "c = q @ [r]" using assms(2) by (cases c rule: rev_cases) auto
  with assms have q: "list_all u_digit q" and r: "48 \<le> r" "r \<le> 57"
    by (simp_all add: u_digit_def)
  define s where "s = (if q = [] then [48::nat] else q)"
  have s: "list_all u_digit s" "u_val s = u_val q"
    using q by (simp_all add: s_def u_digit_def u_val_def)
  then have "list_all u_digit (rev s)" by simp
  from add_carry_value [OF this] add_carry_digits [OF this, of 1] s r
  show ?thesis by (auto simp: round_up_tenth_def c s_def [symmetric] u_val_snoc Let_def)
qed

lemma round_up_tenth_canonical:
  assumes "list_all u_digit c" "c \<noteq> []" "48 < hd c"
  shows "round_up_tenth c = [48] \<or> 48 < hd (round_up_tenth c)"
proof (cases "butlast c = []")
  case True
  then have "c = [last c]" using append_butlast_last_id [OF assms(2)] by simp
  then show ?thesis using assms True by (auto simp: round_up_tenth_def Let_def)
next
  case False
  have hd: "hd (butlast c) = hd c" using False by (cases c) (auto split: if_splits)
  have all: "list_all u_digit (rev (butlast c))" using assms(1) by (auto simp: list_all_iff dest: in_set_butlastD)
  have ne: "add_carry (rev (butlast c)) 1 \<noteq> []"
    using False by (cases "rev (butlast c)") (simp_all add: Let_def)
  from add_carry_last [OF all] have "48 < last (add_carry (rev (butlast c)) 1)"
    using False assms(3) hd by (simp add: last_rev)
  then show ?thesis using False assms(3) hd ne by (simp add: round_up_tenth_def Let_def hd_rev)
qed

lemma scaled_requirement_text_eq:
  "scaled_requirement_text s =
     (if u_trim s = [] \<or> \<not> list_all u_digit (u_trim s) then None
      else let c = dropWhile (\<lambda>c. c = 48) (u_trim s)
           in if c = [] then Some [48] else Some (round_up_tenth c))"
  by (simp add: scaled_requirement_text_def round_up_tenth_def Let_def)

lemma scaled_requirement_text_cases:
  "case scaled_requirement_text s of
     None \<Rightarrow> \<not> (u_trim s \<noteq> [] \<and> list_all u_digit (u_trim s))
   | Some t \<Rightarrow> u_trim s \<noteq> [] \<and> list_all u_digit (u_trim s) \<and> list_all u_digit t
               \<and> u_val t = (u_val (u_trim s) + 9) div 10 \<and> (t = [48] \<or> 48 < hd t)"
proof (cases "u_trim s \<noteq> [] \<and> list_all u_digit (u_trim s)")
  case True
  define c where "c = dropWhile (\<lambda>c. c = 48) (u_trim s)"
  have v: "u_val c = u_val (u_trim s)" by (simp add: c_def u_val_dropWhile_zero)
  have c: "list_all u_digit c" "c = [] \<or> 48 < hd c"
    unfolding c_def using True u_trim_idem_dropWhile hd_dropWhile_zero [of "u_trim s"] by blast+
  show ?thesis
  proof (cases "c = []")
    case True
    with v \<open>u_trim s \<noteq> [] \<and> _\<close> show ?thesis
      by (simp add: scaled_requirement_text_eq c_def [symmetric] u_digit_def u_val_def Let_def)
  next
    case False
    with c round_up_tenth_value round_up_tenth_canonical v \<open>u_trim s \<noteq> [] \<and> _\<close>
    show ?thesis by (simp add: scaled_requirement_text_eq c_def [symmetric] Let_def)
  qed
qed (auto simp: scaled_requirement_text_eq)

text \<open>\<open>scaled_requirement_text\<close> is exact for numbers of any length: it rejects exactly the
  texts that are not a decimal number after trimming, and otherwise gives the canonical digits of
  the tenth of the number, rounded up.\<close>

lemma scaled_requirement_text_exact:
  "case scaled_requirement_text s of
     None \<Rightarrow> \<not> (u_trim s \<noteq> [] \<and> list_all u_digit (u_trim s))
   | Some t \<Rightarrow> u_trim s \<noteq> [] \<and> list_all u_digit (u_trim s) \<and> list_all u_digit t
               \<and> u_val t = (u_val (u_trim s) + 9) div 10 \<and> (t = [48] \<or> 48 < hd t)"
  by (rule scaled_requirement_text_cases)

text \<open>
  The float version: multiplying by the double nearest 0.1 is exact on multiples of ten, because
  the double is \<open>(1 + 2 powi -54) / 10\<close> and the error stays below half a unit in the last place.
\<close>

lemma f64_tenth_eq: "f64_tenth = Fin ((1 + 1 / 2 ^ 54) / 10)"
proof -
  have "round64 (1 / 10) = Fin (of_int 7205759403792794 * 2 powi (- 4 - 52))"
    by (rule round64_eqI) (simp_all add: power_int_def power_divide)
  then show ?thesis by (simp add: f64_tenth_def power_int_def power_divide)
qed

lemma tenth_of_multiple:
  assumes "0 < m" "m < 2 ^ 49"
  shows "round64 (of_int m * (1 + 1 / 2 ^ 54)) = Fin (of_int m)"
proof -
  let ?k = "ilog2 (of_int m)"
  have m: "(0::rat) < of_int m" using assms by simp
  note b = ilog2_bounds [OF m]
  have up: "(of_int m :: rat) < 2 powi 49"
  proof -
    have "(of_int m :: rat) < of_int (2 ^ 49)" using assms(2) by (simp only: of_int_less_iff)
    then show ?thesis by (simp add: power_int_def)
  qed
  have k: "0 \<le> ?k" "?k < 49" using assms m up by (auto intro!: ilog2_ge ilog2_less)
  define P where "P = (2::rat) powi (52 - ?k)"
  have P: "(2::rat) powi (?k - 52) * P = 1" "P * 2 powi (?k + 1) = 2 ^ 53" "P = of_int (2 ^ nat (52 - ?k))"
    unfolding P_def powi_two_add using k by (simp_all add: power_int_def)
  have "round64 (of_int m * (1 + 1 / 2 ^ 54)) = Fin (of_int (m * 2 ^ nat (52 - ?k)) * 2 powi (?k - 52))"
  proof (rule round64_eqI)
    have "(0::rat) \<le> of_int m * (1 / 2 ^ 54)" using m by simp
    then show "2 powi ?k \<le> (of_int m * (1 + 1 / 2 ^ 54) :: rat)" using b(1) by (simp add: distrib_left)
    have "(of_int m :: rat) < of_int (2 ^ nat (?k + 1))" using b(2) k by (simp add: power_int_def)
    then have "m + 1 \<le> 2 ^ nat (?k + 1)" by (simp only: of_int_less_iff)
    then have "(of_int (m + 1) :: rat) \<le> of_int (2 ^ nat (?k + 1))" by (simp only: of_int_le_iff)
    then have "of_int m + 1 \<le> (2::rat) powi (?k + 1)" using k by (simp add: power_int_def)
    moreover have "of_int m / 2 ^ 54 < (1::rat)" using up by simp
    ultimately show "of_int m * (1 + 1 / 2 ^ 54) < (2::rat) powi (?k + 1)" by (simp add: distrib_left)
    have "of_int m * P < 2 powi (?k + 1) * P" using b(2) by (simp add: P_def)
    also have "\<dots> = 2 ^ 53" using P(2) by (simp add: mult.commute)
    finally have l: "of_int m * P < 2 ^ 53" .
    have "of_int m * (1 + 1 / 2 ^ 54) * P - of_int (m * 2 ^ nat (52 - ?k)) = of_int m * P / 2 ^ 54"
      using P(3) by (simp add: field_simps)
    with l m show "\<bar>of_int m * (1 + 1 / 2 ^ 54) * 2 powi (52 - ?k) - of_int (m * 2 ^ nat (52 - ?k))\<bar> < (1 / 2::rat)"
      unfolding P_def [symmetric] using P_def by simp
    have "of_int (m * 2 ^ nat (52 - ?k)) * (2::rat) powi (?k - 52) = of_int m"
      using P(1,3) by (simp add: algebra_simps)
    also have "\<dots> < 2 powi 49" by (rule up)
    also have "\<dots> \<le> 2 powi 1024" by (rule powi_two_mono) simp
    finally show "of_int (m * 2 ^ nat (52 - ?k)) * (2::rat) powi (?k - 52) < 2 powi 1024" .
  qed (use assms k in simp_all)
  then show ?thesis using P(1,3) by (simp add: algebra_simps)
qed

lemma tenth_between:
  assumes "0 \<le> m" "m < 2 ^ 49" "of_int m + 1 / 16 \<le> q" "q \<le> of_int (m + 1)"
  shows "fceil (round64 q) = Fin (of_int (m + 1))"
proof -
  have q: "0 \<le> q" proof -
    have "(0::rat) \<le> of_int m" using assms(1) by simp
    with assms(3) show ?thesis by linarith
  qed
  obtain w where w: "round64 q = Fin w" "w \<le> of_int (m + 1)"
    using round64_upto_int [OF q assms(4)] assms(1,2) by auto
  have rep: "representable 53 (- 1074) 1024 (of_int m + 1 / 16)"
    unfolding representable_def
  proof (intro conjI exI)
    show "(of_int m + 1 / 16 :: rat) = of_int (16 * m + 1) * 2 powi (- 4)"
      by (simp add: power_int_def power_divide)
    have "of_int \<bar>16 * m + 1\<bar> < (of_int (2 ^ 53) :: rat)" using assms(1,2) by (simp only: of_int_less_iff) simp
    then show "of_int \<bar>16 * m + 1\<bar> < (2::rat) powi 53" by (simp add: power_int_def)
    have "(of_int m :: rat) < of_int (2 ^ 49)" using assms(2) by (simp only: of_int_less_iff)
    moreover have "(2::rat) powi 60 \<le> 2 powi 1024" by (rule powi_two_mono) simp
    moreover have "(0::rat) \<le> of_int m" using assms(1) by simp
    ultimately show "\<bar>of_int m + 1 / 16\<bar> < (2::rat) powi 1024" by (simp add: power_int_def)
  qed simp
  have "of_int m + 1 / 16 \<le> w"
    using rep _ assms(3) w(1) unfolding round64_def by (rule round_fmt_lower) (use assms(1) in simp_all)
  then have "\<lceil>w\<rceil> = m + 1" using w(2) by (intro ceiling_unique) simp_all
  then show ?thesis by (simp add: w(1) fceil_def)
qed

lemma fmul_tenth:
  assumes "0 < n" "n < 2 ^ 52"
  shows "fceil (fmul (Fin (of_int n)) f64_tenth) = Fin (of_int ((n + 9) div 10))"
proof -
  define m r where "m = n div 10" and "r = n mod 10"
  have n: "n = 10 * m + r" and r: "0 \<le> r" "r < 10" by (simp_all add: m_def r_def)
  have m: "0 \<le> m" "m < 2 ^ 49" using assms n r by simp_all
  have mul: "fmul (Fin (of_int n)) f64_tenth = round64 (of_int n * ((1 + 1 / 2 ^ 54) / 10))"
    by (simp add: f64_tenth_eq fmul_def)
  show ?thesis
  proof (cases "r = 0")
    case True
    with n have "of_int n * ((1 + 1 / 2 ^ 54) / 10) = (of_int m * (1 + 1 / 2 ^ 54) :: rat)" by simp
    note mul [unfolded this]
    moreover have "(n + 9) div 10 = m" "0 < m" using n True assms by simp_all
    ultimately show ?thesis using tenth_of_multiple [of m] m by (simp only: fceil_def flt_map_int.simps ceiling_of_int)
  next
    case False
    with n r have up: "(n + 9) div 10 = m + 1" by simp
    have "of_int r \<le> (9::rat)" "1 \<le> (of_int r::rat)" using r False by simp_all
    moreover have "(of_int n :: rat) = 10 * of_int m + of_int r" by (simp add: n)
    moreover have "0 < (of_int n :: rat)" "(of_int n :: rat) < of_int (2 ^ 52)"
      using assms by (simp_all only: of_int_less_iff of_int_0_less_iff)
    ultimately have "of_int m + 1 / 16 \<le> of_int n * ((1 + 1 / 2 ^ 54) / 10 :: rat)"
        "of_int n * ((1 + 1 / 2 ^ 54) / 10) \<le> (of_int (m + 1) :: rat)"
      by (simp_all add: algebra_simps)
    from tenth_between [OF m this] show ?thesis by (simp add: mul up)
  qed
qed

lemma scaled_requirement_int:
  assumes "0 < n" "n < 2 ^ 52"
  shows "scaled_requirement (Fin (of_int n)) False = Fin (of_int ((n + 9) div 10))"
proof -
  have "1 \<le> (n + 9) div 10" using assms(1) by simp
  then have "1 \<le> (of_int ((n + 9) div 10) :: rat)" by (simp only: of_int_1_le_iff)
  then show ?thesis using assms by (simp add: scaled_requirement_def fmul_tenth fmax_def fzero_def)
qed

text \<open>the threshold the server checks and the one it publishes agree: for every whole
  requirement below 2 to the 52, the double computation of \<open>scaled_requirement\<close> is the exact tenth
  rounded up, the number the text version prints.\<close>

lemma scaled_requirement_agrees_with_text:
  assumes "0 < n" "n < 2 ^ 52" and "u_trim s = s" "list_all u_digit s" "int (u_val s) = n"
  shows "\<exists>t. scaled_requirement_text s = Some t
    \<and> scaled_requirement (Fin (of_int n)) False = Fin (of_int (int (u_val t)))"
proof -
  from assms(1,5) have "s \<noteq> []" by auto
  with assms(3,4) scaled_requirement_text_cases [of s] obtain t
    where t: "scaled_requirement_text s = Some t" "u_val t = (u_val s + 9) div 10"
    by (cases "scaled_requirement_text s") auto
  from t(2) assms(5) have "int (u_val t) = (n + 9) div 10" by (simp add: zdiv_int)
  with t(1) scaled_requirement_int [OF assms(1,2)] show ?thesis by auto
qed

lemma scaled_requirement_agrees_with_text_witness:
  "\<exists>t. scaled_requirement_text [51, 48, 49] = Some t
    \<and> scaled_requirement (Fin (of_int 301)) False = Fin (of_int (int (u_val t)))"
  by (rule scaled_requirement_agrees_with_text)
     (simp_all add: u_trim_def u_space_def u_digit_def u_val_def)

subsection \<open>Upgrade costs\<close>

lemma memorial_upgrade_cost_ge_2:
  "memorial_upgrade_cost rank (Suc (Suc n)) = 1 + int (9 * min rank (Suc n) div Suc n)"
  by (simp add: memorial_upgrade_cost_def del: of_nat_Suc)

text \<open>the memorial price of a rank among the distinct prices is a single step 1 to 10, never
  falls from one rank to a higher one, and spans the whole range.\<close>

lemma memorial_upgrade_cost_range:
  "1 \<le> memorial_upgrade_cost rank (Suc n) \<and> memorial_upgrade_cost rank (Suc n) \<le> 10
   \<and> memorial_upgrade_cost rank (Suc n) \<le> memorial_upgrade_cost (rank + k) (Suc n)
   \<and> memorial_upgrade_cost 0 (Suc (Suc n)) = 1
   \<and> memorial_upgrade_cost (Suc n) (Suc (Suc n)) = 10"
proof (cases n)
  case 0
  then show ?thesis by (simp add: memorial_upgrade_cost_def)
next
  case (Suc m)
  have nine: "9 * Suc j div Suc j = (9::nat)" for j
    by (rule nonzero_mult_div_cancel_right) (rule nat.distinct(2))
  have "9 * min rank (Suc m) div Suc m \<le> 9 * Suc m div Suc m"
    by (intro div_le_mono mult_le_mono2 min.cobounded2)
  also have "\<dots> = 9" by (rule nine)
  finally have up: "9 * min rank (Suc m) div Suc m \<le> 9" .
  have "9 * min rank (Suc m) div Suc m \<le> 9 * min (rank + k) (Suc m) div Suc m"
    by (intro div_le_mono mult_le_mono2 min.mono) simp_all
  with up nine [of "Suc m"] show ?thesis
    by (simp add: Suc memorial_upgrade_cost_ge_2 del: of_nat_Suc mult_Suc_right)
qed

lemma round_away_bounds:
  assumes "0 \<le> q" "q \<le> of_int n"
  shows "0 \<le> round_away q \<and> round_away q \<le> n"
proof -
  have "\<lfloor>q + 1 / 2\<rfloor> \<le> n" using assms(2) by (simp add: floor_le_iff)
  moreover have "0 \<le> \<lfloor>q + 1 / 2\<rfloor>" using assms(1) by simp
  ultimately show ?thesis using assms(1) by (simp add: round_away_def)
qed

lemma as_i64_scaled_ratio:
  assumes "0 \<le> n" "n < 9007199254740992"
  shows "0 \<le> as_i64 (fround (fmul (fclamp x (Fin 0) (Fin 1)) (f64_of_int n)))
    \<and> as_i64 (fround (fmul (fclamp x (Fin 0) (Fin 1)) (f64_of_int n))) \<le> n"
proof (cases "fclamp x (Fin 0) (Fin 1)")
  case (Fin q)
  then have q: "0 \<le> q" "q \<le> 1" by (cases x; auto simp: fclamp_def split: if_splits)+
  have n: "f64_of_int n = Fin (of_int n)" using assms by (intro f64_of_int_exact) simp
  have "0 \<le> q * of_int n" "q * of_int n \<le> of_int n"
    using q assms by (simp_all add: mult_left_le_one_le)
  then obtain w where w: "round64 (q * of_int n) = Fin w" "0 \<le> w" "w \<le> of_int n"
    using round64_upto_int [of "q * of_int n" n] assms by auto
  with round_away_bounds [of w n] assms show ?thesis
    by (simp add: Fin n fmul_def fround_def as_i64_def)
next
  case NaN
  with assms show ?thesis by (simp add: fmul_def f64_of_int_exact as_i64_def fround_def)
qed (cases x; simp add: fclamp_def split: if_splits)+

text \<open>whatever the prices are (NaN and infinities included), the level-price cap of a premium
  upgrade is zero for a free entry and otherwise between 10 and 20.\<close>

lemma premium_upgrade_cap_range:
  "(let cap = premium_upgrade_cap (upgrade_costs embedded_policy) final_price minimum maximum
    in if flt_le final_price fzero then cap = 0 else 10 \<le> cap \<and> cap \<le> 20)"
  using as_i64_scaled_ratio [of 10]
  by (simp add: premium_upgrade_cap_def embedded_policy_def Let_def)

subsection \<open>Pass seasons\<close>

lemma succ_mod_13: "((x::int) + 1) mod 13 = (if x mod 13 = 12 then 0 else x mod 13 + 1)"
proof -
  have "(x mod 13 + 1) mod 13 = (x + 1) mod 13" by (rule mod_add_left_eq)
  moreover have "0 \<le> x mod 13" "x mod 13 < 13" by simp_all
  ultimately show ?thesis
    by (cases "x mod 13 = 12") (simp, smt (verit) mod_pos_pos_trivial)
qed


lemma pass_season_range: "1 \<le> pass_season clock d s \<and> pass_season clock d s \<le> 13"
proof -
  have "0 \<le> x mod 13 \<and> x mod 13 < (13::int)" for x by simp
  then show ?thesis by (simp only: pass_season_def pass_seasons_def Let_def) (smt (verit))
qed

lemma pass_season_eq:
  assumes "\<bar>local_epoch_day clock\<bar> \<le> 2 ^ 60" "\<bar>d\<bar> \<le> 2 ^ 60" "1 \<le> s" "s \<le> 13"
  shows "pass_season clock d s = (s - 1 + (local_epoch_day clock - d)) mod 13 + 1"
proof -
  have "in_i64 (local_epoch_day clock - d)" "in_i64 (s - 1)"
    "in_i64 (s - 1 + (local_epoch_day clock - d))"
    using assms by (auto simp: in_i64_def)
  then show ?thesis by (simp add: pass_season_def pass_seasons_def wrap_i64_id sat_i64_id)
qed

text \<open>C40: the pass season follows the device-local calendar: the anchor season on the anchor day,
  the next season (13 wraps to 1) when one more local day has passed, and always one of the 13.\<close>

theorem pass_season_rotates:
  assumes "1 \<le> s" "s \<le> 13" "\<bar>d\<bar> \<le> 2 ^ 60"
    and "\<bar>local_epoch_day c\<bar> < 2 ^ 60"
    and "local_epoch_day c' = local_epoch_day c + 1"
  shows "1 \<le> pass_season c d s \<and> pass_season c d s \<le> 13
    \<and> pass_season c (local_epoch_day c) s = s
    \<and> pass_season c' d s = (if pass_season c d s = 13 then 1 else pass_season c d s + 1)"
proof -
  let ?x = "s - 1 + (local_epoch_day c - d)"
  have 1: "pass_season c d s = ?x mod 13 + 1" "pass_season c (local_epoch_day c) s = s"
    using pass_season_eq [of c d s] pass_season_eq [of c "local_epoch_day c" s] assms by simp_all
  have "pass_season c' d s = (?x + 1) mod 13 + 1"
    using pass_season_eq [of c' d s] assms by (simp add: algebra_simps)
  moreover have "(?x + 1) mod 13 = (if ?x mod 13 = 12 then 0 else ?x mod 13 + 1)" by (rule succ_mod_13)
  ultimately show ?thesis using 1 pass_season_range [of c d s] by auto
qed

theorem pass_season_rotates_witness:
  "pass_season \<lparr>unix_seconds = 864000, utc_offset_minutes = 0\<rparr> 9 13 = 1"
  using pass_season_rotates [of 13 9 "\<lparr>unix_seconds = 777600, utc_offset_minutes = 0\<rparr>"
      "\<lparr>unix_seconds = 864000, utc_offset_minutes = 0\<rparr>"]
  by (simp add: local_epoch_day_def wrap_i64_def)

end
