(* ===== verification/Schema.thy ===== *)
theory Schema
  imports Domain Decimal
begin

text \<open>
  The database of \<open>crates/persistence-sqlite\<close>: the rows and tables of
  \<open>migrations/0001_initial.sql\<close> that the code uses, the error type, the mutation envelope and the
  key conversions of \<open>src/lib.rs\<close>, and the relation \<open>player_step\<close> that says what an operation of
  one player may touch.

  One record type per table holds the columns outside the primary key (a table with a single such
  column stores the value itself). A primary key that starts with the USN is a tuple that starts
  with it. \<open>CHECK (c IN (0,1))\<close> columns are \<open>bool\<close> when the code only writes the two constants.
\<close>

section \<open>Errors\<close>

text \<open>
  The errors of \<open>rusqlite\<close> the code can meet: a \<open>query_row\<close> without a row, a violated constraint
  (\<open>CHECK\<close>, \<open>NOT NULL\<close>, uniqueness, foreign key or the strict column type), a column value out of
  the range of the Rust type it is read into, a failed conversion inside a row callback, and a table,
trigger or index created under a name that is taken.
\<close>

datatype sql_error = NoRows | Constraint | IntegralValueOutOfRange | InvalidColumnType
  | ConversionFailure | ObjectExists

datatype store_error =
    Io string
  | Sql sql_error
  | Domain domain_error
  | MissingSlot int
  | NoActiveSlot
  | MissingMail int
  | MailAlreadyClaimed int
  | ActorUnavailable string
  | InvalidReplay string
  | IdempotencyConflict
  | ActiveSlot int
  | Integrity string
  | UnsupportedSchema int int
  | UnsupportedReward string

record rpc_mutation =
  mu_nonce :: int
  mu_identity :: user_identity
  mu_request_seq :: int
  mu_rpc :: string
  mu_idempotency_key :: string
  mu_committed_at :: int

abbreviation mu_usn :: "rpc_mutation \<Rightarrow> int" where
  "mu_usn m \<equiv> id_usn (mu_identity m)"

record slot_view =
  sv_usn :: int
  sv_user_id :: string
  sv_display_name :: string
  sv_created_at :: int
  sv_updated_at :: int
  sv_active :: bool
  sv_pending :: bool

section \<open>Tables\<close>

record slot_row =
  slr_user_id :: "string"
  slr_display_name :: "string"
  slr_created_at :: "int"
  slr_updated_at :: "int"

record runtime_row =
  rsr_active_usn :: "int option"
  rsr_pending_usn :: "int option"
  rsr_session_nonce :: "int"

record session_row =
  ser_usn :: "int"
  ser_capability_hash :: "nat list"
  ser_started_at :: "int"
  ser_device_time :: "int"
  ser_utc_offset_minutes :: "int"
  ser_last_request_seq :: "int"
  ser_ended_at :: "int option"

record user_core_row =
  ucr_nickname :: "string"
  ucr_fans :: "f64"
  ucr_fan_level :: "int"
  ucr_avatar_id :: "int option"
  ucr_title_id :: "int option"
  ucr_last_save_time :: "int"
  ucr_device_uuid :: "string"

record area_row =
  arr_area_level :: "int"
  arr_current_costume :: "int option"
  arr_current_guitar :: "int option"
  arr_current_music :: "int option"
  arr_fans :: "f64"
  arr_candy :: "f64"
  arr_gp :: "f64"
  arr_unlocked :: "bool"

record owned_row =
  owr_area :: "int"
  owr_acquired_at :: "int"
  owr_source :: "string"

record level_row =
  lvr_level :: "int"
  lvr_reward_level :: "int"

record music_state_row =
  msr_encore_appears :: "int"
  msr_encore_follower_id :: "int option"
  msr_encore_ready_at :: "int"
  msr_ch3_active_until :: "int"

record skill_row =
  skr_active :: "bool"
  skr_active_from :: "int"
  skr_active_until :: "int"
  skr_reset_ready_at :: "int"

record buff_row =
  bfr_active_at :: "int"
  bfr_expires_at :: "int"

record ad_level_row =
  alr_level :: "int"
  alr_experience :: "int"

record ad_state_row =
  adr_local_day :: "int"
  adr_day_count :: "int"
  adr_total_count :: "int"
  adr_last_view_time :: "int"

record flag_row =
  flr_value :: "int"
  flr_updated_at :: "int"

record achievement_row =
  acr_quantity :: "f64"
  acr_quantity_text :: "string"
  acr_updated_at :: "int"

record mission_row =
  dmr_quantity :: "f64"
  dmr_updated_at :: "int"

record attendance_row =
  atr_attendance_count :: "int"
  atr_continuous_count :: "int"
  atr_max_continuous_count :: "int"
  atr_last_local_day :: "int option"

record event_row =
  evr_points :: "int"
  evr_step :: "int"

record selected_row =
  srr_selection_id :: "int"
  srr_reward_group_id :: "int"
  srr_alternate_reward_group_id :: "int"
  srr_selected_at :: "int"

record quest_row =
  qur_completed :: "bool"
  qur_infinite :: "bool"
  qur_updated_at :: "int"

record condition_row =
  qcr_quantity :: "f64"
  qcr_claimed :: "bool"

record affection_row =
  afr_experience :: "int"
  afr_level :: "int"

record room_row =
  mrr_state :: "int"
  mrr_last_confirm_index :: "int"
  mrr_unlock_group_list :: "string"
  mrr_update_time_ticks :: "int"
  mrr_updated_at :: "int"

record review_row =
  rvr_point :: "f64"
  rvr_updated_at :: "int"

record bookmark_row =
  bkr_flag :: "int"
  bkr_updated_at :: "int"

record score_row =
  scr_score :: "int"
  scr_grade :: "int"
  scr_play_count :: "int"
  scr_combo_grade :: "int"
  scr_gp :: "int"
  scr_multiple :: "f64"
  scr_achievement :: "int"
  scr_play_type :: "int"
  scr_played_at :: "string"
  scr_mission_clear :: "int"
  scr_is_credit :: "int"
  scr_updated_at :: "int"

record anchor_row =
  anr_local_day :: "int"
  anr_season :: "int"
  anr_utc_offset_minutes :: "int"
  anr_updated_at :: "int"

record progress_row =
  ppr_points :: "int"
  ppr_step :: "int"

record entitlement_row =
  enr_premium :: "bool"
  enr_lounge :: "bool"

record mail_row =
  mar_subject_key :: "string"
  mar_body_key :: "string"
  mar_created_at :: "int"
  mar_read_at :: "int option"
  mar_claimed_at :: "int option"
  mar_deleted_at :: "int option"

record mail_reward_row =
  mwr_reward_kind :: "string"
  mwr_reward_id :: "int option"
  mwr_amount :: "f64 option"
  mwr_area :: "int"

record energy_row =
  eyr_amount :: "int"
  eyr_cap :: "int"
  eyr_calculated_at :: "int"

record stage_row =
  sgr_chapter :: "int"
  sgr_stage_index :: "int"
  sgr_completed :: "bool"
  sgr_best_star :: "int"
  sgr_best_score :: "int"
  sgr_unlocked :: "bool"

record drop_row =
  drr_reward_kind :: "string"
  drr_reward_id :: "int option"
  drr_amount :: "f64"

record purchase_row =
  ptr_purchase_kind :: "string"
  ptr_target_id :: "int"
  ptr_status :: "string"
  ptr_created_at :: "int"

record reward_tx_row =
  rtr_source :: "string"
  rtr_reward_json :: "string"
  rtr_created_at :: "int"

record revision_row =
  revr_revision :: "int"
  revr_last_request_seq :: "int"
  revr_updated_at :: "int"

record ledger_row =
  lgr_request_seq :: "int"
  lgr_rpc :: "string"
  lgr_idempotency_key :: "string"
  lgr_committed_at :: "int"
  lgr_summary_json :: "string"

record db =
  runtime_selection :: runtime_row
  save_slots :: "(int, slot_row) table"
  login_sessions :: "(int, session_row) table"
  user_core :: "(int, user_core_row) table"
  area_state :: "(int \<times> int, area_row) table"
  currencies :: "(int \<times> string, f64) table"
  owned_content :: "(int \<times> string \<times> int, owned_row) table"
  content_levels :: "(int \<times> string \<times> int, level_row) table"
  music_state :: "(int \<times> int, music_state_row) table"
  skill_activation :: "(int \<times> int, skill_row) table"
  buff_timers :: "(int \<times> int, buff_row) table"
  ad_levels :: "(int \<times> int, ad_level_row) table"
  ad_state :: "(int \<times> int, ad_state_row) table"
  tutorial_completed :: "(int \<times> int, int) table"
  one_time_flags :: "(int \<times> string, flag_row) table"
  achievement_progress :: "(int \<times> int, achievement_row) table"
  achievement_claims :: "(int \<times> int \<times> int, int) table"
  daily_missions :: "(int \<times> int, mission_row) table"
  daily_mission_claims :: "(int \<times> int \<times> int \<times> int, int) table"
  attendance_days :: "(int \<times> int, int) table"
  attendance_state :: "(int, attendance_row) table"
  event_points :: "(int \<times> string \<times> int \<times> int, event_row) table"
  selected_rewards :: "(int \<times> int, selected_row) table"
  follower_quests :: "(int \<times> int \<times> int, quest_row) table"
  quest_conditions :: "(int \<times> int \<times> int \<times> int, condition_row) table"
  gifts :: "(int \<times> int, int) table"
  affection :: "(int \<times> int, affection_row) table"
  affection_claims :: "(int \<times> int \<times> int, int) table"
  messenger_rooms :: "(int \<times> int, room_row) table"
  music_reviews :: "(int \<times> int \<times> int, review_row) table"
  music_bookmarks :: "(int \<times> int, bookmark_row) table"
  music_scores :: "(int \<times> int \<times> int, score_row) table"
  pass_anchors :: "(int, anchor_row) table"
  pass_progress :: "(int \<times> int \<times> int, progress_row) table"
  pass_claims :: "(int \<times> int \<times> int \<times> int \<times> int, int) table"
  pass_entitlements :: "(int \<times> int, entitlement_row) table"
  mail :: "(int \<times> int, mail_row) table"
  mail_rewards :: "(int \<times> int, mail_reward_row) table"
  mail_state :: "(int, int) table"
  ticket_collection :: "(int \<times> int, int) table"
  ch3_energy :: "(int, energy_row) table"
  ch3_stages :: "(int \<times> int, stage_row) table"
  ch3_drops :: "(int \<times> string \<times> int \<times> int, drop_row) table"
  ch3_chapter_claims :: "(int \<times> int \<times> int, int) table"
  purchase_transactions :: "(int \<times> string, purchase_row) table"
  reward_transactions :: "(int \<times> string, reward_tx_row) table"
  state_revisions :: "(int \<times> string, revision_row) table"
  mutation_ledger :: "(int \<times> int, ledger_row) table"

type_synonym 'a store = "(store_error, db, 'a) tx"

section \<open>Statements\<close>

text \<open>
  \<open>INSERT\<close> without a conflict clause fails on an existing key. \<open>sql_int\<close> is an integer computed by
  SQL and bound or read as an \<open>INTEGER\<close>: beyond 64 bits SQLite turns to a real, which neither a
  strict column nor \<open>row.get::<i64>\<close> accepts.
\<close>

definition insert_row ::
  "(db \<Rightarrow> ('k::linorder, 'v) table) \<Rightarrow> ((('k, 'v) table \<Rightarrow> ('k, 'v) table) \<Rightarrow> db \<Rightarrow> db)
   \<Rightarrow> 'k \<Rightarrow> 'v \<Rightarrow> unit store" where
  "insert_row tbl upd k v =
     tx_bind (tx_gets (\<lambda>s. tbl_has (tbl s) k)) (\<lambda>dup.
       tx_then (tx_require (\<not> dup) (Sql Constraint)) (tx_modify (upd (tbl_put k v))))"

definition sql_int :: "int \<Rightarrow> unit store" where
  "sql_int x = tx_require (in_i64 x) (Sql InvalidColumnType)"

text \<open>\<open>row.get::<i32>\<close> of a 64-bit column.\<close>

definition read_i32 :: "int \<Rightarrow> unit store" where
  "read_i32 x = tx_require (in_i32 x) (Sql IntegralValueOutOfRange)"

definition query_row :: "(db \<Rightarrow> 'a option) \<Rightarrow> 'a store" where
  "query_row f = tx_bind (tx_gets f) (tx_expect (Sql NoRows))"

definition sql_check :: "bool \<Rightarrow> unit store" where
  "sql_check b = tx_require b (Sql Constraint)"

definition domain_require :: "bool \<Rightarrow> domain_error \<Rightarrow> unit store" where
  "domain_require b e = tx_require b (Domain e)"

text \<open>A real column: SQLite stores a NaN as \<open>NULL\<close>, which \<open>NOT NULL\<close> rejects.\<close>

definition real_col :: "f64 \<Rightarrow> bool" where
  "real_col x \<longleftrightarrow> x \<noteq> NaN"

definition amount_col :: "f64 \<Rightarrow> bool" where
  "amount_col x \<longleftrightarrow> flt_le fzero x"

lemma insert_row_Inr [tx_simps]:
  "insert_row tbl upd k v s = Inr r \<longleftrightarrow> \<not> tbl_has (tbl s) k \<and> r = ((), upd (tbl_put k v) s)"
  by (auto simp: insert_row_def tx_simps)

lemma sql_int_Inr [tx_simps]: "sql_int x s = Inr r \<longleftrightarrow> in_i64 x \<and> r = ((), s)"
  by (simp add: sql_int_def tx_simps)

lemma read_i32_Inr [tx_simps]: "read_i32 x s = Inr r \<longleftrightarrow> in_i32 x \<and> r = ((), s)"
  by (simp add: read_i32_def tx_simps)

lemma query_row_Inr [tx_simps]: "query_row f s = Inr r \<longleftrightarrow> (\<exists>x. f s = Some x \<and> r = (x, s))"
  by (auto simp: query_row_def tx_simps)

lemma sql_check_Inr [tx_simps]: "sql_check b s = Inr r \<longleftrightarrow> b \<and> r = ((), s)"
  by (simp add: sql_check_def tx_simps)

lemma domain_require_Inr [tx_simps]: "domain_require b e s = Inr r \<longleftrightarrow> b \<and> r = ((), s)"
  by (simp add: domain_require_def tx_simps)

lemma insert_row_run:
  "\<not> tbl_has (tbl s) k \<Longrightarrow> insert_row tbl upd k v s = Inr ((), upd (tbl_put k v) s)"
  by (simp add: insert_row_def tx_run)

lemmas store_run = tx_run insert_row_def sql_int_def read_i32_def query_row_def sql_check_def domain_require_def
  real_col_def amount_col_def

section \<open>Keys\<close>

definition currency_from_key :: "string \<Rightarrow> currency_kind option" where
  "currency_from_key key = find (\<lambda>kind. currency_key kind = key) all_currencies"

definition content_from_key :: "string \<Rightarrow> content_kind option" where
  "content_from_key key =
     (if key = ''character'' then Some Character
      else if key = ''costume'' then Some Costume
      else if key = ''guitar'' then Some Guitar
      else if key = ''music'' then Some Music
      else if key = ''skill'' then Some Skill
      else if key = ''unit'' then Some Unit
      else if key = ''follower'' then Some Follower
      else if key = ''prop'' then Some Prop
      else if key = ''buff'' then Some Buff
      else if key = ''gift'' then Some Gift
      else None)"

fun content_key :: "content_kind \<Rightarrow> string" where
  "content_key Character = ''character''"
| "content_key Costume = ''costume''"
| "content_key Guitar = ''guitar''"
| "content_key Music = ''music''"
| "content_key Skill = ''skill''"
| "content_key Unit = ''unit''"
| "content_key Follower = ''follower''"
| "content_key Prop = ''prop''"
| "content_key Buff = ''buff''"
| "content_key Gift = ''gift''"

definition to_i32_saturated :: "int \<Rightarrow> int" where
  "to_i32_saturated value = clamp_int i32_min i32_max value"

lemma content_from_content_key [simp]: "content_from_key (content_key k) = Some k"
  by (cases k) (simp_all add: content_from_key_def)

lemma content_key_inject: "content_key a = content_key b \<longleftrightarrow> a = b"
  by (metis content_from_content_key option.inject)

lemma currency_from_currency_key [simp]: "currency_from_key (currency_key k) = Some k"
  by (cases k) (simp_all add: currency_from_key_def all_currencies_def)

section \<open>What an operation of one player may touch\<close>

text \<open>
  \<open>frame\<close>: the sessions, the slots, the selection and the ledger, which only the session layer
  writes. \<open>player_step u\<close>: the frame is the same, and every other table makes a \<open>table_step\<close> of
  player \<open>u\<close>.
\<close>

definition frame :: "db \<Rightarrow> db \<Rightarrow> bool" where
  "frame s t \<longleftrightarrow> runtime_selection t = runtime_selection s \<and> save_slots t = save_slots s
     \<and> login_sessions t = login_sessions s \<and> mutation_ledger t = mutation_ledger s"

definition player_rows :: "int \<Rightarrow> db \<Rightarrow> db \<Rightarrow> bool" where
  "player_rows u s t \<longleftrightarrow>
     table_step1 u (user_core s) (user_core t)
     \<and> table_step u (area_state s) (area_state t)
     \<and> table_step u (currencies s) (currencies t)
     \<and> table_step u (owned_content s) (owned_content t)
     \<and> table_step u (content_levels s) (content_levels t)
     \<and> table_step u (music_state s) (music_state t)
     \<and> table_step u (skill_activation s) (skill_activation t)
     \<and> table_step u (buff_timers s) (buff_timers t)
     \<and> table_step u (ad_levels s) (ad_levels t)
     \<and> table_step u (ad_state s) (ad_state t)
     \<and> table_step u (tutorial_completed s) (tutorial_completed t)
     \<and> table_step u (one_time_flags s) (one_time_flags t)
     \<and> table_step u (achievement_progress s) (achievement_progress t)
     \<and> table_step u (achievement_claims s) (achievement_claims t)
     \<and> table_step u (daily_missions s) (daily_missions t)
     \<and> table_step u (daily_mission_claims s) (daily_mission_claims t)
     \<and> table_step u (attendance_days s) (attendance_days t)
     \<and> table_step1 u (attendance_state s) (attendance_state t)
     \<and> table_step u (event_points s) (event_points t)
     \<and> table_step u (selected_rewards s) (selected_rewards t)
     \<and> table_step u (follower_quests s) (follower_quests t)
     \<and> table_step u (quest_conditions s) (quest_conditions t)
     \<and> table_step u (gifts s) (gifts t)
     \<and> table_step u (affection s) (affection t)
     \<and> table_step u (affection_claims s) (affection_claims t)
     \<and> table_step u (messenger_rooms s) (messenger_rooms t)
     \<and> table_step u (music_reviews s) (music_reviews t)
     \<and> table_step u (music_bookmarks s) (music_bookmarks t)
     \<and> table_step u (music_scores s) (music_scores t)
     \<and> table_step1 u (pass_anchors s) (pass_anchors t)
     \<and> table_step u (pass_progress s) (pass_progress t)
     \<and> table_step u (pass_claims s) (pass_claims t)
     \<and> table_step u (pass_entitlements s) (pass_entitlements t)
     \<and> table_step u (mail s) (mail t)
     \<and> table_step u (mail_rewards s) (mail_rewards t)
     \<and> table_step1 u (mail_state s) (mail_state t)
     \<and> table_step u (ticket_collection s) (ticket_collection t)
     \<and> table_step1 u (ch3_energy s) (ch3_energy t)
     \<and> table_step u (ch3_stages s) (ch3_stages t)
     \<and> table_step u (ch3_drops s) (ch3_drops t)
     \<and> table_step u (ch3_chapter_claims s) (ch3_chapter_claims t)
     \<and> table_step u (purchase_transactions s) (purchase_transactions t)
     \<and> table_step u (reward_transactions s) (reward_transactions t)
     \<and> table_step u (state_revisions s) (state_revisions t)"

definition player_step :: "int \<Rightarrow> db \<Rightarrow> db \<Rightarrow> bool" where
  "player_step u s t \<longleftrightarrow> frame s t \<and> player_rows u s t"

lemma player_rows_refl: "player_rows u s s"
  by (simp add: player_rows_def)

lemma player_rows_trans: "player_rows u s t \<Longrightarrow> player_rows u t v \<Longrightarrow> player_rows u s v"
  unfolding player_rows_def by (blast intro: table_step_trans table_step1_trans)

interpretation player: step_relation "player_step u" for u
  by unfold_locales
     (auto simp: player_step_def frame_def intro: player_rows_refl player_rows_trans)

lemma player_step_frame:
  assumes "player_step u s t"
  shows "runtime_selection t = runtime_selection s" "save_slots t = save_slots s"
    "login_sessions t = login_sessions s" "mutation_ledger t = mutation_ledger s"
  using assms by (simp_all add: player_step_def frame_def)

text \<open>One rule per table: a statement on the player's own rows is a player step.\<close>

lemma modify_user_core: "own_rows1 u f \<Longrightarrow> tx_rel (player_step u) (tx_modify (user_core_update f))"
  by (rule player.modify) (simp add: player_step_def frame_def player_rows_def own_rows1_def)

lemma modify_area_state: "own_rows u f \<Longrightarrow> tx_rel (player_step u) (tx_modify (area_state_update f))"
  by (rule player.modify) (simp add: player_step_def frame_def player_rows_def own_rows_def)

lemma modify_currencies: "own_rows u f \<Longrightarrow> tx_rel (player_step u) (tx_modify (currencies_update f))"
  by (rule player.modify) (simp add: player_step_def frame_def player_rows_def own_rows_def)

lemma modify_owned_content: "own_rows u f \<Longrightarrow> tx_rel (player_step u) (tx_modify (owned_content_update f))"
  by (rule player.modify) (simp add: player_step_def frame_def player_rows_def own_rows_def)

lemma modify_content_levels: "own_rows u f \<Longrightarrow> tx_rel (player_step u) (tx_modify (content_levels_update f))"
  by (rule player.modify) (simp add: player_step_def frame_def player_rows_def own_rows_def)

lemma modify_music_state: "own_rows u f \<Longrightarrow> tx_rel (player_step u) (tx_modify (music_state_update f))"
  by (rule player.modify) (simp add: player_step_def frame_def player_rows_def own_rows_def)

lemma modify_skill_activation: "own_rows u f \<Longrightarrow> tx_rel (player_step u) (tx_modify (skill_activation_update f))"
  by (rule player.modify) (simp add: player_step_def frame_def player_rows_def own_rows_def)

lemma modify_buff_timers: "own_rows u f \<Longrightarrow> tx_rel (player_step u) (tx_modify (buff_timers_update f))"
  by (rule player.modify) (simp add: player_step_def frame_def player_rows_def own_rows_def)

lemma modify_ad_levels: "own_rows u f \<Longrightarrow> tx_rel (player_step u) (tx_modify (ad_levels_update f))"
  by (rule player.modify) (simp add: player_step_def frame_def player_rows_def own_rows_def)

lemma modify_ad_state: "own_rows u f \<Longrightarrow> tx_rel (player_step u) (tx_modify (ad_state_update f))"
  by (rule player.modify) (simp add: player_step_def frame_def player_rows_def own_rows_def)

lemma modify_tutorial_completed: "own_rows u f \<Longrightarrow> tx_rel (player_step u) (tx_modify (tutorial_completed_update f))"
  by (rule player.modify) (simp add: player_step_def frame_def player_rows_def own_rows_def)

lemma modify_one_time_flags: "own_rows u f \<Longrightarrow> tx_rel (player_step u) (tx_modify (one_time_flags_update f))"
  by (rule player.modify) (simp add: player_step_def frame_def player_rows_def own_rows_def)

lemma modify_achievement_progress: "own_rows u f \<Longrightarrow> tx_rel (player_step u) (tx_modify (achievement_progress_update f))"
  by (rule player.modify) (simp add: player_step_def frame_def player_rows_def own_rows_def)

lemma modify_achievement_claims: "own_rows u f \<Longrightarrow> tx_rel (player_step u) (tx_modify (achievement_claims_update f))"
  by (rule player.modify) (simp add: player_step_def frame_def player_rows_def own_rows_def)

lemma modify_daily_missions: "own_rows u f \<Longrightarrow> tx_rel (player_step u) (tx_modify (daily_missions_update f))"
  by (rule player.modify) (simp add: player_step_def frame_def player_rows_def own_rows_def)

lemma modify_daily_mission_claims: "own_rows u f \<Longrightarrow> tx_rel (player_step u) (tx_modify (daily_mission_claims_update f))"
  by (rule player.modify) (simp add: player_step_def frame_def player_rows_def own_rows_def)

lemma modify_attendance_days: "own_rows u f \<Longrightarrow> tx_rel (player_step u) (tx_modify (attendance_days_update f))"
  by (rule player.modify) (simp add: player_step_def frame_def player_rows_def own_rows_def)

lemma modify_attendance_state: "own_rows1 u f \<Longrightarrow> tx_rel (player_step u) (tx_modify (attendance_state_update f))"
  by (rule player.modify) (simp add: player_step_def frame_def player_rows_def own_rows1_def)

lemma modify_event_points: "own_rows u f \<Longrightarrow> tx_rel (player_step u) (tx_modify (event_points_update f))"
  by (rule player.modify) (simp add: player_step_def frame_def player_rows_def own_rows_def)

lemma modify_selected_rewards: "own_rows u f \<Longrightarrow> tx_rel (player_step u) (tx_modify (selected_rewards_update f))"
  by (rule player.modify) (simp add: player_step_def frame_def player_rows_def own_rows_def)

lemma modify_follower_quests: "own_rows u f \<Longrightarrow> tx_rel (player_step u) (tx_modify (follower_quests_update f))"
  by (rule player.modify) (simp add: player_step_def frame_def player_rows_def own_rows_def)

lemma modify_quest_conditions: "own_rows u f \<Longrightarrow> tx_rel (player_step u) (tx_modify (quest_conditions_update f))"
  by (rule player.modify) (simp add: player_step_def frame_def player_rows_def own_rows_def)

lemma modify_gifts: "own_rows u f \<Longrightarrow> tx_rel (player_step u) (tx_modify (gifts_update f))"
  by (rule player.modify) (simp add: player_step_def frame_def player_rows_def own_rows_def)

lemma modify_affection: "own_rows u f \<Longrightarrow> tx_rel (player_step u) (tx_modify (affection_update f))"
  by (rule player.modify) (simp add: player_step_def frame_def player_rows_def own_rows_def)

lemma modify_affection_claims: "own_rows u f \<Longrightarrow> tx_rel (player_step u) (tx_modify (affection_claims_update f))"
  by (rule player.modify) (simp add: player_step_def frame_def player_rows_def own_rows_def)

lemma modify_messenger_rooms: "own_rows u f \<Longrightarrow> tx_rel (player_step u) (tx_modify (messenger_rooms_update f))"
  by (rule player.modify) (simp add: player_step_def frame_def player_rows_def own_rows_def)

lemma modify_music_reviews: "own_rows u f \<Longrightarrow> tx_rel (player_step u) (tx_modify (music_reviews_update f))"
  by (rule player.modify) (simp add: player_step_def frame_def player_rows_def own_rows_def)

lemma modify_music_bookmarks: "own_rows u f \<Longrightarrow> tx_rel (player_step u) (tx_modify (music_bookmarks_update f))"
  by (rule player.modify) (simp add: player_step_def frame_def player_rows_def own_rows_def)

lemma modify_music_scores: "own_rows u f \<Longrightarrow> tx_rel (player_step u) (tx_modify (music_scores_update f))"
  by (rule player.modify) (simp add: player_step_def frame_def player_rows_def own_rows_def)

lemma modify_pass_anchors: "own_rows1 u f \<Longrightarrow> tx_rel (player_step u) (tx_modify (pass_anchors_update f))"
  by (rule player.modify) (simp add: player_step_def frame_def player_rows_def own_rows1_def)

lemma modify_pass_progress: "own_rows u f \<Longrightarrow> tx_rel (player_step u) (tx_modify (pass_progress_update f))"
  by (rule player.modify) (simp add: player_step_def frame_def player_rows_def own_rows_def)

lemma modify_pass_claims: "own_rows u f \<Longrightarrow> tx_rel (player_step u) (tx_modify (pass_claims_update f))"
  by (rule player.modify) (simp add: player_step_def frame_def player_rows_def own_rows_def)

lemma modify_pass_entitlements: "own_rows u f \<Longrightarrow> tx_rel (player_step u) (tx_modify (pass_entitlements_update f))"
  by (rule player.modify) (simp add: player_step_def frame_def player_rows_def own_rows_def)

lemma modify_mail: "own_rows u f \<Longrightarrow> tx_rel (player_step u) (tx_modify (mail_update f))"
  by (rule player.modify) (simp add: player_step_def frame_def player_rows_def own_rows_def)

lemma modify_mail_rewards: "own_rows u f \<Longrightarrow> tx_rel (player_step u) (tx_modify (mail_rewards_update f))"
  by (rule player.modify) (simp add: player_step_def frame_def player_rows_def own_rows_def)

lemma modify_mail_state: "own_rows1 u f \<Longrightarrow> tx_rel (player_step u) (tx_modify (mail_state_update f))"
  by (rule player.modify) (simp add: player_step_def frame_def player_rows_def own_rows1_def)

lemma modify_ticket_collection: "own_rows u f \<Longrightarrow> tx_rel (player_step u) (tx_modify (ticket_collection_update f))"
  by (rule player.modify) (simp add: player_step_def frame_def player_rows_def own_rows_def)

lemma modify_ch3_energy: "own_rows1 u f \<Longrightarrow> tx_rel (player_step u) (tx_modify (ch3_energy_update f))"
  by (rule player.modify) (simp add: player_step_def frame_def player_rows_def own_rows1_def)

lemma modify_ch3_stages: "own_rows u f \<Longrightarrow> tx_rel (player_step u) (tx_modify (ch3_stages_update f))"
  by (rule player.modify) (simp add: player_step_def frame_def player_rows_def own_rows_def)

lemma modify_ch3_drops: "own_rows u f \<Longrightarrow> tx_rel (player_step u) (tx_modify (ch3_drops_update f))"
  by (rule player.modify) (simp add: player_step_def frame_def player_rows_def own_rows_def)

lemma modify_ch3_chapter_claims: "own_rows u f \<Longrightarrow> tx_rel (player_step u) (tx_modify (ch3_chapter_claims_update f))"
  by (rule player.modify) (simp add: player_step_def frame_def player_rows_def own_rows_def)

lemma modify_purchase_transactions: "own_rows u f \<Longrightarrow> tx_rel (player_step u) (tx_modify (purchase_transactions_update f))"
  by (rule player.modify) (simp add: player_step_def frame_def player_rows_def own_rows_def)

lemma modify_reward_transactions: "own_rows u f \<Longrightarrow> tx_rel (player_step u) (tx_modify (reward_transactions_update f))"
  by (rule player.modify) (simp add: player_step_def frame_def player_rows_def own_rows_def)

lemma modify_state_revisions: "own_rows u f \<Longrightarrow> tx_rel (player_step u) (tx_modify (state_revisions_update f))"
  by (rule player.modify) (simp add: player_step_def frame_def player_rows_def own_rows_def)

lemmas modify_rules = modify_user_core modify_area_state modify_currencies modify_owned_content
  modify_content_levels modify_music_state modify_skill_activation modify_buff_timers
  modify_ad_levels modify_ad_state modify_tutorial_completed modify_one_time_flags
  modify_achievement_progress modify_achievement_claims modify_daily_missions
  modify_daily_mission_claims modify_attendance_days modify_attendance_state modify_event_points
  modify_selected_rewards modify_follower_quests modify_quest_conditions modify_gifts
  modify_affection modify_affection_claims modify_messenger_rooms modify_music_reviews
  modify_music_bookmarks modify_music_scores modify_pass_anchors modify_pass_progress
  modify_pass_claims modify_pass_entitlements modify_mail modify_mail_rewards modify_mail_state
  modify_ticket_collection modify_ch3_energy modify_ch3_stages modify_ch3_drops
  modify_ch3_chapter_claims modify_purchase_transactions modify_reward_transactions
  modify_state_revisions

text \<open>An insertion is a player step when the row belongs to the player.\<close>

definition row_update ::
  "int \<Rightarrow> (((int \<times> 'k::linorder, 'v) table \<Rightarrow> (int \<times> 'k, 'v) table) \<Rightarrow> db \<Rightarrow> db) \<Rightarrow> bool" where
  "row_update u upd \<longleftrightarrow>
     (\<forall>f. own_rows u f \<longrightarrow> tx_rel (player_step u) (tx_modify (upd f) :: unit store))"

definition row_update1 ::
  "int \<Rightarrow> (((int, 'v) table \<Rightarrow> (int, 'v) table) \<Rightarrow> db \<Rightarrow> db) \<Rightarrow> bool" where
  "row_update1 u upd \<longleftrightarrow>
     (\<forall>f. own_rows1 u f \<longrightarrow> tx_rel (player_step u) (tx_modify (upd f) :: unit store))"

lemma row_updates:
  "row_update u area_state_update"
  "row_update u currencies_update"
  "row_update u owned_content_update"
  "row_update u content_levels_update"
  "row_update u music_state_update"
  "row_update u skill_activation_update"
  "row_update u buff_timers_update"
  "row_update u ad_levels_update"
  "row_update u ad_state_update"
  "row_update u tutorial_completed_update"
  "row_update u one_time_flags_update"
  "row_update u achievement_progress_update"
  "row_update u achievement_claims_update"
  "row_update u daily_missions_update"
  "row_update u daily_mission_claims_update"
  "row_update u attendance_days_update"
  "row_update u event_points_update"
  "row_update u selected_rewards_update"
  "row_update u follower_quests_update"
  "row_update u quest_conditions_update"
  "row_update u gifts_update"
  "row_update u affection_update"
  "row_update u affection_claims_update"
  "row_update u messenger_rooms_update"
  "row_update u music_reviews_update"
  "row_update u music_bookmarks_update"
  "row_update u music_scores_update"
  "row_update u pass_progress_update"
  "row_update u pass_claims_update"
  "row_update u pass_entitlements_update"
  "row_update u mail_update"
  "row_update u mail_rewards_update"
  "row_update u ticket_collection_update"
  "row_update u ch3_stages_update"
  "row_update u ch3_drops_update"
  "row_update u ch3_chapter_claims_update"
  "row_update u purchase_transactions_update"
  "row_update u reward_transactions_update"
  "row_update u state_revisions_update"
  by (auto simp: row_update_def intro: modify_rules)

lemma row_updates1:
  "row_update1 u user_core_update"
  "row_update1 u attendance_state_update"
  "row_update1 u pass_anchors_update"
  "row_update1 u mail_state_update"
  "row_update1 u ch3_energy_update"
  by (auto simp: row_update1_def intro: modify_rules)

lemma insert_row_step:
  "row_update u upd \<Longrightarrow> tx_rel (player_step u) (insert_row tbl upd (u, k) v)"
  unfolding insert_row_def by (intro player.rules) (simp add: row_update_def tbl_own)

lemma insert_row_step1:
  "row_update1 u upd \<Longrightarrow> tx_rel (player_step u) (insert_row tbl upd u v)"
  unfolding insert_row_def by (intro player.rules) (simp add: row_update1_def tbl_own)

lemma sql_int_step: "tx_rel (player_step u) (sql_int x)"
  unfolding sql_int_def by (rule player.require)

lemma read_i32_step: "tx_rel (player_step u) (read_i32 x)"
  unfolding read_i32_def by (rule player.require)

lemma query_row_step: "tx_rel (player_step u) (query_row f)"
  unfolding query_row_def by (intro player.rules)

lemma sql_check_step: "tx_rel (player_step u) (sql_check b)"
  unfolding sql_check_def by (rule player.require)

lemma domain_require_step: "tx_rel (player_step u) (domain_require b e)"
  unfolding domain_require_def by (rule player.require)

lemmas player_rules = player.rules insert_row_step insert_row_step1 sql_int_step read_i32_step query_row_step
  sql_check_step domain_require_step modify_rules row_updates row_updates1 tbl_own

end
