(* ===== verification/Ledger.thy ===== *)
theory Ledger
  imports Schema
begin

text \<open>
  \<open>commit_rpc_mutation\<close> and \<open>commit_rpc_mutation_with_replay\<close> of
  \<open>crates/persistence-sqlite/src/lib.rs\<close>: session authorisation, the request sequence, the
  command and the idempotency ledger in one transaction. The serialisation by \<open>serde_json\<close> is the
  pair of parameters \<open>enc\<close> and \<open>dec\<close>, each of which may fail with a message.
\<close>

section \<open>The transaction\<close>

definition slot_has_user :: "db \<Rightarrow> user_identity \<Rightarrow> bool" where
  "slot_has_user s i =
     (case tbl_get (save_slots s) (id_usn i) of
        None \<Rightarrow> False
      | Some sl \<Rightarrow> slr_user_id sl = id_user_id i)"

definition session_open :: "db \<Rightarrow> int \<Rightarrow> int \<Rightarrow> bool" where
  "session_open s nonce u =
     (case tbl_get (login_sessions s) nonce of
        None \<Rightarrow> False
      | Some r \<Rightarrow> ser_usn r = u \<and> ser_ended_at r = None)"

definition active_session :: "db \<Rightarrow> rpc_mutation \<Rightarrow> bool" where
  "active_session s m \<longleftrightarrow> session_open s (mu_nonce m) (mu_usn m) \<and> slot_has_user s (mu_identity m)"

definition last_seq :: "db \<Rightarrow> int \<Rightarrow> int" where
  "last_seq s nonce =
     (case tbl_get (login_sessions s) nonce of None \<Rightarrow> 0 | Some r \<Rightarrow> ser_last_request_seq r)"

definition ledger_entry :: "db \<Rightarrow> int \<Rightarrow> string \<Rightarrow> ledger_row option" where
  "ledger_entry s u key =
     map_option snd (find (\<lambda>(k, r). fst k = u \<and> lgr_idempotency_key r = key) (mutation_ledger s))"

text \<open>\<open>UPDATE login_sessions\<close>: the number of changed rows is 0 or 1, the nonce being the key.\<close>

definition advance_sequence :: "rpc_mutation \<Rightarrow> bool store" where
  "advance_sequence m =
     tx_bind (tx_gets (\<lambda>s. active_session s m \<and> last_seq s (mu_nonce m) < mu_request_seq m)) (\<lambda>changed.
       tx_then
         (if changed
          then tx_modify (login_sessions_update
                 (tbl_at (mu_nonce m) (\<lambda>r. r\<lparr>ser_last_request_seq := mu_request_seq m\<rparr>)))
          else tx_return ())
         (tx_return changed))"

definition next_ledger_id :: "db \<Rightarrow> int \<Rightarrow> int" where
  "next_ledger_id s u =
     max_or_zero (map (\<lambda>(k, r). snd k) (filter (\<lambda>(k, r). fst k = u) (mutation_ledger s))) + 1"

definition ledger_row_of :: "rpc_mutation \<Rightarrow> string \<Rightarrow> ledger_row" where
  "ledger_row_of m serialized =
     \<lparr>lgr_request_seq = mu_request_seq m, lgr_rpc = mu_rpc m,
      lgr_idempotency_key = mu_idempotency_key m, lgr_committed_at = mu_committed_at m,
      lgr_summary_json = serialized\<rparr>"

text \<open>The insert checks the foreign key, the primary key and \<open>UNIQUE(usn,idempotency_key)\<close>.\<close>

definition record_mutation :: "rpc_mutation \<Rightarrow> string \<Rightarrow> unit store" where
  "record_mutation m serialized =
     tx_bind (tx_gets (\<lambda>s. next_ledger_id s (mu_usn m))) (\<lambda>ledger_id.
     tx_then (sql_int ledger_id)
    (tx_bind (tx_gets (\<lambda>s. tbl_has (save_slots s) (mu_usn m)
                 \<and> ledger_entry s (mu_usn m) (mu_idempotency_key m) = None)) (\<lambda>ok.
     tx_then (sql_check ok)
    (tx_then (insert_row mutation_ledger mutation_ledger_update (mu_usn m, ledger_id)
                (ledger_row_of m serialized))
             (tx_modify (save_slots_update
                (tbl_at (mu_usn m) (\<lambda>r. r\<lparr>slr_updated_at := mu_committed_at m\<rparr>))))))))"

definition commit_rpc_mutation_with_replay ::
  "('a \<Rightarrow> string + string) \<Rightarrow> (string \<Rightarrow> string + 'a) \<Rightarrow> rpc_mutation
   \<Rightarrow> ('a \<times> 'a option) store \<Rightarrow> 'a store" where
  "commit_rpc_mutation_with_replay enc dec m command =
     tx_bind (tx_gets (\<lambda>s. active_session s m)) (\<lambda>active.
     tx_then (domain_require active StaleRequest)
    (tx_bind (tx_gets (\<lambda>s. ledger_entry s (mu_usn m) (mu_idempotency_key m))) (\<lambda>entry.
     case entry of
       Some r \<Rightarrow>
         if lgr_request_seq r \<noteq> mu_request_seq m \<or> lgr_rpc r \<noteq> mu_rpc m
         then tx_fail IdempotencyConflict
         else (case dec (lgr_summary_json r) of
                 Inl e \<Rightarrow> tx_fail (InvalidReplay e)
               | Inr x \<Rightarrow> tx_return x)
     | None \<Rightarrow>
         tx_bind (advance_sequence m) (\<lambda>changed.
         tx_then (domain_require changed StaleRequest)
        (tx_bind command (\<lambda>(result, replay).
           case enc (case replay of None \<Rightarrow> result | Some r \<Rightarrow> r) of
             Inl e \<Rightarrow> tx_fail (InvalidReplay e)
           | Inr serialized \<Rightarrow> tx_then (record_mutation m serialized) (tx_return result)))))))"

definition commit_rpc_mutation ::
  "('a \<Rightarrow> string + string) \<Rightarrow> (string \<Rightarrow> string + 'a) \<Rightarrow> rpc_mutation \<Rightarrow> 'a store \<Rightarrow> 'a store" where
  "commit_rpc_mutation enc dec m command =
     commit_rpc_mutation_with_replay enc dec m (tx_bind command (\<lambda>result. tx_return (result, None)))"

section \<open>Facts\<close>

definition advanced :: "rpc_mutation \<Rightarrow> db \<Rightarrow> db" where
  "advanced m = login_sessions_update
     (tbl_at (mu_nonce m) (\<lambda>r. r\<lparr>ser_last_request_seq := mu_request_seq m\<rparr>))"

definition recorded :: "rpc_mutation \<Rightarrow> string \<Rightarrow> db \<Rightarrow> db" where
  "recorded m j s =
     s\<lparr>mutation_ledger := tbl_put (mu_usn m, next_ledger_id s (mu_usn m)) (ledger_row_of m j)
                           (mutation_ledger s),
       save_slots := tbl_at (mu_usn m) (\<lambda>r. r\<lparr>slr_updated_at := mu_committed_at m\<rparr>) (save_slots s)\<rparr>"

lemma next_ledger_id_fresh: "\<not> tbl_has (mutation_ledger s) (u, next_ledger_id s u)"
proof
  assume "tbl_has (mutation_ledger s) (u, next_ledger_id s u)"
  then obtain r where "((u, next_ledger_id s u), r) \<in> set (mutation_ledger s)"
    by (auto simp: tbl_has_def dest: tbl_get_SomeD)
  then have "next_ledger_id s u
      \<in> set (map (\<lambda>(k, r). snd k) (filter (\<lambda>(k, r). fst k = u) (mutation_ledger s)))" by force
  from max_or_zero_ge [OF this] show False by (simp add: next_ledger_id_def)
qed

lemma record_mutation_Inr:
  "record_mutation m j s = Inr r \<longleftrightarrow>
     in_i64 (next_ledger_id s (mu_usn m)) \<and> tbl_has (save_slots s) (mu_usn m)
     \<and> ledger_entry s (mu_usn m) (mu_idempotency_key m) = None \<and> r = ((), recorded m j s)"
  by (auto simp: record_mutation_def recorded_def tx_simps next_ledger_id_fresh)

lemma advance_sequence_Inr:
  "advance_sequence m s = Inr r \<longleftrightarrow>
     (if active_session s m \<and> last_seq s (mu_nonce m) < mu_request_seq m
      then r = (True, advanced m s) else r = (False, s))"
  by (auto simp: advance_sequence_def advanced_def tx_simps)

text \<open>A successful commit is a replay of a recorded result, or a run of the command.\<close>

lemma commit_with_replay_Inr:
  "commit_rpc_mutation_with_replay enc dec m command s = Inr (x, t) \<longleftrightarrow>
     active_session s m
     \<and> (case ledger_entry s (mu_usn m) (mu_idempotency_key m) of
          Some r \<Rightarrow> lgr_request_seq r = mu_request_seq m \<and> lgr_rpc r = mu_rpc m
                    \<and> dec (lgr_summary_json r) = Inr x \<and> t = s
        | None \<Rightarrow> last_seq s (mu_nonce m) < mu_request_seq m
                  \<and> (\<exists>replay j s'. command (advanced m s) = Inr ((x, replay), s')
                       \<and> enc (case replay of None \<Rightarrow> x | Some r \<Rightarrow> r) = Inr j
                       \<and> record_mutation m j s' = Inr ((), t)))"
  by (cases "ledger_entry s (mu_usn m) (mu_idempotency_key m)")
     (auto simp: commit_rpc_mutation_with_replay_def tx_simps advance_sequence_Inr
           split: sum.splits if_splits)

lemma commit_Inr:
  "commit_rpc_mutation enc dec m command s = Inr (x, t) \<longleftrightarrow>
     active_session s m
     \<and> (case ledger_entry s (mu_usn m) (mu_idempotency_key m) of
          Some r \<Rightarrow> lgr_request_seq r = mu_request_seq m \<and> lgr_rpc r = mu_rpc m
                    \<and> dec (lgr_summary_json r) = Inr x \<and> t = s
        | None \<Rightarrow> last_seq s (mu_nonce m) < mu_request_seq m
                  \<and> (\<exists>j s'. command (advanced m s) = Inr (x, s') \<and> enc x = Inr j
                       \<and> record_mutation m j s' = Inr ((), t)))"
  unfolding commit_rpc_mutation_def commit_with_replay_Inr
  by (auto simp: tx_simps split: option.splits)

lemma replay_again:
  assumes "active_session t m" "ledger_entry t (mu_usn m) (mu_idempotency_key m) = Some r"
    "lgr_request_seq r = mu_request_seq m" "lgr_rpc r = mu_rpc m"
  shows "commit_rpc_mutation_with_replay enc dec m other t
    = (case dec (lgr_summary_json r) of Inl e \<Rightarrow> Inl (InvalidReplay e) | Inr y \<Rightarrow> Inr (y, t))"
  using assms by (simp add: commit_rpc_mutation_with_replay_def tx_run domain_require_def split: sum.split)

subsection \<open>The contract of a command\<close>

text \<open>
  A command of a player works on that player's rows and leaves the frame alone. Everything the
  session layer promises of it follows from this one law.
\<close>

locale rpc_command =
  fixes command :: "rpc_mutation \<Rightarrow> ('a \<times> 'a option) store"
  assumes step: "tx_rel (player_step (mu_usn m)) (command m)"
begin

lemma committed:
  assumes c: "commit_rpc_mutation_with_replay enc dec m (command m) s = Inr (x, t)"
    and fresh: "ledger_entry s (mu_usn m) (mu_idempotency_key m) = None"
  obtains j replay s' where "command m (advanced m s) = Inr ((x, replay), s')"
    "enc (case replay of None \<Rightarrow> x | Some r \<Rightarrow> r) = Inr j" "player_step (mu_usn m) (advanced m s) s'"
    "t = recorded m j s'" "last_seq s (mu_nonce m) < mu_request_seq m" "active_session s m"
proof -
  from c fresh obtain j replay s' where *: "command m (advanced m s) = Inr ((x, replay), s')"
    "enc (case replay of None \<Rightarrow> x | Some r \<Rightarrow> r) = Inr j" "record_mutation m j s' = Inr ((), t)"
    "last_seq s (mu_nonce m) < mu_request_seq m" "active_session s m"
    by (auto simp: commit_with_replay_Inr)
  from tx_relD [OF step *(1)] * that show ?thesis by (simp add: record_mutation_Inr)
qed

text \<open>The sessions, the slots and the ledger after a fresh commit.\<close>

lemma frame_after:
  assumes "commit_rpc_mutation_with_replay enc dec m (command m) s = Inr (x, t)"
    and "ledger_entry s (mu_usn m) (mu_idempotency_key m) = None"
  shows "\<exists>j. login_sessions t = login_sessions (advanced m s)
    \<and> runtime_selection t = runtime_selection s
    \<and> save_slots t = tbl_at (mu_usn m) (\<lambda>r. r\<lparr>slr_updated_at := mu_committed_at m\<rparr>) (save_slots s)
    \<and> mutation_ledger t = tbl_put (mu_usn m, next_ledger_id s (mu_usn m)) (ledger_row_of m j)
        (mutation_ledger s)
    \<and> player_rows (mu_usn m) s t"
proof (rule committed [OF assms])
  fix j replay s'
  assume st: "player_step (mu_usn m) (advanced m s) s'" and t: "t = recorded m j s'"
  from st have id: "next_ledger_id s' (mu_usn m) = next_ledger_id s (mu_usn m)"
    using player_step_frame(4) [OF st] by (simp add: next_ledger_id_def advanced_def)
  from st have "player_rows (mu_usn m) s t"
    by (simp add: player_step_def player_rows_def advanced_def t recorded_def)
  with player_step_frame [OF st] show ?thesis
    by (intro exI [of _ j]) (simp add: t recorded_def id, simp add: advanced_def)
qed

text \<open>Sent again, a mutation is answered with what the codec reads from its ledger row.\<close>

lemma retry:
  assumes c: "commit_rpc_mutation_with_replay enc dec m (command m) s = Inr (x, t)"
  shows "\<exists>j. (\<forall>other. commit_rpc_mutation_with_replay enc dec m other t
        = (case dec j of Inl e \<Rightarrow> Inl (InvalidReplay e) | Inr y \<Rightarrow> Inr (y, t)))
    \<and> (case ledger_entry s (mu_usn m) (mu_idempotency_key m) of
         Some r \<Rightarrow> t = s \<and> j = lgr_summary_json r \<and> dec j = Inr x
       | None \<Rightarrow> \<exists>replay s'. command m (advanced m s) = Inr ((x, replay), s')
           \<and> enc (case replay of None \<Rightarrow> x | Some r \<Rightarrow> r) = Inr j)"
proof (cases "ledger_entry s (mu_usn m) (mu_idempotency_key m)")
  case (Some r)
  with c have r: "active_session s m" "lgr_request_seq r = mu_request_seq m" "lgr_rpc r = mu_rpc m"
    "dec (lgr_summary_json r) = Inr x" "t = s" by (simp_all add: commit_with_replay_Inr)
  with replay_again [OF r(1) Some r(2,3), where enc = enc and dec = dec] Some show ?thesis by (intro exI [of _ "lgr_summary_json r"]) simp
next
  case fresh: None
  show ?thesis
  proof (rule committed [OF c fresh])
    fix j replay s'
    assume run: "command m (advanced m s) = Inr ((x, replay), s')"
      and j: "enc (case replay of None \<Rightarrow> x | Some r \<Rightarrow> r) = Inr j"
      and st: "player_step (mu_usn m) (advanced m s) s'" and t: "t = recorded m j s'"
      and act: "active_session s m"
    note f = player_step_frame [OF st]
    have active: "active_session t m"
      using act f by (auto simp: active_session_def session_open_def slot_has_user_def t recorded_def
          advanced_def split: option.splits)
    have "ledger_entry t (mu_usn m) (mu_idempotency_key m) = Some (ledger_row_of m j)"
      using fresh f(4) next_ledger_id_fresh [of s' "mu_usn m"]
      by (simp add: ledger_entry_def t recorded_def advanced_def find_tbl_put_new ledger_row_of_def)
    from replay_again [OF active this, where enc = enc and dec = dec] fresh run j show ?thesis
      by (intro exI [of _ j]) (simp add: ledger_row_of_def)
  qed
qed

end

text \<open>Commands whose first response and replay are the same.\<close>

locale plain_command =
  fixes command :: "rpc_mutation \<Rightarrow> 'a store"
  assumes plain_step: "tx_rel (player_step (mu_usn m)) (command m)"

sublocale plain_command \<subseteq> rpc_command "\<lambda>m. tx_bind (command m) (\<lambda>x. tx_return (x, None))"
  by unfold_locales (intro player.rules plain_step)

context plain_command
begin

lemma plain_frame:
  assumes "commit_rpc_mutation enc dec m (command m) s = Inr (x, t)"
    and "ledger_entry s (mu_usn m) (mu_idempotency_key m) = None"
  shows "\<exists>j. login_sessions t = login_sessions (advanced m s)
    \<and> runtime_selection t = runtime_selection s
    \<and> save_slots t = tbl_at (mu_usn m) (\<lambda>r. r\<lparr>slr_updated_at := mu_committed_at m\<rparr>) (save_slots s)
    \<and> mutation_ledger t = tbl_put (mu_usn m, next_ledger_id s (mu_usn m)) (ledger_row_of m j)
        (mutation_ledger s)
    \<and> player_rows (mu_usn m) s t"
  using frame_after [of enc dec m s x t] assms unfolding commit_rpc_mutation_def by blast

end

end
