(* ===== verification/Slots.thy ===== *)
theory Slots
  imports Ledger
begin

text \<open>
  Save slots and login sessions of \<open>crates/persistence-sqlite/src/lib.rs\<close>: the empty tables,
  the master catalogs the store is configured with, creating, listing, selecting and deleting slots,
  starting and ending a login session. \<open>Database.reward_rules\<close> and
  \<open>Database.achievement_ids\<close>, set once at start-up, are arguments of the operations that read them.
\<close>

section \<open>A new store and its catalogs\<close>

definition user_id_base :: int where "user_id_base = 1788360000000"
definition database_schema_version :: int where "database_schema_version = 4"

text \<open>The tables \<open>MIGRATION_1\<close> creates: all empty but the single selection row.\<close>

definition migration_1 :: db where
  "migration_1 =
     \<lparr>runtime_selection = \<lparr>rsr_active_usn = None, rsr_pending_usn = None, rsr_session_nonce = 0\<rparr>,
      save_slots = [], login_sessions = [], user_core = [], area_state = [], currencies = [],
      owned_content = [], content_levels = [], music_state = [], skill_activation = [],
      buff_timers = [], ad_levels = [], ad_state = [], tutorial_completed = [],
      one_time_flags = [], achievement_progress = [], achievement_claims = [],
      daily_missions = [], daily_mission_claims = [], attendance_days = [],
      attendance_state = [], event_points = [], selected_rewards = [], follower_quests = [],
      quest_conditions = [], gifts = [], affection = [], affection_claims = [],
      messenger_rooms = [], music_reviews = [], music_bookmarks = [], music_scores = [],
      pass_anchors = [], pass_progress = [], pass_claims = [], pass_entitlements = [],
      mail = [], mail_rewards = [], mail_state = [], ticket_collection = [], ch3_energy = [],
      ch3_stages = [], ch3_drops = [], ch3_chapter_claims = [], purchase_transactions = [],
      reward_transactions = [], state_revisions = [], mutation_ledger = []\<rparr>"

lemma migration_1_simps [simp]:
  "save_slots migration_1 = []"
  "login_sessions migration_1 = []"
  "user_core migration_1 = []"
  "area_state migration_1 = []"
  "currencies migration_1 = []"
  "owned_content migration_1 = []"
  "content_levels migration_1 = []"
  "music_state migration_1 = []"
  "skill_activation migration_1 = []"
  "buff_timers migration_1 = []"
  "ad_levels migration_1 = []"
  "ad_state migration_1 = []"
  "tutorial_completed migration_1 = []"
  "one_time_flags migration_1 = []"
  "achievement_progress migration_1 = []"
  "achievement_claims migration_1 = []"
  "daily_missions migration_1 = []"
  "daily_mission_claims migration_1 = []"
  "attendance_days migration_1 = []"
  "attendance_state migration_1 = []"
  "event_points migration_1 = []"
  "selected_rewards migration_1 = []"
  "follower_quests migration_1 = []"
  "quest_conditions migration_1 = []"
  "gifts migration_1 = []"
  "affection migration_1 = []"
  "affection_claims migration_1 = []"
  "messenger_rooms migration_1 = []"
  "music_reviews migration_1 = []"
  "music_bookmarks migration_1 = []"
  "music_scores migration_1 = []"
  "pass_anchors migration_1 = []"
  "pass_progress migration_1 = []"
  "pass_claims migration_1 = []"
  "pass_entitlements migration_1 = []"
  "mail migration_1 = []"
  "mail_rewards migration_1 = []"
  "mail_state migration_1 = []"
  "ticket_collection migration_1 = []"
  "ch3_energy migration_1 = []"
  "ch3_stages migration_1 = []"
  "ch3_drops migration_1 = []"
  "ch3_chapter_claims migration_1 = []"
  "purchase_transactions migration_1 = []"
  "reward_transactions migration_1 = []"
  "state_revisions migration_1 = []"
  "mutation_ledger migration_1 = []"
  "runtime_selection migration_1 =
     \<lparr>rsr_active_usn = None, rsr_pending_usn = None, rsr_session_nonce = 0\<rparr>"
  by (simp_all add: migration_1_def)

definition achievement_start :: "int \<Rightarrow> achievement_row" where
  "achievement_start now = \<lparr>acr_quantity = fzero, acr_quantity_text = ''0'', acr_updated_at = now\<rparr>"

text \<open>One \<open>INSERT ... SELECT ... ON CONFLICT DO NOTHING\<close> over the slots; the value is the row count.\<close>

definition seed_achievement :: "int \<Rightarrow> int \<Rightarrow> nat store" where
  "seed_achievement now i =
     tx_bind (tx_gets (\<lambda>s. filter (\<lambda>u. \<not> tbl_has (achievement_progress s) (u, i))
                             (map fst (save_slots s)))) (\<lambda>missing.
     tx_then (tx_modify (achievement_progress_update
                (fold (\<lambda>u. tbl_put (u, i) (achievement_start now)) missing)))
             (tx_return (length missing)))"

text \<open>The value is the number of inserted rows and the catalog to keep.\<close>

definition configure_achievement_catalog :: "int list \<Rightarrow> int \<Rightarrow> (nat \<times> int list) store" where
  "configure_achievement_catalog ids now =
     tx_then (tx_require (list_all (\<lambda>i. 0 < i) ids) (Integrity ''invalid achievement catalog ID''))
       (let catalog = remdups_adj (sort ids)
        in tx_bind (tx_collect (seed_achievement now) catalog)
             (\<lambda>counts. tx_return (sum_list counts, catalog)))"

definition configure_reward_rules :: "reward_rules \<Rightarrow> store_error + reward_rules" where
  "configure_reward_rules rules =
     (if list_ex (\<lambda>(i, area, bonus). i \<le> 0 \<or> \<not> (area = 1 \<or> area = 2) \<or> \<not> is_finite bonus
                    \<or> flt_less bonus fzero) (costume_fan_bonuses rules)
      then Inl (Domain InvalidAmount) else Inr rules)"

section \<open>Creating a slot\<close>

definition initial_kinds :: "string list" where
  "initial_kinds = [''character'', ''costume'', ''guitar'', ''music'', ''prop'', ''skill'', ''unit'']"

definition user_id_ok :: "db \<Rightarrow> string \<Rightarrow> bool" where
  "user_id_ok s i \<longleftrightarrow> i \<noteq> [] \<and> list_all is_digit i
     \<and> list_all (\<lambda>(u, r). slr_user_id r \<noteq> i) (save_slots s)"

definition insert_slot :: "int \<Rightarrow> string \<Rightarrow> string \<Rightarrow> int \<Rightarrow> unit store" where
  "insert_slot u user_id display_name now =
     tx_bind (tx_gets (\<lambda>s. 0 < u \<and> user_id_ok s user_id)) (\<lambda>ok.
     tx_then (sql_check ok)
       (insert_row save_slots save_slots_update u
          \<lparr>slr_user_id = user_id, slr_display_name = display_name,
           slr_created_at = now, slr_updated_at = now\<rparr>))"

definition insert_core :: "int \<Rightarrow> int \<Rightarrow> unit store" where
  "insert_core u now =
     tx_then (insert_row user_core user_core_update u
       \<lparr>ucr_nickname = ''Guitar Girl'', ucr_fans = fzero, ucr_fan_level = 1, ucr_avatar_id = Some 1,
        ucr_title_id = Some 1, ucr_last_save_time = now, ucr_device_uuid = ''''\<rparr>)
    (tx_then (insert_row attendance_state attendance_state_update u
       \<lparr>atr_attendance_count = 0, atr_continuous_count = 0, atr_max_continuous_count = 0,
        atr_last_local_day = None\<rparr>)
             (insert_row mail_state mail_state_update u 0))"

definition insert_area :: "int \<Rightarrow> int \<Rightarrow> int \<Rightarrow> bool \<Rightarrow> unit store" where
  "insert_area u area item unlocked =
     insert_row area_state area_state_update (u, area)
       \<lparr>arr_area_level = 1, arr_current_costume = Some item, arr_current_guitar = Some item,
        arr_current_music = Some item, arr_fans = fzero, arr_candy = fzero, arr_gp = fzero,
        arr_unlocked = unlocked\<rparr>"

definition insert_initial_content :: "int \<Rightarrow> int \<Rightarrow> string \<Rightarrow> unit store" where
  "insert_initial_content u now kind =
     tx_then (insert_row owned_content owned_content_update (u, kind, 1)
               \<lparr>owr_area = 1, owr_acquired_at = now, owr_source = ''initial''\<rparr>)
             (insert_row content_levels content_levels_update (u, kind, 1)
               \<lparr>lvr_level = 1, lvr_reward_level = 0\<rparr>)"

definition insert_balances :: "int \<Rightarrow> unit store" where
  "insert_balances u =
     tx_each (\<lambda>k. insert_row currencies currencies_update (u, currency_key k) fzero) all_currencies"

definition insert_counters :: "int \<Rightarrow> int \<Rightarrow> int list \<Rightarrow> unit store" where
  "insert_counters u now achievement_ids =
     tx_then (tx_each (\<lambda>i. insert_row achievement_progress achievement_progress_update (u, i)
                (achievement_start now)) achievement_ids)
    (tx_then (tx_each (\<lambda>i. insert_row daily_missions daily_missions_update (u, i)
                \<lparr>dmr_quantity = Fin 1, dmr_updated_at = now\<rparr>) [1, 2, 3, 4, 5, 6])
    (tx_then (tx_each (\<lambda>i. insert_row ad_levels ad_levels_update (u, i)
                \<lparr>alr_level = 1, alr_experience = 0\<rparr>) [200010, 210010, 220010])
             (tx_each (\<lambda>season. insert_row pass_entitlements pass_entitlements_update (u, season)
                \<lparr>enr_premium = True, enr_lounge = False\<rparr>)
                [1, 2, 3, 4, 5, 6, 7, 8, 9, 10, 11, 12, 13])))"

definition insert_activities :: "int \<Rightarrow> int \<Rightarrow> unit store" where
  "insert_activities u now =
     tx_then (insert_row affection affection_update (u, 100000) \<lparr>afr_experience = 0, afr_level = 1\<rparr>)
    (tx_then (insert_row ch3_energy ch3_energy_update u
               \<lparr>eyr_amount = 200, eyr_cap = 200, eyr_calculated_at = now\<rparr>)
             (insert_row ch3_stages ch3_stages_update (u, 1001)
               \<lparr>sgr_chapter = 1, sgr_stage_index = 1, sgr_completed = False, sgr_best_star = 0,
                sgr_best_score = 0, sgr_unlocked = True\<rparr>))"

definition fill_slot :: "int \<Rightarrow> int \<Rightarrow> int list \<Rightarrow> unit store" where
  "fill_slot u now achievement_ids =
     tx_then (insert_core u now)
    (tx_then (insert_area u 1 1 True)
    (tx_then (insert_area u 2 201 False)
    (tx_then (tx_each (insert_initial_content u now) initial_kinds)
    (tx_then (insert_balances u)
    (tx_then (insert_counters u now achievement_ids)
             (insert_activities u now))))))"

definition activate :: "int \<Rightarrow> runtime_row \<Rightarrow> runtime_row" where
  "activate u r =
     r\<lparr>rsr_active_usn := (case rsr_active_usn r of None \<Rightarrow> Some u | Some a \<Rightarrow> Some a)\<rparr>"

definition select_if_none :: "int \<Rightarrow> unit store" where
  "select_if_none u = tx_modify (runtime_selection_update (activate u))"

definition create_slot_in_transaction :: "string \<Rightarrow> int \<Rightarrow> int list \<Rightarrow> user_identity store" where
  "create_slot_in_transaction display_name now achievement_ids =
     tx_bind (tx_gets (\<lambda>s. max_or_zero (map fst (save_slots s)) + 1)) (\<lambda>u.
     tx_then (sql_int u)
       (let user_id = show_int (wrap_i64 (user_id_base + u))
        in tx_then (insert_slot u user_id display_name now)
          (tx_then (fill_slot u now achievement_ids)
          (tx_then (select_if_none u)
             (tx_return \<lparr>id_usn = u, id_user_id = user_id\<rparr>)))))"

definition create_slot :: "string \<Rightarrow> int \<Rightarrow> int list \<Rightarrow> db \<Rightarrow> (store_error + user_identity) \<times> db" where
  "create_slot display_name now achievement_ids =
     tx_commit (create_slot_in_transaction display_name now achievement_ids)"

definition create_slot_rpc ::
  "(user_identity \<Rightarrow> string + string) \<Rightarrow> (string \<Rightarrow> string + user_identity)
   \<Rightarrow> rpc_mutation \<Rightarrow> string \<Rightarrow> int list \<Rightarrow> db \<Rightarrow> (store_error + user_identity) \<times> db" where
  "create_slot_rpc enc dec m display_name achievement_ids =
     tx_commit (commit_rpc_mutation enc dec m
       (create_slot_in_transaction display_name (mu_committed_at m) achievement_ids))"

section \<open>Selecting and deleting slots\<close>

definition list_slots :: "db \<Rightarrow> user_identity list" where
  "list_slots s = map (\<lambda>(u, r). \<lparr>id_usn = u, id_user_id = slr_user_id r\<rparr>) (save_slots s)"

definition ensure_default_slot :: "int \<Rightarrow> int list \<Rightarrow> db \<Rightarrow> (store_error + user_identity) \<times> db" where
  "ensure_default_slot now achievement_ids s =
     (case list_slots s of
        i # _ \<Rightarrow> (Inr i, s)
      | [] \<Rightarrow> create_slot ''Save 1'' now achievement_ids s)"

definition slot_views :: "db \<Rightarrow> slot_view list" where
  "slot_views s =
     map (\<lambda>(u, r). \<lparr>sv_usn = u, sv_user_id = slr_user_id r, sv_display_name = slr_display_name r,
                    sv_created_at = slr_created_at r, sv_updated_at = slr_updated_at r,
                    sv_active = (rsr_active_usn (runtime_selection s) = Some u),
                    sv_pending = (rsr_pending_usn (runtime_selection s) = Some u)\<rparr>)
       (save_slots s)"

definition set_pending :: "int \<Rightarrow> unit store" where
  "set_pending u = tx_modify (runtime_selection_update (\<lambda>r. r\<lparr>rsr_pending_usn := Some u\<rparr>))"

definition request_switch :: "int \<Rightarrow> unit store" where
  "request_switch u =
     tx_bind (tx_gets (\<lambda>s. tbl_has (save_slots s) u)) (\<lambda>exists.
     tx_then (tx_require exists (MissingSlot u)) (set_pending u))"

definition find_slot :: "string \<Rightarrow> db \<Rightarrow> user_identity option" where
  "find_slot selector s =
     map_option (\<lambda>(u, r). \<lparr>id_usn = u, id_user_id = slr_user_id r\<rparr>)
       (find (\<lambda>(u, r). slr_user_id r = selector \<or> parse_i64 selector = Some u) (save_slots s))"

definition resolve_slot :: "string \<Rightarrow> user_identity store" where
  "resolve_slot selector =
     tx_bind (tx_gets (find_slot selector))
       (tx_expect (MissingSlot (case parse_i64 selector of None \<Rightarrow> 0 | Some n \<Rightarrow> n)))"

definition request_switch_rpc ::
  "(user_identity \<Rightarrow> string + string) \<Rightarrow> (string \<Rightarrow> string + user_identity)
   \<Rightarrow> rpc_mutation \<Rightarrow> string \<Rightarrow> user_identity store" where
  "request_switch_rpc enc dec m selector =
     commit_rpc_mutation enc dec m
       (tx_bind (resolve_slot selector) (\<lambda>i. tx_then (set_pending (id_usn i)) (tx_return i)))"

text \<open>
  \<open>DELETE FROM save_slots\<close> with \<open>ON DELETE CASCADE\<close> in every player-owned table; the selection row
  references the slot without a cascade, so a selected slot would violate the foreign key.
\<close>

definition cascade_delete :: "int \<Rightarrow> db \<Rightarrow> db" where
  "cascade_delete u s =
     s\<lparr>save_slots := others1 u (save_slots s),
       login_sessions := filter (\<lambda>(n, r). ser_usn r \<noteq> u) (login_sessions s),
       mutation_ledger := others u (mutation_ledger s),
       user_core := others1 u (user_core s), area_state := others u (area_state s),
       currencies := others u (currencies s), owned_content := others u (owned_content s),
       content_levels := others u (content_levels s), music_state := others u (music_state s),
       skill_activation := others u (skill_activation s),
       buff_timers := others u (buff_timers s), ad_levels := others u (ad_levels s),
       ad_state := others u (ad_state s),
       tutorial_completed := others u (tutorial_completed s),
       one_time_flags := others u (one_time_flags s),
       achievement_progress := others u (achievement_progress s),
       achievement_claims := others u (achievement_claims s),
       daily_missions := others u (daily_missions s),
       daily_mission_claims := others u (daily_mission_claims s),
       attendance_days := others u (attendance_days s),
       attendance_state := others1 u (attendance_state s),
       event_points := others u (event_points s),
       selected_rewards := others u (selected_rewards s),
       follower_quests := others u (follower_quests s),
       quest_conditions := others u (quest_conditions s), gifts := others u (gifts s),
       affection := others u (affection s), affection_claims := others u (affection_claims s),
       messenger_rooms := others u (messenger_rooms s),
       music_reviews := others u (music_reviews s),
       music_bookmarks := others u (music_bookmarks s),
       music_scores := others u (music_scores s), pass_anchors := others1 u (pass_anchors s),
       pass_progress := others u (pass_progress s), pass_claims := others u (pass_claims s),
       pass_entitlements := others u (pass_entitlements s), mail := others u (mail s),
       mail_rewards := others u (mail_rewards s), mail_state := others1 u (mail_state s),
       ticket_collection := others u (ticket_collection s),
       ch3_energy := others1 u (ch3_energy s), ch3_stages := others u (ch3_stages s),
       ch3_drops := others u (ch3_drops s),
       ch3_chapter_claims := others u (ch3_chapter_claims s),
       purchase_transactions := others u (purchase_transactions s),
       reward_transactions := others u (reward_transactions s),
       state_revisions := others u (state_revisions s)\<rparr>"

definition slot_selected :: "db \<Rightarrow> int \<Rightarrow> bool" where
  "slot_selected s u \<longleftrightarrow> rsr_active_usn (runtime_selection s) = Some u
     \<or> rsr_pending_usn (runtime_selection s) = Some u"

definition delete_inactive_slot_in_transaction :: "int \<Rightarrow> string \<Rightarrow> unit store" where
  "delete_inactive_slot_in_transaction u typed_display_name =
     tx_bind (tx_gets (\<lambda>s. tbl_get (save_slots s) u)) (\<lambda>slot.
     tx_bind (tx_expect (MissingSlot u) slot) (\<lambda>r.
     tx_then (domain_require (slr_display_name r = typed_display_name) IdentityMismatch)
    (tx_bind (tx_gets (\<lambda>s. slot_selected s u)) (\<lambda>selected.
     tx_then (tx_require (\<not> selected) (ActiveSlot u))
             (tx_modify (cascade_delete u))))))"

definition delete_inactive_slot :: "int \<Rightarrow> string \<Rightarrow> db \<Rightarrow> (store_error + unit) \<times> db" where
  "delete_inactive_slot u typed_display_name =
     tx_commit (delete_inactive_slot_in_transaction u typed_display_name)"

definition delete_inactive_slot_rpc ::
  "(unit \<Rightarrow> string + string) \<Rightarrow> (string \<Rightarrow> string + unit)
   \<Rightarrow> rpc_mutation \<Rightarrow> int \<Rightarrow> string \<Rightarrow> unit store" where
  "delete_inactive_slot_rpc enc dec m u typed_display_name =
     commit_rpc_mutation enc dec m (delete_inactive_slot_in_transaction u typed_display_name)"

section \<open>Login\<close>

definition select_session :: "unit store" where
  "select_session =
     tx_bind (tx_gets (\<lambda>s. rsr_session_nonce (runtime_selection s) + 1)) (\<lambda>nonce.
     tx_then (sql_check (in_i64 nonce))
       (tx_modify (runtime_selection_update (\<lambda>r.
          r\<lparr>rsr_active_usn := (case rsr_pending_usn r of None \<Rightarrow> rsr_active_usn r | Some p \<Rightarrow> Some p),
            rsr_pending_usn := None, rsr_session_nonce := nonce\<rparr>))))"

text \<open>The insert checks the key, \<open>UNIQUE\<close> on the capability hash and the foreign key.\<close>

definition open_session :: "int \<Rightarrow> int \<Rightarrow> nat list \<Rightarrow> device_clock \<Rightarrow> unit store" where
  "open_session nonce u capability_hash clock =
     tx_then (tx_modify (login_sessions_update (tbl_set (\<lambda>_ r. ser_ended_at r = None)
                (\<lambda>r. r\<lparr>ser_ended_at := Some (unix_seconds clock)\<rparr>))))
    (tx_bind (tx_gets (\<lambda>s. tbl_has (save_slots s) u
                \<and> list_all (\<lambda>(n, r). ser_capability_hash r \<noteq> capability_hash) (login_sessions s))) (\<lambda>ok.
     tx_then (sql_check ok)
       (insert_row login_sessions login_sessions_update nonce
          \<lparr>ser_usn = u, ser_capability_hash = capability_hash, ser_started_at = unix_seconds clock,
           ser_device_time = unix_seconds clock, ser_utc_offset_minutes = utc_offset_minutes clock,
           ser_last_request_seq = 0, ser_ended_at = None\<rparr>)))"

definition anchor_pass :: "int \<Rightarrow> device_clock \<Rightarrow> unit store" where
  "anchor_pass u clock =
     (let local_day = local_epoch_day clock; season = local_day mod 13 + 1
      in if - 840 \<le> utc_offset_minutes clock \<and> utc_offset_minutes clock \<le> 840
         then tx_modify (pass_anchors_update (tbl_ignore u
                \<lparr>anr_local_day = local_day, anr_season = season,
                 anr_utc_offset_minutes = utc_offset_minutes clock,
                 anr_updated_at = unix_seconds clock\<rparr>))
         else tx_return ())"

definition begin_login_tx :: "nat list \<Rightarrow> device_clock \<Rightarrow> login_session store" where
  "begin_login_tx capability_hash clock =
     tx_then select_session
    (tx_bind (tx_gets (\<lambda>s. rsr_active_usn (runtime_selection s))) (\<lambda>active.
     tx_bind (tx_expect NoActiveSlot active) (\<lambda>u.
     tx_bind (tx_gets (\<lambda>s. rsr_session_nonce (runtime_selection s))) (\<lambda>nonce.
     tx_bind (query_row (\<lambda>s. tbl_get (save_slots s) u)) (\<lambda>slot.
     tx_then (open_session nonce u capability_hash clock)
    (tx_then (anchor_pass u clock)
       (tx_return \<lparr>ls_identity = \<lparr>id_usn = u, id_user_id = slr_user_id slot\<rparr>,
                   ls_nonce = nonce, ls_capability = '''', ls_clock = clock\<rparr>)))))))"

definition begin_login ::
  "nat list \<Rightarrow> device_clock \<Rightarrow> db \<Rightarrow> (store_error + login_session) \<times> db" where
  "begin_login capability_hash clock = tx_commit (begin_login_tx capability_hash clock)"

definition end_session :: "int \<Rightarrow> int \<Rightarrow> unit store" where
  "end_session nonce now =
     tx_modify (login_sessions_update (tbl_at nonce (\<lambda>r. r\<lparr>ser_ended_at :=
       (case ser_ended_at r of None \<Rightarrow> Some now | Some e \<Rightarrow> Some e)\<rparr>)))"

definition read_currency :: "int \<Rightarrow> currency_kind \<Rightarrow> f64 store" where
  "read_currency u kind = query_row (\<lambda>s. tbl_get (currencies s) (u, currency_key kind))"

definition read_ad_level :: "int \<Rightarrow> int \<Rightarrow> ad_level_snapshot store" where
  "read_ad_level u group_id =
     query_row (\<lambda>s. map_option (\<lambda>r. \<lparr>al_ad_level_id = group_id, al_level = alr_level r,
                                    al_experience = alr_experience r\<rparr>)
                     (tbl_get (ad_levels s) (u, group_id)))"

section \<open>Facts\<close>

subsection \<open>Creation\<close>

lemma insert_steps:
  "tx_rel (player_step u) (insert_core u now)"
  "tx_rel (player_step u) (insert_area u area item b)"
  "tx_rel (player_step u) (insert_initial_content u now kind)"
  "tx_rel (player_step u) (insert_balances u)"
  "tx_rel (player_step u) (insert_counters u now ids)"
  "tx_rel (player_step u) (insert_activities u now)"
  unfolding insert_core_def insert_area_def insert_initial_content_def insert_balances_def
    insert_counters_def insert_activities_def
  by (intro player_rules)+

lemma fill_slot_step: "tx_rel (player_step u) (fill_slot u now ids)"
  unfolding fill_slot_def by (intro player.rules insert_steps)

definition new_slot :: "string \<Rightarrow> string \<Rightarrow> int \<Rightarrow> slot_row" where
  "new_slot user_id display_name now =
     \<lparr>slr_user_id = user_id, slr_display_name = display_name, slr_created_at = now,
      slr_updated_at = now\<rparr>"

lemma create_slot_Inr:
  assumes "create_slot_in_transaction nm now ids s = Inr (i, t)"
  shows "id_usn i = max_or_zero (map fst (save_slots s)) + 1" "0 < id_usn i"
    "\<not> tbl_has (save_slots s) (id_usn i)" "user_id_ok s (id_user_id i)"
    "save_slots t = tbl_put (id_usn i) (new_slot (id_user_id i) nm now) (save_slots s)"
    "login_sessions t = login_sessions s" "mutation_ledger t = mutation_ledger s"
    "runtime_selection t = activate (id_usn i) (runtime_selection s)"
    "player_rows (id_usn i) s t"
proof -
  let ?s1 = "\<lambda>u n. save_slots_update (tbl_put u (new_slot n nm now)) s"
  from assms obtain t' where i: "id_usn i = max_or_zero (map fst (save_slots s)) + 1"
    "0 < id_usn i" "\<not> tbl_has (save_slots s) (id_usn i)" "user_id_ok s (id_user_id i)"
    and run: "fill_slot (id_usn i) now ids (?s1 (id_usn i) (id_user_id i)) = Inr ((), t')"
    and t: "t = runtime_selection_update (activate (id_usn i)) t'"
    by (auto simp: create_slot_in_transaction_def insert_slot_def select_if_none_def Let_def
        tx_simps new_slot_def)
  note st = tx_relD [OF fill_slot_step run]
  from st have "player_rows (id_usn i) s t"
    by (simp add: player_step_def player_rows_def t)
  with i player_step_frame [OF st] show
    "id_usn i = max_or_zero (map fst (save_slots s)) + 1" "0 < id_usn i"
    "\<not> tbl_has (save_slots s) (id_usn i)" "user_id_ok s (id_user_id i)"
    "save_slots t = tbl_put (id_usn i) (new_slot (id_user_id i) nm now) (save_slots s)"
    "login_sessions t = login_sessions s" "mutation_ledger t = mutation_ledger s"
    "runtime_selection t = activate (id_usn i) (runtime_selection s)"
    "player_rows (id_usn i) s t"
    by (simp_all add: t)
qed

text \<open>What a complete slot has: the rows every later operation reads without a default.\<close>

definition slot_complete :: "db \<Rightarrow> int \<Rightarrow> bool" where
  "slot_complete s u \<longleftrightarrow> tbl_has (user_core s) u \<and> tbl_has (attendance_state s) u
     \<and> tbl_has (mail_state s) u \<and> tbl_has (ch3_energy s) u
     \<and> tbl_has (area_state s) (u, 1) \<and> tbl_has (area_state s) (u, 2)
     \<and> tbl_has (ch3_stages s) (u, 1001)
     \<and> list_all (\<lambda>k. tbl_has (currencies s) (u, currency_key k)) all_currencies
     \<and> list_all (\<lambda>k. tbl_has (owned_content s) (u, k, 1) \<and> tbl_has (content_levels s) (u, k, 1))
         initial_kinds"

text \<open>No operation of a player removes a row, so a complete slot stays complete.\<close>

lemma slot_complete_rows:
  assumes "player_rows u s t" "slot_complete s v"
  shows "slot_complete t v"
  using assms unfolding slot_complete_def player_rows_def table_step_def table_step1_def
  by (auto simp: list_all_iff)

lemma insert_core_has:
  "insert_core u now s = Inr (x, t) \<Longrightarrow>
     tbl_has (user_core t) u \<and> tbl_has (attendance_state t) u \<and> tbl_has (mail_state t) u"
  by (auto simp: insert_core_def tx_simps)

lemma insert_area_has: "insert_area u a i b s = Inr (x, t) \<Longrightarrow> tbl_has (area_state t) (u, a)"
  by (auto simp: insert_area_def tx_simps)

lemma insert_activities_has:
  "insert_activities u now s = Inr (x, t) \<Longrightarrow>
     tbl_has (ch3_energy t) u \<and> tbl_has (ch3_stages t) (u, 1001)"
  by (auto simp: insert_activities_def tx_simps)

lemma insert_initial_content_has:
  "insert_initial_content u now k s = Inr (x, t) \<Longrightarrow>
     tbl_has (owned_content t) (u, k, 1) \<and> tbl_has (content_levels t) (u, k, 1)"
  by (auto simp: insert_initial_content_def tx_simps)

text \<open>A loop that establishes a monotone fact for each of its elements establishes it for all.\<close>

lemma each_establishes:
  assumes "tx_each f xs s = Inr (x, t)"
    and "\<And>y s x t. f y s = Inr (x, t) \<Longrightarrow> Q y t"
    and "\<And>y s x t z. f y s = Inr (x, t) \<Longrightarrow> Q z s \<Longrightarrow> Q z t"
  shows "\<forall>y\<in>set xs. Q y t"
proof -
  have "tx_each f xs s = Inr (x, t) \<Longrightarrow> (\<forall>y\<in>set xs. Q y t) \<and> (\<forall>z. Q z s \<longrightarrow> Q z t)" for s
  proof (induction xs arbitrary: s)
    case (Cons y ys)
    then obtain s' x' where "f y s = Inr (x', s')" "tx_each f ys s' = Inr (x, t)"
      by (auto simp: tx_simps)
    with Cons.IH [of s'] assms(2,3) show ?case by fastforce
  qed (auto simp: tx_simps)
  with assms(1) show ?thesis by blast
qed

lemma insert_balances_has:
  assumes "insert_balances u s = Inr (x, t)"
  shows "\<forall>k\<in>set all_currencies. tbl_has (currencies t) (u, currency_key k)"
  by (rule each_establishes [OF assms [unfolded insert_balances_def]]) (auto simp: tx_simps)

lemma fill_slot_complete:
  assumes "fill_slot u now ids s = Inr (x, t)"
  shows "slot_complete t u"
proof -
  from assms obtain s1 s2 s3 s4 s5 s6 where run: "insert_core u now s = Inr ((), s1)"
    "insert_area u 1 1 True s1 = Inr ((), s2)" "insert_area u 2 201 False s2 = Inr ((), s3)"
    "tx_each (insert_initial_content u now) initial_kinds s3 = Inr ((), s4)"
    "insert_balances u s4 = Inr ((), s5)" "insert_counters u now ids s5 = Inr ((), s6)"
    "insert_activities u now s6 = Inr ((), t)"
    by (auto simp: fill_slot_def tx_simps)
  note tx_relD [OF insert_steps(2) run(2)] tx_relD [OF insert_steps(2) run(3)]
    tx_relD [OF player.each [OF insert_steps(3)] run(4)] tx_relD [OF insert_steps(4) run(5)]
    tx_relD [OF insert_steps(5) run(6)] tx_relD [OF insert_steps(6) run(7)]
  then have rows: "player_rows u s6 t" "player_rows u s5 t" "player_rows u s4 t" "player_rows u s3 t"
    "player_rows u s2 t" "player_rows u s1 t"
    unfolding player_step_def by (blast intro: player_rows_trans)+
  have init: "\<forall>k\<in>set initial_kinds. tbl_has (owned_content s4) (u, k, 1)
      \<and> tbl_has (content_levels s4) (u, k, 1)"
    by (rule each_establishes [OF run(4)])
       (auto simp: insert_initial_content_def tx_simps)
  show ?thesis
    unfolding slot_complete_def list_all_iff
    using insert_core_has [OF run(1)] insert_area_has [OF run(2)] insert_area_has [OF run(3)] init
      insert_balances_has [OF run(5)] insert_activities_has [OF run(7)] rows
    by (simp add: player_rows_def table_step_def table_step1_def)
qed

lemma create_slot_complete:
  assumes "create_slot_in_transaction nm now ids s = Inr (i, t)"
  shows "slot_complete t (id_usn i)"
proof -
  from assms obtain s' t' where "fill_slot (id_usn i) now ids s' = Inr ((), t')"
    and t: "t = runtime_selection_update (activate (id_usn i)) t'"
    by (auto simp: create_slot_in_transaction_def select_if_none_def Let_def tx_simps)
  from fill_slot_complete [OF this(1)] show ?thesis by (simp add: slot_complete_def t)
qed

subsection \<open>Concrete states\<close>

text \<open>
  A database with one slot and one open session, for the examples: what a creation and a login
  leave in the session tables.
\<close>

definition demo_db :: db where
  "demo_db = migration_1
     \<lparr>runtime_selection := \<lparr>rsr_active_usn = Some 1, rsr_pending_usn = None, rsr_session_nonce = 1\<rparr>,
      save_slots := [(1, \<lparr>slr_user_id = ''1788360000001'', slr_display_name = ''Save 1'',
                          slr_created_at = 0, slr_updated_at = 0\<rparr>)],
      login_sessions := [(1, \<lparr>ser_usn = 1, ser_capability_hash = [7], ser_started_at = 0,
                              ser_device_time = 0, ser_utc_offset_minutes = 540,
                              ser_last_request_seq = 0, ser_ended_at = None\<rparr>)]\<rparr>"

definition demo_mutation :: rpc_mutation where
  "demo_mutation = \<lparr>mu_nonce = 1, mu_identity = \<lparr>id_usn = 1, id_user_id = ''1788360000001''\<rparr>,
     mu_request_seq = 1, mu_rpc = ''rpc'', mu_idempotency_key = ''k1'', mu_committed_at = 10\<rparr>"

lemma demo_simps:
  "active_session demo_db demo_mutation" "last_seq demo_db 1 = 0"
  "ledger_entry demo_db u k = None" "next_ledger_id demo_db u = 1"
  "tbl_has (save_slots demo_db) 1"
  by (simp_all add: demo_db_def demo_mutation_def active_session_def session_open_def last_seq_def
      slot_has_user_def ledger_entry_def next_ledger_id_def max_or_zero_def tbl_get_Cons tbl_has_Cons)

text \<open>Creating the first slot of a new database succeeds.\<close>

lemma first_slot:
  "\<exists>i t. create_slot_in_transaction ''Save 1'' 0 [] migration_1 = Inr (i, t) \<and> id_usn i = 1"
proof -
  let ?s = "save_slots_update (tbl_put 1 (new_slot ''1788360000001'' ''Save 1'' 0)) migration_1"
  have "show_int (wrap_i64 (user_id_base + 1)) = ''1788360000001''"
    by (simp add: show_int_def wrap_i64_def user_id_base_def show_nat.simps digit_char_def) code_simp
  moreover have "list_all is_digit ''1788360000001''" by code_simp
  moreover have "\<exists>t. fill_slot 1 0 [] ?s = Inr ((), t)"
    by (simp add: fill_slot_def insert_core_def insert_area_def insert_initial_content_def
        initial_kinds_def insert_balances_def all_currencies_def insert_counters_def
        insert_activities_def insert_row_run tx_then_run tbl_has_Nil tbl_has_Cons tx_return_def)
  ultimately show ?thesis
    by (auto simp: create_slot_in_transaction_def insert_slot_def select_if_none_def tx_run sql_int_def
        sql_check_def user_id_ok_def insert_row_def tbl_has_Nil max_or_zero_def in_i64_def new_slot_def Let_def)
qed

end
