(* ===== verification/Sessions.thy ===== *)
theory Sessions
  imports Slots
begin

text \<open>
  The store as a state machine: what logins, logouts, slot operations, player operations and the
  three parts of a committed mutation (sequence, command, ledger) can do to the session, slot and
  ledger tables, and the invariants of every reachable state. A committed mutation is a sequence
  of these steps.
\<close>

section \<open>Steps\<close>

inductive server_step :: "db \<Rightarrow> db \<Rightarrow> bool" where
  login: "begin_login_tx capability_hash clock s = Inr (session, t) \<Longrightarrow> server_step s t"
| logout: "end_session nonce now s = Inr ((), t) \<Longrightarrow> server_step s t"
| create: "create_slot_in_transaction display_name now ids s = Inr (i, t) \<Longrightarrow> server_step s t"
| switch: "request_switch u s = Inr ((), t) \<Longrightarrow> server_step s t"
| delete: "delete_inactive_slot_in_transaction u display_name s = Inr ((), t) \<Longrightarrow> server_step s t"
| command: "player_step u s t \<Longrightarrow> server_step s t"
| advance: "active_session s m \<Longrightarrow> last_seq s (mu_nonce m) < mu_request_seq m \<Longrightarrow>
    server_step s (advanced m s)"
| ledger: "record_mutation m j s = Inr ((), t) \<Longrightarrow> server_step s t"

definition reachable :: "db \<Rightarrow> bool" where
  "reachable s \<longleftrightarrow> server_step\<^sup>*\<^sup>* migration_1 s"

text \<open>Every committed mutation is a sequence of steps, when its command is.\<close>

lemma commit_steps:
  assumes "commit_rpc_mutation_with_replay enc dec m command s = Inr (x, t)"
    and cmd: "\<And>s y t. command s = Inr (y, t) \<Longrightarrow> server_step\<^sup>*\<^sup>* s t"
  shows "server_step\<^sup>*\<^sup>* s t"
proof (cases "ledger_entry s (mu_usn m) (mu_idempotency_key m)")
  case (Some r)
  with assms(1) show ?thesis by (auto simp: commit_with_replay_Inr)
next
  case None
  with assms(1) obtain replay j s' where a: "active_session s m" "last_seq s (mu_nonce m) < mu_request_seq m"
    and c: "command (advanced m s) = Inr ((x, replay), s')" and r: "record_mutation m j s' = Inr ((), t)"
    by (auto simp: commit_with_replay_Inr)
  have "server_step\<^sup>*\<^sup>* s (advanced m s)" using server_step.advance [OF a] by blast
  also have "server_step\<^sup>*\<^sup>* (advanced m s) s'" by (rule cmd [OF c])
  also have "server_step\<^sup>*\<^sup>* s' t" using server_step.ledger [OF r] by blast
  finally show ?thesis .
qed

lemma commit_plain_steps:
  assumes "commit_rpc_mutation enc dec m command s = Inr (x, t)"
    and "\<And>s y t. command s = Inr (y, t) \<Longrightarrow> server_step\<^sup>*\<^sup>* s t"
  shows "server_step\<^sup>*\<^sup>* s t"
  using assms by (auto simp: commit_rpc_mutation_def tx_simps elim!: commit_steps)

section \<open>Invariants\<close>

abbreviation session_nonce :: "db \<Rightarrow> int" where
  "session_nonce s \<equiv> rsr_session_nonce (runtime_selection s)"

abbreviation active_usn :: "db \<Rightarrow> int option" where
  "active_usn s \<equiv> rsr_active_usn (runtime_selection s)"

text \<open>Only the newest session can be open, and it is the active slot's.\<close>

definition sessions_inv :: "db \<Rightarrow> bool" where
  "sessions_inv s \<longleftrightarrow> tbl_ok (login_sessions s)
     \<and> (\<forall>n r. tbl_get (login_sessions s) n = Some r \<longrightarrow>
          n \<le> session_nonce s \<and> tbl_has (save_slots s) (ser_usn r)
          \<and> (ser_ended_at r = None \<longrightarrow> n = session_nonce s \<and> active_usn s = Some (ser_usn r)))"

text \<open>Slots have distinct numeric user ids, and the selection names existing slots.\<close>

definition slots_inv :: "db \<Rightarrow> bool" where
  "slots_inv s \<longleftrightarrow> tbl_ok (save_slots s)
     \<and> (\<forall>u. slot_selected s u \<longrightarrow> tbl_has (save_slots s) u)
     \<and> (\<forall>u v r q. tbl_get (save_slots s) u = Some r \<longrightarrow> tbl_get (save_slots s) v = Some q \<longrightarrow>
          slr_user_id r = slr_user_id q \<longrightarrow> u = v)"

text \<open>A ledger row belongs to a slot, and no two rows of a player share an idempotency key.\<close>

definition ledger_inv :: "db \<Rightarrow> bool" where
  "ledger_inv s \<longleftrightarrow> tbl_ok (mutation_ledger s)
     \<and> (\<forall>k r. tbl_get (mutation_ledger s) k = Some r \<longrightarrow> tbl_has (save_slots s) (fst k))
     \<and> (\<forall>u i j r q. tbl_get (mutation_ledger s) (u, i) = Some r \<longrightarrow>
          tbl_get (mutation_ledger s) (u, j) = Some q \<longrightarrow>
          lgr_idempotency_key r = lgr_idempotency_key q \<longrightarrow> i = j)"

definition store_inv :: "db \<Rightarrow> bool" where
  "store_inv s \<longleftrightarrow> sessions_inv s \<and> slots_inv s \<and> ledger_inv s"

text \<open>The selection, the sessions and the result of a login.\<close>

definition next_active :: "runtime_row \<Rightarrow> int option" where
  "next_active r = (case rsr_pending_usn r of None \<Rightarrow> rsr_active_usn r | Some p \<Rightarrow> Some p)"

definition new_session :: "int \<Rightarrow> nat list \<Rightarrow> device_clock \<Rightarrow> session_row" where
  "new_session u h c =
     \<lparr>ser_usn = u, ser_capability_hash = h, ser_started_at = unix_seconds c,
      ser_device_time = unix_seconds c, ser_utc_offset_minutes = utc_offset_minutes c,
      ser_last_request_seq = 0, ser_ended_at = None\<rparr>"

definition end_all :: "int \<Rightarrow> (int, session_row) table \<Rightarrow> (int, session_row) table" where
  "end_all now = tbl_set (\<lambda>_ r. ser_ended_at r = None) (\<lambda>r. r\<lparr>ser_ended_at := Some now\<rparr>)"

definition logged_in :: "int \<Rightarrow> nat list \<Rightarrow> device_clock \<Rightarrow> db \<Rightarrow> db" where
  "logged_in u h c s =
     login_sessions_update (\<lambda>q. tbl_put (session_nonce s + 1) (new_session u h c)
                                 (end_all (unix_seconds c) q))
       (runtime_selection_update (\<lambda>r. r\<lparr>rsr_active_usn := next_active r, rsr_pending_usn := None,
                                         rsr_session_nonce := session_nonce s + 1\<rparr>) s)"

lemma select_session_Inr:
  "select_session s = Inr (x, t) \<longleftrightarrow> in_i64 (session_nonce s + 1)
     \<and> t = runtime_selection_update (\<lambda>r. r\<lparr>rsr_active_usn := next_active r, rsr_pending_usn := None,
                                         rsr_session_nonce := session_nonce s + 1\<rparr>) s"
  by (auto simp: select_session_def next_active_def tx_simps)

lemma open_session_Inr:
  "open_session n u h c s = Inr (x, t) \<longleftrightarrow>
     tbl_has (save_slots s) u
     \<and> list_all (\<lambda>(n, r). ser_capability_hash r \<noteq> h) (end_all (unix_seconds c) (login_sessions s))
     \<and> \<not> tbl_has (login_sessions s) n
     \<and> t = login_sessions_update (\<lambda>q. tbl_put n (new_session u h c) (end_all (unix_seconds c) q)) s"
  by (auto simp: open_session_def end_all_def new_session_def tx_simps)

lemma anchor_pass_step: "tx_rel (player_step u) (anchor_pass u c)"
  unfolding anchor_pass_def by (intro player_rules)

lemma begin_login_Inr:
  assumes "begin_login_tx h c s = Inr (l, t)"
  obtains u sl where "next_active (runtime_selection s) = Some u"
    "tbl_get (save_slots s) u = Some sl"
    "runtime_selection t = \<lparr>rsr_active_usn = Some u, rsr_pending_usn = None,
        rsr_session_nonce = session_nonce s + 1\<rparr>"
    "\<not> tbl_has (login_sessions s) (session_nonce s + 1)"
    "login_sessions t = tbl_put (session_nonce s + 1) (new_session u h c)
        (end_all (unix_seconds c) (login_sessions s))"
    "save_slots t = save_slots s" "mutation_ledger t = mutation_ledger s" "player_rows u s t"
    "l = \<lparr>ls_identity = \<lparr>id_usn = u, id_user_id = slr_user_id sl\<rparr>, ls_nonce = session_nonce s + 1,
          ls_capability = '''', ls_clock = c\<rparr>"
proof -
  from assms obtain u sl where u: "next_active (runtime_selection s) = Some u"
    "tbl_get (save_slots s) u = Some sl" "\<not> tbl_has (login_sessions s) (session_nonce s + 1)"
    and a: "anchor_pass u c (logged_in u h c s) = Inr ((), t)"
    and l: "l = \<lparr>ls_identity = \<lparr>id_usn = u, id_user_id = slr_user_id sl\<rparr>,
          ls_nonce = session_nonce s + 1, ls_capability = '''', ls_clock = c\<rparr>"
    by (auto simp: begin_login_tx_def select_session_Inr open_session_Inr tx_simps logged_in_def)
  have st: "player_step u (logged_in u h c s) t" by (rule tx_relD [OF anchor_pass_step a])
  then have "player_rows u s t" by (simp add: player_step_def player_rows_def logged_in_def)
  with that [OF u(1,2) _ u(3) _ _ _ _ l] player_step_frame [OF st] u(1) show ?thesis
    by (simp add: logged_in_def)
qed

lemma delete_slot_Inr:
  "delete_inactive_slot_in_transaction u nm s = Inr (x, t) \<longleftrightarrow>
     (\<exists>r. tbl_get (save_slots s) u = Some r \<and> slr_display_name r = nm) \<and> \<not> slot_selected s u
     \<and> t = cascade_delete u s"
  by (auto simp: delete_inactive_slot_in_transaction_def tx_simps)

lemma request_switch_Inr:
  "request_switch u s = Inr (x, t) \<longleftrightarrow> tbl_has (save_slots s) u
     \<and> t = runtime_selection_update (\<lambda>r. r\<lparr>rsr_pending_usn := Some u\<rparr>) s"
  by (auto simp: request_switch_def set_pending_def tx_simps)

lemma store_inv_frame: "frame s t \<Longrightarrow> store_inv s \<Longrightarrow> store_inv t"
  by (simp add: frame_def store_inv_def sessions_inv_def slots_inv_def ledger_inv_def
      slot_selected_def)

lemma end_all_SomeD:
  "tbl_get (end_all now t) n = Some r \<Longrightarrow>
     ser_ended_at r \<noteq> None \<and> (\<exists>q. tbl_get t n = Some q \<and> ser_usn r = ser_usn q)"
  by (cases "tbl_get t n") (auto simp: end_all_def tbl_get_set)

lemma tbl_ok_end_all: "tbl_ok t \<Longrightarrow> tbl_ok (end_all now t)"
  by (simp add: end_all_def tbl_wf)

lemma inv_login:
  assumes "begin_login_tx h c s = Inr (l, t)" and inv: "store_inv s"
  shows "store_inv t"
proof (rule begin_login_Inr [OF assms(1)])
  fix u sl
  assume u: "next_active (runtime_selection s) = Some u" "tbl_get (save_slots s) u = Some sl"
    and rs: "runtime_selection t = \<lparr>rsr_active_usn = Some u, rsr_pending_usn = None,
        rsr_session_nonce = session_nonce s + 1\<rparr>"
    and ls: "login_sessions t = tbl_put (session_nonce s + 1) (new_session u h c)
        (end_all (unix_seconds c) (login_sessions s))"
    and eq: "save_slots t = save_slots s" "mutation_ledger t = mutation_ledger s"
  have "sessions_inv t"
    using inv u rs ls eq unfolding store_inv_def sessions_inv_def
    by (fastforce simp: tbl_ok_end_all tbl_wf new_session_def tbl_has_def dest: end_all_SomeD
        split: if_splits)
  moreover have "slots_inv t" "ledger_inv t"
    using inv u rs eq unfolding store_inv_def slots_inv_def ledger_inv_def slot_selected_def
    by (auto simp: tbl_has_def)
  ultimately show ?thesis by (simp add: store_inv_def)
qed

lemma inv_logout: "end_session n now s = Inr (x, t) \<Longrightarrow> store_inv s \<Longrightarrow> store_inv t"
  unfolding store_inv_def sessions_inv_def slots_inv_def ledger_inv_def slot_selected_def
  by (auto simp: end_session_def tx_simps tbl_wf split: if_splits option.splits)

lemma inv_switch: "request_switch u s = Inr (x, t) \<Longrightarrow> store_inv s \<Longrightarrow> store_inv t"
  unfolding store_inv_def sessions_inv_def slots_inv_def ledger_inv_def slot_selected_def
  by (auto simp: request_switch_Inr)

lemma inv_create:
  assumes c: "create_slot_in_transaction nm now ids s = Inr (i, t)" and inv: "store_inv s"
  shows "store_inv t"
proof -
  note t = create_slot_Inr [OF c]
  have fresh: "slr_user_id q \<noteq> id_user_id i" if "tbl_get (save_slots s) v = Some q" for v q
    using t(4) tbl_get_SomeD [OF that] by (auto simp: user_id_ok_def list_all_iff)
  have "sessions_inv t"
    using inv t(3) unfolding store_inv_def sessions_inv_def t(5,6,8)
    by (auto simp: activate_def)
  moreover have "slots_inv t"
    using inv t(4) unfolding store_inv_def slots_inv_def slot_selected_def t(5,8)
    by (auto simp: activate_def tbl_wf new_slot_def dest: fresh split: option.splits if_splits)
  moreover have "ledger_inv t"
    using inv unfolding store_inv_def ledger_inv_def t(5,7) by auto
  ultimately show ?thesis by (simp add: store_inv_def)
qed

lemma inv_delete:
  assumes d: "delete_inactive_slot_in_transaction u nm s = Inr (x, t)" and inv: "store_inv s"
  shows "store_inv t"
proof -
  from d have t: "t = cascade_delete u s" and u: "\<not> slot_selected s u"
    by (auto simp: delete_slot_Inr)
  have o: "tbl_has (others1 u (save_slots s)) v \<longleftrightarrow> v \<noteq> u \<and> tbl_has (save_slots s) v" for v
    by (simp add: tbl_has_def tbl_get_others1_if)
  have ok: "tbl_ok (others1 u (save_slots s))" "tbl_ok (others u (mutation_ledger s))"
    using inv by (simp_all add: store_inv_def slots_inv_def ledger_inv_def others1_def others_def tbl_wf)
  have "sessions_inv t"
    using inv unfolding store_inv_def sessions_inv_def t
    by (auto simp: cascade_delete_def tbl_wf tbl_get_filter o)
  moreover have "slots_inv t"
    using inv u ok unfolding store_inv_def slots_inv_def t slot_selected_def
    by (auto simp: cascade_delete_def o tbl_get_others1_if split: if_splits)
  moreover have "ledger_inv t"
    using inv ok unfolding store_inv_def ledger_inv_def t
    by (auto simp: cascade_delete_def o tbl_get_others_if split: if_splits)
  ultimately show ?thesis by (simp add: store_inv_def)
qed

lemma inv_advance: "store_inv s \<Longrightarrow> store_inv (advanced m s)"
  unfolding store_inv_def sessions_inv_def slots_inv_def ledger_inv_def slot_selected_def
    advanced_def
  by (auto simp: tbl_wf split: if_splits)

lemma inv_record:
  assumes r: "record_mutation m j s = Inr (x, t)" and inv: "store_inv s"
  shows "store_inv t"
proof -
  from r have t: "t = recorded m j s" and slot: "tbl_has (save_slots s) (mu_usn m)"
    and new: "ledger_entry s (mu_usn m) (mu_idempotency_key m) = None"
    by (auto simp: record_mutation_Inr)
  from new have key: "lgr_idempotency_key q \<noteq> mu_idempotency_key m"
    if "tbl_get (mutation_ledger s) (mu_usn m, i) = Some q" for i q
    using tbl_get_SomeD [OF that] by (auto simp: ledger_entry_def find_None_iff)
  have "sessions_inv t" "slots_inv t"
    using inv unfolding store_inv_def sessions_inv_def slots_inv_def slot_selected_def t recorded_def
    by (auto simp: tbl_wf split: if_splits)
  moreover have "ledger_inv t"
    using inv slot unfolding store_inv_def ledger_inv_def t recorded_def
    by (auto simp: tbl_wf ledger_row_of_def dest: key split: if_splits)
  ultimately show ?thesis by (simp add: store_inv_def)
qed

lemma inv_step: "server_step s t \<Longrightarrow> store_inv s \<Longrightarrow> store_inv t"
  by (induction rule: server_step.induct)
     (auto intro: inv_login inv_logout inv_create inv_switch inv_delete inv_advance inv_record
       store_inv_frame simp: player_step_def)

lemma store_inv_start: "store_inv migration_1"
  by (simp add: store_inv_def sessions_inv_def slots_inv_def ledger_inv_def migration_1_def
      slot_selected_def)

lemma inv_steps: "server_step\<^sup>*\<^sup>* s t \<Longrightarrow> store_inv s \<Longrightarrow> store_inv t"
  by (induction rule: rtranclp_induct) (auto intro: inv_step)

lemma reachable_inv: "reachable s \<Longrightarrow> store_inv s"
  unfolding reachable_def using inv_steps store_inv_start by blast

lemma demo_inv: "store_inv demo_db"
  by (simp add: store_inv_def sessions_inv_def slots_inv_def ledger_inv_def demo_db_def
      slot_selected_def tbl_get_Cons tbl_has_Cons tbl_ok_def)

section \<open>Properties\<close>

text \<open>A session that is not open stays closed: its nonce is never issued again.\<close>

definition fenced :: "int \<Rightarrow> int \<Rightarrow> db \<Rightarrow> bool" where
  "fenced n u s \<longleftrightarrow> n \<le> session_nonce s \<and> \<not> session_open s n u"

lemma fenced_iff:
  "fenced n u s \<longleftrightarrow> n \<le> session_nonce s
     \<and> (\<forall>r. tbl_get (login_sessions s) n = Some r \<longrightarrow> ser_usn r = u \<longrightarrow> ser_ended_at r \<noteq> None)"
  by (auto simp: fenced_def session_open_def split: option.splits)

lemma fenced_login: "begin_login_tx h c s = Inr (l, t) \<Longrightarrow> fenced n u s \<Longrightarrow> fenced n u t"
  by (erule begin_login_Inr) (auto simp: fenced_iff dest: end_all_SomeD)

lemma fenced_delete:
  assumes "delete_inactive_slot_in_transaction v nm s = Inr (x, t)" "fenced n u s" "store_inv s"
  shows "fenced n u t"
  using assms by (auto simp: delete_slot_Inr fenced_iff cascade_delete_def tbl_get_filter
      store_inv_def sessions_inv_def)

lemma fenced_create:
  assumes "create_slot_in_transaction nm now ids s = Inr (i, t)" "fenced n u s"
  shows "fenced n u t"
  using assms(2) create_slot_Inr(6,8) [OF assms(1)] by (simp add: fenced_iff activate_def)

lemma fenced_step: "server_step s t \<Longrightarrow> store_inv s \<Longrightarrow> fenced n u s \<Longrightarrow> fenced n u t"
proof (induction rule: server_step.induct)
  case (logout m now s t)
  then show ?case
    by (auto simp: fenced_iff end_session_def tx_simps split: if_splits option.splits)
next
  case (advance s m)
  then show ?case by (auto simp: fenced_iff advanced_def split: if_splits)
next
  case (command v s t)
  then show ?case using player_step_frame [of v s t] by (simp add: fenced_iff)
next
  case (login h c s l t)
  then show ?case by (blast intro: fenced_login)
next
  case (create nm now ids s i t)
  then show ?case by (blast intro: fenced_create)
next
  case (delete v nm s t)
  then show ?case by (blast intro: fenced_delete)
qed (auto simp: request_switch_Inr record_mutation_Inr recorded_def fenced_iff)

lemma fenced_steps: "server_step\<^sup>*\<^sup>* s t \<Longrightarrow> store_inv s \<Longrightarrow> fenced n u s \<Longrightarrow> fenced n u t"
  by (induction rule: rtranclp_induct) (auto intro: fenced_step inv_steps)

lemma fenced_stale:
  "fenced (mu_nonce m) (mu_usn m) s \<Longrightarrow>
     commit_rpc_mutation_with_replay enc dec m command s = Inl (Domain StaleRequest)"
  by (simp add: commit_rpc_mutation_with_replay_def fenced_def active_session_def domain_require_def
      tx_run)

lemma reachable_login: "\<exists>s. reachable s \<and> session_nonce s = 1 \<and> session_open s 1 1"
proof -
  obtain i t where c: "create_slot_in_transaction ''Save 1'' 0 [] migration_1 = Inr (i, t)"
    and i: "id_usn i = 1" using first_slot by blast
  note t = create_slot_Inr [OF c, unfolded i]
  let ?c = "\<lparr>unix_seconds = 0, utc_offset_minutes = 0\<rparr>"
  have r: "runtime_selection t = \<lparr>rsr_active_usn = Some 1, rsr_pending_usn = None, rsr_session_nonce = 0\<rparr>"
    by (simp add: t(8) activate_def)
  have slot: "tbl_get (save_slots t) 1 = Some (new_slot (id_user_id i) ''Save 1'' 0)"
    by (simp add: t(5) tbl_get_Cons)
  have "\<exists>l t'. begin_login_tx [] ?c t = Inr (l, t')"
    using t(6) r slot
    by (simp add: begin_login_tx_def select_session_Inr open_session_Inr anchor_pass_def Let_def
        tx_simps tbl_has_def next_active_def in_i64_def end_all_def tbl_set_def)
  then obtain l t' where l: "begin_login_tx [] ?c t = Inr (l, t')" by blast
  have "reachable t'"
    unfolding reachable_def using server_step.create [OF c] server_step.login [OF l] by auto
  moreover have "session_nonce t' = 1 \<and> session_open t' 1 1"
    by (rule begin_login_Inr [OF l]) (auto simp: r next_active_def session_open_def new_session_def)
  ultimately show ?thesis by blast
qed

text \<open>C3: in every state the server can reach, an open session is the one issued last, it belongs to
  the active slot, and that slot exists.\<close>

theorem reachable_sessions:
  assumes "reachable s" "session_open s n u"
  shows "n = session_nonce s \<and> active_usn s = Some u \<and> tbl_has (save_slots s) u"
  using reachable_inv [OF assms(1)] assms(2)
  by (auto simp: store_inv_def sessions_inv_def session_open_def split: option.splits)

theorem reachable_sessions_witness:
  "\<exists>s. reachable s \<and> session_open s 1 1 \<and> active_usn s = Some 1 \<and> tbl_has (save_slots s) 1"
  using reachable_login reachable_sessions by blast

text \<open>C5: fencing. Once a session of a player is closed, by a logout, a newer login or the deletion
  of its slot, it is never open again, and every mutation sent with its nonce is refused as stale
  whatever the server has done in between.\<close>

theorem closed_session_is_fenced:
  assumes "store_inv s" "server_step\<^sup>*\<^sup>* s t"
    and "mu_nonce m \<le> session_nonce s" "\<not> session_open s (mu_nonce m) (mu_usn m)"
  shows "commit_rpc_mutation_with_replay enc dec m command t = Inl (Domain StaleRequest)"
  by (intro fenced_stale fenced_steps [of s t]) (simp_all add: fenced_def assms)

theorem closed_session_is_fenced_witness:
  "\<exists>t. end_session 1 5 demo_db = Inr ((), t)
     \<and> commit_rpc_mutation_with_replay Inr Inr demo_mutation (tx_return (''ok'', None)) t
       = Inl (Domain StaleRequest)"
proof -
  obtain t where t: "end_session 1 5 demo_db = Inr ((), t)" by (simp add: end_session_def tx_run)
  then have "login_sessions t = tbl_at 1 (\<lambda>r. r\<lparr>ser_ended_at := Some 5\<rparr>) (login_sessions demo_db)"
    "session_nonce t = 1"
    by (auto simp: end_session_def tx_simps demo_db_def tbl_set_def)
  with closed_session_is_fenced [of t t demo_mutation] inv_logout [OF t demo_inv] t
  show ?thesis
    by (auto simp: session_open_def demo_mutation_def demo_db_def tbl_get_Cons)
qed

text \<open>A login activates the pending slot (or keeps the active one), clears the request, closes every
  session and opens exactly one, with the next nonce and no request served yet.\<close>

lemma login_opens_one_session:
  assumes "begin_login_tx h c s = Inr (l, t)" "store_inv s"
  shows "active_usn t = next_active (runtime_selection s)
    \<and> rsr_pending_usn (runtime_selection t) = None
    \<and> (\<forall>n u. session_open t n u = (n = ls_nonce l \<and> active_usn t = Some u))
    \<and> ls_nonce l = session_nonce s + 1 \<and> last_seq t (ls_nonce l) = 0
    \<and> slot_has_user t (ls_identity l)"
proof (rule begin_login_Inr [OF assms(1)])
  fix u sl
  assume u: "next_active (runtime_selection s) = Some u" "tbl_get (save_slots s) u = Some sl"
    and rs: "runtime_selection t = \<lparr>rsr_active_usn = Some u, rsr_pending_usn = None,
        rsr_session_nonce = session_nonce s + 1\<rparr>"
    and ls: "login_sessions t = tbl_put (session_nonce s + 1) (new_session u h c)
        (end_all (unix_seconds c) (login_sessions s))"
    and eq: "save_slots t = save_slots s"
    and l: "l = \<lparr>ls_identity = \<lparr>id_usn = u, id_user_id = slr_user_id sl\<rparr>,
          ls_nonce = session_nonce s + 1, ls_capability = '''', ls_clock = c\<rparr>"
  have "session_open t n v = (n = session_nonce s + 1 \<and> v = u)" for n v
    using ls by (auto simp: session_open_def new_session_def dest!: end_all_SomeD
        split: option.splits if_splits)
  then show ?thesis
    using u rs ls eq l by (auto simp: last_seq_def new_session_def slot_has_user_def)
qed

lemma login_opens_one_session_witness:
  "\<exists>l t. begin_login_tx [8] \<lparr>unix_seconds = 100, utc_offset_minutes = 0\<rparr> demo_db = Inr (l, t)
     \<and> ls_nonce l = 2 \<and> (\<forall>n u. session_open t n u = (n = 2 \<and> active_usn t = Some u))"
proof -
  have "\<exists>l t. begin_login_tx [8] \<lparr>unix_seconds = 100, utc_offset_minutes = 0\<rparr> demo_db = Inr (l, t)"
    by (simp add: begin_login_tx_def select_session_Inr open_session_Inr anchor_pass_def Let_def
        tx_simps tbl_has_Cons tbl_has_Nil tbl_get_Cons next_active_def in_i64_def end_all_def
        tbl_set_def demo_db_def)
  then obtain l t
    where l: "begin_login_tx [8] \<lparr>unix_seconds = 100, utc_offset_minutes = 0\<rparr> demo_db = Inr (l, t)"
    by blast
  from login_opens_one_session [OF l demo_inv] l show ?thesis
    by (intro exI [of _ l] exI [of _ t]) (simp add: demo_db_def)
qed

text \<open>C4: exactly once. Whenever a mutation has succeeded, sending it again, whatever command the retry carries,
  changes nothing and is answered from the ledger: with what the codec reads back from the JSON stored with it,
  \<open>InvalidReplay\<close> when it cannot read it. That JSON is the one of the first result, or of the reduced result that the
  command stores for retries; so the answer is the first one wherever that value reads back as it was written.
  \<open>commit_rpc_mutation\<close> is the case of a command without a reduced result.\<close>

theorem commit_exactly_once:
  assumes "\<And>m. tx_rel (player_step (mu_usn m)) (command m)"
    and "commit_rpc_mutation_with_replay enc dec m (command m) s = Inr (x, t)"
  shows "\<exists>j. (\<forall>other. commit_rpc_mutation_with_replay enc dec m other t
        = (case dec j of Inl e \<Rightarrow> Inl (InvalidReplay e) | Inr y \<Rightarrow> Inr (y, t)))
    \<and> (case ledger_entry s (mu_usn m) (mu_idempotency_key m) of
         Some r \<Rightarrow> t = s \<and> j = lgr_summary_json r \<and> dec j = Inr x
       | None \<Rightarrow> \<exists>replay s'. command m (advanced m s) = Inr ((x, replay), s')
           \<and> enc (case replay of None \<Rightarrow> x | Some r \<Rightarrow> r) = Inr j)"
  by (rule rpc_command.retry [OF rpc_command.intro]) (rule assms)+

text \<open>A command for the examples: five gifts of one kind.\<close>

definition demo_command :: "rpc_mutation \<Rightarrow> string store" where
  "demo_command m = tx_then (tx_modify (gifts_update (tbl_put (mu_usn m, 1) 5))) (tx_return ''ok'')"

lemma demo_command_step: "tx_rel (player_step (mu_usn m)) (demo_command m)"
  unfolding demo_command_def by (intro player_rules)

lemma demo_commit:
  "\<exists>t. commit_rpc_mutation Inr Inr demo_mutation (demo_command demo_mutation) demo_db = Inr (''ok'', t)"
  by (simp add: commit_Inr demo_simps demo_command_def tx_simps record_mutation_Inr)
     (simp add: demo_db_def demo_mutation_def advanced_def next_ledger_id_def ledger_entry_def
       max_or_zero_def in_i64_def last_seq_def tbl_get_Cons tbl_has_Cons)

theorem commit_exactly_once_witness:
  "\<exists>t. commit_rpc_mutation Inr Inr demo_mutation (demo_command demo_mutation) demo_db = Inr (''ok'', t)
     \<and> commit_rpc_mutation Inr Inr demo_mutation (tx_return ''other'') t = Inr (''ok'', t)"
proof -
  let ?c = "\<lambda>m. tx_bind (demo_command m) (\<lambda>x. tx_return (x, None))"
  have step: "tx_rel (player_step (mu_usn m)) (?c m)" for m
    by (intro player_rules demo_command_step)
  obtain t where t: "commit_rpc_mutation Inr Inr demo_mutation (demo_command demo_mutation) demo_db = Inr (''ok'', t)"
    using demo_commit by blast
  from commit_exactly_once [of ?c, OF step t [unfolded commit_rpc_mutation_def]] t show ?thesis
    by (auto simp: commit_rpc_mutation_def demo_simps tx_simps)
qed

text \<open>C6: a mutation that is not a replay carries a sequence number above every one its session has
  served, becomes the last one served, and adds exactly one ledger row: its own, with a new id. No
  other session and no ledger row changes.\<close>

theorem commit_sequenced:
  assumes "\<And>m. tx_rel (player_step (mu_usn m)) (command m)"
    and "commit_rpc_mutation enc dec m (command m) s = Inr (x, t)"
    and "ledger_entry s (mu_usn m) (mu_idempotency_key m) = None"
  shows "last_seq s (mu_nonce m) < mu_request_seq m \<and> last_seq t (mu_nonce m) = mu_request_seq m
    \<and> (\<forall>n. n \<noteq> mu_nonce m \<longrightarrow> tbl_get (login_sessions t) n = tbl_get (login_sessions s) n)
    \<and> (\<exists>j. tbl_get (mutation_ledger s) (mu_usn m, next_ledger_id s (mu_usn m)) = None
         \<and> mutation_ledger t = tbl_put (mu_usn m, next_ledger_id s (mu_usn m)) (ledger_row_of m j)
             (mutation_ledger s))"
proof -
  from assms(2,3) have "last_seq s (mu_nonce m) < mu_request_seq m" "active_session s m"
    by (auto simp: commit_Inr)
  moreover have "tbl_get (mutation_ledger s) (mu_usn m, next_ledger_id s (mu_usn m)) = None"
    using next_ledger_id_fresh by (simp add: tbl_has_def)
  ultimately show ?thesis
    using plain_command.plain_frame [OF plain_command.intro [OF assms(1)] assms(2,3)]
    by (auto simp: last_seq_def advanced_def active_session_def session_open_def split: option.splits)
qed

theorem commit_sequenced_witness:
  "\<exists>t. commit_rpc_mutation Inr Inr demo_mutation (demo_command demo_mutation) demo_db = Inr (''ok'', t)
     \<and> last_seq t 1 = 1"
  using demo_commit commit_sequenced [of demo_command Inr Inr demo_mutation demo_db,
      OF demo_command_step _ demo_simps(3)] by (fastforce simp: demo_mutation_def)

text \<open>a committed mutation of one player leaves every row of every other player as it was, in
  every table, and removes no row of anybody.\<close>

lemma commit_isolated:
  assumes "\<And>m. tx_rel (player_step (mu_usn m)) (command m)"
    and "commit_rpc_mutation enc dec m (command m) s = Inr (x, t)"
  shows "player_rows (mu_usn m) s t
    \<and> (\<forall>v. v \<noteq> mu_usn m \<longrightarrow> tbl_get (save_slots t) v = tbl_get (save_slots s) v)
    \<and> (\<forall>k. fst k \<noteq> mu_usn m \<longrightarrow> tbl_get (mutation_ledger t) k = tbl_get (mutation_ledger s) k)
    \<and> runtime_selection t = runtime_selection s"
proof (cases "ledger_entry s (mu_usn m) (mu_idempotency_key m)")
  case (Some r)
  with assms(2) have "t = s" by (auto simp: commit_Inr)
  then show ?thesis by (simp add: player_rows_refl)
next
  case None
  from plain_command.plain_frame [OF plain_command.intro [OF assms(1)] assms(2) None]
  show ?thesis by auto
qed

lemma commit_isolated_witness:
  "\<exists>t. commit_rpc_mutation Inr Inr demo_mutation (demo_command demo_mutation) demo_db = Inr (''ok'', t)
     \<and> player_rows 1 demo_db t"
  using demo_commit commit_isolated [of demo_command Inr Inr demo_mutation demo_db,
      OF demo_command_step] by (fastforce simp: demo_mutation_def)

end
