(* ===== verification/Rewards.thy ===== *)
theory Rewards
  imports Sessions
begin

text \<open>
  The reward helpers of \<open>crates/persistence-sqlite/src/lib.rs\<close> that every operation shares:
  crediting and deducting a currency, the fan gain, the grant of one reward, the advertisement
  level, the representation of a reward in a mail row and its application.
\<close>

section \<open>Balances\<close>

text \<open>\<open>UPDATE currencies SET amount=amount+?\<close> under \<open>CHECK(amount>=0)\<close>; no row, no change.\<close>

definition credit :: "int \<Rightarrow> currency_kind \<Rightarrow> f64 \<Rightarrow> unit store" where
  "credit u kind amount =
     tx_bind (tx_gets (\<lambda>s. tbl_get (currencies s) (u, currency_key kind))) (\<lambda>old.
     tx_then (sql_check (case old of None \<Rightarrow> True | Some a \<Rightarrow> amount_col (fadd a amount)))
             (tx_modify (currencies_update (tbl_at (u, currency_key kind) (\<lambda>a. fadd a amount)))))"

definition currency_balances :: "int \<Rightarrow> (f64 \<times> f64) store" where
  "currency_balances u =
     tx_bind (query_row (\<lambda>s. tbl_get (currencies s) (u, ''chocolate''))) (\<lambda>chocolate.
     tx_bind (query_row (\<lambda>s. tbl_get (currencies s) (u, ''candy''))) (\<lambda>candy.
       tx_return (chocolate, candy)))"

definition valid_amount :: "f64 \<Rightarrow> bool" where
  "valid_amount amount \<longleftrightarrow> is_finite amount \<and> \<not> flt_less amount fzero"

definition covers :: "db \<Rightarrow> int \<Rightarrow> currency_kind \<Rightarrow> f64 \<Rightarrow> bool" where
  "covers s u kind amount \<longleftrightarrow>
     (case tbl_get (currencies s) (u, currency_key kind) of
        None \<Rightarrow> False
      | Some a \<Rightarrow> flt_le amount a)"

definition deduct_currency :: "int \<Rightarrow> currency_kind \<Rightarrow> f64 \<Rightarrow> unit store" where
  "deduct_currency u kind amount =
     tx_then (domain_require (valid_amount amount) InvalidAmount)
       (if flt_eq amount fzero then tx_return ()
        else tx_bind (tx_gets (\<lambda>s. covers s u kind amount)) (\<lambda>changed.
             tx_then (domain_require changed InsufficientBalance)
               (tx_modify (currencies_update
                  (tbl_at (u, currency_key kind) (\<lambda>a. fsub a amount))))))"

section \<open>Granting a reward\<close>

definition unsupported :: "string \<Rightarrow> 'a store" where
  "unsupported what = tx_fail (UnsupportedReward what)"

fun costume_bonuses :: "reward_rules \<Rightarrow> int \<Rightarrow> int list \<Rightarrow> store_error + f32 list" where
  "costume_bonuses rules area [] = Inr []"
| "costume_bonuses rules area (i # ids) =
     (case tbl_get (costume_fan_bonuses rules) i of
        None \<Rightarrow> Inl (UnsupportedReward (''missing costume bonus:'' @ show_int i))
      | Some (costume_area, bonus) \<Rightarrow>
          (case costume_bonuses rules area ids of
             Inl e \<Rightarrow> Inl e
           | Inr bs \<Rightarrow> Inr (if costume_area = area then bonus # bs else bs)))"

definition owned_costumes :: "db \<Rightarrow> int \<Rightarrow> int list" where
  "owned_costumes s u =
     map (\<lambda>((_, _, i), _). i) (tbl_select (\<lambda>(v, k, i) _. v = u \<and> k = ''costume'') (owned_content s))"

definition domain_result :: "domain_error + 'a \<Rightarrow> 'a store" where
  "domain_result r = (case r of Inl e \<Rightarrow> tx_fail (Domain e) | Inr x \<Rightarrow> tx_return x)"

definition credit_area_fans :: "int \<Rightarrow> int \<Rightarrow> f64 \<Rightarrow> unit store" where
  "credit_area_fans u area amount =
     tx_bind (tx_gets (\<lambda>s. tbl_get (area_state s) (u, area))) (\<lambda>row.
     case row of
       None \<Rightarrow> unsupported (''fan area:'' @ show_int area)
     | Some r \<Rightarrow> tx_then (sql_check (amount_col (fadd (arr_fans r) amount)))
         (tx_modify (area_state_update (tbl_at (u, area)
            (\<lambda>r. r\<lparr>arr_fans := fadd (arr_fans r) amount\<rparr>)))))"

definition grant_fan_reward :: "reward_rules \<Rightarrow> int \<Rightarrow> int \<Rightarrow> f64 \<Rightarrow> bool store" where
  "grant_fan_reward rules u area multiplier =
     tx_bind (tx_gets (\<lambda>s. owned_costumes s u)) (\<lambda>ids.
     tx_bind (tx_lift (costume_bonuses rules area ids)) (\<lambda>bonuses.
     tx_bind (domain_result (fan_reward_count bonuses multiplier)) (\<lambda>count.
     let amount = Fin (of_int count)
     in tx_then (if area = 1 then credit u Fans amount else tx_return ())
       (tx_then (credit_area_fans u area amount) (tx_return True)))))"

text \<open>\<open>INSERT OR IGNORE\<close> of an owned item; the value says whether a row was inserted.\<close>

definition own_item :: "int \<Rightarrow> string \<Rightarrow> int \<Rightarrow> int \<Rightarrow> int \<Rightarrow> string \<Rightarrow> bool store" where
  "own_item u kind area i now source =
     tx_bind (tx_gets (\<lambda>s. \<not> tbl_has (owned_content s) (u, kind, i))) (\<lambda>changed.
     tx_then (tx_modify (owned_content_update (tbl_ignore (u, kind, i)
               \<lparr>owr_area = area, owr_acquired_at = now, owr_source = source\<rparr>)))
             (tx_return changed))"

definition level_one :: "int \<Rightarrow> string \<Rightarrow> int \<Rightarrow> unit store" where
  "level_one u kind i =
     tx_modify (content_levels_update (tbl_ignore (u, kind, i) \<lparr>lvr_level = 1, lvr_reward_level = 0\<rparr>))"

text \<open>The quantity of a countable reward: \<open>amount.round().max(0.0) as i64\<close>.\<close>

definition whole_amount :: "f64 \<Rightarrow> int" where
  "whole_amount amount = as_i64 (fmax (fround amount) fzero)"

definition add_gifts :: "int \<Rightarrow> int \<Rightarrow> int \<Rightarrow> unit store" where
  "add_gifts u gift quantity =
     tx_bind (tx_gets (\<lambda>s. tbl_get (gifts s) (u, gift))) (\<lambda>old.
     tx_then (sql_check (case old of None \<Rightarrow> True | Some q \<Rightarrow> in_i64 (q + quantity)))
             (tx_modify (gifts_update (tbl_upsert (u, gift) quantity (\<lambda>q. q + quantity)))))"

definition add_energy :: "int \<Rightarrow> int \<Rightarrow> int \<Rightarrow> unit store" where
  "add_energy u amount now =
     tx_modify (ch3_energy_update (tbl_upsert u
       \<lparr>eyr_amount = amount, eyr_cap = amount, eyr_calculated_at = now\<rparr>
       (\<lambda>r. r\<lparr>eyr_amount := min (eyr_cap r) (eyr_amount r + amount), eyr_calculated_at := now\<rparr>)))"

definition extend_fever :: "int \<Rightarrow> f64 \<Rightarrow> int \<Rightarrow> string \<Rightarrow> bool store" where
  "extend_fever u amount now source =
     tx_bind (tx_gets (\<lambda>s. map_option bfr_expires_at (tbl_get (buff_timers s) (u, 2)))) (\<lambda>old_end.
     let duration = max (as_i64 (fround amount)) 1;
         expires_at = sat_i64 (max (case old_end of None \<Rightarrow> now | Some e \<Rightarrow> e) now + duration);
         row = \<lparr>bfr_active_at = now, bfr_expires_at = expires_at\<rparr>
     in tx_then (tx_modify (buff_timers_update (tbl_upsert (u, 2) row (\<lambda>_. row))))
       (tx_then (own_item u ''buff'' 0 2 now source)
       (tx_then (level_one u ''buff'' 2) (tx_return True))))"

fun reward_content_kind :: "int \<Rightarrow> content_kind option" where
  "reward_content_kind t =
     (if t = 2 then Some Music else if t = 3 then Some Costume else if t = 4 then Some Prop
      else if t = 5 then Some Follower else if t = 6 then Some Buff else if t = 7 then Some Unit
      else if t = 8 then Some Skill else if t = 9 then Some Guitar else None)"

fun consume_currency :: "int \<Rightarrow> currency_kind option" where
  "consume_currency i =
     (if i = 1 then Some Chocolate else if i = 2 then Some Candy
      else if i = 3 \<or> i = 4 then Some Ch1Like else if i = 5 \<or> i = 10 then Some Ch2Note
      else if i = 6 \<or> i = 7 then Some Ch2Like else None)"

text \<open>The branch of reward type 1, a Consume id.\<close>

definition grant_consume :: "reward_rules \<Rightarrow> int \<Rightarrow> reward_grant \<Rightarrow> int \<Rightarrow> bool store" where
  "grant_consume rules u reward now =
     (if rg_reward_id reward = 8 \<or> rg_reward_id reward = 9
      then grant_fan_reward rules u (rg_reward_id reward - 7) (rg_amount reward)
      else case consume_currency (rg_reward_id reward) of
        Some currency \<Rightarrow> tx_then (credit u currency (rg_amount reward)) (tx_return True)
      | None \<Rightarrow>
          if rg_reward_id reward = 11
          then tx_then (add_energy u (whole_amount (rg_amount reward)) now) (tx_return True)
          else unsupported (''consume:'' @ show_int (rg_reward_id reward)))"

definition grant_ticket :: "int \<Rightarrow> int \<Rightarrow> int \<Rightarrow> bool store" where
  "grant_ticket u ticket now =
     tx_bind (tx_gets (\<lambda>s. \<not> tbl_has (ticket_collection s) (u, ticket))) (\<lambda>changed.
     tx_then (tx_modify (ticket_collection_update (tbl_ignore (u, ticket) now)))
             (tx_return changed))"

definition grant_content :: "int \<Rightarrow> content_kind \<Rightarrow> int \<Rightarrow> int \<Rightarrow> string \<Rightarrow> bool store" where
  "grant_content u kind i now source =
     tx_bind (own_item u (content_key kind) 0 i now source) (\<lambda>changed.
     tx_then (if changed then level_one u (content_key kind) i else tx_return ())
             (tx_return changed))"

definition apply_reward_grant ::
  "reward_rules \<Rightarrow> int \<Rightarrow> reward_grant \<Rightarrow> int \<Rightarrow> string \<Rightarrow> bool store" where
  "apply_reward_grant rules u reward now source =
     tx_then (domain_require (valid_amount (rg_amount reward)) InvalidAmount)
       (if rg_reward_type reward = 1 then grant_consume rules u reward now
        else if rg_reward_type reward = 6 \<and> rg_reward_id reward = 2
        then extend_fever u (rg_amount reward) now source
        else case reward_content_kind (rg_reward_type reward) of
          Some kind \<Rightarrow> grant_content u kind (rg_reward_id reward) now source
        | None \<Rightarrow>
            if rg_reward_type reward = 10 then grant_ticket u (rg_reward_id reward) now
            else if rg_reward_type reward = 11
            then tx_then (add_gifts u (rg_reward_id reward) (whole_amount (rg_amount reward)))
                         (tx_return True)
            else unsupported (''type:'' @ show_int (rg_reward_type reward)))"

section \<open>Advertisement levels\<close>

definition ad_level_snapshot_of :: "int \<Rightarrow> int \<Rightarrow> ad_level_snapshot store" where
  "ad_level_snapshot_of u group_id =
     query_row (\<lambda>s. map_option (\<lambda>r. \<lparr>al_ad_level_id = group_id, al_level = alr_level r,
                                    al_experience = alr_experience r\<rparr>)
                     (tbl_get (ad_levels s) (u, group_id)))"

definition ad_level_after :: "ad_level_progression \<Rightarrow> int \<Rightarrow> int \<Rightarrow> int" where
  "ad_level_after progression previous experience =
     (let reached = map fst (filter (\<lambda>(level, required). required \<le> experience)
                               (alp_thresholds progression))
      in max (if reached = [] then previous else foldr max reached (hd reached)) previous)"

definition advance_ad_level :: "int \<Rightarrow> ad_level_progression \<Rightarrow> ad_level_snapshot store" where
  "advance_ad_level u progression =
     tx_bind (ad_level_snapshot_of u (alp_group_id progression)) (\<lambda>previous.
     let experience = sat_i64 (al_experience previous + 1);
         level = ad_level_after progression (al_level previous) experience
     in tx_then (tx_modify (ad_levels_update (tbl_at (u, alp_group_id progression)
                  (\<lambda>r. r\<lparr>alr_level := level, alr_experience := experience\<rparr>))))
          (tx_return \<lparr>al_ad_level_id = alp_group_id progression, al_level = level,
                      al_experience = experience\<rparr>))"

section \<open>Rewards in mail rows\<close>

record stored_reward_row =
  srw_kind :: string
  srw_reward_id :: "int option"
  srw_amount :: "f64 option"
  srw_area :: int
  srw_claimed_at :: "int option"

fun legacy_consume_id :: "currency_kind \<Rightarrow> int option" where
  "legacy_consume_id Chocolate = Some 1"
| "legacy_consume_id Candy = Some 2"
| "legacy_consume_id Ch1Like = Some 4"
| "legacy_consume_id Ch2Note = Some 5"
| "legacy_consume_id Ch2Like = Some 6"
| "legacy_consume_id Fans = Some 8"
| "legacy_consume_id _ = None"

definition stored_consume_id ::
  "string \<Rightarrow> currency_kind \<Rightarrow> int \<Rightarrow> int option \<Rightarrow> store_error + int" where
  "stored_consume_id kind currency legacy_id reward_id =
     (case reward_id of
        None \<Rightarrow> Inr legacy_id
      | Some i \<Rightarrow>
          if \<not> in_i32 i then Inl (UnsupportedReward (''consume:'' @ show_int i))
          else (case consume_from_id i of
                  Some c \<Rightarrow> if cr_currency c = Some currency then Inr (cr_id c)
                            else Inl (UnsupportedReward (''consume:'' @ kind @ '':'' @ show_int i))
                | None \<Rightarrow> Inl (UnsupportedReward (''consume:'' @ kind @ '':'' @ show_int i))))"

fun stored_content_type :: "content_kind \<Rightarrow> store_error + int" where
  "stored_content_type Music = Inr 2"
| "stored_content_type Costume = Inr 3"
| "stored_content_type Prop = Inr 4"
| "stored_content_type Follower = Inr 5"
| "stored_content_type Buff = Inr 6"
| "stored_content_type Unit = Inr 7"
| "stored_content_type Skill = Inr 8"
| "stored_content_type Guitar = Inr 9"
| "stored_content_type Gift = Inr 11"
| "stored_content_type Character = Inl (UnsupportedReward ''Character'')"

text \<open>The wire form of a stored reward: its type and id, and the amount (1 when there is none).\<close>

definition stored_reward_key :: "string \<Rightarrow> int option \<Rightarrow> store_error + (int \<times> int)" where
  "stored_reward_key kind reward_id =
     (case currency_from_key kind of
        Some currency \<Rightarrow>
          (case legacy_consume_id currency of
             None \<Rightarrow> Inl (UnsupportedReward (currency_key currency))
           | Some legacy_id \<Rightarrow>
               (case stored_consume_id kind currency legacy_id reward_id of
                  Inl e \<Rightarrow> Inl e | Inr i \<Rightarrow> Inr (1, i)))
      | None \<Rightarrow>
          (case content_from_key kind of
             None \<Rightarrow> Inl (UnsupportedReward kind)
           | Some content \<Rightarrow>
               (case stored_content_type content of
                  Inl e \<Rightarrow> Inl e
                | Inr t \<Rightarrow> Inr (t, clamp_int 0 i32_max (case reward_id of None \<Rightarrow> 0 | Some i \<Rightarrow> i)))))"

definition stored_reward_grant ::
  "string \<Rightarrow> int option \<Rightarrow> f64 option \<Rightarrow> int \<Rightarrow> store_error + reward_grant" where
  "stored_reward_grant kind reward_id amount area =
     (case stored_reward_key kind reward_id of
        Inl e \<Rightarrow> Inl e
      | Inr (t, i) \<Rightarrow> Inr \<lparr>rg_reward_type = t, rg_reward_id = i,
                            rg_amount = (case amount of None \<Rightarrow> Fin 1 | Some a \<Rightarrow> a)\<rparr>)"

definition apply_stored_content :: "int \<Rightarrow> stored_reward_row \<Rightarrow> int \<Rightarrow> string \<Rightarrow> unit store" where
  "apply_stored_content u row now source =
     tx_bind (tx_expect (UnsupportedReward (srw_kind row)) (content_from_key (srw_kind row))) (\<lambda>content.
     tx_bind (tx_expect (UnsupportedReward (srw_kind row)) (srw_reward_id row)) (\<lambda>i.
       if content = Gift
       then add_gifts u i (whole_amount (case srw_amount row of None \<Rightarrow> Fin 1 | Some a \<Rightarrow> a))
       else tx_then (own_item u (srw_kind row) (srw_area row) i now source)
                    (level_one u (srw_kind row) i)))"

definition apply_stored_reward ::
  "reward_rules \<Rightarrow> int \<Rightarrow> stored_reward_row \<Rightarrow> int \<Rightarrow> string \<Rightarrow> unit store" where
  "apply_stored_reward rules u row now source =
     (case currency_from_key (srw_kind row) of
        Some currency \<Rightarrow>
          if currency = Fans
          then tx_bind (tx_lift (stored_reward_grant (srw_kind row) (srw_reward_id row)
                           (srw_amount row) (srw_area row))) (\<lambda>grant.
               tx_then (apply_reward_grant rules u grant now source) (tx_return ()))
          else let amount = (case srw_amount row of None \<Rightarrow> fzero | Some a \<Rightarrow> a)
               in tx_then (domain_require (valid_amount amount) InvalidAmount)
                          (credit u currency amount)
      | None \<Rightarrow> apply_stored_content u row now source)"

section \<open>Facts\<close>

subsection \<open>Every helper works on the player's rows\<close>

lemma credit_step: "tx_rel (player_step u) (credit u kind amount)"
  unfolding credit_def by (intro player_rules)

lemma currency_balances_step: "tx_rel (player_step u) (currency_balances u)"
  unfolding currency_balances_def by (intro player_rules)

lemma deduct_currency_step: "tx_rel (player_step u) (deduct_currency u kind amount)"
  unfolding deduct_currency_def by (intro player_rules)

lemma unsupported_step: "tx_rel R (unsupported what)"
  by (auto simp: unsupported_def tx_rel_def tx_simps)

lemma domain_result_step: "tx_rel (player_step u) (domain_result r)"
  unfolding domain_result_def by (intro player_rules)

lemma credit_area_fans_step: "tx_rel (player_step u) (credit_area_fans u area amount)"
  unfolding credit_area_fans_def by (intro player_rules unsupported_step)

lemma grant_fan_reward_step: "tx_rel (player_step u) (grant_fan_reward rules u area m)"
  unfolding grant_fan_reward_def
  by (intro player_rules credit_step credit_area_fans_step domain_result_step)

lemma own_item_step: "tx_rel (player_step u) (own_item u kind area i now source)"
  unfolding own_item_def by (intro player_rules)

lemma level_one_step: "tx_rel (player_step u) (level_one u kind i)"
  unfolding level_one_def by (intro player_rules)

lemma add_gifts_step: "tx_rel (player_step u) (add_gifts u gift quantity)"
  unfolding add_gifts_def by (intro player_rules)

lemma add_energy_step: "tx_rel (player_step u) (add_energy u amount now)"
  unfolding add_energy_def by (intro player_rules)

lemma extend_fever_step: "tx_rel (player_step u) (extend_fever u amount now source)"
  unfolding extend_fever_def by (intro player_rules own_item_step level_one_step)

lemma grant_consume_step: "tx_rel (player_step u) (grant_consume rules u reward now)"
  unfolding grant_consume_def
  by (intro player_rules grant_fan_reward_step credit_step add_energy_step unsupported_step)

lemma grant_ticket_step: "tx_rel (player_step u) (grant_ticket u ticket now)"
  unfolding grant_ticket_def by (intro player_rules)

lemma grant_content_step: "tx_rel (player_step u) (grant_content u kind i now source)"
  unfolding grant_content_def by (intro player_rules own_item_step level_one_step)

lemma apply_reward_grant_step: "tx_rel (player_step u) (apply_reward_grant rules u reward now source)"
  unfolding apply_reward_grant_def
  by (intro player_rules grant_consume_step extend_fever_step grant_content_step grant_ticket_step
      add_gifts_step unsupported_step)

lemma ad_level_snapshot_of_step: "tx_rel (player_step u) (ad_level_snapshot_of u g)"
  unfolding ad_level_snapshot_of_def by (intro player_rules)

lemma advance_ad_level_step: "tx_rel (player_step u) (advance_ad_level u progression)"
  unfolding advance_ad_level_def by (intro player_rules ad_level_snapshot_of_step)

lemma apply_stored_content_step: "tx_rel (player_step u) (apply_stored_content u row now source)"
  unfolding apply_stored_content_def
  by (intro player_rules add_gifts_step own_item_step level_one_step)

lemma apply_stored_reward_step: "tx_rel (player_step u) (apply_stored_reward rules u row now source)"
  unfolding apply_stored_reward_def
  by (intro player_rules apply_reward_grant_step credit_step apply_stored_content_step)

lemmas reward_steps = credit_step currency_balances_step deduct_currency_step unsupported_step
  domain_result_step own_item_step level_one_step add_gifts_step add_energy_step
  apply_reward_grant_step ad_level_snapshot_of_step advance_ad_level_step apply_stored_reward_step

subsection \<open>What the helpers do not touch\<close>

text \<open>The reward helpers write only the tables of balances, items and timers.\<close>

definition reward_blind :: "(db \<Rightarrow> 'o) \<Rightarrow> bool" where
  "reward_blind f \<longleftrightarrow> (\<forall>s g. f (currencies_update g s) = f s)
     \<and> (\<forall>s g. f (area_state_update g s) = f s) \<and> (\<forall>s g. f (owned_content_update g s) = f s)
     \<and> (\<forall>s g. f (content_levels_update g s) = f s) \<and> (\<forall>s g. f (gifts_update g s) = f s)
     \<and> (\<forall>s g. f (ch3_energy_update g s) = f s) \<and> (\<forall>s g. f (buff_timers_update g s) = f s)
     \<and> (\<forall>s g. f (ticket_collection_update g s) = f s)"

lemma keeps_modify: "(\<And>s. f (g s) = f s) \<Longrightarrow> tx_keeps f (tx_modify g)"
  by (auto simp: tx_rel_def tx_simps)

lemma keeps_insert: "(\<And>g s. f (upd g s) = f s) \<Longrightarrow> tx_keeps f (insert_row tbl upd k v)"
  unfolding insert_row_def by (intro keeps.rules keeps_modify)

lemma keeps_read:
  "tx_keeps f (sql_int x)" "tx_keeps f (read_i32 x)" "tx_keeps f (query_row q)" "tx_keeps f (sql_check b)"
  "tx_keeps f (domain_require b e)" "tx_keeps f (domain_result r)" "tx_keeps f (unsupported what)"
  unfolding sql_int_def read_i32_def query_row_def sql_check_def domain_require_def domain_result_def
  by (intro keeps.rules unsupported_step)+

lemmas keeps_rules = keeps.rules keeps_read keeps_modify keeps_insert

lemma apply_reward_grant_keeps:
  "reward_blind f \<Longrightarrow> tx_keeps f (apply_reward_grant rules u reward now source)"
  unfolding apply_reward_grant_def grant_consume_def extend_fever_def grant_content_def
    grant_ticket_def add_energy_def grant_fan_reward_def credit_def credit_area_fans_def
    own_item_def level_one_def add_gifts_def
  by (intro keeps_rules) (simp_all add: reward_blind_def)

lemma apply_stored_reward_keeps:
  "reward_blind f \<Longrightarrow> tx_keeps f (apply_stored_reward rules u row now source)"
  unfolding apply_stored_reward_def apply_stored_content_def credit_def own_item_def level_one_def
    add_gifts_def
  by (intro keeps_rules apply_reward_grant_keeps) (simp_all add: reward_blind_def)

subsection \<open>Balances stay amounts\<close>

text \<open>
  Every balance is a double a database can hold (not a NaN) and not negative. The relation
  \<open>balances_kept\<close> follows an operation like \<open>player_step\<close> does; a statement on another table keeps
  it at once.
\<close>

definition balances_ok :: "db \<Rightarrow> bool" where
  "balances_ok s \<longleftrightarrow> (\<forall>k a. tbl_get (currencies s) k = Some a \<longrightarrow> f64_ok a \<and> fnonneg a)"

definition balances_kept :: "db \<Rightarrow> db \<Rightarrow> bool" where
  "balances_kept s t \<longleftrightarrow> (balances_ok s \<longrightarrow> balances_ok t)"

interpretation balances: step_relation balances_kept
  by unfold_locales (auto simp: balances_kept_def)

lemma balances_modify:
  "(\<And>s. currencies (g s) = currencies s) \<Longrightarrow> tx_rel balances_kept (tx_modify g)"
  by (auto simp: tx_rel_def tx_simps balances_kept_def balances_ok_def)

lemma balances_insert:
  "(\<And>f s. currencies (upd f s) = currencies s) \<Longrightarrow> tx_rel balances_kept (insert_row tbl upd k v)"
  unfolding insert_row_def by (intro balances.rules balances_modify)

lemma balances_read:
  "tx_rel balances_kept (sql_int x)" "tx_rel balances_kept (read_i32 x)" "tx_rel balances_kept (query_row f)"
  "tx_rel balances_kept (sql_check b)" "tx_rel balances_kept (domain_require b e)"
  "tx_rel balances_kept (domain_result r)" "tx_rel balances_kept (unsupported what)"
  unfolding sql_int_def read_i32_def query_row_def sql_check_def domain_require_def domain_result_def
  by (intro balances.rules unsupported_step)+

lemmas balances_rules = balances.rules balances_read balances_modify balances_insert

lemma credit_Inr:
  "credit u kind amount s = Inr (x, t) \<longleftrightarrow>
     (\<forall>a. tbl_get (currencies s) (u, currency_key kind) = Some a \<longrightarrow> fnonneg (fadd a amount))
     \<and> t = currencies_update (tbl_at (u, currency_key kind) (\<lambda>a. fadd a amount)) s"
  by (auto simp: credit_def tx_simps amount_col_def split: option.splits)

lemma credit_bal: "tx_rel balances_kept (credit u kind amount)"
  by (auto simp: tx_rel_def credit_Inr balances_kept_def balances_ok_def fadd_result_ok split: if_splits)

lemma valid_amount_iff: "valid_amount a \<longleftrightarrow> is_finite a \<and> fnonneg a"
  by (cases a) (auto simp: valid_amount_def fzero_def)

lemma deduct_Inr:
  "deduct_currency u kind amount s = Inr (x, t) \<longleftrightarrow> valid_amount amount
     \<and> (if amount = fzero then t = s
        else covers s u kind amount
          \<and> t = currencies_update (tbl_at (u, currency_key kind) (\<lambda>a. fsub a amount)) s)"
  by (cases amount) (auto simp: deduct_currency_def tx_simps valid_amount_def fzero_def)

lemma deduct_currency_bal: "tx_rel balances_kept (deduct_currency u kind amount)"
  by (auto simp: tx_rel_def deduct_Inr balances_kept_def balances_ok_def covers_def valid_amount_iff
      fsub_nonneg fsub_ok split: if_splits option.splits)

lemma currency_balances_bal: "tx_rel balances_kept (currency_balances u)"
  unfolding currency_balances_def by (intro balances_rules)

lemma credit_area_fans_bal: "tx_rel balances_kept (credit_area_fans u area amount)"
  unfolding credit_area_fans_def by (intro balances_rules) simp_all

lemma grant_fan_reward_bal: "tx_rel balances_kept (grant_fan_reward rules u area m)"
  unfolding grant_fan_reward_def by (intro balances_rules credit_bal credit_area_fans_bal)

lemma own_item_bal: "tx_rel balances_kept (own_item u kind area i now source)"
  unfolding own_item_def by (intro balances_rules) simp_all

lemma level_one_bal: "tx_rel balances_kept (level_one u kind i)"
  unfolding level_one_def by (intro balances_rules) simp_all

lemma add_gifts_bal: "tx_rel balances_kept (add_gifts u gift quantity)"
  unfolding add_gifts_def by (intro balances_rules) simp_all

lemma apply_reward_grant_bal: "tx_rel balances_kept (apply_reward_grant rules u reward now source)"
  unfolding apply_reward_grant_def grant_consume_def extend_fever_def grant_content_def
    grant_ticket_def add_energy_def
  by (intro balances_rules credit_bal grant_fan_reward_bal own_item_bal level_one_bal add_gifts_bal)
     simp_all

lemma advance_ad_level_bal: "tx_rel balances_kept (advance_ad_level u progression)"
  unfolding advance_ad_level_def ad_level_snapshot_of_def by (intro balances_rules) simp_all

lemma apply_stored_reward_bal: "tx_rel balances_kept (apply_stored_reward rules u row now source)"
  unfolding apply_stored_reward_def apply_stored_content_def
  by (intro balances_rules credit_bal apply_reward_grant_bal add_gifts_bal own_item_bal level_one_bal)

lemmas reward_bals = credit_bal deduct_currency_bal currency_balances_bal own_item_bal level_one_bal
  add_gifts_bal apply_reward_grant_bal advance_ad_level_bal apply_stored_reward_bal

end
