(* ===== verification/Mail.thy ===== *)
theory Mail
  imports Rewards
begin

text \<open>
  The mailbox of \<open>crates/persistence-sqlite/src/lib.rs\<close>: queueing a mail with one reward, the
  guard that a unique item is delivered once, listing, reading, claiming and deleting.
\<close>

section \<open>Queueing\<close>

definition bump_mail_cursor :: "int \<Rightarrow> unit store" where
  "bump_mail_cursor u =
     tx_bind (tx_gets (\<lambda>s. tbl_get (mail_state s) u)) (\<lambda>cursor.
     tx_then (sql_check (case cursor of None \<Rightarrow> True | Some c \<Rightarrow> in_i64 (c + 1)))
             (tx_modify (mail_state_update (tbl_at u (\<lambda>c. c + 1)))))"

text \<open>\<open>INSERT OR IGNORE INTO mail\<close>: false when the post id is taken. The foreign key is checked.\<close>

definition insert_mail_row :: "int \<Rightarrow> int \<Rightarrow> string \<Rightarrow> string \<Rightarrow> int \<Rightarrow> bool store" where
  "insert_mail_row u post_id subject body now =
     tx_bind (tx_gets (\<lambda>s. tbl_has (mail s) (u, post_id))) (\<lambda>taken.
     if taken then tx_return False
     else tx_bind (tx_gets (\<lambda>s. tbl_has (save_slots s) u)) (\<lambda>slot.
          tx_then (sql_check slot)
         (tx_then (tx_modify (mail_update (tbl_put (u, post_id)
                     \<lparr>mar_subject_key = subject, mar_body_key = body, mar_created_at = now,
                      mar_read_at = None, mar_claimed_at = None, mar_deleted_at = None\<rparr>)))
                  (tx_return True))))"

definition real_or_null :: "f64 \<Rightarrow> f64 option" where
  "real_or_null a = (if a = NaN then None else Some a)"

fun mail_content_name :: "int \<Rightarrow> string option" where
  "mail_content_name t =
     (if t = 2 then Some ''music'' else if t = 3 then Some ''costume'' else if t = 4 then Some ''prop''
      else if t = 5 then Some ''follower'' else if t = 6 then Some ''buff''
      else if t = 7 then Some ''unit'' else if t = 8 then Some ''skill''
      else if t = 9 then Some ''guitar'' else if t = 11 then Some ''gift'' else None)"

text \<open>The kind, id and area a reward grant is stored with.\<close>

definition mail_reward_key :: "reward_grant \<Rightarrow> store_error + (string \<times> int option \<times> int)" where
  "mail_reward_key reward =
     (if rg_reward_type reward = 1
      then (case consume_from_id (rg_reward_id reward) of
              None \<Rightarrow> Inl (UnsupportedReward (''mail-currency:'' @ show_int (rg_reward_id reward)))
            | Some c \<Rightarrow>
                (case cr_currency c of
                   None \<Rightarrow> Inl (UnsupportedReward (''mail-currency:'' @ show_int (rg_reward_id reward)))
                 | Some currency \<Rightarrow> Inr (currency_key currency, Some (cr_id c), cr_area c)))
      else (case mail_content_name (rg_reward_type reward) of
              None \<Rightarrow> Inl (UnsupportedReward (''mail-type:'' @ show_int (rg_reward_type reward)))
            | Some kind \<Rightarrow> Inr (kind, Some (rg_reward_id reward), 0)))"

definition queue_reward_mail_tx ::
  "int \<Rightarrow> int \<Rightarrow> string \<Rightarrow> string \<Rightarrow> reward_grant \<Rightarrow> int \<Rightarrow> bool store" where
  "queue_reward_mail_tx u post_id subject body reward now =
     tx_bind (insert_mail_row u post_id subject body now) (\<lambda>inserted.
     if \<not> inserted then tx_return False
     else tx_bind (tx_lift (mail_reward_key reward)) (\<lambda>(kind, reward_id, area).
          tx_then (insert_row mail_rewards mail_rewards_update (u, post_id)
                     \<lparr>mwr_reward_kind = kind, mwr_reward_id = reward_id,
                      mwr_amount = real_or_null (rg_amount reward), mwr_area = area\<rparr>)
         (tx_then (bump_mail_cursor u) (tx_return True))))"

fun mail_reward_of :: "reward \<Rightarrow> mail_reward_row" where
  "mail_reward_of (RCurrency currency amount) =
     \<lparr>mwr_reward_kind = currency_key currency, mwr_reward_id = None,
      mwr_amount = real_or_null amount, mwr_area = 0\<rparr>"
| "mail_reward_of (RContent content area content_id) =
     \<lparr>mwr_reward_kind = content_key content, mwr_reward_id = Some content_id, mwr_amount = None,
      mwr_area = area\<rparr>"

definition insert_mail_in_transaction ::
  "int \<Rightarrow> int \<Rightarrow> string \<Rightarrow> string \<Rightarrow> reward \<Rightarrow> int \<Rightarrow> bool store" where
  "insert_mail_in_transaction u post_id subject_key body_key reward now =
     tx_bind (insert_mail_row u post_id subject_key body_key now) (\<lambda>inserted.
     if \<not> inserted then tx_return False
     else tx_then (insert_row mail_rewards mail_rewards_update (u, post_id) (mail_reward_of reward))
         (tx_then (bump_mail_cursor u) (tx_return True)))"

section \<open>Delivering a unique item once\<close>

definition content_owned :: "db \<Rightarrow> int \<Rightarrow> content_kind \<Rightarrow> int \<Rightarrow> int \<Rightarrow> bool" where
  "content_owned s u content area content_id =
     (case tbl_get (owned_content s) (u, content_key content, content_id) of
        None \<Rightarrow> False
      | Some r \<Rightarrow> owr_area r = 0 \<or> owr_area r = area)"

definition mail_open :: "mail_row \<Rightarrow> bool" where
  "mail_open r \<longleftrightarrow> mar_claimed_at r = None \<and> mar_deleted_at r = None"

definition content_pending :: "db \<Rightarrow> int \<Rightarrow> content_kind \<Rightarrow> int \<Rightarrow> int \<Rightarrow> bool" where
  "content_pending s u content area content_id =
     list_ex (\<lambda>(k, r). fst k = u \<and> mwr_reward_kind r = content_key content
                \<and> mwr_reward_id r = Some content_id \<and> (mwr_area r = 0 \<or> mwr_area r = area)
                \<and> (case tbl_get (mail s) k of None \<Rightarrow> False | Some m \<Rightarrow> mail_open m))
       (mail_rewards s)"

definition content_delivery_state :: "db \<Rightarrow> int \<Rightarrow> content_kind \<Rightarrow> int \<Rightarrow> int \<Rightarrow> bool \<times> bool" where
  "content_delivery_state s u content area content_id =
     (content_owned s u content area content_id, content_pending s u content area content_id)"

definition ensure_unique_content_can_be_mailed :: "int \<Rightarrow> reward \<Rightarrow> unit store" where
  "ensure_unique_content_can_be_mailed u reward =
     (case reward of
        RCurrency _ _ \<Rightarrow> tx_return ()
      | RContent content area content_id \<Rightarrow>
          tx_bind (tx_gets (\<lambda>s. content_delivery_state s u content area content_id)) (\<lambda>(owned, queued).
            domain_require (\<not> (owned \<or> queued)) AlreadyOwned))"

definition insert_generated_mail_in_transaction ::
  "int \<Rightarrow> string \<Rightarrow> string \<Rightarrow> reward \<Rightarrow> int \<Rightarrow> int store" where
  "insert_generated_mail_in_transaction u subject_key body_key reward now =
     tx_then (ensure_unique_content_can_be_mailed u reward)
    (tx_bind (tx_gets (\<lambda>s. max_or_zero (map (\<lambda>(k, _). snd k)
                 (filter (\<lambda>(k, _). fst k = u) (mail s))) + 1)) (\<lambda>post_id.
     tx_then (sql_int post_id)
    (tx_bind (insert_mail_in_transaction u post_id subject_key body_key reward now) (\<lambda>inserted.
     tx_then (tx_require inserted IdempotencyConflict) (tx_return post_id)))))"

definition queue_mail ::
  "int \<Rightarrow> int \<Rightarrow> string \<Rightarrow> string \<Rightarrow> reward \<Rightarrow> int \<Rightarrow> db \<Rightarrow> (store_error + bool) \<times> db" where
  "queue_mail u post_id subject_key body_key reward now =
     tx_commit (tx_then (ensure_unique_content_can_be_mailed u reward)
       (insert_mail_in_transaction u post_id subject_key body_key reward now))"

definition queue_generated_mail ::
  "int \<Rightarrow> string \<Rightarrow> string \<Rightarrow> reward \<Rightarrow> int \<Rightarrow> db \<Rightarrow> (store_error + int) \<times> db" where
  "queue_generated_mail u subject_key body_key reward now =
     tx_commit (insert_generated_mail_in_transaction u subject_key body_key reward now)"

definition queue_generated_mail_rpc ::
  "(int \<Rightarrow> string + string) \<Rightarrow> (string \<Rightarrow> string + int)
   \<Rightarrow> rpc_mutation \<Rightarrow> string \<Rightarrow> string \<Rightarrow> reward \<Rightarrow> int store" where
  "queue_generated_mail_rpc enc dec m subject_key body_key reward =
     commit_rpc_mutation enc dec m
       (insert_generated_mail_in_transaction (mu_usn m) subject_key body_key reward
          (mu_committed_at m))"

section \<open>The mailbox\<close>

text \<open>
  The visible mails with their reward row, newest first and the higher post id first within a
  second. A stored reward that has no wire form fails the whole listing.
\<close>

definition mailbox_rows :: "db \<Rightarrow> int \<Rightarrow> (int \<times> mail_row \<times> mail_reward_row) list" where
  "mailbox_rows s u =
     rev (sort_key (\<lambda>(_, m, _). mar_created_at m)
       (concat (map (\<lambda>(k, m).
          if fst k = u \<and> mar_deleted_at m = None
          then (case tbl_get (mail_rewards s) k of None \<Rightarrow> [] | Some r \<Rightarrow> [(snd k, m, r)])
          else []) (mail s))))"

definition mail_snapshot_of :: "int \<times> mail_row \<times> mail_reward_row \<Rightarrow> mail_snapshot store" where
  "mail_snapshot_of row =
     (case row of (post_id, m, r) \<Rightarrow>
        (case stored_reward_grant (mwr_reward_kind r) (mwr_reward_id r) (mwr_amount r) (mwr_area r) of
           Inl e \<Rightarrow> tx_fail (Sql ConversionFailure)
         | Inr reward \<Rightarrow> tx_return
             \<lparr>ml_post_id = post_id, ml_subject = mar_subject_key m, ml_body = mar_body_key m,
              ml_created_at = mar_created_at m, ml_read = (mar_read_at m \<noteq> None),
              ml_claimed = (mar_claimed_at m \<noteq> None), ml_reward = reward\<rparr>))"

definition mailbox :: "int \<Rightarrow> mailbox_snapshot store" where
  "mailbox u =
     tx_bind (query_row (\<lambda>s. tbl_get (mail_state s) u)) (\<lambda>cursor.
     tx_bind (tx_gets (\<lambda>s. mailbox_rows s u)) (\<lambda>rows.
     tx_bind (tx_collect mail_snapshot_of rows) (\<lambda>mails.
       tx_return \<lparr>mb_cursor = cursor, mb_mail = mails\<rparr>)))"

section \<open>Reading, claiming, deleting\<close>

definition mail_visible :: "db \<Rightarrow> int \<Rightarrow> int \<Rightarrow> bool" where
  "mail_visible s u post_id =
     (case tbl_get (mail s) (u, post_id) of None \<Rightarrow> False | Some m \<Rightarrow> mar_deleted_at m = None)"

definition mark_read :: "int \<Rightarrow> mail_row \<Rightarrow> mail_row" where
  "mark_read now r =
     r\<lparr>mar_read_at := (case mar_read_at r of None \<Rightarrow> Some now | Some t \<Rightarrow> Some t)\<rparr>"

definition read_mail_tx :: "rpc_mutation \<Rightarrow> int \<Rightarrow> int store" where
  "read_mail_tx m post_id =
     tx_bind (tx_gets (\<lambda>s. mail_visible s (mu_usn m) post_id)) (\<lambda>changed.
     tx_then (tx_require changed (MissingMail post_id))
    (tx_then (tx_modify (mail_update (tbl_at (mu_usn m, post_id) (mark_read (mu_committed_at m)))))
    (tx_then (bump_mail_cursor (mu_usn m)) (tx_return post_id))))"

definition read_mail ::
  "(int \<Rightarrow> string + string) \<Rightarrow> (string \<Rightarrow> string + int) \<Rightarrow> rpc_mutation \<Rightarrow> int \<Rightarrow> int store" where
  "read_mail enc dec m post_id = commit_rpc_mutation enc dec m (read_mail_tx m post_id)"

definition mail_reward_row_of :: "int \<Rightarrow> int \<Rightarrow> db \<Rightarrow> stored_reward_row option" where
  "mail_reward_row_of u post_id s =
     (case (tbl_get (mail s) (u, post_id), tbl_get (mail_rewards s) (u, post_id)) of
        (Some m, Some r) \<Rightarrow>
          if mar_deleted_at m = None
          then Some \<lparr>srw_kind = mwr_reward_kind r, srw_reward_id = mwr_reward_id r,
                     srw_amount = mwr_amount r, srw_area = mwr_area r,
                     srw_claimed_at = mar_claimed_at m\<rparr>
          else None
      | _ \<Rightarrow> None)"

definition claim_mail_tx ::
  "reward_rules \<Rightarrow> rpc_mutation \<Rightarrow> int \<Rightarrow> (reward_grant option \<times> reward_grant option option) store" where
  "claim_mail_tx rules m post_id =
     tx_bind (tx_gets (mail_reward_row_of (mu_usn m) post_id)) (\<lambda>found.
     tx_bind (tx_expect (MissingMail post_id) found) (\<lambda>row.
     tx_then (tx_require (srw_claimed_at row = None) (MailAlreadyClaimed post_id))
    (tx_bind (tx_lift (stored_reward_grant (srw_kind row) (srw_reward_id row) (srw_amount row)
                (srw_area row))) (\<lambda>grant.
     tx_then (apply_stored_reward rules (mu_usn m) row (mu_committed_at m) ''mail'')
    (tx_then (tx_modify (mail_update (tbl_at (mu_usn m, post_id)
                (\<lambda>r. (mark_read (mu_committed_at m) r)\<lparr>mar_claimed_at := Some (mu_committed_at m)\<rparr>))))
    (tx_then (bump_mail_cursor (mu_usn m))
             (tx_return (Some grant, Some None))))))))"

definition claim_mail_rpc ::
  "(reward_grant option \<Rightarrow> string + string) \<Rightarrow> (string \<Rightarrow> string + reward_grant option)
   \<Rightarrow> reward_rules \<Rightarrow> rpc_mutation \<Rightarrow> int \<Rightarrow> reward_grant option store" where
  "claim_mail_rpc enc dec rules m post_id =
     commit_rpc_mutation_with_replay enc dec m (claim_mail_tx rules m post_id)"

definition mail_deletable :: "db \<Rightarrow> int \<Rightarrow> bool \<Rightarrow> int \<Rightarrow> int \<times> int \<Rightarrow> mail_row \<Rightarrow> bool" where
  "mail_deletable s u delete_all post_id k r \<longleftrightarrow>
     fst k = u \<and> mar_deleted_at r = None
     \<and> (if delete_all
        then mar_claimed_at r \<noteq> None
             \<or> \<not> tbl_has (mail_rewards s) k \<and> mar_read_at r \<noteq> None
        else snd k = post_id \<and> mar_claimed_at r \<noteq> None)"

definition delete_mail_tx :: "rpc_mutation \<Rightarrow> int \<Rightarrow> bool \<Rightarrow> int store" where
  "delete_mail_tx m post_id delete_all_confirmed =
     tx_bind (tx_gets (\<lambda>s. mail_deletable s (mu_usn m) delete_all_confirmed post_id)) (\<lambda>hit.
     tx_bind (tx_gets (\<lambda>s. list_ex (\<lambda>(k, r). hit k r) (mail s))) (\<lambda>changed.
     tx_then (tx_modify (mail_update (tbl_set (\<lambda>k r. fst k = mu_usn m \<and> hit k r)
                (\<lambda>r. r\<lparr>mar_deleted_at := Some (mu_committed_at m)\<rparr>))))
    (tx_then (if changed then bump_mail_cursor (mu_usn m) else tx_return ())
             (tx_return post_id))))"

definition delete_mail ::
  "(int \<Rightarrow> string + string) \<Rightarrow> (string \<Rightarrow> string + int) \<Rightarrow> rpc_mutation \<Rightarrow> int \<Rightarrow> bool \<Rightarrow> int store" where
  "delete_mail enc dec m post_id delete_all_confirmed =
     commit_rpc_mutation enc dec m (delete_mail_tx m post_id delete_all_confirmed)"

section \<open>Facts\<close>

lemma bump_mail_cursor_step: "tx_rel (player_step u) (bump_mail_cursor u)"
  unfolding bump_mail_cursor_def by (intro player_rules)

lemma insert_mail_row_step: "tx_rel (player_step u) (insert_mail_row u p sb b now)"
  unfolding insert_mail_row_def by (intro player_rules)

lemma queue_reward_mail_step: "tx_rel (player_step u) (queue_reward_mail_tx u p sb b reward now)"
  unfolding queue_reward_mail_tx_def
  by (intro player_rules insert_mail_row_step bump_mail_cursor_step)

lemma insert_mail_step: "tx_rel (player_step u) (insert_mail_in_transaction u p sb b reward now)"
  unfolding insert_mail_in_transaction_def
  by (intro player_rules insert_mail_row_step bump_mail_cursor_step)

lemma ensure_unique_step: "tx_rel (player_step u) (ensure_unique_content_can_be_mailed u reward)"
  unfolding ensure_unique_content_can_be_mailed_def
  by (cases reward; simp; intro player_rules)

lemma insert_generated_mail_step:
  "tx_rel (player_step u) (insert_generated_mail_in_transaction u sb b reward now)"
  unfolding insert_generated_mail_in_transaction_def
  by (intro player_rules ensure_unique_step insert_mail_step)

lemma read_mail_step: "tx_rel (player_step (mu_usn m)) (read_mail_tx m post_id)"
  unfolding read_mail_tx_def by (intro player_rules bump_mail_cursor_step)

lemma claim_mail_step: "tx_rel (player_step (mu_usn m)) (claim_mail_tx rules m post_id)"
  unfolding claim_mail_tx_def by (intro player_rules bump_mail_cursor_step reward_steps)

lemma delete_mail_step: "tx_rel (player_step (mu_usn m)) (delete_mail_tx m post_id all)"
  unfolding delete_mail_tx_def
  by (intro player_rules bump_mail_cursor_step own_rows_set) simp

interpretation read_mail: plain_command "\<lambda>m. read_mail_tx m post_id" for post_id
  by unfold_locales (rule read_mail_step)

interpretation claim_mail: rpc_command "\<lambda>m. claim_mail_tx rules m post_id" for rules post_id
  by unfold_locales (rule claim_mail_step)

interpretation delete_mail: plain_command "\<lambda>m. delete_mail_tx m post_id all" for post_id all
  by unfold_locales (rule delete_mail_step)

interpretation generated_mail: plain_command
  "\<lambda>m. insert_generated_mail_in_transaction (mu_usn m) sb b reward (mu_committed_at m)"
  for sb b reward
  by unfold_locales (rule insert_generated_mail_step)

subsection \<open>Claiming\<close>

lemma reward_blind_mail: "reward_blind (\<lambda>s. (mail s, mail_rewards s, mail_state s, save_slots s))"
  by (simp add: reward_blind_def)

lemma bump_mail_cursor_Inr:
  "bump_mail_cursor u s = Inr (x, t) \<Longrightarrow> t = mail_state_update (tbl_at u (\<lambda>c. c + 1)) s"
  by (auto simp: bump_mail_cursor_def tx_simps)

lemma claim_mail_Inr:
  assumes "claim_mail_tx rules m post_id s = Inr (r, t)"
  obtains row grant s' where "mail_reward_row_of (mu_usn m) post_id s = Some row"
    "srw_claimed_at row = None"
    "stored_reward_grant (srw_kind row) (srw_reward_id row) (srw_amount row) (srw_area row) = Inr grant"
    "apply_stored_reward rules (mu_usn m) row (mu_committed_at m) ''mail'' s = Inr ((), s')"
    "r = (Some grant, Some None)"
    "mail t = tbl_at (mu_usn m, post_id)
       (\<lambda>r. (mark_read (mu_committed_at m) r)\<lparr>mar_claimed_at := Some (mu_committed_at m)\<rparr>) (mail s)"
    "mail_rewards t = mail_rewards s" "currencies t = currencies s'"
proof -
  from assms obtain row grant s' where *: "mail_reward_row_of (mu_usn m) post_id s = Some row"
    "srw_claimed_at row = None"
    "stored_reward_grant (srw_kind row) (srw_reward_id row) (srw_amount row) (srw_area row) = Inr grant"
    "apply_stored_reward rules (mu_usn m) row (mu_committed_at m) ''mail'' s = Inr ((), s')"
    "r = (Some grant, Some None)"
    "t = mail_state_update (tbl_at (mu_usn m) (\<lambda>c. c + 1)) (mail_update (tbl_at (mu_usn m, post_id)
       (\<lambda>r. (mark_read (mu_committed_at m) r)\<lparr>mar_claimed_at := Some (mu_committed_at m)\<rparr>)) s')"
    by (auto simp: claim_mail_tx_def tx_simps dest!: bump_mail_cursor_Inr)
  from tx_relD [OF apply_stored_reward_keeps [OF reward_blind_mail] *(4)] * that show ?thesis
    by simp
qed

lemma mail_reward_row_of_Some:
  "mail_reward_row_of u p s = Some row \<longleftrightarrow>
     (\<exists>m r. tbl_get (mail s) (u, p) = Some m \<and> tbl_get (mail_rewards s) (u, p) = Some r
        \<and> mar_deleted_at m = None
        \<and> row = \<lparr>srw_kind = mwr_reward_kind r, srw_reward_id = mwr_reward_id r,
                 srw_amount = mwr_amount r, srw_area = mwr_area r, srw_claimed_at = mar_claimed_at m\<rparr>)"
  by (auto simp: mail_reward_row_of_def split: option.splits if_splits)

text \<open>C7: a mail pays once: right after a claim, every further claim of the same mail is refused.\<close>

theorem mail_claimed_once:
  assumes "claim_mail_tx rules m post_id s = Inr (r, t)" "mu_usn m' = mu_usn m"
  shows "claim_mail_tx rules' m' post_id t = Inl (MailAlreadyClaimed post_id)"
proof (rule claim_mail_Inr [OF assms(1)])
  fix row
  assume "mail_reward_row_of (mu_usn m) post_id s = Some row"
    and t: "mail t = tbl_at (mu_usn m, post_id)
       (\<lambda>r. (mark_read (mu_committed_at m) r)\<lparr>mar_claimed_at := Some (mu_committed_at m)\<rparr>) (mail s)"
      "mail_rewards t = mail_rewards s"
  then have "\<exists>row. mail_reward_row_of (mu_usn m') post_id t = Some row
      \<and> srw_claimed_at row = Some (mu_committed_at m)"
    by (auto simp: mail_reward_row_of_Some assms(2) mark_read_def)
  then show ?thesis by (auto simp: claim_mail_tx_def tx_run)
qed

text \<open>A database with one unclaimed mail of 25 candies, for the examples.\<close>

definition demo_mail_db :: db where
  "demo_mail_db = demo_db
     \<lparr>currencies := [((1, ''candy''), Fin 10), ((1, ''chocolate''), Fin 3)],
      mail_state := [(1, 1)],
      mail := [((1, 1), \<lparr>mar_subject_key = ''s'', mar_body_key = ''b'', mar_created_at = 5,
                         mar_read_at = None, mar_claimed_at = None, mar_deleted_at = None\<rparr>)],
      mail_rewards := [((1, 1), \<lparr>mwr_reward_kind = ''candy'', mwr_reward_id = Some 2,
                                 mwr_amount = Some (Fin 25), mwr_area = 0\<rparr>)]\<rparr>"

lemma fadd_10_25: "fadd (Fin 10) (Fin 25) = Fin 35"
  using fadd_int_exact [of 10 25] by simp

lemma candy_key: "currency_from_key ''candy'' = Some Candy"
  using currency_from_currency_key [of Candy] by simp

lemma demo_claim:
  "\<exists>t. claim_mail_tx empty_rules demo_mutation 1 demo_mail_db
     = Inr ((Some \<lparr>rg_reward_type = 1, rg_reward_id = 2, rg_amount = Fin 25\<rparr>, Some None), t)
   \<and> tbl_get (currencies t) (1, ''candy'') = Some (Fin 35)"
  by (simp add: claim_mail_tx_def tx_run mail_reward_row_of_def demo_mail_db_def tbl_get_Cons
      demo_mutation_def stored_reward_grant_def stored_reward_key_def candy_key stored_consume_id_def
      consume_from_id_def in_i32_def apply_stored_reward_def valid_amount_def credit_def fadd_10_25
      domain_require_def sql_check_def amount_col_def bump_mail_cursor_def in_i64_def
      fzero_def Let_def tbl_set_def)

theorem mail_claimed_once_witness:
  "\<exists>r t. claim_mail_tx empty_rules demo_mutation 1 demo_mail_db = Inr (r, t)
     \<and> claim_mail_tx empty_rules demo_mutation 1 t = Inl (MailAlreadyClaimed 1)"
  using demo_claim mail_claimed_once by blast

text \<open>claiming a currency mail adds exactly the mailed amount to exactly that balance and reports
  it once: the ledger replays an empty reward.\<close>

theorem mail_claim_pays:
  assumes "claim_mail_tx rules m post_id s = Inr (r, t)"
    and "tbl_get (mail_rewards s) (mu_usn m, post_id) = Some q"
    and "mwr_reward_kind q = currency_key k" "k \<noteq> Fans" "mwr_amount q = Some a"
  shows "currencies t = tbl_at (mu_usn m, currency_key k) (\<lambda>b. fadd b a) (currencies s)
    \<and> (\<exists>i. r = (Some \<lparr>rg_reward_type = 1, rg_reward_id = i, rg_amount = a\<rparr>, Some None))"
proof (rule claim_mail_Inr [OF assms(1)])
  fix row grant s'
  assume row: "mail_reward_row_of (mu_usn m) post_id s = Some row"
    and grant: "stored_reward_grant (srw_kind row) (srw_reward_id row) (srw_amount row) (srw_area row)
      = Inr grant"
    and app: "apply_stored_reward rules (mu_usn m) row (mu_committed_at m) ''mail'' s = Inr ((), s')"
    and r: "r = (Some grant, Some None)" and t: "currencies t = currencies s'"
  from row assms(2,3,5) have k: "srw_kind row = currency_key k" "srw_amount row = Some a"
    by (auto simp: mail_reward_row_of_Some)
  from app have "currencies s' = tbl_at (mu_usn m, currency_key k) (\<lambda>b. fadd b a) (currencies s)"
    by (auto simp: apply_stored_reward_def k assms(4) tx_simps credit_Inr)
  moreover from grant have "\<exists>i. grant = \<lparr>rg_reward_type = 1, rg_reward_id = i, rg_amount = a\<rparr>"
    by (auto simp: stored_reward_grant_def stored_reward_key_def k split: option.splits sum.splits)
  ultimately show ?thesis by (simp add: r t)
qed

theorem mail_claim_pays_witness:
  "\<exists>r t. claim_mail_tx empty_rules demo_mutation 1 demo_mail_db = Inr (r, t)
     \<and> tbl_get (currencies t) (1, ''candy'') = Some (fadd (Fin 10) (Fin 25))"
proof -
  obtain r t where c: "claim_mail_tx empty_rules demo_mutation 1 demo_mail_db = Inr (r, t)"
    using demo_claim by blast
  from mail_claim_pays [OF c, of "\<lparr>mwr_reward_kind = ''candy'', mwr_reward_id = Some 2,
      mwr_amount = Some (Fin 25), mwr_area = 0\<rparr>" Candy "Fin 25"] c
  show ?thesis by (auto simp: demo_mail_db_def demo_mutation_def tbl_get_Cons)
qed

subsection \<open>Unique items\<close>

lemma insert_generated_mail_Inr:
  assumes "insert_generated_mail_in_transaction u sb b reward now s = Inr (p, t)"
  shows "tbl_get (mail_rewards t) (u, p) = Some (mail_reward_of reward)
    \<and> (\<exists>r. tbl_get (mail t) (u, p) = Some r \<and> mail_open r)"
  using assms
  by (auto simp: insert_generated_mail_in_transaction_def insert_mail_in_transaction_def
      insert_mail_row_def tx_simps mail_open_def split: if_splits dest!: bump_mail_cursor_Inr)

text \<open>an item that exists once per player is delivered once: as soon as a mail with it has been
  queued, queueing another one is refused, until the first is claimed or deleted.\<close>

lemma content_mailed_once:
  assumes "insert_generated_mail_in_transaction u sb b (RContent content area i) now s = Inr (p, t)"
  shows "insert_generated_mail_in_transaction u sb' b' (RContent content area i) now' t
    = Inl (Domain AlreadyOwned)"
proof -
  from insert_generated_mail_Inr [OF assms] obtain r where
    q: "((u, p), mail_reward_of (RContent content area i)) \<in> set (mail_rewards t)"
    and r: "tbl_get (mail t) (u, p) = Some r" "mail_open r"
    by (blast dest: tbl_get_SomeD)
  from q r have "content_pending t u content area i"
    by (force simp: content_pending_def list_ex_iff)
  then show ?thesis
    by (simp add: insert_generated_mail_in_transaction_def ensure_unique_content_can_be_mailed_def
        content_delivery_state_def domain_require_def tx_run)
qed

lemma demo_queue_costume:
  "\<exists>t. insert_generated_mail_in_transaction 1 ''s'' ''b'' (RContent Costume 1 12) 7 demo_mail_db
     = Inr (2, t)"
  by (simp add: insert_generated_mail_in_transaction_def ensure_unique_content_can_be_mailed_def
      content_delivery_state_def content_owned_def content_pending_def domain_require_def
      demo_mail_db_def demo_db_def sql_int_def in_i64_def max_or_zero_def insert_mail_in_transaction_def
      insert_mail_row_def insert_row_def sql_check_def bump_mail_cursor_def tbl_has_Cons tbl_has_Nil
      tbl_get_Cons tx_run)

theorem content_mailed_once_witness:
  "\<exists>t. insert_generated_mail_in_transaction 1 ''s'' ''b'' (RContent Costume 1 12) 7 demo_mail_db
     = Inr (2, t)
   \<and> insert_generated_mail_in_transaction 1 ''x'' ''y'' (RContent Costume 1 12) 8 t
     = Inl (Domain AlreadyOwned)"
  using demo_queue_costume content_mailed_once by blast

subsection \<open>Deleting\<close>

text \<open>Deleting mails, one or all, never loses a reward: a mail whose reward has not been claimed
  stays as it is.\<close>

lemma delete_keeps_unclaimed:
  assumes "delete_mail_tx m post_id all s = Inr (p, t)"
    and "tbl_get (mail s) k = Some r" "mar_claimed_at r = None" "tbl_has (mail_rewards s) k"
  shows "tbl_get (mail t) k = Some r \<and> tbl_get (mail_rewards t) k = tbl_get (mail_rewards s) k"
  using assms
  by (auto simp: delete_mail_tx_def tx_simps tbl_get_set mail_deletable_def
      split: if_splits dest!: bump_mail_cursor_Inr)

lemma delete_keeps_unclaimed_witness:
  "\<exists>p t r. delete_mail_tx demo_mutation 1 True demo_mail_db = Inr (p, t)
     \<and> tbl_get (mail t) (1, 1) = Some r \<and> mar_deleted_at r = None"
proof -
  have "\<exists>p t. delete_mail_tx demo_mutation 1 True demo_mail_db = Inr (p, t)"
    by (simp add: delete_mail_tx_def tx_run demo_mail_db_def mail_deletable_def tbl_has_Cons)
  then obtain p t where d: "delete_mail_tx demo_mutation 1 True demo_mail_db = Inr (p, t)" by blast
  show ?thesis
    using d delete_keeps_unclaimed [OF d, of "(1, 1)"]
    by (auto simp: demo_mail_db_def tbl_get_Cons tbl_has_Cons)
qed

subsection \<open>Stored rewards\<close>

lemma content_name_type:
  "mail_content_name t = Some kind \<Longrightarrow>
     currency_from_key kind = None
     \<and> (\<exists>c. content_from_key kind = Some c \<and> stored_content_type c = Inr t)"
  by (auto simp: currency_from_key_def all_currencies_def content_from_key_def split: if_splits)

text \<open>a reward put into a mail by type and id comes back from the mail row unchanged, so that a
  production multiplier is never paid as a literal count.\<close>

lemma mail_reward_roundtrip:
  assumes "mail_reward_key reward = Inr (kind, reward_id, area)"
    and "0 \<le> rg_reward_id reward" "rg_reward_id reward \<le> i32_max" "rg_amount reward \<noteq> NaN"
  shows "stored_reward_grant kind reward_id (real_or_null (rg_amount reward)) area = Inr reward"
proof (cases "rg_reward_type reward = 1")
  case True
  with assms(1) obtain c k where c: "consume_from_id (rg_reward_id reward) = Some c"
    "cr_currency c = Some k" and kind: "kind = currency_key k" "reward_id = Some (cr_id c)"
    by (auto simp: mail_reward_key_def split: option.splits)
  have i: "cr_id c = rg_reward_id reward" using c by (auto dest: consume_from_id_SomeD)
  moreover have "\<exists>n. legacy_consume_id k = Some n"
    using c by (cases k) (auto simp: consume_from_id_def split: if_splits)
  ultimately show ?thesis
    using assms(2-4) c True
    by (auto simp: stored_reward_grant_def stored_reward_key_def kind stored_consume_id_def in_i32_def
        real_or_null_def)
next
  case False
  with assms(1) have "mail_content_name (rg_reward_type reward) = Some kind"
    "reward_id = Some (rg_reward_id reward)"
    by (auto simp: mail_reward_key_def simp del: mail_content_name.simps split: option.splits)
  with content_name_type [OF this(1)] assms(2-4) show ?thesis
    by (auto simp: stored_reward_grant_def stored_reward_key_def real_or_null_def)
qed

lemma mail_reward_roundtrip_witness:
  "stored_reward_grant ''ch2_like'' (Some 7) (Some (Fin 3)) 2
     = Inr \<lparr>rg_reward_type = 1, rg_reward_id = 7, rg_amount = Fin 3\<rparr>"
  using mail_reward_roundtrip [of "\<lparr>rg_reward_type = 1, rg_reward_id = 7, rg_amount = Fin 3\<rparr>"]
  by (simp add: mail_reward_key_def consume_from_id_def real_or_null_def)

text \<open>A listing fails when one of its rows has no wire form.\<close>

lemma tx_collect_all:
  "tx_collect f xs s = Inr (ys, t) \<Longrightarrow> x \<in> set xs \<Longrightarrow> \<exists>s' y t'. f x s' = Inr (y, t')"
  by (induction xs arbitrary: s ys) (auto simp: tx_simps)

lemma mailbox_needs_wire_form:
  assumes "mailbox u s = Inr (b, t)" "tbl_get (mail s) (u, p) = Some m" "mar_deleted_at m = None"
    and "tbl_get (mail_rewards s) (u, p) = Some r"
  shows "\<exists>g. stored_reward_grant (mwr_reward_kind r) (mwr_reward_id r) (mwr_amount r) (mwr_area r) = Inr g"
proof -
  from assms(1) obtain ys s' where c: "tx_collect mail_snapshot_of (mailbox_rows s u) s = Inr (ys, s')"
    by (auto simp: mailbox_def tx_simps)
  have "(p, m, r) \<in> set (mailbox_rows s u)"
    unfolding mailbox_rows_def set_rev set_sort set_concat set_map UN_iff bex_simps
    by (rule bexI [OF _ tbl_get_SomeD [OF assms(2)]]) (simp add: assms(3,4))
  from tx_collect_all [OF c this]
  obtain s1 y s2 where "mail_snapshot_of (p, m, r) s1 = Inr (y, s2)" by auto
  then show ?thesis by (auto simp: mail_snapshot_of_def tx_simps)
qed

text \<open>C8: a currency without a Consume id (Gingerbread, ChocoMilk) passes the queue, but from then on
  the player's whole mailbox fails to list, and the mail can neither be claimed nor deleted.\<close>

theorem unlistable_currency_breaks_mailbox:
  assumes "insert_generated_mail_in_transaction u sb b (RCurrency k a) now s = Inr (p, t)"
    and "legacy_consume_id k = None" "mu_usn m = u"
  shows "(\<forall>box t'. mailbox u t \<noteq> Inr (box, t'))
    \<and> claim_mail_tx rules m p t = Inl (UnsupportedReward (currency_key k))
    \<and> (\<forall>q t'. delete_mail_tx m p all t = Inr (q, t') \<longrightarrow> tbl_get (mail t') (u, p) = tbl_get (mail t) (u, p))"
proof -
  from insert_generated_mail_Inr [OF assms(1)] obtain r
    where r: "tbl_get (mail_rewards t) (u, p) = Some (mail_reward_of (RCurrency k a))"
      "tbl_get (mail t) (u, p) = Some r" "mail_open r" by blast
  have bad: "stored_reward_grant (currency_key k) i x y = Inl (UnsupportedReward (currency_key k))" for i x y
    by (simp add: stored_reward_grant_def stored_reward_key_def assms(2))
  have "\<forall>box t'. mailbox u t \<noteq> Inr (box, t')"
    using mailbox_needs_wire_form [OF _ r(2) _ r(1)] r(3) by (auto simp: mail_open_def bad)
  moreover have "claim_mail_tx rules m p t = Inl (UnsupportedReward (currency_key k))"
    using r by (simp add: claim_mail_tx_def mail_reward_row_of_def assms(3) mail_open_def bad tx_run)
  moreover have "tbl_get (mail t') (u, p) = tbl_get (mail t) (u, p)"
    if "delete_mail_tx m p all t = Inr (q, t')" for q t'
    using that r by (auto simp: delete_mail_tx_def tx_simps tbl_get_set mail_deletable_def mail_open_def
        tbl_has_def split: if_splits dest!: bump_mail_cursor_Inr)
  ultimately show ?thesis by blast
qed

lemma demo_queue_gingerbread:
  "\<exists>t. insert_generated_mail_in_transaction 1 ''s'' ''b'' (RCurrency Gingerbread (Fin 5)) 7 demo_mail_db
     = Inr (2, t)"
  by (simp add: insert_generated_mail_in_transaction_def ensure_unique_content_can_be_mailed_def
      demo_mail_db_def demo_db_def sql_int_def in_i64_def max_or_zero_def insert_mail_in_transaction_def
      insert_mail_row_def insert_row_def sql_check_def bump_mail_cursor_def tbl_has_Cons tbl_has_Nil
      tbl_get_Cons tx_run)

theorem unlistable_currency_breaks_mailbox_witness:
  "\<exists>t. insert_generated_mail_in_transaction 1 ''s'' ''b'' (RCurrency Gingerbread (Fin 5)) 7 demo_mail_db
     = Inr (2, t)
   \<and> (\<forall>box t'. mailbox 1 t \<noteq> Inr (box, t'))"
proof -
  obtain t where t: "insert_generated_mail_in_transaction 1 ''s'' ''b'' (RCurrency Gingerbread (Fin 5)) 7
      demo_mail_db = Inr (2, t)" using demo_queue_gingerbread by blast
  with unlistable_currency_breaks_mailbox [OF t, of demo_mutation] show ?thesis
    by (auto simp: demo_mutation_def)
qed

end
