(* ===== verification/Purchase.thy ===== *)
theory Purchase
  imports Mail
begin

text \<open>
  Purchases of \<open>crates/persistence-sqlite/src/lib.rs\<close>: a shop purchase with rewards
  (\<open>purchase_rewards\<close>), the purchase or upgrade of one item (\<open>purchase_content\<close>) and the contents of
  a package (\<open>grant_package_contents\<close>).
\<close>

section \<open>Rewards for a price\<close>

text \<open>The rewards that were really given, in order.\<close>

fun grant_all :: "reward_rules \<Rightarrow> int \<Rightarrow> int \<Rightarrow> string \<Rightarrow> reward_grant list \<Rightarrow> reward_grant list store" where
  "grant_all rules u now source [] = tx_return []"
| "grant_all rules u now source (r # rs) =
     tx_bind (apply_reward_grant rules u r now source) (\<lambda>given.
     tx_bind (grant_all rules u now source rs) (\<lambda>granted.
       tx_return (if given then r # granted else granted)))"

definition optional_ad_level ::
  "(ad_level_progression \<Rightarrow> ad_level_snapshot store) \<Rightarrow> ad_level_progression option
   \<Rightarrow> ad_level_snapshot option store" where
  "optional_ad_level f progression =
     (case progression of
        None \<Rightarrow> tx_return None
      | Some p \<Rightarrow> tx_bind (f p) (\<lambda>snapshot. tx_return (Some snapshot)))"

definition pay :: "int \<Rightarrow> (currency_kind \<times> f64) option \<Rightarrow> unit store" where
  "pay u cost =
     (case cost of
        None \<Rightarrow> tx_return ()
      | Some (kind, amount) \<Rightarrow>
          tx_then (domain_require (valid_amount amount) InvalidAmount) (deduct_currency u kind amount))"

definition purchase_rewards_tx ::
  "reward_rules \<Rightarrow> reward_purchase_command \<Rightarrow> rpc_mutation
   \<Rightarrow> (purchase_outcome \<times> purchase_outcome option) store" where
  "purchase_rewards_tx rules c m =
     (let u = mu_usn m; outcome = \<lambda>balances rewards ad.
            \<lparr>po_chocolate = fst balances, po_candy = snd balances, po_rewards = rewards, po_ad_level = ad\<rparr>
      in tx_bind (tx_gets (\<lambda>s. tbl_has (purchase_transactions s) (u, rpc_transaction_id c))) (\<lambda>previous.
         if previous
         then tx_bind (currency_balances u) (\<lambda>balances.
              tx_bind (optional_ad_level (\<lambda>p. ad_level_snapshot_of u (alp_group_id p))
                         (rpc_ad_progression c)) (\<lambda>ad.
                tx_return (outcome balances [] ad, Some (outcome balances [] ad))))
         else tx_then (pay u (rpc_cost c))
             (tx_bind (grant_all rules u (mu_committed_at m) (rpc_purchase_kind c) (rpc_rewards c)) (\<lambda>granted.
              tx_bind (optional_ad_level (advance_ad_level u) (rpc_ad_progression c)) (\<lambda>ad.
              tx_then (insert_row purchase_transactions purchase_transactions_update
                         (u, rpc_transaction_id c)
                         \<lparr>ptr_purchase_kind = rpc_purchase_kind c, ptr_target_id = rpc_target_id c,
                          ptr_status = ''complete'', ptr_created_at = mu_committed_at m\<rparr>)
             (tx_bind (currency_balances u) (\<lambda>balances.
                tx_return (outcome balances granted ad, Some (outcome balances [] ad)))))))))"

definition purchase_rewards ::
  "(purchase_outcome \<Rightarrow> string + string) \<Rightarrow> (string \<Rightarrow> string + purchase_outcome)
   \<Rightarrow> reward_rules \<Rightarrow> rpc_mutation \<Rightarrow> reward_purchase_command \<Rightarrow> purchase_outcome store" where
  "purchase_rewards enc dec rules m c =
     commit_rpc_mutation_with_replay enc dec m (purchase_rewards_tx rules c m)"

section \<open>Buying and upgrading an item\<close>

text \<open>
  The price of the next level: with an increment, the client's single-precision formula, truncated;
  otherwise the price as given.
\<close>

definition content_price :: "content_purchase_command \<Rightarrow> int \<Rightarrow> f64" where
  "content_price c current_level =
     (if flt_less fzero (cpc_price_increment c)
      then let first_target_level = (if cpc_kind c = Skill then 2 else 1);
               steps = max (wrap_i64 (current_level + 1 - first_target_level)) 0
           in ftrunc (fadd32 (to_f32 (cpc_price c))
                             (fmul32 (to_f32 (cpc_price_increment c)) (f32_of_int steps)))
      else cpc_price c)"

definition content_level_of :: "db \<Rightarrow> int \<Rightarrow> content_kind \<Rightarrow> int \<Rightarrow> int" where
  "content_level_of s u kind i =
     (case tbl_get (content_levels s) (u, content_key kind, i) of None \<Rightarrow> 0 | Some r \<Rightarrow> lvr_level r)"

definition purchase_content_tx ::
  "content_purchase_command \<Rightarrow> rpc_mutation \<Rightarrow> content_purchase_outcome store" where
  "purchase_content_tx c m =
     (let u = mu_usn m; kind = cpc_kind c; i = cpc_content_id c;
          outcome = \<lambda>balances level.
            \<lparr>cpo_chocolate = fst balances, cpo_candy = snd balances, cpo_kind = kind,
             cpo_content_id = i, cpo_level = level\<rparr>
      in tx_then (domain_require (valid_amount (cpc_price c) \<and> valid_amount (cpc_price_increment c))
                    InvalidAmount)
        (tx_bind (tx_gets (\<lambda>s. content_level_of s u kind i)) (\<lambda>current_level.
         if max (cpc_max_level c) 1 \<le> current_level
         then tx_bind (currency_balances u) (\<lambda>balances. tx_return (outcome balances current_level))
         else let next_level = max (sat_i64 (current_level + 1)) 1
              in tx_then (deduct_currency u (cpc_currency c) (content_price c current_level))
                (tx_then (own_item u (content_key kind) (cpc_area c) i (mu_committed_at m) ''purchase'')
                (tx_then (tx_modify (content_levels_update (tbl_upsert (u, content_key kind, i)
                            \<lparr>lvr_level = next_level, lvr_reward_level = 0\<rparr>
                            (\<lambda>r. r\<lparr>lvr_level := next_level\<rparr>))))
                (tx_bind (currency_balances u) (\<lambda>balances.
                   tx_return (outcome balances next_level))))))))"

definition purchase_content ::
  "(content_purchase_outcome \<Rightarrow> string + string) \<Rightarrow> (string \<Rightarrow> string + content_purchase_outcome)
   \<Rightarrow> rpc_mutation \<Rightarrow> content_purchase_command \<Rightarrow> content_purchase_outcome store" where
  "purchase_content enc dec m c = commit_rpc_mutation enc dec m (purchase_content_tx c m)"

section \<open>Packages\<close>

definition grant_package_item :: "int \<Rightarrow> int \<Rightarrow> content_kind \<times> int \<times> int \<Rightarrow> unit store" where
  "grant_package_item u now item =
     (case item of (kind, area, i) \<Rightarrow>
        let reward_level = (if kind = Costume then 1 else 0)
        in tx_then (own_item u (content_key kind) area i now ''package'')
             (tx_modify (content_levels_update (tbl_upsert (u, content_key kind, i)
                \<lparr>lvr_level = 1, lvr_reward_level = reward_level\<rparr>
                (\<lambda>r. r\<lparr>lvr_level := max (lvr_level r) 1,
                       lvr_reward_level := max (lvr_reward_level r) reward_level\<rparr>)))))"

definition grant_package_contents_tx ::
  "(content_kind \<times> int \<times> int) list \<Rightarrow> int list \<Rightarrow> rpc_mutation \<Rightarrow> package_purchase_outcome store" where
  "grant_package_contents_tx contents music_ids m =
     tx_then (tx_each (grant_package_item (mu_usn m) (mu_committed_at m)) contents)
    (tx_bind (currency_balances (mu_usn m)) (\<lambda>balances.
       tx_return \<lparr>ppo_chocolate = fst balances, ppo_candy = snd balances, ppo_music_ids = music_ids\<rparr>))"

definition grant_package_contents ::
  "(package_purchase_outcome \<Rightarrow> string + string) \<Rightarrow> (string \<Rightarrow> string + package_purchase_outcome)
   \<Rightarrow> rpc_mutation \<Rightarrow> (content_kind \<times> int \<times> int) list \<Rightarrow> int list \<Rightarrow> package_purchase_outcome store" where
  "grant_package_contents enc dec m contents music_ids =
     commit_rpc_mutation enc dec m (grant_package_contents_tx contents music_ids m)"

section \<open>Facts\<close>

lemma grant_all_step: "tx_rel (player_step u) (grant_all rules u now source rs)"
  by (induction rs) (auto intro!: player.rules reward_steps)

lemma grant_all_bal: "tx_rel balances_kept (grant_all rules u now source rs)"
  by (induction rs) (auto intro!: balances.rules reward_bals)

lemma grant_all_keeps: "reward_blind f \<Longrightarrow> tx_keeps f (grant_all rules u now source rs)"
  by (induction rs) (auto intro!: keeps.rules apply_reward_grant_keeps)

lemma pay_step: "tx_rel (player_step u) (pay u cost)"
  unfolding pay_def by (intro player_rules reward_steps)

lemma pay_bal: "tx_rel balances_kept (pay u cost)"
  unfolding pay_def by (intro balances_rules reward_bals)

lemma purchase_rewards_step: "tx_rel (player_step (mu_usn m)) (purchase_rewards_tx rules c m)"
  unfolding purchase_rewards_tx_def optional_ad_level_def Let_def
  by (intro player_rules reward_steps pay_step grant_all_step)

lemma purchase_content_step: "tx_rel (player_step (mu_usn m)) (purchase_content_tx c m)"
  unfolding purchase_content_tx_def Let_def by (intro player_rules reward_steps)

lemma grant_package_step:
  "tx_rel (player_step (mu_usn m)) (grant_package_contents_tx contents music_ids m)"
  unfolding grant_package_contents_tx_def grant_package_item_def Let_def
  by (intro player_rules reward_steps)

interpretation buy_rewards: rpc_command "\<lambda>m. purchase_rewards_tx rules c m" for rules c
  by unfold_locales (rule purchase_rewards_step)

interpretation buy_content: plain_command "\<lambda>m. purchase_content_tx c m" for c
  by unfold_locales (rule purchase_content_step)

interpretation package: plain_command "\<lambda>m. grant_package_contents_tx contents music_ids m"
  for contents music_ids
  by unfold_locales (rule grant_package_step)

lemma purchase_rewards_bal: "tx_rel balances_kept (purchase_rewards_tx rules c m)"
  unfolding purchase_rewards_tx_def optional_ad_level_def ad_level_snapshot_of_def Let_def
  by (intro balances_rules reward_bals pay_bal grant_all_bal) simp_all

lemma purchase_content_bal: "tx_rel balances_kept (purchase_content_tx c m)"
  unfolding purchase_content_tx_def Let_def by (intro balances_rules reward_bals) simp_all

subsection \<open>A transaction id pays once\<close>

lemma currency_balances_Inr:
  "currency_balances u s = Inr (b, t) \<longleftrightarrow> t = s
     \<and> tbl_get (currencies s) (u, ''chocolate'') = Some (fst b)
     \<and> tbl_get (currencies s) (u, ''candy'') = Some (snd b)"
  by (cases b) (auto simp: currency_balances_def tx_simps)

lemma ad_snapshot_Inr:
  "ad_level_snapshot_of u g s = Inr (x, t) \<longleftrightarrow> t = s
     \<and> (\<exists>r. tbl_get (ad_levels s) (u, g) = Some r
          \<and> x = \<lparr>al_ad_level_id = g, al_level = alr_level r, al_experience = alr_experience r\<rparr>)"
  by (auto simp: ad_level_snapshot_of_def tx_simps)

lemma optional_ad_level_exists:
  assumes "optional_ad_level (advance_ad_level u) p s = Inr (x, t)"
  shows "\<exists>y. optional_ad_level (\<lambda>p. ad_level_snapshot_of u (alp_group_id p)) p t = Inr (y, t)"
  using assms
  by (cases p) (auto simp: optional_ad_level_def advance_ad_level_def ad_snapshot_Inr Let_def tx_simps)

lemma optional_snapshot_pure:
  "optional_ad_level (\<lambda>p. ad_level_snapshot_of u (alp_group_id p)) p s = Inr (x, t) \<Longrightarrow> t = s"
  by (cases p) (auto simp: optional_ad_level_def ad_snapshot_Inr tx_simps)

lemma purchase_rewards_Inr:
  assumes "purchase_rewards_tx rules c m s = Inr (r, t)"
  obtains (previous) b ad where "tbl_has (purchase_transactions s) (mu_usn m, rpc_transaction_id c)"
      "t = s" "currency_balances (mu_usn m) s = Inr (b, s)"
      "optional_ad_level (\<lambda>p. ad_level_snapshot_of (mu_usn m) (alp_group_id p)) (rpc_ad_progression c) s
         = Inr (ad, s)"
      "po_rewards (fst r) = []"
  | (fresh) s1 s2 s3 granted ad b where
      "\<not> tbl_has (purchase_transactions s) (mu_usn m, rpc_transaction_id c)"
      "pay (mu_usn m) (rpc_cost c) s = Inr ((), s1)"
      "grant_all rules (mu_usn m) (mu_committed_at m) (rpc_purchase_kind c) (rpc_rewards c) s1
         = Inr (granted, s2)"
      "optional_ad_level (advance_ad_level (mu_usn m)) (rpc_ad_progression c) s2 = Inr (ad, s3)"
      "tbl_has (purchase_transactions t) (mu_usn m, rpc_transaction_id c)"
      "currencies t = currencies s3" "ad_levels t = ad_levels s3"
      "currency_balances (mu_usn m) t = Inr (b, t)"
      "po_rewards (fst r) = granted" "po_chocolate (fst r) = fst b" "po_candy (fst r) = snd b"
proof (cases "tbl_has (purchase_transactions s) (mu_usn m, rpc_transaction_id c)")
  case True
  with assms obtain b ad where b: "currency_balances (mu_usn m) s = Inr (b, s)"
    and ad: "optional_ad_level (\<lambda>p. ad_level_snapshot_of (mu_usn m) (alp_group_id p))
        (rpc_ad_progression c) s = Inr (ad, t)" and r: "po_rewards (fst r) = []"
    by (auto simp: purchase_rewards_tx_def Let_def tx_simps currency_balances_Inr)
  have "t = s" by (rule optional_snapshot_pure [OF ad])
  with previous True b ad r show ?thesis by blast
next
  case False
  with assms obtain s1 s2 s3 granted ad b row where
    p: "pay (mu_usn m) (rpc_cost c) s = Inr ((), s1)"
    and g: "grant_all rules (mu_usn m) (mu_committed_at m) (rpc_purchase_kind c) (rpc_rewards c) s1
      = Inr (granted, s2)"
    and ad: "optional_ad_level (advance_ad_level (mu_usn m)) (rpc_ad_progression c) s2 = Inr (ad, s3)"
    and t: "t = purchase_transactions_update (tbl_put (mu_usn m, rpc_transaction_id c) row) s3"
    and b: "currency_balances (mu_usn m) t = Inr (b, t)"
    and r: "po_rewards (fst r) = granted" "po_chocolate (fst r) = fst b" "po_candy (fst r) = snd b"
    by (auto simp: purchase_rewards_tx_def Let_def tx_simps currency_balances_Inr)
  show ?thesis by (rule fresh [OF False p g ad _ _ _ b r]) (simp_all add: t)
qed

text \<open>C9: a shop transaction pays once: the same transaction id, even in a new request, takes no money,
  gives nothing and changes nothing, and is answered with the current balances and no rewards.\<close>

theorem purchase_transaction_once:
  assumes "purchase_rewards_tx rules c m s = Inr (r, t)" "mu_usn m' = mu_usn m"
  shows "\<exists>out. purchase_rewards_tx rules' c m' t = Inr ((out, Some out), t) \<and> po_rewards out = []"
  using assms(1)
proof (cases rule: purchase_rewards_Inr)
  case (previous b ad)
  then show ?thesis by (simp add: purchase_rewards_tx_def assms(2) Let_def tx_run)
next
  case (fresh s1 s2 s3 granted ad b)
  from optional_ad_level_exists [OF fresh(4)] fresh(7) obtain y
    where "optional_ad_level (\<lambda>p. ad_level_snapshot_of (mu_usn m) (alp_group_id p))
        (rpc_ad_progression c) t = Inr (y, t)"
    by (cases "rpc_ad_progression c") (auto simp: optional_ad_level_def ad_snapshot_Inr tx_simps)
  with fresh(5,8) show ?thesis by (simp add: purchase_rewards_tx_def assms(2) Let_def tx_run)
qed

definition demo_purchase :: reward_purchase_command where
  "demo_purchase = \<lparr>rpc_transaction_id = ''t1'', rpc_purchase_kind = ''shop'', rpc_target_id = 5,
     rpc_cost = Some (Candy, Fin 4),
     rpc_rewards = [\<lparr>rg_reward_type = 3, rg_reward_id = 12, rg_amount = Fin 1\<rparr>],
     rpc_ad_progression = None\<rparr>"

lemma fsub_10_4: "fsub (Fin 10) (Fin 4) = Fin 6"
  using fsub_int_exact [of 10 4] by simp

lemma demo_purchase_run:
  "\<exists>r t. purchase_rewards_tx empty_rules demo_purchase demo_mutation demo_mail_db = Inr (r, t)
     \<and> po_rewards (fst r) = [\<lparr>rg_reward_type = 3, rg_reward_id = 12, rg_amount = Fin 1\<rparr>]
     \<and> tbl_get (currencies t) (1, ''candy'') = Some (Fin 6)"
  by (simp add: purchase_rewards_tx_def Let_def tx_run demo_purchase_def demo_mutation_def demo_mail_db_def
      demo_db_def pay_def valid_amount_def fzero_def deduct_currency_def covers_def domain_require_def
      tbl_get_Cons tbl_has_Nil apply_reward_grant_def grant_content_def own_item_def level_one_def
      optional_ad_level_def insert_row_def currency_balances_def query_row_def tbl_set_def fsub_10_4)

theorem purchase_transaction_once_witness:
  "\<exists>r t out. purchase_rewards_tx empty_rules demo_purchase demo_mutation demo_mail_db = Inr (r, t)
     \<and> purchase_rewards_tx empty_rules demo_purchase demo_mutation t = Inr ((out, Some out), t)
     \<and> po_rewards out = []"
proof -
  obtain r t where p: "purchase_rewards_tx empty_rules demo_purchase demo_mutation demo_mail_db = Inr (r, t)"
    using demo_purchase_run by blast
  from purchase_transaction_once [OF p refl] p show ?thesis by blast
qed

subsection \<open>The effect of an upgrade\<close>

lemma own_item_Inr:
  "own_item u kind area i now source s = Inr (x, t) \<longleftrightarrow>
     x = (\<not> tbl_has (owned_content s) (u, kind, i))
     \<and> t = owned_content_update (tbl_ignore (u, kind, i)
           \<lparr>owr_area = area, owr_acquired_at = now, owr_source = source\<rparr>) s"
  by (auto simp: own_item_def tx_simps)

text \<open>buying an item raises its level by exactly one and takes exactly the price of that level from
  exactly the stated currency, which must cover it; at the maximum level nothing is taken and
  nothing changes.\<close>

lemma purchase_content_effect:
  assumes "purchase_content_tx c m s = Inr (out, t)"
    and "content_level_of s (mu_usn m) (cpc_kind c) (cpc_content_id c) = level"
    and "0 \<le> level" "level < i64_max"
  shows "if max (cpc_max_level c) 1 \<le> level then t = s \<and> cpo_level out = level
    else cpo_level out = level + 1
      \<and> content_level_of t (mu_usn m) (cpc_kind c) (cpc_content_id c) = level + 1
      \<and> tbl_has (owned_content t) (mu_usn m, content_key (cpc_kind c), cpc_content_id c)
      \<and> (content_price c level = fzero \<and> currencies t = currencies s
         \<or> covers s (mu_usn m) (cpc_currency c) (content_price c level)
           \<and> currencies t = tbl_at (mu_usn m, currency_key (cpc_currency c))
               (\<lambda>b. fsub b (content_price c level)) (currencies s))"
proof (cases "max (cpc_max_level c) 1 \<le> level")
  case True
  with assms(1) show ?thesis
    by (auto simp: purchase_content_tx_def Let_def tx_simps assms(2) currency_balances_Inr)
next
  case False
  have next_level: "max (sat_i64 (level + 1)) 1 = level + 1"
    using assms(3,4) by (simp add: sat_i64_id in_i64_def)
  from False assms(1) obtain s1 where
    d: "deduct_currency (mu_usn m) (cpc_currency c) (content_price c level) s = Inr ((), s1)"
    and t: "t = content_levels_update (tbl_upsert (mu_usn m, content_key (cpc_kind c), cpc_content_id c)
        \<lparr>lvr_level = level + 1, lvr_reward_level = 0\<rparr> (\<lambda>r. r\<lparr>lvr_level := level + 1\<rparr>))
      (owned_content_update (tbl_ignore (mu_usn m, content_key (cpc_kind c), cpc_content_id c)
        \<lparr>owr_area = cpc_area c, owr_acquired_at = mu_committed_at m, owr_source = ''purchase''\<rparr>) s1)"
    and out: "cpo_level out = level + 1"
    by (auto simp: purchase_content_tx_def Let_def tx_simps assms(2) currency_balances_Inr own_item_Inr
        next_level)
  have "content_level_of t (mu_usn m) (cpc_kind c) (cpc_content_id c) = level + 1"
    by (simp add: content_level_of_def t split: option.split)
  moreover have "tbl_has (owned_content t) (mu_usn m, content_key (cpc_kind c), cpc_content_id c)"
    by (simp add: t)
  moreover have "currencies t = currencies s1" by (simp add: t)
  ultimately show ?thesis using False d out by (auto simp: deduct_Inr split: if_splits)
qed

definition demo_upgrade :: content_purchase_command where
  "demo_upgrade = \<lparr>cpc_kind = Unit, cpc_area = 1, cpc_content_id = 7, cpc_currency = Candy,
     cpc_price = Fin 4, cpc_price_increment = Fin 0, cpc_max_level = 20\<rparr>"

lemma demo_upgrade_run: "\<exists>out t. purchase_content_tx demo_upgrade demo_mutation demo_mail_db = Inr (out, t)"
  by (simp add: purchase_content_tx_def Let_def tx_run demo_upgrade_def demo_mutation_def demo_mail_db_def
      demo_db_def valid_amount_def fzero_def content_level_of_def content_price_def deduct_currency_def
      covers_def domain_require_def tbl_get_Cons own_item_def currency_balances_def query_row_def
      tbl_set_def)

lemma purchase_content_effect_witness:
  "\<exists>out t. purchase_content_tx demo_upgrade demo_mutation demo_mail_db = Inr (out, t)
     \<and> cpo_level out = 1 \<and> tbl_has (owned_content t) (1, ''unit'', 7)"
proof -
  obtain out t where p: "purchase_content_tx demo_upgrade demo_mutation demo_mail_db = Inr (out, t)"
    using demo_upgrade_run by blast
  have "content_level_of demo_mail_db (mu_usn demo_mutation) (cpc_kind demo_upgrade)
      (cpc_content_id demo_upgrade) = 0"
    by (simp add: content_level_of_def demo_mail_db_def demo_db_def)
  from purchase_content_effect [OF p this] p show ?thesis
    by (auto simp: demo_upgrade_def demo_mutation_def)
qed

end
