(* ===== verification/Ch3.thy ===== *)
theory Ch3
  imports Purchase
begin

text \<open>
  Chapter 3 of \<open>crates/persistence-sqlite/src/lib.rs\<close>: the energy that comes back by one per second,
  the profile of the player, settling a stage or a stream of it, and the rewards of a chapter.
\<close>

section \<open>Energy and profile\<close>

text \<open>
  \<open>regenerated\<close>: the energy at \<open>now\<close>. The difference is a saturating \<open>i64\<close> cut to \<open>i32\<close>, the sum
  saturates, and the cap applies last.
\<close>

definition regenerated :: "int \<Rightarrow> int \<Rightarrow> int \<Rightarrow> int \<Rightarrow> int" where
  "regenerated stored calculated_at now cap =
     min (sat_i32 (stored + min (max (sat_i64 (now - calculated_at)) 0) i32_max)) cap"

definition restore_ch3_energy :: "int \<Rightarrow> int \<Rightarrow> int \<Rightarrow> ch3_energy_snapshot store" where
  "restore_ch3_energy u now cap =
     tx_bind (query_row (\<lambda>s. tbl_get (ch3_energy s) u)) (\<lambda>r.
     tx_then (read_i32 (eyr_amount r))
       (let amount = regenerated (eyr_amount r) (eyr_calculated_at r) now cap
        in tx_then (sql_check (0 \<le> amount \<and> 0 \<le> cap))
          (tx_then (tx_modify (ch3_energy_update (tbl_at u
                     (\<lambda>_. \<lparr>eyr_amount = amount, eyr_cap = cap, eyr_calculated_at = now\<rparr>))))
             (tx_return \<lparr>ce_amount = amount, ce_cap = cap, ce_calculated_at = now\<rparr>))))"

text \<open>Taking the cost: a plain \<open>i32\<close> subtraction, written back under \<open>CHECK(amount>=0)\<close>.\<close>

definition spend_energy :: "int \<Rightarrow> ch3_energy_snapshot \<Rightarrow> int \<Rightarrow> int \<Rightarrow> ch3_energy_snapshot store" where
  "spend_energy u energy cost now =
     tx_then (domain_require (cost \<le> ce_amount energy) InsufficientEnergy)
       (let amount = wrap_i32 (ce_amount energy - cost)
        in tx_then (sql_check (0 \<le> amount \<and> 0 \<le> ce_cap energy))
          (tx_then (tx_modify (ch3_energy_update (tbl_at u
                     (\<lambda>_. \<lparr>eyr_amount = amount, eyr_cap = ce_cap energy, eyr_calculated_at = now\<rparr>))))
             (tx_return (energy\<lparr>ce_amount := amount\<rparr>))))"

text \<open>
  The level loop: the last entry of the list whose threshold is reached and whose level is not
  below the one found so far gives the level and the candy.
\<close>

fun profile_level :: "int \<Rightarrow> (int \<times> int \<times> int) list \<Rightarrow> int \<times> int \<Rightarrow> int \<times> int" where
  "profile_level experience [] found = found"
| "profile_level experience ((candidate, threshold, candy) # levels) (level, add_candy) =
     profile_level experience levels
       (if threshold \<le> experience \<and> level \<le> candidate then (candidate, candy)
        else (level, add_candy))"

definition set_profile ::
  "int \<Rightarrow> int \<Rightarrow> int \<Rightarrow> (int \<times> int \<times> int) list \<Rightarrow> affection_row \<Rightarrow> follower_profile_snapshot store" where
  "set_profile u profile_id exp_gain levels r =
     (let experience = sat_i64 (afr_experience r + max exp_gain 0);
          found = profile_level experience levels (max (afr_level r) 1, 0)
      in tx_then (read_i32 (afr_level r))
        (tx_then (tx_modify (affection_update (tbl_at (u, profile_id)
                   (\<lambda>_. \<lparr>afr_experience = experience, afr_level = fst found\<rparr>))))
           (tx_return \<lparr>fp_profile_id = profile_id, fp_level = fst found,
                       fp_experience = experience, fp_add_candy = snd found\<rparr>)))"

definition update_ch3_profile ::
  "int \<Rightarrow> int \<Rightarrow> (int \<times> int \<times> int) list \<Rightarrow> follower_profile_snapshot store" where
  "update_ch3_profile u exp_gain levels =
     tx_bind (query_row (\<lambda>s. tbl_get (affection s) (u, 100000)))
       (set_profile u 100000 exp_gain levels)"

definition update_follower_profile ::
  "int \<Rightarrow> int \<Rightarrow> int \<Rightarrow> (int \<times> int \<times> int) list \<Rightarrow> follower_profile_snapshot store" where
  "update_follower_profile u profile_id exp_gain levels =
     tx_then (tx_modify (affection_update (tbl_ignore (u, profile_id)
                \<lparr>afr_experience = 0, afr_level = 1\<rparr>)))
    (tx_bind (query_row (\<lambda>s. tbl_get (affection s) (u, profile_id)))
       (set_profile u profile_id exp_gain levels))"

section \<open>Snapshots\<close>

definition stage_snapshot :: "int \<Rightarrow> stage_row \<Rightarrow> ch3_stage_snapshot" where
  "stage_snapshot i r =
     \<lparr>cs_stage_id = i, cs_chapter = sgr_chapter r, cs_stage_index = sgr_stage_index r,
      cs_completed = sgr_completed r, cs_best_star = sgr_best_star r,
      cs_best_score = sgr_best_score r\<rparr>"

definition ch3_stage_rows :: "db \<Rightarrow> int \<Rightarrow> ch3_stage_snapshot list" where
  "ch3_stage_rows s u =
     sort_key (\<lambda>c. (cs_chapter c, cs_stage_index c, cs_stage_id c))
       (map (\<lambda>((_, i), r). stage_snapshot i r)
         (tbl_select (\<lambda>(v, _) r. v = u \<and> sgr_unlocked r) (ch3_stages s)))"

definition ch3_claim_rows :: "db \<Rightarrow> int \<Rightarrow> ch3_chapter_claim_snapshot list" where
  "ch3_claim_rows s u =
     map (\<lambda>((_, chapter, num), _). \<lparr>ccc_chapter = chapter, ccc_reward_num = num\<rparr>)
       (tbl_select (\<lambda>k _. fst k = u) (ch3_chapter_claims s))"

definition profile_rows :: "db \<Rightarrow> int \<Rightarrow> follower_profile_snapshot list" where
  "profile_rows s u =
     map (\<lambda>((_, i), r). \<lparr>fp_profile_id = i, fp_level = afr_level r,
                          fp_experience = afr_experience r, fp_add_candy = 0\<rparr>)
       (tbl_select (\<lambda>k _. fst k = u) (affection s))"

definition ch3_snapshot_raw :: "int \<Rightarrow> ch3_snapshot store" where
  "ch3_snapshot_raw u =
     tx_bind (query_row (\<lambda>s. tbl_get (ch3_energy s) u)) (\<lambda>r.
     tx_then (read_i32 (eyr_amount r)) (tx_then (read_i32 (eyr_cap r))
       (tx_gets (\<lambda>s. \<lparr>c3_energy = \<lparr>ce_amount = eyr_amount r, ce_cap = eyr_cap r,
                                   ce_calculated_at = eyr_calculated_at r\<rparr>,
                      c3_stages = ch3_stage_rows s u, c3_chapter_claims = ch3_claim_rows s u,
                      c3_profiles = profile_rows s u\<rparr>))))"

definition ch3_snapshot_at :: "int \<Rightarrow> int \<Rightarrow> int \<Rightarrow> db \<Rightarrow> (store_error + ch3_snapshot) \<times> db" where
  "ch3_snapshot_at u now cap s =
     (case tx_commit (restore_ch3_energy u now cap) s of
        (Inl e, t) \<Rightarrow> (Inl e, t)
      | (Inr _, t) \<Rightarrow> tx_commit (ch3_snapshot_raw u) t)"

section \<open>Settling a stage\<close>

definition stage_unlocked :: "db \<Rightarrow> int \<Rightarrow> int \<Rightarrow> bool" where
  "stage_unlocked s u i \<longleftrightarrow> (case tbl_get (ch3_stages s) (u, i) of None \<Rightarrow> False | Some r \<Rightarrow> sgr_unlocked r)"

definition unlock_next :: "int \<Rightarrow> ch3_stage_definition option \<Rightarrow> unit store" where
  "unlock_next u nxt =
     (case nxt of None \<Rightarrow> tx_return ()
      | Some d \<Rightarrow> tx_modify (ch3_stages_update (tbl_ignore (u, csd_stage_id d)
          \<lparr>sgr_chapter = csd_chapter d, sgr_stage_index = csd_stage_index d, sgr_completed = False,
           sgr_best_star = 0, sgr_best_score = 0, sgr_unlocked = True\<rparr>)))"

definition cleared_row :: "int \<Rightarrow> int \<Rightarrow> stage_row \<Rightarrow> stage_row" where
  "cleared_row star score r =
     r\<lparr>sgr_completed := True, sgr_best_star := max (sgr_best_star r) star,
       sgr_best_score := max (sgr_best_score r) score\<rparr>"

text \<open>The update of a cleared stage under \<open>CHECK(best_star BETWEEN 0 AND 3)\<close>, and the next stage.\<close>

definition clear_stage ::
  "int \<Rightarrow> int \<Rightarrow> ch3_stage_definition option \<Rightarrow> int \<Rightarrow> int \<Rightarrow> unit store" where
  "clear_stage u i nxt star score =
     tx_bind (tx_gets (\<lambda>s. tbl_get (ch3_stages s) (u, i))) (\<lambda>row.
     tx_then (sql_check (case row of None \<Rightarrow> True
                | Some r \<Rightarrow> 0 \<le> max (sgr_best_star r) star \<and> max (sgr_best_star r) star \<le> 3))
    (tx_then (tx_modify (ch3_stages_update (tbl_at (u, i) (cleared_row star score))))
       (unlock_next u nxt)))"

definition drop_row_of :: "reward_grant \<Rightarrow> drop_row" where
  "drop_row_of g = \<lparr>drr_reward_kind = show_int (rg_reward_type g),
                    drr_reward_id = Some (rg_reward_id g), drr_amount = rg_amount g\<rparr>"

text \<open>Granting the drops of a roll and recording each under its index; the value are the applied ones.\<close>

fun grant_drops ::
  "reward_rules \<Rightarrow> int \<Rightarrow> int \<Rightarrow> string \<Rightarrow> string \<Rightarrow> int \<Rightarrow> int \<Rightarrow> reward_grant list
   \<Rightarrow> reward_grant list store" where
  "grant_drops rules u now source key roll index [] = tx_return []"
| "grant_drops rules u now source key roll index (g # gs) =
     tx_bind (apply_reward_grant rules u g now source) (\<lambda>applied.
     tx_then (tx_modify (ch3_drops_update (tbl_ignore (u, key, roll, index) (drop_row_of g))))
    (tx_bind (grant_drops rules u now source key roll (index + 1) gs) (\<lambda>rest.
       tx_return (if applied then g # rest else rest))))"

definition settle_ch3_stage_tx ::
  "reward_rules \<Rightarrow> ch3_stage_definition \<Rightarrow> ch3_stage_definition option \<Rightarrow> int \<Rightarrow> int \<Rightarrow> int \<Rightarrow> int
   \<Rightarrow> reward_grant list \<Rightarrow> int \<Rightarrow> (int \<times> int \<times> int) list \<Rightarrow> rpc_mutation
   \<Rightarrow> (ch3_settlement \<times> ch3_settlement option) store" where
  "settle_ch3_stage_tx rules stage nxt star score energy_cost energy_cap rewards
       profile_exp_gain levels m =
     (let u = mu_usn m; now = mu_committed_at m; i = csd_stage_id stage;
          clear = (csd_story stage \<or> 0 < star)
      in tx_bind (tx_gets (\<lambda>s. stage_unlocked s u i)) (\<lambda>unlocked.
         tx_then (domain_require unlocked Locked)
        (tx_bind (restore_ch3_energy u now energy_cap) (\<lambda>restored.
         tx_bind (spend_energy u restored energy_cost now) (\<lambda>energy.
         tx_then (if clear then clear_stage u i nxt star score else tx_return ())
        (tx_bind (if clear
                  then grant_drops rules u now ''ch3-stage'' (mu_idempotency_key m) 1 0 rewards
                  else tx_return []) (\<lambda>applied.
         tx_bind (update_ch3_profile u
                    (if clear \<and> \<not> csd_story stage then profile_exp_gain else 0) levels) (\<lambda>profile.
         tx_bind (query_row (\<lambda>s. map_option (stage_snapshot i) (tbl_get (ch3_stages s) (u, i)))) (\<lambda>row.
           let result = \<lparr>cst_stage = row, cst_energy = energy, cst_profile = profile,
                         cst_rewards = applied\<rparr>
           in tx_return (result, Some (result\<lparr>cst_rewards := []\<rparr>)))))))))))"

definition settle_ch3_stage ::
  "(ch3_settlement \<Rightarrow> string + string) \<Rightarrow> (string \<Rightarrow> string + ch3_settlement)
   \<Rightarrow> reward_rules \<Rightarrow> rpc_mutation \<Rightarrow> ch3_stage_definition \<Rightarrow> ch3_stage_definition option
   \<Rightarrow> int \<Rightarrow> int \<Rightarrow> int \<Rightarrow> int \<Rightarrow> reward_grant list \<Rightarrow> int \<Rightarrow> (int \<times> int \<times> int) list
   \<Rightarrow> ch3_settlement store" where
  "settle_ch3_stage enc dec rules m stage nxt star score energy_cost energy_cap rewards
       profile_exp_gain levels =
     commit_rpc_mutation_with_replay enc dec m
       (settle_ch3_stage_tx rules stage nxt star score energy_cost energy_cap rewards
          profile_exp_gain levels m)"

section \<open>Chapter rewards\<close>

definition chapter_stars :: "db \<Rightarrow> int \<Rightarrow> int \<Rightarrow> int" where
  "chapter_stars s u chapter =
     sum_list (map (\<lambda>(_, r). sgr_best_star r)
       (tbl_select (\<lambda>(v, _) r. v = u \<and> sgr_chapter r = chapter) (ch3_stages s)))"

definition claim_ch3_chapter_reward_tx ::
  "reward_rules \<Rightarrow> int \<Rightarrow> int \<Rightarrow> int \<Rightarrow> reward_grant list \<Rightarrow> int \<Rightarrow> rpc_mutation
   \<Rightarrow> ((ch3_energy_snapshot \<times> reward_grant list)
       \<times> (ch3_energy_snapshot \<times> reward_grant list) option) store" where
  "claim_ch3_chapter_reward_tx rules chapter reward_num goal rewards energy_cap m =
     (let u = mu_usn m; now = mu_committed_at m
      in tx_bind (tx_gets (\<lambda>s. chapter_stars s u chapter)) (\<lambda>stars.
         tx_then (domain_require (goal \<le> stars) Locked)
        (tx_bind (tx_gets (\<lambda>s. tbl_has (ch3_chapter_claims s) (u, chapter, reward_num))) (\<lambda>claimed.
         tx_then (domain_require (\<not> claimed) AlreadyClaimed)
        (tx_then (tx_modify (ch3_chapter_claims_update (tbl_ignore (u, chapter, reward_num) now)))
        (tx_bind (grant_all rules u now ''ch3-chapter'' rewards) (\<lambda>applied.
         tx_bind (restore_ch3_energy u now energy_cap) (\<lambda>energy.
           tx_return ((energy, applied), Some (energy, []))))))))))"

definition claim_ch3_chapter_reward ::
  "(ch3_energy_snapshot \<times> reward_grant list \<Rightarrow> string + string)
   \<Rightarrow> (string \<Rightarrow> string + ch3_energy_snapshot \<times> reward_grant list)
   \<Rightarrow> reward_rules \<Rightarrow> rpc_mutation \<Rightarrow> int \<Rightarrow> int \<Rightarrow> int \<Rightarrow> reward_grant list \<Rightarrow> int
   \<Rightarrow> (ch3_energy_snapshot \<times> reward_grant list) store" where
  "claim_ch3_chapter_reward enc dec rules m chapter reward_num goal rewards energy_cap =
     commit_rpc_mutation_with_replay enc dec m
       (claim_ch3_chapter_reward_tx rules chapter reward_num goal rewards energy_cap m)"

section \<open>Streaming a stage\<close>

fun grant_rolls ::
  "reward_rules \<Rightarrow> int \<Rightarrow> int \<Rightarrow> string \<Rightarrow> (int \<times> reward_grant list) list
   \<Rightarrow> (int \<times> reward_grant list) list store" where
  "grant_rolls rules u now key [] = tx_return []"
| "grant_rolls rules u now key ((roll, gs) # rolls) =
     tx_bind (grant_drops rules u now ''ch3-stream'' key roll 0 gs) (\<lambda>applied.
     tx_bind (grant_rolls rules u now key rolls) (\<lambda>rest. tx_return ((roll, applied) # rest)))"

definition stage_completed :: "db \<Rightarrow> int \<Rightarrow> int \<Rightarrow> bool" where
  "stage_completed s u i \<longleftrightarrow>
     (case tbl_get (ch3_stages s) (u, i) of None \<Rightarrow> False | Some r \<Rightarrow> sgr_completed r)"

definition settle_ch3_stream_tx ::
  "reward_rules \<Rightarrow> int \<Rightarrow> int \<Rightarrow> int \<Rightarrow> int \<Rightarrow> (int \<times> reward_grant list) list \<Rightarrow> int
   \<Rightarrow> (int \<times> int \<times> int) list \<Rightarrow> rpc_mutation
   \<Rightarrow> (ch3_stream_settlement \<times> ch3_stream_settlement option) store" where
  "settle_ch3_stream_tx rules stage_id count energy_cost_each energy_cap reward_rolls
       profile_exp_each levels m =
     (let u = mu_usn m; now = mu_committed_at m
      in tx_bind (tx_gets (\<lambda>s. stage_completed s u stage_id)) (\<lambda>completed.
         tx_then (domain_require completed Locked)
        (tx_bind (restore_ch3_energy u now energy_cap) (\<lambda>restored.
         tx_bind (spend_energy u restored (sat_i32 (energy_cost_each * count)) now) (\<lambda>energy.
         tx_bind (grant_rolls rules u now (mu_idempotency_key m) reward_rolls) (\<lambda>applied.
         tx_bind (update_ch3_profile u (sat_i64 (profile_exp_each * count)) levels) (\<lambda>profile.
           let result = \<lparr>css_stage_id = stage_id, css_energy = energy, css_profile = profile,
                         css_reward_rolls = applied\<rparr>
           in tx_return (result, Some (result\<lparr>css_reward_rolls := []\<rparr>)))))))))"

definition settle_ch3_stream ::
  "(ch3_stream_settlement \<Rightarrow> string + string) \<Rightarrow> (string \<Rightarrow> string + ch3_stream_settlement)
   \<Rightarrow> reward_rules \<Rightarrow> rpc_mutation \<Rightarrow> int \<Rightarrow> int \<Rightarrow> int \<Rightarrow> int \<Rightarrow> (int \<times> reward_grant list) list \<Rightarrow> int
   \<Rightarrow> (int \<times> int \<times> int) list \<Rightarrow> ch3_stream_settlement store" where
  "settle_ch3_stream enc dec rules m stage_id count energy_cost_each energy_cap reward_rolls
       profile_exp_each levels =
     tx_then (domain_require (1 \<le> count \<and> count \<le> 5) InvalidStage)
       (commit_rpc_mutation_with_replay enc dec m
          (settle_ch3_stream_tx rules stage_id count energy_cost_each energy_cap reward_rolls
             profile_exp_each levels m))"

section \<open>Facts\<close>

lemma tbl_at_twice: "tbl_at k f (tbl_at k g t) = tbl_at k (\<lambda>v. f (g v)) t"
  by (simp add: tbl_set_def case_prod_beta comp_def)

lemma tbl_at_const: "tbl_at k (\<lambda>_. v) (tbl_at k g t) = tbl_at k (\<lambda>_. v) t"
  by (simp add: tbl_at_twice)

lemma restore_step: "tx_rel (player_step u) (restore_ch3_energy u now cap)"
  unfolding restore_ch3_energy_def Let_def by (intro player_rules)

lemma spend_step: "tx_rel (player_step u) (spend_energy u e cost now)"
  unfolding spend_energy_def Let_def by (intro player_rules)

lemma set_profile_step: "tx_rel (player_step u) (set_profile u i gain levels r)"
  unfolding set_profile_def Let_def by (intro player_rules)

lemma profile_steps:
  "tx_rel (player_step u) (update_ch3_profile u gain levels)"
  "tx_rel (player_step u) (update_follower_profile u i gain levels)"
  unfolding update_ch3_profile_def update_follower_profile_def
  by (intro player_rules set_profile_step)+

lemma clear_stage_step: "tx_rel (player_step u) (clear_stage u i nxt star score)"
  unfolding clear_stage_def unlock_next_def by (intro player_rules)

lemma grant_drops_step: "tx_rel (player_step u) (grant_drops rules u now source key roll index gs)"
  by (induction gs arbitrary: index) (auto intro!: player_rules reward_steps)

lemma grant_rolls_step: "tx_rel (player_step u) (grant_rolls rules u now key rolls)"
proof (induction rolls)
  case (Cons r rolls)
  then show ?case by (cases r) (auto intro!: player_rules grant_drops_step)
qed (auto intro: player_rules)

lemma settle_stage_step:
  "tx_rel (player_step (mu_usn m)) (settle_ch3_stage_tx rules st nxt star score cost cap rs gain ls m)"
  unfolding settle_ch3_stage_tx_def Let_def
  by (intro player_rules restore_step spend_step clear_stage_step grant_drops_step profile_steps)

lemma claim_chapter_step:
  "tx_rel (player_step (mu_usn m)) (claim_ch3_chapter_reward_tx rules ch num need rs cap m)"
  unfolding claim_ch3_chapter_reward_tx_def Let_def
  by (intro player_rules restore_step grant_all_step)

lemma settle_stream_step:
  "tx_rel (player_step (mu_usn m)) (settle_ch3_stream_tx rules i n cost cap rolls gain ls m)"
  unfolding settle_ch3_stream_tx_def Let_def
  by (intro player_rules restore_step spend_step grant_rolls_step profile_steps)

interpretation settle_stage: rpc_command
  "\<lambda>m. settle_ch3_stage_tx rules st nxt star score cost cap rs gain ls m"
  for rules st nxt star score cost cap rs gain ls
  by unfold_locales (rule settle_stage_step)

interpretation claim_chapter: rpc_command
  "\<lambda>m. claim_ch3_chapter_reward_tx rules ch num need rs cap m" for rules ch num need rs cap
  by unfold_locales (rule claim_chapter_step)

interpretation settle_stream: rpc_command
  "\<lambda>m. settle_ch3_stream_tx rules i n cost cap rolls gain ls m" for rules i n cost cap rolls gain ls
  by unfold_locales (rule settle_stream_step)

subsection \<open>Balances\<close>

lemma restore_bal: "tx_rel balances_kept (restore_ch3_energy u now cap)"
  unfolding restore_ch3_energy_def Let_def by (intro balances_rules) simp_all

lemma spend_bal: "tx_rel balances_kept (spend_energy u e cost now)"
  unfolding spend_energy_def Let_def by (intro balances_rules) simp_all

lemma profile_bal:
  "tx_rel balances_kept (update_ch3_profile u gain levels)"
  "tx_rel balances_kept (update_follower_profile u i gain levels)"
  unfolding update_ch3_profile_def update_follower_profile_def set_profile_def Let_def
  by (intro balances_rules; simp)+

lemma clear_stage_bal: "tx_rel balances_kept (clear_stage u i nxt star score)"
  unfolding clear_stage_def unlock_next_def by (intro balances_rules) simp_all

lemma grant_drops_bal: "tx_rel balances_kept (grant_drops rules u now source key roll index gs)"
  by (induction gs arbitrary: index) (auto intro!: balances_rules reward_bals)

lemma grant_rolls_bal: "tx_rel balances_kept (grant_rolls rules u now key rolls)"
proof (induction rolls)
  case (Cons r rolls)
  then show ?case by (cases r) (auto intro!: balances_rules grant_drops_bal)
qed (auto intro: balances_rules)

lemma ch3_bals:
  "tx_rel balances_kept (settle_ch3_stage_tx rules st nxt star score cost cap rs gain ls m)"
  "tx_rel balances_kept (claim_ch3_chapter_reward_tx rules ch num need rs cap m)"
  "tx_rel balances_kept (settle_ch3_stream_tx rules i n cost cap rolls gain ls m)"
  unfolding settle_ch3_stage_tx_def claim_ch3_chapter_reward_tx_def settle_ch3_stream_tx_def Let_def
  by (intro balances_rules restore_bal spend_bal clear_stage_bal grant_drops_bal grant_rolls_bal
      profile_bal grant_all_bal; simp)+

subsection \<open>Energy stays between zero and its cap\<close>

definition energy_ok :: "db \<Rightarrow> bool" where
  "energy_ok s \<longleftrightarrow> (\<forall>u r. tbl_get (ch3_energy s) u = Some r \<longrightarrow> 0 \<le> eyr_amount r \<and> eyr_amount r \<le> eyr_cap r)"

definition energy_kept :: "db \<Rightarrow> db \<Rightarrow> bool" where
  "energy_kept s t \<longleftrightarrow> (energy_ok s \<longrightarrow> energy_ok t)"

interpretation energy: step_relation energy_kept
  by unfold_locales (auto simp: energy_kept_def)

lemma energy_modify:
  "(\<And>s. ch3_energy (g s) = ch3_energy s) \<Longrightarrow> tx_rel energy_kept (tx_modify g)"
  by (auto simp: tx_rel_def tx_simps energy_kept_def energy_ok_def)

lemma energy_keeps: "tx_keeps ch3_energy m \<Longrightarrow> tx_rel energy_kept m"
  by (auto simp: tx_rel_def energy_kept_def energy_ok_def)

lemma energy_read:
  "tx_rel energy_kept (sql_check b)" "tx_rel energy_kept (domain_require b e)"
  "tx_rel energy_kept (query_row f)" "tx_rel energy_kept (read_i32 x)"
  by (intro energy_keeps keeps_rules)+

lemmas energy_rules = energy.rules energy_read energy_modify

lemma whole_amount_nonneg: "0 \<le> whole_amount a"
  unfolding whole_amount_def
  by (cases "fround a") (auto simp: fmax_def fzero_def as_i64_def ftrunc_def trunc_rat_def clamp_int_def
      split: if_splits)

lemma add_energy_energy: "0 \<le> amount \<Longrightarrow> tx_rel energy_kept (add_energy u amount now)"
  by (auto simp: tx_rel_def add_energy_def tx_simps energy_kept_def energy_ok_def split: option.splits)
     (meson order_trans)

lemma apply_reward_grant_energy: "tx_rel energy_kept (apply_reward_grant rules u g now source)"
proof -
  have "tx_keeps ch3_energy (grant_fan_reward rules u a x)" for a x
    unfolding grant_fan_reward_def credit_def credit_area_fans_def by (intro keeps_rules) simp_all
  moreover have "tx_keeps ch3_energy (credit u c x)" for c x
    unfolding credit_def by (intro keeps_rules) simp_all
  ultimately have c: "tx_rel energy_kept (grant_consume rules u g now)"
    unfolding grant_consume_def
    by (intro energy_rules add_energy_energy whole_amount_nonneg) (auto intro: energy_keeps unsupported_step)
  have "tx_keeps ch3_energy (extend_fever u a now source)" for a
    unfolding extend_fever_def own_item_def level_one_def Let_def by (intro keeps_rules) simp_all
  moreover have "tx_keeps ch3_energy (grant_content u k i now source)" for k i
    unfolding grant_content_def own_item_def level_one_def by (intro keeps_rules) simp_all
  moreover have "tx_keeps ch3_energy (grant_ticket u i now)" for i
    unfolding grant_ticket_def by (intro keeps_rules) simp_all
  moreover have "tx_keeps ch3_energy (add_gifts u i n)" for i n
    unfolding add_gifts_def by (intro keeps_rules) simp_all
  ultimately show ?thesis
    unfolding apply_reward_grant_def
    by (intro energy_rules c) (auto intro: energy_keeps unsupported_step)
qed

lemma restore_Inr:
  "restore_ch3_energy u now cap s = Inr (e, t) \<longleftrightarrow>
     (\<exists>r. tbl_get (ch3_energy s) u = Some r \<and> in_i32 (eyr_amount r) \<and> 0 \<le> cap
        \<and> 0 \<le> regenerated (eyr_amount r) (eyr_calculated_at r) now cap
        \<and> e = \<lparr>ce_amount = regenerated (eyr_amount r) (eyr_calculated_at r) now cap, ce_cap = cap,
              ce_calculated_at = now\<rparr>
        \<and> t = ch3_energy_update (tbl_at u (\<lambda>_. \<lparr>eyr_amount = ce_amount e, eyr_cap = cap,
              eyr_calculated_at = now\<rparr>)) s)"
  by (auto simp: restore_ch3_energy_def Let_def tx_simps)

lemma regenerated_le_cap: "regenerated a c now cap \<le> cap"
  by (simp add: regenerated_def)

lemma regenerated_in_i32: "0 \<le> regenerated a c now cap \<Longrightarrow> in_i32 (regenerated a c now cap)"
  using sat_i32_range [of "a + min (max (sat_i64 (now - c)) 0) i32_max"]
  by (auto simp: regenerated_def in_i32_def)

lemma energy_ok_at:
  assumes "energy_ok s" "0 \<le> a" "a \<le> c"
  shows "energy_ok (ch3_energy_update (tbl_at u (\<lambda>_. \<lparr>eyr_amount = a, eyr_cap = c, eyr_calculated_at = n\<rparr>)) s)"
  using assms by (auto simp: energy_ok_def split: if_splits)

lemma regenerated_eq:
  assumes "0 \<le> a" "c \<le> now" "cap \<le> i32_max"
  shows "regenerated a c now cap = min (a + (now - c)) cap"
proof -
  have "min (max (sat_i64 (now - c)) 0) i32_max = min (now - c) i32_max"
    using assms by (simp add: sat_i64_def clamp_int_def)
  moreover have "min (sat_i32 (a + min d i32_max)) cap = min (a + d) cap" if "0 \<le> d" for d
    using assms that by (simp add: sat_i32_def clamp_int_def min_def)
  ultimately show ?thesis using assms by (simp add: regenerated_def)
qed

lemma restore_energy: "tx_rel energy_kept (restore_ch3_energy u now cap)"
  by (auto simp: tx_rel_def restore_Inr energy_kept_def intro!: energy_ok_at regenerated_le_cap)

text \<open>Taking a cost that is not negative from energy just restored.\<close>

lemma spend_Inr:
  assumes "restore_ch3_energy u now cap s = Inr (e, s1)" "0 \<le> cost"
  shows "spend_energy u e cost now s1 = Inr (e', t) \<longleftrightarrow>
     cost \<le> ce_amount e \<and> e' = e\<lparr>ce_amount := ce_amount e - cost\<rparr>
     \<and> t = ch3_energy_update (tbl_at u (\<lambda>_. \<lparr>eyr_amount = ce_amount e - cost, eyr_cap = cap,
              eyr_calculated_at = now\<rparr>)) s"
proof -
  have "in_i32 (ce_amount e)" using assms regenerated_in_i32 by (auto simp: restore_Inr)
  with assms(2) have "wrap_i32 (ce_amount e - cost) = ce_amount e - cost" if "cost \<le> ce_amount e"
    using that by (intro wrap_i32_id) (simp add: in_i32_def)
  moreover have "0 \<le> cap" "ce_cap e = cap" "ch3_energy s1 = tbl_at u (\<lambda>_. \<lparr>eyr_amount = ce_amount e,
      eyr_cap = cap, eyr_calculated_at = now\<rparr>) (ch3_energy s)"
    "s1 = ch3_energy_update (\<lambda>_. ch3_energy s1) s"
    using assms by (auto simp: restore_Inr)
  ultimately show ?thesis
    using assms(1)
    by (auto simp: spend_energy_def Let_def tx_simps restore_Inr tbl_at_const comp_def)
qed

lemma spend_energy_kept:
  assumes "0 \<le> cost" "\<And>e. tx_rel energy_kept (f e)"
  shows "tx_rel energy_kept
    (tx_bind (restore_ch3_energy u now cap) (\<lambda>r. tx_bind (spend_energy u r cost now) f))"
proof (rule tx_relI)
  fix s x t assume "tx_bind (restore_ch3_energy u now cap) (\<lambda>r. tx_bind (spend_energy u r cost now) f) s
    = Inr (x, t)"
  then obtain e s1 e' s2 where r: "restore_ch3_energy u now cap s = Inr (e, s1)"
    and sp: "spend_energy u e cost now s1 = Inr (e', s2)" and f: "f e' s2 = Inr (x, t)"
    by (auto simp: tx_simps)
  from r have "ce_amount e \<le> cap" by (auto simp: restore_Inr regenerated_le_cap)
  with assms(1) have "ce_amount e - cost \<le> cap" by simp
  moreover from sp spend_Inr [OF r assms(1)] have "0 \<le> ce_amount e - cost"
    "s2 = ch3_energy_update (tbl_at u (\<lambda>_. \<lparr>eyr_amount = ce_amount e - cost, eyr_cap = cap,
        eyr_calculated_at = now\<rparr>)) s" by auto
  ultimately have "energy_kept s s2" by (simp add: energy_kept_def energy_ok_at)
  with tx_relD [OF assms(2) f] show "energy_kept s t" using energy.trans by blast
qed

lemma grant_drops_energy: "tx_rel energy_kept (grant_drops rules u now source key roll index gs)"
  by (induction gs arbitrary: index) (auto intro!: energy_rules apply_reward_grant_energy)

lemma grant_rolls_energy: "tx_rel energy_kept (grant_rolls rules u now key rolls)"
proof (induction rolls)
  case (Cons r rolls)
  then show ?case by (cases r) (auto intro!: energy_rules grant_drops_energy)
qed (auto intro: energy_rules)

lemma grant_all_energy: "tx_rel energy_kept (grant_all rules u now source gs)"
  by (induction gs) (auto intro!: energy_rules apply_reward_grant_energy)

lemma profile_energy: "tx_rel energy_kept (update_ch3_profile u gain levels)"
  unfolding update_ch3_profile_def set_profile_def Let_def by (intro energy_rules) simp

lemma clear_stage_energy: "tx_rel energy_kept (clear_stage u i nxt star score)"
  unfolding clear_stage_def unlock_next_def by (intro energy_rules) simp_all

section \<open>Properties\<close>

text \<open>C11: energy comes back by the clock alone: reading it at a time in between changes nothing about what
  a later reading finds, so that it regenerates one unit a second up to the cap however often the
  client asks.\<close>

theorem regeneration_is_independent_of_reads:
  assumes "restore_ch3_energy u now1 cap s = Inr (e1, s1)"
    and "tbl_get (ch3_energy s) u = Some r" "0 \<le> eyr_amount r"
    and "eyr_calculated_at r \<le> now1" "now1 \<le> now2" "cap \<le> i32_max"
  shows "restore_ch3_energy u now2 cap s1 = restore_ch3_energy u now2 cap s"
proof -
  let ?a = "eyr_amount r" let ?c = "eyr_calculated_at r"
  from assms(1,2) have e1: "in_i32 ?a" "0 \<le> cap" "0 \<le> regenerated ?a ?c now1 cap"
    and s1: "s1 = ch3_energy_update (tbl_at u (\<lambda>_. \<lparr>eyr_amount = regenerated ?a ?c now1 cap, eyr_cap = cap,
      eyr_calculated_at = now1\<rparr>)) s"
    by (auto simp: restore_Inr)
  have "regenerated (regenerated ?a ?c now1 cap) now1 now2 cap = regenerated ?a ?c now2 cap"
    using assms(3-6) e1(2,3) by (simp add: regenerated_eq)
  with e1 regenerated_in_i32 [OF e1(3)] show ?thesis
    by (simp add: restore_ch3_energy_def Let_def store_run assms(2) s1 tbl_at_const comp_def)
qed

definition demo_ch3_db :: db where
  "demo_ch3_db = demo_mail_db\<lparr>ch3_energy := [(1, \<lparr>eyr_amount = 100, eyr_cap = 200, eyr_calculated_at = 0\<rparr>)],
     ch3_stages := [((1, 1001), \<lparr>sgr_chapter = 1, sgr_stage_index = 1, sgr_completed = False,
        sgr_best_star = 0, sgr_best_score = 0, sgr_unlocked = True\<rparr>)],
     affection := [((1, 100000), \<lparr>afr_experience = 0, afr_level = 1\<rparr>)]\<rparr>"

theorem regeneration_is_independent_of_reads_witness:
  "\<exists>e s1. restore_ch3_energy 1 30 200 demo_ch3_db = Inr (e, s1) \<and> ce_amount e = 130
     \<and> restore_ch3_energy 1 50 200 s1 = restore_ch3_energy 1 50 200 demo_ch3_db"
proof -
  have g: "tbl_get (ch3_energy demo_ch3_db) 1 = Some \<lparr>eyr_amount = 100, eyr_cap = 200, eyr_calculated_at = 0\<rparr>"
    by (simp add: demo_ch3_db_def tbl_get_Cons)
  have "\<exists>e s1. restore_ch3_energy 1 30 200 demo_ch3_db = Inr (e, s1) \<and> ce_amount e = 130"
    by (simp add: restore_ch3_energy_def Let_def store_run g in_i32_def regenerated_eq)
  then obtain e s1 where r: "restore_ch3_energy 1 30 200 demo_ch3_db = Inr (e, s1)" "ce_amount e = 130"
    by blast
  from regeneration_is_independent_of_reads [OF r(1) g, of 50] r show ?thesis by simp
qed

text \<open>C12: with costs that are not negative, every chapter 3 operation keeps the energy of every player
  between zero and its cap, whatever rewards it grants on the way.\<close>

theorem ch3_energy_bounded:
  assumes "energy_ok s" "0 \<le> cost"
  shows "(settle_ch3_stage_tx rules st nxt star score cost cap rs gain ls m s = Inr (x, t) \<longrightarrow> energy_ok t)
    \<and> (0 \<le> count \<longrightarrow> settle_ch3_stream_tx rules i count cost cap rolls gain ls m s = Inr (y, t) \<longrightarrow> energy_ok t)
    \<and> (claim_ch3_chapter_reward_tx rules ch num need rs cap m s = Inr (z, t) \<longrightarrow> energy_ok t)
    \<and> energy_ok (snd (ch3_snapshot_at u now cap s))"
proof (intro conjI impI)
  have "tx_rel energy_kept (settle_ch3_stage_tx rules st nxt star score cost cap rs gain ls m)"
    unfolding settle_ch3_stage_tx_def Let_def
    by (intro energy_rules spend_energy_kept assms(2) clear_stage_energy grant_drops_energy profile_energy)
  then show "settle_ch3_stage_tx rules st nxt star score cost cap rs gain ls m s = Inr (x, t) \<Longrightarrow> energy_ok t"
    using assms(1) by (auto simp: energy_kept_def dest: tx_relD)
  show "energy_ok t" if "0 \<le> count" "settle_ch3_stream_tx rules i count cost cap rolls gain ls m s = Inr (y, t)"
  proof -
    have "0 \<le> sat_i32 (cost * count)" 
      using mult_nonneg_nonneg [OF assms(2) that(1)] by (simp add: sat_i32_def clamp_int_def)
    then have "tx_rel energy_kept (settle_ch3_stream_tx rules i count cost cap rolls gain ls m)"
      unfolding settle_ch3_stream_tx_def Let_def
      by (intro energy_rules spend_energy_kept grant_rolls_energy profile_energy)
    with assms(1) that(2) show ?thesis by (auto simp: energy_kept_def dest: tx_relD)
  qed
  have "tx_rel energy_kept (claim_ch3_chapter_reward_tx rules ch num need rs cap m)"
    unfolding claim_ch3_chapter_reward_tx_def Let_def
    by (intro energy_rules restore_energy grant_all_energy) simp
  then show "claim_ch3_chapter_reward_tx rules ch num need rs cap m s = Inr (z, t) \<Longrightarrow> energy_ok t"
    using assms(1) by (auto simp: energy_kept_def dest: tx_relD)
  show "energy_ok (snd (ch3_snapshot_at u now cap s))"
    using assms(1) restore_energy [of u now cap]
    by (auto simp: ch3_snapshot_at_def tx_commit_def ch3_snapshot_raw_def tx_run query_row_def read_i32_def
        energy_kept_def tx_rel_def split: sum.splits option.splits)
qed

definition demo_stage :: ch3_stage_definition where
  "demo_stage = \<lparr>csd_stage_id = 1001, csd_chapter = 1, csd_stage_index = 1, csd_story = False\<rparr>"

lemma demo_settle:
  "\<exists>x t. settle_ch3_stage_tx empty_rules demo_stage None 3 900 20 200 [] 5 [(1, 0, 7)] demo_mutation demo_ch3_db
      = Inr (x, t) \<and> ce_amount (cst_energy (fst x)) = 90"
  by (simp add: settle_ch3_stage_tx_def Let_def store_run demo_stage_def demo_ch3_db_def demo_mutation_def
      demo_mail_db_def demo_db_def stage_unlocked_def restore_ch3_energy_def spend_energy_def clear_stage_def
      unlock_next_def update_ch3_profile_def set_profile_def tbl_get_Cons in_i32_def regenerated_eq
      wrap_i32_def sat_i64_def tbl_set_def stage_snapshot_def cleared_row_def)

lemma demo_energy_ok: "energy_ok demo_ch3_db"
  by (simp add: energy_ok_def demo_ch3_db_def tbl_get_Cons tbl_get_def)

theorem ch3_energy_bounded_witness:
  "\<exists>x t. settle_ch3_stage_tx empty_rules demo_stage None 3 900 20 200 [] 5 [(1, 0, 7)] demo_mutation demo_ch3_db
      = Inr (x, t) \<and> energy_ok t"
proof -
  obtain x t where r: "settle_ch3_stage_tx empty_rules demo_stage None 3 900 20 200 [] 5 [(1, 0, 7)]
      demo_mutation demo_ch3_db = Inr (x, t)" using demo_settle by blast
  from ch3_energy_bounded [OF demo_energy_ok, of 20 empty_rules demo_stage None 3 900 200 "[]" 5
      "[(1, 0, 7)]" demo_mutation x t] r show ?thesis by auto
qed

text \<open>What settling does to the stages.\<close>

lemma apply_reward_keeps_stages: "tx_keeps ch3_stages (apply_reward_grant rules u g now source)"
  by (rule apply_reward_grant_keeps) (simp add: reward_blind_def)

lemma grant_drops_stages: "tx_keeps ch3_stages (grant_drops rules u now source key roll index gs)"
  by (induction gs arbitrary: index)
     (auto intro!: keeps_rules apply_reward_keeps_stages)

lemma profile_keeps:
  "(\<And>g s. f (affection_update g s) = f s) \<Longrightarrow> tx_keeps f (update_ch3_profile u gain levels)"
  unfolding update_ch3_profile_def set_profile_def Let_def by (intro keeps_rules)

lemma clear_stage_Inr:
  assumes "clear_stage u i nxt star score s = Inr (x, t)" "tbl_get (ch3_stages s) (u, i) = Some r"
  shows "tbl_get (ch3_stages t) (u, i) = Some (cleared_row star score r)
    \<and> max (sgr_best_star r) star \<le> 3
    \<and> (case nxt of None \<Rightarrow> True | Some d \<Rightarrow> tbl_has (ch3_stages t) (u, csd_stage_id d))
    \<and> currencies t = currencies s"
  using assms by (cases nxt) (auto simp: clear_stage_def unlock_next_def tx_simps tbl_has_def split: option.splits)

text \<open>settling a stage needs the stage unlocked and the cost covered by the regenerated energy, and takes
  exactly the cost. A clear (a story stage, or at least one star) records the best stars and score so
  far, never lower, and unlocks the next stage; an attempt without a clear costs the same energy but
  changes no stage, grants no reward and moves no balance. The stored answer for a retry carries no
  reward.\<close>

lemma settle_stage_effect:
  assumes "settle_ch3_stage_tx rules st nxt star score cost cap rs gain ls m s = Inr ((out, replay), t)"
    and "tbl_get (ch3_energy s) (mu_usn m) = Some e" "0 \<le> cost"
  shows "\<exists>r. tbl_get (ch3_stages s) (mu_usn m, csd_stage_id st) = Some r \<and> sgr_unlocked r
    \<and> cost \<le> regenerated (eyr_amount e) (eyr_calculated_at e) (mu_committed_at m) cap
    \<and> ce_amount (cst_energy out)
       = regenerated (eyr_amount e) (eyr_calculated_at e) (mu_committed_at m) cap - cost
    \<and> replay = Some (out\<lparr>cst_rewards := []\<rparr>)
    \<and> (if csd_story st \<or> 0 < star
       then tbl_get (ch3_stages t) (mu_usn m, csd_stage_id st) = Some (cleared_row star score r)
         \<and> (case nxt of None \<Rightarrow> True | Some d \<Rightarrow> tbl_has (ch3_stages t) (mu_usn m, csd_stage_id d))
       else ch3_stages t = ch3_stages s \<and> cst_rewards out = [] \<and> currencies t = currencies s)"
proof -
  let ?u = "mu_usn m" let ?i = "csd_stage_id st" let ?now = "mu_committed_at m"
  let ?clear = "csd_story st \<or> 0 < star"
  from assms(1) obtain e1 s1 energy s2 s3 applied s4 profile where
    un: "stage_unlocked s ?u ?i"
    and re: "restore_ch3_energy ?u ?now cap s = Inr (e1, s1)"
    and sp: "spend_energy ?u e1 cost ?now s1 = Inr (energy, s2)"
    and cl: "(if ?clear then clear_stage ?u ?i nxt star score else tx_return ()) s2 = Inr ((), s3)"
    and dr: "(if ?clear then grant_drops rules ?u ?now ''ch3-stage'' (mu_idempotency_key m) 1 0 rs
      else tx_return []) s3 = Inr (applied, s4)"
    and pr: "update_ch3_profile ?u (if ?clear \<and> \<not> csd_story st then gain else 0) ls s4 = Inr (profile, t)"
    and out: "cst_energy out = energy" "cst_rewards out = applied" "replay = Some (out\<lparr>cst_rewards := []\<rparr>)"
    by (auto simp: settle_ch3_stage_tx_def Let_def tx_simps)
  from un obtain r where r: "tbl_get (ch3_stages s) (?u, ?i) = Some r" "sgr_unlocked r"
    by (auto simp: stage_unlocked_def split: option.splits)
  from re assms(2) have e1: "ce_amount e1 = regenerated (eyr_amount e) (eyr_calculated_at e) ?now cap"
    by (auto simp: restore_Inr)
  from sp spend_Inr [OF re assms(3)] have sp': "cost \<le> ce_amount e1" "ce_amount energy = ce_amount e1 - cost"
    "ch3_stages s2 = ch3_stages s" "currencies s2 = currencies s" by auto
  have t4: "ch3_stages t = ch3_stages s4" "currencies t = currencies s4"
    using tx_relD [OF profile_keeps [of ch3_stages] pr] tx_relD [OF profile_keeps [of currencies] pr] by simp_all
  show ?thesis
  proof (cases ?clear)
    case True
    with cl dr have c: "clear_stage ?u ?i nxt star score s2 = Inr ((), s3)" and
      "ch3_stages s4 = ch3_stages s3" by (simp_all add: tx_relD [OF grant_drops_stages])
    with clear_stage_Inr [OF c, of r] True t4 r e1 sp' out show ?thesis by (simp split: option.splits)
  next
    case False
    with cl dr t4 r e1 sp' out show ?thesis by (simp add: tx_simps)
  qed
qed

lemma settle_stage_effect_witness:
  "\<exists>out replay t. settle_ch3_stage_tx empty_rules demo_stage None 3 900 20 200 [] 5 [(1, 0, 7)] demo_mutation
      demo_ch3_db = Inr ((out, replay), t) \<and> ce_amount (cst_energy out) = 90
    \<and> (\<exists>r. tbl_get (ch3_stages t) (1, 1001) = Some (cleared_row 3 900 r))"
proof -
  obtain out replay t where r: "settle_ch3_stage_tx empty_rules demo_stage None 3 900 20 200 [] 5 [(1, 0, 7)]
      demo_mutation demo_ch3_db = Inr ((out, replay), t)" "ce_amount (cst_energy out) = 90"
    using demo_settle by (metis fst_conv surj_pair)
  have "tbl_get (ch3_energy demo_ch3_db) (mu_usn demo_mutation)
      = Some \<lparr>eyr_amount = 100, eyr_cap = 200, eyr_calculated_at = 0\<rparr>"
    by (simp add: demo_ch3_db_def demo_mutation_def tbl_get_Cons)
  from settle_stage_effect [OF r(1) this] r show ?thesis
    by (auto simp: demo_stage_def demo_mutation_def)
qed

text \<open>a chapter reward needs its stars and is paid once: a claim records itself, and every later claim of
  the same reward, in whatever request and with whatever rewards, fails without an effect.\<close>

lemma chapter_reward_claimed_once:
  assumes "claim_ch3_chapter_reward_tx rules ch num need rs cap m s = Inr (x, t)"
    and "mu_usn m' = mu_usn m" "need' \<le> chapter_stars t (mu_usn m) ch"
  shows "need \<le> chapter_stars s (mu_usn m) ch
    \<and> \<not> tbl_has (ch3_chapter_claims s) (mu_usn m, ch, num)
    \<and> claim_ch3_chapter_reward_tx rules' ch num need' rs' cap' m' t = Inl (Domain AlreadyClaimed)"
proof -
  let ?s = "ch3_chapter_claims_update (tbl_ignore (mu_usn m, ch, num) (mu_committed_at m)) s"
  from assms(1) obtain applied s1 e where
    due: "need \<le> chapter_stars s (mu_usn m) ch" "\<not> tbl_has (ch3_chapter_claims s) (mu_usn m, ch, num)"
    and g: "grant_all rules (mu_usn m) (mu_committed_at m) ''ch3-chapter'' rs ?s = Inr (applied, s1)"
    and r: "restore_ch3_energy (mu_usn m) (mu_committed_at m) cap s1 = Inr (e, t)"
    by (auto simp: claim_ch3_chapter_reward_tx_def Let_def tx_simps)
  have "tx_keeps ch3_chapter_claims (grant_all rules (mu_usn m) (mu_committed_at m) ''ch3-chapter'' rs)"
    by (rule grant_all_keeps) (simp add: reward_blind_def)
  from tx_relD [OF this g] r have "tbl_has (ch3_chapter_claims t) (mu_usn m, ch, num)"
    by (auto simp: restore_Inr)
  with due assms(2,3) show ?thesis
    by (simp add: claim_ch3_chapter_reward_tx_def Let_def store_run)
qed

theorem chapter_reward_claimed_once_witness:
  "\<exists>x t. claim_ch3_chapter_reward_tx empty_rules 1 2 0 [] 200 demo_mutation demo_ch3_db = Inr (x, t)
     \<and> claim_ch3_chapter_reward_tx empty_rules 1 2 0 [] 200 demo_mutation t = Inl (Domain AlreadyClaimed)"
proof -
  have "\<exists>x t. claim_ch3_chapter_reward_tx empty_rules 1 2 0 [] 200 demo_mutation demo_ch3_db = Inr (x, t)
      \<and> chapter_stars t (mu_usn demo_mutation) 1 = 0"
    by (simp add: claim_ch3_chapter_reward_tx_def Let_def store_run demo_ch3_db_def demo_mutation_def
        demo_mail_db_def demo_db_def chapter_stars_def tbl_select_def tbl_has_Nil restore_ch3_energy_def
        tbl_get_Cons in_i32_def regenerated_eq)
  then obtain x t where r: "claim_ch3_chapter_reward_tx empty_rules 1 2 0 [] 200 demo_mutation demo_ch3_db
      = Inr (x, t)" "chapter_stars t (mu_usn demo_mutation) 1 = 0" by blast
  from chapter_reward_claimed_once [OF r(1) refl, of 0 empty_rules "[]" 200] r show ?thesis by auto
qed

text \<open>energy given as a reward (Consume 11) throws away the energy that had come back by then: the grant
  adds to the stored amount and sets the clock to now without regenerating first, so the result is the same
  however long ago the energy was last calculated, and a reading at the same second finds no more.\<close>

lemma energy_reward_discards_regeneration:
  assumes "rg_reward_type g = 1" "rg_reward_id g = 11"
    and "apply_reward_grant rules u g now source s = Inr (b, t)"
    and "tbl_get (ch3_energy s) u = Some r" "restore_ch3_energy u now cap t = Inr (e, t')"
    and "0 \<le> eyr_amount r" "0 \<le> eyr_cap r" "cap \<le> i32_max"
  shows "ce_amount e = min (min (eyr_cap r) (eyr_amount r + whole_amount (rg_amount g))) cap"
proof -
  have "tbl_get (ch3_energy t) u = Some (r\<lparr>eyr_amount := min (eyr_cap r) (eyr_amount r + whole_amount (rg_amount g)),
      eyr_calculated_at := now\<rparr>)"
    using assms(1-4)
    by (auto simp: apply_reward_grant_def grant_consume_def add_energy_def tx_simps)
  with assms(5-8) whole_amount_nonneg [of "rg_amount g"] show ?thesis
    by (auto simp: restore_Inr regenerated_eq)
qed

lemma energy_reward_discards_regeneration_witness:
  "\<exists>b t e t'. apply_reward_grant empty_rules 1 \<lparr>rg_reward_type = 1, rg_reward_id = 11, rg_amount = Fin 10\<rparr> 50
      ''pass'' demo_ch3_db = Inr (b, t) \<and> restore_ch3_energy 1 50 200 t = Inr (e, t') \<and> ce_amount e = 110
    \<and> (\<exists>e0 s0. restore_ch3_energy 1 50 200 demo_ch3_db = Inr (e0, s0) \<and> ce_amount e0 = 150)"
proof -
  let ?g = "\<lparr>rg_reward_type = 1, rg_reward_id = 11, rg_amount = Fin 10\<rparr>"
  let ?r = "\<lparr>eyr_amount = 100, eyr_cap = 200, eyr_calculated_at = 0\<rparr>"
  have "\<lfloor>21 / 2 :: rat\<rfloor> = 10" by (simp add: floor_eq_iff)
  then have w: "whole_amount (Fin 10) = 10"
    by (simp add: whole_amount_def fround_def round_away_def fmax_def fzero_def as_i64_def
        trunc_rat_def)
  have g: "tbl_get (ch3_energy demo_ch3_db) 1 = Some ?r"
    by (simp add: demo_ch3_db_def tbl_get_Cons)
  have "\<exists>b t. apply_reward_grant empty_rules 1 ?g 50 ''pass'' demo_ch3_db = Inr (b, t)
      \<and> (\<exists>e t'. restore_ch3_energy 1 50 200 t = Inr (e, t'))"
    by (simp add: apply_reward_grant_def grant_consume_def add_energy_def store_run valid_amount_def fzero_def
        w g restore_ch3_energy_def Let_def in_i32_def regenerated_eq) blast
  then obtain b t e t' where r: "apply_reward_grant empty_rules 1 ?g 50 ''pass'' demo_ch3_db = Inr (b, t)"
    "restore_ch3_energy 1 50 200 t = Inr (e, t')" by blast
  have "\<exists>e0 s0. restore_ch3_energy 1 50 200 demo_ch3_db = Inr (e0, s0) \<and> ce_amount e0 = 150"
    by (simp add: restore_ch3_energy_def Let_def store_run g in_i32_def regenerated_eq)
  with energy_reward_discards_regeneration [OF _ _ r(1) g r(2)] r w show ?thesis by auto
qed

text \<open>The level found is the greatest reached, whatever the order of the list.\<close>

definition reached_levels :: "int \<Rightarrow> (int \<times> int \<times> int) list \<Rightarrow> int set" where
  "reached_levels experience levels = fst ` set (filter (\<lambda>(_, th, _). th \<le> experience) levels)"

lemma finite_reached [simp]: "finite (reached_levels experience levels)"
  by (simp add: reached_levels_def)

lemma Max_insert_below: "finite S \<Longrightarrow> a \<le> b \<Longrightarrow> Max (insert a (insert b S)) = Max (insert b S)" for a :: int
  by (subst Max_insert) (auto simp: max_def intro: order_trans)

lemma profile_level_max:
  "fst (profile_level experience levels found) = Max (insert (fst found) (reached_levels experience levels))"
proof (induction experience levels found rule: profile_level.induct)
  case (2 experience candidate threshold candy levels level add_candy)
  have split: "reached_levels experience ((candidate, threshold, candy) # levels)
      = (if threshold \<le> experience then insert candidate (reached_levels experience levels)
         else reached_levels experience levels)"
    by (simp add: reached_levels_def)
  show ?case
    using 2 Max_insert_below [of "reached_levels experience levels" level candidate]
      Max_insert_below [of "reached_levels experience levels" candidate level]
    by (auto simp: split insert_commute)
qed (simp add: reached_levels_def)

text \<open>a profile never goes back: the experience grows by exactly the gain (never down, cut at the largest
  64-bit value), and the level becomes the greatest of the old one and every level whose threshold the
  experience has reached, in whatever order the master data lists them.\<close>

lemma profile_level_up:
  assumes "update_follower_profile u i gain levels s = Inr (p, t)"
    and "case tbl_get (affection s) (u, i) of None \<Rightarrow> r = \<lparr>afr_experience = 0, afr_level = 1\<rparr> | Some r' \<Rightarrow> r = r'"
  shows "fp_experience p = sat_i64 (afr_experience r + max gain 0)
    \<and> fp_level p = Max (insert (max (afr_level r) 1) (reached_levels (fp_experience p) levels))
    \<and> tbl_get (affection t) (u, i) = Some \<lparr>afr_experience = fp_experience p, afr_level = fp_level p\<rparr>
    \<and> (in_i64 (afr_experience r) \<longrightarrow> afr_experience r \<le> fp_experience p) \<and> afr_level r \<le> fp_level p"
proof -
  let ?e = "sat_i64 (afr_experience r + max gain 0)"
  from assms have p: "p = \<lparr>fp_profile_id = i, fp_level = fst (profile_level ?e levels (max (afr_level r) 1, 0)),
      fp_experience = ?e, fp_add_candy = snd (profile_level ?e levels (max (afr_level r) 1, 0))\<rparr>"
    and t: "tbl_get (affection t) (u, i) = Some \<lparr>afr_experience = ?e,
      afr_level = fst (profile_level ?e levels (max (afr_level r) 1, 0))\<rparr>"
    by (auto simp: update_follower_profile_def set_profile_def Let_def tx_simps split: option.splits)
  have "max (afr_level r) 1 \<le> fp_level p" by (simp only: p profile_level_max fst_conv
      follower_profile_snapshot.simps) (rule Max_ge, simp_all)
  moreover have "in_i64 (afr_experience r) \<longrightarrow> afr_experience r \<le> ?e"
    by (simp add: sat_i64_def clamp_int_def in_i64_def) linarith
  ultimately show ?thesis using p t by (simp add: profile_level_max)
qed

theorem profile_level_up_witness:
  "\<exists>p t. update_follower_profile 1 7 30 [(2, 10, 1), (3, 25, 2), (4, 60, 3)] demo_ch3_db = Inr (p, t)
     \<and> fp_experience p = 30 \<and> 1 \<le> fp_level p"
proof -
  obtain p t where r: "update_follower_profile 1 7 30 [(2, 10, 1), (3, 25, 2), (4, 60, 3)] demo_ch3_db = Inr (p, t)"
    by (simp add: update_follower_profile_def set_profile_def Let_def store_run demo_ch3_db_def tbl_get_Cons
        in_i32_def)
  from profile_level_up [OF r, of "\<lparr>afr_experience = 0, afr_level = 1\<rparr>"] r show ?thesis
    by (auto simp: demo_ch3_db_def tbl_get_Cons sat_i64_def)
qed

end
