(* ===== verification/Quests.thy ===== *)
theory Quests
  imports Ch3
begin

text \<open>
  Followers in \<open>crates/persistence-sqlite/src/lib.rs\<close>: gifts and affection, the profile rewards, the
  encore of a song, and the chain of follower quests.
\<close>

section \<open>Gifts\<close>

definition gift_count :: "db \<Rightarrow> int \<Rightarrow> int \<Rightarrow> int" where
  "gift_count s u gift = (case tbl_get (gifts s) (u, gift) of None \<Rightarrow> 0 | Some q \<Rightarrow> q)"

definition give_follower_gift_tx ::
  "int \<Rightarrow> int \<Rightarrow> int \<Rightarrow> int \<Rightarrow> (int \<times> int \<times> int) list \<Rightarrow> rpc_mutation \<Rightarrow> follower_gift_outcome store" where
  "give_follower_gift_tx profile_id gift_id quantity experience_each levels m =
     (let u = mu_usn m
      in tx_bind (tx_gets (\<lambda>s. gift_count s u gift_id)) (\<lambda>owned.
         tx_then (domain_require (quantity \<le> owned) InsufficientBalance)
        (tx_then (tx_modify (gifts_update (tbl_at (u, gift_id) (\<lambda>_. owned - quantity))))
        (tx_bind (update_follower_profile u profile_id (sat_i64 (experience_each * quantity)) levels) (\<lambda>p.
           tx_return \<lparr>fgo_gift_id = gift_id, fgo_remaining = owned - quantity, fgo_profile = p\<rparr>)))))"

definition give_follower_gift ::
  "(follower_gift_outcome \<Rightarrow> string + string) \<Rightarrow> (string \<Rightarrow> string + follower_gift_outcome)
   \<Rightarrow> rpc_mutation \<Rightarrow> int \<Rightarrow> int \<Rightarrow> int \<Rightarrow> int \<Rightarrow> (int \<times> int \<times> int) list \<Rightarrow> follower_gift_outcome store" where
  "give_follower_gift enc dec m profile_id gift_id quantity experience_each levels =
     tx_then (domain_require (0 < quantity) InvalidAmount)
       (commit_rpc_mutation enc dec m
          (give_follower_gift_tx profile_id gift_id quantity experience_each levels m))"

section \<open>Selected rewards\<close>

definition selected_reward_rows :: "db \<Rightarrow> int \<Rightarrow> select_reward_snapshot list" where
  "selected_reward_rows s u =
     map (\<lambda>((_, g), r). \<lparr>sr_group_id = g, sr_reward_group_id = srr_reward_group_id r,
                          sr_alternate_reward_group_id = srr_alternate_reward_group_id r\<rparr>)
       (tbl_select (\<lambda>k _. fst k = u) (selected_rewards s))"

definition select_reward_tx ::
  "int \<Rightarrow> int \<Rightarrow> int \<Rightarrow> int \<Rightarrow> rpc_mutation
   \<Rightarrow> (select_reward_snapshot list \<times> select_reward_snapshot list option) store" where
  "select_reward_tx selection_id group_id reward_group_id alternate m =
     (let row = \<lparr>srr_selection_id = selection_id, srr_reward_group_id = reward_group_id,
                 srr_alternate_reward_group_id = alternate, srr_selected_at = mu_committed_at m\<rparr>
      in tx_then (tx_modify (selected_rewards_update (tbl_upsert (mu_usn m, group_id) row (\<lambda>_. row))))
        (tx_bind (tx_gets (\<lambda>s. selected_reward_rows s (mu_usn m))) (\<lambda>rows. tx_return (rows, Some rows))))"

definition select_reward ::
  "(select_reward_snapshot list \<Rightarrow> string + string) \<Rightarrow> (string \<Rightarrow> string + select_reward_snapshot list)
   \<Rightarrow> rpc_mutation \<Rightarrow> int \<Rightarrow> int \<Rightarrow> int \<Rightarrow> int \<Rightarrow> select_reward_snapshot list store" where
  "select_reward enc dec m selection_id group_id reward_group_id alternate =
     commit_rpc_mutation_with_replay enc dec m
       (select_reward_tx selection_id group_id reward_group_id alternate m)"

section \<open>Encores\<close>

text \<open>A request is a song, its candies, the profile experience and the time of the next encore.\<close>

type_synonym encore_request = "int \<times> int \<times> int \<times> int"

definition encore_rejected :: "db \<Rightarrow> int \<Rightarrow> int \<Rightarrow> int \<Rightarrow> bool" where
  "encore_rejected s u now music \<longleftrightarrow>
     \<not> tbl_has (owned_content s) (u, ''music'', music)
     \<or> (case tbl_get (music_state s) (u, music) of None \<Rightarrow> False
        | Some r \<Rightarrow> msr_encore_appears r = 0 \<and> now < msr_encore_ready_at r)"

definition encore_follower :: "db \<Rightarrow> int \<Rightarrow> int \<Rightarrow> int option" where
  "encore_follower s u music =
     (case tbl_get (music_state s) (u, music) of None \<Rightarrow> None | Some r \<Rightarrow> msr_encore_follower_id r)"

definition close_encore :: "int \<Rightarrow> int \<Rightarrow> int option \<Rightarrow> int \<Rightarrow> unit store" where
  "close_encore u music follower ready_at =
     tx_modify (music_state_update (tbl_upsert (u, music)
       \<lparr>msr_encore_appears = 0, msr_encore_follower_id = follower, msr_encore_ready_at = ready_at,
        msr_ch3_active_until = 0\<rparr>
       (\<lambda>r. r\<lparr>msr_encore_appears := 0, msr_encore_ready_at := ready_at\<rparr>)))"

definition encore_levels :: "(int \<times> int \<times> int \<times> int) list \<Rightarrow> int \<Rightarrow> (int \<times> int \<times> int) list" where
  "encore_levels thresholds profile_id =
     map (\<lambda>(_, level, requirement, candy). (level, requirement, candy))
       (filter (\<lambda>(candidate, _). candidate = profile_id) thresholds)"

definition encore_profile ::
  "int \<Rightarrow> int option \<Rightarrow> int \<Rightarrow> (int \<times> int \<times> int \<times> int) list
   \<Rightarrow> (int, follower_profile_snapshot) table \<Rightarrow> (int, follower_profile_snapshot) table store" where
  "encore_profile u follower profile_exp thresholds profiles =
     (case follower of
        None \<Rightarrow> tx_return profiles
      | Some i \<Rightarrow> if 0 < i
                   then tx_bind (update_follower_profile u i profile_exp (encore_levels thresholds i))
                          (\<lambda>p. tx_return (tbl_put i p profiles))
                   else tx_return profiles)"

text \<open>What the loop collects: the granted songs, the rejected ones, the profiles and the candies.\<close>

record encore_totals =
  et_granted :: "(int \<times> int) list"
  et_rejected :: "int list"
  et_profiles :: "(int, follower_profile_snapshot) table"
  et_candy :: int

fun encore_loop ::
  "int \<Rightarrow> int \<Rightarrow> (int \<times> int \<times> int \<times> int) list \<Rightarrow> encore_request list \<Rightarrow> encore_totals
   \<Rightarrow> encore_totals store" where
  "encore_loop u now thresholds [] acc = tx_return acc"
| "encore_loop u now thresholds ((music, gift_amount, profile_exp, ready_at) # rewards) acc =
     tx_bind (tx_gets (\<lambda>s. (encore_rejected s u now music, encore_follower s u music))) (\<lambda>(rejected, follower).
       if rejected
       then encore_loop u now thresholds rewards
              (acc\<lparr>et_rejected := et_rejected acc @ [to_i32_saturated music]\<rparr>)
       else tx_then (close_encore u music follower ready_at)
           (tx_bind (encore_profile u follower profile_exp thresholds (et_profiles acc)) (\<lambda>profiles.
             encore_loop u now thresholds rewards
               (acc\<lparr>et_candy := sat_i64 (et_candy acc + max gift_amount 0),
                    et_granted := et_granted acc @ [(to_i32_saturated music, max gift_amount 0)],
                    et_profiles := profiles\<rparr>))))"

definition claim_music_encore_rewards_tx ::
  "encore_request list \<Rightarrow> (int \<times> int \<times> int \<times> int) list \<Rightarrow> rpc_mutation
   \<Rightarrow> (music_encore_reward_outcome \<times> music_encore_reward_outcome option) store" where
  "claim_music_encore_rewards_tx rewards thresholds m =
     tx_bind (encore_loop (mu_usn m) (mu_committed_at m) thresholds rewards
                \<lparr>et_granted = [], et_rejected = [], et_profiles = [], et_candy = 0\<rparr>) (\<lambda>acc.
     tx_then (if 0 < et_candy acc then credit (mu_usn m) Candy (f64_of_int (et_candy acc))
              else tx_return ())
       (let result = \<lparr>mero_rewards = et_granted acc, mero_profiles = map snd (et_profiles acc),
                      mero_rejected_music_ids = et_rejected acc\<rparr>
        in tx_return (result, Some result)))"

definition claim_music_encore_rewards ::
  "(music_encore_reward_outcome \<Rightarrow> string + string) \<Rightarrow> (string \<Rightarrow> string + music_encore_reward_outcome)
   \<Rightarrow> rpc_mutation \<Rightarrow> encore_request list \<Rightarrow> (int \<times> int \<times> int \<times> int) list
   \<Rightarrow> music_encore_reward_outcome store" where
  "claim_music_encore_rewards enc dec m rewards thresholds =
     commit_rpc_mutation_with_replay enc dec m (claim_music_encore_rewards_tx rewards thresholds m)"

section \<open>Profile rewards\<close>

definition profile_of :: "db \<Rightarrow> int \<Rightarrow> int \<Rightarrow> affection_row" where
  "profile_of s u i =
     (case tbl_get (affection s) (u, i) of None \<Rightarrow> \<lparr>afr_experience = 0, afr_level = 1\<rparr> | Some r \<Rightarrow> r)"

fun claim_profile_levels ::
  "reward_rules \<Rightarrow> int \<Rightarrow> int \<Rightarrow> follower_profile_snapshot \<Rightarrow> (int \<times> reward_grant list) list
   \<Rightarrow> follower_profile_reward_outcome list store" where
  "claim_profile_levels rules u now profile [] = tx_return []"
| "claim_profile_levels rules u now profile ((level, rewards) # requested) =
     tx_then (domain_require (0 < level \<and> level \<le> fp_level profile) Locked)
    (tx_bind (tx_gets (\<lambda>s. tbl_has (affection_claims s) (u, fp_profile_id profile, level))) (\<lambda>claimed.
       if claimed then claim_profile_levels rules u now profile requested
       else tx_then (tx_modify (affection_claims_update (tbl_ignore (u, fp_profile_id profile, level) now)))
           (tx_bind (grant_all rules u now ''follower-profile'' rewards) (\<lambda>applied.
            tx_bind (claim_profile_levels rules u now profile requested) (\<lambda>rest.
              tx_return (\<lparr>fpro_profile_id = fp_profile_id profile, fpro_level = level,
                          fpro_rewards = applied, fpro_profile = profile\<rparr> # rest))))))"

definition claim_follower_profile_rewards_tx ::
  "reward_rules \<Rightarrow> int \<Rightarrow> (int \<times> reward_grant list) list \<Rightarrow> rpc_mutation
   \<Rightarrow> (follower_profile_reward_outcome list \<times> follower_profile_reward_outcome list option) store" where
  "claim_follower_profile_rewards_tx rules profile_id requested m =
     tx_bind (tx_gets (\<lambda>s. profile_of s (mu_usn m) profile_id)) (\<lambda>r.
     tx_then (read_i32 (afr_level r))
    (tx_bind (claim_profile_levels rules (mu_usn m) (mu_committed_at m)
                \<lparr>fp_profile_id = profile_id, fp_level = afr_level r, fp_experience = afr_experience r,
                 fp_add_candy = 0\<rparr> requested) (\<lambda>outcomes. tx_return (outcomes, Some []))))"

definition claim_follower_profile_rewards ::
  "(follower_profile_reward_outcome list \<Rightarrow> string + string)
   \<Rightarrow> (string \<Rightarrow> string + follower_profile_reward_outcome list)
   \<Rightarrow> reward_rules \<Rightarrow> rpc_mutation \<Rightarrow> int \<Rightarrow> (int \<times> reward_grant list) list
   \<Rightarrow> follower_profile_reward_outcome list store" where
  "claim_follower_profile_rewards enc dec rules m profile_id requested =
     commit_rpc_mutation_with_replay enc dec m
       (claim_follower_profile_rewards_tx rules profile_id requested m)"

section \<open>Follower quests\<close>

definition quest_stages :: "db \<Rightarrow> int \<Rightarrow> int list" where
  "quest_stages s u =
     map (\<lambda>((_, _, i), _). i) (tbl_select (\<lambda>(v, c, _) _. v = u \<and> c = 1) (follower_quests s))"

definition active_quest :: "db \<Rightarrow> int \<Rightarrow> int" where
  "active_quest s u =
     max (if quest_stages s u = [] then 1 else max_or_zero (quest_stages s u)) 1"

definition completed_guide_stage :: "db \<Rightarrow> int \<Rightarrow> int" where
  "completed_guide_stage s u =
     max_or_zero (map (\<lambda>((_, _, i), _). i)
       (tbl_select (\<lambda>(v, c, _) r. v = u \<and> c = 1 \<and> qur_completed r) (follower_quests s)))"

definition set3 :: "int \<Rightarrow> 'a \<Rightarrow> 'a \<times> 'a \<times> 'a \<Rightarrow> 'a \<times> 'a \<times> 'a" where
  "set3 i v t = (case t of (a, b, c) \<Rightarrow>
     if i = 1 then (v, b, c) else if i = 2 then (a, v, c) else if i = 3 then (a, b, v) else (a, b, c))"

definition pick3 :: "int \<Rightarrow> 'a \<times> 'a \<times> 'a \<Rightarrow> 'a" where
  "pick3 i t = (case t of (a, b, c) \<Rightarrow> if i = 1 then a else if i = 2 then b else c)"

definition condition_rows :: "db \<Rightarrow> int \<Rightarrow> int \<Rightarrow> (int \<times> condition_row) list" where
  "condition_rows s u stage =
     map (\<lambda>((_, _, _, i), r). (i, r))
       (tbl_select (\<lambda>(v, c, st, _) _. v = u \<and> c = 1 \<and> st = stage) (quest_conditions s))"

definition quest_snapshot_of :: "db \<Rightarrow> int \<Rightarrow> int \<Rightarrow> quest_row \<Rightarrow> follower_quest_snapshot" where
  "quest_snapshot_of s u stage r =
     \<lparr>fq_current_id = stage, fq_complete_id = completed_guide_stage s u,
      fq_completed = qur_completed r, fq_infinite = qur_infinite r,
      fq_condition_values =
        fold (\<lambda>(i, c). set3 i (qcr_quantity c)) (condition_rows s u stage) (fzero, fzero, fzero),
      fq_claimed = fold (\<lambda>(i, c). set3 i (qcr_claimed c)) (condition_rows s u stage) (False, False, False)\<rparr>"

definition quest_snapshot :: "int \<Rightarrow> int \<Rightarrow> follower_quest_snapshot store" where
  "quest_snapshot u stage =
     query_row (\<lambda>s. map_option (quest_snapshot_of s u stage) (tbl_get (follower_quests s) (u, 1, stage)))"

definition open_quest :: "int \<Rightarrow> int \<Rightarrow> int \<Rightarrow> unit store" where
  "open_quest u stage now =
     tx_modify (follower_quests_update (tbl_ignore (u, 1, stage)
       \<lparr>qur_completed = False, qur_infinite = False, qur_updated_at = now\<rparr>))"

definition report_condition :: "int \<Rightarrow> int \<Rightarrow> int \<Rightarrow> f64 \<Rightarrow> unit store" where
  "report_condition u stage sub v =
     tx_modify (quest_conditions_update (tbl_upsert (u, 1, stage, sub)
       \<lparr>qcr_quantity = v, qcr_claimed = False\<rparr> (\<lambda>r. r\<lparr>qcr_quantity := sql_max (qcr_quantity r) v\<rparr>)))"

text \<open>The reward of a condition: claimed by the update that finds it unclaimed.\<close>

definition claim_condition ::
  "reward_rules \<Rightarrow> int \<Rightarrow> int \<Rightarrow> int \<Rightarrow> int \<Rightarrow> f64 \<Rightarrow> reward_grant list \<Rightarrow> reward_grant list store" where
  "claim_condition rules u now stage sub threshold rewards =
     tx_bind (query_row (\<lambda>s. tbl_get (quest_conditions s) (u, 1, stage, sub))) (\<lambda>r.
       if flt_le threshold (qcr_quantity r) \<and> \<not> qcr_claimed r
       then tx_then (tx_modify (quest_conditions_update (tbl_at (u, 1, stage, sub)
                       (\<lambda>r. r\<lparr>qcr_claimed := True\<rparr>))))
                    (grant_all rules u now ''follower-quest'' rewards)
       else tx_return [])"

definition claimed_conditions :: "db \<Rightarrow> int \<Rightarrow> int \<Rightarrow> nat" where
  "claimed_conditions s u stage = length (filter (\<lambda>(_, r). qcr_claimed r) (condition_rows s u stage))"

definition finish_quest :: "int \<Rightarrow> int \<Rightarrow> int \<Rightarrow> int option \<Rightarrow> int store" where
  "finish_quest u now stage next_id =
     tx_then (tx_modify (follower_quests_update (tbl_at (u, 1, stage)
                (\<lambda>r. r\<lparr>qur_completed := True, qur_updated_at := now\<rparr>))))
       (case next_id of None \<Rightarrow> tx_return stage
        | Some i \<Rightarrow> tx_then (open_quest u i now) (tx_return i))"

definition advance_follower_quest_tx ::
  "reward_rules \<Rightarrow> int \<Rightarrow> int \<Rightarrow> f64 \<Rightarrow> f64 \<times> f64 \<times> f64 \<Rightarrow> reward_grant list \<Rightarrow> int option \<Rightarrow> rpc_mutation
   \<Rightarrow> (follower_quest_outcome \<times> follower_quest_outcome option) store" where
  "advance_follower_quest_tx rules current_id sub_id condition_value thresholds rewards next_id m =
     (let u = mu_usn m; now = mu_committed_at m
      in tx_bind (tx_gets (\<lambda>s. active_quest s u)) (\<lambda>active.
         tx_then (open_quest u active now)
          (if current_id \<noteq> active
           then tx_bind (quest_snapshot u active) (\<lambda>q.
                tx_return (\<lparr>fqo_quest = q, fqo_complete_id = fq_complete_id q, fqo_next = False,
                            fqo_rewards = []\<rparr>, None))
           else tx_then (report_condition u current_id sub_id condition_value)
               (tx_bind (claim_condition rules u now current_id sub_id (pick3 sub_id thresholds) rewards)
                 (\<lambda>applied.
                tx_bind (tx_gets (\<lambda>s. claimed_conditions s u current_id = 3)) (\<lambda>nxt.
                tx_bind (if nxt then finish_quest u now current_id next_id else tx_return current_id)
                  (\<lambda>result_id.
                tx_bind (quest_snapshot u result_id) (\<lambda>q.
                  let result = \<lparr>fqo_quest = q, fqo_complete_id = fq_complete_id q, fqo_next = nxt,
                                fqo_rewards = applied\<rparr>
                  in tx_return (result, Some (result\<lparr>fqo_rewards := [], fqo_next := False\<rparr>))))))))))"

definition advance_follower_quest ::
  "(follower_quest_outcome \<Rightarrow> string + string) \<Rightarrow> (string \<Rightarrow> string + follower_quest_outcome)
   \<Rightarrow> reward_rules \<Rightarrow> rpc_mutation \<Rightarrow> int \<Rightarrow> int \<Rightarrow> f64 \<Rightarrow> f64 \<times> f64 \<times> f64 \<Rightarrow> reward_grant list \<Rightarrow> int option
   \<Rightarrow> follower_quest_outcome store" where
  "advance_follower_quest enc dec rules m current_id sub_id condition_value thresholds rewards next_id =
     tx_then (domain_require (1 \<le> sub_id \<and> sub_id \<le> 3 \<and> valid_amount condition_value) InvalidAmount)
       (commit_rpc_mutation_with_replay enc dec m
          (advance_follower_quest_tx rules current_id sub_id condition_value thresholds rewards next_id m))"

definition set_follower_quest_infinite_tx :: "rpc_mutation \<Rightarrow> follower_quest_snapshot store" where
  "set_follower_quest_infinite_tx m =
     (let u = mu_usn m; now = mu_committed_at m
      in tx_bind (tx_gets (\<lambda>s. quest_stages s u)) (\<lambda>stages.
         let stage = (if stages = [] then 1 else last stages)
         in tx_then (tx_modify (follower_quests_update (tbl_upsert (u, 1, stage)
              \<lparr>qur_completed = False, qur_infinite = True, qur_updated_at = now\<rparr>
              (\<lambda>r. r\<lparr>qur_infinite := True, qur_updated_at := now\<rparr>))))
            (quest_snapshot u stage)))"

definition set_follower_quest_infinite ::
  "(follower_quest_snapshot \<Rightarrow> string + string) \<Rightarrow> (string \<Rightarrow> string + follower_quest_snapshot)
   \<Rightarrow> rpc_mutation \<Rightarrow> follower_quest_snapshot store" where
  "set_follower_quest_infinite enc dec m =
     commit_rpc_mutation enc dec m (set_follower_quest_infinite_tx m)"

section \<open>Facts\<close>

lemma give_gift_step: "tx_rel (player_step (mu_usn m)) (give_follower_gift_tx p g q e ls m)"
  unfolding give_follower_gift_tx_def Let_def by (intro player_rules profile_steps)

lemma select_reward_step: "tx_rel (player_step (mu_usn m)) (select_reward_tx i g r a m)"
  unfolding select_reward_tx_def Let_def by (intro player_rules)

lemma close_encore_step: "tx_rel (player_step u) (close_encore u i f r)"
  unfolding close_encore_def by (intro player_rules)

lemma encore_profile_step: "tx_rel (player_step u) (encore_profile u f e ths ps)"
  unfolding encore_profile_def by (intro player_rules profile_steps)

lemma encore_loop_step: "tx_rel (player_step u) (encore_loop u now ths rs acc)"
  by (induction u now ths rs acc rule: encore_loop.induct)
     (auto intro!: player_rules close_encore_step encore_profile_step)

lemma claim_encore_step: "tx_rel (player_step (mu_usn m)) (claim_music_encore_rewards_tx rs ths m)"
  unfolding claim_music_encore_rewards_tx_def Let_def
  by (intro player_rules encore_loop_step credit_step)

lemma claim_levels_step: "tx_rel (player_step u) (claim_profile_levels rules u now p rs)"
  by (induction rules u now p rs rule: claim_profile_levels.induct)
     (auto intro!: player_rules grant_all_step)

lemma claim_profile_step:
  "tx_rel (player_step (mu_usn m)) (claim_follower_profile_rewards_tx rules p rs m)"
  unfolding claim_follower_profile_rewards_tx_def by (intro player_rules claim_levels_step)

lemma quest_steps:
  "tx_rel (player_step u) (quest_snapshot u i)" "tx_rel (player_step u) (open_quest u i now)"
  "tx_rel (player_step u) (report_condition u i sub v)"
  "tx_rel (player_step u) (claim_condition rules u now i sub th rs)"
  unfolding quest_snapshot_def open_quest_def report_condition_def claim_condition_def
  by (intro player_rules grant_all_step)+

lemma finish_quest_step: "tx_rel (player_step u) (finish_quest u now i nxt)"
  unfolding finish_quest_def by (intro player_rules quest_steps)

lemma advance_quest_step:
  "tx_rel (player_step (mu_usn m)) (advance_follower_quest_tx rules i sub v ths rs nxt m)"
  unfolding advance_follower_quest_tx_def Let_def
  by (intro player_rules quest_steps finish_quest_step)

lemma quest_infinite_step: "tx_rel (player_step (mu_usn m)) (set_follower_quest_infinite_tx m)"
  unfolding set_follower_quest_infinite_tx_def Let_def by (intro player_rules quest_steps)

interpretation give_gift: plain_command "\<lambda>m. give_follower_gift_tx p g q e ls m" for p g q e ls
  by unfold_locales (rule give_gift_step)

interpretation select_reward: rpc_command "\<lambda>m. select_reward_tx i g r a m" for i g r a
  by unfold_locales (rule select_reward_step)

interpretation claim_encore: rpc_command "\<lambda>m. claim_music_encore_rewards_tx rs ths m" for rs ths
  by unfold_locales (rule claim_encore_step)

interpretation claim_profile: rpc_command "\<lambda>m. claim_follower_profile_rewards_tx rules p rs m" for rules p rs
  by unfold_locales (rule claim_profile_step)

interpretation advance_quest: rpc_command
  "\<lambda>m. advance_follower_quest_tx rules i sub v ths rs nxt m" for rules i sub v ths rs nxt
  by unfold_locales (rule advance_quest_step)

interpretation quest_infinite: plain_command set_follower_quest_infinite_tx
  by unfold_locales (rule quest_infinite_step)

subsection \<open>Balances\<close>

lemma give_gift_bal: "tx_rel balances_kept (give_follower_gift_tx p g q e ls m)"
  unfolding give_follower_gift_tx_def Let_def by (intro balances_rules profile_bal) simp

lemma encore_profile_bal: "tx_rel balances_kept (encore_profile u f e ths ps)"
  unfolding encore_profile_def by (intro balances_rules profile_bal)

lemma encore_loop_bal: "tx_rel balances_kept (encore_loop u now ths rs acc)"
  by (induction u now ths rs acc rule: encore_loop.induct)
     (auto simp: close_encore_def intro!: balances_rules encore_profile_bal)

lemma claim_encore_bal: "tx_rel balances_kept (claim_music_encore_rewards_tx rs ths m)"
  unfolding claim_music_encore_rewards_tx_def Let_def
  by (intro balances_rules encore_loop_bal credit_bal)

lemma claim_levels_bal: "tx_rel balances_kept (claim_profile_levels rules u now p rs)"
proof (induction rules u now p rs rule: claim_profile_levels.induct)
  case (2 rules u now profile level rewards requested)
  then show ?case
    unfolding claim_profile_levels.simps by (intro balances_rules grant_all_bal) simp_all
qed (simp add: balances.return)

lemma quest_helper_bals:
  "tx_rel balances_kept (quest_snapshot u i)" "tx_rel balances_kept (open_quest u i now)"
  "tx_rel balances_kept (report_condition u i sub v)"
  "tx_rel balances_kept (claim_condition rules u now i sub th rs)"
  unfolding quest_snapshot_def open_quest_def report_condition_def claim_condition_def
  by (intro balances_rules grant_all_bal; simp)+

lemma finish_quest_bal: "tx_rel balances_kept (finish_quest u now i nxt)"
  unfolding finish_quest_def by (intro balances_rules quest_helper_bals) simp

lemma quest_bals:
  "tx_rel balances_kept (select_reward_tx i g r a m)"
  "tx_rel balances_kept (claim_follower_profile_rewards_tx rules p rqs m)"
  "tx_rel balances_kept (advance_follower_quest_tx rules i sub v ths rs nxt m)"
  "tx_rel balances_kept (set_follower_quest_infinite_tx m)"
  unfolding select_reward_tx_def claim_follower_profile_rewards_tx_def advance_follower_quest_tx_def
    set_follower_quest_infinite_tx_def Let_def
  by (intro balances_rules claim_levels_bal quest_helper_bals finish_quest_bal; simp)+

section \<open>Properties\<close>

subsection \<open>Gifts\<close>

text \<open>gifts are neither made nor lost: giving some to a follower needs that many, takes exactly that many,
  never leaves a negative stock, and the follower's experience grows by the product, cut at the
  largest 64-bit value.\<close>

lemma gift_given_once:
  assumes "give_follower_gift_tx profile gift quantity each levels m s = Inr (out, t)" "0 < quantity"
    and "profile_of s (mu_usn m) profile = r"
  shows "fgo_remaining out = gift_count s (mu_usn m) gift - quantity \<and> 0 \<le> fgo_remaining out
    \<and> gift_count t (mu_usn m) gift = fgo_remaining out
    \<and> fp_experience (fgo_profile out) = sat_i64 (afr_experience r + max (sat_i64 (each * quantity)) 0)
    \<and> currencies t = currencies s"
proof -
  let ?u = "mu_usn m" let ?n = "gift_count s ?u gift - quantity"
  let ?s1 = "gifts_update (tbl_at (?u, gift) (\<lambda>_. ?n)) s"
  from assms(1) obtain p where le: "quantity \<le> gift_count s ?u gift"
    and p: "update_follower_profile ?u profile (sat_i64 (each * quantity)) levels ?s1 = Inr (p, t)"
    and out: "fgo_remaining out = ?n" "fgo_profile out = p"
    by (auto simp: give_follower_gift_tx_def Let_def tx_simps)
  from le assms(2) have some: "tbl_get (gifts s) (?u, gift) \<noteq> None"
    by (auto simp: gift_count_def split: option.splits)
  from p have "gifts t = gifts ?s1" "currencies t = currencies s"
    by (auto simp: update_follower_profile_def set_profile_def Let_def tx_simps)
  with some have "gift_count t ?u gift = ?n" "currencies t = currencies s" by (auto simp: gift_count_def)
  moreover have "fp_experience p = sat_i64 (afr_experience r + max (sat_i64 (each * quantity)) 0)"
    using p assms(3)
    by (auto simp: update_follower_profile_def set_profile_def Let_def tx_simps profile_of_def
        split: option.splits)
  ultimately show ?thesis using le out by simp
qed

definition demo_quest_db :: db where
  "demo_quest_db = demo_ch3_db\<lparr>gifts := [((1, 4), 3)],
     owned_content := [((1, ''music'', 9), \<lparr>owr_area = 1, owr_acquired_at = 0, owr_source = ''x''\<rparr>)],
     music_state := [], follower_quests := [], quest_conditions := []\<rparr>"

theorem gift_given_once_witness:
  "\<exists>out t. give_follower_gift_tx 100000 4 2 5 [] demo_mutation demo_quest_db = Inr (out, t)
     \<and> fgo_remaining out = 1 \<and> gift_count t 1 4 = 1"
proof -
  obtain out t where r: "give_follower_gift_tx 100000 4 2 5 [] demo_mutation demo_quest_db = Inr (out, t)"
    by (simp add: give_follower_gift_tx_def Let_def store_run demo_quest_db_def demo_mutation_def gift_count_def
        tbl_get_Cons update_follower_profile_def set_profile_def demo_ch3_db_def in_i32_def)
  have "gift_count demo_quest_db (mu_usn demo_mutation) 4 = 3"
    by (simp add: gift_count_def demo_quest_db_def demo_mutation_def tbl_get_Cons)
  with gift_given_once [OF r _ refl] r show ?thesis by (auto simp: demo_mutation_def)
qed

subsection \<open>Encores\<close>

lemma profile_other_tables:
  "update_follower_profile u i g ls s = Inr (p, t) \<Longrightarrow>
     music_state t = music_state s \<and> owned_content t = owned_content s \<and> currencies t = currencies s"
  by (auto simp: update_follower_profile_def set_profile_def Let_def tx_simps)

lemma encore_profile_tables:
  "encore_profile u f e ths ps s = Inr (p, t) \<Longrightarrow>
     music_state t = music_state s \<and> owned_content t = owned_content s \<and> currencies t = currencies s"
  by (auto simp: encore_profile_def tx_simps split: option.splits if_splits dest: profile_other_tables)

lemma encore_rejected_tables:
  "music_state t = music_state s \<Longrightarrow> owned_content t = owned_content s \<Longrightarrow>
     encore_rejected t u now i = encore_rejected s u now i"
  by (simp add: encore_rejected_def)

lemma encore_rejected_close:
  assumes "close_encore u music f ready s = Inr (x, t)" "now < ready"
  shows "encore_rejected t u now music" "encore_rejected s u now i \<Longrightarrow> encore_rejected t u now i"
  using assms by (auto simp: close_encore_def tx_simps encore_rejected_def split: option.splits)

text \<open>After the loop every song of the list is closed until its next encore.\<close>

lemma encore_loop_closes:
  assumes "encore_loop u now ths rs acc s = Inr (acc', t)" "\<forall>(_, _, _, ready) \<in> set rs. now < ready"
  shows "(encore_rejected s u now i \<longrightarrow> encore_rejected t u now i)
    \<and> (i \<in> fst ` set rs \<longrightarrow> encore_rejected t u now i)
    \<and> currencies t = currencies s"
  using assms
proof (induction rs arbitrary: acc s)
  case Nil
  then show ?case by (simp add: tx_simps)
next
  case (Cons r rs)
  obtain music amount e ready where r: "r = (music, amount, e, ready)" by (cases r)
  show ?case
  proof (cases "encore_rejected s u now music")
    case True
    with Cons.prems r obtain acc1 where "encore_loop u now ths rs acc1 s = Inr (acc', t)"
      by (auto simp: tx_simps)
    from Cons.IH [OF this] Cons.prems(2) True r show ?thesis by auto
  next
    case False
    with Cons.prems(1) r obtain s1 ps s2 acc1
      where c: "close_encore u music (encore_follower s u music) ready s = Inr ((), s1)"
        and p: "encore_profile u (encore_follower s u music) e ths (et_profiles acc) s1 = Inr (ps, s2)"
        and l: "encore_loop u now ths rs acc1 s2 = Inr (acc', t)"
      by (auto simp: tx_simps)
    note tab = encore_profile_tables [OF p]
    from Cons.prems(2) r have lt: "now < ready" by simp
    have "encore_rejected s1 u now music" "encore_rejected s u now i \<longrightarrow> encore_rejected s1 u now i"
      using encore_rejected_close [OF c lt] by blast+
    moreover have "encore_rejected s2 u now k = encore_rejected s1 u now k" for k
      using encore_rejected_tables [of s2 s1] tab by blast
    moreover have "currencies s2 = currencies s" using c tab by (auto simp: close_encore_def tx_simps)
    moreover have "\<forall>(_, _, _, ready) \<in> set rs. now < ready" using Cons.prems(2) by simp
    note Cons.IH [OF l this]
    ultimately show ?thesis by (auto simp only: r list.set image_insert fst_conv insert_iff)
  qed
qed

lemma encore_loop_rejects:
  assumes "\<And>i. i \<in> fst ` set rs \<Longrightarrow> encore_rejected s u now i"
  shows "encore_loop u now ths rs acc s
    = Inr (acc\<lparr>et_rejected := et_rejected acc @ map (\<lambda>r. to_i32_saturated (fst r)) rs\<rparr>, s)"
  using assms
proof (induction rs arbitrary: acc)
  case (Cons r rs)
  then show ?case by (cases r) (auto simp: tx_run)
qed (simp add: tx_run)

text \<open>an encore pays once: a claim whose next encores lie in the future closes every song of its list, even
  one it names twice, so that another claim of any of them, by a new request at the same time, is
  rejected song by song, pays nothing and changes nothing.\<close>

lemma encore_pays_once:
  assumes "claim_music_encore_rewards_tx rs ths m s = Inr (x, t)"
    and "\<forall>(_, _, _, ready) \<in> set rs. mu_committed_at m < ready"
    and "mu_usn m' = mu_usn m" "mu_committed_at m' = mu_committed_at m" "fst ` set rs' \<subseteq> fst ` set rs"
  shows "\<exists>out. claim_music_encore_rewards_tx rs' ths' m' t = Inr ((out, Some out), t)
    \<and> mero_rewards out = [] \<and> mero_rejected_music_ids out = map (\<lambda>r. to_i32_saturated (fst r)) rs'"
proof -
  from assms(1) obtain acc s1 where l: "encore_loop (mu_usn m) (mu_committed_at m) ths rs
      \<lparr>et_granted = [], et_rejected = [], et_profiles = [], et_candy = 0\<rparr> s = Inr (acc, s1)"
    and t: "music_state t = music_state s1" "owned_content t = owned_content s1"
    by (auto simp: claim_music_encore_rewards_tx_def Let_def tx_simps credit_Inr split: if_splits)
  have "encore_rejected t (mu_usn m) (mu_committed_at m) i" if "i \<in> fst ` set rs'" for i
    using encore_loop_closes [OF l assms(2), of i] that assms(5) by (auto simp: encore_rejected_tables [OF t])
  from encore_loop_rejects [of rs', OF this] assms(3,4) show ?thesis
    by (simp add: claim_music_encore_rewards_tx_def Let_def tx_run)
qed

theorem encore_pays_once_witness:
  "\<exists>x t out. claim_music_encore_rewards_tx [(9, 5, 0, 100)] [] demo_mutation demo_quest_db = Inr (x, t)
     \<and> mero_rewards (fst x) = [(9, 5)]
     \<and> claim_music_encore_rewards_tx [(9, 5, 0, 100)] [] demo_mutation t = Inr ((out, Some out), t)
     \<and> mero_rewards out = []"
proof -
  have "f64_of_int 5 = Fin 5" using f64_of_int_exact [of 5] by simp
  moreover have "fadd (Fin 10) (Fin 5) = Fin 15" using fadd_int_exact [of 10 5] by simp
  moreover have "\<exists>acc t. encore_loop 1 10 [] [(9, 5, 0, 100)] \<lparr>et_granted = [], et_rejected = [],
      et_profiles = [], et_candy = 0\<rparr> demo_quest_db = Inr (acc, t) \<and> et_granted acc = [(9, 5)]
      \<and> et_candy acc = 5 \<and> tbl_get (currencies t) (1, ''candy'') = Some (Fin 10)"
    by (simp add: store_run demo_quest_db_def encore_rejected_def encore_follower_def close_encore_def
        encore_profile_def tbl_has_Cons tbl_get_Cons demo_ch3_db_def demo_mail_db_def to_i32_saturated_def
        sat_i64_def)
  ultimately have "\<exists>x t. claim_music_encore_rewards_tx [(9, 5, 0, 100)] [] demo_mutation demo_quest_db
      = Inr (x, t) \<and> mero_rewards (fst x) = [(9, 5)]"
    by (auto simp: claim_music_encore_rewards_tx_def Let_def store_run demo_mutation_def credit_def fzero_def
        simp del: encore_loop.simps)
  then obtain x t where r: "claim_music_encore_rewards_tx [(9, 5, 0, 100)] [] demo_mutation demo_quest_db
      = Inr (x, t)" "mero_rewards (fst x) = [(9, 5)]" by blast
  from encore_pays_once [OF r(1), of demo_mutation "[(9, 5, 0, 100)]" "[]"] r show ?thesis
    by (auto simp: demo_mutation_def)
qed

subsection \<open>Profile rewards\<close>

lemma claim_levels_facts:
  assumes "claim_profile_levels rules u now p rs s = Inr (outs, t)"
  shows "(\<forall>k. tbl_has (affection_claims s) k \<longrightarrow> tbl_has (affection_claims t) k)
    \<and> affection t = affection s
    \<and> (\<forall>(l, _) \<in> set rs. 0 < l \<and> l \<le> fp_level p \<and> tbl_has (affection_claims t) (u, fp_profile_id p, l))
    \<and> (\<forall>o' \<in> set outs. \<not> tbl_has (affection_claims s) (u, fp_profile_id p, fpro_level o'))"
  using assms
proof (induction rs arbitrary: s outs)
  case (Cons r rs)
  obtain l gs where r: "r = (l, gs)" by (cases r)
  show ?case
  proof (cases "tbl_has (affection_claims s) (u, fp_profile_id p, l)")
    case True
    with Cons r show ?thesis by (fastforce simp: tx_simps)
  next
    case False
    let ?s = "affection_claims_update (tbl_ignore (u, fp_profile_id p, l) now) s"
    from Cons.prems r False obtain applied s1 outs1 where
      lev: "0 < l" "l \<le> fp_level p"
      and g: "grant_all rules u now ''follower-profile'' gs ?s = Inr (applied, s1)"
      and rest: "claim_profile_levels rules u now p rs s1 = Inr (outs1, t)"
      and outs: "set outs = insert \<lparr>fpro_profile_id = fp_profile_id p, fpro_level = l, fpro_rewards = applied,
        fpro_profile = p\<rparr> (set outs1)"
      by (auto simp: tx_simps)
    have "tx_keeps (\<lambda>s. (affection_claims s, affection s)) (grant_all rules u now ''follower-profile'' gs)"
      by (rule grant_all_keeps) (simp add: reward_blind_def)
    from tx_relD [OF this g] have "affection_claims s1 = tbl_ignore (u, fp_profile_id p, l) now (affection_claims s)"
      "affection s1 = affection s" by simp_all
    with Cons.IH [OF rest] lev outs r False show ?thesis by auto
  qed
qed (simp add: tx_simps)

lemma claim_levels_again:
  assumes "\<forall>(l, _) \<in> set rs. 0 < l \<and> l \<le> fp_level p \<and> tbl_has (affection_claims s) (u, fp_profile_id p, l)"
  shows "claim_profile_levels rules u now p rs s = Inr ([], s)"
  using assms
proof (induction rs)
  case (Cons r rs)
  then show ?case by (cases r) (simp add: store_run)
qed (simp add: tx_run)

text \<open>the reward of a profile level is paid once and only when the level is reached: a claim lists levels
  up to the profile's own, pays only levels not claimed before, and the same levels claimed again,
  with any rewards, give an empty answer and change nothing.\<close>

lemma profile_rewards_paid_once:
  assumes "claim_follower_profile_rewards_tx rules i rs m s = Inr ((outs, replay), t)"
    and "mu_usn m' = mu_usn m" "fst ` set rs' \<subseteq> fst ` set rs"
  shows "(\<forall>l \<in> fst ` set rs. 0 < l \<and> l \<le> afr_level (profile_of s (mu_usn m) i))
    \<and> (\<forall>o' \<in> set outs. \<not> tbl_has (affection_claims s) (mu_usn m, i, fpro_level o'))
    \<and> claim_follower_profile_rewards_tx rules' i rs' m' t = Inr (([], Some []), t)"
proof -
  let ?r = "profile_of s (mu_usn m) i"
  let ?p = "\<lparr>fp_profile_id = i, fp_level = afr_level ?r, fp_experience = afr_experience ?r, fp_add_candy = 0\<rparr>"
  from assms(1) have in32: "in_i32 (afr_level ?r)"
    and c: "claim_profile_levels rules (mu_usn m) (mu_committed_at m) ?p rs s = Inr (outs, t)"
    by (auto simp: claim_follower_profile_rewards_tx_def tx_simps)
  note facts = claim_levels_facts [OF c, simplified]
  then have same: "profile_of t (mu_usn m) i = ?r" by (simp add: profile_of_def)
  have "\<forall>(l, _) \<in> set rs'. 0 < l \<and> l \<le> fp_level ?p \<and> tbl_has (affection_claims t) (mu_usn m, fp_profile_id ?p, l)"
    using facts assms(3) by fastforce
  from claim_levels_again [OF this] assms(2) in32 same facts show ?thesis
    by (auto simp: claim_follower_profile_rewards_tx_def store_run)
qed

theorem profile_rewards_paid_once_witness:
  "\<exists>outs replay t. claim_follower_profile_rewards_tx empty_rules 100000 [(1, [])] demo_mutation demo_quest_db
      = Inr ((outs, replay), t)
     \<and> claim_follower_profile_rewards_tx empty_rules 100000 [(1, [])] demo_mutation t = Inr (([], Some []), t)"
proof -
  have "\<exists>outs replay t. claim_follower_profile_rewards_tx empty_rules 100000 [(1, [])] demo_mutation demo_quest_db
      = Inr ((outs, replay), t)"
    by (simp add: claim_follower_profile_rewards_tx_def store_run demo_quest_db_def demo_ch3_db_def
        demo_mail_db_def demo_db_def demo_mutation_def profile_of_def tbl_get_Cons in_i32_def tbl_has_Nil)
  then obtain outs replay t where r: "claim_follower_profile_rewards_tx empty_rules 100000 [(1, [])] demo_mutation
      demo_quest_db = Inr ((outs, replay), t)" by blast
  from profile_rewards_paid_once [OF r refl, of "[(1, [])]" empty_rules] r show ?thesis by auto
qed

subsection \<open>Quests\<close>

lemma max_or_zero_mono: "set xs \<subseteq> set ys \<Longrightarrow> xs \<noteq> [] \<Longrightarrow> max_or_zero xs \<le> max_or_zero ys"
  using max_or_zero_in [of xs] max_or_zero_ge [of "max_or_zero xs" ys] by auto

lemma set_quest_stages:
  "set (quest_stages s u) = {i. (u, 1, i) \<in> fst ` set (follower_quests s)}"
  by (force simp: quest_stages_def tbl_select_def)

lemma tbl_has_iff: "tbl_has t k \<longleftrightarrow> k \<in> fst ` set t"
  using tbl_get_None_iff [of t k] by (auto simp: tbl_has_def)

lemma active_quest_mono:
  assumes "table_step u (follower_quests s) (follower_quests t)"
  shows "active_quest s u \<le> active_quest t u"
proof -
  have "k \<in> fst ` set (follower_quests s) \<Longrightarrow> k \<in> fst ` set (follower_quests t)" for k
    using assms unfolding table_step_def tbl_has_iff by blast
  then have sub: "set (quest_stages s u) \<subseteq> set (quest_stages t u)"
    unfolding set_quest_stages by blast
  show ?thesis
  proof (cases "quest_stages s u = []")
    case True
    then show ?thesis by (simp add: active_quest_def)
  next
    case False
    with sub max_or_zero_mono [OF sub] show ?thesis by (cases "quest_stages t u") (auto simp: active_quest_def)
  qed
qed

lemma claim_condition_Inr:
  assumes "claim_condition rules u now i sub th rs s = Inr (applied, t)"
  shows "\<exists>r. tbl_get (quest_conditions s) (u, 1, i, sub) = Some r
    \<and> (if flt_le th (qcr_quantity r) \<and> \<not> qcr_claimed r
       then quest_conditions t = tbl_at (u, 1, i, sub) (\<lambda>r. r\<lparr>qcr_claimed := True\<rparr>) (quest_conditions s)
       else applied = [] \<and> t = s)"
proof -
  have "tx_keeps quest_conditions (grant_all rules u now ''follower-quest'' rs)"
    by (rule grant_all_keeps) (simp add: reward_blind_def)
  note kept = tx_relD [OF this]
  from assms obtain r where r: "tbl_get (quest_conditions s) (u, 1, i, sub) = Some r"
    and c: "(if flt_le th (qcr_quantity r) \<and> \<not> qcr_claimed r
       then tx_then (tx_modify (quest_conditions_update (tbl_at (u, 1, i, sub) (\<lambda>r. r\<lparr>qcr_claimed := True\<rparr>))))
              (grant_all rules u now ''follower-quest'' rs)
       else tx_return []) s = Inr (applied, t)"
    by (auto simp: claim_condition_def tx_simps)
  show ?thesis
  proof (cases "flt_le th (qcr_quantity r) \<and> \<not> qcr_claimed r")
    case True
    with c r show ?thesis by (auto simp: tx_simps dest!: kept)
  next
    case False
    with c r show ?thesis by (auto simp: tx_simps)
  qed
qed

text \<open>C13: a quest pays each condition once and only moves forward: a report for a stage that is not the
  player's active one changes no condition and no balance; a reward is paid only for a condition not
  claimed before whose recorded quantity has reached its threshold, and the condition is claimed from then
  on; the stage is reported done exactly when three conditions are claimed; and the active stage never
  goes back.\<close>

theorem quest_condition_pays_once:
  assumes "advance_follower_quest_tx rules i sub v ths rs nxt m s = Inr ((out, replay), t)"
  shows "(i \<noteq> active_quest s (mu_usn m) \<longrightarrow> fqo_rewards out = [] \<and> \<not> fqo_next out
      \<and> quest_conditions t = quest_conditions s \<and> currencies t = currencies s)
    \<and> (fqo_rewards out \<noteq> [] \<longrightarrow>
        (\<forall>r. tbl_get (quest_conditions s) (mu_usn m, 1, i, sub) = Some r \<longrightarrow> \<not> qcr_claimed r)
        \<and> (\<exists>r. tbl_get (quest_conditions t) (mu_usn m, 1, i, sub) = Some r \<and> qcr_claimed r
             \<and> flt_le (pick3 sub ths) (qcr_quantity r)))
    \<and> (i = active_quest s (mu_usn m) \<longrightarrow> fqo_next out = (claimed_conditions t (mu_usn m) i = 3))
    \<and> active_quest s (mu_usn m) \<le> active_quest t (mu_usn m)"
proof -
  let ?u = "mu_usn m" let ?now = "mu_committed_at m"
  have mono: "active_quest s ?u \<le> active_quest t ?u"
    using tx_relD [OF advance_quest_step assms]
    by (intro active_quest_mono) (simp add: player_step_def player_rows_def)
  show ?thesis
  proof (cases "i = active_quest s ?u")
    case False
    with assms mono show ?thesis
      by (auto simp: advance_follower_quest_tx_def Let_def tx_simps open_quest_def quest_snapshot_def)
  next
    case True
    from assms obtain s1 s2 applied s3 x s4 y where o: "open_quest ?u i ?now s = Inr ((), s1)"
      and rp: "report_condition ?u i sub v s1 = Inr ((), s2)"
      and cc: "claim_condition rules ?u ?now i sub (pick3 sub ths) rs s2 = Inr (applied, s3)"
      and o': "out = \<lparr>fqo_quest = y, fqo_complete_id = fq_complete_id y,
        fqo_next = (claimed_conditions s3 ?u i = 3), fqo_rewards = applied\<rparr>"
      and f: "(if claimed_conditions s3 ?u i = 3 then finish_quest ?u ?now i nxt else tx_return i) s3
        = Inr (x, s4)"
      and q: "quest_snapshot ?u x s4 = Inr (y, t)"
      unfolding advance_follower_quest_tx_def Let_def tx_bind_Inr tx_gets_Inr tx_then_Inr
      by (simp add: True [symmetric] tx_bind_Inr tx_then_Inr tx_gets_Inr tx_return_Inr) blast
    then have out: "fqo_rewards out = applied" "fqo_next out = (claimed_conditions s3 ?u i = 3)" by simp_all
    have "tx_keeps quest_conditions (finish_quest ?u ?now i nxt)"
      unfolding finish_quest_def open_quest_def by (intro keeps_rules) simp_all
    from tx_relD [OF this] f q have fin: "quest_conditions t = quest_conditions s3"
      by (auto simp: quest_snapshot_def tx_simps split: if_splits)
    have "claimed_conditions t ?u i = claimed_conditions s3 ?u i"
      by (simp add: claimed_conditions_def condition_rows_def fin)
    with out have n: "fqo_next out = (claimed_conditions t ?u i = 3)" by simp
    from o rp have s2: "quest_conditions s2 = tbl_upsert (?u, 1, i, sub) \<lparr>qcr_quantity = v, qcr_claimed = False\<rparr>
        (\<lambda>r. r\<lparr>qcr_quantity := sql_max (qcr_quantity r) v\<rparr>) (quest_conditions s)"
      by (auto simp: open_quest_def report_condition_def tx_simps)
    obtain r where r: "tbl_get (quest_conditions s2) (?u, 1, i, sub) = Some r"
      and c: "if flt_le (pick3 sub ths) (qcr_quantity r) \<and> \<not> qcr_claimed r
       then quest_conditions s3 = tbl_at (?u, 1, i, sub) (\<lambda>r. r\<lparr>qcr_claimed := True\<rparr>) (quest_conditions s2)
       else applied = [] \<and> s3 = s2"
      using claim_condition_Inr [OF cc] by blast
    have "(\<forall>r. tbl_get (quest_conditions s) (?u, 1, i, sub) = Some r \<longrightarrow> \<not> qcr_claimed r)
        \<and> (\<exists>r. tbl_get (quest_conditions t) (?u, 1, i, sub) = Some r \<and> qcr_claimed r
             \<and> flt_le (pick3 sub ths) (qcr_quantity r))" if "fqo_rewards out \<noteq> []"
    proof -
      from that c out(1) have d: "flt_le (pick3 sub ths) (qcr_quantity r)" "\<not> qcr_claimed r"
        and s3: "quest_conditions s3 = tbl_at (?u, 1, i, sub) (\<lambda>r. r\<lparr>qcr_claimed := True\<rparr>) (quest_conditions s2)"
        by (auto split: if_splits)
      from d(2) r s2 have "\<forall>r. tbl_get (quest_conditions s) (?u, 1, i, sub) = Some r \<longrightarrow> \<not> qcr_claimed r"
        by auto
      with d(1) r show ?thesis by (simp add: fin s3)
    qed
    with True n mono show ?thesis by blast
  qed
qed

theorem quest_condition_pays_once_witness:
  "\<exists>out replay t. advance_follower_quest_tx empty_rules 1 2 (Fin 5) (Fin 1, Fin 4, Fin 2)
      [\<lparr>rg_reward_type = 3, rg_reward_id = 12, rg_amount = Fin 1\<rparr>] (Some 2) demo_mutation demo_quest_db
      = Inr ((out, replay), t) \<and> active_quest demo_quest_db 1 \<le> active_quest t 1"
proof -
  have "\<exists>out replay t. advance_follower_quest_tx empty_rules 1 2 (Fin 5) (Fin 1, Fin 4, Fin 2)
      [\<lparr>rg_reward_type = 3, rg_reward_id = 12, rg_amount = Fin 1\<rparr>] (Some 2) demo_mutation demo_quest_db
      = Inr ((out, replay), t)"
    by (simp add: advance_follower_quest_tx_def Let_def store_run demo_quest_db_def demo_mutation_def
        active_quest_def quest_stages_def tbl_select_def open_quest_def report_condition_def claim_condition_def
        pick3_def apply_reward_grant_def grant_content_def own_item_def level_one_def valid_amount_def
        fzero_def tbl_ignore_def tbl_upsert_def tbl_has_Nil tbl_get_Cons tbl_has_Cons tbl_set_def
        claimed_conditions_def condition_rows_def quest_snapshot_def)
  then obtain out replay t where r: "advance_follower_quest_tx empty_rules 1 2 (Fin 5) (Fin 1, Fin 4, Fin 2)
      [\<lparr>rg_reward_type = 3, rg_reward_id = 12, rg_amount = Fin 1\<rparr>] (Some 2) demo_mutation demo_quest_db
      = Inr ((out, replay), t)" by blast
  from quest_condition_pays_once [OF r] r show ?thesis by (auto simp: demo_mutation_def)
qed

end
