(* ===== verification/Activities.thy ===== *)
theory Activities
  imports Quests
begin

text \<open>
  Daily life in \<open>crates/persistence-sqlite/src/lib.rs\<close>: attendance, achievements and daily missions,
  events, advertisements, the player's profile fields, flags and tutorials, and the records of
  the rhythm game.
\<close>

section \<open>Text\<close>

definition ascii_lower :: "char \<Rightarrow> char" where
  "ascii_lower c = (let n = (of_char c :: nat) in if 65 \<le> n \<and> n \<le> 90 then char_of (n + 32) else c)"

definition to_ascii_lowercase :: "string \<Rightarrow> string" where
  "to_ascii_lowercase = map ascii_lower"

section \<open>Attendance\<close>

definition streak_after :: "attendance_row \<Rightarrow> int \<Rightarrow> int" where
  "streak_after r local_day =
     (if atr_last_local_day r = Some (local_day - 1) then sat_i32 (atr_continuous_count r + 1) else 1)"

definition attend :: "int \<Rightarrow> int \<Rightarrow> int \<Rightarrow> unit store" where
  "attend u local_day now =
     tx_bind (query_row (\<lambda>s. tbl_get (attendance_state s) u)) (\<lambda>r.
     tx_then (read_i32 (atr_continuous_count r))
    (tx_then (read_i32 (atr_max_continuous_count r))
    (tx_then (insert_row attendance_days attendance_days_update (u, local_day) now)
    (tx_then (sql_check (in_i64 (atr_attendance_count r + 1)))
       (tx_modify (attendance_state_update (tbl_at u (\<lambda>r'.
          \<lparr>atr_attendance_count = atr_attendance_count r' + 1,
           atr_continuous_count = streak_after r local_day,
           atr_max_continuous_count = max (atr_max_continuous_count r) (streak_after r local_day),
           atr_last_local_day = Some local_day\<rparr>))))))))"

definition attendance_tx :: "device_clock \<Rightarrow> string \<Rightarrow> rpc_mutation \<Rightarrow> attendance_result store" where
  "attendance_tx clock mode m =
     (let u = mu_usn m; local_day = local_epoch_day clock
      in tx_bind (tx_gets (\<lambda>s. tbl_has (attendance_days s) (u, local_day))) (\<lambda>already.
         let adds = (to_ascii_lowercase mode = ''add'' \<and> \<not> already)
         in tx_then (if adds then attend u local_day (mu_committed_at m) else tx_return ())
           (tx_bind (query_row (\<lambda>s. tbl_get (attendance_state s) u)) (\<lambda>r.
            tx_then (read_i32 (atr_attendance_count r))
           (tx_then (read_i32 (atr_max_continuous_count r))
              (tx_return \<lparr>at_status = (if adds then ''ADD'' else if already then ''N'' else ''Y''),
                          at_attendance_count = atr_attendance_count r,
                          at_attendance_date = to_i32_saturated local_day,
                          at_max_continuous_count = atr_max_continuous_count r\<rparr>))))))"

definition attendance ::
  "(attendance_result \<Rightarrow> string + string) \<Rightarrow> (string \<Rightarrow> string + attendance_result)
   \<Rightarrow> rpc_mutation \<Rightarrow> device_clock \<Rightarrow> string \<Rightarrow> attendance_result store" where
  "attendance enc dec m clock mode = commit_rpc_mutation enc dec m (attendance_tx clock mode m)"

section \<open>Achievements and daily missions\<close>

definition attendance_quantity :: "int \<Rightarrow> f64 store" where
  "attendance_quantity u =
     tx_bind (query_row (\<lambda>s. tbl_get (attendance_state s) u))
       (\<lambda>r. tx_return (f64_of_int (atr_attendance_count r)))"

text \<open>
  The upsert of the progress and the quantity read back: the larger one, but for achievement 10
  the one just counted.
\<close>

definition merge_achievement :: "int \<Rightarrow> int \<Rightarrow> f64 \<Rightarrow> int \<Rightarrow> f64 store" where
  "merge_achievement u i quantity now =
     tx_then (tx_modify (achievement_progress_update (tbl_upsert (u, i)
        \<lparr>acr_quantity = quantity, acr_quantity_text = ''0'', acr_updated_at = now\<rparr>
        (\<lambda>r. r\<lparr>acr_quantity := (if i = 10 then quantity else sql_max (acr_quantity r) quantity),
               acr_updated_at := now\<rparr>))))
       (query_row (\<lambda>s. map_option acr_quantity (tbl_get (achievement_progress s) (u, i))))"

definition merge_mission :: "int \<Rightarrow> int \<Rightarrow> f64 \<Rightarrow> int \<Rightarrow> f64 store" where
  "merge_mission u i quantity now =
     tx_then (tx_modify (daily_missions_update (tbl_upsert (u, i)
        \<lparr>dmr_quantity = quantity, dmr_updated_at = now\<rparr>
        (\<lambda>r. \<lparr>dmr_quantity = sql_max (dmr_quantity r) quantity, dmr_updated_at = now\<rparr>))))
       (query_row (\<lambda>s. map_option dmr_quantity (tbl_get (daily_missions s) (u, i))))"

definition achievement_claim_count :: "db \<Rightarrow> int \<Rightarrow> int \<Rightarrow> int" where
  "achievement_claim_count s u i =
     int (length (tbl_select (\<lambda>(v, a, _) _. v = u \<and> a = i) (achievement_claims s)))"

definition mission_claim_count :: "db \<Rightarrow> int \<Rightarrow> int \<Rightarrow> int \<Rightarrow> int" where
  "mission_claim_count s u day i =
     int (length (tbl_select (\<lambda>(v, d, a, _) _. v = u \<and> d = day \<and> a = i) (daily_mission_claims s)))"

definition merge_progress :: "string \<Rightarrow> int \<Rightarrow> int \<Rightarrow> f64 \<Rightarrow> int \<Rightarrow> f64 store" where
  "merge_progress kind u i quantity now =
     (if kind = ''achievement''
      then tx_bind (if i = 10 then attendance_quantity u else tx_return quantity)
             (\<lambda>q. merge_achievement u i q now)
      else merge_mission u i quantity now)"

definition claim_count :: "string \<Rightarrow> db \<Rightarrow> int \<Rightarrow> int \<Rightarrow> int \<Rightarrow> int" where
  "claim_count kind s u day i =
     (if kind = ''achievement'' then achievement_claim_count s u i else mission_claim_count s u day i)"

text \<open>\<open>INSERT OR IGNORE\<close> of the claim; the value says whether it is new.\<close>

definition insert_game_claim :: "string \<Rightarrow> int \<Rightarrow> int \<Rightarrow> int \<Rightarrow> int \<Rightarrow> int \<Rightarrow> bool store" where
  "insert_game_claim kind u day i level now =
     (if kind = ''achievement''
      then tx_bind (tx_gets (\<lambda>s. \<not> tbl_has (achievement_claims s) (u, i, level))) (\<lambda>fresh.
           tx_then (tx_modify (achievement_claims_update (tbl_ignore (u, i, level) now))) (tx_return fresh))
      else tx_bind (tx_gets (\<lambda>s. \<not> tbl_has (daily_mission_claims s) (u, day, i, level))) (\<lambda>fresh.
           tx_then (tx_modify (daily_mission_claims_update (tbl_ignore (u, day, i, level) now)))
                   (tx_return fresh)))"

definition claim_game_reward_tx ::
  "reward_rules \<Rightarrow> game_reward_claim_command \<Rightarrow> rpc_mutation
   \<Rightarrow> ((int \<times> reward_grant list) \<times> (int \<times> reward_grant list) option) store" where
  "claim_game_reward_tx rules c m =
     (let u = mu_usn m; now = mu_committed_at m; kind = grc_kind c; i = grc_id c; level = grc_level c
      in tx_then (domain_require (valid_amount (grc_quantity c) \<and> valid_amount (grc_threshold c)) InvalidAmount)
        (tx_then (if kind = ''achievement'' \<or> kind = ''daily_mission'' then tx_return ()
                  else unsupported kind)
        (tx_bind (merge_progress kind u i (grc_quantity c) now) (\<lambda>authoritative.
         tx_then (domain_require (\<not> flt_less authoritative (grc_threshold c)) Locked)
        (tx_bind (tx_gets (\<lambda>s. claim_count kind s u (grc_local_day c) i)) (\<lambda>count.
         tx_then (read_i32 count)
        (tx_then (domain_require (level = sat_i32 (count + 1)) AlreadyClaimed)
        (tx_bind (insert_game_claim kind u (grc_local_day c) i level now) (\<lambda>inserted.
         tx_then (domain_require inserted AlreadyClaimed)
        (tx_bind (grant_all rules u now ''game-reward''
                    (case grc_reward c of None \<Rightarrow> [] | Some g \<Rightarrow> [g])) (\<lambda>rewards.
           tx_return ((sat_i32 (level + 1), rewards), Some (sat_i32 (level + 1), [])))))))))))))"

definition claim_game_reward ::
  "(int \<times> reward_grant list \<Rightarrow> string + string) \<Rightarrow> (string \<Rightarrow> string + int \<times> reward_grant list)
   \<Rightarrow> reward_rules \<Rightarrow> rpc_mutation \<Rightarrow> game_reward_claim_command \<Rightarrow> (int \<times> reward_grant list) store" where
  "claim_game_reward enc dec rules m c =
     commit_rpc_mutation_with_replay enc dec m (claim_game_reward_tx rules c m)"

text \<open>The level a login reports for a daily mission: the claims of all days, plus one.\<close>

definition daily_mission_level :: "db \<Rightarrow> int \<Rightarrow> int \<Rightarrow> int" where
  "daily_mission_level s u i =
     int (length (tbl_select (\<lambda>(v, _, a, _) _. v = u \<and> a = i) (daily_mission_claims s))) + 1"

section \<open>Events\<close>

definition event_steps :: "db \<Rightarrow> int \<Rightarrow> string \<Rightarrow> int list" where
  "event_steps s u kind =
     map (\<lambda>((_, _, i, _), _). i)
       (tbl_select (\<lambda>(v, k, _, _) r. v = u \<and> k = kind \<and> 0 < evr_points r) (event_points s))"

definition sam_seck_step :: "int \<Rightarrow> int store" where
  "sam_seck_step u =
     tx_bind (tx_gets (\<lambda>s. max_or_zero (event_steps s u ''samseck''))) (\<lambda>step.
     tx_then (read_i32 step) (tx_return step))"

definition owned_of_kind :: "db \<Rightarrow> int \<Rightarrow> string \<Rightarrow> int" where
  "owned_of_kind s u kind =
     int (length (tbl_select (\<lambda>(v, k, _) _. v = u \<and> k = kind) (owned_content s)))"

definition sam_seck_eligible :: "db \<Rightarrow> int \<Rightarrow> int \<Rightarrow> bool" where
  "sam_seck_eligible s u event_id =
     (if event_id = 1
      then 200 \<le> (case tbl_get (content_levels s) (u, ''character'', 1) of None \<Rightarrow> 1 | Some r \<Rightarrow> lvr_level r)
      else if event_id = 2 then 3 \<le> owned_of_kind s u ''music''
      else if event_id = 3 then 1 \<le> owned_of_kind s u ''follower''
      else False)"

definition insert_event :: "int \<Rightarrow> string \<Rightarrow> int \<Rightarrow> int \<Rightarrow> bool store" where
  "insert_event u kind i step =
     tx_bind (tx_gets (\<lambda>s. \<not> tbl_has (event_points s) (u, kind, i, 1))) (\<lambda>fresh.
     tx_then (tx_modify (event_points_update (tbl_ignore (u, kind, i, 1) \<lparr>evr_points = 1, evr_step = step\<rparr>)))
             (tx_return fresh))"

definition claim_sam_seck_tx :: "int \<Rightarrow> int \<Rightarrow> reward_grant \<Rightarrow> rpc_mutation \<Rightarrow> int store" where
  "claim_sam_seck_tx event_id post_id reward m =
     (let u = mu_usn m
      in tx_bind (tx_gets (\<lambda>s. sam_seck_eligible s u event_id)) (\<lambda>eligible.
         tx_then (domain_require eligible Locked)
        (tx_bind (insert_event u ''samseck'' event_id event_id) (\<lambda>inserted.
         tx_then (if inserted
                  then tx_then (queue_reward_mail_tx u post_id ''memorial.samseck.subject''
                                  ''memorial.samseck.body'' reward (mu_committed_at m)) (tx_return ())
                  else tx_return ())
           (sam_seck_step u)))))"

definition claim_sam_seck ::
  "(int \<Rightarrow> string + string) \<Rightarrow> (string \<Rightarrow> string + int) \<Rightarrow> rpc_mutation \<Rightarrow> int \<Rightarrow> int \<Rightarrow> reward_grant
   \<Rightarrow> int store" where
  "claim_sam_seck enc dec m event_id post_id reward =
     commit_rpc_mutation enc dec m (claim_sam_seck_tx event_id post_id reward m)"

definition claimed_event_rewards :: "db \<Rightarrow> int \<Rightarrow> int list" where
  "claimed_event_rewards s u = event_steps s u ''daily_reward''"

definition balance_of :: "int \<Rightarrow> currency_kind \<Rightarrow> f64 store" where
  "balance_of u kind = query_row (\<lambda>s. tbl_get (currencies s) (u, currency_key kind))"

definition claim_event_reward_tx ::
  "reward_rules \<Rightarrow> int \<Rightarrow> reward_grant \<Rightarrow> rpc_mutation
   \<Rightarrow> ((reward_grant list \<times> f64 \<times> f64 \<times> f64 \<times> f64) \<times> (reward_grant list \<times> f64 \<times> f64 \<times> f64 \<times> f64) option) store" where
  "claim_event_reward_tx rules row_id reward m =
     (let u = mu_usn m
      in tx_bind (insert_event u ''daily_reward'' row_id 1) (\<lambda>inserted.
         tx_then (domain_require inserted AlreadyClaimed)
        (tx_bind (grant_all rules u (mu_committed_at m) ''daily-reward'' [reward]) (\<lambda>applied.
         tx_bind (balance_of u Chocolate) (\<lambda>choco.
         tx_bind (balance_of u Candy) (\<lambda>candy.
         tx_bind (balance_of u Ch1Like) (\<lambda>likes.
         tx_bind (balance_of u Fans) (\<lambda>fans.
           tx_return ((applied, choco, candy, likes, fans), Some ([], choco, candy, likes, fans))))))))))"

definition claim_event_reward ::
  "(reward_grant list \<times> f64 \<times> f64 \<times> f64 \<times> f64 \<Rightarrow> string + string)
   \<Rightarrow> (string \<Rightarrow> string + reward_grant list \<times> f64 \<times> f64 \<times> f64 \<times> f64)
   \<Rightarrow> reward_rules \<Rightarrow> rpc_mutation \<Rightarrow> int \<Rightarrow> reward_grant \<Rightarrow> (reward_grant list \<times> f64 \<times> f64 \<times> f64 \<times> f64) store" where
  "claim_event_reward enc dec rules m row_id reward =
     commit_rpc_mutation_with_replay enc dec m (claim_event_reward_tx rules row_id reward m)"

section \<open>Facts\<close>

lemma attend_step: "tx_rel (player_step u) (attend u d now)"
  unfolding attend_def by (intro player_rules)

lemma attendance_step: "tx_rel (player_step (mu_usn m)) (attendance_tx clock mode m)"
  unfolding attendance_tx_def Let_def by (intro player_rules attend_step)

lemma merge_progress_step: "tx_rel (player_step u) (merge_progress kind u i q now)"
  unfolding merge_progress_def merge_achievement_def merge_mission_def attendance_quantity_def
  by (intro player_rules)

lemma insert_game_claim_step: "tx_rel (player_step u) (insert_game_claim kind u d i l now)"
  unfolding insert_game_claim_def by (intro player_rules)

lemma claim_game_step: "tx_rel (player_step (mu_usn m)) (claim_game_reward_tx rules c m)"
  unfolding claim_game_reward_tx_def Let_def
  by (intro player_rules merge_progress_step insert_game_claim_step grant_all_step unsupported_step)

lemma insert_event_step: "tx_rel (player_step u) (insert_event u kind i st)"
  unfolding insert_event_def by (intro player_rules)

lemma sam_seck_step_step: "tx_rel (player_step u) (sam_seck_step u)"
  unfolding sam_seck_step_def by (intro player_rules)

lemma claim_sam_seck_step: "tx_rel (player_step (mu_usn m)) (claim_sam_seck_tx e p r m)"
  unfolding claim_sam_seck_tx_def Let_def
  by (intro player_rules insert_event_step sam_seck_step_step queue_reward_mail_step)

lemma claim_event_step: "tx_rel (player_step (mu_usn m)) (claim_event_reward_tx rules i r m)"
  unfolding claim_event_reward_tx_def balance_of_def Let_def
  by (intro player_rules insert_event_step grant_all_step)

interpretation attendance: plain_command "\<lambda>m. attendance_tx clock mode m" for clock mode
  by unfold_locales (rule attendance_step)

interpretation claim_game: rpc_command "\<lambda>m. claim_game_reward_tx rules c m" for rules c
  by unfold_locales (rule claim_game_step)

interpretation claim_seck: plain_command "\<lambda>m. claim_sam_seck_tx e p r m" for e p r
  by unfold_locales (rule claim_sam_seck_step)

interpretation claim_event: rpc_command "\<lambda>m. claim_event_reward_tx rules i r m" for rules i r
  by unfold_locales (rule claim_event_step)

subsection \<open>Balances\<close>

lemma attend_bal: "tx_rel balances_kept (attend u d now)"
  unfolding attend_def by (intro balances_rules) simp_all

lemma merge_progress_bal: "tx_rel balances_kept (merge_progress kind u i q now)"
  unfolding merge_progress_def merge_achievement_def merge_mission_def attendance_quantity_def
  by (intro balances_rules) simp_all

lemma insert_game_claim_bal: "tx_rel balances_kept (insert_game_claim kind u d i l now)"
  unfolding insert_game_claim_def by (intro balances_rules) simp_all

lemma insert_event_bal: "tx_rel balances_kept (insert_event u kind i st)"
  unfolding insert_event_def by (intro balances_rules) simp_all

lemma queue_reward_mail_bal: "tx_rel balances_kept (queue_reward_mail_tx u p sb b reward now)"
  unfolding queue_reward_mail_tx_def insert_mail_row_def bump_mail_cursor_def
  by (intro balances_rules) simp_all

lemma activity_bals:
  "tx_rel balances_kept (attendance_tx clock mode m)"
  "tx_rel balances_kept (claim_game_reward_tx rules c m)"
  "tx_rel balances_kept (claim_sam_seck_tx e p r m)"
  "tx_rel balances_kept (claim_event_reward_tx rules i r m)"
  unfolding attendance_tx_def claim_game_reward_tx_def claim_sam_seck_tx_def claim_event_reward_tx_def
    balance_of_def sam_seck_step_def Let_def
  by (intro balances_rules attend_bal merge_progress_bal insert_game_claim_bal insert_event_bal
      grant_all_bal queue_reward_mail_bal; simp)+

section \<open>Properties\<close>

subsection \<open>Counting rows\<close>

lemma length_filter_put:
  "\<not> tbl_has t k \<Longrightarrow>
     length (filter P (tbl_put k v t)) = length (filter P t) + (if P (k, v) then 1 else 0)"
  by (induction t) (auto simp: tbl_has_def tbl_get_def split: if_splits)

lemma length_select_put:
  "\<not> tbl_has t k \<Longrightarrow>
     length (tbl_select p (tbl_put k v t)) = length (tbl_select p t) + (if p k v then 1 else 0)"
  by (simp add: tbl_select_def length_filter_put)

subsection \<open>Attendance\<close>

text \<open>
  \<open>attendance_ok\<close>: the attendance count is the number of days on record, and the longest streak is at
  least the current one.
\<close>

definition attendance_ok :: "db \<Rightarrow> int \<Rightarrow> bool" where
  "attendance_ok s u \<longleftrightarrow> (case tbl_get (attendance_state s) u of None \<Rightarrow> True
     | Some r \<Rightarrow> atr_attendance_count r = int (length (tbl_select (\<lambda>k _. fst k = u) (attendance_days s)))
         \<and> atr_continuous_count r \<le> atr_max_continuous_count r)"

lemma attend_Inr:
  assumes "attend u d now s = Inr (x, t)" "tbl_get (attendance_state s) u = Some r"
  shows "\<not> tbl_has (attendance_days s) (u, d)
    \<and> attendance_days t = tbl_put (u, d) now (attendance_days s)
    \<and> tbl_get (attendance_state t) u = Some \<lparr>atr_attendance_count = atr_attendance_count r + 1,
        atr_continuous_count = streak_after r d,
        atr_max_continuous_count = max (atr_max_continuous_count r) (streak_after r d),
        atr_last_local_day = Some d\<rparr>"
  using assms by (auto simp: attend_def tx_simps)

text \<open>C14: a day counts once. Signing in (mode add, in any case of letters) on a local day not on record adds
  one to the count, continues the streak exactly when the day before was the last one and starts it
  at one otherwise, and never lowers the longest streak; on a day on record it answers N and changes
  nothing. The count stays the number of days on record.\<close>

theorem attendance_counts_days:
  assumes "attendance_tx clock mode m s = Inr (out, t)"
    and "tbl_get (attendance_state s) (mu_usn m) = Some r" "attendance_ok s (mu_usn m)"
  shows "attendance_ok t (mu_usn m)
    \<and> (if to_ascii_lowercase mode = ''add'' \<and> \<not> tbl_has (attendance_days s) (mu_usn m, local_epoch_day clock)
       then at_status out = ''ADD'' \<and> at_attendance_count out = atr_attendance_count r + 1
         \<and> tbl_has (attendance_days t) (mu_usn m, local_epoch_day clock)
         \<and> at_max_continuous_count out = max (atr_max_continuous_count r)
             (if atr_last_local_day r = Some (local_epoch_day clock - 1)
              then sat_i32 (atr_continuous_count r + 1) else 1)
       else t = s \<and> at_status out
         = (if tbl_has (attendance_days s) (mu_usn m, local_epoch_day clock) then ''N'' else ''Y''))"
proof (cases "to_ascii_lowercase mode = ''add'' \<and> \<not> tbl_has (attendance_days s) (mu_usn m, local_epoch_day clock)")
  case True
  let ?u = "mu_usn m" let ?d = "local_epoch_day clock"
  from assms(1) True obtain r' where a: "attend ?u ?d (mu_committed_at m) s = Inr ((), t)"
    and r': "tbl_get (attendance_state t) ?u = Some r'"
    and out: "at_status out = ''ADD''" "at_attendance_count out = atr_attendance_count r'"
      "at_max_continuous_count out = atr_max_continuous_count r'"
    by (auto simp: attendance_tx_def Let_def tx_simps)
  note f = attend_Inr [OF a assms(2)]
  from assms(2,3) f r' True have "attendance_ok t ?u"
    by (simp add: attendance_ok_def length_select_put)
  with True f r' out show ?thesis by (auto simp: streak_after_def)
next
  case False
  with assms show ?thesis by (auto simp: attendance_tx_def Let_def tx_simps)
qed

definition demo_day_db :: db where
  "demo_day_db = demo_quest_db\<lparr>
     attendance_state := [(1, \<lparr>atr_attendance_count = 1, atr_continuous_count = 1,
        atr_max_continuous_count = 1, atr_last_local_day = Some 19999\<rparr>)],
     attendance_days := [((1, 19999), 5)],
     daily_missions := [((1, 2), \<lparr>dmr_quantity = Fin 1, dmr_updated_at = 0\<rparr>)],
     daily_mission_claims := [((1, 19999, 2, 1), 5)]\<rparr>"

definition demo_clock :: device_clock where
  "demo_clock = \<lparr>unix_seconds = 1728000000, utc_offset_minutes = 0\<rparr>"

lemma demo_local_day: "local_epoch_day demo_clock = 20000"
  by (simp add: demo_clock_def local_epoch_day_def wrap_i64_def)

theorem attendance_counts_days_witness:
  "\<exists>out t. attendance_tx demo_clock ''Add'' demo_mutation demo_day_db = Inr (out, t)
     \<and> at_status out = ''ADD'' \<and> at_attendance_count out = 2 \<and> at_max_continuous_count out = 2"
proof -
  have low: "to_ascii_lowercase ''Add'' = ''add''" by code_simp
  have "\<exists>out t. attendance_tx demo_clock ''Add'' demo_mutation demo_day_db = Inr (out, t)"
    by (simp add: attendance_tx_def Let_def low demo_local_day store_run demo_day_db_def demo_mutation_def
        tbl_has_Cons tbl_has_Nil tbl_get_Cons attend_def in_i32_def in_i64_def streak_after_def sat_i32_def
        tbl_set_def)
  then obtain out t where r: "attendance_tx demo_clock ''Add'' demo_mutation demo_day_db = Inr (out, t)" by blast
  have "tbl_get (attendance_state demo_day_db) (mu_usn demo_mutation) = Some \<lparr>atr_attendance_count = 1,
      atr_continuous_count = 1, atr_max_continuous_count = 1, atr_last_local_day = Some 19999\<rparr>"
    "attendance_ok demo_day_db (mu_usn demo_mutation)"
    "\<not> tbl_has (attendance_days demo_day_db) (mu_usn demo_mutation, local_epoch_day demo_clock)"
    by (simp_all add: demo_day_db_def demo_mutation_def attendance_ok_def tbl_get_Cons tbl_select_def
        tbl_has_Cons tbl_has_Nil demo_local_day)
  with attendance_counts_days [OF r this(1,2)] r show ?thesis
    by (auto simp: low demo_local_day sat_i32_def)
qed

subsection \<open>Achievements and daily missions\<close>

lemma merge_progress_Inr:
  assumes "merge_progress kind u i q now s = Inr (a, t)"
  shows "achievement_claims t = achievement_claims s \<and> daily_mission_claims t = daily_mission_claims s
    \<and> currencies t = currencies s
    \<and> (kind \<noteq> ''achievement'' \<longrightarrow> (\<exists>r. tbl_get (daily_missions t) (u, i) = Some r \<and> dmr_quantity r = a))
    \<and> (kind \<noteq> ''achievement'' \<longrightarrow>
        a = (case tbl_get (daily_missions s) (u, i) of None \<Rightarrow> q | Some r \<Rightarrow> sql_max (dmr_quantity r) q))"
  using assms
  by (auto simp: merge_progress_def merge_achievement_def merge_mission_def attendance_quantity_def tx_simps
      split: if_splits option.splits)

lemma game_claims_kept:
  "tx_keeps (\<lambda>s. (achievement_claims s, daily_mission_claims s, daily_missions s)) (grant_all rules u now source gs)"
  by (rule grant_all_keeps) (simp add: reward_blind_def)

lemma insert_game_claim_Inr:
  assumes "insert_game_claim kind u d i l now s = Inr (True, t)"
  shows "(if kind = ''achievement'' then \<not> tbl_has (achievement_claims s) (u, i, l)
        \<and> achievement_claims t = tbl_put (u, i, l) now (achievement_claims s)
        \<and> daily_mission_claims t = daily_mission_claims s
      else \<not> tbl_has (daily_mission_claims s) (u, d, i, l)
        \<and> daily_mission_claims t = tbl_put (u, d, i, l) now (daily_mission_claims s)
        \<and> achievement_claims t = achievement_claims s)
    \<and> daily_missions t = daily_missions s"
  using assms by (auto simp: insert_game_claim_def tx_simps tbl_ignore_def)

lemma claim_game_Inr:
  assumes "claim_game_reward_tx rules c m s = Inr ((out, replay), t)"
  obtains a s1 s2 gs where "grc_kind c = ''achievement'' \<or> grc_kind c = ''daily_mission''"
    "valid_amount (grc_quantity c)" "valid_amount (grc_threshold c)"
    "merge_progress (grc_kind c) (mu_usn m) (grc_id c) (grc_quantity c) (mu_committed_at m) s = Inr (a, s1)"
    "\<not> flt_less a (grc_threshold c)"
    "grc_level c = sat_i32 (claim_count (grc_kind c) s (mu_usn m) (grc_local_day c) (grc_id c) + 1)"
    "insert_game_claim (grc_kind c) (mu_usn m) (grc_local_day c) (grc_id c) (grc_level c)
       (mu_committed_at m) s1 = Inr (True, s2)"
    "grant_all rules (mu_usn m) (mu_committed_at m) ''game-reward''
       (case grc_reward c of None \<Rightarrow> [] | Some g \<Rightarrow> [g]) s2 = Inr (gs, t)"
    "out = (sat_i32 (grc_level c + 1), gs)" "replay = Some (sat_i32 (grc_level c + 1), [])"
proof -
  from assms obtain a s1 s2 gs where *: "grc_kind c = ''achievement'' \<or> grc_kind c = ''daily_mission''"
    "valid_amount (grc_quantity c)" "valid_amount (grc_threshold c)"
    "merge_progress (grc_kind c) (mu_usn m) (grc_id c) (grc_quantity c) (mu_committed_at m) s = Inr (a, s1)"
    "\<not> flt_less a (grc_threshold c)"
    "grc_level c = sat_i32 (claim_count (grc_kind c) s1 (mu_usn m) (grc_local_day c) (grc_id c) + 1)"
    "insert_game_claim (grc_kind c) (mu_usn m) (grc_local_day c) (grc_id c) (grc_level c)
       (mu_committed_at m) s1 = Inr (True, s2)"
    "grant_all rules (mu_usn m) (mu_committed_at m) ''game-reward''
       (case grc_reward c of None \<Rightarrow> [] | Some g \<Rightarrow> [g]) s2 = Inr (gs, t)"
    "out = (sat_i32 (grc_level c + 1), gs)" "replay = Some (sat_i32 (grc_level c + 1), [])"
    by (auto simp: claim_game_reward_tx_def Let_def tx_simps unsupported_def split: if_splits)
  have "claim_count k s1 u d i = claim_count k s u d i" for k u d i
    using merge_progress_Inr [OF *(4)]
    by (simp add: claim_count_def achievement_claim_count_def mission_claim_count_def)
  with * that show ?thesis by simp
qed

lemma flt_less_sql_max:
  "\<not> flt_less a th \<Longrightarrow> is_finite th \<Longrightarrow> is_finite q \<Longrightarrow> \<not> flt_less (sql_max a q) th"
  by (cases a; cases q; cases th) (auto simp: sql_max_def)

lemma claim_count_after:
  assumes "claim_game_reward_tx rules c m s = Inr ((out, replay), t)"
  shows "claim_count (grc_kind c) t (mu_usn m) (grc_local_day c) (grc_id c)
    = claim_count (grc_kind c) s (mu_usn m) (grc_local_day c) (grc_id c) + 1"
  using assms
proof (cases rule: claim_game_Inr)
  case (1 a s1 s2 gs)
  from tx_relD [OF game_claims_kept 1(8)] merge_progress_Inr [OF 1(4)] insert_game_claim_Inr [OF 1(7)]
  show ?thesis
    by (auto simp: claim_count_def achievement_claim_count_def mission_claim_count_def length_select_put)
qed

text \<open>C15: rewards of achievements and daily missions are claimed level by level, each once: a claim succeeds
  only for the level right after the ones already claimed (of this day, for a mission), records
  exactly one claim, and the same level claimed again is refused whatever it reports.\<close>

theorem game_reward_level_once:
  assumes "claim_game_reward_tx rules c m s = Inr ((out, replay), t)"
    and "claim_count (grc_kind c) s (mu_usn m) (grc_local_day c) (grc_id c) < i32_max"
    and "grc_kind c' = grc_kind c" "grc_id c' = grc_id c" "grc_local_day c' = grc_local_day c"
    and "grc_level c' = grc_level c" "mu_usn m' = mu_usn m"
  shows "grc_level c = claim_count (grc_kind c) s (mu_usn m) (grc_local_day c) (grc_id c) + 1
    \<and> fst out = sat_i32 (grc_level c + 1)
    \<and> claim_count (grc_kind c) t (mu_usn m) (grc_local_day c) (grc_id c) = grc_level c
    \<and> (\<forall>x t'. claim_game_reward_tx rules' c' m' t \<noteq> Inr (x, t'))"
  using assms(1)
proof (cases rule: claim_game_Inr)
  case (1 a s1 s2 gs)
  let ?n = "claim_count (grc_kind c) s (mu_usn m) (grc_local_day c) (grc_id c)"
  have "0 \<le> ?n" by (simp add: claim_count_def achievement_claim_count_def mission_claim_count_def)
  with 1(6) assms(2) have lev: "grc_level c = ?n + 1" by (simp add: sat_i32_def)
  note after = claim_count_after [OF assms(1)]
  have "claim_game_reward_tx rules' c' m' t \<noteq> Inr (x, t')" for x t'
  proof
    assume "claim_game_reward_tx rules' c' m' t = Inr (x, t')"
    then obtain out' replay' where "claim_game_reward_tx rules' c' m' t = Inr ((out', replay'), t')"
      by (cases x) auto
    then show False
    proof (cases rule: claim_game_Inr)
      case (1 a' s1' s2' gs')
      have "if grc_kind c = ''achievement'' then tbl_has (achievement_claims t) (mu_usn m, grc_id c, grc_level c)
        else tbl_has (daily_mission_claims t) (mu_usn m, grc_local_day c, grc_id c, grc_level c)"
        using tx_relD [OF game_claims_kept \<open>grant_all rules (mu_usn m) _ _ _ s2 = Inr (gs, t)\<close>]
          insert_game_claim_Inr [OF \<open>insert_game_claim _ _ _ _ _ _ s1 = Inr (True, s2)\<close>]
        by (auto split: if_splits)
      with insert_game_claim_Inr [OF 1(7)] merge_progress_Inr [OF 1(4)] assms(3-7) show False
        by (auto split: if_splits)
    qed
  qed
  with lev after 1(9) show ?thesis by simp
qed

definition demo_claim_command :: "int \<Rightarrow> int \<Rightarrow> game_reward_claim_command" where
  "demo_claim_command day level = \<lparr>grc_kind = ''daily_mission'', grc_id = 2, grc_level = level,
     grc_quantity = Fin 3, grc_threshold = Fin 1, grc_local_day = day, grc_reward = None\<rparr>"

lemma demo_game_claim:
  "\<exists>out replay t. claim_game_reward_tx empty_rules (demo_claim_command 20000 1) demo_mutation demo_day_db
      = Inr ((out, replay), t)"
  "claim_count ''daily_mission'' demo_day_db 1 20000 2 = 0"
  by (simp_all add: claim_game_reward_tx_def Let_def store_run demo_claim_command_def demo_day_db_def
      demo_mutation_def valid_amount_def fzero_def merge_progress_def merge_mission_def tbl_get_Cons
      claim_count_def mission_claim_count_def tbl_select_def sql_max_def sat_i32_def in_i32_def
      insert_game_claim_def tbl_has_Cons tbl_has_Nil)

theorem game_reward_level_once_witness:
  "\<exists>out replay t. claim_game_reward_tx empty_rules (demo_claim_command 20000 1) demo_mutation demo_day_db
      = Inr ((out, replay), t)
    \<and> (\<forall>x t'. claim_game_reward_tx empty_rules (demo_claim_command 20000 1) demo_mutation t \<noteq> Inr (x, t'))"
proof -
  obtain out replay t where r: "claim_game_reward_tx empty_rules (demo_claim_command 20000 1) demo_mutation
      demo_day_db = Inr ((out, replay), t)" using demo_game_claim(1) by blast
  have "claim_count (grc_kind (demo_claim_command 20000 1)) demo_day_db (mu_usn demo_mutation)
      (grc_local_day (demo_claim_command 20000 1)) (grc_id (demo_claim_command 20000 1)) < i32_max"
    using demo_game_claim(2) by (simp add: demo_claim_command_def demo_mutation_def)
  from game_reward_level_once [OF r this, of "demo_claim_command 20000 1" demo_mutation empty_rules] r
  show ?thesis by (simp add: demo_claim_command_def)
qed

text \<open>C16: a mission level reported at login cannot be claimed on a later day: the login counts the claims of
  all days, the claim only those of its own day. Once a mission has been claimed on one day, the level
  the next login reports is at least 2, but on a new day only level 1 is accepted, so that a claim with the
  reported level is refused as already claimed, although the mission's quantity suffices.\<close>

theorem reported_mission_level_refused:
  assumes "claim_game_reward_tx rules c m s = Inr ((out, replay), t)" "grc_kind c = ''daily_mission''"
    and "mission_claim_count t (mu_usn m) day (grc_id c) = 0" "day \<noteq> grc_local_day c"
    and "c' = c\<lparr>grc_local_day := day, grc_level := daily_mission_level t (mu_usn m) (grc_id c)\<rparr>"
    and "mu_usn m' = mu_usn m"
  shows "2 \<le> daily_mission_level t (mu_usn m) (grc_id c)
    \<and> claim_game_reward_tx rules' c' m' t = Inl (Domain AlreadyClaimed)"
  using assms(1)
proof (cases rule: claim_game_Inr)
  case (1 a s1 s2 gs)
  let ?u = "mu_usn m" let ?i = "grc_id c"
  note kept = tx_relD [OF game_claims_kept 1(8)]
  from insert_game_claim_Inr [OF 1(7)] kept assms(2)
  have claims: "daily_mission_claims t
      = tbl_put (?u, grc_local_day c, ?i, grc_level c) (mu_committed_at m) (daily_mission_claims s1)"
    and fresh: "\<not> tbl_has (daily_mission_claims s1) (?u, grc_local_day c, ?i, grc_level c)"
    and mis: "daily_missions t = daily_missions s1" by (auto split: if_splits)
  have two: "2 \<le> daily_mission_level t ?u ?i"
    unfolding daily_mission_level_def claims length_select_put [OF fresh] by simp
  from merge_progress_Inr [OF 1(4)] mis assms(2) obtain r where
    r: "tbl_get (daily_missions t) (?u, ?i) = Some r" "dmr_quantity r = a" by auto
  have "\<not> flt_less (sql_max a (grc_quantity c)) (grc_threshold c)"
    using 1(2,3,5) by (intro flt_less_sql_max) (auto simp: valid_amount_iff)
  with 1(2,3) r two assms(2-6) show ?thesis
    by (simp add: claim_game_reward_tx_def Let_def store_run merge_progress_def merge_mission_def claim_count_def
        mission_claim_count_def sat_i32_def in_i32_def)
qed

theorem reported_mission_level_refused_witness:
  "\<exists>out replay t. claim_game_reward_tx empty_rules (demo_claim_command 20000 1) demo_mutation demo_day_db
      = Inr ((out, replay), t)
    \<and> claim_game_reward_tx empty_rules ((demo_claim_command 20000 1)\<lparr>grc_local_day := 20001,
        grc_level := daily_mission_level t 1 2\<rparr>) demo_mutation t = Inl (Domain AlreadyClaimed)"
proof -
  obtain out replay t where r: "claim_game_reward_tx empty_rules (demo_claim_command 20000 1) demo_mutation
      demo_day_db = Inr ((out, replay), t)" using demo_game_claim(1) by blast
  have "daily_mission_claims t = tbl_put (1, 20000, 2, 1) 10 (daily_mission_claims demo_day_db)"
    using r
  proof (cases rule: claim_game_Inr)
    case (1 a s1 s2 gs)
    with insert_game_claim_Inr [OF 1(7)] merge_progress_Inr [OF 1(4)] tx_relD [OF game_claims_kept 1(8)]
    show ?thesis by (simp add: demo_claim_command_def demo_mutation_def)
  qed
  then have "mission_claim_count t (mu_usn demo_mutation) 20001 (grc_id (demo_claim_command 20000 1)) = 0"
    by (simp add: mission_claim_count_def demo_day_db_def demo_claim_command_def tbl_select_def)
  from reported_mission_level_refused [OF r _ this _ refl, of demo_mutation empty_rules] r show ?thesis
    by (auto simp: demo_claim_command_def demo_mutation_def)
qed

end
