(* ===== verification/Records.thy ===== *)
theory Records
  imports Activities
begin

text \<open>
  The smaller writers of \<open>crates/persistence-sqlite/src/lib.rs\<close>: the profile fields, tutorials and flags,
  advertisement views, currency grants by transaction, and the records of the rhythm game.
\<close>

section \<open>Profile fields\<close>

definition last_save_time :: "int \<Rightarrow> (int \<times> string) store" where
  "last_save_time u =
     query_row (\<lambda>s. map_option (\<lambda>r. (ucr_last_save_time r, ucr_device_uuid r)) (tbl_get (user_core s) u))"

definition set_core :: "int \<Rightarrow> (user_core_row \<Rightarrow> user_core_row) \<Rightarrow> unit store" where
  "set_core u f = tx_modify (user_core_update (tbl_at u f))"

definition update_avatar_tx :: "int \<Rightarrow> rpc_mutation \<Rightarrow> int store" where
  "update_avatar_tx avatar_id m =
     tx_then (set_core (mu_usn m) (\<lambda>r. r\<lparr>ucr_avatar_id := Some avatar_id\<rparr>)) (tx_return avatar_id)"

definition update_nickname_tx :: "string \<Rightarrow> rpc_mutation \<Rightarrow> string store" where
  "update_nickname_tx nickname m =
     tx_then (if nickname \<noteq> [] then set_core (mu_usn m) (\<lambda>r. r\<lparr>ucr_nickname := nickname\<rparr>)
              else tx_return ())
       (query_row (\<lambda>s. map_option ucr_nickname (tbl_get (user_core s) (mu_usn m))))"

definition update_user_title_tx :: "int \<Rightarrow> rpc_mutation \<Rightarrow> int store" where
  "update_user_title_tx title_id m =
     tx_then (set_core (mu_usn m) (\<lambda>r. r\<lparr>ucr_title_id := Some title_id\<rparr>)) (tx_return title_id)"

text \<open>The stored GP is a real; the answer is clamped and truncated to 64 bits.\<close>

definition update_user_gp_tx :: "int \<Rightarrow> rpc_mutation \<Rightarrow> int store" where
  "update_user_gp_tx gp m =
     tx_then (tx_modify (area_state_update (tbl_at (mu_usn m, 1)
                (\<lambda>r. r\<lparr>arr_gp := sql_max (arr_gp r) (f64_of_int (max gp 0))\<rparr>))))
    (tx_bind (query_row (\<lambda>s. map_option arr_gp (tbl_get (area_state s) (mu_usn m, 1)))) (\<lambda>stored.
       tx_return (as_i64 (fclamp stored fzero (f64_of_int i64_max)))))"

definition update_avatar ::
  "(int \<Rightarrow> string + string) \<Rightarrow> (string \<Rightarrow> string + int) \<Rightarrow> rpc_mutation \<Rightarrow> int \<Rightarrow> int store" where
  "update_avatar enc dec m avatar_id = commit_rpc_mutation enc dec m (update_avatar_tx avatar_id m)"

definition update_nickname ::
  "(string \<Rightarrow> string + string) \<Rightarrow> (string \<Rightarrow> string + string) \<Rightarrow> rpc_mutation \<Rightarrow> string \<Rightarrow> string store" where
  "update_nickname enc dec m nickname = commit_rpc_mutation enc dec m (update_nickname_tx nickname m)"

definition update_user_title ::
  "(int \<Rightarrow> string + string) \<Rightarrow> (string \<Rightarrow> string + int) \<Rightarrow> rpc_mutation \<Rightarrow> int \<Rightarrow> int store" where
  "update_user_title enc dec m title_id = commit_rpc_mutation enc dec m (update_user_title_tx title_id m)"

definition update_user_gp ::
  "(int \<Rightarrow> string + string) \<Rightarrow> (string \<Rightarrow> string + int) \<Rightarrow> rpc_mutation \<Rightarrow> int \<Rightarrow> int store" where
  "update_user_gp enc dec m gp = commit_rpc_mutation enc dec m (update_user_gp_tx gp m)"

section \<open>Tutorials and flags\<close>

definition tutorial_ids :: "db \<Rightarrow> int \<Rightarrow> int list" where
  "tutorial_ids s u = map (\<lambda>((_, i), _). i) (tbl_select (\<lambda>k _. fst k = u) (tutorial_completed s))"

definition merge_tutorials_tx :: "int list \<Rightarrow> rpc_mutation \<Rightarrow> int list store" where
  "merge_tutorials_tx ids m =
     tx_then (tx_each (\<lambda>i. tx_modify (tutorial_completed_update
                (tbl_ignore (mu_usn m, i) (mu_committed_at m)))) (filter (\<lambda>i. 0 < i) ids))
             (tx_gets (\<lambda>s. tutorial_ids s (mu_usn m)))"

definition merge_tutorials ::
  "(int list \<Rightarrow> string + string) \<Rightarrow> (string \<Rightarrow> string + int list) \<Rightarrow> rpc_mutation \<Rightarrow> int list \<Rightarrow> int list store" where
  "merge_tutorials enc dec m ids = commit_rpc_mutation enc dec m (merge_tutorials_tx ids m)"

definition set_one_time_flag_tx :: "string \<Rightarrow> int \<Rightarrow> rpc_mutation \<Rightarrow> int store" where
  "set_one_time_flag_tx flag v m =
     (let row = \<lparr>flr_value = v, flr_updated_at = mu_committed_at m\<rparr>
      in tx_then (tx_modify (one_time_flags_update (tbl_upsert (mu_usn m, flag) row (\<lambda>_. row))))
                 (tx_return v))"

definition set_one_time_flag ::
  "(int \<Rightarrow> string + string) \<Rightarrow> (string \<Rightarrow> string + int) \<Rightarrow> rpc_mutation \<Rightarrow> string \<Rightarrow> int \<Rightarrow> int store" where
  "set_one_time_flag enc dec m flag v = commit_rpc_mutation enc dec m (set_one_time_flag_tx flag v m)"

section \<open>Advertisements\<close>

definition seen_ad :: "int \<Rightarrow> int \<Rightarrow> ad_state_row \<Rightarrow> ad_state_row" where
  "seen_ad local_day now r =
     \<lparr>adr_local_day = local_day,
      adr_day_count = (if adr_local_day r = local_day then adr_day_count r + 1 else 1),
      adr_total_count = adr_total_count r + 1, adr_last_view_time = now\<rparr>"

definition count_ad :: "int \<Rightarrow> int \<Rightarrow> int \<Rightarrow> int \<Rightarrow> ad_state_row store" where
  "count_ad u ad_id local_day now =
     tx_bind (tx_gets (\<lambda>s. tbl_get (ad_state s) (u, ad_id))) (\<lambda>old.
     tx_then (sql_check (case old of None \<Rightarrow> True
                | Some r \<Rightarrow> in_i64 (adr_day_count r + 1) \<and> in_i64 (adr_total_count r + 1)))
    (tx_then (tx_modify (ad_state_update (tbl_upsert (u, ad_id)
                \<lparr>adr_local_day = local_day, adr_day_count = 1, adr_total_count = 1,
                 adr_last_view_time = now\<rparr> (seen_ad local_day now))))
    (tx_bind (query_row (\<lambda>s. tbl_get (ad_state s) (u, ad_id))) (\<lambda>r.
     tx_then (read_i32 (adr_day_count r)) (tx_then (read_i32 (adr_total_count r)) (tx_return r))))))"

definition grant_ad_profile :: "int \<Rightarrow> ad_profile_grant option \<Rightarrow> follower_profile_snapshot option store" where
  "grant_ad_profile u profile =
     (case profile of None \<Rightarrow> tx_return None
      | Some p \<Rightarrow> tx_bind (update_follower_profile u (apg_profile_id p) (apg_experience p)
                            (apg_level_thresholds p)) (\<lambda>q. tx_return (Some q)))"

definition grant_ad_reward_tx ::
  "reward_rules \<Rightarrow> int \<Rightarrow> int \<Rightarrow> reward_grant list \<Rightarrow> ad_profile_grant option \<Rightarrow> rpc_mutation
   \<Rightarrow> (ad_reward_outcome \<times> ad_reward_outcome option) store" where
  "grant_ad_reward_tx rules ad_id local_day rewards profile m =
     (let u = mu_usn m; now = mu_committed_at m
      in tx_bind (count_ad u ad_id local_day now) (\<lambda>r.
         tx_bind (grant_all rules u now ''ad'' rewards) (\<lambda>applied.
         tx_bind (grant_ad_profile u profile) (\<lambda>p.
           let result = \<lparr>aro_ad_id = ad_id, aro_day_count = adr_day_count r,
                         aro_total_count = adr_total_count r, aro_last_view_time = adr_last_view_time r,
                         aro_rewards = applied, aro_profile = p\<rparr>
           in tx_return (result, Some (result\<lparr>aro_rewards := []\<rparr>))))))"

definition grant_ad_reward ::
  "(ad_reward_outcome \<Rightarrow> string + string) \<Rightarrow> (string \<Rightarrow> string + ad_reward_outcome)
   \<Rightarrow> reward_rules \<Rightarrow> rpc_mutation \<Rightarrow> int \<Rightarrow> int \<Rightarrow> reward_grant list \<Rightarrow> ad_profile_grant option
   \<Rightarrow> ad_reward_outcome store" where
  "grant_ad_reward enc dec rules m ad_id local_day rewards profile =
     commit_rpc_mutation_with_replay enc dec m
       (grant_ad_reward_tx rules ad_id local_day rewards profile m)"

section \<open>Currency by transaction\<close>

text \<open>\<open>to_json\<close> is the JSON text of a reward. The foreign key to the slot is checked on insertion.\<close>

definition grant_currency ::
  "(reward \<Rightarrow> string) \<Rightarrow> int \<Rightarrow> currency_kind \<Rightarrow> f64 \<Rightarrow> string \<Rightarrow> int \<Rightarrow> db \<Rightarrow> (store_error + bool) \<times> db" where
  "grant_currency to_json u kind amount transaction_id now =
     tx_commit (tx_then (domain_require (valid_amount amount) InvalidAmount)
       (tx_bind (tx_gets (\<lambda>s. \<not> tbl_has (reward_transactions s) (u, transaction_id))) (\<lambda>inserted.
        tx_then (if inserted
                 then tx_bind (tx_gets (\<lambda>s. tbl_has (save_slots s) u)) (\<lambda>slot.
                      tx_then (sql_check slot)
                     (tx_then (tx_modify (reward_transactions_update (tbl_put (u, transaction_id)
                         \<lparr>rtr_source = ''currency'', rtr_reward_json = to_json (RCurrency kind amount),
                          rtr_created_at = now\<rparr>)))
                        (credit u kind amount)))
                 else tx_return ())
          (tx_return inserted))))"

section \<open>Records of the rhythm game\<close>

definition music_reviews_of :: "db \<Rightarrow> int \<Rightarrow> music_review_snapshot list" where
  "music_reviews_of s u =
     map (\<lambda>((_, i, d), r). \<lparr>mr_music_id = i, mr_difficulty = d, mr_point = rvr_point r\<rparr>)
       (tbl_select (\<lambda>k _. fst k = u) (music_reviews s))"

definition bookmarks_of :: "db \<Rightarrow> int \<Rightarrow> bookmark_snapshot list" where
  "bookmarks_of s u =
     map (\<lambda>((_, i), r). \<lparr>bm_music_id = i, bm_flag = bkr_flag r\<rparr>)
       (tbl_select (\<lambda>k _. fst k = u) (music_bookmarks s))"

definition score_snapshot :: "int \<Rightarrow> int \<Rightarrow> score_row \<Rightarrow> music_score_snapshot" where
  "score_snapshot i d r =
     \<lparr>ms_music_id = i, ms_difficulty = d, ms_score = scr_score r, ms_grade = scr_grade r,
      ms_play_count = scr_play_count r, ms_combo_grade = scr_combo_grade r, ms_gp = scr_gp r,
      ms_multiple = scr_multiple r, ms_achievement = scr_achievement r,
      ms_play_type = scr_play_type r, ms_played_at = scr_played_at r,
      ms_mission_clear = scr_mission_clear r, ms_is_credit = scr_is_credit r\<rparr>"

definition music_scores_of :: "db \<Rightarrow> int \<Rightarrow> music_score_snapshot list" where
  "music_scores_of s u =
     map (\<lambda>((_, i, d), r). score_snapshot i d r) (tbl_select (\<lambda>k _. fst k = u) (music_scores s))"

definition save_music_reviews_tx ::
  "music_review_snapshot list \<Rightarrow> rpc_mutation \<Rightarrow> music_review_snapshot list store" where
  "save_music_reviews_tx reviews m =
     tx_then (tx_each (\<lambda>r. let row = \<lparr>rvr_point = mr_point r, rvr_updated_at = mu_committed_at m\<rparr>
         in tx_then (sql_check (real_col (mr_point r)))
              (tx_modify (music_reviews_update
                 (tbl_upsert (mu_usn m, mr_music_id r, mr_difficulty r) row (\<lambda>_. row))))) reviews)
       (tx_return reviews)"

definition save_bookmarks_tx :: "bookmark_snapshot list \<Rightarrow> rpc_mutation \<Rightarrow> bookmark_snapshot list store" where
  "save_bookmarks_tx rows m =
     tx_then (tx_each (\<lambda>b. let row = \<lparr>bkr_flag = bm_flag b, bkr_updated_at = mu_committed_at m\<rparr>
         in tx_then (sql_check (bm_flag b = 0 \<or> bm_flag b = 1))
              (tx_modify (music_bookmarks_update
                 (tbl_upsert (mu_usn m, bm_music_id b) row (\<lambda>_. row))))) rows)
       (tx_return rows)"

text \<open>A new score row, and the merge with the row on record.\<close>

definition new_score :: "music_score_snapshot \<Rightarrow> int \<Rightarrow> score_row" where
  "new_score x now =
     \<lparr>scr_score = ms_score x, scr_grade = ms_grade x, scr_play_count = ms_play_count x,
      scr_combo_grade = ms_combo_grade x, scr_gp = ms_gp x, scr_multiple = ms_multiple x,
      scr_achievement = ms_achievement x, scr_play_type = ms_play_type x,
      scr_played_at = ms_played_at x, scr_mission_clear = ms_mission_clear x,
      scr_is_credit = ms_is_credit x, scr_updated_at = now\<rparr>"

definition merge_score :: "score_row \<Rightarrow> score_row \<Rightarrow> score_row" where
  "merge_score n old =
     n\<lparr>scr_score := max (scr_score old) (scr_score n), scr_grade := max (scr_grade old) (scr_grade n),
       scr_play_count := max (scr_play_count old) (scr_play_count n),
       scr_combo_grade := max (scr_combo_grade old) (scr_combo_grade n),
       scr_gp := max (scr_gp old) (scr_gp n),
       scr_achievement := max (scr_achievement old) (scr_achievement n),
       scr_mission_clear := max (scr_mission_clear old) (scr_mission_clear n)\<rparr>"

definition put_score :: "int \<Rightarrow> int \<Rightarrow> music_score_snapshot \<Rightarrow> unit store" where
  "put_score u now x =
     tx_then (sql_check (real_col (ms_multiple x)))
       (tx_modify (music_scores_update (tbl_upsert (u, ms_music_id x, ms_difficulty x)
          (new_score x now) (merge_score (new_score x now)))))"

definition merge_music_scores_tx ::
  "music_score_snapshot list \<Rightarrow> rpc_mutation \<Rightarrow> music_score_snapshot list store" where
  "merge_music_scores_tx scores m =
     tx_then (tx_each (put_score (mu_usn m) (mu_committed_at m)) scores)
       (tx_gets (\<lambda>s. music_scores_of s (mu_usn m)))"

definition save_music_reviews ::
  "(music_review_snapshot list \<Rightarrow> string + string) \<Rightarrow> (string \<Rightarrow> string + music_review_snapshot list)
   \<Rightarrow> rpc_mutation \<Rightarrow> music_review_snapshot list \<Rightarrow> music_review_snapshot list store" where
  "save_music_reviews enc dec m reviews = commit_rpc_mutation enc dec m (save_music_reviews_tx reviews m)"

definition save_bookmarks ::
  "(bookmark_snapshot list \<Rightarrow> string + string) \<Rightarrow> (string \<Rightarrow> string + bookmark_snapshot list)
   \<Rightarrow> rpc_mutation \<Rightarrow> bookmark_snapshot list \<Rightarrow> bookmark_snapshot list store" where
  "save_bookmarks enc dec m rows = commit_rpc_mutation enc dec m (save_bookmarks_tx rows m)"

definition merge_music_scores ::
  "(music_score_snapshot list \<Rightarrow> string + string) \<Rightarrow> (string \<Rightarrow> string + music_score_snapshot list)
   \<Rightarrow> rpc_mutation \<Rightarrow> music_score_snapshot list \<Rightarrow> music_score_snapshot list store" where
  "merge_music_scores enc dec m scores = commit_rpc_mutation enc dec m (merge_music_scores_tx scores m)"

section \<open>Facts\<close>

lemma set_core_step: "tx_rel (player_step u) (set_core u f)"
  unfolding set_core_def by (intro player_rules)

lemma record_steps:
  "tx_rel (player_step (mu_usn m)) (update_avatar_tx i m)"
  "tx_rel (player_step (mu_usn m)) (update_nickname_tx nick m)"
  "tx_rel (player_step (mu_usn m)) (update_user_title_tx i m)"
  "tx_rel (player_step (mu_usn m)) (update_user_gp_tx gp m)"
  "tx_rel (player_step (mu_usn m)) (merge_tutorials_tx ids m)"
  "tx_rel (player_step (mu_usn m)) (set_one_time_flag_tx flag v m)"
  "tx_rel (player_step (mu_usn m)) (save_music_reviews_tx reviews m)"
  "tx_rel (player_step (mu_usn m)) (save_bookmarks_tx rows m)"
  "tx_rel (player_step (mu_usn m)) (merge_music_scores_tx scores m)"
  unfolding update_avatar_tx_def update_nickname_tx_def update_user_title_tx_def update_user_gp_tx_def
    merge_tutorials_tx_def set_one_time_flag_tx_def save_music_reviews_tx_def save_bookmarks_tx_def
    merge_music_scores_tx_def put_score_def Let_def
  by (intro player_rules set_core_step)+

lemma count_ad_step: "tx_rel (player_step u) (count_ad u i d now)"
  unfolding count_ad_def by (intro player_rules)

lemma grant_ad_profile_step: "tx_rel (player_step u) (grant_ad_profile u p)"
  unfolding grant_ad_profile_def by (intro player_rules profile_steps)

lemma grant_ad_step: "tx_rel (player_step (mu_usn m)) (grant_ad_reward_tx rules i d rs p m)"
  unfolding grant_ad_reward_tx_def Let_def
  by (intro player_rules count_ad_step grant_all_step grant_ad_profile_step)

interpretation avatar: plain_command "\<lambda>m. update_avatar_tx i m" for i
  by unfold_locales (rule record_steps)

interpretation nickname: plain_command "\<lambda>m. update_nickname_tx nick m" for nick
  by unfold_locales (rule record_steps)

interpretation user_title: plain_command "\<lambda>m. update_user_title_tx i m" for i
  by unfold_locales (rule record_steps)

interpretation user_gp: plain_command "\<lambda>m. update_user_gp_tx gp m" for gp
  by unfold_locales (rule record_steps)

interpretation tutorials: plain_command "\<lambda>m. merge_tutorials_tx ids m" for ids
  by unfold_locales (rule record_steps)

interpretation one_time_flag: plain_command "\<lambda>m. set_one_time_flag_tx flag v m" for flag v
  by unfold_locales (rule record_steps)

interpretation ad_reward: rpc_command "\<lambda>m. grant_ad_reward_tx rules i d rs p m" for rules i d rs p
  by unfold_locales (rule grant_ad_step)

interpretation reviews: plain_command "\<lambda>m. save_music_reviews_tx reviews m" for reviews
  by unfold_locales (rule record_steps)

interpretation bookmarks: plain_command "\<lambda>m. save_bookmarks_tx rows m" for rows
  by unfold_locales (rule record_steps)

interpretation scores: plain_command "\<lambda>m. merge_music_scores_tx scores m" for scores
  by unfold_locales (rule record_steps)

lemma set_core_bal: "tx_rel balances_kept (set_core u f)"
  unfolding set_core_def by (intro balances_rules) simp

lemma record_bals:
  "tx_rel balances_kept (update_avatar_tx i m)"
  "tx_rel balances_kept (update_nickname_tx nick m)"
  "tx_rel balances_kept (update_user_title_tx i m)"
  "tx_rel balances_kept (update_user_gp_tx gp m)"
  "tx_rel balances_kept (merge_tutorials_tx ids m)"
  "tx_rel balances_kept (set_one_time_flag_tx flag v m)"
  "tx_rel balances_kept (save_music_reviews_tx reviews m)"
  "tx_rel balances_kept (save_bookmarks_tx rows m)"
  "tx_rel balances_kept (merge_music_scores_tx scores m)"
  unfolding update_avatar_tx_def update_nickname_tx_def update_user_title_tx_def update_user_gp_tx_def
    merge_tutorials_tx_def set_one_time_flag_tx_def save_music_reviews_tx_def save_bookmarks_tx_def
    merge_music_scores_tx_def put_score_def Let_def
  by (intro balances_rules set_core_bal; simp)+

lemma grant_ad_bal: "tx_rel balances_kept (grant_ad_reward_tx rules i d rs p m)"
  unfolding grant_ad_reward_tx_def count_ad_def grant_ad_profile_def Let_def
  by (intro balances_rules grant_all_bal profile_bal) simp_all

section \<open>Properties\<close>

subsection \<open>Scores\<close>

text \<open>\<open>score_le\<close>: at least as good in every best field.\<close>

definition score_le :: "score_row \<Rightarrow> score_row \<Rightarrow> bool" where
  "score_le a b \<longleftrightarrow> scr_score a \<le> scr_score b \<and> scr_grade a \<le> scr_grade b
     \<and> scr_play_count a \<le> scr_play_count b \<and> scr_combo_grade a \<le> scr_combo_grade b
     \<and> scr_gp a \<le> scr_gp b \<and> scr_achievement a \<le> scr_achievement b
     \<and> scr_mission_clear a \<le> scr_mission_clear b"

lemma score_le_refl [simp]: "score_le a a"
  by (simp add: score_le_def)

lemma score_le_trans: "score_le a b \<Longrightarrow> score_le b c \<Longrightarrow> score_le a c"
  by (auto simp: score_le_def)

lemma merge_score_le: "score_le old (merge_score n old)" "score_le n (merge_score n old)"
  by (simp_all add: score_le_def merge_score_def)

lemma put_score_Inr:
  assumes "put_score u now x s = Inr (y, t)"
  shows "\<exists>r. tbl_get (music_scores t) (u, ms_music_id x, ms_difficulty x) = Some r
    \<and> score_le (new_score x now) r"
  using assms by (auto simp: put_score_def tx_simps merge_score_le split: option.split)

lemma put_score_grows:
  assumes "put_score u now x s = Inr (y, t)" "tbl_get (music_scores s) k = Some a"
  shows "\<exists>b. tbl_get (music_scores t) k = Some b \<and> score_le a b"
  using assms by (auto simp: put_score_def tx_simps merge_score_le)

lemma put_scores_grow:
  assumes "tx_each (put_score u now) scores s = Inr (y, t)" "tbl_get (music_scores s) k = Some a"
  shows "\<exists>b. tbl_get (music_scores t) k = Some b \<and> score_le a b"
  using assms
proof (induction scores arbitrary: s a)
  case (Cons x scores)
  from Cons.prems(1) obtain z s1 where p: "put_score u now x s = Inr (z, s1)"
    and rest: "tx_each (put_score u now) scores s1 = Inr (y, t)" by (auto simp: tx_simps)
  from put_score_grows [OF p Cons.prems(2)] obtain b where "tbl_get (music_scores s1) k = Some b" "score_le a b"
    by blast
  with Cons.IH [OF rest] show ?case by (blast intro: score_le_trans)
qed (simp add: tx_simps)

lemma put_scores_stored:
  assumes "tx_each (put_score u now) scores s = Inr (y, t)" "x \<in> set scores"
  shows "\<exists>r. tbl_get (music_scores t) (u, ms_music_id x, ms_difficulty x) = Some r \<and> score_le (new_score x now) r"
  using assms
proof (induction scores arbitrary: s)
  case (Cons z scores)
  from Cons.prems(1) obtain w s1 where p: "put_score u now z s = Inr (w, s1)"
    and rest: "tx_each (put_score u now) scores s1 = Inr (y, t)" by (auto simp: tx_simps)
  show ?case
  proof (cases "x = z")
    case True
    with put_score_Inr [OF p] put_scores_grow [OF rest] show ?thesis by (blast intro: score_le_trans)
  next
    case False
    with Cons.IH [OF rest] Cons.prems(2) show ?thesis by simp
  qed
qed simp

text \<open>C17: a best score is never lost: merging a list of results, in any order and with repeats, keeps every row
  on record at least as good in each best field as it was and as every submitted result for its song and
  difficulty, and the answer lists the rows now on record.\<close>

theorem scores_never_drop:
  assumes "merge_music_scores_tx scores m s = Inr (out, t)"
  shows "(\<forall>k a. tbl_get (music_scores s) k = Some a \<longrightarrow>
        (\<exists>b. tbl_get (music_scores t) k = Some b \<and> score_le a b))
    \<and> (\<forall>x \<in> set scores. \<exists>r. tbl_get (music_scores t) (mu_usn m, ms_music_id x, ms_difficulty x) = Some r
        \<and> score_le (new_score x (mu_committed_at m)) r
        \<and> score_snapshot (ms_music_id x) (ms_difficulty x) r \<in> set out)"
proof (intro conjI allI impI ballI)
  from assms have e: "tx_each (put_score (mu_usn m) (mu_committed_at m)) scores s = Inr ((), t)"
    and out: "out = music_scores_of t (mu_usn m)"
    by (auto simp: merge_music_scores_tx_def tx_simps)
  show "\<exists>b. tbl_get (music_scores t) k = Some b \<and> score_le a b" if "tbl_get (music_scores s) k = Some a" for k a
    by (rule put_scores_grow [OF e that])
  fix x assume "x \<in> set scores"
  from put_scores_stored [OF e this] obtain r
    where r: "tbl_get (music_scores t) (mu_usn m, ms_music_id x, ms_difficulty x) = Some r"
      "score_le (new_score x (mu_committed_at m)) r" by blast
  from tbl_get_SomeD [OF r(1)] have "score_snapshot (ms_music_id x) (ms_difficulty x) r \<in> set out"
    by (force simp: out music_scores_of_def tbl_select_def)
  with r show "\<exists>r. tbl_get (music_scores t) (mu_usn m, ms_music_id x, ms_difficulty x) = Some r
      \<and> score_le (new_score x (mu_committed_at m)) r
      \<and> score_snapshot (ms_music_id x) (ms_difficulty x) r \<in> set out" by blast
qed

definition demo_score :: "int \<Rightarrow> music_score_snapshot" where
  "demo_score v = \<lparr>ms_music_id = 9, ms_difficulty = 2, ms_score = v, ms_grade = 1, ms_play_count = 1,
     ms_combo_grade = 0, ms_gp = 3, ms_multiple = Fin 1, ms_achievement = 0, ms_play_type = 0,
     ms_played_at = '''', ms_mission_clear = 0, ms_is_credit = 0\<rparr>"

theorem scores_never_drop_witness:
  "\<exists>out t. merge_music_scores_tx [demo_score 700, demo_score 500] demo_mutation demo_day_db = Inr (out, t)
     \<and> (\<exists>r. tbl_get (music_scores t) (1, 9, 2) = Some r \<and> 700 \<le> scr_score r)"
proof -
  obtain out t where r: "merge_music_scores_tx [demo_score 700, demo_score 500] demo_mutation demo_day_db
      = Inr (out, t)"
    by (simp add: merge_music_scores_tx_def put_score_def store_run demo_score_def)
  from scores_never_drop [OF r] r show ?thesis
    by (auto simp: demo_score_def demo_mutation_def score_le_def new_score_def)
qed

subsection \<open>Currency by transaction\<close>

text \<open>a currency grant is paid once per transaction id: the first grant adds exactly the amount to exactly that
  balance and reports true; the same id again, with any currency, amount or time, reports false and changes
  nothing.\<close>

lemma currency_granted_once:
  assumes "grant_currency to_json u kind amount i now s = (Inr b, t)"
    and "tbl_get (currencies s) (u, currency_key kind) = Some a" "valid_amount amount'"
  shows "b = (\<not> tbl_has (reward_transactions s) (u, i))
    \<and> tbl_get (currencies t) (u, currency_key kind) = Some (if b then fadd a amount else a)
    \<and> (\<forall>k. k \<noteq> (u, currency_key kind) \<longrightarrow> tbl_get (currencies t) k = tbl_get (currencies s) k)
    \<and> grant_currency to_json' u kind' amount' i now' t = (Inr False, t)"
proof -
  from assms(1) have b: "b = (\<not> tbl_has (reward_transactions s) (u, i))"
    and t: "if b then reward_transactions t = tbl_put (u, i) \<lparr>rtr_source = ''currency'',
        rtr_reward_json = to_json (RCurrency kind amount), rtr_created_at = now\<rparr> (reward_transactions s)
        \<and> currencies t = tbl_at (u, currency_key kind) (\<lambda>a. fadd a amount) (currencies s)
      else t = s"
    by (auto simp: grant_currency_def tx_commit_Inr tx_simps credit_Inr split: if_splits)
  have "tbl_has (reward_transactions t) (u, i)" using b t by (cases b) auto
  with b t assms(2,3) show ?thesis
    by (cases b) (auto simp: grant_currency_def tx_commit_Inr tx_simps)
qed

theorem currency_granted_once_witness:
  "\<exists>t. grant_currency (\<lambda>_. ''{}'') 1 Candy (Fin 25) ''t9'' 5 demo_mail_db = (Inr True, t)
     \<and> tbl_get (currencies t) (1, ''candy'') = Some (Fin 35)
     \<and> grant_currency (\<lambda>_. ''{}'') 1 Candy (Fin 25) ''t9'' 6 t = (Inr False, t)"
proof -
  have "\<exists>t. grant_currency (\<lambda>_. ''{}'') 1 Candy (Fin 25) ''t9'' 5 demo_mail_db = (Inr True, t)"
    by (simp add: grant_currency_def store_run valid_amount_def fzero_def demo_mail_db_def demo_db_def
        credit_def tbl_has_Nil tbl_has_Cons tbl_get_Cons fadd_10_25)
  then obtain t where r: "grant_currency (\<lambda>_. ''{}'') 1 Candy (Fin 25) ''t9'' 5 demo_mail_db = (Inr True, t)"
    by blast
  have g: "tbl_get (currencies demo_mail_db) (1, currency_key Candy) = Some (Fin 10)"
    by (simp add: demo_mail_db_def tbl_get_Cons)
  have "valid_amount (Fin 25)" by (simp add: valid_amount_def fzero_def)
  from currency_granted_once [OF r g this, of "\<lambda>_. ''{}''" Candy 6] r show ?thesis
    by (simp add: fadd_10_25)
qed

end
