(* ===== verification/Passes.thy ===== *)
theory Passes
  imports Purchase
begin

text \<open>
  The season passes of \<open>crates/persistence-sqlite/src/lib.rs\<close>: the anchor that selects the season,
  buying points, claiming a step of a lane, activating the premium lane, and the snapshot.
\<close>

section \<open>Selecting a season\<close>

definition select_pass_season_in_transaction :: "int \<Rightarrow> device_clock \<Rightarrow> int \<Rightarrow> unit store" where
  "select_pass_season_in_transaction u clock season =
     (let row = \<lparr>anr_local_day = local_epoch_day clock, anr_season = season,
                 anr_utc_offset_minutes = utc_offset_minutes clock,
                 anr_updated_at = unix_seconds clock\<rparr>
      in if \<not> (1 \<le> season \<and> season \<le> 13)
         then unsupported (''pass-season:'' @ show_int season)
         else tx_bind (tx_gets (\<lambda>s. tbl_has (save_slots s) u)) (\<lambda>slot.
              tx_then (sql_check (slot \<and> - 840 \<le> utc_offset_minutes clock
                                       \<and> utc_offset_minutes clock \<le> 840))
             (tx_then (tx_modify (pass_anchors_update (tbl_upsert u row (\<lambda>_. row))))
             (tx_bind (tx_gets (\<lambda>s. tbl_get (state_revisions s) (u, ''master-data''))) (\<lambda>old.
              tx_then (sql_check (case old of None \<Rightarrow> True | Some r \<Rightarrow> in_i64 (revr_revision r + 1)))
                (tx_modify (state_revisions_update (tbl_upsert (u, ''master-data'')
                   \<lparr>revr_revision = 1, revr_last_request_seq = 0, revr_updated_at = unix_seconds clock\<rparr>
                   (\<lambda>r. r\<lparr>revr_revision := revr_revision r + 1,
                          revr_updated_at := unix_seconds clock\<rparr>)))))))))"

definition select_pass_season ::
  "int \<Rightarrow> device_clock \<Rightarrow> int \<Rightarrow> db \<Rightarrow> (store_error + unit) \<times> db" where
  "select_pass_season u clock season =
     tx_commit (select_pass_season_in_transaction u clock season)"

definition select_pass_season_rpc ::
  "(unit \<Rightarrow> string + string) \<Rightarrow> (string \<Rightarrow> string + unit)
   \<Rightarrow> rpc_mutation \<Rightarrow> device_clock \<Rightarrow> int \<Rightarrow> unit store" where
  "select_pass_season_rpc enc dec m clock season =
     commit_rpc_mutation enc dec m (select_pass_season_in_transaction (mu_usn m) clock season)"

definition state_revision :: "int \<Rightarrow> string \<Rightarrow> db \<Rightarrow> int" where
  "state_revision u part s =
     (case tbl_get (state_revisions s) (u, part) of None \<Rightarrow> 0 | Some r \<Rightarrow> revr_revision r)"

section \<open>Buying points\<close>

definition step_reached :: "(int \<times> int) list \<Rightarrow> int \<Rightarrow> int" where
  "step_reached thresholds points =
     max_or_zero (map fst (filter (\<lambda>(step, goal). goal \<le> points) thresholds))"

definition add_pass_points :: "int \<Rightarrow> int \<Rightarrow> int \<Rightarrow> int \<Rightarrow> unit store" where
  "add_pass_points u season version added =
     tx_bind (tx_gets (\<lambda>s. tbl_get (pass_progress s) (u, season, version))) (\<lambda>old.
     tx_then (sql_check (1 \<le> season \<and> season \<le> 13
                \<and> (case old of None \<Rightarrow> True | Some r \<Rightarrow> in_i64 (ppr_points r + added))))
       (tx_modify (pass_progress_update (tbl_upsert (u, season, version)
          \<lparr>ppr_points = added, ppr_step = 0\<rparr> (\<lambda>r. r\<lparr>ppr_points := ppr_points r + added\<rparr>)))))"

definition fill_pass_tx ::
  "int \<Rightarrow> int \<Rightarrow> f64 \<Rightarrow> int \<Rightarrow> (int \<times> int) list \<Rightarrow> rpc_mutation \<Rightarrow> pass_fill_outcome store" where
  "fill_pass_tx season version chocolate_cost added_points thresholds m =
     (let u = mu_usn m
      in tx_then (if flt_less fzero chocolate_cost then deduct_currency u Chocolate chocolate_cost
                  else tx_return ())
        (tx_then (add_pass_points u season version (max added_points 0))
        (tx_bind (query_row (\<lambda>s. map_option ppr_points
                    (tbl_get (pass_progress s) (u, season, version)))) (\<lambda>points.
         tx_then (tx_modify (pass_progress_update (tbl_at (u, season, version)
                    (\<lambda>r. r\<lparr>ppr_step := max (ppr_step r) (step_reached thresholds points)\<rparr>))))
        (tx_bind (currency_balances u) (\<lambda>balances.
           tx_return \<lparr>pfo_season = season, pfo_points = points, pfo_version = version,
                      pfo_chocolate = fst balances, pfo_candy = snd balances\<rparr>))))))"

definition fill_pass ::
  "(pass_fill_outcome \<Rightarrow> string + string) \<Rightarrow> (string \<Rightarrow> string + pass_fill_outcome)
   \<Rightarrow> rpc_mutation \<Rightarrow> int \<Rightarrow> int \<Rightarrow> f64 \<Rightarrow> int \<Rightarrow> (int \<times> int) list \<Rightarrow> pass_fill_outcome store" where
  "fill_pass enc dec m season version chocolate_cost added_points thresholds =
     commit_rpc_mutation enc dec m
       (fill_pass_tx season version chocolate_cost added_points thresholds m)"

section \<open>Claiming a step\<close>

definition pass_points :: "db \<Rightarrow> int \<Rightarrow> int \<Rightarrow> int \<Rightarrow> int" where
  "pass_points s u season version =
     (case tbl_get (pass_progress s) (u, season, version) of None \<Rightarrow> 0 | Some r \<Rightarrow> ppr_points r)"

definition premium_active :: "db \<Rightarrow> int \<Rightarrow> int \<Rightarrow> bool" where
  "premium_active s u season =
     (case tbl_get (pass_entitlements s) (u, season) of None \<Rightarrow> False | Some r \<Rightarrow> enr_premium r)"

text \<open>\<open>INSERT OR IGNORE\<close> also skips a row that violates \<open>CHECK(lane IN(0,1))\<close>.\<close>

definition insert_pass_claim :: "int \<Rightarrow> int \<Rightarrow> int \<Rightarrow> int \<Rightarrow> int \<Rightarrow> int \<Rightarrow> bool store" where
  "insert_pass_claim u season version lane step now =
     tx_bind (tx_gets (\<lambda>s. (lane = 0 \<or> lane = 1)
                 \<and> \<not> tbl_has (pass_claims s) (u, season, version, lane, step))) (\<lambda>inserted.
     tx_then (if inserted
              then tx_modify (pass_claims_update (tbl_put (u, season, version, lane, step) now))
              else tx_return ())
             (tx_return inserted))"

definition paid_claims :: "db \<Rightarrow> int \<Rightarrow> int \<Rightarrow> int \<Rightarrow> int" where
  "paid_claims s u season version =
     int (length (tbl_select (\<lambda>(v, sn, vn, ln, _) _. v = u \<and> sn = season \<and> vn = version \<and> ln = 1)
                    (pass_claims s)))"

definition collect_ticket :: "int \<Rightarrow> int \<Rightarrow> int \<Rightarrow> int \<Rightarrow> int \<Rightarrow> int \<Rightarrow> int \<Rightarrow> unit store" where
  "collect_ticket u season version lane step_count ticket now =
     (if lane = 1 \<and> 0 < ticket
      then tx_bind (tx_gets (\<lambda>s. paid_claims s u season version)) (\<lambda>count.
           if step_count \<le> count
           then tx_modify (ticket_collection_update (tbl_ignore (u, ticket) now))
           else tx_return ())
      else tx_return ())"

definition claim_pass_reward_tx ::
  "reward_rules \<Rightarrow> int \<Rightarrow> int \<Rightarrow> int \<Rightarrow> int \<Rightarrow> int \<Rightarrow> reward_grant list \<Rightarrow> int \<Rightarrow> int
   \<Rightarrow> rpc_mutation \<Rightarrow> (pass_claim_outcome \<times> pass_claim_outcome option) store" where
  "claim_pass_reward_tx rules season version lane step required_points rewards
       paid_lane_step_count ticket_id m =
     (let u = mu_usn m; outcome = \<lambda>granted.
            \<lparr>pco_season = season, pco_lane = lane, pco_step = step, pco_version = version,
             pco_claimed_at = mu_committed_at m, pco_rewards = granted\<rparr>
      in tx_bind (tx_gets (\<lambda>s. pass_points s u season version)) (\<lambda>points.
         tx_then (domain_require (required_points \<le> points) InsufficientBalance)
        (tx_bind (tx_gets (\<lambda>s. premium_active s u season)) (\<lambda>premium.
         tx_then (domain_require (lane = 1 \<longrightarrow> premium) InsufficientBalance)
        (tx_bind (insert_pass_claim u season version lane step (mu_committed_at m)) (\<lambda>inserted.
         tx_bind (if inserted
                  then tx_bind (grant_all rules u (mu_committed_at m) ''pass'' rewards) (\<lambda>granted.
                       tx_then (collect_ticket u season version lane paid_lane_step_count ticket_id
                                  (mu_committed_at m))
                               (tx_return granted))
                  else tx_return []) (\<lambda>granted.
           tx_return (outcome granted, Some (outcome [])))))))))"

definition claim_pass_reward ::
  "(pass_claim_outcome \<Rightarrow> string + string) \<Rightarrow> (string \<Rightarrow> string + pass_claim_outcome)
   \<Rightarrow> reward_rules \<Rightarrow> rpc_mutation \<Rightarrow> int \<Rightarrow> int \<Rightarrow> int \<Rightarrow> int \<Rightarrow> int \<Rightarrow> reward_grant list \<Rightarrow> int \<Rightarrow> int
   \<Rightarrow> pass_claim_outcome store" where
  "claim_pass_reward enc dec rules m season version lane step required_points rewards
       paid_lane_step_count ticket_id =
     commit_rpc_mutation_with_replay enc dec m
       (claim_pass_reward_tx rules season version lane step required_points rewards
          paid_lane_step_count ticket_id m)"

section \<open>Premium lanes and the snapshot\<close>

definition premium_seasons :: "db \<Rightarrow> int \<Rightarrow> int list" where
  "premium_seasons s u =
     map (\<lambda>((_, season), _). season)
       (tbl_select (\<lambda>(v, _) r. v = u \<and> enr_premium r) (pass_entitlements s))"

definition activate_passes_tx :: "int list \<Rightarrow> rpc_mutation \<Rightarrow> int list store" where
  "activate_passes_tx seasons m =
     tx_then (tx_each (\<lambda>season. tx_modify (pass_entitlements_update (tbl_upsert (mu_usn m, season)
                \<lparr>enr_premium = True, enr_lounge = False\<rparr> (\<lambda>r. r\<lparr>enr_premium := True\<rparr>))))
                (filter (\<lambda>season. 1 \<le> season \<and> season \<le> 13) seasons))
             (tx_gets (\<lambda>s. premium_seasons s (mu_usn m)))"

definition activate_passes ::
  "(int list \<Rightarrow> string + string) \<Rightarrow> (string \<Rightarrow> string + int list)
   \<Rightarrow> rpc_mutation \<Rightarrow> int list \<Rightarrow> int list store" where
  "activate_passes enc dec m seasons = commit_rpc_mutation enc dec m (activate_passes_tx seasons m)"

definition pass_progress_rows :: "db \<Rightarrow> int \<Rightarrow> pass_progress_snapshot list" where
  "pass_progress_rows s u =
     map (\<lambda>((_, season, version), r). \<lparr>pp_season = season, pp_points = ppr_points r,
                                       pp_step = ppr_step r, pp_version = version\<rparr>)
       (tbl_select (\<lambda>k _. fst k = u) (pass_progress s))"

definition pass_claim_rows :: "db \<Rightarrow> int \<Rightarrow> pass_claim_snapshot list" where
  "pass_claim_rows s u =
     map (\<lambda>((_, season, version, lane, step), claimed). \<lparr>pc_season = season, pc_version = version,
                pc_lane = lane, pc_step = step, pc_claimed_at = claimed\<rparr>)
       (tbl_select (\<lambda>k _. fst k = u) (pass_claims s))"

definition ticket_ids :: "db \<Rightarrow> int \<Rightarrow> int list" where
  "ticket_ids s u = map (\<lambda>((_, i), _). i) (tbl_select (\<lambda>k _. fst k = u) (ticket_collection s))"

definition pass_snapshot :: "int \<Rightarrow> pass_snapshot store" where
  "pass_snapshot u =
     tx_bind (query_row (\<lambda>s. tbl_get (pass_anchors s) u)) (\<lambda>a.
     tx_gets (\<lambda>s. \<lparr>ps_anchor = \<lparr>pa_anchor_day = anr_local_day a, pa_anchor_season = anr_season a,
                               pa_utc_offset_minutes = anr_utc_offset_minutes a\<rparr>,
                   ps_progress = pass_progress_rows s u, ps_claims = pass_claim_rows s u,
                   ps_premium_seasons = premium_seasons s u, ps_tickets = ticket_ids s u\<rparr>))"

section \<open>Facts\<close>

lemma select_pass_season_step: "tx_rel (player_step u) (select_pass_season_in_transaction u clock season)"
  unfolding select_pass_season_in_transaction_def Let_def
  by (intro player_rules unsupported_step)

lemma fill_pass_step: "tx_rel (player_step (mu_usn m)) (fill_pass_tx sn v cost pts th m)"
  unfolding fill_pass_tx_def add_pass_points_def Let_def by (intro player_rules reward_steps)

lemma claim_pass_step:
  "tx_rel (player_step (mu_usn m)) (claim_pass_reward_tx rules sn v lane st req rewards n ticket m)"
  unfolding claim_pass_reward_tx_def insert_pass_claim_def collect_ticket_def Let_def
  by (intro player_rules grant_all_step)

lemma activate_passes_step: "tx_rel (player_step (mu_usn m)) (activate_passes_tx seasons m)"
  unfolding activate_passes_tx_def by (intro player_rules)

interpretation select_season: plain_command
  "\<lambda>m. select_pass_season_in_transaction (mu_usn m) clock season" for clock season
  by unfold_locales (rule select_pass_season_step)

interpretation fill_pass: plain_command "\<lambda>m. fill_pass_tx sn v cost pts th m" for sn v cost pts th
  by unfold_locales (rule fill_pass_step)

interpretation claim_pass: rpc_command
  "\<lambda>m. claim_pass_reward_tx rules sn v lane st req rewards n ticket m"
  for rules sn v lane st req rewards n ticket
  by unfold_locales (rule claim_pass_step)

interpretation activate: plain_command "\<lambda>m. activate_passes_tx seasons m" for seasons
  by unfold_locales (rule activate_passes_step)

lemma fill_pass_bal: "tx_rel balances_kept (fill_pass_tx sn v cost pts th m)"
  unfolding fill_pass_tx_def add_pass_points_def Let_def
  by (intro balances_rules reward_bals) simp_all

lemma claim_pass_bal:
  "tx_rel balances_kept (claim_pass_reward_tx rules sn v lane st req rewards n ticket m)"
  unfolding claim_pass_reward_tx_def insert_pass_claim_def collect_ticket_def Let_def
  by (intro balances_rules grant_all_bal) simp_all

section \<open>Properties\<close>

lemma insert_pass_claim_Inr:
  "insert_pass_claim u season version lane step now s = Inr (inserted, t) \<longleftrightarrow>
     (inserted \<longleftrightarrow> (lane = 0 \<or> lane = 1) \<and> \<not> tbl_has (pass_claims s) (u, season, version, lane, step))
     \<and> t = (if inserted then pass_claims_update (tbl_put (u, season, version, lane, step) now) s else s)"
  by (auto simp: insert_pass_claim_def tx_simps)

lemma grant_all_claims: "tx_keeps pass_claims (grant_all rules u now source rewards)"
  by (rule grant_all_keeps) (simp_all add: reward_blind_def)

lemma collect_ticket_claims: "tx_keeps pass_claims (collect_ticket u season version lane n ticket now)"
  unfolding collect_ticket_def by (intro keeps.rules keeps.modify) simp_all

text \<open>C10: a step of a pass lane pays once, and only when it is due: a claim succeeds only with the required
  points, and on the paid lane only with the premium of that season; a successful claim of a lane
  of the season records it, and any later claim of the same step gives no reward and changes
  nothing.\<close>

theorem pass_step_claimed_once:
  assumes "claim_pass_reward_tx rules sn v lane st req rewards n ticket m s = Inr (out, t)"
  shows "req \<le> pass_points s (mu_usn m) sn v \<and> (lane = 1 \<longrightarrow> premium_active s (mu_usn m) sn)
    \<and> (lane = 0 \<or> lane = 1 \<longrightarrow> tbl_has (pass_claims t) (mu_usn m, sn, v, lane, st))
    \<and> (tbl_has (pass_claims s) (mu_usn m, sn, v, lane, st) \<longrightarrow> pco_rewards (fst out) = [] \<and> t = s)"
proof -
  let ?k = "(mu_usn m, sn, v, lane, st)"
  from assms obtain inserted s1 granted where
    due: "req \<le> pass_points s (mu_usn m) sn v" "lane = 1 \<longrightarrow> premium_active s (mu_usn m) sn"
    and i: "inserted \<longleftrightarrow> (lane = 0 \<or> lane = 1) \<and> \<not> tbl_has (pass_claims s) ?k"
    and s1: "s1 = (if inserted then pass_claims_update (tbl_put ?k (mu_committed_at m)) s else s)"
    and pay: "(if inserted
        then tx_bind (grant_all rules (mu_usn m) (mu_committed_at m) ''pass'' rewards) (\<lambda>granted.
             tx_then (collect_ticket (mu_usn m) sn v lane n ticket (mu_committed_at m)) (tx_return granted))
        else tx_return []) s1 = Inr (granted, t)"
    and out: "pco_rewards (fst out) = granted"
    by (auto simp: claim_pass_reward_tx_def Let_def tx_simps insert_pass_claim_Inr domain_require_def)
  from pay have kept: "pass_claims t = pass_claims s1"
    by (auto simp: tx_simps split: if_splits
        dest!: tx_relD [OF grant_all_claims] tx_relD [OF collect_ticket_claims])
  from pay s1 out have "\<not> inserted \<Longrightarrow> pco_rewards (fst out) = [] \<and> t = s"
    by (simp add: tx_simps)
  with due i s1 kept show ?thesis by (cases inserted) auto
qed

definition demo_pass_db :: db where
  "demo_pass_db = demo_db\<lparr>currencies := [((1, ''candy''), Fin 10), ((1, ''chocolate''), Fin 8)],
     pass_progress := [((1, 2, 1), \<lparr>ppr_points = 30, ppr_step = 3\<rparr>)],
     pass_claims := [((1, 2, 1, 0, 3), 5)]\<rparr>"

theorem pass_step_claimed_once_witness:
  "\<exists>out. claim_pass_reward_tx empty_rules 2 1 0 3 20 [] 5 0 demo_mutation demo_pass_db
       = Inr (out, demo_pass_db) \<and> pco_rewards (fst out) = []
     \<and> tbl_has (pass_claims demo_pass_db) (1, 2, 1, 0, 3)"
proof -
  have "\<exists>out. claim_pass_reward_tx empty_rules 2 1 0 3 20 [] 5 0 demo_mutation demo_pass_db
      = Inr (out, demo_pass_db)"
    by (simp add: claim_pass_reward_tx_def Let_def tx_run demo_pass_db_def demo_mutation_def pass_points_def
        domain_require_def insert_pass_claim_def tbl_get_Cons tbl_has_Cons)
  then obtain out where r: "claim_pass_reward_tx empty_rules 2 1 0 3 20 [] 5 0 demo_mutation demo_pass_db
      = Inr (out, demo_pass_db)" by blast
  moreover have "tbl_has (pass_claims demo_pass_db) (mu_usn demo_mutation, 2, 1, 0, 3)"
    by (simp add: demo_pass_db_def demo_mutation_def tbl_has_Cons)
  ultimately show ?thesis using pass_step_claimed_once [OF r] by (auto simp: demo_mutation_def)
qed

lemma add_pass_points_Inr:
  assumes "add_pass_points u season version added s = Inr (x, t)"
  shows "1 \<le> season \<and> season \<le> 13
    \<and> pass_points t u season version = pass_points s u season version + added
    \<and> currencies t = currencies s \<and> pass_claims t = pass_claims s
    \<and> pass_entitlements t = pass_entitlements s"
  using assms by (auto simp: add_pass_points_def tx_simps pass_points_def split: option.splits)

lemma step_reached_ge: "(step, goal) \<in> set thresholds \<Longrightarrow> goal \<le> points \<Longrightarrow> step \<le> step_reached thresholds points"
  unfolding step_reached_def by (rule max_or_zero_ge) force

text \<open>buying points: the season is one of the thirteen, the points grow by exactly the amount bought
  (never down), the answer shows the new total, the stored step covers every threshold that the total
  reaches, no claim is touched, and exactly the price in Chocolate is taken, which must be covered.\<close>

lemma fill_pass_effect:
  assumes "fill_pass_tx sn v cost pts thresholds m s = Inr (out, t)"
  shows "1 \<le> sn \<and> sn \<le> 13
    \<and> pfo_points out = pass_points s (mu_usn m) sn v + max pts 0
    \<and> pass_points t (mu_usn m) sn v = pfo_points out
    \<and> (\<forall>(step, goal) \<in> set thresholds. goal \<le> pfo_points out \<longrightarrow>
         (\<exists>r. tbl_get (pass_progress t) (mu_usn m, sn, v) = Some r \<and> step \<le> ppr_step r))
    \<and> pass_claims t = pass_claims s
    \<and> (if flt_less fzero cost
       then covers s (mu_usn m) Chocolate cost
         \<and> currencies t = tbl_at (mu_usn m, currency_key Chocolate) (\<lambda>a. fsub a cost) (currencies s)
       else currencies t = currencies s)"
proof -
  let ?k = "(mu_usn m, sn, v)"
  from assms obtain s1 s2 row where
    d: "(if flt_less fzero cost then deduct_currency (mu_usn m) Chocolate cost else tx_return ()) s
      = Inr ((), s1)"
    and a: "add_pass_points (mu_usn m) sn v (max pts 0) s1 = Inr ((), s2)"
    and row: "tbl_get (pass_progress s2) ?k = Some row" and out: "pfo_points out = ppr_points row"
    and t: "t = pass_progress_update (tbl_at ?k
        (\<lambda>r. r\<lparr>ppr_step := max (ppr_step r) (step_reached thresholds (ppr_points row))\<rparr>)) s2"
    by (auto simp: fill_pass_tx_def Let_def tx_simps query_row_def currency_balances_Inr)
  have s1: "pass_progress s1 = pass_progress s" "pass_claims s1 = pass_claims s"
    using d by (auto simp: deduct_Inr tx_simps split: if_splits)
  have pts2: "pass_points s2 (mu_usn m) sn v = ppr_points row" by (simp add: pass_points_def row)
  have "pass_points s1 (mu_usn m) sn v = pass_points s (mu_usn m) sn v" by (simp add: pass_points_def s1)
  with add_pass_points_Inr [OF a] pts2 out
  have points: "1 \<le> sn \<and> sn \<le> 13" "pfo_points out = pass_points s (mu_usn m) sn v + max pts 0"
    "currencies s2 = currencies s1" "pass_claims s2 = pass_claims s1" by auto
  have "pass_points t (mu_usn m) sn v = pfo_points out" by (simp add: pass_points_def t row out)
  moreover have "\<forall>(step, goal) \<in> set thresholds. goal \<le> pfo_points out \<longrightarrow>
      (\<exists>r. tbl_get (pass_progress t) ?k = Some r \<and> step \<le> ppr_step r)"
    by (auto simp: t row out dest: step_reached_ge)
  moreover have "if flt_less fzero cost then covers s (mu_usn m) Chocolate cost
      \<and> currencies t = tbl_at (mu_usn m, currency_key Chocolate) (\<lambda>a. fsub a cost) (currencies s)
      else currencies t = currencies s"
    using d points by (auto simp: t deduct_Inr tx_simps fzero_def split: if_splits)
  ultimately show ?thesis using points s1 by (simp add: t)
qed

lemma fill_pass_demo:
  "\<exists>out t. fill_pass_tx 2 1 (Fin 0) 15 [(1, 10), (4, 40)] demo_mutation demo_pass_db = Inr (out, t)"
  by (simp add: fill_pass_tx_def Let_def tx_run demo_pass_db_def demo_mutation_def demo_db_def
      fzero_def query_row_def sql_check_def in_i64_def tbl_get_Cons add_pass_points_def
      currency_balances_def tbl_set_def)

theorem fill_pass_effect_witness:
  "\<exists>out t. fill_pass_tx 2 1 (Fin 0) 15 [(1, 10), (4, 40)] demo_mutation demo_pass_db = Inr (out, t)
     \<and> pfo_points out = 45"
proof -
  obtain out t where r: "fill_pass_tx 2 1 (Fin 0) 15 [(1, 10), (4, 40)] demo_mutation demo_pass_db
      = Inr (out, t)"
    using fill_pass_demo by blast
  have "pass_points demo_pass_db (mu_usn demo_mutation) 2 1 = 30"
    by (simp add: pass_points_def demo_pass_db_def demo_mutation_def tbl_get_Cons)
  with fill_pass_effect [OF r] r show ?thesis by auto
qed

end
