(* ===== verification/Saves.thy ===== *)
theory Saves
  imports Records Quests Passes
begin

text \<open>
  Merging the snapshot a client sends with \<open>userSave\<close> (\<open>merge_user_save\<close> of
  \<open>crates/persistence-sqlite/src/lib.rs\<close>), one definition per loop of the closure, in its order. The
  snapshot is not trusted: the properties say what it can and cannot change.
\<close>

section \<open>The merge\<close>

text \<open>A balance in decimal digits, as the client writes its big integers.\<close>

definition parse_gp_balance :: "string option \<Rightarrow> store_error + f64 option" where
  "parse_gp_balance v =
    (case v of
       None \<Rightarrow> Inr None
     | Some text \<Rightarrow>
         if text = [] then Inr None
         else if 309 < length text \<or> \<not> list_all is_digit text then Inl (Domain InvalidAmount)
         else let amount = round64 (of_nat (dec_val text))
              in if is_finite amount then Inr (Some amount) else Inl (Domain InvalidAmount))"

definition nonneg_amount :: "f64 \<Rightarrow> bool" where
  "nonneg_amount v \<longleftrightarrow> is_finite v \<and> flt_le fzero v"

text \<open>\<open>UPDATE currencies SET amount=?\<close> and its \<open>MAX(amount,?)\<close> form, on the existing row only.\<close>

definition set_balance :: "int \<Rightarrow> string \<Rightarrow> f64 \<Rightarrow> unit store" where
  "set_balance u kind v = tx_modify (currencies_update (tbl_at (u, kind) (\<lambda>_. v)))"

definition raise_fans :: "int \<Rightarrow> int \<Rightarrow> unit store" where
  "raise_fans u v = tx_modify (currencies_update (tbl_at (u, ''fans'') (\<lambda>a. sql_max a (f64_of_int v))))"

definition gp1_flag :: "int \<Rightarrow> string" where
  "gp1_flag area = ''protocol.gp1.area'' @ show_int area"

definition uses_gp1 :: "db \<Rightarrow> int \<Rightarrow> int \<Rightarrow> bool" where
  "uses_gp1 s u area \<longleftrightarrow> tbl_has (one_time_flags s) (u, gp1_flag area)"

definition known_area :: "int \<Rightarrow> bool" where
  "known_area a \<longleftrightarrow> 1 \<le> a \<and> a \<le> 2"

definition save_device :: "int \<Rightarrow> string \<Rightarrow> unit store" where
  "save_device u uuid =
    (if uuid \<noteq> [] \<and> length uuid \<le> 256 then set_core u (\<lambda>r. r\<lparr>ucr_device_uuid := uuid\<rparr>) else tx_return ())"

definition mark_gp1 :: "int \<Rightarrow> int \<Rightarrow> area_save_patch \<Rightarrow> unit store" where
  "mark_gp1 u now area =
    (if known_area (asp_area area)
     then tx_bind (tx_lift (parse_gp_balance (asp_gp1 area))) (\<lambda>gp1.
       if gp1 \<noteq> None
       then tx_modify (one_time_flags_update (tbl_ignore (u, gp1_flag (asp_area area))
              \<lparr>flr_value = 1, flr_updated_at = now\<rparr>))
       else tx_return ())
     else tx_return ())"

definition save_core :: "int \<Rightarrow> int \<Rightarrow> bool \<Rightarrow> core_save_patch \<Rightarrow> unit store" where
  "save_core u now gp1_ch1 core =
     tx_then (case csp_ch1_like core of
        Some v \<Rightarrow> if \<not> gp1_ch1 \<and> nonneg_amount v then set_balance u ''ch1_like'' v else tx_return ()
      | None \<Rightarrow> tx_return ())
    (tx_then (case csp_fans core of
        Some v \<Rightarrow> if 0 \<le> v then raise_fans u v else tx_return ()
      | None \<Rightarrow> tx_return ())
    (tx_then (set_core u (\<lambda>r. r\<lparr>ucr_last_save_time := now\<rparr>))
       (tx_modify (area_state_update (tbl_at (u, 1) (\<lambda>r.
          r\<lparr>arr_current_costume := (case csp_current_costume core of None \<Rightarrow> arr_current_costume r | c \<Rightarrow> c),
            arr_current_music := (case csp_current_music core of None \<Rightarrow> arr_current_music r | c \<Rightarrow> c)\<rparr>))))))"

definition saved_fans :: "area_save_patch \<Rightarrow> int option" where
  "saved_fans area = (case asp_fans area of Some v \<Rightarrow> if 0 \<le> v then Some v else None | None \<Rightarrow> None)"

definition saved_candy :: "area_save_patch \<Rightarrow> f64 option" where
  "saved_candy area =
    (case asp_candy area of
       Some v \<Rightarrow> if asp_area area \<noteq> 1 \<and> nonneg_amount v then Some v else None | None \<Rightarrow> None)"

definition coalesce :: "'a option \<Rightarrow> 'a \<Rightarrow> 'a" where
  "coalesce v d = (case v of None \<Rightarrow> d | Some x \<Rightarrow> x)"

definition new_area_row :: "area_save_patch \<Rightarrow> area_row" where
  "new_area_row area =
    \<lparr>arr_area_level = coalesce (asp_fan_level area) 1, arr_current_costume = asp_current_costume area,
     arr_current_guitar = asp_current_guitar area, arr_current_music = asp_current_music area,
     arr_fans = coalesce (map_option f64_of_int (saved_fans area)) fzero,
     arr_candy = coalesce (saved_candy area) fzero, arr_gp = fzero, arr_unlocked = (asp_area area = 1)\<rparr>"

definition merged_area_row :: "area_save_patch \<Rightarrow> area_row \<Rightarrow> area_row" where
  "merged_area_row area r =
    r\<lparr>arr_area_level := coalesce (asp_fan_level area) (arr_area_level r),
      arr_fans := coalesce (map_option f64_of_int (saved_fans area)) (arr_fans r),
      arr_candy := coalesce (saved_candy area) (arr_candy r),
      arr_current_costume := (case asp_current_costume area of None \<Rightarrow> arr_current_costume r | c \<Rightarrow> c),
      arr_current_guitar := (case asp_current_guitar area of None \<Rightarrow> arr_current_guitar r | c \<Rightarrow> c),
      arr_current_music := (case asp_current_music area of None \<Rightarrow> arr_current_music r | c \<Rightarrow> c)\<rparr>"

definition live_like :: "area_save_patch \<Rightarrow> bool \<Rightarrow> f64 option \<Rightarrow> f64 option" where
  "live_like area gp1_used gp1 =
    (case gp1 of
       Some v \<Rightarrow> Some v
     | None \<Rightarrow> (case asp_like_amount area of
         Some v \<Rightarrow> if \<not> gp1_used \<and> nonneg_amount v then Some v else None
       | None \<Rightarrow> None))"

definition set_optional_balance :: "int \<Rightarrow> string \<Rightarrow> f64 option \<Rightarrow> unit store" where
  "set_optional_balance u kind v = (case v of None \<Rightarrow> tx_return () | Some x \<Rightarrow> set_balance u kind x)"

definition save_area :: "int \<Rightarrow> area_save_patch \<Rightarrow> unit store" where
  "save_area u area =
    (if \<not> known_area (asp_area area) then tx_return ()
     else tx_then (tx_modify (area_state_update (tbl_upsert (u, asp_area area) (new_area_row area)
             (merged_area_row area))))
         (tx_bind (tx_gets (\<lambda>s. uses_gp1 s u (asp_area area))) (\<lambda>gp1_used.
          tx_bind (tx_lift (parse_gp_balance (asp_gp1 area))) (\<lambda>gp1.
          tx_then (set_optional_balance u (if asp_area area = 2 then ''ch2_like'' else ''ch1_like'')
                     (live_like area gp1_used gp1))
         (tx_then (if asp_area area = 2
                   then tx_bind (tx_lift (parse_gp_balance (asp_gp2 area)))
                          (\<lambda>gp2. set_optional_balance u ''ch2_note'' gp2)
                   else tx_return ())
         (tx_then (case saved_fans area of None \<Rightarrow> tx_return () | Some v \<Rightarrow> raise_fans u v)
            (case asp_fan_level area of
               Some level \<Rightarrow> if asp_area area = 1 \<and> 0 < level
                             then set_core u (\<lambda>r. r\<lparr>ucr_fan_level := level\<rparr>) else tx_return ()
             | None \<Rightarrow> tx_return ())))))))"

definition saved_level :: "content_save_patch \<Rightarrow> int option" where
  "saved_level c = (case cnp_level c of Some l \<Rightarrow> if 0 < l then Some l else None | None \<Rightarrow> None)"

definition save_level :: "int \<times> string \<times> int \<Rightarrow> content_save_patch \<Rightarrow> unit store" where
  "save_level k c =
    (case saved_level c of
       None \<Rightarrow> tx_return ()
     | Some l \<Rightarrow> tx_modify (content_levels_update (tbl_upsert k
         \<lparr>lvr_level = l, lvr_reward_level = coalesce (cnp_reward_level c) 0\<rparr>
         (\<lambda>r. \<lparr>lvr_level = max (lvr_level r) l,
               lvr_reward_level = max (lvr_reward_level r) (coalesce (cnp_reward_level c) 0)\<rparr>))))"

definition save_content :: "int \<Rightarrow> int \<Rightarrow> content_save_patch \<Rightarrow> unit store" where
  "save_content u now c =
    (let k = (u, content_key (cnp_kind c), cnp_content_id c)
     in if cnp_content_id c \<le> 0 then tx_return ()
        else tx_bind (tx_gets (\<lambda>s. tbl_has (owned_content s) k)) (\<lambda>owned.
          if saved_level c = None \<and> \<not> owned then tx_return ()
          else tx_then (tx_modify (owned_content_update (tbl_ignore k
                 \<lparr>owr_area = cnp_area c, owr_acquired_at = now, owr_source = ''userSave''\<rparr>)))
              (save_level k c)))"

definition save_music :: "int \<Rightarrow> music_state_save_patch \<Rightarrow> unit store" where
  "save_music u p =
     tx_bind (tx_gets (\<lambda>s. tbl_has (owned_content s) (u, ''music'', msp_music_id p))) (\<lambda>owned.
       if msp_music_id p \<le> 0 \<or> \<not> owned then tx_return ()
       else tx_modify (music_state_update (tbl_upsert (u, msp_music_id p)
          \<lparr>msr_encore_appears = of_bool (msp_encore_appears p), msr_encore_follower_id = msp_encore_follower_id p,
           msr_encore_ready_at = 0, msr_ch3_active_until = 0\<rparr>
          (\<lambda>r. r\<lparr>msr_encore_appears := of_bool (msp_encore_appears p),
                 msr_encore_follower_id := (case msp_encore_follower_id p of
                    None \<Rightarrow> msr_encore_follower_id r | f \<Rightarrow> f)\<rparr>))))"

definition save_achievement :: "int \<Rightarrow> int \<Rightarrow> progress_save_patch \<Rightarrow> unit store" where
  "save_achievement u now p =
    (if prp_id p \<le> 0 \<or> \<not> nonneg_amount (prp_quantity p) then tx_return ()
     else if prp_id p = 10
     then tx_bind (query_row (\<lambda>s. map_option atr_attendance_count (tbl_get (attendance_state s) u))) (\<lambda>count.
       let row = \<lparr>acr_quantity = f64_of_int count, acr_quantity_text = show_int count, acr_updated_at = now\<rparr>
       in tx_modify (achievement_progress_update (tbl_upsert (u, 10) row (\<lambda>_. row))))
     else let text = coalesce (prp_quantity_text p) ''0''
       in tx_modify (achievement_progress_update (tbl_upsert (u, prp_id p)
            \<lparr>acr_quantity = prp_quantity p, acr_quantity_text = text, acr_updated_at = now\<rparr>
            (\<lambda>r. \<lparr>acr_quantity = sql_max (acr_quantity r) (prp_quantity p),
                  acr_quantity_text = (if flt_le (acr_quantity r) (prp_quantity p) then text
                                       else acr_quantity_text r),
                  acr_updated_at = now\<rparr>))))"

definition save_mission :: "int \<Rightarrow> int \<Rightarrow> progress_save_patch \<Rightarrow> unit store" where
  "save_mission u now p =
    (if prp_id p \<le> 0 \<or> \<not> nonneg_amount (prp_quantity p) then tx_return ()
     else tx_modify (daily_missions_update (tbl_upsert (u, prp_id p)
        \<lparr>dmr_quantity = prp_quantity p, dmr_updated_at = now\<rparr>
        (\<lambda>r. \<lparr>dmr_quantity = sql_max (dmr_quantity r) (prp_quantity p), dmr_updated_at = now\<rparr>))))"

definition save_skill :: "int \<Rightarrow> skill_activation_save_patch \<Rightarrow> unit store" where
  "save_skill u p =
    (if sap_skill_id p \<le> 0 then tx_return ()
     else tx_modify (skill_activation_update (tbl_upsert (u, sap_skill_id p)
        \<lparr>skr_active = sap_active p, skr_active_from = sap_active_from p,
         skr_active_until = sap_active_until p, skr_reset_ready_at = 0\<rparr>
        (\<lambda>r. r\<lparr>skr_active := (if skr_active_from r \<le> sap_active_from p then sap_active p else skr_active r),
               skr_active_from := max (skr_active_from r) (sap_active_from p),
               skr_active_until := max (skr_active_until r) (sap_active_until p)\<rparr>))))"

definition save_messenger :: "int \<Rightarrow> int \<Rightarrow> messenger_save_patch \<Rightarrow> unit store" where
  "save_messenger u now p =
    (if mgp_room_id p \<le> 0 then tx_return ()
     else tx_modify (messenger_rooms_update (tbl_upsert (u, mgp_room_id p)
        \<lparr>mrr_state = 0, mrr_last_confirm_index = mgp_last_confirm_index p,
         mrr_unlock_group_list = mgp_unlock_group_list p,
         mrr_update_time_ticks = mgp_update_time_ticks p, mrr_updated_at = now\<rparr>
        (\<lambda>r. r\<lparr>mrr_last_confirm_index := mgp_last_confirm_index p,
               mrr_unlock_group_list := mgp_unlock_group_list p,
               mrr_update_time_ticks := mgp_update_time_ticks p, mrr_updated_at := now\<rparr>))))"

definition saved_points :: "int \<Rightarrow> int \<Rightarrow> int \<Rightarrow> int" where
  "saved_points multiplier current points =
    (if current < points
     then sat_i64 (current + sat_i64 (sat_i64 (points - current) * max multiplier 1))
     else current)"

definition save_pass :: "int \<Rightarrow> int \<Rightarrow> (int \<times> int \<times> int) list \<Rightarrow> pass_progress_save_patch \<Rightarrow> unit store" where
  "save_pass u multiplier thresholds p =
    (if \<not> (1 \<le> ppp_season p \<and> ppp_season p \<le> 13) \<or> ppp_points p < 0 \<or> ppp_version p < 0 then tx_return ()
     else let k = (u, ppp_season p, ppp_version p) in
       tx_bind (tx_gets (\<lambda>s. tbl_get (pass_progress s) k)) (\<lambda>row.
       tx_then (read_i32 (case row of None \<Rightarrow> 0 | Some r \<Rightarrow> ppr_step r))
         (let current = (case row of None \<Rightarrow> 0 | Some r \<Rightarrow> ppr_points r);
              current_step = (case row of None \<Rightarrow> 0 | Some r \<Rightarrow> ppr_step r);
              points = saved_points multiplier current (ppp_points p);
              inferred = max_or_zero (map (\<lambda>(_, step, _). step)
                (filter (\<lambda>(season, _, target). season = ppp_season p \<and> target \<le> points) thresholds));
              new = \<lparr>ppr_points = points, ppr_step = max (max current_step (ppp_step p)) inferred\<rparr>
          in tx_modify (pass_progress_update (tbl_upsert k new (\<lambda>_. new))))))"

definition raise_condition :: "int \<Rightarrow> int \<Rightarrow> int \<times> f64 \<Rightarrow> unit store" where
  "raise_condition u stage iq =
    (if nonneg_amount (snd iq)
     then tx_modify (quest_conditions_update (tbl_set
        (\<lambda>k r. k = (u, 1, stage, fst iq) \<and> \<not> qcr_claimed r)
        (\<lambda>r. r\<lparr>qcr_quantity := sql_max (qcr_quantity r) (snd iq)\<rparr>)))
     else tx_return ())"

definition condition_list :: "f64 \<times> f64 \<times> f64 \<Rightarrow> (int \<times> f64) list" where
  "condition_list v = (case v of (a, b, c) \<Rightarrow> [(1, a), (2, b), (3, c)])"

definition save_quests :: "int \<Rightarrow> int \<Rightarrow> follower_quest_save_patch list \<Rightarrow> unit store" where
  "save_quests u now quests =
    (if quests = [] then tx_return ()
     else tx_bind (tx_gets (\<lambda>s. active_quest s u)) (\<lambda>stage.
       tx_then (tx_modify (follower_quests_update (tbl_upsert (u, 1, stage)
          \<lparr>qur_completed = False, qur_infinite = False, qur_updated_at = now\<rparr>
          (\<lambda>r. r\<lparr>qur_updated_at := now\<rparr>))))
      (tx_then (tx_each (\<lambda>i. tx_modify (quest_conditions_update (tbl_ignore (u, 1, stage, i)
          \<lparr>qcr_quantity = fzero, qcr_claimed = False\<rparr>))) [1, 2, 3])
      (tx_bind (query_row (\<lambda>s. map_option qur_completed (tbl_get (follower_quests s) (u, 1, stage)))) (\<lambda>completed.
         if completed then tx_return ()
         else tx_each (\<lambda>saved. tx_each (raise_condition u stage) (condition_list (fqp_condition_values saved)))
                (filter (\<lambda>saved. fqp_current_id saved = stage) quests))))))"

definition merge_user_save_tx ::
  "user_save_patch \<Rightarrow> string \<Rightarrow> int \<Rightarrow> (int \<times> int \<times> int) list \<Rightarrow> rpc_mutation \<Rightarrow> string store" where
  "merge_user_save_tx patch device_uuid multiplier thresholds m =
    (let u = mu_usn m; now = mu_committed_at m in
     tx_then (save_device u device_uuid)
    (tx_then (tx_each (mark_gp1 u now) (usp_areas patch))
    (tx_bind (tx_gets (\<lambda>s. uses_gp1 s u 1)) (\<lambda>gp1_ch1.
     tx_then (case usp_core patch of None \<Rightarrow> tx_return () | Some core \<Rightarrow> save_core u now gp1_ch1 core)
    (tx_then (tx_each (save_area u) (usp_areas patch))
    (tx_then (tx_each (save_content u now) (usp_content patch))
    (tx_then (tx_each (save_music u) (usp_music_states patch))
    (tx_then (tx_each (save_achievement u now) (usp_achievements patch))
    (tx_then (tx_each (save_mission u now) (usp_daily_missions patch))
    (tx_then (tx_each (save_skill u) (usp_skill_activations patch))
    (tx_then (tx_each (save_messenger u now) (usp_messengers patch))
    (tx_then (tx_each (save_pass u multiplier thresholds) (usp_pass_progress patch))
    (tx_then (save_quests u now (usp_follower_quests patch))
    (tx_then (set_core u (\<lambda>r. r\<lparr>ucr_last_save_time := now\<rparr>))
             (tx_return ''Y'')))))))))))))))"

definition merge_user_save ::
  "(string \<Rightarrow> string + string) \<Rightarrow> (string \<Rightarrow> string + string) \<Rightarrow> rpc_mutation \<Rightarrow> user_save_patch \<Rightarrow> string
   \<Rightarrow> int \<Rightarrow> (int \<times> int \<times> int) list \<Rightarrow> string store" where
  "merge_user_save enc dec m patch device_uuid multiplier thresholds =
     commit_rpc_mutation enc dec m (merge_user_save_tx patch device_uuid multiplier thresholds m)"


section \<open>Facts\<close>

lemma save_helper_steps:
  "tx_rel (player_step u) (set_balance u kind v)" "tx_rel (player_step u) (raise_fans u n)"
  "tx_rel (player_step u) (set_optional_balance u kind ov)"
  "tx_rel (player_step u) (raise_condition u stage iq)"
  unfolding set_balance_def raise_fans_def set_optional_balance_def raise_condition_def
  by (intro player_rules own_rows_set; simp)+

lemma save_steps:
  "tx_rel (player_step u) (save_device u uuid)" "tx_rel (player_step u) (mark_gp1 u now area)"
  "tx_rel (player_step u) (save_core u now b core)" "tx_rel (player_step u) (save_area u area)"
  "tx_rel (player_step u) (save_content u now c)" "tx_rel (player_step u) (save_music u mp)"
  "tx_rel (player_step u) (save_achievement u now p)" "tx_rel (player_step u) (save_mission u now p)"
  "tx_rel (player_step u) (save_skill u sp)" "tx_rel (player_step u) (save_messenger u now mg)"
  "tx_rel (player_step u) (save_pass u k ths pp)" "tx_rel (player_step u) (save_quests u now qs)"
  unfolding save_device_def mark_gp1_def save_core_def save_area_def save_content_def save_level_def
    save_music_def save_achievement_def save_mission_def save_skill_def save_messenger_def
    save_pass_def save_quests_def Let_def
  by (intro player_rules set_core_step save_helper_steps)+

lemma merge_save_step: "tx_rel (player_step (mu_usn m)) (merge_user_save_tx patch uuid k ths m)"
  unfolding merge_user_save_tx_def Let_def by (intro player_rules set_core_step save_steps)

interpretation merge_save: plain_command "\<lambda>m. merge_user_save_tx patch uuid k ths m" for patch uuid k ths
  by unfold_locales (rule merge_save_step)

text \<open>What a snapshot never touches: the balances of the transactions, and every table of claims,
  purchases, mail, entitlements and grants.\<close>

definition live_kinds :: "string list" where
  "live_kinds = [''ch1_like'', ''ch2_like'', ''ch2_note'', ''fans'']"

definition transaction_balance :: "int \<Rightarrow> db \<Rightarrow> string \<Rightarrow> f64 option" where
  "transaction_balance u s kind =
     (if kind \<in> set live_kinds then None else tbl_get (currencies s) (u, kind))"

definition claim_tables where
  "claim_tables s = (achievement_claims s, daily_mission_claims s, affection_claims s, pass_claims s,
     ch3_chapter_claims s, purchase_transactions s, reward_transactions s, selected_rewards s)"

definition grant_tables where
  "grant_tables s = (mail s, mail_rewards s, mail_state s, pass_entitlements s, gifts s, ticket_collection s,
     ch3_energy s, ch3_stages s, ch3_drops s, affection s, attendance_days s, attendance_state s,
     buff_timers s, ad_levels s, ad_state s, event_points s, pass_anchors s)"

definition business :: "int \<Rightarrow> db \<Rightarrow> _" where
  "business u s = (transaction_balance u s, claim_tables s, grant_tables s)"

lemma business_simps:
  "business u (user_core_update f1 s) = business u s" "business u (area_state_update f2 s) = business u s"
  "business u (one_time_flags_update f3 s) = business u s" "business u (owned_content_update f4 s) = business u s"
  "business u (content_levels_update f5 s) = business u s" "business u (music_state_update f6 s) = business u s"
  "business u (achievement_progress_update f7 s) = business u s" "business u (daily_missions_update f8 s) = business u s"
  "business u (skill_activation_update f9 s) = business u s" "business u (messenger_rooms_update f10 s) = business u s"
  "business u (pass_progress_update f11 s) = business u s" "business u (follower_quests_update f12 s) = business u s"
  "business u (quest_conditions_update f13 s) = business u s"
  by (simp_all add: business_def transaction_balance_def fun_eq_iff claim_tables_def grant_tables_def)

lemma business_live:
  "kind \<in> set live_kinds \<Longrightarrow> business u (currencies_update (tbl_at (u, kind) f) s) = business u s"
  by (auto simp: business_def transaction_balance_def fun_eq_iff claim_tables_def grant_tables_def tbl_get_at)

lemma save_helper_business:
  "kind \<in> set live_kinds \<Longrightarrow> tx_keeps (business u) (set_balance u kind v)"
  "tx_keeps (business u) (raise_fans u n)"
  "kind \<in> set live_kinds \<Longrightarrow> tx_keeps (business u) (set_optional_balance u kind ov)"
  "tx_keeps (business u) (raise_condition u stage iq)"
  "tx_keeps (business u) (set_core u g)"
  unfolding set_balance_def raise_fans_def set_optional_balance_def raise_condition_def set_core_def
  by (intro keeps_rules; simp add: business_simps business_live live_kinds_def)+

lemma save_business:
  "tx_keeps (business u) (save_device u uuid)" "tx_keeps (business u) (mark_gp1 u now area)"
  "tx_keeps (business u) (save_core u now b core)" "tx_keeps (business u) (save_area u area)"
  "tx_keeps (business u) (save_content u now c)" "tx_keeps (business u) (save_music u mp)"
  "tx_keeps (business u) (save_achievement u now p)" "tx_keeps (business u) (save_mission u now p)"
  "tx_keeps (business u) (save_skill u sp)" "tx_keeps (business u) (save_messenger u now mg)"
  "tx_keeps (business u) (save_pass u k ths pp)" "tx_keeps (business u) (save_quests u now qs)"
  unfolding save_device_def mark_gp1_def save_core_def save_area_def save_content_def save_level_def
    save_music_def save_achievement_def save_mission_def save_skill_def save_messenger_def
    save_pass_def save_quests_def Let_def
  by (intro keeps_rules save_helper_business; simp add: business_simps live_kinds_def)+

lemma merge_save_business: "tx_keeps (business (mu_usn m)) (merge_user_save_tx patch uuid k ths m)"
  unfolding merge_user_save_tx_def Let_def by (intro keeps_rules save_business save_helper_business)


subsection \<open>What a snapshot can only raise\<close>

context step_relation
begin

lemma each_in: "(\<And>x. x \<in> set xs \<Longrightarrow> tx_rel R (f x)) \<Longrightarrow> tx_rel R (tx_each f xs)"
  by (induction xs) (auto intro: seq return)

end

definition leveled :: "content_save_patch list \<Rightarrow> int \<Rightarrow> int \<times> string \<times> int \<Rightarrow> bool" where
  "leveled cs u k \<longleftrightarrow> (\<exists>c\<in>set cs. k = (u, content_key (cnp_kind c), cnp_content_id c)
     \<and> 0 < cnp_content_id c \<and> (\<exists>l. cnp_level c = Some l \<and> 0 < l))"

text \<open>Every row of a table is still there and stands in \<open>le\<close> to what it was.\<close>

definition rows_grow :: "('v \<Rightarrow> 'v \<Rightarrow> bool) \<Rightarrow> ('k, 'v) table \<Rightarrow> ('k, 'v) table \<Rightarrow> bool" where
  "rows_grow le a b \<longleftrightarrow> (\<forall>k r. tbl_get a k = Some r \<longrightarrow> (\<exists>r'. tbl_get b k = Some r' \<and> le r r'))"

lemma rows_grow_refl: "(\<And>r. le r r) \<Longrightarrow> rows_grow le a a"
  by (auto simp: rows_grow_def)

lemma rows_grow_trans:
  assumes "rows_grow le a b" "rows_grow le b c" "\<And>x y z. le x y \<Longrightarrow> le y z \<Longrightarrow> le x z"
  shows "rows_grow le a c"
  unfolding rows_grow_def
proof (intro allI impI)
  fix k r assume "tbl_get a k = Some r"
  then obtain r1 where r1: "tbl_get b k = Some r1" "le r r1" using assms(1) by (auto simp: rows_grow_def)
  then obtain r2 where r2: "tbl_get c k = Some r2" "le r1 r2" using assms(2) by (auto simp: rows_grow_def)
  then show "\<exists>r'. tbl_get c k = Some r' \<and> le r r'" using r1(2) assms(3) by blast
qed

lemma rows_grow_upsert:
  "(\<And>r. le r r) \<Longrightarrow> (\<And>r. tbl_get t k = Some r \<Longrightarrow> le r (f r)) \<Longrightarrow> rows_grow le t (tbl_upsert k v f t)"
  by (auto simp: rows_grow_def)

lemma rows_grow_ignore: "(\<And>r. le r r) \<Longrightarrow> rows_grow le t (tbl_ignore k v t)"
  by (auto simp: rows_grow_def)

lemma rows_grow_set:
  "(\<And>r. le r r) \<Longrightarrow> (\<And>k r. p k r \<Longrightarrow> le r (f r)) \<Longrightarrow> rows_grow le t (tbl_set p f t)"
  by (auto simp: rows_grow_def tbl_get_set)

definition level_le :: "level_row \<Rightarrow> level_row \<Rightarrow> bool" where
  "level_le r r' \<longleftrightarrow> lvr_level r \<le> lvr_level r' \<and> lvr_reward_level r \<le> lvr_reward_level r'"

definition points_le :: "progress_row \<Rightarrow> progress_row \<Rightarrow> bool" where
  "points_le r r' \<longleftrightarrow> ppr_step r \<le> ppr_step r'
     \<and> (in_i64 (ppr_points r) \<longrightarrow> in_i64 (ppr_points r') \<and> ppr_points r \<le> ppr_points r')"

definition condition_le :: "condition_row \<Rightarrow> condition_row \<Rightarrow> bool" where
  "condition_le r r' \<longleftrightarrow> qcr_claimed r' = qcr_claimed r \<and> (qcr_claimed r \<longrightarrow> qcr_quantity r' = qcr_quantity r)"

definition stage_le :: "quest_row \<Rightarrow> quest_row \<Rightarrow> bool" where
  "stage_le r r' \<longleftrightarrow> qur_completed r' = qur_completed r \<and> qur_infinite r' = qur_infinite r"

definition grown :: "content_save_patch list \<Rightarrow> int \<Rightarrow> db \<Rightarrow> db \<Rightarrow> bool" where
  "grown cs u s t \<longleftrightarrow>
     rows_grow (=) (owned_content s) (owned_content t)
   \<and> (\<forall>k. tbl_has (owned_content t) k \<longrightarrow> tbl_has (owned_content s) k \<or> leveled cs u k)
   \<and> rows_grow level_le (content_levels s) (content_levels t)
   \<and> rows_grow points_le (pass_progress s) (pass_progress t)
   \<and> rows_grow condition_le (quest_conditions s) (quest_conditions t)
   \<and> rows_grow stage_le (follower_quests s) (follower_quests t)"

lemma le_refls [simp]: "level_le r r" "points_le p p" "condition_le c c" "stage_le q q"
  by (simp_all add: level_le_def points_le_def condition_le_def stage_le_def)

lemma grown_refl: "grown cs u s s"
  by (simp add: grown_def rows_grow_refl)

lemma grown_trans: "grown cs u s t \<Longrightarrow> grown cs u t v \<Longrightarrow> grown cs u s v"
  unfolding grown_def
  by (intro conjI; (elim conjE)?; (erule (1) rows_grow_trans; fastforce simp: level_le_def points_le_def condition_le_def stage_le_def)?)
     blast

interpretation grown: step_relation "grown cs u" for cs u
  by unfold_locales (auto intro: grown_refl grown_trans)

lemma grown_modify_other:
  "(\<And>s. owned_content (g s) = owned_content s \<and> content_levels (g s) = content_levels s
     \<and> pass_progress (g s) = pass_progress s \<and> quest_conditions (g s) = quest_conditions s
     \<and> follower_quests (g s) = follower_quests s) \<Longrightarrow> tx_rel (grown cs u) (tx_modify g)"
  by (rule grown.modify) (simp add: grown_def rows_grow_refl)

lemma grown_read:
  "tx_rel (grown cs u) (read_i32 x)" "tx_rel (grown cs u) (query_row q)"
  unfolding read_i32_def query_row_def by (intro grown.rules)+

lemma save_grown_other:
  "tx_rel (grown cs u) (save_device u uuid)" "tx_rel (grown cs u) (mark_gp1 u now area)"
  "tx_rel (grown cs u) (save_core u now b core)" "tx_rel (grown cs u) (save_area u area)"
  "tx_rel (grown cs u) (save_music u mp)"
  "tx_rel (grown cs u) (save_achievement u now p)" "tx_rel (grown cs u) (save_mission u now p)"
  "tx_rel (grown cs u) (save_skill u sp)" "tx_rel (grown cs u) (save_messenger u now mg)"
  "tx_rel (grown cs u) (set_core u g)"
  unfolding save_device_def mark_gp1_def save_core_def save_area_def
    save_music_def save_achievement_def save_mission_def save_skill_def save_messenger_def
    set_core_def set_balance_def raise_fans_def set_optional_balance_def Let_def
  by (intro grown.rules grown_read grown_modify_other; simp)+

lemma saved_points_ge:
  assumes "in_i64 current"
  shows "in_i64 (saved_points multiplier current points) \<and> current \<le> saved_points multiplier current points"
proof (cases "current < points")
  case True
  have "0 \<le> sat_i64 x" if "0 \<le> x" for x using that by (simp add: sat_i64_def clamp_int_def)
  then have "0 \<le> sat_i64 (sat_i64 (points - current) * max multiplier 1)" using True by simp
  then show ?thesis
    using assms True by (auto simp: saved_points_def sat_i64_def clamp_int_def in_i64_def)
qed (simp add: saved_points_def assms)

lemma save_content_grown:
  assumes "c \<in> set cs"
  shows "tx_rel (grown cs u) (save_content u now c)"
proof -
  let ?k = "(u, content_key (cnp_kind c), cnp_content_id c)"
  have own: "grown cs u s (owned_content_update (tbl_ignore ?k r) s)"
    if "tbl_has (owned_content s) ?k \<or> leveled cs u ?k" for s r
    using that by (auto simp: grown_def rows_grow_refl intro!: rows_grow_ignore)
  have level: "tx_rel (grown cs u) (save_level k c)" for k
    unfolding save_level_def
    by (intro grown.rules grown.modify)
      (auto simp: grown_def rows_grow_refl level_le_def intro!: rows_grow_upsert)
  have positive: "leveled cs u ?k" if "saved_level c \<noteq> None" "0 < cnp_content_id c"
    using that assms by (auto simp: leveled_def saved_level_def split: option.splits if_splits)
  show ?thesis
  proof (rule tx_relI)
    fix s t x
    assume run: "save_content u now c s = Inr (x, t)"
    show "grown cs u s t"
    proof (cases "0 < cnp_content_id c \<and> (saved_level c \<noteq> None \<or> tbl_has (owned_content s) ?k)")
      case True
      let ?r = "\<lparr>owr_area = cnp_area c, owr_acquired_at = now, owr_source = ''userSave''\<rparr>"
      have "save_level ?k c (owned_content_update (tbl_ignore ?k ?r) s) = Inr (x, t)"
        using run True by (auto simp: save_content_def Let_def tx_simps split: if_splits)
      then have "grown cs u (owned_content_update (tbl_ignore ?k ?r) s) t"
        by (rule tx_relD [OF level])
      then show ?thesis using own positive True by (blast intro: grown_trans)
    next
      case False
      then have "t = s" using run by (auto simp: save_content_def Let_def tx_simps split: if_splits)
      then show ?thesis by (simp add: grown_refl)
    qed
  qed
qed

lemma save_pass_grown: "tx_rel (grown cs u) (save_pass u k ths p)"
proof (rule tx_relI)
  fix s t x
  assume "save_pass u k ths p s = Inr (x, t)"
  then show "grown cs u s t"
    using saved_points_ge
    by (auto simp: save_pass_def Let_def tx_simps grown_def rows_grow_refl points_le_def split: if_splits
        intro!: rows_grow_upsert)
qed

lemma save_quests_grown: "tx_rel (grown cs u) (save_quests u now qs)"
proof -
  have quest: "tx_rel (grown cs u) (tx_modify (follower_quests_update (tbl_upsert k
      \<lparr>qur_completed = False, qur_infinite = False, qur_updated_at = now\<rparr> (\<lambda>r. r\<lparr>qur_updated_at := now\<rparr>))))" for k
    by (rule grown.modify) (auto simp: grown_def rows_grow_refl stage_le_def intro!: rows_grow_upsert)
  have condition: "tx_rel (grown cs u) (tx_modify (quest_conditions_update (tbl_ignore k r)))" for k r
    by (rule grown.modify) (auto simp: grown_def rows_grow_refl intro!: rows_grow_ignore)
  have raise: "tx_rel (grown cs u) (raise_condition u stage iq)" for stage iq
    unfolding raise_condition_def
    by (intro grown.rules grown.modify)
      (auto simp: grown_def rows_grow_refl condition_le_def intro!: rows_grow_set)
  show ?thesis
    unfolding save_quests_def by (intro grown.rules grown_read quest condition raise)
qed

lemma merge_save_grown: "tx_rel (grown (usp_content patch) (mu_usn m)) (merge_user_save_tx patch uuid k ths m)"
  unfolding merge_user_save_tx_def Let_def
  by (intro grown.rules grown.each_in save_grown_other save_content_grown save_pass_grown save_quests_grown)

section \<open>Properties\<close>

text \<open>C18: A client's snapshot cannot pay itself: merging it leaves every balance of the player but the
  likes, notes and fans, and every claim, purchase, mail, gift, ticket, energy, attendance and
  entitlement row exactly as it was.\<close>

theorem save_keeps_transactions:
  assumes "merge_user_save_tx patch uuid multiplier thresholds m s = Inr (r, t)"
  shows "(\<forall>kind. kind \<notin> {''ch1_like'', ''ch2_like'', ''ch2_note'', ''fans''} \<longrightarrow>
            tbl_get (currencies t) (mu_usn m, kind) = tbl_get (currencies s) (mu_usn m, kind))
       \<and> claim_tables t = claim_tables s \<and> grant_tables t = grant_tables s"
proof -
  have "business (mu_usn m) t = business (mu_usn m) s"
    using tx_relD [OF merge_save_business assms] by simp
  then have balance: "transaction_balance (mu_usn m) t = transaction_balance (mu_usn m) s"
    and tables: "claim_tables t = claim_tables s \<and> grant_tables t = grant_tables s"
    by (simp_all add: business_def)
  have "tbl_get (currencies t) (mu_usn m, kind) = tbl_get (currencies s) (mu_usn m, kind)"
    if "kind \<notin> set live_kinds" for kind
    using fun_cong [OF balance, of kind] that by (simp add: transaction_balance_def)
  with tables show ?thesis by (simp add: live_kinds_def)
qed

definition demo_snapshot :: user_save_patch where
  "demo_snapshot =
    \<lparr>usp_core = None,
     usp_areas = [\<lparr>asp_area = 1, asp_like_amount = None, asp_fans = Some 3, asp_fan_level = None,
       asp_current_costume = None, asp_current_music = None, asp_current_guitar = None,
       asp_candy = Some (Fin 999999), asp_tutorial_list = None, asp_gp1 = None, asp_gp2 = None\<rparr>],
     usp_content = [\<lparr>cnp_kind = Costume, cnp_area = 1, cnp_content_id = 5, cnp_level = Some 2, cnp_reward_level = None\<rparr>,
       \<lparr>cnp_kind = Music, cnp_area = 2, cnp_content_id = 201, cnp_level = None, cnp_reward_level = None\<rparr>],
     usp_music_states = [], usp_achievements = [], usp_daily_missions = [], usp_skill_activations = [],
     usp_messengers = [], usp_pass_progress = [], usp_follower_quests = []\<rparr>"

lemma demo_merge:
  "\<exists>t. merge_user_save_tx demo_snapshot ''device'' 1 [] demo_mutation demo_mail_db = Inr (''Y'', t)
     \<and> tbl_has (owned_content t) (1, ''costume'', 5) \<and> \<not> tbl_has (owned_content t) (1, ''music'', 201)"
  by (simp add: merge_user_save_tx_def demo_snapshot_def Let_def save_device_def mark_gp1_def known_area_def
      save_area_def save_content_def save_level_def saved_level_def save_quests_def store_run set_core_def
      parse_gp_balance_def live_like_def set_optional_balance_def saved_fans_def raise_fans_def
      demo_mutation_def demo_mail_db_def demo_db_def migration_1_def tbl_has_Nil)

theorem save_keeps_transactions_witness:
  "\<exists>t. merge_user_save_tx demo_snapshot ''device'' 1 [] demo_mutation demo_mail_db = Inr (''Y'', t)
     \<and> tbl_get (currencies t) (1, ''candy'') = Some (Fin 10)"
proof -
  obtain t where t: "merge_user_save_tx demo_snapshot ''device'' 1 [] demo_mutation demo_mail_db = Inr (''Y'', t)"
    using demo_merge by blast
  then show ?thesis
    using save_keeps_transactions [OF t] by (simp add: demo_mutation_def demo_mail_db_def tbl_get_Cons)
qed

text \<open>C19: In five tables a snapshot takes nothing back: no owned item is lost
  or moved, and an item is new only when the snapshot gives it a positive level; content levels,
  pass points and pass steps never drop; claimed conditions and completed stages stay so, and
  none becomes claimed or completed. (Likes, notes, area levels, the messenger and the encore state are overwritten with
  what the client sends and may drop.)\<close>

theorem save_only_raises:
  assumes "merge_user_save_tx patch uuid multiplier thresholds m s = Inr (r, t)"
  shows "grown (usp_content patch) (mu_usn m) s t"
  using tx_relD [OF merge_save_grown assms] .


theorem save_only_raises_witness:
  "\<exists>t. merge_user_save_tx demo_snapshot ''device'' 1 [] demo_mutation demo_mail_db = Inr (''Y'', t)
     \<and> grown (usp_content demo_snapshot) 1 demo_mail_db t
     \<and> tbl_has (owned_content t) (1, ''costume'', 5) \<and> \<not> tbl_has (owned_content t) (1, ''music'', 201)"
proof -
  obtain t where t: "merge_user_save_tx demo_snapshot ''device'' 1 [] demo_mutation demo_mail_db = Inr (''Y'', t)"
    "tbl_has (owned_content t) (1, ''costume'', 5)" "\<not> tbl_has (owned_content t) (1, ''music'', 201)"
    using demo_merge by blast
  with save_only_raises [OF t(1)] show ?thesis by (auto simp: demo_mutation_def)
qed

end
