(* ===== verification/Snapshot.thy ===== *)
theory Snapshot
  imports Saves
begin

text \<open>
  Reading a player back: \<open>player_snapshot\<close> of \<open>crates/persistence-sqlite/src/lib.rs\<close>, one definition
  per query, and the decimal text of a double that \<open>to_string\<close> prints for a mission quantity.
\<close>

section \<open>The decimal text of a double\<close>

text \<open>
  Rust prints the shortest decimal digits that read back as the same double, and of those the
  closest to it, without an exponent. \<open>dec_exp q\<close> is the exponent of the first digit of a positive
  \<open>q\<close>; 340 digits behind the point reach every double.
\<close>

definition dec_exp :: "rat \<Rightarrow> int" where
  "dec_exp q =
    (if 1 \<le> q then int (length (show_nat (nat \<lfloor>q\<rfloor>))) - 1
     else case find (\<lambda>k. 1 \<le> q * 10 ^ k) [1..<341] of Some k \<Rightarrow> - int k | None \<Rightarrow> -341)"

definition pow10 :: "int \<Rightarrow> rat" where
  "pow10 e = (if 0 \<le> e then 10 ^ nat e else 1 / 10 ^ nat (- e))"

text \<open>The \<open>n\<close>-digit decimal next to \<open>q\<close> that reads back as \<open>q\<close>, as digits and exponent.\<close>

definition dec_digits :: "rat \<Rightarrow> nat \<Rightarrow> (int \<times> int) option" where
  "dec_digits q n =
    (let e = dec_exp q - int n + 1; lo = \<lfloor>q / pow10 e\<rfloor>; hi = \<lceil>q / pow10 e\<rceil>;
         back = (\<lambda>d. round64 (of_int d * pow10 e) = Fin q)
     in if back lo \<and> (\<not> back hi \<or> q / pow10 e - of_int lo \<le> of_int hi - q / pow10 e) then Some (lo, e)
        else if back hi then Some (hi, e) else None)"

definition shortest_digits :: "rat \<Rightarrow> int \<times> int" where
  "shortest_digits q =
    (case find (\<lambda>n. dec_digits q n \<noteq> None) [1..<18] of
       Some n \<Rightarrow> the (dec_digits q n) | None \<Rightarrow> the (dec_digits q 17))"

definition place_point :: "string \<Rightarrow> int \<Rightarrow> string" where
  "place_point ds e =
    (if 0 \<le> e then ds @ replicate (nat e) (CHR ''0'')
     else let k = nat (- e) in
       if k < length ds then take (length ds - k) ds @ ''.'' @ drop (length ds - k) ds
       else ''0.'' @ replicate (k - length ds) (CHR ''0'') @ ds)"

fun show_f64 :: "f64 \<Rightarrow> string" where
  "show_f64 NaN = ''NaN''"
| "show_f64 PInf = ''inf''"
| "show_f64 NInf = ''-inf''"
| "show_f64 (Fin q) =
    (if q = 0 then ''0''
     else case shortest_digits \<bar>q\<bar> of (d, e) \<Rightarrow>
       (if q < 0 then ''-'' else []) @ place_point (show_nat (nat d)) e)"

section \<open>The queries\<close>

definition own_slice :: "int \<Rightarrow> (int \<times> 'k, 'v) table \<Rightarrow> ('k \<times> 'v) list" where
  "own_slice u t = map (\<lambda>((_, k), v). (k, v)) (tbl_select (\<lambda>k _. fst k = u) t)"

definition currency_rows :: "int \<Rightarrow> (currency_kind \<times> f64) list store" where
  "currency_rows u =
     tx_bind (tx_gets (\<lambda>s. own_slice u (currencies s)))
       (tx_collect (\<lambda>(key, amount).
          tx_bind (tx_expect (Sql ConversionFailure) (currency_from_key key)) (\<lambda>kind. tx_return (kind, amount))))"

text \<open>The candy of area 1 is the balance; without one the column is \<open>NULL\<close> and not a real.\<close>

definition area_snapshot_of :: "int \<Rightarrow> area_row \<Rightarrow> f64 \<Rightarrow> area_snapshot" where
  "area_snapshot_of area r candy =
     \<lparr>ar_area = area, ar_area_level = arr_area_level r, ar_fans = arr_fans r, ar_candy = candy,
      ar_current_costume = arr_current_costume r, ar_current_guitar = arr_current_guitar r,
      ar_current_music = arr_current_music r, ar_gp = arr_gp r, ar_unlocked = arr_unlocked r\<rparr>"

definition area_rows :: "int \<Rightarrow> area_snapshot list store" where
  "area_rows u =
     tx_bind (tx_gets (\<lambda>s. (own_slice u (area_state s), tbl_get (currencies s) (u, ''candy'')))) (\<lambda>(rows, balance).
       tx_collect (\<lambda>(area, r).
         tx_bind (if area = 1 then tx_expect (Sql InvalidColumnType) balance else tx_return (arr_candy r)) (\<lambda>candy.
           tx_return (area_snapshot_of area r candy))) rows)"

definition content_of_key :: "string \<Rightarrow> content_kind store" where
  "content_of_key key = tx_expect (Sql ConversionFailure) (content_from_key key)"

text \<open>\<open>ORDER BY kind,area,content_id\<close>; the rows come by kind and content id.\<close>

definition owned_snapshot_of :: "int \<Rightarrow> owned_row \<Rightarrow> content_kind \<Rightarrow> owned_content_snapshot" where
  "owned_snapshot_of i r kind = \<lparr>oc_kind = kind, oc_area = owr_area r, oc_content_id = i\<rparr>"

definition owned_rows :: "int \<Rightarrow> owned_content_snapshot list store" where
  "owned_rows u =
     tx_bind (tx_gets (\<lambda>s. sort_key (\<lambda>((key, i), r). (key, owr_area r, i)) (own_slice u (owned_content s))))
       (tx_collect (\<lambda>((key, i), r).
          tx_bind (content_of_key key) (\<lambda>kind. tx_return (owned_snapshot_of i r kind))))"

definition level_rows :: "int \<Rightarrow> content_level_snapshot list store" where
  "level_rows u =
     tx_bind (tx_gets (\<lambda>s. own_slice u (content_levels s)))
       (tx_collect (\<lambda>((key, i), r).
          tx_bind (content_of_key key) (\<lambda>kind.
            tx_return \<lparr>cl_kind = kind, cl_content_id = i, cl_level = lvr_level r,
                       cl_reward_level = lvr_reward_level r\<rparr>)))"

definition skill_rows :: "db \<Rightarrow> int \<Rightarrow> skill_activation_snapshot list" where
  "skill_rows s u =
     map (\<lambda>(i, r). \<lparr>sa_skill_id = i, sa_active = skr_active r, sa_active_from = skr_active_from r,
        sa_active_until = skr_active_until r, sa_reset_ready_at = skr_reset_ready_at r\<rparr>)
       (own_slice u (skill_activation s))"

definition ad_level_rows :: "db \<Rightarrow> int \<Rightarrow> ad_level_snapshot list" where
  "ad_level_rows s u =
     map (\<lambda>(i, r). \<lparr>al_ad_level_id = i, al_level = alr_level r, al_experience = alr_experience r\<rparr>)
       (own_slice u (ad_levels s))"

definition ad_state_rows :: "db \<Rightarrow> int \<Rightarrow> ad_state_snapshot list" where
  "ad_state_rows s u =
     map (\<lambda>(i, r). \<lparr>as_ad_id = i, as_day_count = adr_day_count r, as_total_count = adr_total_count r,
        as_last_view_time = adr_last_view_time r\<rparr>) (own_slice u (ad_state s))"

definition messenger_rows :: "db \<Rightarrow> int \<Rightarrow> messenger_snapshot list" where
  "messenger_rows s u =
     map (\<lambda>(i, r). \<lparr>mg_room_id = i, mg_last_confirm_index = mrr_last_confirm_index r,
        mg_unlock_group_list = mrr_unlock_group_list r, mg_update_time_ticks = mrr_update_time_ticks r\<rparr>)
       (own_slice u (messenger_rooms s))"

definition gift_rows :: "db \<Rightarrow> int \<Rightarrow> follower_gift_snapshot list" where
  "gift_rows s u = map (\<lambda>(i, q). \<lparr>fg_gift_id = i, fg_quantity = q\<rparr>) (own_slice u (gifts s))"

definition affection_claim_rows :: "db \<Rightarrow> int \<Rightarrow> follower_affection_claim_snapshot list" where
  "affection_claim_rows s u =
     map (\<lambda>((p, l), _). \<lparr>fac_profile_id = p, fac_level = l\<rparr>) (own_slice u (affection_claims s))"

definition buff_rows :: "db \<Rightarrow> int \<Rightarrow> buff_timer_snapshot list" where
  "buff_rows s u =
     map (\<lambda>(i, r). \<lparr>bt_buff_id = i, bt_active_at = bfr_active_at r, bt_expires_at = bfr_expires_at r\<rparr>)
       (own_slice u (buff_timers s))"

definition guide_rows :: "db \<Rightarrow> int \<Rightarrow> follower_quest_snapshot list" where
  "guide_rows s u =
     map (\<lambda>((_, stage), r). quest_snapshot_of s u stage r)
       (filter (\<lambda>((chain, _), _). chain = 1) (own_slice u (follower_quests s)))"

definition achievement_rows :: "db \<Rightarrow> int \<Rightarrow> progress_snapshot list" where
  "achievement_rows s u =
     map (\<lambda>(i, r). \<lparr>pr_id = i, pr_level = achievement_claim_count s u i + 1,
        pr_quantity = acr_quantity r, pr_quantity_text = acr_quantity_text r\<rparr>)
       (own_slice u (achievement_progress s))"

definition mission_rows :: "db \<Rightarrow> int \<Rightarrow> progress_snapshot list" where
  "mission_rows s u =
     map (\<lambda>(i, r). \<lparr>pr_id = i, pr_level = daily_mission_level s u i,
        pr_quantity = dmr_quantity r, pr_quantity_text = show_f64 (dmr_quantity r)\<rparr>)
       (own_slice u (daily_missions s))"

definition music_state_rows :: "db \<Rightarrow> int \<Rightarrow> music_state_snapshot list" where
  "music_state_rows s u =
     map (\<lambda>(i, r). \<lparr>mst_music_id = i, mst_encore_appears = (msr_encore_appears r \<noteq> 0),
        mst_encore_ready_at = msr_encore_ready_at r, mst_encore_follower_id = msr_encore_follower_id r,
        mst_ch3_active_until = msr_ch3_active_until r\<rparr>) (own_slice u (music_state s))"

definition slot_and_core :: "int \<Rightarrow> (slot_row \<times> user_core_row) store" where
  "slot_and_core u =
     tx_bind (query_row (\<lambda>s. tbl_get (save_slots s) u)) (\<lambda>slot.
     tx_bind (query_row (\<lambda>s. tbl_get (user_core s) u)) (\<lambda>core. tx_return (slot, core)))"

definition player_snapshot :: "int \<Rightarrow> player_snapshot store" where
  "player_snapshot u =
     tx_bind (slot_and_core u) (\<lambda>(slot, core).
     tx_bind (currency_rows u) (\<lambda>balances.
     tx_bind (area_rows u) (\<lambda>areas.
     tx_bind (owned_rows u) (\<lambda>owned.
     tx_bind (level_rows u) (\<lambda>levels.
     tx_bind (pass_snapshot u) (\<lambda>pass.
     tx_bind (ch3_snapshot_raw u) (\<lambda>ch3.
     tx_bind (sam_seck_step u) (\<lambda>samseck.
     tx_gets (\<lambda>s.
       \<lparr>pl_identity = \<lparr>id_usn = u, id_user_id = slr_user_id slot\<rparr>, pl_nickname = ucr_nickname core,
        pl_fan_level = ucr_fan_level core, pl_avatar_id = ucr_avatar_id core, pl_title_id = ucr_title_id core,
        pl_last_save_time = ucr_last_save_time core, pl_samseck_step = samseck,
        pl_device_uuid = ucr_device_uuid core, pl_currencies = balances, pl_areas = areas,
        pl_owned_content = owned, pl_content_levels = levels, pl_tutorials = tutorial_ids s u, pl_pass = pass,
        pl_skill_activations = skill_rows s u, pl_buff_timers = buff_rows s u, pl_gifts = gift_rows s u,
        pl_affection_claims = affection_claim_rows s u, pl_ad_levels = ad_level_rows s u,
        pl_ad_state = ad_state_rows s u, pl_messengers = messenger_rows s u,
        pl_follower_quests = guide_rows s u, pl_achievements = achievement_rows s u,
        pl_daily_missions = mission_rows s u, pl_ch3 = ch3, pl_music_reviews = music_reviews_of s u,
        pl_bookmarks = bookmarks_of s u, pl_music_scores = music_scores_of s u,
        pl_music_states = music_state_rows s u, pl_selected_rewards = selected_reward_rows s u\<rparr>)))))))))"


section \<open>Facts\<close>

lemma own_slice_rows: "(k, v) \<in> set (own_slice u t) \<longleftrightarrow> ((u, k), v) \<in> set t"
  by (force simp: own_slice_def tbl_select_def)

text \<open>What a row-by-row query collects, when it succeeds.\<close>

lemma collect_reads:
  assumes "tx_collect f xs s = Inr (ys, t)" "\<And>x s y t. f x s = Inr (y, t) \<Longrightarrow> t = s \<and> g x = Some y"
  shows "t = s \<and> map g xs = map Some ys"
  using assms(1)
proof (induction xs arbitrary: ys s)
  case (Cons x xs)
  then show ?case using assms(2) by (fastforce simp: tx_simps)
qed (simp add: tx_simps)

lemma currency_from_key_Some: "currency_from_key key = Some kind \<Longrightarrow> key = currency_key kind"
  by (auto simp: currency_from_key_def find_Some_iff)

lemma content_from_key_Some: "content_from_key key = Some kind \<Longrightarrow> key = content_key kind"
  by (auto simp: content_from_key_def split: if_splits)

lemma map_of_own_slice: "map_of (own_slice u t) k = tbl_get t (u, k)"
  by (induction t) (auto simp: own_slice_def tbl_select_def tbl_get_def)

lemma currency_rows_Inr:
  assumes "currency_rows u s = Inr (rows, t)"
  shows "t = s \<and> own_slice u (currencies s) = map (\<lambda>(kind, a). (currency_key kind, a)) rows"
proof -
  let ?f = "\<lambda>(key, amount :: f64). tx_bind (tx_expect (Sql ConversionFailure) (currency_from_key key))
      (\<lambda>kind. tx_return (kind, amount)) :: (currency_kind \<times> f64) store"
  have "tx_collect ?f (own_slice u (currencies s)) s = Inr (rows, t)"
    using assms by (simp add: currency_rows_def tx_simps)
  then have t: "t = s" and rows: "map (\<lambda>(key, a). map_option (\<lambda>kind. (kind, a)) (currency_from_key key))
      (own_slice u (currencies s)) = map Some rows"
    using collect_reads [of ?f "own_slice u (currencies s)" s rows t
        "\<lambda>(key, a). map_option (\<lambda>kind. (kind, a)) (currency_from_key key)"]
    by (auto simp: tx_simps)
  have "xs = map (\<lambda>(kind, a). (currency_key kind, a)) rows"
    if "map (\<lambda>(key, a). map_option (\<lambda>kind. (kind, a)) (currency_from_key key)) xs = map Some rows" for xs :: "(string \<times> f64) list"
    using that
    by (induction xs arbitrary: rows) (auto simp: Cons_eq_map_conv dest: currency_from_key_Some)
  with t rows show ?thesis by blast
qed

lemma collected_in: "map g xs = map Some ys \<Longrightarrow> y \<in> set ys \<longleftrightarrow> (\<exists>x\<in>set xs. g x = Some y)"
proof (induction xs arbitrary: ys)
  case (Cons x xs)
  then show ?case by (cases ys) auto
qed simp

lemma owned_rows_Inr:
  assumes "owned_rows u s = Inr (rows, t)"
  shows "t = s \<and> (\<exists>row\<in>set rows. oc_kind row = kind \<and> oc_content_id row = i)
      = tbl_has (owned_content s) (u, content_key kind, i)"
proof -
  let ?xs = "sort_key (\<lambda>((key, i), r). (key, owr_area r, i)) (own_slice u (owned_content s))"
  let ?f = "\<lambda>((key, i), r). tx_bind (content_of_key key) (\<lambda>kind. tx_return (owned_snapshot_of i r kind))"
  let ?g = "\<lambda>((key, i), r). map_option (owned_snapshot_of i r) (content_from_key key)"
  have run: "tx_collect ?f ?xs s = Inr (rows, t)"
    using assms by (simp add: owned_rows_def tx_simps)
  have step: "t = s \<and> ?g x = Some y" if "?f x s = Inr (y, t)" for x s y t
    using that by (cases x) (auto simp: tx_simps content_of_key_def)
  have "t = s \<and> map ?g ?xs = map Some rows"
    by (rule collect_reads [OF run]) (rule step)
  then have t: "t = s" and rows: "map ?g ?xs = map Some rows" by blast+
  have "(\<exists>row\<in>set rows. oc_kind row = kind \<and> oc_content_id row = i) \<longleftrightarrow>
      (\<exists>r. ((content_key kind, i), r) \<in> set (own_slice u (owned_content s)))"
  proof
    assume "\<exists>row\<in>set rows. oc_kind row = kind \<and> oc_content_id row = i"
    then obtain row key j r where "((key, j), r) \<in> set (own_slice u (owned_content s))"
      "map_option (owned_snapshot_of j r) (content_from_key key) = Some row" "oc_kind row = kind" "oc_content_id row = i"
      using collected_in [OF rows] by fastforce
    then show "\<exists>r. ((content_key kind, i), r) \<in> set (own_slice u (owned_content s))"
      by (auto simp: owned_snapshot_of_def dest!: content_from_key_Some)
  next
    assume "\<exists>r. ((content_key kind, i), r) \<in> set (own_slice u (owned_content s))"
    then obtain r where "((content_key kind, i), r) \<in> set ?xs" by auto
    then have "owned_snapshot_of i r kind \<in> set rows"
      using collected_in [OF rows] by force
    then show "\<exists>row\<in>set rows. oc_kind row = kind \<and> oc_content_id row = i"
      by (force simp: owned_snapshot_of_def)
  qed
  also have "\<dots> \<longleftrightarrow> tbl_has (owned_content s) (u, content_key kind, i)"
    by (auto simp: own_slice_rows tbl_has_def tbl_get_def dest: map_of_SomeD weak_map_of_SomeI)
  finally show ?thesis using t by blast
qed

lemma find_balance:
  "(case find (\<lambda>c. fst c = kind) rows of None \<Rightarrow> fzero | Some c \<Rightarrow> snd c) =
   (case map_of (map (\<lambda>(kind, a). (currency_key kind, a)) rows) (currency_key kind) of None \<Rightarrow> fzero | Some a \<Rightarrow> a)"
  by (induction rows) (auto simp: currency_key_inject)

lemma area_rows_Inr:
  assumes "area_rows u s = Inr (rows, t)"
  shows "t = s \<and> (\<forall>row\<in>set rows. ar_area row = 1 \<longrightarrow> tbl_get (currencies s) (u, ''candy'') = Some (ar_candy row))"
proof -
  let ?b = "tbl_get (currencies s) (u, ''candy'')"
  let ?f = "\<lambda>(area, r). tx_bind (if area = 1 then tx_expect (Sql InvalidColumnType) ?b else tx_return (arr_candy r))
      (\<lambda>candy. tx_return (area_snapshot_of area r candy))"
  let ?g = "\<lambda>(area, r). map_option (area_snapshot_of area r) (if area = 1 then ?b else Some (arr_candy r))"
  have run: "tx_collect ?f (own_slice u (area_state s)) s = Inr (rows, t)"
    using assms by (simp add: area_rows_def tx_simps)
  have step: "t = s \<and> ?g x = Some y" if "?f x s = Inr (y, t)" for x s y t
    using that by (cases x) (auto simp: tx_simps split: if_splits)
  have "t = s \<and> map ?g (own_slice u (area_state s)) = map Some rows"
    by (rule collect_reads [OF run]) (rule step)
  then have t: "t = s" and rows: "map ?g (own_slice u (area_state s)) = map Some rows" by blast+
  have "?b = Some (ar_candy row)" if "row \<in> set rows" "ar_area row = 1" for row
    using that collected_in [OF rows, of row] by (auto simp: area_snapshot_of_def split: if_splits)
  with t show ?thesis by blast
qed

lemma snapshot_reads:
  "tx_keeps (\<lambda>s. s) (level_rows u)" "tx_keeps (\<lambda>s. s) (slot_and_core u)" "tx_keeps (\<lambda>s. s) (pass_snapshot u)"
  "tx_keeps (\<lambda>s. s) (ch3_snapshot_raw u)" "tx_keeps (\<lambda>s. s) (sam_seck_step u)"
  unfolding slot_and_core_def level_rows_def content_of_key_def pass_snapshot_def ch3_snapshot_raw_def
    sam_seck_step_def split_def
  by (intro keeps_rules)+

text \<open>What a login reports is what the store holds, and reading changes nothing: every balance is the
  stored one (zero when there is none), an item is listed exactly when it is owned, the candy of
  area 1 is the candy balance, and the level of an achievement is one more than its claims.\<close>

lemma snapshot_reports_store:
  assumes "player_snapshot u s = Inr (p, t)"
  shows "t = s
    \<and> (\<forall>kind. player_currency p kind = (case tbl_get (currencies s) (u, currency_key kind) of None \<Rightarrow> fzero | Some a \<Rightarrow> a))
    \<and> (\<forall>kind i. (\<exists>row\<in>set (pl_owned_content p). oc_kind row = kind \<and> oc_content_id row = i)
          = tbl_has (owned_content s) (u, content_key kind, i))
    \<and> (\<forall>row\<in>set (pl_areas p). ar_area row = 1 \<longrightarrow> ar_candy row = player_currency p Candy)
    \<and> (\<forall>row\<in>set (pl_achievements p). pr_level row = achievement_claim_count s u (pr_id row) + 1)"
proof -
  obtain s1 s2 s3 s4 s5 s6 s7 core balances areas owned levels pass ch3 step where
    run: "slot_and_core u s = Inr (core, s1)" "currency_rows u s1 = Inr (balances, s2)"
      "area_rows u s2 = Inr (areas, s3)" "owned_rows u s3 = Inr (owned, s4)" "level_rows u s4 = Inr (levels, s5)"
      "pass_snapshot u s5 = Inr (pass, s6)" "ch3_snapshot_raw u s6 = Inr (ch3, s7)" "sam_seck_step u s7 = Inr (step, t)"
    and p: "pl_currencies p = balances" "pl_areas p = areas" "pl_owned_content p = owned"
      "pl_achievements p = achievement_rows t u"
    using assms by (force simp: player_snapshot_def tx_simps split: prod.splits)
  have s: "s1 = s" "s2 = s" "s3 = s" "s4 = s" "s5 = s" "s6 = s" "s7 = s" "t = s"
    using run currency_rows_Inr [OF run(2)] area_rows_Inr [OF run(3)] owned_rows_Inr [OF run(4)]
      snapshot_reads [THEN tx_relD] by metis+
  have balance: "player_currency p kind = (case tbl_get (currencies s) (u, currency_key kind) of None \<Rightarrow> fzero | Some a \<Rightarrow> a)"
    for kind
    using currency_rows_Inr [OF run(2)] s
    by (simp add: player_currency_def p find_balance map_of_own_slice [symmetric])
  have "ar_candy row = player_currency p Candy" if "row \<in> set areas" "ar_area row = 1" for row
    using area_rows_Inr [OF run(3)] that s balance [of Candy] by simp
  then show ?thesis
    using balance owned_rows_Inr [OF run(4)] s p
    by (auto simp: achievement_rows_def)
qed


definition demo_login_db :: db where
  "demo_login_db = demo_mail_db
     \<lparr>user_core := [(1, \<lparr>ucr_nickname = ''G'', ucr_fans = fzero, ucr_fan_level = 1, ucr_avatar_id = None,
        ucr_title_id = None, ucr_last_save_time = 0, ucr_device_uuid = ''d''\<rparr>)],
      owned_content := [((1, ''music'', 9), \<lparr>owr_area = 1, owr_acquired_at = 0, owr_source = ''x''\<rparr>)],
      pass_anchors := [(1, \<lparr>anr_local_day = 0, anr_season = 1, anr_utc_offset_minutes = 0, anr_updated_at = 0\<rparr>)],
      ch3_energy := [(1, \<lparr>eyr_amount = 5, eyr_cap = 5, eyr_calculated_at = 0\<rparr>)]\<rparr>"

lemma snapshot_reports_store_witness:
  "\<exists>p. player_snapshot 1 demo_login_db = Inr (p, demo_login_db) \<and> player_currency p Candy = Fin 10
     \<and> player_currency p Ch2Like = fzero
     \<and> (\<exists>row\<in>set (pl_owned_content p). oc_kind row = Music \<and> oc_content_id row = 9)"
proof -
  have "\<exists>r. player_snapshot 1 demo_login_db = Inr r"
    by (simp add: player_snapshot_def slot_and_core_def currency_rows_def area_rows_def owned_rows_def level_rows_def
        pass_snapshot_def ch3_snapshot_raw_def sam_seck_step_def store_run own_slice_def tbl_select_def
        content_of_key_def candy_key demo_login_db_def demo_mail_db_def demo_db_def migration_1_def tbl_get_Cons
        in_i32_def event_steps_def max_or_zero_def currency_from_key_def all_currencies_def content_from_key_def)
  then obtain p t where run: "player_snapshot 1 demo_login_db = Inr (p, t)" by (metis surj_pair)
  have "tbl_get (currencies demo_login_db) (1, ''candy'') = Some (Fin 10)"
    "tbl_get (currencies demo_login_db) (1, currency_key Ch2Like) = None"
    "tbl_has (owned_content demo_login_db) (1, content_key Music, 9)"
    by (simp_all add: demo_login_db_def demo_mail_db_def tbl_get_Cons tbl_has_Cons)
  then show ?thesis
    using run snapshot_reports_store [OF run] by (auto simp del: content_key.simps)
qed

end
