(* ===== verification/Commands.thy ===== *)
theory Commands
  imports Sessions Activities Snapshot
begin

text \<open>
  The program as one machine: every operation the server runs for a player, the session layer and
  the ledger around them. Here stand the properties that span the components: every command works
  on its player's rows, no history makes a balance negative, and a committed mutation refines an
  abstract request log.
\<close>

section \<open>Balances of the remaining operations\<close>

lemma bump_mail_cursor_bal: "tx_rel balances_kept (bump_mail_cursor u)"
  unfolding bump_mail_cursor_def by (intro balances_rules) simp

lemma insert_mail_row_bal: "tx_rel balances_kept (insert_mail_row u p sb b now)"
  unfolding insert_mail_row_def by (intro balances_rules) simp

lemma ensure_unique_bal: "tx_rel balances_kept (ensure_unique_content_can_be_mailed u r)"
  unfolding ensure_unique_content_can_be_mailed_def by (cases r; simp; intro balances_rules)

lemmas mail_helper_bals = bump_mail_cursor_bal insert_mail_row_bal ensure_unique_bal

lemma insert_mail_bal: "tx_rel balances_kept (insert_mail_in_transaction u p sb b reward now)"
  unfolding insert_mail_in_transaction_def by (intro balances_rules mail_helper_bals) simp_all

lemma mail_bals:
  "tx_rel balances_kept (queue_reward_mail_tx u p sb b grant now)"
  "tx_rel balances_kept (insert_generated_mail_in_transaction u sb b reward now)"
  "tx_rel balances_kept (read_mail_tx m p)" "tx_rel balances_kept (claim_mail_tx rules m p)"
  "tx_rel balances_kept (delete_mail_tx m p all)"
  unfolding queue_reward_mail_tx_def insert_generated_mail_in_transaction_def read_mail_tx_def
    claim_mail_tx_def delete_mail_tx_def
  by (intro balances_rules mail_helper_bals insert_mail_bal reward_bals; simp)+

lemma package_bal: "tx_rel balances_kept (grant_package_contents_tx contents ids m)"
  unfolding grant_package_contents_tx_def grant_package_item_def Let_def
  by (intro balances_rules reward_bals; simp)

lemma pass_bals:
  "tx_rel balances_kept (select_pass_season_in_transaction u clock season)"
  "tx_rel balances_kept (activate_passes_tx seasons m)" "tx_rel balances_kept (anchor_pass u clock)"
  unfolding select_pass_season_in_transaction_def activate_passes_tx_def anchor_pass_def Let_def
  by (intro balances_rules; simp)+

text \<open>The balances a snapshot reports are doubles, as the type \<open>f64\<close> of the source says.\<close>

definition saved_doubles :: "user_save_patch \<Rightarrow> bool" where
  "saved_doubles patch \<longleftrightarrow>
     (case usp_core patch of None \<Rightarrow> True
        | Some c \<Rightarrow> (case csp_ch1_like c of None \<Rightarrow> True | Some v \<Rightarrow> nonneg_amount v \<longrightarrow> f64_ok v))
     \<and> list_all (\<lambda>a. case asp_like_amount a of None \<Rightarrow> True | Some v \<Rightarrow> nonneg_amount v \<longrightarrow> f64_ok v)
         (usp_areas patch)"

lemma set_balance_bal: "f64_ok v \<Longrightarrow> nonneg_amount v \<Longrightarrow> tx_rel balances_kept (set_balance u kind v)"
  by (auto simp: set_balance_def tx_rel_def tx_simps balances_kept_def balances_ok_def nonneg_amount_def
      tbl_get_at split: if_splits)

lemma raised_double: "f64_ok a \<Longrightarrow> f64_ok (sql_max a (f64_of_int n))"
  by (simp add: sql_max_def f64_of_int_def f64_ok_round64)

lemma raise_fans_bal: "tx_rel balances_kept (raise_fans u n)"
  by (auto simp: raise_fans_def tx_rel_def tx_simps balances_kept_def balances_ok_def tbl_get_at
      sql_max_nonneg raised_double split: if_splits)

lemma parsed_balance:
  assumes "parse_gp_balance w = Inr (Some v)" shows "f64_ok v \<and> nonneg_amount v"
  using assms
  by (auto simp: parse_gp_balance_def nonneg_amount_def Let_def f64_ok_round64 round64_nonneg
      split: option.splits if_splits)

lemma optional_balance_bal:
  "(\<And>v. ov = Some v \<Longrightarrow> f64_ok v \<and> nonneg_amount v) \<Longrightarrow> tx_rel balances_kept (set_optional_balance u kind ov)"
  unfolding set_optional_balance_def by (cases ov) (auto intro: balances.return set_balance_bal)

lemma live_like_ok:
  assumes "live_like area b gp1 = Some v" "\<And>v. gp1 = Some v \<Longrightarrow> f64_ok v \<and> nonneg_amount v"
    and "case asp_like_amount area of None \<Rightarrow> True | Some v \<Rightarrow> nonneg_amount v \<longrightarrow> f64_ok v"
  shows "f64_ok v \<and> nonneg_amount v"
  using assms by (auto simp: live_like_def split: option.splits if_splits)

lemma save_helper_bals:
  "tx_rel balances_kept (raise_condition u stage iq)" "tx_rel balances_kept (save_device u uuid)"
  "tx_rel balances_kept (mark_gp1 u now area)" "tx_rel balances_kept (save_level k c)"
  unfolding raise_condition_def save_device_def mark_gp1_def save_level_def
  by (intro balances_rules set_core_bal; simp)+

lemma save_row_bals:
  "tx_rel balances_kept (save_content u now c)" "tx_rel balances_kept (save_music u mp)"
  "tx_rel balances_kept (save_achievement u now p)" "tx_rel balances_kept (save_mission u now p)"
  "tx_rel balances_kept (save_skill u sp)" "tx_rel balances_kept (save_messenger u now mg)"
  "tx_rel balances_kept (save_pass u k ths pp)" "tx_rel balances_kept (save_quests u now qs)"
  unfolding save_content_def save_music_def save_achievement_def save_mission_def save_skill_def
    save_messenger_def save_pass_def save_quests_def Let_def
  by (intro balances_rules save_helper_bals; simp)+

lemma save_core_bal:
  assumes "case csp_ch1_like c of None \<Rightarrow> True | Some v \<Rightarrow> nonneg_amount v \<longrightarrow> f64_ok v"
  shows "tx_rel balances_kept (save_core u now b c)"
  using assms unfolding save_core_def
  by (intro balances_rules set_core_bal raise_fans_bal set_balance_bal) (auto split: option.splits)

lemma save_area_bal:
  assumes "case asp_like_amount a of None \<Rightarrow> True | Some v \<Rightarrow> nonneg_amount v \<longrightarrow> f64_ok v"
  shows "tx_rel balances_kept (save_area u a)"
proof -
  have gp: "tx_rel balances_kept (tx_bind (tx_lift (parse_gp_balance w)) f)"
    if "\<And>gp. (\<And>v. gp = Some v \<Longrightarrow> f64_ok v \<and> nonneg_amount v) \<Longrightarrow> tx_rel balances_kept (f gp)"
    for w and f :: "f64 option \<Rightarrow> unit store"
  proof (cases "parse_gp_balance w")
    case (Inr gp)
    have "tx_rel balances_kept (f gp)" by (rule that) (use parsed_balance [of w] Inr in auto)
    then show ?thesis by (auto simp: Inr tx_rel_def tx_simps)
  qed (simp add: tx_rel_def tx_simps)
  show ?thesis
    unfolding save_area_def
    by (intro balances.cond balances.seq balances.bind [OF balances.gets] gp balances.return
        optional_balance_bal balances_modify balances.option_case set_core_bal raise_fans_bal)
      (use live_like_ok [OF _ _ assms] in auto)
qed

lemma merge_save_bal:
  assumes "saved_doubles patch" shows "tx_rel balances_kept (merge_user_save_tx patch uuid k ths m)"
  using assms unfolding merge_user_save_tx_def Let_def saved_doubles_def
  by (intro balances.seq balances.bind balances.gets balances.option_case balances.return
      set_core_bal save_helper_bals save_row_bals balances.each balances.each_in
      save_core_bal save_area_bal)
    (auto simp: list_all_iff)

section \<open>The commands\<close>

text \<open>
  \<open>player_command u s t\<close>: one of the operations the server performs for player \<open>u\<close>, with any
  arguments, takes the store from \<open>s\<close> to \<open>t\<close>.
\<close>

inductive player_command :: "int \<Rightarrow> db \<Rightarrow> db \<Rightarrow> bool" where
  mail_row: "ensure_unique_content_can_be_mailed u reward s = Inr ((), s') \<Longrightarrow>
    insert_mail_in_transaction u post_id sb b reward now s' = Inr (x1, t) \<Longrightarrow> player_command u s t"
| generated_mail: "insert_generated_mail_in_transaction u sb b reward now s = Inr (x2, t) \<Longrightarrow> player_command u s t"
| read_mail: "read_mail_tx m post_id s = Inr (x3, t) \<Longrightarrow> player_command (mu_usn m) s t"
| claim_mail: "claim_mail_tx rules m post_id s = Inr (x4, t) \<Longrightarrow> player_command (mu_usn m) s t"
| delete_mail: "delete_mail_tx m post_id all s = Inr (x5, t) \<Longrightarrow> player_command (mu_usn m) s t"
| buy_rewards: "purchase_rewards_tx rules rc m s = Inr (x6, t) \<Longrightarrow> player_command (mu_usn m) s t"
| buy_content: "purchase_content_tx cc m s = Inr (x7, t) \<Longrightarrow> player_command (mu_usn m) s t"
| buy_package: "grant_package_contents_tx contents ids m s = Inr (x8, t) \<Longrightarrow> player_command (mu_usn m) s t"
| select_season: "select_pass_season_in_transaction u clock season s = Inr (x9, t) \<Longrightarrow> player_command u s t"
| fill_pass: "fill_pass_tx sn v cost pts ths m s = Inr (x10, t) \<Longrightarrow> player_command (mu_usn m) s t"
| claim_pass: "claim_pass_reward_tx rules sn v lane st req grants n ticket m s = Inr (x11, t) \<Longrightarrow>
    player_command (mu_usn m) s t"
| activate_passes: "activate_passes_tx seasons m s = Inr (x12, t) \<Longrightarrow> player_command (mu_usn m) s t"
| stage: "settle_ch3_stage_tx rules sd nxt star score ecost cap grants gain ls m s = Inr (x13, t) \<Longrightarrow>
    player_command (mu_usn m) s t"
| chapter_reward: "claim_ch3_chapter_reward_tx rules ch num need grants cap m s = Inr (x14, t) \<Longrightarrow>
    player_command (mu_usn m) s t"
| stream: "settle_ch3_stream_tx rules i num ecost cap rolls gain ls m s = Inr (x15, t) \<Longrightarrow>
    player_command (mu_usn m) s t"
| gift: "give_follower_gift_tx p g q e ls m s = Inr (x16, t) \<Longrightarrow> player_command (mu_usn m) s t"
| select_reward: "select_reward_tx i g rg alt m s = Inr (x17, t) \<Longrightarrow> player_command (mu_usn m) s t"
| encore: "claim_music_encore_rewards_tx ers eths m s = Inr (x18, t) \<Longrightarrow> player_command (mu_usn m) s t"
| profile_rewards: "claim_follower_profile_rewards_tx rules p prs m s = Inr (x19, t) \<Longrightarrow>
    player_command (mu_usn m) s t"
| quest: "advance_follower_quest_tx rules i sub cv qths grants nxq m s = Inr (x20, t) \<Longrightarrow>
    player_command (mu_usn m) s t"
| quest_infinite: "set_follower_quest_infinite_tx m s = Inr (x21, t) \<Longrightarrow> player_command (mu_usn m) s t"
| attendance: "attendance_tx clock mode m s = Inr (x22, t) \<Longrightarrow> player_command (mu_usn m) s t"
| game_reward: "claim_game_reward_tx rules gc m s = Inr (x23, t) \<Longrightarrow> player_command (mu_usn m) s t"
| sam_seck: "claim_sam_seck_tx e p grant m s = Inr (x24, t) \<Longrightarrow> player_command (mu_usn m) s t"
| event_reward: "claim_event_reward_tx rules i grant m s = Inr (x25, t) \<Longrightarrow> player_command (mu_usn m) s t"
| avatar: "update_avatar_tx i m s = Inr (x26, t) \<Longrightarrow> player_command (mu_usn m) s t"
| nickname: "update_nickname_tx nick m s = Inr (x27, t) \<Longrightarrow> player_command (mu_usn m) s t"
| user_title: "update_user_title_tx i m s = Inr (x28, t) \<Longrightarrow> player_command (mu_usn m) s t"
| user_gp: "update_user_gp_tx gp m s = Inr (x29, t) \<Longrightarrow> player_command (mu_usn m) s t"
| tutorials: "merge_tutorials_tx ids m s = Inr (x30, t) \<Longrightarrow> player_command (mu_usn m) s t"
| flag: "set_one_time_flag_tx fl fv m s = Inr (x31, t) \<Longrightarrow> player_command (mu_usn m) s t"
| reviews: "save_music_reviews_tx rvs m s = Inr (x32, t) \<Longrightarrow> player_command (mu_usn m) s t"
| bookmarks: "save_bookmarks_tx bms m s = Inr (x33, t) \<Longrightarrow> player_command (mu_usn m) s t"
| scores: "merge_music_scores_tx scs m s = Inr (x34, t) \<Longrightarrow> player_command (mu_usn m) s t"
| ad_reward: "grant_ad_reward_tx rules i d grants prof m s = Inr (x35, t) \<Longrightarrow> player_command (mu_usn m) s t"
| currency: "grant_currency to_json u kind amount tid now s = (Inr x36, t) \<Longrightarrow> player_command u s t"
| energy: "restore_ch3_energy u now cap s = Inr (x38, t) \<Longrightarrow> player_command u s t"
| save: "saved_doubles patch \<Longrightarrow> merge_user_save_tx patch uuid mult pths m s = Inr (x37, t) \<Longrightarrow>
    player_command (mu_usn m) s t"

lemmas command_steps = insert_mail_step insert_generated_mail_step read_mail_step claim_mail_step
  delete_mail_step purchase_rewards_step purchase_content_step grant_package_step
  select_pass_season_step fill_pass_step claim_pass_step activate_passes_step settle_stage_step
  claim_chapter_step settle_stream_step give_gift_step select_reward_step claim_encore_step
  claim_profile_step advance_quest_step quest_infinite_step attendance_step claim_game_step
  claim_sam_seck_step claim_event_step record_steps grant_ad_step restore_step merge_save_step

lemmas command_bals = insert_mail_bal mail_bals purchase_rewards_bal purchase_content_bal package_bal
  pass_bals fill_pass_bal claim_pass_bal ch3_bals give_gift_bal claim_encore_bal quest_bals activity_bals
  record_bals grant_ad_bal restore_bal

lemma tx_commit_rel: "tx_rel R m \<Longrightarrow> tx_commit m s = (Inr x, t) \<Longrightarrow> R s t"
  by (simp add: tx_commit_Inr tx_relD)

lemma grant_currency_committed:
  "grant_currency to_json u kind amount tid now s = (Inr b, t) \<Longrightarrow>
     player_step u s t \<and> balances_kept s t"
proof -
  assume run: "grant_currency to_json u kind amount tid now s = (Inr b, t)"
  note commit = run [unfolded grant_currency_def]
  have "player_step u s t"
    by (rule tx_commit_rel [where R = "player_step u", OF _ commit]) (intro player_rules credit_step)
  moreover have "balances_kept s t"
    by (rule tx_commit_rel [where R = balances_kept, OF _ commit]) (intro balances_rules credit_bal; simp)
  ultimately show ?thesis by simp
qed

lemma mail_row_committed:
  assumes "ensure_unique_content_can_be_mailed u reward s = Inr (x, s')"
    and "insert_mail_in_transaction u post_id sb b reward now s' = Inr (y, t)"
  shows "player_step u s t \<and> balances_kept s t"
  using tx_relD [OF ensure_unique_step assms(1)] tx_relD [OF insert_mail_step assms(2)]
    tx_relD [OF ensure_unique_bal assms(1)] tx_relD [OF insert_mail_bal assms(2)]
  by (blast intro: player.trans balances.trans)

lemma player_command_facts: "player_command u s t \<Longrightarrow> player_step u s t \<and> balances_kept s t"
  by (induction rule: player_command.induct)
     (erule (1) mail_row_committed | erule grant_currency_committed
      | rule conjI, erule command_steps [THEN tx_relD], erule command_bals [THEN tx_relD]
      | rule conjI, erule command_steps [THEN tx_relD], erule merge_save_bal [THEN tx_relD], assumption)+

section \<open>The program\<close>

text \<open>What the server does to its store: start-up, logins and slots, the three parts of a committed
  mutation, and the commands.\<close>

inductive program_step :: "db \<Rightarrow> db \<Rightarrow> bool" where
  catalog: "configure_achievement_catalog ids now s = Inr (x, t) \<Longrightarrow> program_step s t"
| login: "begin_login_tx capability_hash clock s = Inr (session, t) \<Longrightarrow> program_step s t"
| logout: "end_session nonce now s = Inr ((), t) \<Longrightarrow> program_step s t"
| create: "create_slot_in_transaction display_name now ids s = Inr (i, t) \<Longrightarrow> program_step s t"
| switch: "request_switch u s = Inr ((), t) \<Longrightarrow> program_step s t"
| delete: "delete_inactive_slot_in_transaction u display_name s = Inr ((), t) \<Longrightarrow> program_step s t"
| advance: "active_session s m \<Longrightarrow> last_seq s (mu_nonce m) < mu_request_seq m \<Longrightarrow>
    program_step s (advanced m s)"
| ledger: "record_mutation m j s = Inr ((), t) \<Longrightarrow> program_step s t"
| command: "player_command u s t \<Longrightarrow> program_step s t"

definition program_reachable :: "db \<Rightarrow> bool" where
  "program_reachable s \<longleftrightarrow> program_step\<^sup>*\<^sup>* migration_1 s"

text \<open>A mutation committed by \<open>commit_rpc_mutation_with_replay\<close> is a run of the program.\<close>

lemma committed_program_steps:
  assumes "commit_rpc_mutation_with_replay enc dec m command s = Inr (x, t)"
    and cmd: "\<And>s y t. command s = Inr (y, t) \<Longrightarrow> player_command (mu_usn m) s t"
  shows "program_step\<^sup>*\<^sup>* s t"
proof (cases "ledger_entry s (mu_usn m) (mu_idempotency_key m)")
  case (Some r)
  with assms(1) show ?thesis by (auto simp: commit_with_replay_Inr)
next
  case None
  with assms(1) obtain replay j s' where a: "active_session s m" "last_seq s (mu_nonce m) < mu_request_seq m"
    and c: "command (advanced m s) = Inr ((x, replay), s')" and r: "record_mutation m j s' = Inr ((), t)"
    by (auto simp: commit_with_replay_Inr)
  from program_step.advance [OF a] program_step.command [OF cmd [OF c]] program_step.ledger [OF r]
  show ?thesis by (meson rtranclp.rtrancl_into_rtrancl rtranclp.rtrancl_refl)
qed

lemma seed_achievement_keeps: "tx_keeps (\<lambda>s. (frame s, currencies s, slot_complete s)) (seed_achievement now i)"
  unfolding seed_achievement_def by (intro keeps.rules keeps.modify) (simp add: frame_def slot_complete_def fun_eq_iff)

lemma catalog_keeps: "tx_keeps (\<lambda>s. (frame s, currencies s, slot_complete s)) (configure_achievement_catalog ids now)"
  unfolding configure_achievement_catalog_def Let_def by (intro keeps.rules seed_achievement_keeps)

lemma catalog_inv:
  assumes "configure_achievement_catalog ids now s = Inr (x, t)"
  shows "frame s t \<and> balances_kept s t \<and> slot_complete t = slot_complete s"
proof -
  from tx_relD [OF catalog_keeps assms]
  have k: "frame t = frame s" "currencies t = currencies s" "slot_complete t = slot_complete s" by auto
  from k(1) have "frame s t" by (metis frame_def)
  with k show ?thesis by (simp add: frame_def balances_kept_def balances_ok_def)
qed

text \<open>Every slot has the rows the operations read without a default.\<close>

definition slots_complete :: "db \<Rightarrow> bool" where
  "slots_complete s \<longleftrightarrow> (\<forall>u. tbl_has (save_slots s) u \<longrightarrow> slot_complete s u)"

lemma slots_complete_rows:
  "player_rows u s t \<Longrightarrow> save_slots t = save_slots s \<Longrightarrow> slots_complete s \<Longrightarrow> slots_complete t"
  by (auto simp: slots_complete_def intro: slot_complete_rows)

lemma slots_complete_frame:
  "slot_complete t = slot_complete s \<Longrightarrow> (\<And>u. tbl_has (save_slots t) u \<Longrightarrow> tbl_has (save_slots s) u) \<Longrightarrow>
     slots_complete s \<Longrightarrow> slots_complete t"
  by (auto simp: slots_complete_def)

lemma slots_complete_create:
  assumes "create_slot_in_transaction nm now ids s = Inr (i, t)" "slots_complete s"
  shows "slots_complete t"
proof -
  note t = create_slot_Inr [OF assms(1)]
  have "slot_complete t v" if "tbl_has (save_slots t) v" for v
    using that create_slot_complete [OF assms(1)] slot_complete_rows [OF t(9)] assms(2)
    by (cases "v = id_usn i") (auto simp: t(5) slots_complete_def tbl_has_def)
  then show ?thesis by (simp add: slots_complete_def)
qed

lemma tbl_has_others: "tbl_has (others u t) (v, k) \<longleftrightarrow> v \<noteq> u \<and> tbl_has t (v, k)"
  by (simp add: tbl_has_def tbl_get_others_if)

lemma tbl_has_others1: "tbl_has (others1 u t) v \<longleftrightarrow> v \<noteq> u \<and> tbl_has t v"
  by (simp add: tbl_has_def tbl_get_others1_if)

lemma slots_complete_delete: "slots_complete s \<Longrightarrow> slots_complete (cascade_delete u s)"
  by (simp add: slots_complete_def slot_complete_def cascade_delete_def tbl_has_others tbl_has_others1)

lemma slots_complete_login:
  "begin_login_tx h c s = Inr (l, t) \<Longrightarrow> slots_complete s \<Longrightarrow> slots_complete t"
  by (erule begin_login_Inr) (blast intro: slots_complete_rows)

lemma slot_row_kinds: "tx_rel balances_kept (insert_balances u)"
  unfolding insert_balances_def insert_row_def
  by (intro balances.rules)
    (auto simp: tx_rel_def tx_simps balances_kept_def balances_ok_def fzero_def f64_ok_def
      representable_def split: if_splits)

lemma fill_slot_bal: "tx_rel balances_kept (fill_slot u now ids)"
  unfolding fill_slot_def insert_core_def insert_area_def insert_initial_content_def
    insert_counters_def insert_activities_def
  by (intro balances_rules slot_row_kinds; simp)

lemma create_slot_bal: "tx_rel balances_kept (create_slot_in_transaction nm now ids)"
  unfolding create_slot_in_transaction_def insert_slot_def select_if_none_def Let_def
  by (intro balances_rules fill_slot_bal; simp)

lemma login_bal: "tx_rel balances_kept (begin_login_tx h clock)"
  unfolding begin_login_tx_def select_session_def open_session_def
  by (intro balances_rules pass_bals; simp)

lemma program_step_inv:
  "program_step s t \<Longrightarrow> store_inv s \<and> balances_ok s \<Longrightarrow> store_inv t \<and> balances_ok t"
proof (induction rule: program_step.induct)
  case (catalog ids now s x t)
  with catalog_inv [OF catalog(1)] store_inv_frame show ?case by (auto simp: balances_kept_def)
next
  case (login h clock s l t)
  with tx_relD [OF login_bal login(1)] inv_login [OF login(1)] show ?case by (simp add: balances_kept_def)
next
  case (logout n now s t)
  with inv_logout [OF logout(1)] show ?case
    by (auto simp: end_session_def tx_simps balances_ok_def split: if_splits option.splits)
next
  case (create nm now ids s i t)
  with tx_relD [OF create_slot_bal create(1)] inv_create [OF create(1)] show ?case
    by (simp add: balances_kept_def)
next
  case (switch u s t)
  with inv_switch [OF switch(1)] show ?case by (auto simp: request_switch_Inr balances_ok_def)
next
  case (delete u nm s t)
  with inv_delete [OF delete(1)] show ?case
    by (auto simp: delete_slot_Inr balances_ok_def cascade_delete_def tbl_get_others_if split: if_splits)
next
  case (advance s m)
  then have "balances_ok (advanced m s)" by (auto simp: balances_ok_def advanced_def)
  with advance show ?case by (simp add: inv_advance)
next
  case (ledger m j s t)
  with inv_record [OF ledger(1)] show ?case by (auto simp: record_mutation_Inr recorded_def balances_ok_def)
next
  case (command u s t)
  with player_command_facts [OF command(1)] store_inv_frame show ?case
    by (auto simp: player_step_def balances_kept_def)
qed

lemma program_step_complete: "program_step s t \<Longrightarrow> slots_complete s \<Longrightarrow> slots_complete t"
proof (induction rule: program_step.induct)
  case (catalog ids now s x t)
  with catalog_inv [OF catalog(1)] show ?case
    by (intro slots_complete_frame [of t s]) (auto simp: frame_def)
next
  case (delete u nm s t)
  then show ?case by (auto simp: delete_slot_Inr slots_complete_delete)
next
  case (command u s t)
  with player_command_facts [OF command(1)] show ?case
    by (auto simp: player_step_def frame_def intro: slots_complete_rows)
next
  case (ledger m j s t)
  then show ?case
    by (auto simp: record_mutation_Inr recorded_def slots_complete_def slot_complete_def)
next
  case (login h clock s l t)
  then show ?case by (rule slots_complete_login)
next
  case (create nm now ids s i t)
  then show ?case by (rule slots_complete_create)
qed (auto simp: end_session_def tx_simps request_switch_Inr advanced_def slots_complete_def
    slot_complete_def)

lemma program_inv: "program_reachable s \<Longrightarrow> store_inv s \<and> balances_ok s \<and> slots_complete s"
proof -
  assume "program_reachable s"
  then have "program_step\<^sup>*\<^sup>* migration_1 s" by (simp add: program_reachable_def)
  then show ?thesis
    by (induction rule: rtranclp_induct)
      (auto simp: store_inv_start balances_ok_def slots_complete_def [of migration_1] tbl_has_Nil
        dest: program_step_inv program_step_complete)
qed

lemma first_slot_reachable:
  "\<exists>t. program_reachable t \<and> tbl_has (save_slots t) 1"
proof -
  obtain i t where c: "create_slot_in_transaction ''Save 1'' 0 [] migration_1 = Inr (i, t)"
    and i: "id_usn i = 1" using first_slot by blast
  have "program_reachable t"
    unfolding program_reachable_def using program_step.create [OF c] by blast
  moreover have "tbl_has (save_slots t) 1" using create_slot_Inr(5) [OF c] i by (simp add: tbl_has_Cons)
  ultimately show ?thesis by blast
qed

section \<open>The request log\<close>

text \<open>
  What the ledger promises, without tables: which sessions may commit, the highest sequence number
  a session has used, and the result of every mutation performed, by player and idempotency key.
\<close>

record request_log =
  log_open :: "int \<Rightarrow> user_identity \<Rightarrow> bool"
  log_mark :: "int \<Rightarrow> int"
  log_done :: "int \<Rightarrow> string \<Rightarrow> (int \<times> string \<times> string) option"

datatype verdict = Stale | Conflict | Replay string | Perform

definition decide :: "request_log \<Rightarrow> rpc_mutation \<Rightarrow> verdict" where
  "decide l m =
     (if \<not> log_open l (mu_nonce m) (mu_identity m) then Stale
      else case log_done l (mu_usn m) (mu_idempotency_key m) of
        Some (sq, rpc, j) \<Rightarrow> if sq = mu_request_seq m \<and> rpc = mu_rpc m then Replay j else Conflict
      | None \<Rightarrow> if log_mark l (mu_nonce m) < mu_request_seq m then Perform else Stale)"

definition performed :: "rpc_mutation \<Rightarrow> string \<Rightarrow> request_log \<Rightarrow> request_log" where
  "performed m j l =
     l\<lparr>log_mark := (log_mark l)(mu_nonce m := mu_request_seq m),
       log_done := (log_done l)(mu_usn m := (log_done l (mu_usn m))
          (mu_idempotency_key m := Some (mu_request_seq m, mu_rpc m, j)))\<rparr>"

definition log_of :: "db \<Rightarrow> request_log" where
  "log_of s = \<lparr>log_open = (\<lambda>n i. session_open s n (id_usn i) \<and> slot_has_user s i),
     log_mark = last_seq s,
     log_done = (\<lambda>u k. map_option (\<lambda>r. (lgr_request_seq r, lgr_rpc r, lgr_summary_json r))
                          (ledger_entry s u k))\<rparr>"

lemma log_of_frame: "frame s t \<Longrightarrow> log_of t = log_of s"
  by (simp add: log_of_def frame_def session_open_def slot_has_user_def last_seq_def ledger_entry_def
      fun_eq_iff cong: option.case_cong)

lemma ledger_entry_recorded:
  assumes "ledger_entry s (mu_usn m) (mu_idempotency_key m) = None"
  shows "ledger_entry (recorded m j s) u k =
    (if u = mu_usn m \<and> k = mu_idempotency_key m then Some (ledger_row_of m j) else ledger_entry s u k)"
  using assms next_ledger_id_fresh [of s "mu_usn m"]
  by (auto simp: ledger_entry_def recorded_def find_tbl_put_new find_tbl_put_other ledger_row_of_def)

lemma log_of_advanced:
  assumes "active_session s m"
  shows "log_of (advanced m s) = (log_of s)\<lparr>log_mark := (last_seq s)(mu_nonce m := mu_request_seq m)\<rparr>"
  using assms
  by (auto simp: log_of_def advanced_def session_open_def slot_has_user_def last_seq_def ledger_entry_def
      active_session_def fun_eq_iff split: option.splits)

lemma log_of_recorded:
  assumes "ledger_entry s (mu_usn m) (mu_idempotency_key m) = None"
  shows "log_of (recorded m j s) = (log_of s)\<lparr>log_done := (log_done (log_of s))
     (mu_usn m := (log_done (log_of s) (mu_usn m))
        (mu_idempotency_key m := Some (mu_request_seq m, mu_rpc m, j)))\<rparr>"
  using ledger_entry_recorded [OF assms, of j]
  by (auto simp: log_of_def session_open_def slot_has_user_def last_seq_def recorded_def fun_eq_iff
      ledger_row_of_def split: option.splits)

lemma decide_log_of:
  "decide (log_of s) m =
     (if \<not> active_session s m then Stale
      else case ledger_entry s (mu_usn m) (mu_idempotency_key m) of
        Some r \<Rightarrow> if lgr_request_seq r = mu_request_seq m \<and> lgr_rpc r = mu_rpc m
                  then Replay (lgr_summary_json r) else Conflict
      | None \<Rightarrow> if last_seq s (mu_nonce m) < mu_request_seq m then Perform else Stale)"
  by (auto simp: decide_def log_of_def active_session_def split: option.splits)

lemma commit_performs:
  assumes "active_session s m" "ledger_entry s (mu_usn m) (mu_idempotency_key m) = None"
    and "last_seq s (mu_nonce m) < mu_request_seq m"
  shows "commit_rpc_mutation enc dec m command s =
    (case command (advanced m s) of Inl e \<Rightarrow> Inl e
     | Inr (x, s') \<Rightarrow> (case enc x of Inl e \<Rightarrow> Inl (InvalidReplay e)
         | Inr j \<Rightarrow> (case record_mutation m j s' of Inl e \<Rightarrow> Inl e | Inr (_, t) \<Rightarrow> Inr (x, t))))"
  using assms
  by (simp add: commit_rpc_mutation_def commit_rpc_mutation_with_replay_def advance_sequence_def
      domain_require_def tx_run split: sum.split)
     (auto simp: advanced_def split: sum.splits)

lemma record_after_command:
  assumes st: "player_step (mu_usn m) (advanced m s) s'" and act: "active_session s m"
    and fresh: "ledger_entry s (mu_usn m) (mu_idempotency_key m) = None"
  shows "log_of (recorded m j s') = performed m j (log_of s)"
    "in_i64 (next_ledger_id s (mu_usn m)) \<Longrightarrow> record_mutation m j s' = Inr ((), recorded m j s')"
    "\<not> in_i64 (next_ledger_id s (mu_usn m)) \<Longrightarrow> \<exists>e. record_mutation m j s' = Inl e"
proof -
  note f = player_step_frame [OF st]
  have log: "log_of s' = log_of (advanced m s)"
    using st by (intro log_of_frame) (simp add: player_step_def)
  have fresh': "ledger_entry s' (mu_usn m) (mu_idempotency_key m) = None"
    and id: "next_ledger_id s' (mu_usn m) = next_ledger_id s (mu_usn m)"
    using fresh f(4) by (simp_all add: ledger_entry_def next_ledger_id_def advanced_def)
  have slot: "tbl_has (save_slots s') (mu_usn m)"
    using act f(2) by (auto simp: active_session_def slot_has_user_def tbl_has_def advanced_def
        split: option.splits)
  show "log_of (recorded m j s') = performed m j (log_of s)"
    by (simp add: log_of_recorded [OF fresh'] log log_of_advanced [OF act] performed_def)
       (simp add: log_of_def)
  show "in_i64 (next_ledger_id s (mu_usn m)) \<Longrightarrow> record_mutation m j s' = Inr ((), recorded m j s')"
    by (simp add: record_mutation_Inr id slot fresh')
  assume "\<not> in_i64 (next_ledger_id s (mu_usn m))"
  then have "record_mutation m j s' \<noteq> Inr r" for r
    using record_mutation_Inr [of m j s' r] by (simp add: id)
  then show "\<exists>e. record_mutation m j s' = Inl e" by (cases "record_mutation m j s'") auto
qed

section \<open>Properties\<close>

text \<open>C1: refinement. \<open>commit_rpc_mutation\<close> implements the abstract request log: it answers stale, conflict
  or the recorded result exactly when the log says so, and without effect; otherwise it runs the
  command once, and on success (ids permitting) the log after is the log before plus this request.\<close>

theorem commit_refines_log:
  assumes step: "\<And>m. tx_rel (player_step (mu_usn m)) (command m)"
  shows "case decide (log_of s) m of
      Stale \<Rightarrow> commit_rpc_mutation enc dec m (command m) s = Inl (Domain StaleRequest)
    | Conflict \<Rightarrow> commit_rpc_mutation enc dec m (command m) s = Inl IdempotencyConflict
    | Replay j \<Rightarrow> commit_rpc_mutation enc dec m (command m) s =
        (case dec j of Inl e \<Rightarrow> Inl (InvalidReplay e) | Inr x \<Rightarrow> Inr (x, s))
    | Perform \<Rightarrow> (case command m (advanced m s) of
        Inl e \<Rightarrow> commit_rpc_mutation enc dec m (command m) s = Inl e
      | Inr (x, s') \<Rightarrow> (case enc x of
          Inl e \<Rightarrow> commit_rpc_mutation enc dec m (command m) s = Inl (InvalidReplay e)
        | Inr j \<Rightarrow> if in_i64 (next_ledger_id s (mu_usn m))
                   then \<exists>t. commit_rpc_mutation enc dec m (command m) s = Inr (x, t)
                          \<and> log_of t = performed m j (log_of s)
                   else \<exists>e. commit_rpc_mutation enc dec m (command m) s = Inl e))"
proof (cases "active_session s m \<and> ledger_entry s (mu_usn m) (mu_idempotency_key m) = None
    \<and> last_seq s (mu_nonce m) < mu_request_seq m")
  case False
  then show ?thesis
    by (auto simp: decide_log_of commit_rpc_mutation_def commit_rpc_mutation_with_replay_def
        advance_sequence_def domain_require_def tx_run split: option.split sum.split)
next
  case True
  then have p: "decide (log_of s) m = Perform" by (simp add: decide_log_of)
  note run = commit_performs [of s m enc dec "command m"]
  show ?thesis
  proof (cases "command m (advanced m s)")
    case (Inl e)
    then show ?thesis using p run True by simp
  next
    case (Inr r)
    obtain x s' where r: "r = (x, s')" by (cases r)
    from tx_relD [OF step] Inr r have "player_step (mu_usn m) (advanced m s) s'" by simp
    note rec = record_after_command [OF this]
    show ?thesis
    proof (cases "enc x")
      case (Inl e)
      with p run True Inr r show ?thesis by simp
    next
      case j: (Inr j)
      have "commit_rpc_mutation enc dec m (command m) s =
          (case record_mutation m j s' of Inl e \<Rightarrow> Inl e | Inr (_, t) \<Rightarrow> Inr (x, t))"
        using run True Inr r j by simp
      then show ?thesis
        using rec(1) [of j] rec(2,3) [of j] True
        by (cases "in_i64 (next_ledger_id s (mu_usn m))") (auto simp: p Inr r j)
    qed
  qed
qed

theorem commit_refines_log_witness:
  "\<exists>t. commit_rpc_mutation Inr Inr demo_mutation (demo_command demo_mutation) demo_db = Inr (''ok'', t)
     \<and> log_of t = performed demo_mutation ''ok'' (log_of demo_db)"
proof -
  have "decide (log_of demo_db) demo_mutation = Perform"
    using demo_simps by (simp add: decide_log_of demo_mutation_def)
  moreover have "\<exists>s'. demo_command demo_mutation (advanced demo_mutation demo_db) = Inr (''ok'', s')"
    by (simp add: demo_command_def tx_simps)
  ultimately show ?thesis
    using commit_refines_log [where command = demo_command and s = demo_db and m = demo_mutation and enc = Inr and dec = Inr,
      OF demo_command_step]
    by (auto simp: demo_simps in_i64_def demo_mutation_def)
qed

text \<open>every command of a player leaves the sessions, the slots, the selection and the ledger alone,
  changes no row of another player in any table, and removes no row.\<close>

lemma commands_isolated:
  assumes "player_command u s t"
  shows "runtime_selection t = runtime_selection s \<and> save_slots t = save_slots s
     \<and> login_sessions t = login_sessions s \<and> mutation_ledger t = mutation_ledger s
     \<and> player_rows u s t"
  using player_command_facts [OF assms] by (auto simp: player_step_def frame_def)

lemma commands_isolated_witness:
  "\<exists>x t. activate_passes_tx [1] demo_mutation demo_db = Inr (x, t) \<and> player_rows 1 demo_db t"
proof -
  have "\<exists>x t. activate_passes_tx [1] demo_mutation demo_db = Inr (x, t)"
    by (simp add: activate_passes_tx_def tx_run)
  then obtain x t where t: "activate_passes_tx [1] demo_mutation demo_db = Inr (x, t)" by blast
  from commands_isolated [OF player_command.activate_passes [OF t]] t show ?thesis
    by (auto simp: demo_mutation_def)
qed

text \<open>C2: in every state the program can reach from an empty database, whatever players do and
  whatever clients send, every balance is a double that is neither negative nor a NaN, and every
  slot has all the rows its operations read without a default.\<close>

theorem reachable_store:
  assumes "program_reachable s"
  shows "(\<forall>u kind a. tbl_get (currencies s) (u, kind) = Some a \<longrightarrow> f64_ok a \<and> fnonneg a)
     \<and> (\<forall>u. tbl_has (save_slots s) u \<longrightarrow> slot_complete s u)"
  using program_inv [OF assms] by (auto simp: balances_ok_def slots_complete_def)

theorem reachable_store_witness:
  "\<exists>s. program_reachable s \<and> tbl_has (save_slots s) 1 \<and> slot_complete s 1
     \<and> (\<exists>a. tbl_get (currencies s) (1, ''candy'') = Some a \<and> fnonneg a)"
proof -
  obtain s where s: "program_reachable s" "tbl_has (save_slots s) 1"
    using first_slot_reachable by blast
  from reachable_store [OF s(1)] s have "slot_complete s 1"
    and ok: "tbl_get (currencies s) (1, ''candy'') = Some a \<Longrightarrow> fnonneg a" for a
    by blast+
  moreover from this(1) obtain a where "tbl_get (currencies s) (1, ''candy'') = Some a"
    by (auto simp: slot_complete_def all_currencies_def tbl_has_def)
  ultimately show ?thesis using s by blast
qed

end
