(* ===== verification/Wire.thy ===== *)
theory Wire
  imports Decimal "HOL-Library.Word"
begin

text \<open>
  The binary Thrift codec of the protocol crate (\<open>crates/protocol/src/wire.rs\<close>). A value keeps
  its machine width: bytes are \<open>8 word\<close>, the integers \<open>16\<close>, \<open>32\<close> and \<open>64 word\<close>, a double its
  64 bits (\<open>f64::from_bits\<close> and \<open>to_bits\<close> move bits only). The cursor is the list of unread
  bytes, a reader is a transaction over it, and the loops are recursions.

  The recursion of \<open>read_value\<close> is nested in what it has already consumed, so the readers carry
  fuel; \<open>read_struct\<close> gives them three steps per byte, and below they are shown never to run
  out of it. Base64 and bzip2 are crates the source only calls: the transport
  functions take them as arguments.
\<close>

section \<open>Values and errors\<close>

type_synonym byte = "8 word"
type_synonym bytes = "byte list"

datatype wire_value =
    VBool bool
  | VByte byte
  | VDouble "64 word"
  | VI16 "16 word"
  | VI32 "32 word"
  | VI64 "64 word"
  | VString bytes
  | VStruct "field list"
  | VMap (key_type: byte) (value_type: byte) (entries: "(wire_value \<times> wire_value) list")
  | VSet byte "wire_value list"
  | VList byte "wire_value list"
and field = Field (field_id: "16 word") (field_value: wire_value)

text \<open>
  The errors of the base64 and bzip2 crates are kept as their messages. \<open>OutOfFuel\<close> is the
  model's own: no reader started by \<open>read_struct\<close> returns it.
\<close>

datatype thrift_error =
    Base64 ustr
  | Io ustr
  | UnsupportedType byte
  | InvalidSize "32 word"
  | TrailingBytes nat
  | EmptyPayload
  | PayloadTooLarge
  | OutOfFuel

definition u_of_string :: "string \<Rightarrow> ustr" where
  "u_of_string s = map of_char s"

definition kind_stop :: byte where "kind_stop = 0"
definition kind_bool :: byte where "kind_bool = 2"
definition kind_byte :: byte where "kind_byte = 3"
definition kind_double :: byte where "kind_double = 4"
definition kind_i16 :: byte where "kind_i16 = 6"
definition kind_i32 :: byte where "kind_i32 = 8"
definition kind_i64 :: byte where "kind_i64 = 10"
definition kind_string :: byte where "kind_string = 11"
definition kind_struct :: byte where "kind_struct = 12"
definition kind_map :: byte where "kind_map = 13"
definition kind_set :: byte where "kind_set = 14"
definition kind_list :: byte where "kind_list = 15"

lemmas kind_defs = kind_stop_def kind_bool_def kind_byte_def kind_double_def kind_i16_def
  kind_i32_def kind_i64_def kind_string_def kind_struct_def kind_map_def kind_set_def kind_list_def

fun value_kind :: "wire_value \<Rightarrow> byte" where
  "value_kind (VBool _) = kind_bool"
| "value_kind (VByte _) = kind_byte"
| "value_kind (VDouble _) = kind_double"
| "value_kind (VI16 _) = kind_i16"
| "value_kind (VI32 _) = kind_i32"
| "value_kind (VI64 _) = kind_i64"
| "value_kind (VString _) = kind_string"
| "value_kind (VStruct _) = kind_struct"
| "value_kind (VMap _ _ _) = kind_map"
| "value_kind (VSet _ _) = kind_set"
| "value_kind (VList _ _) = kind_list"

section \<open>Writing\<close>

text \<open>
  The writers append to a vector, which cannot fail, so they are functions to the bytes they
  append. A length is written as its low 32 bits, as \<open>len() as i32\<close> does.
\<close>

fun be_digits :: "nat \<Rightarrow> nat \<Rightarrow> bytes" where
  "be_digits 0 x = []"
| "be_digits (Suc k) x = be_digits k (x div 256) @ [word_of_nat (x mod 256)]"

definition be_bytes :: "'a::len word \<Rightarrow> bytes" where
  "be_bytes w = be_digits (LENGTH('a) div 8) (unat w)"

definition len_bytes :: "'a list \<Rightarrow> bytes" where
  "len_bytes xs = be_bytes (word_of_nat (length xs) :: 32 word)"

function (sequential) write_value :: "wire_value \<Rightarrow> bytes"
  and write_fields :: "field list \<Rightarrow> bytes"
  and write_entries :: "(wire_value \<times> wire_value) list \<Rightarrow> bytes"
  and write_values :: "wire_value list \<Rightarrow> bytes" where
  "write_value (VBool b) = [of_bool b]"
| "write_value (VByte b) = [b]"
| "write_value (VDouble d) = be_bytes d"
| "write_value (VI16 i) = be_bytes i"
| "write_value (VI32 i) = be_bytes i"
| "write_value (VI64 i) = be_bytes i"
| "write_value (VString s) = len_bytes s @ s"
| "write_value (VStruct fs) = write_fields fs"
| "write_value (VMap k v es) = k # v # len_bytes es @ write_entries es"
| "write_value (VSet e vs) = e # len_bytes vs @ write_values vs"
| "write_value (VList e vs) = e # len_bytes vs @ write_values vs"
| "write_fields [] = [kind_stop]"
| "write_fields (Field i v # fs) = value_kind v # be_bytes i @ write_value v @ write_fields fs"
| "write_entries [] = []"
| "write_entries ((k, v) # es) = write_value k @ write_value v @ write_entries es"
| "write_values [] = []"
| "write_values (v # vs) = write_value v @ write_values vs"
  by pat_completeness auto

termination
  by (relation "measure (case_sum (case_sum size (size_list size))
       (case_sum (size_list (size_prod size size)) (size_list size)))") auto

definition write_struct :: "field list \<Rightarrow> thrift_error + bytes" where
  "write_struct fs = Inr (write_fields fs)"

section \<open>Reading\<close>

type_synonym 'a reader = "(thrift_error, bytes, 'a) tx"

definition read_exact :: "nat \<Rightarrow> bytes reader" where
  "read_exact n = tx_bind (tx_gets (\<lambda>input. input)) (\<lambda>input.
     if length input < n then tx_fail (Io (u_of_string ''failed to fill whole buffer''))
     else tx_then (tx_modify (drop n)) (tx_return (take n input)))"

definition from_be_bytes :: "bytes \<Rightarrow> 'a::len word" where
  "from_be_bytes bs = word_of_nat (foldl (\<lambda>a b. 256 * a + unat b) 0 bs)"

definition read_u8 :: "byte reader" where
  "read_u8 = tx_bind (read_exact 1) (\<lambda>b. tx_return (hd b))"

definition read_i16 :: "16 word reader" where
  "read_i16 = tx_bind (read_exact 2) (\<lambda>b. tx_return (from_be_bytes b))"

definition read_be32 :: "32 word reader" where
  "read_be32 = tx_bind (read_exact 4) (\<lambda>b. tx_return (from_be_bytes b))"

definition read_be64 :: "64 word reader" where
  "read_be64 = tx_bind (read_exact 8) (\<lambda>b. tx_return (from_be_bytes b))"

definition checked_size :: "32 word \<Rightarrow> thrift_error + nat" where
  "checked_size w = (if 0 \<le> sint w \<and> sint w \<le> 1000000 then Inr (nat (sint w)) else Inl (InvalidSize w))"

definition read_size :: "nat reader" where
  "read_size = tx_bind read_be32 (\<lambda>w. tx_lift (checked_size w))"

fun read_value :: "nat \<Rightarrow> byte \<Rightarrow> wire_value reader"
  and read_fields :: "nat \<Rightarrow> field list reader"
  and read_entries :: "nat \<Rightarrow> nat \<Rightarrow> byte \<Rightarrow> byte \<Rightarrow> (wire_value \<times> wire_value) list reader"
  and read_values :: "nat \<Rightarrow> nat \<Rightarrow> byte \<Rightarrow> wire_value list reader" where
  "read_value 0 kind = tx_fail OutOfFuel"
| "read_value (Suc n) kind =
    (if kind = kind_bool then tx_bind read_u8 (\<lambda>b. tx_return (VBool (b \<noteq> 0)))
     else if kind = kind_byte then tx_bind read_u8 (\<lambda>b. tx_return (VByte b))
     else if kind = kind_double then tx_bind read_be64 (\<lambda>d. tx_return (VDouble d))
     else if kind = kind_i16 then tx_bind read_i16 (\<lambda>i. tx_return (VI16 i))
     else if kind = kind_i32 then tx_bind read_be32 (\<lambda>i. tx_return (VI32 i))
     else if kind = kind_i64 then tx_bind read_be64 (\<lambda>i. tx_return (VI64 i))
     else if kind = kind_string then
       tx_bind read_size (\<lambda>len. tx_bind (read_exact len) (\<lambda>s. tx_return (VString s)))
     else if kind = kind_struct then tx_bind (read_fields n) (\<lambda>fs. tx_return (VStruct fs))
     else if kind = kind_map then
       tx_bind read_u8 (\<lambda>k. tx_bind read_u8 (\<lambda>v. tx_bind read_size (\<lambda>count.
       tx_bind (read_entries n count k v) (\<lambda>es. tx_return (VMap k v es)))))
     else if kind = kind_set \<or> kind = kind_list then
       tx_bind read_u8 (\<lambda>e. tx_bind read_size (\<lambda>count.
       tx_bind (read_values n count e) (\<lambda>vs.
         tx_return (if kind = kind_set then VSet e vs else VList e vs))))
     else tx_fail (UnsupportedType kind))"
| "read_fields 0 = tx_fail OutOfFuel"
| "read_fields (Suc n) = tx_bind read_u8 (\<lambda>kind.
     if kind = kind_stop then tx_return []
     else tx_bind read_i16 (\<lambda>i. tx_bind (read_value n kind) (\<lambda>v.
       tx_bind (read_fields n) (\<lambda>fs. tx_return (Field i v # fs)))))"
| "read_entries 0 count k v = tx_fail OutOfFuel"
| "read_entries (Suc n) count k v =
    (if count = 0 then tx_return []
     else tx_bind (read_value n k) (\<lambda>x. tx_bind (read_value n v) (\<lambda>y.
       tx_bind (read_entries n (count - 1) k v) (\<lambda>es. tx_return ((x, y) # es)))))"
| "read_values 0 count e = tx_fail OutOfFuel"
| "read_values (Suc n) count e =
    (if count = 0 then tx_return []
     else tx_bind (read_value n e) (\<lambda>x.
       tx_bind (read_values n (count - 1) e) (\<lambda>vs. tx_return (x # vs))))"

definition read_struct :: "bytes \<Rightarrow> thrift_error + field list" where
  "read_struct raw = (case read_fields (3 * length raw + 4) raw of
     Inl e \<Rightarrow> Inl e
   | Inr (fs, rest) \<Rightarrow> if rest \<noteq> [] then Inl (TrailingBytes (length rest)) else Inr fs)"


section \<open>Big-endian integers\<close>

lemma length_be_digits [simp]: "length (be_digits k x) = k"
  by (induction k x rule: be_digits.induct) simp_all

lemma be_digits_value: "foldl (\<lambda>a b. 256 * a + unat b) 0 (be_digits k x) = x mod 256 ^ k"
proof (induction k x rule: be_digits.induct)
  case (2 k x)
  have "unat (word_of_nat (x mod 256) :: byte) = x mod 256"
    by (simp add: unat_of_nat)
  moreover have "x mod (256 * 256 ^ k) = 256 * (x div 256 mod 256 ^ k) + x mod 256"
    by (rule mod_mult2_eq)
  ultimately show ?case using 2 by simp
qed simp

lemma from_be_bytes_be_digits:
  assumes "2 ^ LENGTH('a) = (256::nat) ^ k"
  shows "from_be_bytes (be_digits k (unat (w :: 'a::len word))) = w"
proof -
  have "unat w < 2 ^ LENGTH('a)" by (rule unsigned_less)
  then have "unat w < 256 ^ k" unfolding assms .
  then show ?thesis by (simp add: from_be_bytes_def be_digits_value)
qed

lemma be_bytes_roundtrip [simp]:
  "from_be_bytes (be_bytes (w16 :: 16 word)) = w16"
  "from_be_bytes (be_bytes (w32 :: 32 word)) = w32"
  "from_be_bytes (be_bytes (w64 :: 64 word)) = w64"
  by (simp_all add: be_bytes_def from_be_bytes_be_digits)

lemma length_be_bytes [simp]:
  "length (be_bytes (w16 :: 16 word)) = 2"
  "length (be_bytes (w32 :: 32 word)) = 4"
  "length (be_bytes (w64 :: 64 word)) = 8"
  by (simp_all add: be_bytes_def)

lemma length_len_bytes [simp]: "length (len_bytes xs) = 4"
  by (simp add: len_bytes_def)

section \<open>The readers never run out of fuel\<close>

text \<open>
  A reader \<^emph>\<open>consumes\<close> \<open>k\<close> bytes when every successful run leaves at least \<open>k\<close> bytes less,
  and \<^emph>\<open>returns\<close> on inputs of up to \<open>m\<close> bytes when it does not run out of fuel there. Both are
  composed along \<open>tx_bind\<close>.
\<close>

definition consumes :: "nat \<Rightarrow> 'a reader \<Rightarrow> bool" where
  "consumes k f \<longleftrightarrow> (\<forall>s a s'. f s = Inr (a, s') \<longrightarrow> length s' + k \<le> length s)"

definition returns_upto :: "nat \<Rightarrow> 'a reader \<Rightarrow> bool" where
  "returns_upto m f \<longleftrightarrow> (\<forall>s. length s \<le> m \<longrightarrow> f s \<noteq> Inl OutOfFuel)"

lemma consumes_bind:
  "consumes j f \<Longrightarrow> (\<And>a. consumes k (g a)) \<Longrightarrow> consumes (j + k) (tx_bind f g)"
  unfolding consumes_def by (fastforce simp: tx_simps)

lemma consumes_weaken: "consumes j f \<Longrightarrow> k \<le> j \<Longrightarrow> consumes k f"
  unfolding consumes_def by fastforce

lemma consumes_basic:
  "consumes 0 (tx_return a)" "consumes k (tx_fail e)" "consumes 0 (tx_lift r)"
  "consumes n (read_exact n)"
  by (auto simp: consumes_def tx_simps read_exact_def split: if_splits)

lemma consumes_return_bind: "consumes k f \<Longrightarrow> consumes k (tx_bind f (\<lambda>a. tx_return (h a)))"
  by (erule consumes_weaken [OF consumes_bind [where k = 0]]) (simp_all add: consumes_basic)

lemma consumes_ints:
  "consumes 1 read_u8" "consumes 2 read_i16" "consumes 4 read_be32" "consumes 8 read_be64"
  "consumes 4 read_size"
proof -
  show "consumes 1 read_u8" "consumes 2 read_i16" "consumes 8 read_be64" and *: "consumes 4 read_be32"
    unfolding read_u8_def read_i16_def read_be32_def read_be64_def
    by (intro consumes_return_bind consumes_basic)+
  show "consumes 4 read_size"
    unfolding read_size_def
    by (rule consumes_weaken [OF consumes_bind [where k = 0, OF *]]) (simp_all add: consumes_basic)
qed

lemma consumes_bind_first: "consumes k f \<Longrightarrow> (\<And>a. consumes 0 (g a)) \<Longrightarrow> consumes k (tx_bind f g)"
  using consumes_bind [of k f 0 g] by simp

lemma consumes_bind_Suc:
  "consumes 1 f \<Longrightarrow> (\<And>a. consumes k (g a)) \<Longrightarrow> consumes (Suc k) (tx_bind f g)"
  using consumes_bind [of 1 f k g] by simp

lemma consumes_bind_skip: "consumes 0 f \<Longrightarrow> (\<And>a. consumes k (g a)) \<Longrightarrow> consumes k (tx_bind f g)"
  using consumes_bind [of 0 f k g] by simp

lemma consumes_nothing: "consumes k f \<Longrightarrow> consumes 0 f"
  by (rule consumes_weaken) simp_all

lemma consumes_if: "consumes k f \<Longrightarrow> consumes k g \<Longrightarrow> consumes k (if b then f else g)"
  by simp

lemmas consumes_one = consumes_ints(1) consumes_ints(2-5) [THEN consumes_weaken [where k = 1]]

lemmas consumes_any = consumes_basic consumes_ints [THEN consumes_nothing] consumes_nothing [OF consumes_basic(4)]

lemma readers_consume:
  "consumes 1 (read_value n kind) \<and> consumes 1 (read_fields n) \<and>
   consumes count (read_entries n count k v) \<and> consumes count (read_values n count e)"
proof (induction n arbitrary: kind count k v e)
  case 0
  show ?case by (simp add: consumes_basic)
next
  case (Suc n)
  have ih: "consumes 1 (read_value n kind)" "consumes 1 (read_fields n)"
    "consumes count (read_entries n count k v)" "consumes count (read_values n count e)" for kind count k v e
    using Suc by blast+
  note z = ih [THEN consumes_nothing]
  have "consumes 1 (read_value (Suc n) kind)"
    unfolding read_value.simps
    by (intro consumes_if consumes_bind_first consumes_one consumes_any z ih) simp_all
  moreover have "consumes 1 (read_fields (Suc n))"
    unfolding read_fields.simps
    by (intro consumes_if consumes_bind_first consumes_one consumes_any z)
  moreover have "consumes count (read_entries (Suc n) count k v)"
  proof (cases count)
    case (Suc c)
    show ?thesis unfolding Suc read_entries.simps
      by (simp, intro consumes_bind_Suc [OF ih(1)] consumes_bind_skip [OF z(1)]
          consumes_bind_first [OF ih(3)] consumes_basic)
  qed (simp add: consumes_basic)
  moreover have "consumes count (read_values (Suc n) count e)"
  proof (cases count)
    case (Suc c)
    show ?thesis unfolding Suc read_values.simps
      by (simp, intro consumes_bind_Suc [OF ih(1)] consumes_bind_first [OF ih(4)] consumes_basic)
  qed (simp add: consumes_basic)
  ultimately show ?case by blast
qed


lemma returns_bind:
  assumes "returns_upto m f" "consumes k f" "\<And>a. k \<le> m \<Longrightarrow> returns_upto (m - k) (g a)"
  shows "returns_upto m (tx_bind f g)"
  unfolding returns_upto_def
proof (intro allI impI)
  fix s :: bytes
  assume m: "length s \<le> m"
  show "tx_bind f g s \<noteq> Inl OutOfFuel"
  proof (cases "f s")
    case (Inl e)
    then show ?thesis using assms(1) m by (auto simp: returns_upto_def tx_bind_def)
  next
    case (Inr r)
    then obtain a s' where r: "f s = Inr (a, s')" by (cases r) auto
    with assms(2) m have "k \<le> m" "length s' \<le> m - k" by (fastforce simp: consumes_def)+
    with assms(3) r show ?thesis by (simp add: returns_upto_def tx_bind_def)
  qed
qed

lemma returns_basic:
  "returns_upto m (tx_return a)" "e \<noteq> OutOfFuel \<Longrightarrow> returns_upto m (tx_fail e)"
  "returns_upto m (tx_lift (checked_size w))" "returns_upto m (read_exact n)"
  by (auto simp: returns_upto_def tx_run read_exact_def checked_size_def)

lemma returns_ints:
  "returns_upto m read_u8" "returns_upto m read_i16" "returns_upto m read_be32"
  "returns_upto m read_be64" "returns_upto m read_size"
  unfolding read_u8_def read_i16_def read_be32_def read_be64_def read_size_def
  by (intro returns_bind [where k = 0] returns_basic consumes_any
      returns_bind [where k = 0, OF _ consumes_ints(3) [THEN consumes_nothing], unfolded read_be32_def]
      consumes_ints(3) [THEN consumes_nothing, unfolded read_be32_def])+

lemma returns_if: "returns_upto m f \<Longrightarrow> returns_upto m g \<Longrightarrow> returns_upto m (if b then f else g)"
  by simp

lemma returns_any: "returns_upto m f \<Longrightarrow> (\<And>a. returns_upto m (g a)) \<Longrightarrow> consumes 0 f \<Longrightarrow> returns_upto m (tx_bind f g)"
  by (rule returns_bind [where k = 0]) simp_all

lemma readers_return:
  "(3 * m + 2 \<le> n \<longrightarrow> returns_upto m (read_value n kind)) \<and>
   (3 * m + 1 \<le> n \<longrightarrow> returns_upto m (read_fields n)) \<and>
   (3 * m + 3 \<le> n \<longrightarrow> returns_upto m (read_entries n count k v)) \<and>
   (3 * m + 3 \<le> n \<longrightarrow> returns_upto m (read_values n count e))"
proof (induction n arbitrary: m kind count k v e)
  case 0
  show ?case by simp
next
  case (Suc n)
  have ih: "3 * m + 2 \<le> n \<Longrightarrow> returns_upto m (read_value n kind)"
    "3 * m + 1 \<le> n \<Longrightarrow> returns_upto m (read_fields n)"
    "3 * m + 3 \<le> n \<Longrightarrow> returns_upto m (read_entries n count k v)"
    "3 * m + 3 \<le> n \<Longrightarrow> returns_upto m (read_values n count e)" for m kind count k v e
    using Suc by blast+
  have one: "consumes 1 (read_value n kind)" "consumes 0 (read_value n kind)" "consumes 0 (read_fields n)"
    "consumes 0 (read_entries n count k v)" "consumes 0 (read_values n count e)" for kind count k v e
    using readers_consume consumes_nothing by blast+
  have "returns_upto m (read_value (Suc n) kind)" if "3 * m + 2 \<le> Suc n"
    unfolding read_value.simps using that
    by (intro returns_if returns_bind [where k = 1, OF returns_ints(1) consumes_ints(1)] returns_any [OF returns_ints(2)]
        returns_any [OF returns_ints(3)] returns_any [OF returns_ints(4)] returns_any [OF returns_ints(5)]
        returns_any [OF returns_basic(4)] returns_any [OF ih(2)] returns_any [OF ih(3)] returns_any [OF ih(4)]
        returns_basic consumes_any one) simp_all
  moreover have "returns_upto m (read_fields (Suc n))" if "3 * m + 1 \<le> Suc n"
    unfolding read_fields.simps using that
    by (intro returns_if returns_bind [where k = 1, OF returns_ints(1) consumes_ints(1)]
        returns_any [OF returns_ints(2)] returns_any [OF ih(1)] returns_any [OF ih(2)]
        returns_basic consumes_any one) simp_all
  moreover have "returns_upto m (read_entries (Suc n) count k v)" if "3 * m + 3 \<le> Suc n"
    unfolding read_entries.simps using that
    by (intro returns_if returns_bind [where k = 1, OF ih(1) one(1)] returns_any [OF ih(1)] returns_any [OF ih(3)]
        returns_basic consumes_any one) simp_all
  moreover have "returns_upto m (read_values (Suc n) count e)" if "3 * m + 3 \<le> Suc n"
    unfolding read_values.simps using that
    by (intro returns_if returns_bind [where k = 1, OF ih(1) one(1)] returns_any [OF ih(4)]
        returns_basic consumes_any one) simp_all
  ultimately show ?case by blast
qed


section \<open>Round trips\<close>

text \<open>
  \<open>wire_ok\<close> is what the reader can return and the writer can write: every size is at most
  1000000 and every element has the kind its collection declares.
\<close>

function (sequential) wire_ok :: "wire_value \<Rightarrow> bool"
  and fields_ok :: "field list \<Rightarrow> bool"
  and entries_ok :: "byte \<Rightarrow> byte \<Rightarrow> (wire_value \<times> wire_value) list \<Rightarrow> bool"
  and values_ok :: "byte \<Rightarrow> wire_value list \<Rightarrow> bool" where
  "wire_ok (VString s) \<longleftrightarrow> length s \<le> 1000000"
| "wire_ok (VStruct fs) \<longleftrightarrow> fields_ok fs"
| "wire_ok (VMap k v es) \<longleftrightarrow> length es \<le> 1000000 \<and> entries_ok k v es"
| "wire_ok (VSet e vs) \<longleftrightarrow> length vs \<le> 1000000 \<and> values_ok e vs"
| "wire_ok (VList e vs) \<longleftrightarrow> length vs \<le> 1000000 \<and> values_ok e vs"
| "wire_ok v \<longleftrightarrow> True"
| "fields_ok [] \<longleftrightarrow> True"
| "fields_ok (Field i v # fs) \<longleftrightarrow> wire_ok v \<and> fields_ok fs"
| "entries_ok k v [] \<longleftrightarrow> True"
| "entries_ok k v ((x, y) # es) \<longleftrightarrow>
     value_kind x = k \<and> wire_ok x \<and> value_kind y = v \<and> wire_ok y \<and> entries_ok k v es"
| "values_ok e [] \<longleftrightarrow> True"
| "values_ok e (x # vs) \<longleftrightarrow> value_kind x = e \<and> wire_ok x \<and> values_ok e vs"
  by pat_completeness auto

termination
  by (relation "measure (case_sum (case_sum size (size_list size))
       (case_sum (\<lambda>(k, v, es). size_list (size_prod size size) es) (\<lambda>(e, vs). size_list size vs)))") auto

text \<open>\<open>reads f b a\<close>: on the bytes \<open>b\<close>, whatever follows them, \<open>f\<close> returns \<open>a\<close> and stops there.\<close>

definition reads :: "'a reader \<Rightarrow> bytes \<Rightarrow> 'a \<Rightarrow> bool" where
  "reads f b a \<longleftrightarrow> (\<forall>rest. f (b @ rest) = Inr (a, rest))"

lemma reads_bind: "reads f b a \<Longrightarrow> reads (g a) c d \<Longrightarrow> reads (tx_bind f g) (b @ c) d"
  by (simp add: reads_def tx_bind_def)

lemma reads_last: "reads f b a \<Longrightarrow> reads (g a) [] d \<Longrightarrow> reads (tx_bind f g) b d"
  using reads_bind [of f b a g "[]" d] by simp

lemma reads_map: "reads f b a \<Longrightarrow> d = h a \<Longrightarrow> reads (tx_bind f (\<lambda>x. tx_return (h x))) b d"
  by (simp add: reads_def tx_run)

lemma reads_return: "reads (tx_return a) [] a"
  by (simp add: reads_def tx_run)

lemma reads_exact: "n = length b \<Longrightarrow> reads (read_exact n) b b"
  by (simp add: reads_def read_exact_def tx_run)

lemma reads_u8: "reads read_u8 [b] b"
  unfolding read_u8_def by (rule reads_map [OF reads_exact]) simp_all

lemma reads_ints:
  "reads read_i16 (be_bytes i16) i16" "reads read_be32 (be_bytes i32) i32"
  "reads read_be64 (be_bytes i64) i64"
  unfolding read_i16_def read_be32_def read_be64_def
  by (rule reads_map [OF reads_exact], simp, simp)+

lemma reads_size:
  assumes "length xs \<le> 1000000"
  shows "reads read_size (len_bytes xs) (length xs)"
proof -
  have "sint (word_of_nat (length xs) :: 32 word) = int (length xs)"
    using assms by (simp add: signed_of_nat signed_take_bit_int_eq_self)
  then have "checked_size (word_of_nat (length xs)) = Inr (length xs)"
    using assms by (simp add: checked_size_def)
  then show ?thesis
    unfolding read_size_def len_bytes_def
    by (intro reads_last [OF reads_ints(2)]) (simp add: reads_def tx_run)
qed


lemma reads_cons: "reads read_u8 [b] b \<Longrightarrow> reads (g b) c d \<Longrightarrow> reads (tx_bind read_u8 g) (b # c) d"
  using reads_bind [of read_u8 "[b]"] by simp

lemma write_value_nonempty: "1 \<le> length (write_value v)" "1 \<le> length (write_fields fs)"
proof -
  show f: "1 \<le> length (write_fields fs)" for fs
    by (cases fs rule: write_fields.cases) simp_all
  show "1 \<le> length (write_value v)"
    using f by (cases v) simp_all
qed

lemma reads_written:
  "wire_ok x \<Longrightarrow> 3 * length (write_value x) + 2 \<le> n \<Longrightarrow> reads (read_value n (value_kind x)) (write_value x) x"
  "fields_ok fs \<Longrightarrow> 3 * length (write_fields fs) + 1 \<le> n \<Longrightarrow> reads (read_fields n) (write_fields fs) fs"
  "entries_ok k v es \<Longrightarrow> 3 * length (write_entries es) + 3 \<le> n \<Longrightarrow>
     reads (read_entries n (length es) k v) (write_entries es) es"
  "values_ok e xs \<Longrightarrow> 3 * length (write_values xs) + 3 \<le> n \<Longrightarrow>
     reads (read_values n (length xs) e) (write_values xs) xs"
proof (induction x and fs and k v es and e xs arbitrary: n and n and n and n
    rule: wire_ok_fields_ok_entries_ok_values_ok.induct)
  case (1 s n)
  then show ?case
    by (cases n) (auto simp: kind_defs intro!: reads_bind [OF reads_size] reads_map [OF reads_exact])
next
  case (2 fs n)
  then show ?case
    by (cases n) (auto simp: kind_defs intro!: reads_map)
next
  case (3 k v es n)
  then show ?case
    by (cases n) (auto simp: kind_defs intro!: reads_cons reads_u8 reads_bind [OF reads_size] reads_map)
next
  case (4 e vs n)
  then show ?case
    by (cases n) (auto simp: kind_defs intro!: reads_cons reads_u8 reads_bind [OF reads_size] reads_map)
next
  case (5 e vs n)
  then show ?case
    by (cases n) (auto simp: kind_defs intro!: reads_cons reads_u8 reads_bind [OF reads_size] reads_map)
next
  case (8 i v fs n)
  obtain m where n: "n = Suc m" using 8(4) by (cases n) auto
  have "value_kind v \<noteq> kind_stop" by (cases v) (simp_all add: kind_defs)
  moreover have "reads (read_value m (value_kind v)) (write_value v) v"
    by (rule 8(1)) (use 8(3,4) n in simp_all)
  moreover have "reads (read_fields m) (write_fields fs) fs"
    by (rule 8(2)) (use 8(3,4) n in simp_all)
  ultimately show ?case
    by (auto simp: n intro!: reads_cons reads_u8 reads_bind [OF reads_ints(1)] reads_bind reads_map)
next
  case (10 k v x y es n)
  obtain m where n: "n = Suc m" using 10(5) by (cases n) auto
  note len = write_value_nonempty(1) [of x] write_value_nonempty(1) [of y]
  have "reads (read_value m k) (write_value x) x" "reads (read_value m v) (write_value y) y"
    "reads (read_entries m (length es) k v) (write_entries es) es"
    using 10 n len by auto
  then show ?case by (auto simp: n intro!: reads_bind reads_map)
next
  case (12 e x vs n)
  obtain m where n: "n = Suc m" using 12(4) by (cases n) auto
  have "reads (read_value m e) (write_value x) x" "reads (read_values m (length vs) e) (write_values vs) vs"
    using 12 n write_value_nonempty(1) [of x] by auto
  then show ?case by (auto simp: n intro!: reads_bind reads_map)
qed (case_tac n, simp_all add: kind_defs reads_return reads_map [OF reads_u8] reads_last [OF reads_u8]
  reads_map [OF reads_ints(1)] reads_map [OF reads_ints(2)] reads_map [OF reads_ints(3)])+


text \<open>\<open>yields P f\<close>: whatever \<open>f\<close> returns satisfies \<open>P\<close>.\<close>

definition yields :: "('a \<Rightarrow> bool) \<Rightarrow> 'a reader \<Rightarrow> bool" where
  "yields P f \<longleftrightarrow> (\<forall>s a s'. f s = Inr (a, s') \<longrightarrow> P a)"

lemma yields_bind: "yields P f \<Longrightarrow> (\<And>a. P a \<Longrightarrow> yields Q (g a)) \<Longrightarrow> yields Q (tx_bind f g)"
  unfolding yields_def by (fastforce simp: tx_simps)

lemma yields_basic: "P a \<Longrightarrow> yields P (tx_return a)" "yields P (tx_fail e)" "yields (\<lambda>a. True) f"
  "yields (\<lambda>s. length s = n) (read_exact n)"
  by (auto simp: yields_def tx_simps read_exact_def split: if_splits)

lemma yields_if: "(b \<Longrightarrow> yields P f) \<Longrightarrow> (\<not> b \<Longrightarrow> yields P g) \<Longrightarrow> yields P (if b then f else g)"
  by simp

lemma yields_size: "yields (\<lambda>k. k \<le> 1000000) read_size"
  by (auto simp: yields_def tx_simps read_size_def checked_size_def split: if_splits)

lemma readers_yield:
  "yields (\<lambda>v. value_kind v = kind \<and> wire_ok v) (read_value n kind) \<and>
   yields fields_ok (read_fields n) \<and>
   yields (\<lambda>es. length es = count \<and> entries_ok k v es) (read_entries n count k v) \<and>
   yields (\<lambda>vs. length vs = count \<and> values_ok e vs) (read_values n count e)"
proof (induction n arbitrary: kind count k v e)
  case 0
  show ?case by (simp add: yields_basic)
next
  case (Suc n)
  have ih: "yields (\<lambda>v. value_kind v = kind \<and> wire_ok v) (read_value n kind)"
    "yields fields_ok (read_fields n)"
    "yields (\<lambda>es. length es = count \<and> entries_ok k v es) (read_entries n count k v)"
    "yields (\<lambda>vs. length vs = count \<and> values_ok e vs) (read_values n count e)" for kind count k v e
    using Suc by blast+
  have "yields (\<lambda>v. value_kind v = kind \<and> wire_ok v) (read_value (Suc n) kind)"
    unfolding read_value.simps
    by (intro yields_if yields_bind [OF yields_basic(3) [of read_u8]] yields_bind [OF yields_basic(3) [of read_i16]]
        yields_bind [OF yields_basic(3) [of read_be32]] yields_bind [OF yields_basic(3) [of read_be64]]
        yields_bind [OF yields_size] yields_bind [OF yields_basic(4)] yields_bind [OF ih(2)]
        yields_bind [OF ih(3)] yields_bind [OF ih(4)] yields_basic(1,2)) auto
  moreover have "yields fields_ok (read_fields (Suc n))"
    unfolding read_fields.simps
    by (intro yields_if yields_bind [OF yields_basic(3) [of read_u8]] yields_bind [OF yields_basic(3) [of read_i16]]
        yields_bind [OF ih(1)] yields_bind [OF ih(2)] yields_basic(1)) auto
  moreover have "yields (\<lambda>es. length es = count \<and> entries_ok k v es) (read_entries (Suc n) count k v)"
    unfolding read_entries.simps
    by (intro yields_if yields_bind [OF ih(1)] yields_bind [OF ih(3)] yields_basic(1)) auto
  moreover have "yields (\<lambda>vs. length vs = count \<and> values_ok e vs) (read_values (Suc n) count e)"
    unfolding read_values.simps
    by (intro yields_if yields_bind [OF ih(1)] yields_bind [OF ih(4)] yields_basic(1)) auto
  ultimately show ?case by blast
qed

lemma read_struct_ok: "read_struct raw = Inr fs \<Longrightarrow> fields_ok fs"
  using readers_yield by (fastforce simp: read_struct_def yields_def split: sum.splits prod.splits if_splits)

lemma read_struct_write: "fields_ok fs \<Longrightarrow> read_struct (write_fields fs) = Inr fs"
  using reads_written(2) [of fs "3 * length (write_fields fs) + 4"]
  by (auto simp: read_struct_def reads_def dest: spec [of _ "[]"])

text \<open>C37: Decoding always ends: for every input \<open>read_struct\<close> returns fields or one of the
  code's errors, the three steps of fuel per byte being enough; and the fields it returns are
  well formed: every size is at most 1000000 and every element has its declared kind.\<close>

theorem read_struct_returns:
  "case read_struct raw of Inl e \<Rightarrow> e \<noteq> OutOfFuel | Inr fs \<Rightarrow> fields_ok fs"
proof -
  have "returns_upto (length raw) (read_fields (3 * length raw + 4))"
    using readers_return by fastforce
  then have "read_fields (3 * length raw + 4) raw \<noteq> Inl OutOfFuel" by (simp add: returns_upto_def)
  then have "read_struct raw \<noteq> Inl OutOfFuel"
    by (auto simp: read_struct_def split: sum.splits prod.splits if_splits)
  then show ?thesis using read_struct_ok by (auto split: sum.split)
qed

text \<open>C36: Encoding and decoding are inverse exactly on the well-formed fields: what
  \<open>write_struct\<close> writes is read back unchanged if and only if every size is at most 1000000 and
  every element has its declared kind; otherwise the client cannot read what the server wrote.\<close>

theorem thrift_roundtrip:
  "(case write_struct fs of Inl e \<Rightarrow> Inl e | Inr raw \<Rightarrow> read_struct raw) = Inr fs \<longleftrightarrow> fields_ok fs"
  using read_struct_write read_struct_ok by (auto simp: write_struct_def)


section \<open>The transport form\<close>

text \<open>
  A payload travels as base64 text over bzip2. The arguments stand for the two crates:
  \<open>b64_decode\<close> and \<open>b64_encode\<close> are the standard engine; \<open>bunzip\<close> gives the bytes the
  decompressor delivers and the error it stops with, if any (the reader takes at most one byte
  more than the limit, so an error behind them is not seen); \<open>bzip\<close> compresses.
\<close>

definition max_decompressed_bytes :: nat where
  "max_decompressed_bytes = 32 * 1024 * 1024"

definition normalize_transport :: "ustr \<Rightarrow> ustr" where
  "normalize_transport encoded = map (\<lambda>c. if c = 32 then 43 else c) (u_trim encoded)"

definition decode_transport ::
  "(ustr \<Rightarrow> ustr + bytes) \<Rightarrow> (bytes \<Rightarrow> bytes \<times> ustr option) \<Rightarrow> ustr \<Rightarrow> thrift_error + bytes" where
  "decode_transport b64_decode bunzip encoded =
    (let normalized = normalize_transport encoded in
     if normalized = [] then Inl EmptyPayload
     else case b64_decode normalized of
       Inl e \<Rightarrow> Inl (Base64 e)
     | Inr compressed \<Rightarrow>
         (case bunzip compressed of (out, err) \<Rightarrow>
           let raw = take (max_decompressed_bytes + 1) out in
           if length raw \<le> max_decompressed_bytes \<and> err \<noteq> None then Inl (Io (the err))
           else if max_decompressed_bytes < length raw then Inl PayloadTooLarge
           else if raw = [] then Inl EmptyPayload
           else Inr raw))"

definition encode_transport ::
  "(bytes \<Rightarrow> ustr) \<Rightarrow> (bytes \<Rightarrow> ustr + bytes) \<Rightarrow> bytes \<Rightarrow> thrift_error + ustr" where
  "encode_transport b64_encode bzip raw =
    (if raw = [] then Inl EmptyPayload
     else case bzip raw of Inl e \<Rightarrow> Inl (Io e) | Inr compressed \<Rightarrow> Inr (b64_encode compressed))"

text \<open>A form parser has read the \<open>+\<close> of an unescaped base64 text as a space.\<close>

definition form_spaced :: "ustr \<Rightarrow> ustr" where
  "form_spaced t = map (\<lambda>c. if c = 43 then 32 else c) t"

definition no_space :: "ustr \<Rightarrow> bool" where
  "no_space t \<longleftrightarrow> list_all (\<lambda>c. \<not> u_space c) t"

lemma u_trim_id: "t = [] \<or> \<not> u_space (hd t) \<and> \<not> u_space (last t) \<Longrightarrow> u_trim t = t"
proof -
  assume t: "t = [] \<or> \<not> u_space (hd t) \<and> \<not> u_space (last t)"
  then have "dropWhile u_space t = t" "dropWhile u_space (rev t) = rev t"
    by (auto simp: dropWhile_eq_self_iff hd_rev)
  then show ?thesis by (simp add: u_trim_def)
qed

lemma u_trim_space_end: "u_trim (s @ [32]) = u_trim s"
proof -
  have "u_space 32" by (simp add: u_space_def)
  then show ?thesis by (auto simp: u_trim_def dropWhile_append dropWhile_eq_Nil_conv [THEN iffD2])
qed

lemma normalize_transport_id: "no_space t \<Longrightarrow> normalize_transport t = t"
proof -
  assume t: "no_space t"
  then have "u_trim t = t"
    by (intro u_trim_id) (auto simp: no_space_def list_all_iff)
  moreover have "c \<in> set t \<Longrightarrow> c \<noteq> 32" for c
    using t by (auto simp: no_space_def list_all_iff u_space_def)
  ultimately show ?thesis by (auto simp: normalize_transport_def intro: map_idI)
qed

lemma normalize_form_spaced:
  assumes "no_space t" "t \<noteq> []" "hd t \<noteq> 43" "last t \<noteq> 43"
  shows "normalize_transport (form_spaced t) = t"
proof -
  have space: "c \<in> set t \<Longrightarrow> \<not> u_space c" for c
    using assms(1) by (auto simp: no_space_def list_all_iff)
  have "u_trim (form_spaced t) = form_spaced t"
    using assms space by (intro u_trim_id) (simp add: form_spaced_def hd_map last_map)
  moreover have "c \<in> set t \<Longrightarrow> c \<noteq> 32" for c
    using space by (fastforce simp: u_space_def)
  ultimately show ?thesis by (auto simp: normalize_transport_def form_spaced_def intro: map_idI)
qed

text \<open>The transport text survives a form parser that reads \<open>+\<close> as a space, except at its
  end: decoding repairs every inner space, so a base64 text that neither begins nor ends with
  \<open>+\<close> decodes as if it had arrived intact; but a final \<open>+\<close>, which a base64 text can have, is
  trimmed away and decoded as if it had not been sent.\<close>

lemma transport_repairs_plus:
  assumes "no_space t" "t \<noteq> []"
  shows "(hd t \<noteq> 43 \<and> last t \<noteq> 43 \<longrightarrow>
      decode_transport b64_decode bunzip (form_spaced t) = decode_transport b64_decode bunzip t)
    \<and> (hd t \<noteq> 43 \<and> last t \<noteq> 43 \<longrightarrow>
      decode_transport b64_decode bunzip (form_spaced (t @ [43])) = decode_transport b64_decode bunzip t)"
proof -
  have "normalize_transport (form_spaced (t @ [43])) = normalize_transport (form_spaced t)"
    by (simp add: normalize_transport_def form_spaced_def u_trim_space_end)
  then show ?thesis
    using assms by (simp add: decode_transport_def normalize_form_spaced normalize_transport_id)
qed

text \<open>The text \<open>Qlpo\<close> is the beginning of every bzip2 payload in base64.\<close>

lemma transport_repairs_plus_witness:
  "normalize_transport [81, 108, 32, 111, 32] = [81, 108, 43, 111]
   \<and> decode_transport (\<lambda>t. Inr (map word_of_nat t)) (\<lambda>b. (b, None)) (form_spaced ([81, 108, 43, 111] @ [43]))
     = Inr [81, 108, 43, 111]"
proof -
  have "decode_transport (\<lambda>t. Inr (map word_of_nat t)) (\<lambda>b. (b, None)) (form_spaced ([81, 108, 43, 111] @ [43]))
      = decode_transport (\<lambda>t. Inr (map word_of_nat t)) (\<lambda>b. (b, None)) [81, 108, 43, 111]"
    using transport_repairs_plus [of "[81, 108, 43, 111]" "\<lambda>t. Inr (map word_of_nat t)" "\<lambda>b. (b, None)"]
    by (simp add: no_space_def u_space_def)
  then show ?thesis
    by (simp add: decode_transport_def normalize_transport_def u_trim_def u_space_def max_decompressed_bytes_def)
qed

text \<open>What the server encodes, a client with the same codecs decodes.\<close>

lemma transport_roundtrip:
  assumes "\<And>b. b64_decode (b64_encode b) = Inr b" "\<And>b. no_space (b64_encode b)"
    "\<And>b. b \<noteq> [] \<Longrightarrow> b64_encode b \<noteq> []"
    "bzip raw = Inr z" "z \<noteq> []" "bunzip z = (raw, None)" "raw \<noteq> []" "length raw \<le> max_decompressed_bytes"
  shows "encode_transport b64_encode bzip raw = Inr (b64_encode z) \<and>
         decode_transport b64_decode bunzip (b64_encode z) = Inr raw"
  using assms by (simp add: encode_transport_def decode_transport_def normalize_transport_id)

end
