(* ===== verification/Envelope.thy ===== *)
theory Envelope
  imports Wire
begin

text \<open>
  The RPC envelope (\<open>crates/protocol/src/envelope.rs\<close>) and the schema it reads
  (\<open>crates/protocol/src/registry.rs\<close>). A Rust string is the list of its UTF-8 bytes as
  characters, so cutting it at an ASCII character is the same operation here. A \<open>BTreeMap\<close> is a
  table ordered by its key. The schema document is parsed by serde: the model starts at the
  calls and types it holds. The generated \<open>RpcName\<close> enum is a build product and not modelled.
  A panic of the code is the error \<open>Panicked\<close>.
\<close>

section \<open>The schema\<close>

record field_spec =
  fs_name :: string
  fs_type :: string
  fs_id :: "16 word"

record type_spec =
  ts_namespace :: string
  ts_name :: string
  ts_fields :: "field_spec list"

record wire_spec =
  ws_namespace :: string
  ws_type :: string

record rpc_spec =
  rpc_name :: string
  rpc_category :: string
  rpc_class_text :: string
  rpc_request_candidates :: "string list"
  rpc_response_candidates :: "string list"
  rpc_request_wires :: "wire_spec list"
  rpc_response_wires :: "wire_spec list"
  rpc_has_server_time :: bool

datatype rpc_class = Active | TransportOnly | DtoOnly

text \<open>\<open>None\<close> stands for the panic on any other text.\<close>

definition rpc_class :: "rpc_spec \<Rightarrow> rpc_class option" where
  "rpc_class spec =
    (if rpc_class_text spec = ''active'' then Some Active
     else if rpc_class_text spec = ''transport-only'' then Some TransportOnly
     else if rpc_class_text spec = ''dto-only'' then Some DtoOnly
     else None)"

record protocol_document =
  doc_calls :: "rpc_spec list"
  doc_types :: "type_spec list"

record protocol_schema =
  schema_calls :: "(string, rpc_spec) table"
  schema_types :: "(string, type_spec) table"

text \<open>Collecting into a map keeps the last value of a key.\<close>

definition collect_map :: "('k::linorder \<times> 'v) list \<Rightarrow> ('k, 'v) table" where
  "collect_map kvs = fold (\<lambda>(k, v). tbl_put k v) kvs []"

definition schema_of_document :: "protocol_document \<Rightarrow> protocol_schema" where
  "schema_of_document document =
    \<lparr> schema_calls = collect_map (map (\<lambda>spec. (rpc_name spec, spec)) (doc_calls document)),
      schema_types = collect_map (map (\<lambda>spec. (ts_namespace spec @ ''::'' @ ts_name spec, spec)) (doc_types document)) \<rparr>"

definition schema_call :: "protocol_schema \<Rightarrow> string \<Rightarrow> rpc_spec option" where
  "schema_call schema name = tbl_get (schema_calls schema) name"

definition schema_type :: "protocol_schema \<Rightarrow> string \<Rightarrow> type_spec option" where
  "schema_type schema name = tbl_get (schema_types schema) name"

section \<open>Strings\<close>

definition as_bytes :: "string \<Rightarrow> bytes" where
  "as_bytes s = map (\<lambda>c. word_of_nat (of_char c)) s"

definition utf8_cont :: "byte \<Rightarrow> bool" where
  "utf8_cont b \<longleftrightarrow> 128 \<le> b \<and> b \<le> 191"

fun utf8_valid :: "bytes \<Rightarrow> bool" where
  "utf8_valid [] \<longleftrightarrow> True"
| "utf8_valid (a # bs) \<longleftrightarrow>
    (if a \<le> 127 then utf8_valid bs
     else case bs of
       [] \<Rightarrow> False
     | b # cs \<Rightarrow>
         if 194 \<le> a \<and> a \<le> 223 then utf8_cont b \<and> utf8_valid cs
         else (case cs of
           [] \<Rightarrow> False
         | c # ds \<Rightarrow>
             if a = 224 then 160 \<le> b \<and> b \<le> 191 \<and> utf8_cont c \<and> utf8_valid ds
             else if a = 237 then 128 \<le> b \<and> b \<le> 159 \<and> utf8_cont c \<and> utf8_valid ds
             else if 225 \<le> a \<and> a \<le> 239 then utf8_cont b \<and> utf8_cont c \<and> utf8_valid ds
             else (case ds of
               [] \<Rightarrow> False
             | d # es \<Rightarrow>
                 (if a = 240 then 144 \<le> b \<and> b \<le> 191
                  else if 241 \<le> a \<and> a \<le> 243 then utf8_cont b
                  else a = 244 \<and> 128 \<le> b \<and> b \<le> 143)
                 \<and> utf8_cont c \<and> utf8_cont d \<and> utf8_valid es)))"

definition from_utf8 :: "bytes \<Rightarrow> string option" where
  "from_utf8 bs = (if utf8_valid bs then Some (map (\<lambda>b. char_of (unat b)) bs) else None)"

definition strip_prefix :: "string \<Rightarrow> string \<Rightarrow> string option" where
  "strip_prefix p s = (if take (length p) s = p then Some (drop (length p) s) else None)"

definition rsplit_dot :: "string \<Rightarrow> (string \<times> string) option" where
  "rsplit_dot s =
    (if CHR ''.'' \<in> set s
     then Some (rev (tl (dropWhile (\<lambda>c. c \<noteq> CHR ''.'') (rev s))), rev (takeWhile (\<lambda>c. c \<noteq> CHR ''.'') (rev s)))
     else None)"

fun contains_colons :: "string \<Rightarrow> bool" where
  "contains_colons (a # b # s) \<longleftrightarrow> a = CHR '':'' \<and> b = CHR '':'' \<or> contains_colons (b # s)"
| "contains_colons s \<longleftrightarrow> False"

definition split_map :: "string \<Rightarrow> (string \<times> string) option" where
  "split_map value =
    (case strip_prefix ''map['' value of
       None \<Rightarrow> None
     | Some remainder \<Rightarrow>
         if CHR '']'' \<in> set remainder
         then Some (takeWhile (\<lambda>c. c \<noteq> CHR '']'') remainder, tl (dropWhile (\<lambda>c. c \<noteq> CHR '']'') remainder))
         else None)"

section \<open>Requests\<close>

record named_request =
  nr_call :: string
  nr_fields :: "(string, wire_value) table"
  nr_raw_fields :: "field list"

definition request_value :: "named_request \<Rightarrow> string \<Rightarrow> wire_value option" where
  "request_value r name = tbl_get (nr_fields r) name"

text \<open>The integers of a request are read as \<open>i64\<close>.\<close>

fun wire_integer :: "wire_value \<Rightarrow> int option" where
  "wire_integer (VByte b) = Some (sint b)"
| "wire_integer (VI16 i) = Some (sint i)"
| "wire_integer (VI32 i) = Some (sint i)"
| "wire_integer (VI64 i) = Some (sint i)"
| "wire_integer _ = None"

definition request_integer :: "named_request \<Rightarrow> string \<Rightarrow> int option" where
  "request_integer r name = Option.bind (tbl_get (nr_fields r) name) wire_integer"

definition request_string :: "named_request \<Rightarrow> string \<Rightarrow> string option" where
  "request_string r name =
    (case tbl_get (nr_fields r) name of Some (VString s) \<Rightarrow> from_utf8 s | _ \<Rightarrow> None)"

definition request_list :: "named_request \<Rightarrow> string \<Rightarrow> wire_value list option" where
  "request_list r name =
    (case tbl_get (nr_fields r) name of Some (VList _ vs) \<Rightarrow> Some vs | _ \<Rightarrow> None)"

definition request_integers :: "named_request \<Rightarrow> string \<Rightarrow> int list option" where
  "request_integers r name = Option.bind (request_list r name) (\<lambda>vs.
     if list_all (\<lambda>v. wire_integer v \<noteq> None) vs then Some (map (\<lambda>v. the (wire_integer v)) vs) else None)"

datatype envelope_error =
    Thrift thrift_error
  | MissingCall
  | MissingData
  | CallMismatch string string
  | MissingWire string
  | MissingType string
  | RecursionLimit string
  | ExpectedStruct string
  | UnknownField string string
  | Panicked

definition qualified_type :: "string \<Rightarrow> string \<Rightarrow> string" where
  "qualified_type ns t =
    (case rsplit_dot t of
       Some (n, name) \<Rightarrow> n @ ''::'' @ name
     | None \<Rightarrow> if contains_colons t then t else ns @ ''::'' @ t)"

definition resolve_type :: "protocol_schema \<Rightarrow> string \<Rightarrow> string \<Rightarrow> envelope_error + type_spec" where
  "resolve_type schema ns t =
    (case schema_type schema (qualified_type ns t) of
       None \<Rightarrow> Inl (MissingType (qualified_type ns t))
     | Some spec \<Rightarrow> Inr spec)"

definition find_field :: "16 word \<Rightarrow> field list \<Rightarrow> field option" where
  "find_field i fs = find (\<lambda>f. field_id f = i) fs"

definition envelope_call :: "field list \<Rightarrow> string option" where
  "envelope_call fs = (case find_field 1 fs of Some (Field _ (VString s)) \<Rightarrow> from_utf8 s | _ \<Rightarrow> None)"

definition envelope_data :: "field list \<Rightarrow> field list option" where
  "envelope_data fs = (case find_field 2 fs of Some (Field _ (VStruct ds)) \<Rightarrow> Some ds | _ \<Rightarrow> None)"

definition name_fields :: "field_spec list \<Rightarrow> field list \<Rightarrow> (string, wire_value) table" where
  "name_fields specs raw_fields =
    fold (\<lambda>spec named. case find_field (fs_id spec) raw_fields of
       None \<Rightarrow> named | Some f \<Rightarrow> tbl_put (fs_name spec) (field_value f) named) specs []"

definition decode_request :: "bytes \<Rightarrow> rpc_spec \<Rightarrow> protocol_schema \<Rightarrow> envelope_error + named_request" where
  "decode_request raw expected schema =
    (case read_struct raw of
       Inl e \<Rightarrow> Inl (Thrift e)
     | Inr envelope \<Rightarrow>
     (case envelope_call envelope of
       None \<Rightarrow> Inl MissingCall
     | Some call \<Rightarrow>
       if call \<noteq> rpc_name expected then Inl (CallMismatch (rpc_name expected) call)
       else (case envelope_data envelope of
         None \<Rightarrow> Inl MissingData
       | Some raw_fields \<Rightarrow>
       (case rpc_request_wires expected of
         [] \<Rightarrow> Inl (MissingWire (rpc_name expected))
       | wire # _ \<Rightarrow>
       (case resolve_type schema (ws_namespace wire) (ws_type wire) of
         Inl e \<Rightarrow> Inl e
       | Inr spec \<Rightarrow> Inr \<lparr> nr_call = rpc_name expected,
             nr_fields = name_fields (ts_fields spec) raw_fields, nr_raw_fields = raw_fields \<rparr>)))))"


section \<open>Default values\<close>

text \<open>The kind of a scalar type; \<open>None\<close> for the name of a struct.\<close>

definition scalar_kind :: "string \<Rightarrow> byte option" where
  "scalar_kind t =
    (if t = ''bool'' then Some kind_bool
     else if t = ''byte'' \<or> t = ''int8'' \<or> t = ''uint8'' then Some kind_byte
     else if t = ''int16'' \<or> t = ''uint16'' then Some kind_i16
     else if t = ''int'' \<or> t = ''int32'' \<or> t = ''uint'' \<or> t = ''uint32'' then Some kind_i32
     else if t = ''int64'' \<or> t = ''uint64'' then Some kind_i64
     else if t = ''float32'' \<or> t = ''float64'' then Some kind_double
     else if t = ''string'' then Some kind_string
     else None)"

definition scalar_default :: "string \<Rightarrow> wire_value option" where
  "scalar_default t =
    (if t = ''bool'' then Some (VBool False)
     else if t = ''byte'' \<or> t = ''int8'' \<or> t = ''uint8'' then Some (VByte 0)
     else if t = ''int16'' \<or> t = ''uint16'' then Some (VI16 0)
     else if t = ''int'' \<or> t = ''int32'' \<or> t = ''uint'' \<or> t = ''uint32'' then Some (VI32 0)
     else if t = ''int64'' \<or> t = ''uint64'' then Some (VI64 0)
     else if t = ''float32'' \<or> t = ''float64'' then Some (VDouble 0)
     else if t = ''string'' then Some (VString [])
     else None)"

definition wire_kind :: "protocol_schema \<Rightarrow> string \<Rightarrow> string \<Rightarrow> envelope_error + byte" where
  "wire_kind schema ns t =
    (if strip_prefix ''[]'' t \<noteq> None then Inr kind_list
     else if strip_prefix ''map['' t \<noteq> None then Inr kind_map
     else case scalar_kind t of
       Some k \<Rightarrow> Inr k
     | None \<Rightarrow> (case resolve_type schema ns t of Inl e \<Rightarrow> Inl e | Inr _ \<Rightarrow> Inr kind_struct))"

function (sequential) default_value :: "protocol_schema \<Rightarrow> string \<Rightarrow> string \<Rightarrow> nat \<Rightarrow> envelope_error + wire_value"
  and default_fields :: "protocol_schema \<Rightarrow> string \<Rightarrow> field_spec list \<Rightarrow> nat \<Rightarrow> envelope_error + field list" where
  "default_value schema ns t depth =
    (if 32 < depth then Inl (RecursionLimit t)
     else case strip_prefix ''[]'' t of
       Some element \<Rightarrow> (case wire_kind schema ns element of
           Inl e \<Rightarrow> Inl e | Inr k \<Rightarrow> Inr (VList k []))
     | None \<Rightarrow>
     (case split_map t of
       Some (k, v) \<Rightarrow> (case wire_kind schema ns k of
           Inl e \<Rightarrow> Inl e
         | Inr kk \<Rightarrow> (case wire_kind schema ns v of Inl e \<Rightarrow> Inl e | Inr vk \<Rightarrow> Inr (VMap kk vk [])))
     | None \<Rightarrow>
     (case scalar_default t of
       Some v \<Rightarrow> Inr v
     | None \<Rightarrow>
     (case resolve_type schema ns t of
       Inl e \<Rightarrow> Inl e
     | Inr spec \<Rightarrow> (case default_fields schema (ts_namespace spec) (ts_fields spec) (depth + 1) of
         Inl e \<Rightarrow> Inl e | Inr fs \<Rightarrow> Inr (VStruct fs))))))"
| "default_fields schema ns [] depth = Inr []"
| "default_fields schema ns (f # fs) depth =
    (case default_value schema ns (fs_type f) depth of
       Inl e \<Rightarrow> Inl e
     | Inr v \<Rightarrow> (case default_fields schema ns fs depth of
         Inl e \<Rightarrow> Inl e | Inr rest \<Rightarrow> Inr (Field (fs_id f) v # rest)))"
  by pat_completeness auto

termination
  by (relation "measures
      [case_sum (\<lambda>(schema, ns, t, depth). 2 * (34 - depth)) (\<lambda>(schema, ns, fs, depth). 2 * (34 - depth) + 1),
       case_sum (\<lambda>_. 0) (\<lambda>(schema, ns, fs, depth). length fs)]") auto

declare default_value.simps [simp del]

section \<open>Structs by field name\<close>

definition find_spec :: "string \<Rightarrow> field_spec list \<Rightarrow> field_spec option" where
  "find_spec name specs = find (\<lambda>f. fs_name f = name) specs"

fun encode_named :: "type_spec \<Rightarrow> string \<Rightarrow> (string \<times> wire_value) list \<Rightarrow> envelope_error + field list" where
  "encode_named spec t [] = Inr []"
| "encode_named spec t ((name, v) # rest) =
    (case find_spec name (ts_fields spec) of
       None \<Rightarrow> Inl (UnknownField t name)
     | Some f \<Rightarrow> (case encode_named spec t rest of
         Inl e \<Rightarrow> Inl e | Inr fs \<Rightarrow> Inr (Field (fs_id f) v # fs)))"

definition sparse_struct_value ::
  "protocol_schema \<Rightarrow> string \<Rightarrow> string \<Rightarrow> (string \<times> wire_value) list \<Rightarrow> envelope_error + wire_value" where
  "sparse_struct_value schema ns t named =
    (case resolve_type schema ns t of
       Inl e \<Rightarrow> Inl e
     | Inr spec \<Rightarrow> (case encode_named spec t named of
         Inl e \<Rightarrow> Inl e | Inr fs \<Rightarrow> Inr (VStruct (sort_key (\<lambda>f. sint (field_id f)) fs))))"

text \<open>Replace the value of the first field with the id; \<open>None\<close> is the failed \<open>expect\<close>.\<close>

fun set_field :: "16 word \<Rightarrow> wire_value \<Rightarrow> field list \<Rightarrow> field list option" where
  "set_field i v [] = None"
| "set_field i v (f # fs) =
    (if field_id f = i then Some (Field i v # fs) else map_option ((#) f) (set_field i v fs))"

fun override_fields ::
  "type_spec \<Rightarrow> string \<Rightarrow> (string \<times> wire_value) list \<Rightarrow> field list \<Rightarrow> envelope_error + field list" where
  "override_fields spec t [] fs = Inr fs"
| "override_fields spec t ((name, v) # rest) fs =
    (case find_spec name (ts_fields spec) of
       None \<Rightarrow> Inl (UnknownField t name)
     | Some f \<Rightarrow> (case set_field (fs_id f) v fs of
         None \<Rightarrow> Inl Panicked
       | Some fs' \<Rightarrow> override_fields spec t rest fs'))"

definition struct_value ::
  "protocol_schema \<Rightarrow> string \<Rightarrow> string \<Rightarrow> (string \<times> wire_value) list \<Rightarrow> envelope_error + wire_value" where
  "struct_value schema ns t overrides =
    (case resolve_type schema ns t of
       Inl e \<Rightarrow> Inl e
     | Inr spec \<Rightarrow> (case default_value schema ns t 0 of
         Inl e \<Rightarrow> Inl e
       | Inr (VStruct fs) \<Rightarrow>
           (case override_fields spec t overrides fs of Inl e \<Rightarrow> Inl e | Inr fs' \<Rightarrow> Inr (VStruct fs'))
       | Inr _ \<Rightarrow> Inl (ExpectedStruct t)))"

definition response_wire :: "rpc_spec \<Rightarrow> envelope_error + wire_spec" where
  "response_wire spec =
    (case rpc_response_wires spec of [] \<Rightarrow> Inl (MissingWire (rpc_name spec)) | wire # _ \<Rightarrow> Inr wire)"

definition response_struct ::
  "rpc_spec \<Rightarrow> protocol_schema \<Rightarrow> (string \<times> wire_value) list \<Rightarrow> envelope_error + wire_value" where
  "response_struct spec schema overrides =
    (case response_wire spec of
       Inl e \<Rightarrow> Inl e | Inr wire \<Rightarrow> struct_value schema (ws_namespace wire) (ws_type wire) overrides)"

definition response_sparse_struct ::
  "rpc_spec \<Rightarrow> protocol_schema \<Rightarrow> (string \<times> wire_value) list \<Rightarrow> envelope_error + wire_value" where
  "response_sparse_struct spec schema named =
    (case response_wire spec of
       Inl e \<Rightarrow> Inl e | Inr wire \<Rightarrow> sparse_struct_value schema (ws_namespace wire) (ws_type wire) named)"

section \<open>Responses\<close>

definition empty_maintenance :: wire_value where
  "empty_maintenance = VStruct
    [Field 1 (VI16 0), Field 2 (VString []), Field 3 (VString []), Field 4 (VI16 0),
     Field 5 (VString []), Field 6 (VString []), Field 7 (VString [])]"

definition response_fields ::
  "rpc_spec \<Rightarrow> int \<Rightarrow> int \<Rightarrow> string \<Rightarrow> wire_value option \<Rightarrow> wire_value option \<Rightarrow> field list" where
  "response_fields spec unix_seconds code message data maintenance =
    (let (mode_id, call_id, data_id, maintenance_id) =
       (if rpc_has_server_time spec then (3, 4, 5, 6) else (2, 3, 4, 5)) in
     [Field 1 (VStruct [Field 1 (VI32 (word_of_int code)), Field 2 (VString (as_bytes message))])]
     @ (if rpc_has_server_time spec
        then [Field 2 (VStruct [Field 1 (VI32 (word_of_int (sat_i32 unix_seconds))), Field 2 (VI64 (word_of_int unix_seconds))])]
        else [])
     @ [Field mode_id (VString (as_bytes (rpc_category spec))), Field call_id (VString (as_bytes (rpc_name spec)))]
     @ (case data of None \<Rightarrow> [] | Some v \<Rightarrow> [Field data_id v])
     @ [Field maintenance_id (case maintenance of None \<Rightarrow> empty_maintenance | Some v \<Rightarrow> v)])"

definition response_with_optional_data ::
  "rpc_spec \<Rightarrow> int \<Rightarrow> int \<Rightarrow> string \<Rightarrow> wire_value option \<Rightarrow> wire_value option \<Rightarrow> envelope_error + bytes" where
  "response_with_optional_data spec unix_seconds code message data maintenance =
    (case write_struct (response_fields spec unix_seconds code message data maintenance) of
       Inl e \<Rightarrow> Inl (Thrift e) | Inr raw \<Rightarrow> Inr raw)"

definition error_response :: "rpc_spec \<Rightarrow> int \<Rightarrow> int \<Rightarrow> string \<Rightarrow> envelope_error + bytes" where
  "error_response spec unix_seconds code message =
    response_with_optional_data spec unix_seconds code message None None"

definition response ::
  "rpc_spec \<Rightarrow> int \<Rightarrow> int \<Rightarrow> string \<Rightarrow> wire_value \<Rightarrow> wire_value option \<Rightarrow> envelope_error + bytes" where
  "response spec unix_seconds code message data maintenance =
    response_with_optional_data spec unix_seconds code message (Some data) maintenance"

definition success_data :: "rpc_spec \<Rightarrow> protocol_schema \<Rightarrow> wire_value option \<Rightarrow> envelope_error + wire_value" where
  "success_data spec schema data =
    (case response_wire spec of
       Inl e \<Rightarrow> Inl e
     | Inr wire \<Rightarrow> (case data of
         Some v \<Rightarrow> Inr v
       | None \<Rightarrow> default_value schema (ws_namespace wire) (ws_type wire) 0))"

definition success_response ::
  "rpc_spec \<Rightarrow> protocol_schema \<Rightarrow> int \<Rightarrow> wire_value option \<Rightarrow> envelope_error + bytes" where
  "success_response spec schema unix_seconds data =
    (case success_data spec schema data of
       Inl e \<Rightarrow> Inl e | Inr v \<Rightarrow> response spec unix_seconds 0 [] v None)"

definition success_response_with_maintenance ::
  "rpc_spec \<Rightarrow> protocol_schema \<Rightarrow> int \<Rightarrow> wire_value option \<Rightarrow> wire_value \<Rightarrow> envelope_error + bytes" where
  "success_response_with_maintenance spec schema unix_seconds data maintenance =
    (case success_data spec schema data of
       Inl e \<Rightarrow> Inl e | Inr v \<Rightarrow> response spec unix_seconds 0 [] v (Some maintenance))"

section \<open>Facts\<close>

lemma if_Some_cases:
  "(if b then Some x else y) = Some v \<Longrightarrow> (x = v \<Longrightarrow> P) \<Longrightarrow> (y = Some v \<Longrightarrow> P) \<Longrightarrow> P"
  by (cases b) simp_all

lemma scalar_default_ok: "scalar_default t = Some v \<Longrightarrow> wire_ok v"
  unfolding scalar_default_def by (elim if_Some_cases) auto

lemma default_ok:
  "default_value schema ns t depth = Inr v \<Longrightarrow> wire_ok v"
  "default_fields schema ns specs depth = Inr fs \<Longrightarrow> fields_ok fs \<and> map field_id fs = map fs_id specs"
proof (induction schema ns t depth and schema ns specs depth arbitrary: v and fs
    rule: default_value_default_fields.induct)
  case (1 schema ns t depth)
  from 1(2) show ?case
    by (subst (asm) default_value.simps)
      (auto split: if_split_asm option.split_asm sum.split_asm prod.split_asm dest: scalar_default_ok 1(1))
next
  case (2 schema ns depth)
  then show ?case by simp
next
  case (3 schema ns f fs depth)
  then show ?case by (auto split: sum.splits)
qed


lemma resolve_not_panicked: "resolve_type schema ns t \<noteq> Inl Panicked"
  by (simp add: resolve_type_def split: option.split)

lemma wire_kind_not_panicked: "wire_kind schema ns t \<noteq> Inl Panicked"
  using resolve_not_panicked [of schema ns t] by (auto simp: wire_kind_def split: option.splits sum.splits)

lemma default_not_panicked:
  "default_value schema ns t depth \<noteq> Inl Panicked" "default_fields schema ns specs depth \<noteq> Inl Panicked"
proof (induction schema ns t depth and schema ns specs depth rule: default_value_default_fields.induct)
  case (1 schema ns t depth)
  then show ?case
    by (subst default_value.simps)
      (auto simp: resolve_not_panicked wire_kind_not_panicked split: option.split sum.split prod.split)
qed (auto split: sum.splits)

lemma default_struct:
  assumes "default_value schema ns t depth = Inr (VStruct fs)" "resolve_type schema ns t = Inr spec"
  shows "map field_id fs = map fs_id (ts_fields spec)"
proof -
  have "scalar_default t \<noteq> Some (VStruct fs)"
    unfolding scalar_default_def by (auto elim!: if_Some_cases)
  with assms show ?thesis
    by (subst (asm) default_value.simps)
      (auto split: if_split_asm option.split_asm sum.split_asm prod.split_asm dest: default_ok(2))
qed

lemma char_of_byte: "map (\<lambda>b. char_of (unat b)) (as_bytes s) = s"
proof -
  have "char_of (unat (word_of_nat (of_char c) :: byte)) = c" for c
    by (simp add: unat_of_nat char_of_mod_256)
  then show ?thesis by (simp add: as_bytes_def comp_def)
qed

lemma from_utf8_as_bytes: "utf8_valid (as_bytes s) \<Longrightarrow> from_utf8 (as_bytes s) = Some s"
  by (simp add: from_utf8_def char_of_byte)

lemma length_as_bytes [simp]: "length (as_bytes s) = length s"
  by (simp add: as_bytes_def)

lemma find_field_Nil [simp]: "find_field i [] = None"
  by (simp add: find_field_def)

lemma find_field_Cons [simp]:
  "find_field i (f # fs) = (if field_id f = i then Some f else find_field i fs)"
  by (simp add: find_field_def)

lemma tbl_get_name_fields:
  assumes "distinct (map fs_name specs)"
  shows "tbl_get (name_fields specs raw_fields) name =
    Option.bind (find (\<lambda>s. fs_name s = name) specs)
      (\<lambda>s. map_option field_value (find_field (fs_id s) raw_fields))"
proof -
  have "tbl_get (fold (\<lambda>spec named. case find_field (fs_id spec) raw_fields of
         None \<Rightarrow> named | Some f \<Rightarrow> tbl_put (fs_name spec) (field_value f) named) specs t) name =
    (case find (\<lambda>s. fs_name s = name) specs of
       None \<Rightarrow> tbl_get t name
     | Some s \<Rightarrow> (case find_field (fs_id s) raw_fields of
         None \<Rightarrow> tbl_get t name | Some f \<Rightarrow> Some (field_value f)))" for t
    using assms
  proof (induction specs arbitrary: t)
    case (Cons s specs)
    then have "fs_name s = name \<Longrightarrow> find (\<lambda>s. fs_name s = name) specs = None"
      by (auto simp: find_None_iff image_iff)
    with Cons show ?case by (auto simp: tbl_get_put split: option.split)
  qed simp
  then show ?thesis
    by (simp add: name_fields_def split: option.split)
qed

section \<open>Requests are read by name\<close>

text \<open>A request that names the call and carries well-formed fields is decoded completely:
  the call and the raw fields are the ones sent, and under every name of the request type the
  handler finds the value the client sent for that field's id, and nothing else.\<close>

lemma request_read_by_name:
  assumes "rpc_request_wires spec = wire # wires"
    and "resolve_type schema (ws_namespace wire) (ws_type wire) = Inr type"
    and "distinct (map fs_name (ts_fields type))"
    and "utf8_valid (as_bytes (rpc_name spec))" "length (rpc_name spec) \<le> 1000000" "fields_ok sent"
  shows "\<exists>r. decode_request (write_fields [Field 1 (VString (as_bytes (rpc_name spec))), Field 2 (VStruct sent)])
                spec schema = Inr r
       \<and> nr_call r = rpc_name spec \<and> nr_raw_fields r = sent
       \<and> (\<forall>name. request_value r name =
            Option.bind (find_spec name (ts_fields type)) (\<lambda>f. map_option field_value (find_field (fs_id f) sent)))"
  using assms
  by (simp add: decode_request_def read_struct_write envelope_call_def envelope_data_def from_utf8_as_bytes
      request_value_def tbl_get_name_fields find_spec_def del: write_fields.simps)

definition demo_type :: type_spec where
  "demo_type = \<lparr> ts_namespace = ''user'', ts_name = ''Load'', ts_fields =
     [\<lparr> fs_name = ''U_seq'', fs_type = ''int32'', fs_id = 1 \<rparr>, \<lparr> fs_name = ''U_id'', fs_type = ''string'', fs_id = 2 \<rparr>] \<rparr>"

definition demo_rpc :: rpc_spec where
  "demo_rpc = \<lparr> rpc_name = ''userLoad'', rpc_category = ''user'', rpc_class_text = ''active'',
     rpc_request_candidates = [], rpc_response_candidates = [],
     rpc_request_wires = [\<lparr> ws_namespace = ''user'', ws_type = ''Load'' \<rparr>],
     rpc_response_wires = [\<lparr> ws_namespace = ''user'', ws_type = ''Load'' \<rparr>], rpc_has_server_time = True \<rparr>"

definition demo_schema :: protocol_schema where
  "demo_schema = schema_of_document \<lparr> doc_calls = [demo_rpc], doc_types = [demo_type] \<rparr>"

definition demo_wire :: wire_spec where
  "demo_wire = \<lparr> ws_namespace = ''user'', ws_type = ''Load'' \<rparr>"

lemma demo_resolves: "resolve_type demo_schema (ws_namespace demo_wire) (ws_type demo_wire) = Inr demo_type"
  by code_simp

lemma request_read_by_name_witness:
  "\<exists>r. decode_request (write_fields [Field 1 (VString (as_bytes ''userLoad'')), Field 2 (VStruct [Field 1 (VI32 7)])])
        demo_rpc demo_schema = Inr r
     \<and> request_integer r ''U_seq'' = Some 7 \<and> request_value r ''U_id'' = None"
proof -
  have "\<exists>r. decode_request (write_fields [Field 1 (VString (as_bytes (rpc_name demo_rpc))), Field 2 (VStruct [Field 1 (VI32 7)])])
        demo_rpc demo_schema = Inr r \<and> nr_call r = rpc_name demo_rpc \<and> nr_raw_fields r = [Field 1 (VI32 7)]
     \<and> (\<forall>name. request_value r name =
          Option.bind (find_spec name (ts_fields demo_type)) (\<lambda>f. map_option field_value (find_field (fs_id f) [Field 1 (VI32 7)])))"
    by (rule request_read_by_name [OF _ demo_resolves, where wires = "[]"])
      (simp_all add: demo_rpc_def demo_type_def demo_wire_def as_bytes_def)
  then obtain r where "decode_request (write_fields [Field 1 (VString (as_bytes (rpc_name demo_rpc))), Field 2 (VStruct [Field 1 (VI32 7)])])
        demo_rpc demo_schema = Inr r"
     "\<forall>name. request_value r name =
          Option.bind (find_spec name (ts_fields demo_type)) (\<lambda>f. map_option field_value (find_field (fs_id f) [Field 1 (VI32 7)]))"
    by blast
  moreover from this have "request_value r ''U_seq'' = Some (VI32 7)" "request_value r ''U_id'' = None"
    by (simp_all add: demo_type_def find_spec_def)
  ultimately show ?thesis by (auto simp: request_integer_def request_value_def demo_rpc_def)
qed


section \<open>Structs are complete\<close>

lemma set_field_ids: "i \<in> field_id ` set fs \<Longrightarrow> \<exists>fs'. set_field i v fs = Some fs' \<and> map field_id fs' = map field_id fs"
proof (induction fs)
  case (Cons f fs)
  then show ?case by (cases "field_id f = i") auto
qed simp

lemma find_set_field:
  "set_field i v fs = Some fs' \<Longrightarrow> find_field j fs' = (if j = i then Some (Field i v) else find_field j fs)"
  by (induction i v fs arbitrary: fs' rule: set_field.induct) (auto split: if_splits)

lemma set_field_ok: "set_field i v fs = Some fs' \<Longrightarrow> fields_ok fs \<Longrightarrow> wire_ok v \<Longrightarrow> fields_ok fs'"
proof (induction i v fs arbitrary: fs' rule: set_field.induct)
  case (2 i v f fs)
  then show ?case by (cases f) (auto split: if_splits)
qed simp

lemma find_spec_in: "find_spec name specs = Some f \<Longrightarrow> f \<in> set specs \<and> fs_name f = name"
  by (auto simp: find_spec_def find_Some_iff)

lemma override_ids:
  "map field_id fs = map fs_id (ts_fields spec) \<Longrightarrow> override_fields spec t ov fs \<noteq> Inl Panicked \<and>
   (\<forall>fs'. override_fields spec t ov fs = Inr fs' \<longrightarrow> map field_id fs' = map fs_id (ts_fields spec))"
proof (induction spec t ov fs rule: override_fields.induct)
  case (2 spec t name v rest fs)
  show ?case
  proof (cases "find_spec name (ts_fields spec)")
    case (Some f)
    then have "fs_id f \<in> field_id ` set fs"
      using find_spec_in [OF Some] 2(2) by (metis image_eqI list.set_map)
    from set_field_ids [OF this] obtain fs' where
      "set_field (fs_id f) v fs = Some fs'" "map field_id fs' = map field_id fs" by blast
    with 2 Some show ?thesis by simp
  qed simp
qed simp

lemma override_ok:
  "override_fields spec t ov fs = Inr fs' \<Longrightarrow> fields_ok fs \<Longrightarrow> list_all (\<lambda>(_, v). wire_ok v) ov \<Longrightarrow> fields_ok fs'"
  by (induction spec t ov fs rule: override_fields.induct)
    (auto split: option.splits intro: set_field_ok)

lemma override_value:
  assumes "distinct (map fs_id (ts_fields spec))" "f \<in> set (ts_fields spec)"
    "find_spec (fs_name f) (ts_fields spec) = Some f"
  shows "override_fields spec t ov fs = Inr fs' \<Longrightarrow>
    find_field (fs_id f) fs' = (case map_of (rev ov) (fs_name f) of
      Some v \<Rightarrow> Some (Field (fs_id f) v) | None \<Rightarrow> find_field (fs_id f) fs)"
proof (induction ov arbitrary: fs)
  case (Cons nv rest)
  obtain name v where nv: "nv = (name, v)" by (cases nv)
  with Cons.prems obtain g fs1 where g: "find_spec name (ts_fields spec) = Some g"
    and fs1: "set_field (fs_id g) v fs = Some fs1" and rest: "override_fields spec t rest fs1 = Inr fs'"
    by (auto split: option.splits)
  have "fs_id f = fs_id g \<longleftrightarrow> fs_name f = name"
  proof
    assume "fs_id f = fs_id g"
    then have "f = g"
      using assms(1,2) find_spec_in [OF g] by (auto simp: distinct_map dest: inj_onD)
    then show "fs_name f = name" using find_spec_in [OF g] by simp
  qed (use assms(3) g in simp)
  moreover have "map_of (rev (nv # rest)) (fs_name f) =
      (case map_of (rev rest) (fs_name f) of Some x \<Rightarrow> Some x | None \<Rightarrow> if fs_name f = name then Some v else None)"
    by (simp add: nv map_add_def split: option.split)
  ultimately show ?case
    using Cons.IH [OF rest] find_set_field [OF fs1, of "fs_id f"] by (cases "map_of (rev rest) (fs_name f)") auto
qed simp

text \<open>Filling a response struct never reaches the panic of its \<open>expect\<close>. On success it has
  exactly the fields of the wire type, in the order of the schema; a field named in the call
  holds the last value given for it; and it can be read back when the given values can.\<close>

lemma struct_value_complete:
  "struct_value schema ns t ov \<noteq> Inl Panicked
   \<and> (\<forall>v. struct_value schema ns t ov = Inr v \<longrightarrow> (\<exists>spec fs.
        resolve_type schema ns t = Inr spec \<and> v = VStruct fs
      \<and> map field_id fs = map fs_id (ts_fields spec)
      \<and> (list_all (\<lambda>(_, v). wire_ok v) ov \<longrightarrow> wire_ok v)
      \<and> (distinct (map fs_id (ts_fields spec)) \<longrightarrow> (\<forall>name f x.
           find_spec name (ts_fields spec) = Some f \<and> map_of (rev ov) name = Some x
           \<longrightarrow> find_field (fs_id f) fs = Some (Field (fs_id f) x)))))"
proof (cases "resolve_type schema ns t")
  case (Inr spec)
  show ?thesis
  proof (cases "default_value schema ns t 0")
    case Inl
    then show ?thesis using Inr default_not_panicked by (auto simp: struct_value_def)
  next
    case default: (Inr d)
    show ?thesis
    proof (cases "\<exists>fs. d = VStruct fs")
      case True
      then obtain fs where d: "d = VStruct fs" ..
      have ok: "fields_ok fs" using default_ok(1) [OF default] d by simp
      have ids: "map field_id fs = map fs_id (ts_fields spec)"
        using default_struct default Inr d by blast
      have "find_field (fs_id f) fs' = Some (Field (fs_id f) x)"
        if "override_fields spec t ov fs = Inr fs'" "distinct (map fs_id (ts_fields spec))"
          "find_spec name (ts_fields spec) = Some f" "map_of (rev ov) name = Some x" for fs' name f x
        using override_value [OF that(2) _ _ that(1), of f] find_spec_in [OF that(3)] that(3,4) by auto
      note given = this
      show ?thesis
      proof (cases "override_fields spec t ov fs")
        case (Inl e)
        then show ?thesis
          using \<open>resolve_type schema ns t = Inr spec\<close> default d override_ids [OF ids, of t ov]
          by (simp add: struct_value_def)
      next
        case fs': (Inr fs')
        have "struct_value schema ns t ov = Inr (VStruct fs')"
          using Inr default d fs' by (simp add: struct_value_def)
        moreover have "list_all (\<lambda>(_, v). wire_ok v) ov \<longrightarrow> wire_ok (VStruct fs')"
          using override_ok [OF fs' ok] by simp
        ultimately show ?thesis
          using Inr override_ids [OF ids, of t ov] fs' by (auto intro: given [OF fs'])
      qed
    qed (use Inr default in \<open>auto simp: struct_value_def split: wire_value.splits\<close>)
  qed
qed (auto simp: struct_value_def resolve_type_def split: option.splits)

lemma demo_resolves_response: "resolve_type demo_schema ''user'' ''Load'' = Inr demo_type"
  using demo_resolves by (simp add: demo_wire_def)

lemma demo_struct: "\<exists>v. struct_value demo_schema ''user'' ''Load'' [(''U_seq'', VI32 7)] = Inr v"
proof -
  have "struct_value demo_schema ''user'' ''Load'' [(''U_seq'', VI32 7)]
      = Inr (VStruct [Field 1 (VI32 7), Field 2 (VString [])])" by code_simp
  then show ?thesis by blast
qed

lemma struct_value_complete_witness:
  "\<exists>fs. struct_value demo_schema ''user'' ''Load'' [(''U_seq'', VI32 7)] = Inr (VStruct fs)
      \<and> map field_id fs = [1, 2] \<and> wire_ok (VStruct fs) \<and> find_field 1 fs = Some (Field 1 (VI32 7))"
proof -
  obtain v where v: "struct_value demo_schema ''user'' ''Load'' [(''U_seq'', VI32 7)] = Inr v"
    using demo_struct by blast
  obtain fs where fs: "v = VStruct fs" "map field_id fs = map fs_id (ts_fields demo_type)" "wire_ok v"
    "find_spec ''U_seq'' (ts_fields demo_type) = Some \<lparr> fs_name = ''U_seq'', fs_type = ''int32'', fs_id = 1 \<rparr>
      \<longrightarrow> find_field 1 fs = Some (Field 1 (VI32 7))"
    using struct_value_complete [of demo_schema "''user''" "''Load''" "[(''U_seq'', VI32 7)]"] v demo_resolves_response
    by (fastforce simp: demo_type_def)
  with v show ?thesis by (auto simp: demo_type_def find_spec_def)
qed

definition demo_reply :: wire_value where
  "demo_reply = VStruct [Field 1 (VI32 7), Field 2 (VString [111, 107])]"

section \<open>Responses are readable\<close>

lemma fields_ok_append: "fields_ok (fs @ gs) \<longleftrightarrow> fields_ok fs \<and> fields_ok gs"
proof (induction fs)
  case (Cons f fs)
  then show ?case by (cases f) simp
qed simp

lemma response_fields_ok:
  assumes "length (rpc_name spec) \<le> 1000000" "length (rpc_category spec) \<le> 1000000" "length message \<le> 1000000"
    and "\<And>v. data = Some v \<Longrightarrow> wire_ok v" "\<And>v. maintenance = Some v \<Longrightarrow> wire_ok v"
  shows "fields_ok (response_fields spec now code message data maintenance)"
  using assms
  by (auto simp: response_fields_def fields_ok_append empty_maintenance_def Let_def split: option.split)

definition response_ids :: "rpc_spec \<Rightarrow> bool \<Rightarrow> int list" where
  "response_ids spec has_data =
    (if rpc_has_server_time spec then [1, 2, 3, 4] @ (if has_data then [5] else []) @ [6]
     else [1, 2, 3] @ (if has_data then [4] else []) @ [5])"

lemma response_fields_ids:
  "map (\<lambda>f. sint (field_id f)) (response_fields spec now code message data maintenance) =
   response_ids spec (data \<noteq> None)"
  by (auto simp: response_fields_def response_ids_def Let_def split: option.split)

definition data_id :: "rpc_spec \<Rightarrow> 16 word" where
  "data_id spec = (if rpc_has_server_time spec then 5 else 4)"

lemma response_fields_find:
  "find_field 1 (response_fields spec now code message data maintenance) =
     Some (Field 1 (VStruct [Field 1 (VI32 (word_of_int code)), Field 2 (VString (as_bytes message))]))"
  "find_field (data_id spec) (response_fields spec now code message (Some v) maintenance) = Some (Field (data_id spec) v)"
  by (auto simp: response_fields_def data_id_def Let_def)

lemma success_data_ok:
  "success_data spec schema data = Inr v \<Longrightarrow> (\<And>v. data = Some v \<Longrightarrow> wire_ok v) \<Longrightarrow> wire_ok v"
  by (auto simp: success_data_def split: sum.splits option.splits intro: default_ok(1))

text \<open>Every response can be read by the client: an error response always exists and carries
  its code and message without a data field; a success response carries code 0 and, under the
  data id of the call, the data given or else the default of the wire type. The ids ascend
  without a gap apart from the missing data field.\<close>

lemma responses_readable:
  assumes "length (rpc_name spec) \<le> 1000000" "length (rpc_category spec) \<le> 1000000" "length message \<le> 1000000"
    and "\<And>v. data = Some v \<Longrightarrow> wire_ok v"
  shows "(\<exists>raw fs. error_response spec now code message = Inr raw \<and> read_struct raw = Inr fs
        \<and> map (\<lambda>f. sint (field_id f)) fs = response_ids spec False
        \<and> find_field 1 fs = Some (Field 1 (VStruct [Field 1 (VI32 (word_of_int code)), Field 2 (VString (as_bytes message))])))
     \<and> (\<forall>raw. success_response spec schema now data = Inr raw \<longrightarrow> (\<exists>fs v.
          read_struct raw = Inr fs \<and> success_data spec schema data = Inr v
        \<and> map (\<lambda>f. sint (field_id f)) fs = response_ids spec True
        \<and> find_field (data_id spec) fs = Some (Field (data_id spec) v)
        \<and> find_field 1 fs = Some (Field 1 (VStruct [Field 1 (VI32 0), Field 2 (VString [])]))))"
proof -
  note ok = response_fields_ok [OF assms(1,2)]
  have "read_struct (write_fields (response_fields spec now code message None None)) =
      Inr (response_fields spec now code message None None)"
    by (intro read_struct_write ok) (simp_all add: assms)
  moreover have "read_struct (write_fields (response_fields spec now 0 [] (Some v) None)) =
      Inr (response_fields spec now 0 [] (Some v) None)" if "success_data spec schema data = Inr v" for v
    using success_data_ok [OF that] assms(4) by (intro read_struct_write ok) auto
  ultimately show ?thesis
    by (auto simp: error_response_def success_response_def response_def response_with_optional_data_def
        write_struct_def response_fields_ids response_fields_find as_bytes_def split: sum.splits)
qed

lemma responses_readable_witness:
  "(\<exists>raw fs. error_response demo_rpc 100 998 ''unavailable'' = Inr raw \<and> read_struct raw = Inr fs
      \<and> map (\<lambda>f. sint (field_id f)) fs = [1, 2, 3, 4, 6])
   \<and> (\<exists>raw fs. success_response demo_rpc demo_schema 100 (Some demo_reply) = Inr raw \<and> read_struct raw = Inr fs
      \<and> map (\<lambda>f. sint (field_id f)) fs = [1, 2, 3, 4, 5, 6] \<and> find_field 5 fs = Some (Field 5 demo_reply))"
proof -
  have "success_response demo_rpc demo_schema 100 (Some demo_reply) \<noteq> Inl e" for e
    by (simp add: success_response_def success_data_def response_wire_def demo_rpc_def response_def
        response_with_optional_data_def write_struct_def)
  then obtain raw where "success_response demo_rpc demo_schema 100 (Some demo_reply) = Inr raw"
    by (meson sum.exhaust)
  then show ?thesis
    using responses_readable [of demo_rpc "''unavailable''" "Some demo_reply" 100 998 demo_schema]
    by (auto simp: demo_rpc_def demo_reply_def response_ids_def data_id_def success_data_def response_wire_def)
qed

end
