(* ===== verification/Text.thy ===== *)
theory Text
  imports Envelope Floats
begin

text \<open>
  More of Rust's standard library on text: parsing of doubles, splitting, the conversions between
  the UTF-8 bytes of a \<open>String\<close> and its characters, and \<open>String::from_utf8_lossy\<close>. They are
  used by the master data, the transport and the gameplay handlers.
\<close>

section \<open>Doubles\<close>

text \<open>
  \<open>str::parse::<f64>\<close>: an optional sign, then \<open>inf\<close>, \<open>infinity\<close> or \<open>nan\<close> in any case, or
  digits with an optional point and an optional exponent, at least one digit before the exponent;
  the exact value is rounded once.
\<close>

definition split_sign :: "string \<Rightarrow> bool \<times> string" where
  "split_sign s =
     (case s of [] \<Rightarrow> (False, [])
      | c # cs \<Rightarrow> if c = CHR ''-'' then (True, cs) else if c = CHR ''+'' then (False, cs) else (False, s))"

definition parse_exponent :: "string \<Rightarrow> int option" where
  "parse_exponent s =
     (case s of [] \<Rightarrow> Some 0
      | c # cs \<Rightarrow>
          if c = CHR ''e'' \<or> c = CHR ''E''
          then let (neg, ds) = split_sign cs
               in if ds = [] \<or> \<not> list_all is_digit ds then None
                  else Some (if neg then - int (dec_val ds) else int (dec_val ds))
          else None)"

definition parse_decimal :: "string \<Rightarrow> rat option" where
  "parse_decimal s =
     (let whole = takeWhile is_digit s; rest = dropWhile is_digit s;
          frac = (case rest of [] \<Rightarrow> [] | c # cs \<Rightarrow> if c = CHR ''.'' then takeWhile is_digit cs else []);
          tail = (case rest of [] \<Rightarrow> []
                  | c # cs \<Rightarrow> if c = CHR ''.'' then dropWhile is_digit cs else rest)
      in if whole = [] \<and> frac = [] then None
         else map_option (\<lambda>e. of_nat (dec_val (whole @ frac)) * 10 powi (e - int (length frac)))
                (parse_exponent tail))"

definition parse_f64 :: "string \<Rightarrow> f64 option" where
  "parse_f64 s =
     (let (neg, body) = split_sign s; word = to_lower body;
          signed = (\<lambda>x. if neg then fneg x else x)
      in if word = ''inf'' \<or> word = ''infinity'' then Some (signed PInf)
         else if word = ''nan'' then Some NaN
         else map_option (\<lambda>q. signed (round64 q)) (parse_decimal body))"

text \<open>
  \<open>f64::from_bits\<close> and \<open>to_bits\<close>: sign, eleven bits of exponent, 52 bits of fraction. A NaN is
  written with its usual pattern, and zero as the positive zero.
\<close>

definition f64_from_bits :: "64 word \<Rightarrow> f64" where
  "f64_from_bits w =
     (let n = uint w; neg = 2 ^ 63 \<le> n; e = n div 2 ^ 52 mod 2048; m = n mod 2 ^ 52;
          q = (if e = 0 then of_int m * 2 powi (- 1074) else of_int (2 ^ 52 + m) * 2 powi (e - 1075))
      in if e = 2047 then (if m = 0 then (if neg then NInf else PInf) else NaN)
         else Fin (if neg then - q else q))"

definition f64_to_bits :: "f64 \<Rightarrow> 64 word" where
  "f64_to_bits x =
     (case x of
        NaN \<Rightarrow> word_of_int (4095 * 2 ^ 51)
      | PInf \<Rightarrow> word_of_int (2047 * 2 ^ 52)
      | NInf \<Rightarrow> word_of_int (2 ^ 63 + 2047 * 2 ^ 52)
      | Fin q \<Rightarrow>
          let e = ulp_exp 53 (- 1074) q; m = rne (\<bar>q\<bar> / 2 powi e);
              n = (if q = 0 then 0 else if m < 2 ^ 52 then m else (e + 1075) * 2 ^ 52 + (m - 2 ^ 52))
          in word_of_int (if q < 0 then 2 ^ 63 + n else n))"

text \<open>\<open>format!("{:.0}")\<close>: the exact value, rounded to an integer, half to even.\<close>

definition format_int :: "f64 \<Rightarrow> string" where
  "format_int x =
     (case x of NaN \<Rightarrow> ''NaN'' | PInf \<Rightarrow> ''inf'' | NInf \<Rightarrow> ''-inf''
      | Fin q \<Rightarrow> (if q < 0 then ''-'' else []) @ show_int (rne \<bar>q\<bar>))"

text \<open>\<open>f64::total_cmp\<close> as an order, a NaN above everything.\<close>

fun total_less :: "f64 \<Rightarrow> f64 \<Rightarrow> bool" where
  "total_less NaN _ = False"
| "total_less _ NaN = True"
| "total_less a b = flt_less a b"

section \<open>Splitting and joining\<close>

text \<open>\<open>str::split\<close> at the characters of a predicate: one more part than separators.\<close>

fun split_at :: "(char \<Rightarrow> bool) \<Rightarrow> string \<Rightarrow> string list" where
  "split_at p [] = [[]]"
| "split_at p (c # s) =
     (if p c then [] # split_at p s
      else case split_at p s of [] \<Rightarrow> [[c]] | w # ws \<Rightarrow> (c # w) # ws)"

fun join_with :: "char \<Rightarrow> string list \<Rightarrow> string" where
  "join_with c [] = []"
| "join_with c [w] = w"
| "join_with c (w # ws) = w @ c # join_with c ws"

section \<open>Characters\<close>

definition utf8_char :: "nat \<Rightarrow> string" where
  "utf8_char c =
     (if c < 128 then [char_of c]
      else if c < 2048 then [char_of (192 + c div 64), char_of (128 + c mod 64)]
      else if c < 65536
           then [char_of (224 + c div 4096), char_of (128 + c div 64 mod 64), char_of (128 + c mod 64)]
      else [char_of (240 + c div 262144), char_of (128 + c div 4096 mod 64),
            char_of (128 + c div 64 mod 64), char_of (128 + c mod 64)])"

definition utf8_encode :: "ustr \<Rightarrow> string" where
  "utf8_encode u = concat (map utf8_char u)"

text \<open>\<open>str::chars\<close>, on the bytes of a valid \<open>str\<close>.\<close>

fun u_chars :: "string \<Rightarrow> ustr" where
  "u_chars [] = []"
| "u_chars (a # s) =
     (let x = (of_char a :: nat)
      in if x < 128 then x # u_chars s
         else case s of [] \<Rightarrow> []
         | b # s2 \<Rightarrow>
             let y = (of_char b :: nat) mod 64
             in if x < 224 then (x mod 32 * 64 + y) # u_chars s2
                else case s2 of [] \<Rightarrow> []
                | c # s3 \<Rightarrow>
                    let z = (of_char c :: nat) mod 64
                    in if x < 240 then (x mod 16 * 4096 + y * 64 + z) # u_chars s3
                       else case s3 of [] \<Rightarrow> []
                       | d # s4 \<Rightarrow>
                           (x mod 8 * 262144 + y * 4096 + z * 64 + (of_char d :: nat) mod 64) # u_chars s4)"

text \<open>
  \<open>String::from_utf8_lossy\<close>: each longest prefix of a character that does not go on is one
  U+FFFD. \<open>utf8_step\<close> gives the length of the next piece and whether it is a character.
\<close>

definition second_ok :: "nat \<Rightarrow> nat \<Rightarrow> bool" where
  "second_ok a b \<longleftrightarrow>
     (if a = 224 then 160 \<le> b \<and> b \<le> 191
      else if a = 237 then 128 \<le> b \<and> b \<le> 159
      else if a = 240 then 144 \<le> b \<and> b \<le> 191
      else if a = 244 then 128 \<le> b \<and> b \<le> 143
      else 128 \<le> b \<and> b \<le> 191)"

definition cont_at :: "nat list \<Rightarrow> nat \<Rightarrow> bool" where
  "cont_at bs i \<longleftrightarrow> i < length bs \<and> 128 \<le> bs ! i \<and> bs ! i \<le> 191"

definition utf8_step :: "nat list \<Rightarrow> nat \<times> bool" where
  "utf8_step bs =
     (let a = hd bs; two = 1 < length bs \<and> second_ok a (bs ! 1)
      in if a < 128 then (1, True)
         else if 194 \<le> a \<and> a \<le> 223 then (if two then (2, True) else (1, False))
         else if 224 \<le> a \<and> a \<le> 239
              then (if \<not> two then (1, False) else if cont_at bs 2 then (3, True) else (2, False))
         else if 240 \<le> a \<and> a \<le> 244
              then (if \<not> two then (1, False) else if \<not> cont_at bs 2 then (2, False)
                    else if cont_at bs 3 then (4, True) else (3, False))
         else (1, False))"

function from_utf8_lossy :: "string \<Rightarrow> string" where
  "from_utf8_lossy s =
     (if s = [] then []
      else let (n, ok) = utf8_step (map of_char s)
           in (if ok then take n s else utf8_char 65533) @ from_utf8_lossy (drop n s))"
  by auto
termination
  by (relation "measure length") (auto simp: utf8_step_def Let_def split: if_splits)

declare from_utf8_lossy.simps [simp del]

section \<open>Facts\<close>

text \<open>Every pattern that is not a NaN is a value of the format.\<close>

lemma f64_from_bits_ok: "f64_from_bits w = NaN \<or> f64_ok (f64_from_bits w)"
proof -
  define m where "m = uint w mod 2 ^ 52"
  define e where "e = uint w div 2 ^ 52 mod 2048"
  have m: "0 \<le> m" "m < 2 ^ 52" and e: "0 \<le> e" "e < 2048" by (simp_all add: m_def e_def)
  have rep: "representable 53 (- 1074) 1024 (of_int k * 2 powi j)"
    if "\<bar>k\<bar> < 2 ^ 53" "- 1074 \<le> j" "j \<le> 971" for k j :: int
  proof -
    have k: "of_int \<bar>k\<bar> < (2::rat) powi 53" using that(1) by (simp add: power_int_def)
    have "\<bar>of_int k * 2 powi j\<bar> = of_int \<bar>k\<bar> * (2::rat) powi j" by (simp add: abs_mult)
    also have "\<dots> < 2 powi 53 * 2 powi j" using k by (intro mult_strict_right_mono) simp_all
    also have "\<dots> = 2 powi (53 + j)" by (rule powi_two_add)
    also have "\<dots> \<le> 2 powi 1024" using that(3) by (intro powi_two_mono) simp
    finally show ?thesis using k that(2) unfolding representable_def by blast
  qed
  note r = rep [of m "- 1074"] rep [of "2 ^ 52 + m" "e - 1075"]
  have neg: "representable 53 (- 1074) 1024 (- v)" if "representable 53 (- 1074) 1024 v" for v
  proof -
    from that obtain k j where "v = of_int k * 2 powi j" "of_int \<bar>k\<bar> < (2::rat) powi 53" "- 1074 \<le> j"
      "\<bar>v\<bar> < 2 powi 1024" unfolding representable_def by blast
    then show ?thesis unfolding representable_def by (intro conjI exI [of _ "- k"] exI [of _ j]) auto
  qed
  define q where "q = (if e = 0 then of_int m * 2 powi (- 1074) else of_int (2 ^ 52 + m) * (2::rat) powi (e - 1075))"
  have "e \<noteq> 2047 \<Longrightarrow> representable 53 (- 1074) 1024 q"
    unfolding q_def by (split if_split, intro conjI impI; rule r; use m e in simp)
  moreover have "f64_from_bits w =
      (if e = 2047 then (if m = 0 then (if 2 ^ 63 \<le> uint w then NInf else PInf) else NaN)
       else Fin (if 2 ^ 63 \<le> uint w then - q else q))"
    by (simp only: f64_from_bits_def Let_def m_def e_def q_def)
  ultimately show ?thesis using neg by (simp add: f64_ok_def)
qed

lemma split_at_not_Nil: "split_at p s \<noteq> []"
  by (induction s) (auto split: list.split)

lemma split_at_parts: "w \<in> set (split_at p s) \<Longrightarrow> c \<in> set w \<Longrightarrow> \<not> p c"
proof (induction s arbitrary: w)
  case (Cons a s)
  show ?case
  proof (cases "p a")
    case False
    with Cons.prems obtain v vs where v: "split_at p s = v # vs" "w = a # v \<or> w \<in> set vs"
      using split_at_not_Nil [of p s] by (cases "split_at p s") auto
    with Cons False show ?thesis by (cases "w = a # v") auto
  qed (use Cons in auto)
qed simp

lemma split_at_append: "\<forall>c\<in>set w. \<not> p c \<Longrightarrow> p d \<Longrightarrow> split_at p (w @ d # s) = w # split_at p s"
  by (induction w) auto

lemma split_at_word: "\<forall>c\<in>set w. \<not> p c \<Longrightarrow> split_at p w = [w]"
  by (induction w) auto

lemma split_at_join:
  "ws \<noteq> [] \<Longrightarrow> \<forall>w\<in>set ws. d \<notin> set w \<Longrightarrow> split_at (\<lambda>c. c = d) (join_with d ws) = ws"
proof (induction ws)
  case (Cons w ws)
  then have w: "\<forall>c\<in>set w. c \<noteq> d" by auto
  show ?case
    using Cons split_at_word [OF w] split_at_append [OF w, where d = d] by (cases ws) auto
qed simp

lemma list_all_digit_takeWhile: "list_all is_digit s \<Longrightarrow> takeWhile is_digit s = s \<and> dropWhile is_digit s = []"
  by (simp add: list_all_iff takeWhile_eq_all_conv)

lemma not_sign_digit: "is_digit c \<Longrightarrow> c \<noteq> CHR ''-'' \<and> c \<noteq> CHR ''+''"
  by (auto simp: is_digit_def)

text \<open>On digits only, parsing is rounding the number they denote.\<close>

lemma to_lower_digits: "list_all is_digit s \<Longrightarrow> to_lower s = s"
  by (auto simp: to_lower_def ascii_lower_def is_digit_def list_all_iff intro!: map_idI)

lemma parse_f64_digits:
  assumes "s \<noteq> []" "list_all is_digit s"
  shows "parse_f64 s = Some (round64 (of_nat (dec_val s)))"
proof -
  from assms obtain c cs where s: "s = c # cs" "is_digit c" by (cases s) auto
  have sign: "split_sign s = (False, s)" using s not_sign_digit by (simp add: split_sign_def)
  have words: "to_lower s \<noteq> ''inf''" "to_lower s \<noteq> ''infinity''" "to_lower s \<noteq> ''nan''"
    using assms(2) to_lower_digits [OF assms(2)] by (auto simp: is_digit_def)
  have "parse_decimal s = Some (of_nat (dec_val s))"
    unfolding parse_decimal_def list_all_digit_takeWhile [OF assms(2), THEN conjunct1]
      list_all_digit_takeWhile [OF assms(2), THEN conjunct2]
    using assms(1) by (simp add: parse_exponent_def Let_def)
  then show ?thesis using sign words by (simp add: parse_f64_def)
qed

text \<open>What \<open>utf8_encode\<close> writes is read back by \<open>u_chars\<close>.\<close>

lemma u_chars_utf8_char: "c < 1114112 \<Longrightarrow> u_chars (utf8_char c @ s) = c # u_chars s"
proof -
  assume "c < 1114112"
  let ?d1 = "c div 64" and ?d2 = "c div 4096" and ?d3 = "c div 262144"
  have d: "?d2 = ?d1 div 64" "?d3 = ?d2 div 64" by (simp_all flip: div_mult2_eq)
  have one: "c = ?d1 * 64 + c mod 64" "?d1 = ?d2 * 64 + ?d1 mod 64" "?d2 = ?d3 * 64 + ?d2 mod 64"
    unfolding d by (rule div_mult_mod_eq [symmetric])+
  have e: "?d1 * 64 + c mod 64 = c" "?d2 * 4096 + ?d1 mod 64 * 64 + c mod 64 = c"
    "?d3 * 262144 + ?d2 mod 64 * 4096 + ?d1 mod 64 * 64 + c mod 64 = c"
    using one by linarith+
  have m: "(128 + n mod 64) mod 64 = n mod 64" for n :: nat
    using mod_add_left_eq [of 128 64 "n mod 64"] by simp
  have m32: "(192 + n) mod 32 = n" if "n < 32" for n :: nat
    using mod_add_left_eq [of 192 32 n] that by simp
  have m16: "(224 + n) mod 16 = n" if "n < 16" for n :: nat
    using mod_add_left_eq [of 224 16 n] that by simp
  have m8: "(240 + n) mod 8 = n" if "n < 8" for n :: nat
    using mod_add_left_eq [of 240 8 n] that by simp
  have lead: "c < 2048 \<longleftrightarrow> ?d1 < 32" "c < 65536 \<longleftrightarrow> ?d2 < 16" "?d3 < 8" "c < 2048 \<Longrightarrow> c < 65536"
    using \<open>c < 1114112\<close> by (simp_all add: less_mult_imp_div_less div_less_iff_less_mult)
  have small: "128 + n mod 64 < 256" for n :: nat by (simp add: less_le_trans [of "n mod 64" 64])
  consider "c < 128" | "\<not> c < 128" "?d1 < 32" | "\<not> c < 2048" "?d2 < 16" | "\<not> c < 65536" by (auto simp: lead)
  then show ?thesis
  proof cases
    case 1
    then show ?thesis by (simp add: utf8_char_def)
  next
    case 2
    then have "utf8_char c = [char_of (192 + ?d1), char_of (128 + c mod 64)]"
      by (simp add: utf8_char_def lead)
    with 2 e(1) show ?thesis by (simp add: m m32 small Let_def)
  next
    case 3
    then have "utf8_char c = [char_of (224 + ?d2), char_of (128 + ?d1 mod 64), char_of (128 + c mod 64)]"
      by (simp add: utf8_char_def lead)
    with 3 e(2) show ?thesis by (simp add: m m16 small Let_def)
  next
    case 4
    then have "utf8_char c = [char_of (240 + ?d3), char_of (128 + ?d2 mod 64), char_of (128 + ?d1 mod 64),
        char_of (128 + c mod 64)]"
      by (simp add: utf8_char_def)
    with 4 e(3) lead(3) show ?thesis by (simp add: m m8 small Let_def)
  qed
qed

lemma u_chars_encode: "list_all (\<lambda>c. c < 1114112) u \<Longrightarrow> u_chars (utf8_encode u) = u"
  by (induction u) (simp_all add: utf8_encode_def u_chars_utf8_char del: u_chars.simps(2))

end
