(* ===== verification/Master.thy ===== *)
theory Master
  imports Text Domain Schema "HOL-Library.Multiset"
begin

text \<open>
  The master data (\<open>crates/master-data/src/lib.rs\<close>): the read-only catalog of costumes, music,
  rewards and the like that the client's package supplies as a SQLite file. The file is a list of
  tables with their columns and rows, in the order of the rows' ids; a query checks its columns,
  selects, orders and reads the rows as the code's statements do. The names of tables and columns
  are compared as SQLite compares them, without regard to ASCII case.
\<close>

section \<open>The rows\<close>

record master_metadata =
  mmd_version :: int
  mmd_source_asset_count :: int
  mmd_source_table_count :: int

record master_fan =
  mfan_area :: "int"
  mfan_grade :: "int"
  mfan_official_count :: "int"

record master_costume =
  mcos_id :: "int"
  mcos_area :: "int"
  mcos_currency :: "string"
  mcos_official_cost :: "string"
  mcos_fan_multiplier :: "f64"
  mcos_acquisition_type :: "int"
  mcos_acquisition_id :: "int"
  mcos_active :: "bool"

record master_guitar =
  mgui_id :: "int"
  mgui_area :: "int"
  mgui_currency :: "string"
  mgui_official_cost :: "string"
  mgui_like_multiplier :: "f64"
  mgui_acquisition_type :: "int"
  mgui_acquisition_id :: "int"
  mgui_active :: "bool"

record master_skill =
  mski_id :: "int"
  mski_area :: "int"
  mski_max_level :: "int"
  mski_currency :: "string"
  mski_base_cost :: "int"
  mski_cost_increase :: "f64"
  mski_cooldown_seconds :: "f64"

record master_unit =
  muni_id :: "int"
  muni_area :: "int"
  muni_max_level :: "int"
  muni_currency :: "string"
  muni_base_cost :: "int"
  muni_cost_increase :: "f64"

record master_music =
  mmus_id :: "int"
  mmus_area :: "int"
  mmus_max_level :: "int"
  mmus_currency :: "string"
  mmus_unlock_cost :: "f64"
  mmus_acquisition_type :: "int"
  mmus_acquisition_id :: "int"
  mmus_active :: "bool"

record master_music_level =
  mmlv_level :: "int"
  mmlv_official_encore_cooldown_seconds :: "f64"
  mmlv_gift_amount :: "int"
  mmlv_follower_profile_exp :: "int"

record master_ch3_stage =
  mstg_id :: "int"
  mstg_chapter :: "int"
  mstg_stage_index :: "int"
  mstg_stage_type :: "string"
  mstg_reward_group_id :: "int"
  mstg_percent_reward_groups :: "string"
  mstg_goal_scores :: "int list"
  mstg_bonus_profile_ids :: "int list"
  mstg_bonus_music_id :: "int"
  mstg_active :: "bool"

record master_pass_season =
  mpse_season :: "int"
  mpse_subscribe_id :: "int"
  mpse_ticket_collection_id :: "int"
  mpse_point_price :: "int"
  mpse_paid_point :: "int"
  mpse_ad_cooldown_seconds :: "int"
  mpse_ad_point :: "int"

record master_reward =
  mrew_row_id :: "int"
  mrew_group :: "int"
  mrew_reward_type :: "int"
  mrew_reward_id :: "int"
  mrew_quantity :: "f64"
  mrew_first_purchase_quantity :: "f64"

record master_shop =
  msho_id :: "int"
  msho_product_type :: "int"
  msho_reward_group :: "int"
  msho_sell_type :: "int"
  msho_sell_value :: "int"
  msho_active :: "bool"
  msho_condition :: "int"
  msho_condition_value :: "int"

record master_pass_reward =
  mprw_id :: "int"
  mprw_group :: "int"
  mprw_step :: "int"
  mprw_goal :: "int"
  mprw_free_reward_group :: "int"
  mprw_paid_reward_group :: "int"

record master_profile_level =
  mfpl_id :: "int"
  mfpl_profile_id :: "int"
  mfpl_level :: "int"
  mfpl_required_exp :: "f64"
  mfpl_reward_group :: "int"
  mfpl_add_candy :: "int"
  mfpl_add_max_ap :: "int"
  mfpl_active :: "bool"

record master_ch3_score =
  msco_level :: "int"
  msco_character_score :: "int"
  msco_follower_score :: "int"
  msco_music_score :: "int"
  msco_active :: "bool"

record master_ch3_chapter =
  mcha_chapter :: "int"
  mcha_unlock_level :: "int"
  mcha_reward_groups :: "int list"
  mcha_goal_stars :: "int list"
  mcha_active :: "bool"

record master_percent =
  mpct_row_id :: "int"
  mpct_group :: "int"
  mpct_percent :: "int"
  mpct_reward_type :: "int"
  mpct_reward_id :: "int"
  mpct_quantity :: "f64"
  mpct_active :: "bool"

record master_gift =
  mgif_id :: "int"
  mgif_gift_type :: "int"
  mgif_experience :: "int"
  mgif_active :: "bool"

record master_quest =
  mque_id :: "int"
  mque_quest_type :: "int"
  mque_thresholds :: "f64 list"
  mque_reward_groups :: "int list"
  mque_active :: "bool"

record master_select =
  msel_id :: "int"
  msel_group :: "int"
  msel_reward_group :: "int"
  msel_alternate_reward_group :: "int"
  msel_active :: "bool"

record master_sam_seck =
  msam_id :: "int"
  msam_condition_type :: "string"
  msam_condition :: "f64"
  msam_mail_reward_id :: "int"
  msam_active :: "bool"

record master_achievement =
  mach_id :: "int"
  mach_conditions :: "f64 list"
  mach_reward_type :: "string"
  mach_reward_values :: "int list"
  mach_max_level :: "int"
  mach_active :: "bool"

record master_mission =
  mmis_id :: "int"
  mmis_condition :: "f64"
  mmis_reward_type :: "string"
  mmis_reward_value :: "int"
  mmis_active :: "bool"

record master_ad =
  mads_id :: "int"
  mads_reward_type :: "string"
  mads_reward_group :: "int"
  mads_active :: "bool"

record master_ad_level =
  malv_id :: "int"
  malv_group :: "int"
  malv_level :: "int"
  malv_required_experience :: "int"
  malv_reward_group :: "int"
  malv_active :: "bool"

record master_daily_reward =
  mdrw_id :: "int"
  mdrw_group :: "int"
  mdrw_day :: "int"
  mdrw_reward_type :: "int"
  mdrw_reward_id :: "int"
  mdrw_quantity :: "f64"
  mdrw_custom_icon_type :: "string"
  mdrw_custom_icon_sprite :: "string"

section \<open>The raw tables\<close>

datatype master_scalar = MNull | MInteger int | MReal f64 | MText string | MBlob string

type_synonym master_row = "(string, master_scalar) table"

record master_catalog =
  mc_metadata :: master_metadata
  mc_fan_requirements :: "master_fan list"
  mc_costumes :: "master_costume list"
  mc_guitars :: "master_guitar list"
  mc_skills :: "master_skill list"
  mc_units :: "master_unit list"
  mc_music :: "master_music list"
  mc_music_levels :: "master_music_level list"
  mc_ch3_stages :: "master_ch3_stage list"
  mc_pass_seasons :: "master_pass_season list"
  mc_reward_groups :: "master_reward list"
  mc_shops :: "master_shop list"
  mc_pass_rewards :: "master_pass_reward list"
  mc_follower_profile_levels :: "master_profile_level list"
  mc_ch3_scores :: "master_ch3_score list"
  mc_ch3_chapters :: "master_ch3_chapter list"
  mc_percent_rewards :: "master_percent list"
  mc_follower_gifts :: "master_gift list"
  mc_follower_quests :: "master_quest list"
  mc_select_rewards :: "master_select list"
  mc_sam_seck :: "master_sam_seck list"
  mc_achievements :: "master_achievement list"
  mc_daily_missions :: "master_mission list"
  mc_ads :: "master_ad list"
  mc_ad_levels :: "master_ad_level list"
  mc_daily_rewards :: "master_daily_reward list"
  mc_game_data :: "(string, master_row list) table"

definition catalog_rewards :: "master_catalog \<Rightarrow> int \<Rightarrow> master_reward list" where
  "catalog_rewards c g = filter (\<lambda>r. mrew_group r = g) (mc_reward_groups c)"

definition catalog_shop :: "master_catalog \<Rightarrow> int \<Rightarrow> master_shop option" where
  "catalog_shop c i = find (\<lambda>r. msho_id r = i) (mc_shops c)"

definition catalog_pass_reward :: "master_catalog \<Rightarrow> int \<Rightarrow> int \<Rightarrow> master_pass_reward option" where
  "catalog_pass_reward c g step =
     find (\<lambda>r. mprw_group r = g \<and> mprw_step r = step) (mc_pass_rewards c)"

definition catalog_percent_rewards :: "master_catalog \<Rightarrow> int \<Rightarrow> master_percent list" where
  "catalog_percent_rewards c g =
     filter (\<lambda>r. mpct_group r = g \<and> mpct_active r) (mc_percent_rewards c)"

definition game_data_tables :: "(string \<times> string) list" where
  "game_data_tables =
    [(''Consume'', ''Consume''), (''Music'', ''Music''), (''Costume'', ''Costume''),
     (''Prop'', ''Prop''), (''Follower'', ''Follower''), (''Buff'', ''Buff''), (''Unit'', ''Unit''),
     (''Skill'', ''Skill''), (''Achievement'', ''Achievement''),
     (''Daily_mission'', ''DailyMission''), (''Music_level'', ''MusicLevel''),
     (''Shop'', ''Shop''), (''Reward_group'', ''RewardGroup''), (''Fan'', ''Fan''),
     (''SystemNotification'', ''SystemNotification''), (''SystemString'', ''SystemString''),
     (''SubscribeList'', ''SubscribeList''), (''SubscribePassReward'', ''SubscribePassReward''),
     (''SubscribePass'', ''SubscribePass''), (''Guitar'', ''Guitar''),
     (''SubscribePassRewardInformation'', ''SubscribePassRewardInformation''),
     (''Ticketcollection'', ''TicketCollection''), (''Character'', ''Character''),
     (''Samseckevent'', ''SamSeckEvent''), (''Localpush'', ''LocalPush''),
     (''Followerquest'', ''FollowerQuest''), (''Proplevel'', ''PropLevel''),
     (''Follower_profile'', ''FollowerProfile''), (''Passgoodsshop'', ''PassGoodsShop''),
     (''Followergiftitem'', ''FollowerGiftItem''), (''Followerprofilelevel'', ''FollowerProfileLevel''),
     (''Ad_list'', ''ADList''), (''Chthird_stage'', ''ChThirdStage''),
     (''Chthird_score'', ''ChThirdScore''), (''Chthird_chapter'', ''ChThirdChapter''),
     (''Percent'', ''Percent''), (''Ad_level'', ''ADLevel''), (''Event_list'', ''EventList''),
     (''Select_reward'', ''SelectReward'')]"

section \<open>The file\<close>

datatype sql_value = SNull | SInteger int | SReal f64 | SText string | SBlob string

type_synonym sql_row = "(string \<times> sql_value) list"

record sql_table =
  st_columns :: "string list"
  st_rows :: "sql_value list list"

text \<open>The result of the integrity check, the rows of \<open>ggfm_master_schema\<close>, the names in
  \<open>ggfm_master_tables\<close> and the tables themselves.\<close>

record master_file =
  mf_integrity :: string
  mf_schema :: "master_metadata list"
  mf_listed :: "string list"
  mf_tables :: "(string \<times> sql_table) list"

datatype master_error =
    MasterSql sql_error
  | MasterStatement
  | MasterSchema int int
  | MasterIntegrity string
  | MasterMissing string

definition master_schema_version :: int where "master_schema_version = 2"

definition required_tables :: "string list" where
  "required_tables =
    [''Achievement'', ''ADList'', ''ChThirdChapter'', ''ChThirdScore'', ''ChThirdStage'', ''Costume'',
     ''DailyMission'', ''DailyReward'', ''Fan'', ''FollowerGiftItem'', ''FollowerQuest'', ''Guitar'',
     ''Music'', ''Percent'', ''FollowerProfileLevel'', ''RewardGroup'', ''SamSeckEvent'',
     ''SelectReward'', ''Shop'', ''Skill'', ''SubscribePass'', ''SubscribePassReward'', ''Unit'']
    @ map snd game_data_tables"

text \<open>\<open>open_read_only\<close>: the first failing check decides; the value is the metadata.\<close>

definition open_read_only :: "master_file \<Rightarrow> master_error + master_metadata" where
  "open_read_only m =
     (if mf_integrity m \<noteq> ''ok'' then Inl (MasterIntegrity (mf_integrity m))
      else case mf_schema m of
        [] \<Rightarrow> Inl (MasterSql NoRows)
      | md # _ \<Rightarrow>
          if mmd_version md \<noteq> master_schema_version
          then Inl (MasterSchema (mmd_version md) master_schema_version)
          else (case find (\<lambda>t. t \<notin> set (mf_listed m)) required_tables of
                  Some t \<Rightarrow> Inl (MasterMissing t)
                | None \<Rightarrow> Inr md))"

section \<open>Statements\<close>

definition find_ci :: "string \<Rightarrow> (string \<times> 'a) list \<Rightarrow> 'a option" where
  "find_ci n xs = map_option snd (find (\<lambda>(k, _). eq_ignore_case k n) xs)"

text \<open>The columns of a row, read with the types of \<open>rusqlite\<close>.\<close>

definition get_ref :: "string \<Rightarrow> (sql_error, sql_row, sql_value) tx" where
  "get_ref c = tx_bind (tx_gets (find_ci c)) (tx_expect InvalidColumnType)"

definition get_int :: "(int \<Rightarrow> bool) \<Rightarrow> string \<Rightarrow> (sql_error, sql_row, int) tx" where
  "get_int fits c = tx_bind (get_ref c) (\<lambda>v. case v of
      SInteger i \<Rightarrow> if fits i then tx_return i else tx_fail IntegralValueOutOfRange
    | _ \<Rightarrow> tx_fail InvalidColumnType)"

definition in_i16 :: "int \<Rightarrow> bool" where
  "in_i16 i \<longleftrightarrow> i16_min \<le> i \<and> i \<le> i16_max"

definition get_i64 :: "string \<Rightarrow> (sql_error, sql_row, int) tx" where "get_i64 = get_int in_i64"
definition get_i32 :: "string \<Rightarrow> (sql_error, sql_row, int) tx" where "get_i32 = get_int in_i32"
definition get_i16 :: "string \<Rightarrow> (sql_error, sql_row, int) tx" where "get_i16 = get_int in_i16"

definition get_flag :: "string \<Rightarrow> (sql_error, sql_row, bool) tx" where
  "get_flag c = tx_bind (get_i64 c) (\<lambda>i. tx_return (i \<noteq> 0))"

definition get_f64 :: "string \<Rightarrow> (sql_error, sql_row, f64) tx" where
  "get_f64 c = tx_bind (get_ref c) (\<lambda>v. case v of
      SReal x \<Rightarrow> tx_return x
    | SInteger i \<Rightarrow> tx_return (f64_of_int i)
    | _ \<Rightarrow> tx_fail InvalidColumnType)"

definition get_text :: "string \<Rightarrow> (sql_error, sql_row, string) tx" where
  "get_text c = tx_bind (get_ref c) (\<lambda>v. case v of
      SText t \<Rightarrow> if utf8_valid (as_bytes t) then tx_return t else tx_fail ConversionFailure
    | _ \<Rightarrow> tx_fail InvalidColumnType)"

text \<open>SQLite's order of values: \<open>NULL\<close>, numbers by value, text and blobs by bytes.\<close>

definition sql_rank :: "sql_value \<Rightarrow> nat" where
  "sql_rank v = (case v of SNull \<Rightarrow> 0 | SInteger _ \<Rightarrow> 1 | SReal _ \<Rightarrow> 1 | SText _ \<Rightarrow> 2 | SBlob _ \<Rightarrow> 3)"

definition sql_number :: "sql_value \<Rightarrow> flt" where
  "sql_number v = (case v of SInteger i \<Rightarrow> Fin (of_int i) | SReal x \<Rightarrow> x | _ \<Rightarrow> fzero)"

definition sql_bytes :: "sql_value \<Rightarrow> nat list" where
  "sql_bytes v = (case v of SText t \<Rightarrow> map of_char t | SBlob t \<Rightarrow> map of_char t | _ \<Rightarrow> [])"

fun bytes_less :: "nat list \<Rightarrow> nat list \<Rightarrow> bool" where
  "bytes_less _ [] \<longleftrightarrow> False"
| "bytes_less [] (_ # _) \<longleftrightarrow> True"
| "bytes_less (a # s) (b # t) \<longleftrightarrow> a < b \<or> a = b \<and> bytes_less s t"

definition sql_less :: "sql_value \<Rightarrow> sql_value \<Rightarrow> bool" where
  "sql_less a b \<longleftrightarrow> sql_rank a < sql_rank b
     \<or> sql_rank a = sql_rank b \<and> (flt_less (sql_number a) (sql_number b)
          \<or> bytes_less (sql_bytes a) (sql_bytes b))"

fun row_less :: "string list \<Rightarrow> sql_row \<Rightarrow> sql_row \<Rightarrow> bool" where
  "row_less [] a b \<longleftrightarrow> False"
| "row_less (c # cs) a b \<longleftrightarrow>
     (let x = (case find_ci c a of None \<Rightarrow> SNull | Some v \<Rightarrow> v);
          y = (case find_ci c b of None \<Rightarrow> SNull | Some v \<Rightarrow> v)
      in sql_less x y \<or> \<not> sql_less y x \<and> row_less cs a b)"

text \<open>\<open>ORDER BY\<close>, rows with equal keys in the order of their row ids.\<close>

fun insert_row_by :: "string list \<Rightarrow> sql_row \<Rightarrow> sql_row list \<Rightarrow> sql_row list" where
  "insert_row_by cs r [] = [r]"
| "insert_row_by cs r (q # rows) =
     (if row_less cs q r then q # insert_row_by cs r rows else r # q # rows)"

definition order_rows :: "string list \<Rightarrow> sql_row list \<Rightarrow> sql_row list" where
  "order_rows cs rows = foldr (insert_row_by cs) rows []"

definition row_flag :: "sql_row \<Rightarrow> string \<Rightarrow> bool" where
  "row_flag row c =
     (case find_ci c row of
        Some (SInteger i) \<Rightarrow> i \<noteq> 0
      | Some (SReal x) \<Rightarrow> x \<noteq> fzero
      | Some (SText _) \<Rightarrow> True
      | Some (SBlob _) \<Rightarrow> True
      | _ \<Rightarrow> False)"

text \<open>
  \<open>prepare\<close> fails when the table or a column is missing; the rows are then read one by one and the
  first that cannot be read fails the query.
\<close>

fun read_rows :: "(sql_error, sql_row, 'a) tx \<Rightarrow> sql_row list \<Rightarrow> sql_error + 'a list" where
  "read_rows reader [] = Inr []"
| "read_rows reader (r # rows) =
     (case reader r of Inl e \<Rightarrow> Inl e
      | Inr (x, _) \<Rightarrow> (case read_rows reader rows of Inl e \<Rightarrow> Inl e | Inr xs \<Rightarrow> Inr (x # xs)))"

definition table_rows :: "sql_table \<Rightarrow> sql_row list" where
  "table_rows t = map (zip (st_columns t)) (st_rows t)"

definition select_rows ::
  "master_file \<Rightarrow> string \<Rightarrow> string list \<Rightarrow> (sql_row \<Rightarrow> bool) \<Rightarrow> string list
   \<Rightarrow> (sql_error, sql_row, 'a) tx \<Rightarrow> master_error + 'a list" where
  "select_rows m table columns keep keys reader =
     (case find_ci table (mf_tables m) of
        None \<Rightarrow> Inl MasterStatement
      | Some t \<Rightarrow>
          if \<not> list_all (\<lambda>c. list_ex (\<lambda>k. eq_ignore_case k c) (st_columns t)) columns
          then Inl MasterStatement
          else (case read_rows reader (order_rows keys (filter keep (table_rows t))) of
                  Inl e \<Rightarrow> Inl (MasterSql e)
                | Inr xs \<Rightarrow> Inr xs))"

section \<open>The queries\<close>

text \<open>The maximal runs of digits that are a positive \<open>i64\<close>.\<close>

definition parse_id_list :: "string \<Rightarrow> int list" where
  "parse_id_list s =
     filter (\<lambda>i. 0 < i) (List.map_filter parse_i64 (split_at (\<lambda>c. \<not> is_digit c) s))"

definition read_master_fan :: "(sql_error, sql_row, master_fan) tx" where
  "read_master_fan =
     tx_bind (get_i32 ''i_Area'') (\<lambda>area.
     tx_bind (get_i32 ''i_Grade'') (\<lambda>grade.
     tx_bind (get_i64 ''i_FanCount'') (\<lambda>official_count.
     tx_return \<lparr>mfan_area = area, mfan_grade = grade, mfan_official_count = official_count\<rparr>)))"

definition load_fan_requirements :: "master_file \<Rightarrow> master_error + master_fan list" where
  "load_fan_requirements m = select_rows m ''Fan''
     [''i_Area'', ''i_Grade'', ''i_FanCount'']
     (\<lambda>_. True) [''i_Area'', ''i_Grade''] read_master_fan"

definition read_master_costume :: "(sql_error, sql_row, master_costume) tx" where
  "read_master_costume =
     tx_bind (get_i64 ''i_Id'') (\<lambda>id.
     tx_bind (get_i32 ''i_Area'') (\<lambda>area.
     tx_bind (get_text ''s_GoodsType'') (\<lambda>currency.
     tx_bind (get_text ''s_Cost'') (\<lambda>official_cost.
     tx_bind (get_f64 ''f_FanMultiply'') (\<lambda>fan_multiplier.
     tx_bind (get_i32 ''i_AcquisitionType'') (\<lambda>acquisition_type.
     tx_bind (get_i32 ''i_AcquisitionId'') (\<lambda>acquisition_id.
     tx_bind (get_flag ''b_IsActive'') (\<lambda>active.
     tx_return \<lparr>mcos_id = id, mcos_area = area, mcos_currency = currency,
       mcos_official_cost = official_cost, mcos_fan_multiplier = fan_multiplier,
       mcos_acquisition_type = acquisition_type, mcos_acquisition_id = acquisition_id,
       mcos_active = active\<rparr>))))))))"

definition load_costumes :: "master_file \<Rightarrow> master_error + master_costume list" where
  "load_costumes m = select_rows m ''Costume''
     [''i_Id'', ''i_Area'', ''s_GoodsType'', ''s_Cost'', ''f_FanMultiply'',
      ''i_AcquisitionType'', ''i_AcquisitionId'', ''b_IsActive'']
     (\<lambda>_. True) [''i_Id''] read_master_costume"

definition read_master_guitar :: "(sql_error, sql_row, master_guitar) tx" where
  "read_master_guitar =
     tx_bind (get_i64 ''i_Id'') (\<lambda>id.
     tx_bind (get_i32 ''i_Area'') (\<lambda>area.
     tx_bind (get_text ''s_GoodsType'') (\<lambda>currency.
     tx_bind (get_text ''s_Cost'') (\<lambda>official_cost.
     tx_bind (get_f64 ''d_IncrementValue'') (\<lambda>like_multiplier.
     tx_bind (get_i32 ''i_AcquisitionType'') (\<lambda>acquisition_type.
     tx_bind (get_i32 ''i_AcquisitionId'') (\<lambda>acquisition_id.
     tx_bind (get_flag ''b_IsActive'') (\<lambda>active.
     tx_return \<lparr>mgui_id = id, mgui_area = area, mgui_currency = currency,
       mgui_official_cost = official_cost, mgui_like_multiplier = like_multiplier,
       mgui_acquisition_type = acquisition_type, mgui_acquisition_id = acquisition_id,
       mgui_active = active\<rparr>))))))))"

definition load_guitars :: "master_file \<Rightarrow> master_error + master_guitar list" where
  "load_guitars m = select_rows m ''Guitar''
     [''i_Id'', ''i_Area'', ''s_GoodsType'', ''s_Cost'', ''d_IncrementValue'',
      ''i_AcquisitionType'', ''i_AcquisitionId'', ''b_IsActive'']
     (\<lambda>_. True) [''i_Id''] read_master_guitar"

definition read_master_skill :: "(sql_error, sql_row, master_skill) tx" where
  "read_master_skill =
     tx_bind (get_i64 ''i_Id'') (\<lambda>id.
     tx_bind (get_i32 ''i_Area'') (\<lambda>area.
     tx_bind (get_i32 ''i_MaxLevel'') (\<lambda>max_level.
     tx_bind (get_text ''s_GoodsType'') (\<lambda>currency.
     tx_bind (get_i64 ''i_Cost'') (\<lambda>base_cost.
     tx_bind (get_f64 ''f_CostIncreaseValue'') (\<lambda>cost_increase.
     tx_bind (get_f64 ''f_Cooltime'') (\<lambda>cooldown_seconds.
     tx_return \<lparr>mski_id = id, mski_area = area, mski_max_level = max_level, mski_currency = currency,
       mski_base_cost = base_cost, mski_cost_increase = cost_increase,
       mski_cooldown_seconds = cooldown_seconds\<rparr>)))))))"

definition load_skills :: "master_file \<Rightarrow> master_error + master_skill list" where
  "load_skills m = select_rows m ''Skill''
     [''i_Id'', ''i_Area'', ''i_MaxLevel'', ''s_GoodsType'', ''i_Cost'',
      ''f_CostIncreaseValue'', ''f_Cooltime'']
     (\<lambda>_. True) [''i_Id''] read_master_skill"

definition read_master_unit :: "(sql_error, sql_row, master_unit) tx" where
  "read_master_unit =
     tx_bind (get_i64 ''i_Id'') (\<lambda>id.
     tx_bind (get_i32 ''i_Area'') (\<lambda>area.
     tx_bind (get_i32 ''i_MaxLevel'') (\<lambda>max_level.
     tx_bind (get_text ''s_GoodsType'') (\<lambda>currency.
     tx_bind (get_i64 ''i_Cost'') (\<lambda>base_cost.
     tx_bind (get_f64 ''f_CostIncreaseValue'') (\<lambda>cost_increase.
     tx_return \<lparr>muni_id = id, muni_area = area, muni_max_level = max_level, muni_currency = currency,
       muni_base_cost = base_cost, muni_cost_increase = cost_increase\<rparr>))))))"

definition load_units :: "master_file \<Rightarrow> master_error + master_unit list" where
  "load_units m = select_rows m ''Unit''
     [''i_Id'', ''i_Area'', ''i_MaxLevel'', ''s_GoodsType'', ''i_Cost'',
      ''f_CostIncreaseValue'', ''b_IsActive'']
     (\<lambda>row. row_flag row ''b_IsActive'') [''i_Id''] read_master_unit"

definition read_master_music :: "(sql_error, sql_row, master_music) tx" where
  "read_master_music =
     tx_bind (get_i64 ''i_Id'') (\<lambda>id.
     tx_bind (get_i32 ''i_Area'') (\<lambda>area.
     tx_bind (get_i32 ''i_MaxLevel'') (\<lambda>max_level.
     tx_bind (get_text ''s_GoodsType'') (\<lambda>currency.
     tx_bind (get_f64 ''d_UnlockCost'') (\<lambda>unlock_cost.
     tx_bind (get_i32 ''i_AcquisitionType'') (\<lambda>acquisition_type.
     tx_bind (get_i32 ''i_AcquisitionId'') (\<lambda>acquisition_id.
     tx_bind (get_flag ''b_IsActive'') (\<lambda>active.
     tx_return \<lparr>mmus_id = id, mmus_area = area, mmus_max_level = max_level, mmus_currency = currency,
       mmus_unlock_cost = unlock_cost, mmus_acquisition_type = acquisition_type,
       mmus_acquisition_id = acquisition_id, mmus_active = active\<rparr>))))))))"

definition load_music :: "master_file \<Rightarrow> master_error + master_music list" where
  "load_music m = select_rows m ''Music''
     [''i_Id'', ''i_Area'', ''i_MaxLevel'', ''s_GoodsType'', ''d_UnlockCost'',
      ''i_AcquisitionType'', ''i_AcquisitionId'', ''b_IsActive'']
     (\<lambda>_. True) [''i_Id''] read_master_music"

definition read_master_music_level :: "(sql_error, sql_row, master_music_level) tx" where
  "read_master_music_level =
     tx_bind (get_i32 ''i_Level'') (\<lambda>level.
     tx_bind (get_f64 ''f_EncoreBonusAppearCooltime_Sec'') (\<lambda>official_encore_cooldown_seconds.
     tx_bind (get_i32 ''i_EncoreBonusGiftAmount'') (\<lambda>gift_amount.
     tx_bind (get_i64 ''i_EncoreFollowerProfileExp'') (\<lambda>follower_profile_exp.
     tx_return \<lparr>mmlv_level = level,
       mmlv_official_encore_cooldown_seconds = official_encore_cooldown_seconds,
       mmlv_gift_amount = gift_amount, mmlv_follower_profile_exp = follower_profile_exp\<rparr>))))"

definition load_music_levels :: "master_file \<Rightarrow> master_error + master_music_level list" where
  "load_music_levels m = select_rows m ''MusicLevel''
     [''i_Level'', ''f_EncoreBonusAppearCooltime_Sec'', ''i_EncoreBonusGiftAmount'',
      ''i_EncoreFollowerProfileExp'']
     (\<lambda>_. True) [''i_Level''] read_master_music_level"

definition read_master_ch3_stage :: "(sql_error, sql_row, master_ch3_stage) tx" where
  "read_master_ch3_stage =
     tx_bind (get_i64 ''i_Id'') (\<lambda>id.
     tx_bind (get_i32 ''i_Chapter'') (\<lambda>chapter'.
     tx_bind (get_i32 ''i_StageIndex'') (\<lambda>stage_index.
     tx_bind (get_text ''s_StageType'') (\<lambda>stage_type.
     tx_bind (get_i64 ''i_RewardGroupID'') (\<lambda>reward_group_id.
     tx_bind (get_text ''s_PercentRewardGroupID'') (\<lambda>percent_reward_groups.
     tx_bind (tx_collect get_i64 [''i_GoalScore1'', ''i_GoalScore2'', ''i_GoalScore3'']) (\<lambda>goal_scores.
     tx_bind (get_text ''s_BonusProfileID'') (\<lambda>bonus_profile_ids.
     tx_bind (get_i64 ''i_BonusMusicID'') (\<lambda>bonus_music_id.
     tx_bind (get_flag ''b_IsActive'') (\<lambda>active.
     tx_return \<lparr>mstg_id = id, mstg_chapter = chapter', mstg_stage_index = stage_index,
       mstg_stage_type = stage_type, mstg_reward_group_id = reward_group_id,
       mstg_percent_reward_groups = percent_reward_groups, mstg_goal_scores = goal_scores,
       mstg_bonus_profile_ids = parse_id_list bonus_profile_ids,
       mstg_bonus_music_id = bonus_music_id, mstg_active = active\<rparr>))))))))))"

definition load_ch3_stages :: "master_file \<Rightarrow> master_error + master_ch3_stage list" where
  "load_ch3_stages m = select_rows m ''ChThirdStage''
     [''i_Id'', ''i_Chapter'', ''i_StageIndex'', ''s_StageType'', ''i_RewardGroupID'',
      ''s_PercentRewardGroupID'', ''i_GoalScore1'', ''i_GoalScore2'', ''i_GoalScore3'',
      ''s_BonusProfileID'', ''i_BonusMusicID'', ''b_IsActive'']
     (\<lambda>_. True) [''i_Chapter'', ''i_StageIndex'', ''i_Id''] read_master_ch3_stage"

definition read_master_pass_season :: "(sql_error, sql_row, master_pass_season) tx" where
  "read_master_pass_season =
     tx_bind (get_i64 ''i_Id'') (\<lambda>season.
     tx_bind (get_i64 ''i_SubscribeID'') (\<lambda>subscribe_id.
     tx_bind (get_i64 ''i_TicketCollectionId'') (\<lambda>ticket_collection_id.
     tx_bind (get_i64 ''i_PointPrice'') (\<lambda>point_price.
     tx_bind (get_i64 ''i_PaidPoint'') (\<lambda>paid_point.
     tx_bind (get_i64 ''i_ADCoolTime'') (\<lambda>ad_cooldown_seconds.
     tx_bind (get_i64 ''i_ADPoint'') (\<lambda>ad_point.
     tx_return \<lparr>mpse_season = season, mpse_subscribe_id = subscribe_id,
       mpse_ticket_collection_id = ticket_collection_id, mpse_point_price = point_price,
       mpse_paid_point = paid_point, mpse_ad_cooldown_seconds = ad_cooldown_seconds,
       mpse_ad_point = ad_point\<rparr>)))))))"

definition load_pass_seasons :: "master_file \<Rightarrow> master_error + master_pass_season list" where
  "load_pass_seasons m = select_rows m ''SubscribePass''
     [''i_Id'', ''i_SubscribeID'', ''i_TicketCollectionId'', ''i_PointPrice'', ''i_PaidPoint'',
      ''i_ADCoolTime'', ''i_ADPoint'']
     (\<lambda>_. True) [''i_Id''] read_master_pass_season"

definition read_master_reward :: "(sql_error, sql_row, master_reward) tx" where
  "read_master_reward =
     tx_bind (get_i64 ''i_Id'') (\<lambda>row_id.
     tx_bind (get_i64 ''i_Group'') (\<lambda>group.
     tx_bind (get_i16 ''i_RewardType'') (\<lambda>reward_type.
     tx_bind (get_i32 ''i_RewardID'') (\<lambda>reward_id.
     tx_bind (get_f64 ''l_RewardQuantity'') (\<lambda>quantity.
     tx_bind (get_f64 ''i_BuyFirstQuantity'') (\<lambda>first_purchase_quantity.
     tx_return \<lparr>mrew_row_id = row_id, mrew_group = group, mrew_reward_type = reward_type,
       mrew_reward_id = reward_id, mrew_quantity = quantity,
       mrew_first_purchase_quantity = first_purchase_quantity\<rparr>))))))"

definition load_reward_groups :: "master_file \<Rightarrow> master_error + master_reward list" where
  "load_reward_groups m = select_rows m ''RewardGroup''
     [''i_Id'', ''i_Group'', ''i_RewardType'', ''i_RewardID'', ''l_RewardQuantity'',
      ''i_BuyFirstQuantity'']
     (\<lambda>_. True) [''i_Group'', ''i_Id''] read_master_reward"

definition read_master_shop :: "(sql_error, sql_row, master_shop) tx" where
  "read_master_shop =
     tx_bind (get_i64 ''i_Id'') (\<lambda>id.
     tx_bind (get_i32 ''i_ProductType'') (\<lambda>product_type.
     tx_bind (get_i64 ''i_RewardGroup'') (\<lambda>reward_group.
     tx_bind (get_i32 ''i_SellType'') (\<lambda>sell_type.
     tx_bind (get_i64 ''i_SellValue'') (\<lambda>sell_value.
     tx_bind (get_flag ''b_IsActive'') (\<lambda>active.
     tx_bind (get_i32 ''i_Condition'') (\<lambda>condition.
     tx_bind (get_i64 ''i_ConditionValue'') (\<lambda>condition_value.
     tx_return \<lparr>msho_id = id, msho_product_type = product_type, msho_reward_group = reward_group,
       msho_sell_type = sell_type, msho_sell_value = sell_value, msho_active = active,
       msho_condition = condition, msho_condition_value = condition_value\<rparr>))))))))"

definition load_shops :: "master_file \<Rightarrow> master_error + master_shop list" where
  "load_shops m = select_rows m ''Shop''
     [''i_Id'', ''i_ProductType'', ''i_RewardGroup'', ''i_SellType'', ''i_SellValue'',
      ''b_IsActive'', ''i_Condition'', ''i_ConditionValue'']
     (\<lambda>_. True) [''i_Id''] read_master_shop"

definition read_master_pass_reward :: "(sql_error, sql_row, master_pass_reward) tx" where
  "read_master_pass_reward =
     tx_bind (get_i64 ''i_Id'') (\<lambda>id.
     tx_bind (get_i64 ''i_Group'') (\<lambda>group.
     tx_bind (get_i32 ''i_Step'') (\<lambda>step.
     tx_bind (get_i64 ''i_Goal'') (\<lambda>goal.
     tx_bind (get_i64 ''i_FreeRewardGroup'') (\<lambda>free_reward_group.
     tx_bind (get_i64 ''i_PaidRewardGroup'') (\<lambda>paid_reward_group.
     tx_return \<lparr>mprw_id = id, mprw_group = group, mprw_step = step, mprw_goal = goal,
       mprw_free_reward_group = free_reward_group, mprw_paid_reward_group = paid_reward_group\<rparr>))))))"

definition load_pass_rewards :: "master_file \<Rightarrow> master_error + master_pass_reward list" where
  "load_pass_rewards m = select_rows m ''SubscribePassReward''
     [''i_Id'', ''i_Group'', ''i_Step'', ''i_Goal'', ''i_FreeRewardGroup'',
      ''i_PaidRewardGroup'']
     (\<lambda>_. True) [''i_Group'', ''i_Step''] read_master_pass_reward"

definition read_master_profile_level :: "(sql_error, sql_row, master_profile_level) tx" where
  "read_master_profile_level =
     tx_bind (get_i64 ''i_Id'') (\<lambda>id.
     tx_bind (get_i64 ''i_ProfileID'') (\<lambda>profile_id.
     tx_bind (get_i32 ''i_Level'') (\<lambda>level.
     tx_bind (get_f64 ''d_RequireEXP'') (\<lambda>required_exp.
     tx_bind (get_i64 ''i_RewardGroup'') (\<lambda>reward_group.
     tx_bind (get_i32 ''i_AddCandy'') (\<lambda>add_candy.
     tx_bind (get_i32 ''i_AddMaxAp'') (\<lambda>add_max_ap.
     tx_bind (get_flag ''b_IsActive'') (\<lambda>active.
     tx_return \<lparr>mfpl_id = id, mfpl_profile_id = profile_id, mfpl_level = level,
       mfpl_required_exp = required_exp, mfpl_reward_group = reward_group,
       mfpl_add_candy = add_candy, mfpl_add_max_ap = add_max_ap, mfpl_active = active\<rparr>))))))))"

definition load_follower_profile_levels :: "master_file \<Rightarrow> master_error + master_profile_level list" where
  "load_follower_profile_levels m = select_rows m ''FollowerProfileLevel''
     [''i_Id'', ''i_ProfileID'', ''i_Level'', ''d_RequireEXP'', ''i_RewardGroup'',
      ''i_AddCandy'', ''i_AddMaxAp'', ''b_IsActive'']
     (\<lambda>_. True) [''i_ProfileID'', ''i_Level''] read_master_profile_level"

definition read_master_ch3_score :: "(sql_error, sql_row, master_ch3_score) tx" where
  "read_master_ch3_score =
     tx_bind (get_i32 ''i_Level'') (\<lambda>level.
     tx_bind (get_i32 ''i_CharacterScore'') (\<lambda>character_score.
     tx_bind (get_i32 ''i_FollowerScore'') (\<lambda>follower_score.
     tx_bind (get_i32 ''i_MusicScore'') (\<lambda>music_score.
     tx_bind (get_flag ''b_IsActive'') (\<lambda>active.
     tx_return \<lparr>msco_level = level, msco_character_score = character_score,
       msco_follower_score = follower_score, msco_music_score = music_score,
       msco_active = active\<rparr>)))))"

definition load_ch3_scores :: "master_file \<Rightarrow> master_error + master_ch3_score list" where
  "load_ch3_scores m = select_rows m ''ChThirdScore''
     [''i_Level'', ''i_CharacterScore'', ''i_FollowerScore'', ''i_MusicScore'', ''b_IsActive'']
     (\<lambda>_. True) [''i_Level''] read_master_ch3_score"

definition read_master_ch3_chapter :: "(sql_error, sql_row, master_ch3_chapter) tx" where
  "read_master_ch3_chapter =
     tx_bind (get_i32 ''i_Id'') (\<lambda>chapter'.
     tx_bind (get_i32 ''i_unlockLevel'') (\<lambda>unlock_level.
     tx_bind (tx_collect get_i64 [''i_RewardGroupID1'', ''i_RewardGroupID2'', ''i_RewardGroupID3'']) (\<lambda>reward_groups.
     tx_bind (tx_collect get_i32 [''i_GoalStar1'', ''i_GoalStar2'', ''i_GoalStar3'']) (\<lambda>goal_stars.
     tx_bind (get_flag ''b_IsActive'') (\<lambda>active.
     tx_return \<lparr>mcha_chapter = chapter', mcha_unlock_level = unlock_level,
       mcha_reward_groups = reward_groups, mcha_goal_stars = goal_stars, mcha_active = active\<rparr>)))))"

definition load_ch3_chapters :: "master_file \<Rightarrow> master_error + master_ch3_chapter list" where
  "load_ch3_chapters m = select_rows m ''ChThirdChapter''
     [''i_Id'', ''i_unlockLevel'', ''i_RewardGroupID1'', ''i_GoalStar1'', ''i_RewardGroupID2'',
      ''i_GoalStar2'', ''i_RewardGroupID3'', ''i_GoalStar3'', ''b_IsActive'']
     (\<lambda>_. True) [''i_Id''] read_master_ch3_chapter"

definition read_master_percent :: "(sql_error, sql_row, master_percent) tx" where
  "read_master_percent =
     tx_bind (get_i64 ''i_Id'') (\<lambda>row_id.
     tx_bind (get_i64 ''i_GroupID'') (\<lambda>group.
     tx_bind (get_i32 ''i_Percent'') (\<lambda>percent.
     tx_bind (get_i16 ''i_RewardType'') (\<lambda>reward_type.
     tx_bind (get_i32 ''i_RewardID'') (\<lambda>reward_id.
     tx_bind (get_f64 ''l_RewardQuantity'') (\<lambda>quantity.
     tx_bind (get_flag ''b_IsActive'') (\<lambda>active.
     tx_return \<lparr>mpct_row_id = row_id, mpct_group = group, mpct_percent = percent,
       mpct_reward_type = reward_type, mpct_reward_id = reward_id, mpct_quantity = quantity,
       mpct_active = active\<rparr>)))))))"

definition load_percent_rewards :: "master_file \<Rightarrow> master_error + master_percent list" where
  "load_percent_rewards m = select_rows m ''Percent''
     [''i_Id'', ''i_GroupID'', ''i_Percent'', ''i_RewardType'', ''i_RewardID'',
      ''l_RewardQuantity'', ''b_IsActive'']
     (\<lambda>_. True) [''i_GroupID'', ''i_Id''] read_master_percent"

definition read_master_gift :: "(sql_error, sql_row, master_gift) tx" where
  "read_master_gift =
     tx_bind (get_i64 ''i_Id'') (\<lambda>id.
     tx_bind (get_i32 ''i_GiftType'') (\<lambda>gift_type.
     tx_bind (get_f64 ''d_Value'') (\<lambda>experience.
     tx_bind (get_flag ''b_IsActive'') (\<lambda>active.
     tx_return \<lparr>mgif_id = id, mgif_gift_type = gift_type,
       mgif_experience = as_i64 (fmax experience fzero), mgif_active = active\<rparr>))))"

definition load_follower_gifts :: "master_file \<Rightarrow> master_error + master_gift list" where
  "load_follower_gifts m = select_rows m ''FollowerGiftItem''
     [''i_Id'', ''i_GiftType'', ''d_Value'', ''b_IsActive'']
     (\<lambda>_. True) [''i_Id''] read_master_gift"

definition read_master_quest :: "(sql_error, sql_row, master_quest) tx" where
  "read_master_quest =
     tx_bind (get_i64 ''i_Id'') (\<lambda>id.
     tx_bind (tx_collect get_f64 [''d_Condition1_1'', ''d_Condition2_1'', ''d_Condition3_1'']) (\<lambda>thresholds.
     tx_bind (tx_collect get_i64 [''i_RewardGroup1'', ''i_RewardGroup2'', ''i_RewardGroup3'']) (\<lambda>reward_groups.
     tx_bind (get_flag ''b_IsActive'') (\<lambda>active.
     tx_bind (get_i32 ''i_Type'') (\<lambda>quest_type.
     tx_return \<lparr>mque_id = id, mque_quest_type = quest_type, mque_thresholds = thresholds,
       mque_reward_groups = reward_groups, mque_active = active\<rparr>)))))"

definition load_follower_quests :: "master_file \<Rightarrow> master_error + master_quest list" where
  "load_follower_quests m = select_rows m ''FollowerQuest''
     [''i_Id'', ''d_Condition1_1'', ''d_Condition2_1'', ''d_Condition3_1'', ''i_RewardGroup1'',
      ''i_RewardGroup2'', ''i_RewardGroup3'', ''b_IsActive'', ''i_Type'']
     (\<lambda>_. True) [''i_Id''] read_master_quest"

definition read_master_select :: "(sql_error, sql_row, master_select) tx" where
  "read_master_select =
     tx_bind (get_i64 ''i_Id'') (\<lambda>id.
     tx_bind (get_i64 ''i_GroupId'') (\<lambda>group.
     tx_bind (get_i64 ''i_RewardGroupId'') (\<lambda>reward_group.
     tx_bind (get_i64 ''i_AltRewardGroupId'') (\<lambda>alternate_reward_group.
     tx_bind (get_flag ''b_IsActive'') (\<lambda>active.
     tx_return \<lparr>msel_id = id, msel_group = group, msel_reward_group = reward_group,
       msel_alternate_reward_group = alternate_reward_group, msel_active = active\<rparr>)))))"

definition load_select_rewards :: "master_file \<Rightarrow> master_error + master_select list" where
  "load_select_rewards m = select_rows m ''SelectReward''
     [''i_Id'', ''i_GroupId'', ''i_RewardGroupId'', ''i_AltRewardGroupId'', ''b_IsActive'']
     (\<lambda>_. True) [''i_Id''] read_master_select"

definition read_master_sam_seck :: "(sql_error, sql_row, master_sam_seck) tx" where
  "read_master_sam_seck =
     tx_bind (get_i64 ''i_Id'') (\<lambda>id.
     tx_bind (get_text ''s_ConditionType'') (\<lambda>condition_type.
     tx_bind (get_f64 ''d_Condition'') (\<lambda>condition.
     tx_bind (get_i64 ''i_MailRewardID'') (\<lambda>mail_reward_id.
     tx_bind (get_flag ''b_IsActive'') (\<lambda>active.
     tx_return \<lparr>msam_id = id, msam_condition_type = condition_type, msam_condition = condition,
       msam_mail_reward_id = mail_reward_id, msam_active = active\<rparr>)))))"

definition load_sam_seck :: "master_file \<Rightarrow> master_error + master_sam_seck list" where
  "load_sam_seck m = select_rows m ''SamSeckEvent''
     [''i_Id'', ''s_ConditionType'', ''d_Condition'', ''i_MailRewardID'', ''b_IsActive'']
     (\<lambda>_. True) [''i_Id''] read_master_sam_seck"

text \<open>A condition that is not a number in text, or a reward that is not an integer, counts as 0.\<close>

definition achievement_condition :: "sql_row \<Rightarrow> nat \<Rightarrow> f64" where
  "achievement_condition row i =
     (case get_text (''s_Condition_'' @ show_nat i) row of
        Inl _ \<Rightarrow> fzero
      | Inr (text, _) \<Rightarrow> (case parse_f64 text of None \<Rightarrow> fzero | Some x \<Rightarrow> x))"

definition achievement_reward :: "sql_row \<Rightarrow> nat \<Rightarrow> int" where
  "achievement_reward row i =
     (case get_i64 (''i_Reward_'' @ show_nat i) row of Inl _ \<Rightarrow> 0 | Inr (x, _) \<Rightarrow> x)"

definition read_master_achievement :: "(sql_error, sql_row, master_achievement) tx" where
  "read_master_achievement =
     tx_bind (tx_gets (\<lambda>row. map (achievement_condition row) [1..<21])) (\<lambda>conditions.
     tx_bind (tx_gets (\<lambda>row. map (achievement_reward row) [1..<21])) (\<lambda>reward_values.
     tx_bind (get_i64 ''i_Id'') (\<lambda>id.
     tx_bind (get_text ''s_RewardType'') (\<lambda>reward_type.
     tx_bind (get_i32 ''i_MaxLevel'') (\<lambda>max_level.
     tx_bind (get_flag ''b_IsActive'') (\<lambda>active.
     tx_return \<lparr>mach_id = id, mach_conditions = conditions, mach_reward_type = reward_type,
       mach_reward_values = reward_values, mach_max_level = max_level, mach_active = active\<rparr>))))))"

definition load_achievements :: "master_file \<Rightarrow> master_error + master_achievement list" where
  "load_achievements m = select_rows m ''Achievement''
     (''i_Id'' # map (\<lambda>i. ''s_Condition_'' @ show_nat i) [1..<21] @ ''s_RewardType''
        # map (\<lambda>i. ''i_Reward_'' @ show_nat i) [1..<21] @ [''i_MaxLevel'', ''b_IsActive''])
     (\<lambda>_. True) [''i_Id''] read_master_achievement"

definition read_master_mission :: "(sql_error, sql_row, master_mission) tx" where
  "read_master_mission =
     tx_bind (get_i64 ''i_Id'') (\<lambda>id.
     tx_bind (get_f64 ''d_Condition_1'') (\<lambda>condition.
     tx_bind (get_text ''s_RewardType'') (\<lambda>reward_type.
     tx_bind (get_i64 ''i_Reward_1'') (\<lambda>reward_value.
     tx_bind (get_flag ''b_IsActive'') (\<lambda>active.
     tx_return \<lparr>mmis_id = id, mmis_condition = condition, mmis_reward_type = reward_type,
       mmis_reward_value = reward_value, mmis_active = active\<rparr>)))))"

definition load_daily_missions :: "master_file \<Rightarrow> master_error + master_mission list" where
  "load_daily_missions m = select_rows m ''DailyMission''
     [''i_Id'', ''d_Condition_1'', ''s_RewardType'', ''i_Reward_1'', ''b_IsActive'']
     (\<lambda>_. True) [''i_Id''] read_master_mission"

definition read_master_ad :: "(sql_error, sql_row, master_ad) tx" where
  "read_master_ad =
     tx_bind (get_i64 ''i_Id'') (\<lambda>id.
     tx_bind (get_text ''s_RewardType'') (\<lambda>reward_type.
     tx_bind (get_i64 ''i_RewardGroup'') (\<lambda>reward_group.
     tx_bind (get_flag ''b_IsActive'') (\<lambda>active.
     tx_return \<lparr>mads_id = id, mads_reward_type = reward_type, mads_reward_group = reward_group,
       mads_active = active\<rparr>))))"

definition load_ads :: "master_file \<Rightarrow> master_error + master_ad list" where
  "load_ads m = select_rows m ''ADList''
     [''i_Id'', ''s_RewardType'', ''i_RewardGroup'', ''b_IsActive'']
     (\<lambda>_. True) [''i_Id''] read_master_ad"

definition read_master_ad_level :: "(sql_error, sql_row, master_ad_level) tx" where
  "read_master_ad_level =
     tx_bind (get_i64 ''i_Id'') (\<lambda>id.
     tx_bind (get_i64 ''i_GroupID'') (\<lambda>group.
     tx_bind (get_i32 ''i_Level'') (\<lambda>level.
     tx_bind (get_i32 ''i_RequireEXP'') (\<lambda>required_experience.
     tx_bind (get_i64 ''i_RewardGroup'') (\<lambda>reward_group.
     tx_bind (get_flag ''b_IsActive'') (\<lambda>active.
     tx_return \<lparr>malv_id = id, malv_group = group, malv_level = level,
       malv_required_experience = required_experience, malv_reward_group = reward_group,
       malv_active = active\<rparr>))))))"

definition load_ad_levels :: "master_file \<Rightarrow> master_error + master_ad_level list" where
  "load_ad_levels m = select_rows m ''ADLevel''
     [''i_Id'', ''i_GroupID'', ''i_Level'', ''i_RequireEXP'', ''i_RewardGroup'', ''b_IsActive'']
     (\<lambda>_. True) [''i_GroupID'', ''i_Level'', ''i_Id''] read_master_ad_level"

definition read_master_daily_reward :: "(sql_error, sql_row, master_daily_reward) tx" where
  "read_master_daily_reward =
     tx_bind (get_i64 ''i_Id'') (\<lambda>id.
     tx_bind (get_i64 ''i_Group'') (\<lambda>group.
     tx_bind (get_i32 ''i_Day'') (\<lambda>day.
     tx_bind (get_i16 ''i_RewardType'') (\<lambda>reward_type.
     tx_bind (get_i32 ''i_RewardID'') (\<lambda>reward_id.
     tx_bind (get_f64 ''l_RewardQuantity'') (\<lambda>quantity.
     tx_bind (get_text ''s_CustomIconType'') (\<lambda>custom_icon_type.
     tx_bind (get_text ''s_CustomIconSprite'') (\<lambda>custom_icon_sprite.
     tx_return \<lparr>mdrw_id = id, mdrw_group = group, mdrw_day = day, mdrw_reward_type = reward_type,
       mdrw_reward_id = reward_id, mdrw_quantity = quantity,
       mdrw_custom_icon_type = custom_icon_type, mdrw_custom_icon_sprite = custom_icon_sprite\<rparr>))))))))"

definition load_daily_rewards :: "master_file \<Rightarrow> master_error + master_daily_reward list" where
  "load_daily_rewards m = select_rows m ''DailyReward''
     [''i_Id'', ''i_Group'', ''i_Day'', ''i_RewardType'', ''i_RewardID'', ''l_RewardQuantity'',
      ''s_CustomIconType'', ''s_CustomIconSprite'']
     (\<lambda>_. True) [''i_Group'', ''i_Day'', ''i_Id''] read_master_daily_reward"

text \<open>
  A column name loses its type prefix (one character and an underscore), everything but ASCII
  letters and digits, and its case. Byte 2 is a character boundary when byte 1 is the underscore.
\<close>

definition is_alnum :: "char \<Rightarrow> bool" where
  "is_alnum c \<longleftrightarrow> is_digit c \<or> 65 \<le> (of_char c :: nat) \<and> (of_char c :: nat) \<le> 90
     \<or> 97 \<le> (of_char c :: nat) \<and> (of_char c :: nat) \<le> 122"

definition normalize_column_name :: "string \<Rightarrow> string" where
  "normalize_column_name v =
     to_lower (filter is_alnum
       (case v of _ # b # rest \<Rightarrow> if b = CHR ''_'' then rest else v | _ \<Rightarrow> v))"

definition scalar_of :: "sql_value \<Rightarrow> master_scalar" where
  "scalar_of v = (case v of SNull \<Rightarrow> MNull | SInteger i \<Rightarrow> MInteger i | SReal x \<Rightarrow> MReal x
     | SText t \<Rightarrow> MText (from_utf8_lossy t) | SBlob b \<Rightarrow> MBlob b)"

definition master_row_of :: "sql_row \<Rightarrow> master_row" where
  "master_row_of row =
     fold (\<lambda>(c, v). tbl_put (normalize_column_name c) (scalar_of v)) row []"

definition load_game_data :: "master_file \<Rightarrow> master_error + (string, master_row list) table" where
  "load_game_data m =
     foldl (\<lambda>acc (field, table).
        case acc of Inl e \<Rightarrow> Inl e
        | Inr result \<Rightarrow>
            (case find_ci table (mf_tables m) of
               None \<Rightarrow> Inl MasterStatement
             | Some t \<Rightarrow> Inr (tbl_put field (map master_row_of (table_rows t)) result)))
       (Inr []) game_data_tables"

definition sum_bind :: "'e + 'a \<Rightarrow> ('a \<Rightarrow> 'e + 'b) \<Rightarrow> 'e + 'b" where
  "sum_bind r f = (case r of Inl e \<Rightarrow> Inl e | Inr x \<Rightarrow> f x)"

definition load_catalog :: "master_metadata \<Rightarrow> master_file \<Rightarrow> master_error + master_catalog" where
  "load_catalog md m =
     sum_bind (load_fan_requirements m) (\<lambda>x_fan_requirements.
     sum_bind (load_costumes m) (\<lambda>x_costumes.
     sum_bind (load_guitars m) (\<lambda>x_guitars.
     sum_bind (load_skills m) (\<lambda>x_skills.
     sum_bind (load_units m) (\<lambda>x_units.
     sum_bind (load_music m) (\<lambda>x_music.
     sum_bind (load_music_levels m) (\<lambda>x_music_levels.
     sum_bind (load_ch3_stages m) (\<lambda>x_ch3_stages.
     sum_bind (load_pass_seasons m) (\<lambda>x_pass_seasons.
     sum_bind (load_reward_groups m) (\<lambda>x_reward_groups.
     sum_bind (load_shops m) (\<lambda>x_shops.
     sum_bind (load_pass_rewards m) (\<lambda>x_pass_rewards.
     sum_bind (load_follower_profile_levels m) (\<lambda>x_follower_profile_levels.
     sum_bind (load_ch3_scores m) (\<lambda>x_ch3_scores.
     sum_bind (load_ch3_chapters m) (\<lambda>x_ch3_chapters.
     sum_bind (load_percent_rewards m) (\<lambda>x_percent_rewards.
     sum_bind (load_follower_gifts m) (\<lambda>x_follower_gifts.
     sum_bind (load_follower_quests m) (\<lambda>x_follower_quests.
     sum_bind (load_select_rewards m) (\<lambda>x_select_rewards.
     sum_bind (load_sam_seck m) (\<lambda>x_sam_seck.
     sum_bind (load_achievements m) (\<lambda>x_achievements.
     sum_bind (load_daily_missions m) (\<lambda>x_daily_missions.
     sum_bind (load_ads m) (\<lambda>x_ads.
     sum_bind (load_ad_levels m) (\<lambda>x_ad_levels.
     sum_bind (load_daily_rewards m) (\<lambda>x_daily_rewards.
     sum_bind (load_game_data m) (\<lambda>x_game_data.
     Inr \<lparr>mc_metadata = md, mc_fan_requirements = x_fan_requirements, mc_costumes = x_costumes,
       mc_guitars = x_guitars, mc_skills = x_skills, mc_units = x_units, mc_music = x_music,
       mc_music_levels = x_music_levels, mc_ch3_stages = x_ch3_stages,
       mc_pass_seasons = x_pass_seasons, mc_reward_groups = x_reward_groups,
       mc_shops = x_shops, mc_pass_rewards = x_pass_rewards,
       mc_follower_profile_levels = x_follower_profile_levels, mc_ch3_scores = x_ch3_scores,
       mc_ch3_chapters = x_ch3_chapters, mc_percent_rewards = x_percent_rewards,
       mc_follower_gifts = x_follower_gifts, mc_follower_quests = x_follower_quests,
       mc_select_rewards = x_select_rewards, mc_sam_seck = x_sam_seck,
       mc_achievements = x_achievements, mc_daily_missions = x_daily_missions, mc_ads = x_ads,
       mc_ad_levels = x_ad_levels, mc_daily_rewards = x_daily_rewards,
       mc_game_data = x_game_data\<rparr>))))))))))))))))))))))))))"

section \<open>Facts\<close>

lemma get_int_Inr:
  assumes "get_int fits c row = Inr (x, t)" shows "fits x"
proof -
  from assms obtain v s where "(case v of SInteger i \<Rightarrow> if fits i then tx_return i else tx_fail IntegralValueOutOfRange
      | _ \<Rightarrow> tx_fail InvalidColumnType) (s :: sql_row) = Inr (x, t)"
    unfolding get_int_def tx_bind_Inr by blast
  then show ?thesis by (cases v) (auto simp: tx_simps split: if_splits)
qed

lemma get_i64_ok: "get_i64 c row = Inr (x, t) \<Longrightarrow> in_i64 x"
  and get_i32_ok: "get_i32 c row = Inr (x, t) \<Longrightarrow> in_i32 x"
  and get_i16_ok: "get_i16 c row = Inr (x, t) \<Longrightarrow> in_i16 x"
  by (simp_all add: get_i64_def get_i32_def get_i16_def get_int_Inr)

lemma collect_ok:
  assumes "\<And>c row x t. g c row = Inr (x, t) \<Longrightarrow> P x" "tx_collect g cs row = Inr (xs, t)"
  shows "length xs = length cs \<and> list_all P xs"
  using assms(2)
  by (induction cs arbitrary: xs row t) (fastforce simp: tx_simps dest: assms(1))+

lemma collect_i64_ok: "tx_collect get_i64 cs row = Inr (xs, t) \<Longrightarrow> length xs = length cs \<and> list_all in_i64 xs"
  by (rule collect_ok [OF get_i64_ok])

lemma collect_i32_ok: "tx_collect get_i32 cs row = Inr (xs, t) \<Longrightarrow> length xs = length cs \<and> list_all in_i32 xs"
  by (rule collect_ok [OF get_i32_ok])

lemma collect_f64_ok: "tx_collect get_f64 cs row = Inr (xs, t) \<Longrightarrow> length xs = length cs"
  using collect_ok [of get_f64 "\<lambda>_. True" cs row xs t] by simp

lemma parse_i64_ok: "parse_i64 s = Some x \<Longrightarrow> in_i64 x"
  by (auto simp: parse_i64_def Let_def split: list.splits if_splits)

lemma parse_id_list_ok: "list_all in_i64 (parse_id_list s)"
  by (auto simp: parse_id_list_def list_all_iff List.map_filter_def intro: parse_i64_ok)

lemmas get_ok = get_i64_ok get_i32_ok get_i16_ok collect_i64_ok collect_i32_ok collect_f64_ok

subsection \<open>A loaded catalog is well typed\<close>

definition master_fan_ok :: "master_fan \<Rightarrow> bool" where
  "master_fan_ok r \<longleftrightarrow>
     in_i32 (mfan_area r) \<and> in_i32 (mfan_grade r) \<and> in_i64 (mfan_official_count r)"

definition master_costume_ok :: "master_costume \<Rightarrow> bool" where
  "master_costume_ok r \<longleftrightarrow>
     in_i64 (mcos_id r) \<and> in_i32 (mcos_area r) \<and> in_i32 (mcos_acquisition_type r)
     \<and> in_i32 (mcos_acquisition_id r)"

definition master_guitar_ok :: "master_guitar \<Rightarrow> bool" where
  "master_guitar_ok r \<longleftrightarrow>
     in_i64 (mgui_id r) \<and> in_i32 (mgui_area r) \<and> in_i32 (mgui_acquisition_type r)
     \<and> in_i32 (mgui_acquisition_id r)"

definition master_skill_ok :: "master_skill \<Rightarrow> bool" where
  "master_skill_ok r \<longleftrightarrow>
     in_i64 (mski_id r) \<and> in_i32 (mski_area r) \<and> in_i32 (mski_max_level r)
     \<and> in_i64 (mski_base_cost r)"

definition master_unit_ok :: "master_unit \<Rightarrow> bool" where
  "master_unit_ok r \<longleftrightarrow>
     in_i64 (muni_id r) \<and> in_i32 (muni_area r) \<and> in_i32 (muni_max_level r)
     \<and> in_i64 (muni_base_cost r)"

definition master_music_ok :: "master_music \<Rightarrow> bool" where
  "master_music_ok r \<longleftrightarrow>
     in_i64 (mmus_id r) \<and> in_i32 (mmus_area r) \<and> in_i32 (mmus_max_level r)
     \<and> in_i32 (mmus_acquisition_type r) \<and> in_i32 (mmus_acquisition_id r)"

definition master_music_level_ok :: "master_music_level \<Rightarrow> bool" where
  "master_music_level_ok r \<longleftrightarrow>
     in_i32 (mmlv_level r) \<and> in_i32 (mmlv_gift_amount r) \<and> in_i64 (mmlv_follower_profile_exp r)"

definition master_ch3_stage_ok :: "master_ch3_stage \<Rightarrow> bool" where
  "master_ch3_stage_ok r \<longleftrightarrow>
     in_i64 (mstg_id r) \<and> in_i32 (mstg_chapter r) \<and> in_i32 (mstg_stage_index r)
     \<and> in_i64 (mstg_reward_group_id r)
     \<and> length (mstg_goal_scores r) = 3 \<and> list_all in_i64 (mstg_goal_scores r)
     \<and> list_all in_i64 (mstg_bonus_profile_ids r) \<and> in_i64 (mstg_bonus_music_id r)"

definition master_pass_season_ok :: "master_pass_season \<Rightarrow> bool" where
  "master_pass_season_ok r \<longleftrightarrow>
     in_i64 (mpse_season r) \<and> in_i64 (mpse_subscribe_id r)
     \<and> in_i64 (mpse_ticket_collection_id r) \<and> in_i64 (mpse_point_price r)
     \<and> in_i64 (mpse_paid_point r) \<and> in_i64 (mpse_ad_cooldown_seconds r)
     \<and> in_i64 (mpse_ad_point r)"

definition master_reward_ok :: "master_reward \<Rightarrow> bool" where
  "master_reward_ok r \<longleftrightarrow>
     in_i64 (mrew_row_id r) \<and> in_i64 (mrew_group r) \<and> in_i16 (mrew_reward_type r)
     \<and> in_i32 (mrew_reward_id r)"

definition master_shop_ok :: "master_shop \<Rightarrow> bool" where
  "master_shop_ok r \<longleftrightarrow>
     in_i64 (msho_id r) \<and> in_i32 (msho_product_type r) \<and> in_i64 (msho_reward_group r)
     \<and> in_i32 (msho_sell_type r) \<and> in_i64 (msho_sell_value r) \<and> in_i32 (msho_condition r)
     \<and> in_i64 (msho_condition_value r)"

definition master_pass_reward_ok :: "master_pass_reward \<Rightarrow> bool" where
  "master_pass_reward_ok r \<longleftrightarrow>
     in_i64 (mprw_id r) \<and> in_i64 (mprw_group r) \<and> in_i32 (mprw_step r) \<and> in_i64 (mprw_goal r)
     \<and> in_i64 (mprw_free_reward_group r) \<and> in_i64 (mprw_paid_reward_group r)"

definition master_profile_level_ok :: "master_profile_level \<Rightarrow> bool" where
  "master_profile_level_ok r \<longleftrightarrow>
     in_i64 (mfpl_id r) \<and> in_i64 (mfpl_profile_id r) \<and> in_i32 (mfpl_level r)
     \<and> in_i64 (mfpl_reward_group r) \<and> in_i32 (mfpl_add_candy r) \<and> in_i32 (mfpl_add_max_ap r)"

definition master_ch3_score_ok :: "master_ch3_score \<Rightarrow> bool" where
  "master_ch3_score_ok r \<longleftrightarrow>
     in_i32 (msco_level r) \<and> in_i32 (msco_character_score r) \<and> in_i32 (msco_follower_score r)
     \<and> in_i32 (msco_music_score r)"

definition master_ch3_chapter_ok :: "master_ch3_chapter \<Rightarrow> bool" where
  "master_ch3_chapter_ok r \<longleftrightarrow>
     in_i32 (mcha_chapter r) \<and> in_i32 (mcha_unlock_level r)
     \<and> length (mcha_reward_groups r) = 3 \<and> list_all in_i64 (mcha_reward_groups r)
     \<and> length (mcha_goal_stars r) = 3 \<and> list_all in_i32 (mcha_goal_stars r)"

definition master_percent_ok :: "master_percent \<Rightarrow> bool" where
  "master_percent_ok r \<longleftrightarrow>
     in_i64 (mpct_row_id r) \<and> in_i64 (mpct_group r) \<and> in_i32 (mpct_percent r)
     \<and> in_i16 (mpct_reward_type r) \<and> in_i32 (mpct_reward_id r)"

definition master_gift_ok :: "master_gift \<Rightarrow> bool" where
  "master_gift_ok r \<longleftrightarrow>
     in_i64 (mgif_id r) \<and> in_i32 (mgif_gift_type r) \<and> in_i64 (mgif_experience r)"

definition master_quest_ok :: "master_quest \<Rightarrow> bool" where
  "master_quest_ok r \<longleftrightarrow>
     in_i64 (mque_id r) \<and> in_i32 (mque_quest_type r) \<and> length (mque_thresholds r) = 3
     \<and> length (mque_reward_groups r) = 3 \<and> list_all in_i64 (mque_reward_groups r)"

definition master_select_ok :: "master_select \<Rightarrow> bool" where
  "master_select_ok r \<longleftrightarrow>
     in_i64 (msel_id r) \<and> in_i64 (msel_group r) \<and> in_i64 (msel_reward_group r)
     \<and> in_i64 (msel_alternate_reward_group r)"

definition master_sam_seck_ok :: "master_sam_seck \<Rightarrow> bool" where
  "master_sam_seck_ok r \<longleftrightarrow>
     in_i64 (msam_id r) \<and> in_i64 (msam_mail_reward_id r)"

definition master_achievement_ok :: "master_achievement \<Rightarrow> bool" where
  "master_achievement_ok r \<longleftrightarrow>
     in_i64 (mach_id r) \<and> list_all in_i64 (mach_reward_values r) \<and> in_i32 (mach_max_level r)"

definition master_mission_ok :: "master_mission \<Rightarrow> bool" where
  "master_mission_ok r \<longleftrightarrow>
     in_i64 (mmis_id r) \<and> in_i64 (mmis_reward_value r)"

definition master_ad_ok :: "master_ad \<Rightarrow> bool" where
  "master_ad_ok r \<longleftrightarrow>
     in_i64 (mads_id r) \<and> in_i64 (mads_reward_group r)"

definition master_ad_level_ok :: "master_ad_level \<Rightarrow> bool" where
  "master_ad_level_ok r \<longleftrightarrow>
     in_i64 (malv_id r) \<and> in_i64 (malv_group r) \<and> in_i32 (malv_level r)
     \<and> in_i32 (malv_required_experience r) \<and> in_i64 (malv_reward_group r)"

definition master_daily_reward_ok :: "master_daily_reward \<Rightarrow> bool" where
  "master_daily_reward_ok r \<longleftrightarrow>
     in_i64 (mdrw_id r) \<and> in_i64 (mdrw_group r) \<and> in_i32 (mdrw_day r)
     \<and> in_i16 (mdrw_reward_type r) \<and> in_i32 (mdrw_reward_id r)"

definition catalog_ok :: "master_catalog \<Rightarrow> bool" where
  "catalog_ok c \<longleftrightarrow>
     list_all master_fan_ok (mc_fan_requirements c)
     \<and> list_all master_costume_ok (mc_costumes c)
     \<and> list_all master_guitar_ok (mc_guitars c)
     \<and> list_all master_skill_ok (mc_skills c)
     \<and> list_all master_unit_ok (mc_units c)
     \<and> list_all master_music_ok (mc_music c)
     \<and> list_all master_music_level_ok (mc_music_levels c)
     \<and> list_all master_ch3_stage_ok (mc_ch3_stages c)
     \<and> list_all master_pass_season_ok (mc_pass_seasons c)
     \<and> list_all master_reward_ok (mc_reward_groups c)
     \<and> list_all master_shop_ok (mc_shops c)
     \<and> list_all master_pass_reward_ok (mc_pass_rewards c)
     \<and> list_all master_profile_level_ok (mc_follower_profile_levels c)
     \<and> list_all master_ch3_score_ok (mc_ch3_scores c)
     \<and> list_all master_ch3_chapter_ok (mc_ch3_chapters c)
     \<and> list_all master_percent_ok (mc_percent_rewards c)
     \<and> list_all master_gift_ok (mc_follower_gifts c)
     \<and> list_all master_quest_ok (mc_follower_quests c)
     \<and> list_all master_select_ok (mc_select_rewards c)
     \<and> list_all master_sam_seck_ok (mc_sam_seck c)
     \<and> list_all master_achievement_ok (mc_achievements c)
     \<and> list_all master_mission_ok (mc_daily_missions c)
     \<and> list_all master_ad_ok (mc_ads c)
     \<and> list_all master_ad_level_ok (mc_ad_levels c)
     \<and> list_all master_daily_reward_ok (mc_daily_rewards c)"

lemma read_master_fan_ok: "read_master_fan row = Inr (x, t) \<Longrightarrow> master_fan_ok x"
  by (auto simp: read_master_fan_def master_fan_ok_def tx_simps parse_id_list_ok as_i64_range
      dest!: get_ok)

lemma read_master_costume_ok: "read_master_costume row = Inr (x, t) \<Longrightarrow> master_costume_ok x"
  by (auto simp: read_master_costume_def master_costume_ok_def tx_simps parse_id_list_ok as_i64_range
      dest!: get_ok)

lemma read_master_guitar_ok: "read_master_guitar row = Inr (x, t) \<Longrightarrow> master_guitar_ok x"
  by (auto simp: read_master_guitar_def master_guitar_ok_def tx_simps parse_id_list_ok as_i64_range
      dest!: get_ok)

lemma read_master_skill_ok: "read_master_skill row = Inr (x, t) \<Longrightarrow> master_skill_ok x"
  by (auto simp: read_master_skill_def master_skill_ok_def tx_simps parse_id_list_ok as_i64_range
      dest!: get_ok)

lemma read_master_unit_ok: "read_master_unit row = Inr (x, t) \<Longrightarrow> master_unit_ok x"
  by (auto simp: read_master_unit_def master_unit_ok_def tx_simps parse_id_list_ok as_i64_range
      dest!: get_ok)

lemma read_master_music_ok: "read_master_music row = Inr (x, t) \<Longrightarrow> master_music_ok x"
  by (auto simp: read_master_music_def master_music_ok_def tx_simps parse_id_list_ok as_i64_range
      dest!: get_ok)

lemma read_master_music_level_ok: "read_master_music_level row = Inr (x, t) \<Longrightarrow> master_music_level_ok x"
  by (auto simp: read_master_music_level_def master_music_level_ok_def tx_simps parse_id_list_ok as_i64_range
      dest!: get_ok)

lemma read_master_ch3_stage_ok: "read_master_ch3_stage row = Inr (x, t) \<Longrightarrow> master_ch3_stage_ok x"
  by (auto simp: read_master_ch3_stage_def master_ch3_stage_ok_def tx_simps parse_id_list_ok as_i64_range
      dest!: get_ok)

lemma read_master_pass_season_ok: "read_master_pass_season row = Inr (x, t) \<Longrightarrow> master_pass_season_ok x"
  by (auto simp: read_master_pass_season_def master_pass_season_ok_def tx_simps parse_id_list_ok as_i64_range
      dest!: get_ok)

lemma read_master_reward_ok: "read_master_reward row = Inr (x, t) \<Longrightarrow> master_reward_ok x"
  by (auto simp: read_master_reward_def master_reward_ok_def tx_simps parse_id_list_ok as_i64_range
      dest!: get_ok)

lemma read_master_shop_ok: "read_master_shop row = Inr (x, t) \<Longrightarrow> master_shop_ok x"
  by (auto simp: read_master_shop_def master_shop_ok_def tx_simps parse_id_list_ok as_i64_range
      dest!: get_ok)

lemma read_master_pass_reward_ok: "read_master_pass_reward row = Inr (x, t) \<Longrightarrow> master_pass_reward_ok x"
  by (auto simp: read_master_pass_reward_def master_pass_reward_ok_def tx_simps parse_id_list_ok as_i64_range
      dest!: get_ok)

lemma read_master_profile_level_ok: "read_master_profile_level row = Inr (x, t) \<Longrightarrow> master_profile_level_ok x"
  by (auto simp: read_master_profile_level_def master_profile_level_ok_def tx_simps parse_id_list_ok as_i64_range
      dest!: get_ok)

lemma read_master_ch3_score_ok: "read_master_ch3_score row = Inr (x, t) \<Longrightarrow> master_ch3_score_ok x"
  by (auto simp: read_master_ch3_score_def master_ch3_score_ok_def tx_simps parse_id_list_ok as_i64_range
      dest!: get_ok)

lemma read_master_ch3_chapter_ok: "read_master_ch3_chapter row = Inr (x, t) \<Longrightarrow> master_ch3_chapter_ok x"
  by (auto simp: read_master_ch3_chapter_def master_ch3_chapter_ok_def tx_simps parse_id_list_ok as_i64_range
      dest!: get_ok)

lemma read_master_percent_ok: "read_master_percent row = Inr (x, t) \<Longrightarrow> master_percent_ok x"
  by (auto simp: read_master_percent_def master_percent_ok_def tx_simps parse_id_list_ok as_i64_range
      dest!: get_ok)

lemma read_master_gift_ok: "read_master_gift row = Inr (x, t) \<Longrightarrow> master_gift_ok x"
  by (auto simp: read_master_gift_def master_gift_ok_def tx_simps parse_id_list_ok as_i64_range
      dest!: get_ok)

lemma read_master_quest_ok: "read_master_quest row = Inr (x, t) \<Longrightarrow> master_quest_ok x"
  by (auto simp: read_master_quest_def master_quest_ok_def tx_simps parse_id_list_ok as_i64_range
      dest!: get_ok)

lemma read_master_select_ok: "read_master_select row = Inr (x, t) \<Longrightarrow> master_select_ok x"
  by (auto simp: read_master_select_def master_select_ok_def tx_simps parse_id_list_ok as_i64_range
      dest!: get_ok)

lemma read_master_sam_seck_ok: "read_master_sam_seck row = Inr (x, t) \<Longrightarrow> master_sam_seck_ok x"
  by (auto simp: read_master_sam_seck_def master_sam_seck_ok_def tx_simps parse_id_list_ok as_i64_range
      dest!: get_ok)

lemma read_master_mission_ok: "read_master_mission row = Inr (x, t) \<Longrightarrow> master_mission_ok x"
  by (auto simp: read_master_mission_def master_mission_ok_def tx_simps parse_id_list_ok as_i64_range
      dest!: get_ok)

lemma read_master_ad_ok: "read_master_ad row = Inr (x, t) \<Longrightarrow> master_ad_ok x"
  by (auto simp: read_master_ad_def master_ad_ok_def tx_simps parse_id_list_ok as_i64_range
      dest!: get_ok)

lemma read_master_ad_level_ok: "read_master_ad_level row = Inr (x, t) \<Longrightarrow> master_ad_level_ok x"
  by (auto simp: read_master_ad_level_def master_ad_level_ok_def tx_simps parse_id_list_ok as_i64_range
      dest!: get_ok)

lemma read_master_daily_reward_ok: "read_master_daily_reward row = Inr (x, t) \<Longrightarrow> master_daily_reward_ok x"
  by (auto simp: read_master_daily_reward_def master_daily_reward_ok_def tx_simps parse_id_list_ok as_i64_range
      dest!: get_ok)

lemma achievement_reward_ok: "in_i64 (achievement_reward row i)"
  by (auto simp: achievement_reward_def in_i64_def split: sum.split dest: get_ok)

lemma read_master_achievement_ok: "read_master_achievement row = Inr (x, t) \<Longrightarrow> master_achievement_ok x"
  by (auto simp: read_master_achievement_def master_achievement_ok_def tx_simps achievement_reward_ok
      list_all_iff dest!: get_ok)

lemmas read_oks = read_master_fan_ok read_master_costume_ok read_master_guitar_ok
  read_master_skill_ok read_master_unit_ok read_master_music_ok read_master_music_level_ok
  read_master_ch3_stage_ok read_master_pass_season_ok read_master_reward_ok read_master_shop_ok
  read_master_pass_reward_ok read_master_profile_level_ok read_master_ch3_score_ok
  read_master_ch3_chapter_ok read_master_percent_ok read_master_gift_ok read_master_quest_ok
  read_master_select_ok read_master_sam_seck_ok read_master_achievement_ok
  read_master_mission_ok read_master_ad_ok read_master_ad_level_ok read_master_daily_reward_ok

lemmas load_defs = load_fan_requirements_def load_costumes_def load_guitars_def load_skills_def
  load_units_def load_music_def load_music_levels_def load_ch3_stages_def load_pass_seasons_def
  load_reward_groups_def load_shops_def load_pass_rewards_def load_follower_profile_levels_def
  load_ch3_scores_def load_ch3_chapters_def load_percent_rewards_def load_follower_gifts_def
  load_follower_quests_def load_select_rewards_def load_sam_seck_def load_achievements_def
  load_daily_missions_def load_ads_def load_ad_levels_def load_daily_rewards_def

lemma read_rows_ok:
  "read_rows reader rows = Inr xs \<Longrightarrow> (\<And>row x t. reader row = Inr (x, t) \<Longrightarrow> P x) \<Longrightarrow> list_all P xs"
  by (induction rows arbitrary: xs) (auto split: sum.splits prod.splits)

lemma select_rows_ok:
  "select_rows m table columns keep keys reader = Inr xs \<Longrightarrow>
     (\<And>row x t. reader row = Inr (x, t) \<Longrightarrow> P x) \<Longrightarrow> list_all P xs"
  by (auto simp: select_rows_def split: option.splits if_splits sum.splits intro: read_rows_ok)

lemma sum_bind_Inr: "sum_bind r f = Inr y \<longleftrightarrow> (\<exists>x. r = Inr x \<and> f x = Inr y)"
  by (cases r) (simp_all add: sum_bind_def)

lemma order_rows_mset: "mset (order_rows cs rows) = mset rows"
proof -
  have "mset (insert_row_by cs r rows) = add_mset r (mset rows)" for r rows
    by (induction rows) auto
  then show ?thesis by (induction rows) (auto simp: order_rows_def)
qed

lemma read_rows_length: "read_rows reader rows = Inr xs \<Longrightarrow> length xs = length rows"
  by (induction rows arbitrary: xs) (auto split: sum.splits prod.splits)

lemma select_rows_length:
  assumes "select_rows m table columns keep keys reader = Inr xs"
  shows "\<exists>t. find_ci table (mf_tables m) = Some t \<and> length xs = length (filter keep (table_rows t))"
proof -
  have "length (order_rows keys rows) = length rows" for rows
    using order_rows_mset by (metis size_mset)
  with assms show ?thesis
    by (auto simp: select_rows_def dest!: read_rows_length split: option.splits if_splits sum.splits)
qed

text \<open>Normalised names are normal: they hold lower-case letters and digits only.\<close>

lemma alnum_lower: "is_alnum c \<Longrightarrow> is_alnum (ascii_lower c) \<and> ascii_lower (ascii_lower c) = ascii_lower c"
  by (auto simp: is_alnum_def ascii_lower_def is_digit_def)

lemma normalize_column_name_idem:
  "normalize_column_name (normalize_column_name v) = normalize_column_name v"
proof -
  have low: "\<forall>c\<in>set (normalize_column_name v). is_alnum c \<and> ascii_lower c = c"
    using alnum_lower by (auto simp: normalize_column_name_def to_lower_def)
  then have "CHR ''_'' \<notin> set (normalize_column_name v)" by (auto simp: is_alnum_def is_digit_def)
  then have "(case normalize_column_name v of _ # b # rest \<Rightarrow>
      if b = CHR ''_'' then rest else normalize_column_name v | _ \<Rightarrow> normalize_column_name v)
      = normalize_column_name v"
    by (auto split: list.split)
  moreover have "to_lower (filter is_alnum (normalize_column_name v)) = normalize_column_name v"
    using low by (auto simp: to_lower_def intro!: map_idI trans [OF _ filter_True])
  ultimately show ?thesis by (subst (1) normalize_column_name_def) (simp only:)
qed

text \<open>A catalog that loads is well typed: every integer of a typed row lies in the range of its Rust
  type, and every fixed-size array has its size; the arithmetic of the handlers relies on it.\<close>

lemma catalog_well_typed:
  "case load_catalog md m of Inl e \<Rightarrow> True | Inr c \<Rightarrow> catalog_ok c \<and> mc_metadata c = md"
proof (cases "load_catalog md m")
  case (Inr c)
  then have "catalog_ok c \<and> mc_metadata c = md"
    unfolding load_catalog_def sum_bind_Inr catalog_ok_def load_defs
    by (elim exE conjE) (auto intro!: select_rows_ok read_oks)
  with Inr show ?thesis by simp
qed simp

end
