(* ===== verification/Calendar.thy ===== *)
theory Calendar
  imports Domain
begin

text \<open>
  The calendar of the gameplay handlers (\<open>crates/transport-http/src/gameplay.rs\<close>): the date of a
  local day, the number the client shows for a date and time, and the revision of the master
  tables, which changes at local midnight. Below the date is shown to be the Gregorian one.
\<close>

text \<open>Rust's \<open>/\<close> on signed integers rounds towards zero.\<close>

definition tdiv :: "int \<Rightarrow> int \<Rightarrow> int" where
  "tdiv a b = (if a < 0 then - (- a div b) else a div b)"

definition civil_from_days :: "int \<Rightarrow> int \<times> int \<times> int" where
  "civil_from_days days_since_epoch =
     (let z = days_since_epoch + 719468;
          era = (if 0 \<le> z then z else z - 146096) div 146097;
          day_of_era = z - era * 146097;
          year_of_era = tdiv (day_of_era - tdiv day_of_era 1460 + tdiv day_of_era 36524
                                - tdiv day_of_era 146096) 365;
          year = year_of_era + era * 400;
          day_of_year = day_of_era - (365 * year_of_era + tdiv year_of_era 4 - tdiv year_of_era 100);
          month_prime = tdiv (5 * day_of_year + 2) 153;
          day = day_of_year - tdiv (153 * month_prime + 2) 5 + 1;
          month = month_prime + (if month_prime < 10 then 3 else - 9)
      in (wrap_i32 (year + (if month \<le> 2 then 1 else 0)), wrap_i32 month, wrap_i32 day))"

definition device_datetime_number :: "device_clock \<Rightarrow> int" where
  "device_datetime_number clock =
     (let local = wrap_i64 (unix_seconds clock + utc_offset_minutes clock * 60);
          seconds = local mod 86400
      in case civil_from_days (local div 86400) of (year, month, day) \<Rightarrow>
           wrap_i64 (year * 10000000000 + month * 100000000 + day * 1000000
             + seconds div 3600 * 10000 + seconds mod 3600 div 60 * 100 + seconds mod 60))"

definition master_overlay_generation :: int where "master_overlay_generation = 11"

definition master_update_time :: "device_clock \<Rightarrow> int \<Rightarrow> int" where
  "master_update_time clock slot_revision =
     (let local_midnight_utc = wrap_i64 (sat_i64 (local_epoch_day clock * 86400)
                                 - utc_offset_minutes clock * 60)
      in sat_i64 (sat_i64 (local_midnight_utc + master_overlay_generation) + slot_revision))"

section \<open>The Gregorian calendar\<close>

definition leap_year :: "int \<Rightarrow> bool" where
  "leap_year y \<longleftrightarrow> 4 dvd y \<and> (100 dvd y \<longrightarrow> 400 dvd y)"

definition month_days :: "int \<Rightarrow> int \<Rightarrow> int" where
  "month_days y m =
     (if m = 2 then (if leap_year y then 29 else 28) else if m \<in> {4, 6, 9, 11} then 30 else 31)"

definition next_date :: "int \<times> int \<times> int \<Rightarrow> int \<times> int \<times> int" where
  "next_date date = (case date of (y, m, d) \<Rightarrow>
     if d < month_days y m then (y, m, d + 1)
     else if m < 12 then (y, m + 1, 1) else (y + 1, 1, 1))"

text \<open>Years that start in March: the days before year \<open>y\<close>, and the date of day \<open>k\<close> of it.\<close>

definition days_before :: "int \<Rightarrow> int" where
  "days_before y = 365 * y + y div 4 - y div 100 + y div 400"

definition march_month :: "int \<Rightarrow> int" where
  "march_month k = (5 * k + 2) div 153"

definition march_day :: "int \<Rightarrow> int" where
  "march_day k = k - (153 * march_month k + 2) div 5 + 1"

definition date_of :: "int \<Rightarrow> int \<Rightarrow> int \<times> int \<times> int" where
  "date_of y k =
     (let month = march_month k + (if march_month k < 10 then 3 else - 9)
      in (y + (if month \<le> 2 then 1 else 0), month, march_day k))"

lemma div_of_era:
  fixes e y :: int
  assumes "0 \<le> y" "y < 400"
  shows "days_before (400 * e + y) = 146097 * e + 365 * y + y div 4 - y div 100"
proof -
  have "(400 * e + y) div 4 = 100 * e + y div 4"
    by (rule int_div_pos_eq [where r = "y mod 4"]) simp_all
  moreover have "(400 * e + y) div 100 = 4 * e + y div 100"
    by (rule int_div_pos_eq [where r = "y mod 100"]) simp_all
  moreover have "(400 * e + y) div 400 = e"
    by (rule int_div_pos_eq [where r = y]) (use assms in simp_all)
  ultimately show ?thesis by (simp add: days_before_def)
qed

lemma days_before_step:
  "days_before (y + 1) = days_before y + (if leap_year (y + 1) then 366 else 365)"
proof -
  have d: "(y + 1) div n = y div n + (if n dvd y + 1 then 1 else 0)" if "0 < n" for n :: int
  proof (cases "n dvd y + 1")
    case True
    then obtain k where k: "y + 1 = n * k" by (elim dvdE)
    then have "y = n * (k - 1) + (n - 1)" by (simp add: algebra_simps)
    then have "y div n = k - 1" using that by (simp add: int_div_pos_eq [where r = "n - 1"])
    with k True that show ?thesis by simp
  next
    case False
    have "y mod n + 1 < n"
    proof -
      have "y mod n < n" using that by simp
      moreover have "y mod n + 1 \<noteq> n"
      proof
        assume "y mod n + 1 = n"
        then have "(y + 1) mod n = 0" by (metis mod_add_left_eq mod_self)
        with False show False by (simp add: dvd_eq_mod_eq_0)
      qed
      ultimately show ?thesis by simp
    qed
    moreover have "y + 1 = n * (y div n) + (y mod n + 1)" by simp
    ultimately have "(y + 1) div n = y div n"
      using that by (intro int_div_pos_eq [where r = "y mod n + 1"]) simp_all
    with False show ?thesis by simp
  qed
  have "400 dvd y + 1 \<Longrightarrow> 100 dvd y + 1" "100 dvd y + 1 \<Longrightarrow> 4 dvd y + 1"
    by (erule dvd_trans [rotated], simp)+
  then show ?thesis
    by (cases "4 dvd y + 1"; cases "100 dvd y + 1"; cases "400 dvd y + 1")
      (simp_all add: days_before_def d leap_year_def)
qed

text \<open>The formula for the year of a day of the 400-year era: centuries, then four-year cycles.\<close>

lemma era_split:
  fixes n :: int
  assumes "0 \<le> n" "n < 146097"
  obtains c q a b where "n = 36524 * c + 1461 * q + 365 * a + b" "0 \<le> c" "c \<le> 3" "0 \<le> q" "q \<le> 24"
    "0 \<le> a" "a \<le> 3" "0 \<le> b" "b \<le> 364 \<or> b = 365 \<and> a = 3" "b = 365 \<longrightarrow> q = 24 \<longrightarrow> c = 3"
proof (cases "n = 146096")
  case True
  then show ?thesis using that [of 3 24 3 365] by simp
next
  case False
  define c where "c = n div 36524"
  define r where "r = n mod 36524"
  define q where "q = r div 1461"
  define s where "s = r mod 1461"
  have n: "n = 36524 * c + r" "0 \<le> r" "r < 36524" by (simp_all add: c_def r_def)
  have r: "r = 1461 * q + s" "0 \<le> s" "s < 1461" by (simp_all add: q_def s_def)
  have c: "0 \<le> c" "c \<le> 3" and q: "0 \<le> q" "q \<le> 24" using n r assms False by linarith+
  show ?thesis
  proof (cases "s = 1460")
    case True
    then have "q \<noteq> 24" using n(3) r(1) by linarith
    then show ?thesis using that [of c q 3 365] n r c q True by simp
  next
    case False
    define a where "a = s div 365"
    define b where "b = s mod 365"
    have s: "s = 365 * a + b" "0 \<le> b" "b < 365" by (simp_all add: a_def b_def)
    have a: "0 \<le> a" "a \<le> 3" using s r False by linarith+
    have "n = 36524 * c + 1461 * q + 365 * a + b" using n r s by linarith
    then show ?thesis using that [of c q a b] c q s a by simp
  qed
qed

lemma year_of_era:
  assumes "0 \<le> n" "n < 146097"
  shows "\<exists>y k. (n - n div 1460 + n div 36524 - n div 146096) div 365 = y
     \<and> n = 365 * y + y div 4 - y div 100 + k \<and> 0 \<le> y \<and> y < 400 \<and> 0 \<le> k
     \<and> (k \<le> 364 \<or> k = 365 \<and> leap_year (y + 1))"
proof -
  obtain c q a b where n: "n = 36524 * c + 1461 * q + 365 * a + b" and c: "0 \<le> c" "c \<le> 3"
    and q: "0 \<le> q" "q \<le> 24" and a: "0 \<le> a" "a \<le> 3" and b: "0 \<le> b" "b \<le> 364 \<or> b = 365 \<and> a = 3"
    and last: "b = 365 \<longrightarrow> q = 24 \<longrightarrow> c = 3"
    using era_split [OF assms] by blast
  define y where "y = 100 * c + 4 * q + a"
  define t where "t = (if 1460 \<le> 24 * c + q + 365 * a + b then 1 else 0 :: int)"
  define u where "u = (if n = 146096 then 1 else 0 :: int)"
  have t: "0 \<le> 24 * c + q + 365 * a + b - 1460 * t" "24 * c + q + 365 * a + b - 1460 * t < 1460"
    "0 \<le> b - t" "b - t < 365"
  proof -
    have b': "b \<le> 365" "b = 365 \<Longrightarrow> a = 3" using b by auto
    show "0 \<le> 24 * c + q + 365 * a + b - 1460 * t" using c q a b by (simp add: t_def)
    show "24 * c + q + 365 * a + b - 1460 * t < 1460" using c q a b'(1) by (simp add: t_def)
    show "0 \<le> b - t" using c q a b by (simp add: t_def)
    show "b - t < 365" using c q a b' by (cases "b = 365") (simp_all add: t_def)
  qed
  have "1461 * q + 365 * a + b \<le> 36524 \<and> (n = 146096 \<longleftrightarrow> 1461 * q + 365 * a + b = 36524)"
  proof (cases "q = 24 \<and> a = 3 \<and> b = 365")
    case True
    with last n show ?thesis by simp
  next
    case False
    with b q a have "1461 * q + 365 * a + b < 36524" by auto
    with n c show ?thesis by simp
  qed
  then have u: "1461 * q + 365 * a + b - 36524 * u < 36524" "0 \<le> 1461 * q + 365 * a + b - 36524 * u"
    using q a b by (simp_all add: u_def)
  have "n div 1460 = 25 * c + q + t"
    by (rule int_div_pos_eq [where r = "24 * c + q + 365 * a + b - 1460 * t"]) (use n t in simp_all)
  moreover have "n div 36524 = c + u"
    by (rule int_div_pos_eq [where r = "1461 * q + 365 * a + b - 36524 * u"]) (use n u in simp_all)
  moreover have "n div 146096 = u"
    by (rule int_div_pos_eq [where r = "n - 146096 * u"]) (use assms in \<open>simp_all add: u_def\<close>)
  ultimately have "n - n div 1460 + n div 36524 - n div 146096 = 365 * y + (b - t)"
    using n by (simp add: y_def algebra_simps)
  then have fy: "(n - n div 1460 + n div 36524 - n div 146096) div 365 = y"
    by (intro int_div_pos_eq [where r = "b - t"]) (use t in simp_all)
  have f4: "y div 4 = 25 * c + q"
    by (rule int_div_pos_eq [where r = a]) (use a in \<open>auto simp: y_def\<close>)
  have f100: "y div 100 = c"
    by (rule int_div_pos_eq [where r = "4 * q + a"]) (use q a in \<open>auto simp: y_def\<close>)
  have lp: "leap_year (y + 1)" if b365: "b = 365"
  proof -
    have a3: "a = 3" using b b365 by simp
    then have e: "y + 1 = 4 * (25 * c + q + 1)" by (simp add: y_def)
    have q24: "q = 24" if h: "100 dvd y + 1"
    proof -
      from h obtain k where "4 * (25 * c + q + 1) = 100 * k" unfolding e by (elim dvdE)
      then have "q + 1 = 25 * (k - c)" by simp
      moreover define j where "j = k - c"
      ultimately have "q + 1 = 25 * j" by simp
      moreover from this q have "0 < j" "j < 2" by simp_all
      ultimately show ?thesis by simp
    qed
    have "y + 1 = 400" if h: "100 dvd y + 1"
      using q24 [OF h] last b365 a3 by (simp add: y_def)
    then have "100 dvd y + 1 \<longrightarrow> 400 dvd y + 1" by (metis dvd_refl)
    moreover have "4 dvd y + 1" by (simp only: e dvd_triv_left)
    ultimately show ?thesis by (simp add: leap_year_def)
  qed
  show ?thesis
  proof (intro exI conjI)
    show "(n - n div 1460 + n div 36524 - n div 146096) div 365 = y" by (rule fy)
    show "n = 365 * y + y div 4 - y div 100 + b" unfolding f4 f100 using n by (simp add: y_def)
    show "0 \<le> y" "y < 400" using c q a by (simp_all add: y_def)
    show "0 \<le> b" by (rule b(1))
    show "b \<le> 364 \<or> b = 365 \<and> leap_year (y + 1)" using b(2) lp by blast
  qed
qed

lemma tdiv_nonneg [simp]: "0 \<le> a \<Longrightarrow> tdiv a b = a div b"
  by (simp add: tdiv_def)

text \<open>A day from year 0 on is day \<open>k\<close> of a year \<open>y\<close>, and the code computes the date of that day.\<close>

lemma civil_is_date_of:
  assumes "- 719468 \<le> n"
  shows "\<exists>y k. n + 719468 = days_before y + k \<and> 0 \<le> y \<and> 0 \<le> k \<and> (k \<le> 364 \<or> k = 365 \<and> leap_year (y + 1))
     \<and> civil_from_days n = (case date_of y k of (a, b, c) \<Rightarrow> (wrap_i32 a, wrap_i32 b, wrap_i32 c))"
proof -
  define z where "z = n + 719468"
  define era where "era = z div 146097"
  define d where "d = z - era * 146097"
  have d: "d = z mod 146097" by (simp add: d_def era_def minus_div_mult_eq_mod)
  have nn: "0 \<le> z" "0 \<le> d" "d < 146097" "0 \<le> era"
    using assms by (simp_all add: z_def d era_def pos_imp_zdiv_nonneg_iff)
  obtain y k where y: "(d - d div 1460 + d div 36524 - d div 146096) div 365 = y"
    and dk: "d = 365 * y + y div 4 - y div 100 + k" and b: "0 \<le> y" "y < 400" "0 \<le> k"
    "k \<le> 364 \<or> k = 365 \<and> leap_year (y + 1)"
    using year_of_era [OF nn(2,3)] by blast
  have pos: "0 \<le> d - d div 1460 + d div 36524 - d div 146096"
  proof -
    have "1460 * (d div 1460) + d mod 1460 = d" "0 \<le> d mod 1460" "0 \<le> d div 1460"
      using nn by (simp_all add: pos_imp_zdiv_nonneg_iff)
    moreover have "d div 146096 \<le> d div 36524" using nn by (simp add: zdiv_mono2)
    ultimately show ?thesis by linarith
  qed
  have mm: "0 \<le> march_month k" "march_month k \<le> 12"
    using b by (auto simp: march_month_def pos_imp_zdiv_nonneg_iff)
  have "z = days_before (400 * era + y) + k"
    unfolding div_of_era [OF b(1,2)] using dk d_def by (simp add: algebra_simps)
  moreover have "leap_year (400 * era + y + 1) = leap_year (y + 1)"
  proof -
    have "4 dvd 400 * era + y + 1 \<longleftrightarrow> 4 dvd y + 1" "100 dvd 400 * era + y + 1 \<longleftrightarrow> 100 dvd y + 1"
      "400 dvd 400 * era + y + 1 \<longleftrightarrow> 400 dvd y + 1"
      by (simp_all add: add.assoc dvd_add_right_iff dvd_mult2)
    then show ?thesis by (simp add: leap_year_def)
  qed
  moreover have "civil_from_days n = (case date_of (400 * era + y) k of (a, b, c) \<Rightarrow> (wrap_i32 a, wrap_i32 b, wrap_i32 c))"
  proof -
    have k: "d - (365 * y + tdiv y 4 - tdiv y 100) = k" using dk b by simp
    have m: "tdiv (5 * k + 2) 153 = march_month k" using b by (simp add: march_month_def)
    have r: "k - tdiv (153 * march_month k + 2) 5 + 1 = march_day k" using mm by (simp add: march_day_def)
    have yy: "tdiv (d - tdiv d 1460 + tdiv d 36524 - tdiv d 146096) 365 = y" using y pos nn by simp
    have e: "(if 0 \<le> z then z else z - 146096) div 146097 = era" using nn by (simp add: era_def)
    show ?thesis
      unfolding civil_from_days_def Let_def z_def [symmetric] e d_def [symmetric] yy k m r date_of_def
      by (simp add: algebra_simps)
  qed
  ultimately show ?thesis using b nn z_def
    by (intro exI [of _ "400 * era + y"] exI [of _ k]) simp
qed

text \<open>One day on, inside a year and over its end.\<close>

definition date_step :: "int \<Rightarrow> bool" where
  "date_step k \<longleftrightarrow>
     (let m = march_month k; d = march_day k; m' = march_month (k + 1); d' = march_day (k + 1)
      in 1 \<le> d \<and> d' = (if d < (if m \<in> {1, 3, 6, 8} then 30 else 31) then d + 1 else 1)
         \<and> m' = (if d < (if m \<in> {1, 3, 6, 8} then 30 else 31) then m else m + 1) \<and> 0 \<le> m \<and> m' \<le> 11
         \<and> (m = 11 \<longrightarrow> d \<le> 28) \<and> (m = 11 \<and> d = 28 \<longleftrightarrow> k = 364))"

lemma date_steps: "\<forall>k\<in>set [0..364]. date_step k"
  by code_simp

lemma next_date_of:
  assumes "0 \<le> k" "k \<le> 364 \<or> k = 365 \<and> leap_year (y + 1)"
  shows "next_date (date_of y k) =
    (if k = (if leap_year (y + 1) then 365 else 364) then date_of (y + 1) 0 else date_of y (k + 1))"
proof (cases "k = 365")
  case True
  moreover have "march_month 365 = 11" "march_day 365 = 29" "march_month 0 = 0" "march_day 0 = 1"
    by code_simp+
  ultimately show ?thesis using assms by (simp add: date_of_def next_date_def month_days_def)
next
  case False
  with assms have "k \<in> set [0..364]" by simp
  with date_steps have "date_step k" by blast
  then obtain m d where m: "m = march_month k" "d = march_day k" "1 \<le> d" "0 \<le> m" "m = 11 \<longrightarrow> d \<le> 28"
      "m = 11 \<and> d = 28 \<longleftrightarrow> k = 364" and m': "march_month (k + 1) \<le> 11"
    and nx: "march_day (k + 1) = (if d < (if m \<in> {1, 3, 6, 8} then 30 else 31) then d + 1 else 1)"
      "march_month (k + 1) = (if d < (if m \<in> {1, 3, 6, 8} then 30 else 31) then m else m + 1)"
    unfolding date_step_def Let_def by blast
  have z: "march_month 0 = 0" "march_day 0 = 1" by code_simp+
  have m11: "m \<le> 11" using nx(2) m' by (auto split: if_splits)
  show ?thesis
  proof (cases "m = 11")
    case True
    then show ?thesis
      using m nx False z by (auto simp: date_of_def next_date_def month_days_def)
  next
    case f: False
    then have "k \<noteq> 364" using m(6) by blast
    then have rhs: "(if k = (if leap_year (y + 1) then 365 else 364) then date_of (y + 1) 0
        else date_of y (k + 1)) = date_of y (k + 1)" using False by simp
    consider "m \<le> 8" | "m = 9" | "m = 10" using m11 f by linarith
    then show ?thesis
    proof cases
      case 1
      have "month_days y (m + 3) = (if m \<in> {1, 3, 6, 8} then 30 else 31)"
        using m(4) by (simp add: month_days_def)
      moreover have "date_of y k = (y, m + 3, d)" using 1 m(4) by (simp add: date_of_def m(1,2) [symmetric])
      moreover have "date_of y (k + 1) = (if d < (if m \<in> {1, 3, 6, 8} then 30 else 31)
          then (y, m + 3, d + 1) else (y, m + 4, 1))"
        using 1 m(4) unfolding date_of_def nx Let_def by simp
      ultimately show ?thesis using 1 unfolding rhs by (simp add: next_date_def)
    qed (use m(1,2) nx in \<open>simp_all only: rhs, simp_all add: date_of_def next_date_def month_days_def\<close>)
  qed
qed

lemma days_before_mono: "y \<le> z \<Longrightarrow> days_before y \<le> days_before z"
proof (induction z rule: int_ge_induct)
  case (step z)
  then show ?case using days_before_step [of z] by (simp split: if_splits)
qed simp

definition day_of_year :: "int \<Rightarrow> int \<Rightarrow> bool" where
  "day_of_year y k \<longleftrightarrow> 0 \<le> k \<and> (k \<le> 364 \<or> k = 365 \<and> leap_year (y + 1))"

lemma day_of_year_before: "day_of_year y k \<Longrightarrow> days_before y + k < days_before (y + 1)"
  using days_before_step [of y] by (auto simp: day_of_year_def)

lemma day_of_year_unique:
  assumes "days_before y + k = days_before z + j" "day_of_year y k" "day_of_year z j"
  shows "y = z \<and> k = j"
proof -
  have no: "\<not> a < b" if "days_before a + i = days_before b + l" "day_of_year a i" "0 \<le> l" for a b i l
    using day_of_year_before [OF that(2)] days_before_mono [of "a + 1" b] that(1,3) by auto
  have "\<not> y < z" "\<not> z < y"
    using no [OF assms(1,2)] no [OF assms(1) [symmetric] assms(3)] assms by (simp_all add: day_of_year_def)
  then show ?thesis using assms(1) by simp
qed

lemma date_in_range:
  assumes "0 \<le> y" "y \<le> 2147483000" "day_of_year y k" "date_of y k = (a, b, c)"
  shows "(wrap_i32 a, wrap_i32 b, wrap_i32 c) = (a, b, c)"
proof -
  have k: "0 \<le> k" "k \<le> 365" using assms(3) by (auto simp: day_of_year_def)
  then have m: "0 \<le> march_month k" "march_month k \<le> 12"
    by (simp_all add: march_month_def pos_imp_zdiv_nonneg_iff)
  then have "0 \<le> (153 * march_month k + 2) div 5" "(153 * march_month k + 2) div 5 \<le> 400"
    by (simp_all add: pos_imp_zdiv_nonneg_iff)
  then have d: "- 400 \<le> march_day k" "march_day k \<le> 400" using k by (simp_all add: march_day_def)
  have "in_i32 a" "in_i32 b" "in_i32 c"
    using assms(1,2,4) m d by (auto simp: date_of_def Let_def in_i32_def split: if_splits)
  then show ?thesis by (simp add: wrap_i32_id)
qed

lemma small_year: "x \<le> 2147483000" if "days_before x + i \<le> 780000719469" "0 \<le> x" "0 \<le> i"
proof -
  have "x div 100 \<le> x div 4" "0 \<le> x div 400"
    using that(2) by (simp_all add: zdiv_mono2 pos_imp_zdiv_nonneg_iff)
  then show ?thesis using that by (simp add: days_before_def)
qed

lemma civil_next:
  assumes n: "- 719468 \<le> n" "n \<le> 780000000000"
  shows "civil_from_days (n + 1) = next_date (civil_from_days n)"
proof -
  obtain y k where y: "n + 719468 = days_before y + k" "0 \<le> y" "day_of_year y k"
    and c: "civil_from_days n = (case date_of y k of (a, b, c) \<Rightarrow> (wrap_i32 a, wrap_i32 b, wrap_i32 c))"
    using civil_is_date_of [OF n(1)] unfolding day_of_year_def by blast
  have "- 719468 \<le> n + 1" using n(1) by simp
  from civil_is_date_of [OF this]
  obtain z j where z: "n + 1 + 719468 = days_before z + j" "0 \<le> z" "day_of_year z j"
    and c': "civil_from_days (n + 1) = (case date_of z j of (a, b, c) \<Rightarrow> (wrap_i32 a, wrap_i32 b, wrap_i32 c))"
    unfolding day_of_year_def by blast
  have plain: "civil_from_days n = date_of y k" "civil_from_days (n + 1) = date_of z j"
    using c c' date_in_range [OF y(2) _ y(3)] date_in_range [OF z(2) _ z(3)]
      small_year [of y k] small_year [of z j] y z n(2) by (auto simp: day_of_year_def split: prod.splits)
  have "date_of z j = next_date (date_of y k)"
  proof (cases "k = (if leap_year (y + 1) then 365 else 364)")
    case True
    then have "days_before (y + 1) + 0 = days_before z + j"
      using y(1) z(1) days_before_step [of y] by (simp split: if_splits)
    from day_of_year_unique [OF this _ z(3)] have "z = y + 1" "j = 0" by (simp_all add: day_of_year_def)
    then show ?thesis using True next_date_of [of k y] y(3) by (simp add: day_of_year_def)
  next
    case False
    then have "day_of_year y (k + 1)" using y(3) by (auto simp: day_of_year_def split: if_splits)
    moreover have "days_before y + (k + 1) = days_before z + j" using y(1) z(1) by simp
    ultimately have "z = y" "j = k + 1" using day_of_year_unique z(3) by blast+
    then show ?thesis using False next_date_of [of k y] y(3) by (simp add: day_of_year_def)
  qed
  with plain show ?thesis by simp
qed

text \<open>The number of a clock holds the fields of its date and its time, two decimal digits each after the year.\<close>

lemma two_digits: "n = q * 100 + s \<Longrightarrow> 0 \<le> s \<Longrightarrow> s < 100 \<Longrightarrow> n div 100 = (q :: int) \<and> n mod 100 = s"
  by simp

lemma quotient_bounds:
  assumes "0 \<le> x" "x < b * c" "0 < (b :: int)"
  shows "0 \<le> x div b \<and> x div b < c"
proof -
  have "b * (x div b) + x mod b = x" "0 \<le> x mod b" using assms(3) by simp_all
  moreover have "c \<le> x div b \<Longrightarrow> b * c \<le> b * (x div b)" using assms(3) by simp
  ultimately have "x div b < c" using assms(2) by linarith
  with assms(1,3) show ?thesis by (simp add: pos_imp_zdiv_nonneg_iff)
qed

lemma date_fields: "\<forall>k\<in>set [0..365]. 1 \<le> march_day k \<and> march_day k \<le> 31 \<and> 0 \<le> march_month k \<and> march_month k \<le> 11"
  by code_simp

lemma civil_fields:
  assumes n: "- 719468 \<le> n" "n \<le> 330000000000" and c: "civil_from_days n = (y, m, d)"
  shows "0 \<le> y \<and> y \<le> 910000000 \<and> 1 \<le> m \<and> m \<le> 12 \<and> 1 \<le> d \<and> d \<le> 31"
proof -
  obtain x k where x: "n + 719468 = days_before x + k" "0 \<le> x" "day_of_year x k"
    and e: "civil_from_days n = (case date_of x k of (a, b, c) \<Rightarrow> (wrap_i32 a, wrap_i32 b, wrap_i32 c))"
    using civil_is_date_of [OF n(1)] unfolding day_of_year_def by blast
  have k: "0 \<le> k" "k \<le> 365" using x(3) by (auto simp: day_of_year_def)
  have "x div 100 \<le> x div 4" "0 \<le> x div 400"
    using x(2) by (simp_all add: zdiv_mono2 pos_imp_zdiv_nonneg_iff)
  then have big: "x \<le> 905000000" using x k n(2) by (simp add: days_before_def)
  obtain a b c where f: "date_of x k = (a, b, c)" by (cases "date_of x k")
  then have "date_of x k = (y, m, d)" using e c date_in_range [OF x(2) _ x(3) f] big by simp
  moreover have "k \<in> set [0..365]" using k by simp
  ultimately show ?thesis using date_fields x(2) big by (auto simp: date_of_def Let_def split: if_splits)
qed

lemma datetime_reads:
  assumes t: "t = unix_seconds clock + utc_offset_minutes clock * 60" and n: "- 719468 \<le> t div 86400" "t div 86400 \<le> 330000000000"
    and number: "number = device_datetime_number clock"
  shows "(number div 10000000000, number div 100000000 mod 100, number div 1000000 mod 100) = civil_from_days (t div 86400)
    \<and> number div 10000 mod 100 = t mod 86400 div 3600 \<and> number div 100 mod 100 = t mod 86400 mod 3600 div 60
    \<and> number mod 100 = t mod 86400 mod 60"
proof -
  obtain y m d where c: "civil_from_days (t div 86400) = (y, m, d)" by (cases "civil_from_days (t div 86400)")
  note f = civil_fields [OF n c]
  let ?s = "t mod 86400"
  define h i j where "h = ?s div 3600" and "i = ?s mod 3600 div 60" and "j = ?s mod 60"
  have s: "0 \<le> ?s" "?s < 86400" by simp_all
  have h: "0 \<le> h" "h < 24" unfolding h_def using quotient_bounds [of ?s 3600 24] s by simp_all
  have "0 \<le> ?s mod 3600" "?s mod 3600 < 3600" by simp_all
  then have i: "0 \<le> i" "i < 60" unfolding i_def using quotient_bounds [of "?s mod 3600" 60 60] by simp_all
  have j: "0 \<le> j" "j < 60" unfolding j_def by simp_all
  have "t = t div 86400 * 86400 + ?s" by simp
  with n s have "- 719468 * 86400 \<le> t" "t \<le> 330000000000 * 86400 + 86400" by linarith+
  then have "in_i64 t" by (simp add: in_i64_def)
  then have local: "wrap_i64 t = t" by (rule wrap_i64_id)
  let ?v = "y * 10000000000 + m * 100000000 + d * 1000000 + h * 10000 + i * 100 + j"
  have "in_i64 ?v" using f h i j by (simp add: in_i64_def)
  then have "number = ?v"
    by (simp add: number device_datetime_number_def t [symmetric] local c Let_def h_def i_def j_def wrap_i64_id)
  then have v: "number = ((((y * 100 + m) * 100 + d) * 100 + h) * 100 + i) * 100 + j" by simp
  have small: "d < 100" "m < 100" "h < 100" "i < 100" "j < 100" "0 \<le> d" "0 \<le> m" using f h i j by simp_all
  note n1 = two_digits [OF v j(1) small(5)]
  note n2 = two_digits [OF n1 [THEN conjunct1] i(1) small(4)]
  note n3 = two_digits [OF n2 [THEN conjunct1] h(1) small(3)]
  note n4 = two_digits [OF n3 [THEN conjunct1] small(6,1)]
  note n5 = two_digits [OF n4 [THEN conjunct1] small(7,2)]
  have "number div 10000 = number div 100 div 100" "number div 1000000 = number div 100 div 100 div 100"
    "number div 100000000 = number div 100 div 100 div 100 div 100"
    "number div 10000000000 = number div 100 div 100 div 100 div 100 div 100"
    by (simp_all add: zdiv_zmult2_eq [symmetric])
  with n1 n2 n3 n4 n5 show ?thesis
    unfolding c h_def [symmetric] i_def [symmetric] j_def [symmetric] by (simp only: simp_thms)
qed

text \<open>C39: the date code is right from year 0 on. Day 0 is the first of January 1970; each day from the first of March of
  year 0 (up to the years an \<open>i32\<close> holds) has the date after the one of the day before in the Gregorian calendar;
  and the number of a device clock whose local day is in that range (up to the years its 19 digits hold) reads, in
  decimal, as that date and the local time of day.\<close>

theorem civil_date_is_gregorian:
  assumes "- 719468 \<le> n" "n \<le> 780000000000"
    and "t = unix_seconds clock + utc_offset_minutes clock * 60" "- 719468 \<le> t div 86400" "t div 86400 \<le> 330000000000"
    and "number = device_datetime_number clock"
  shows "civil_from_days 0 = (1970, 1, 1) \<and> civil_from_days (n + 1) = next_date (civil_from_days n)
    \<and> (number div 10000000000, number div 100000000 mod 100, number div 1000000 mod 100) = civil_from_days (t div 86400)
    \<and> number div 10000 mod 100 = t mod 86400 div 3600 \<and> number div 100 mod 100 = t mod 86400 mod 3600 div 60
    \<and> number mod 100 = t mod 86400 mod 60"
proof (intro conjI)
  show "civil_from_days 0 = (1970, 1, 1)" by code_simp
  show "civil_from_days (n + 1) = next_date (civil_from_days n)" by (rule civil_next [OF assms(1,2)])
qed (use datetime_reads [OF assms(3-6)] in simp_all)

theorem civil_date_is_gregorian_witness:
  "civil_from_days 19782 = (2024, 2, 29) \<and> civil_from_days (19782 + 1) = next_date (civil_from_days 19782)
   \<and> device_datetime_number \<lparr>unix_seconds = 1709164800 + 3661, utc_offset_minutes = 0\<rparr> div 1000000 mod 100 = 29"
proof -
  let ?clock = "\<lparr>unix_seconds = 1709164800 + 3661, utc_offset_minutes = 0\<rparr>"
  have c: "civil_from_days 19782 = (2024, 2, 29)" by code_simp
  from civil_date_is_gregorian [of 19782 1709168461 ?clock "device_datetime_number ?clock"] c show ?thesis by simp
qed

text \<open>
  Before year 0 the era is rounded down twice: \<open>z - 146096\<close> is the correction for a division that
  rounds towards zero, and \<open>div_euclid\<close> rounds down already. Two days there have the same date.
\<close>

lemma civil_before_year_zero:
  "civil_from_days (- 719470) = (0, 2, 29) \<and> civil_from_days (- 719469) = (0, 2, 29)"
  by (intro conjI) code_simp+

text \<open>The revision of the master tables stays the same all day and changes at local midnight.\<close>

lemma master_update_time_day:
  assumes "\<bar>unix_seconds c\<bar> < 2 ^ 60" "\<bar>unix_seconds d\<bar> < 2 ^ 60" "\<bar>utc_offset_minutes c\<bar> \<le> 840"
    and "utc_offset_minutes d = utc_offset_minutes c" "\<bar>r\<bar> < 2 ^ 60"
  shows "master_update_time c r = master_update_time d r \<longleftrightarrow> local_epoch_day c = local_epoch_day d"
proof -
  have e: "master_update_time x r = (unix_seconds x + utc_offset_minutes x * 60) div 86400 * 86400
        - utc_offset_minutes x * 60 + 11 + r"
      "local_epoch_day x = (unix_seconds x + utc_offset_minutes x * 60) div 86400"
    if "\<bar>unix_seconds x\<bar> < 2 ^ 60" "\<bar>utc_offset_minutes x\<bar> \<le> 840" for x
  proof -
    define s where "s = unix_seconds x + utc_offset_minutes x * 60"
    have s: "\<bar>s\<bar> < 2 ^ 60 + 60000" using that by (simp add: s_def)
    moreover have "s = 86400 * (s div 86400) + s mod 86400" "0 \<le> s mod 86400" "s mod 86400 < 86400" by simp_all
    ultimately have p: "\<bar>s div 86400 * 86400\<bar> < 2 ^ 60 + 200000" by linarith
    have fits: "wrap_i64 v = v" "sat_i64 v = v" if "\<bar>v\<bar> < 2 ^ 62" for v
      using that by (simp_all add: wrap_i64_id sat_i64_id in_i64_def abs_less_iff)
    have w: "wrap_i64 s = s" by (rule fits) (use s in simp)
    then show "local_epoch_day x = (unix_seconds x + utc_offset_minutes x * 60) div 86400"
      by (simp add: local_epoch_day_def s_def)
    then have "local_epoch_day x = s div 86400" by (simp add: s_def)
    moreover define q where "q = s div 86400 * 86400"
    moreover have "sat_i64 q = q" "wrap_i64 (q - utc_offset_minutes x * 60) = q - utc_offset_minutes x * 60"
      "sat_i64 (q - utc_offset_minutes x * 60 + 11) = q - utc_offset_minutes x * 60 + 11"
      "sat_i64 (q - utc_offset_minutes x * 60 + 11 + r) = q - utc_offset_minutes x * 60 + 11 + r"
      by (rule fits; use p that(2) assms(5) in \<open>simp add: q_def\<close>)+
    ultimately show "master_update_time x r = (unix_seconds x + utc_offset_minutes x * 60) div 86400 * 86400
        - utc_offset_minutes x * 60 + 11 + r"
      by (simp add: master_update_time_def master_overlay_generation_def Let_def s_def [symmetric])
  qed
  show ?thesis using e [of c] e [of d] assms by auto
qed

end
