(* ===== verification/Prices.thy ===== *)
theory Prices
  imports Master Policy Snapshot
begin

text \<open>
  What the memorial policy makes of the master data (\<open>crates/transport-http/src/gameplay.rs\<close>,
  \<open>lib.rs\<close>): the prices \<open>buyContents\<close> charges, the tables \<open>getGameDataList\<close> publishes, and the
  rows of the variety store. Both sides of a price come from the same functions; below they are
  shown to agree.
\<close>

section \<open>Errors\<close>

text \<open>\<open>Panic\<close> stands for an \<open>expect\<close> that fails.\<close>

datatype gameplay_error = Protocol envelope_error | Store store_error | Invalid string | Panic string

definition protocol :: "envelope_error + 'a \<Rightarrow> gameplay_error + 'a" where
  "protocol r = (case r of Inl e \<Rightarrow> Inl (Protocol e) | Inr x \<Rightarrow> Inr x)"

definition expect_some :: "'e \<Rightarrow> 'a option \<Rightarrow> 'e + 'a" where
  "expect_some e x = (case x of None \<Rightarrow> Inl e | Some v \<Rightarrow> Inr v)"

fun sum_collect :: "('a \<Rightarrow> 'e + 'b) \<Rightarrow> 'a list \<Rightarrow> 'e + 'b list" where
  "sum_collect f [] = Inr []"
| "sum_collect f (x # xs) = sum_bind (f x) (\<lambda>y. sum_bind (sum_collect f xs) (\<lambda>ys. Inr (y # ys)))"

definition or_else :: "'a \<Rightarrow> 'a option \<Rightarrow> 'a" where
  "or_else d x = (case x of None \<Rightarrow> d | Some v \<Rightarrow> v)"

fun position :: "('a \<Rightarrow> bool) \<Rightarrow> 'a list \<Rightarrow> nat option" where
  "position p [] = None"
| "position p (x # xs) = (if p x then Some 0 else map_option Suc (position p xs))"

definition starts_with :: "string \<Rightarrow> string \<Rightarrow> bool" where
  "starts_with p s \<longleftrightarrow> take (length p) s = p"

section \<open>Cells\<close>

definition master_i64 :: "master_row \<Rightarrow> string \<Rightarrow> int option" where
  "master_i64 row field = Option.bind (tbl_get row field) (\<lambda>v. case v of
       MInteger i \<Rightarrow> Some i | MReal x \<Rightarrow> Some (as_i64 x) | MText t \<Rightarrow> parse_i64 t | _ \<Rightarrow> None)"

definition master_f64_value :: "master_scalar \<Rightarrow> f64 option" where
  "master_f64_value v = (case v of
       MInteger i \<Rightarrow> Some (f64_of_int i) | MReal x \<Rightarrow> Some x | MText t \<Rightarrow> parse_f64 t | _ \<Rightarrow> None)"

definition master_string_value :: "master_scalar \<Rightarrow> string option" where
  "master_string_value v = (case v of MText t \<Rightarrow> Some t | _ \<Rightarrow> None)"

definition scalar_like :: "master_scalar \<Rightarrow> f64 \<Rightarrow> master_scalar" where
  "scalar_like source value = (case source of
       MInteger _ \<Rightarrow> MInteger (as_i64 (fceil value))
     | MText _ \<Rightarrow> MText (show_f64 (fceil value))
     | MReal _ \<Rightarrow> MReal value
     | _ \<Rightarrow> source)"

text \<open>\<open>==\<close> of the derived \<open>PartialEq\<close>: a NaN is not equal to itself.\<close>

definition scalar_eq :: "master_scalar option \<Rightarrow> master_scalar option \<Rightarrow> bool" where
  "scalar_eq a b = (case (a, b) of (Some (MReal x), Some (MReal y)) \<Rightarrow> flt_eq x y | _ \<Rightarrow> a = b)"

definition find_row :: "master_catalog \<Rightarrow> string \<Rightarrow> int \<Rightarrow> master_row option" where
  "find_row cat table i =
     Option.bind (tbl_get (mc_game_data cat) table) (find (\<lambda>r. master_i64 r ''id'' = Some i))"

definition row_number :: "master_row \<Rightarrow> string \<Rightarrow> f64" where
  "row_number r field = or_else fzero (Option.bind (tbl_get r field) master_f64_value)"

definition goods_type :: "string \<Rightarrow> master_row \<Rightarrow> string" where
  "goods_type d r = or_else d (Option.bind (tbl_get r ''goodstype'') master_string_value)"

definition single_digit_upgrade_row :: "memorial_policy \<Rightarrow> string \<Rightarrow> master_row \<Rightarrow> bool" where
  "single_digit_upgrade_row p table row =
     uses_single_digit_cost p (goods_type (if table = ''Proplevel'' then ''Candy'' else ''GP'') row)"

section \<open>Upgrade prices\<close>

definition final_upgrade_price :: "int \<Rightarrow> master_row \<Rightarrow> f64" where
  "final_upgrade_price offset r =
     (let steps = max (wrap_i64 (or_else 1 (master_i64 r ''maxlevel'') - offset)) 0
      in ftrunc (fadd32 (to_f32 (row_number r ''cost''))
           (fmul32 (f32_of_int steps) (to_f32 (row_number r ''costincreasevalue'')))))"

definition premium_increment :: "master_catalog \<Rightarrow> string \<Rightarrow> int \<Rightarrow> f64" where
  "premium_increment cat table i =
     (case tbl_get (mc_game_data cat) table of
        None \<Rightarrow> fzero
      | Some rows \<Rightarrow>
          (case find (\<lambda>r. master_i64 r ''id'' = Some i) rows of
             None \<Rightarrow> fzero
           | Some row \<Rightarrow>
               if \<not> single_digit_upgrade_row embedded_policy table row then fzero
               else let offset = (if table = ''Skill'' then 2 else 1);
                        prices = map (final_upgrade_price offset) (filter (\<lambda>r.
                           flt_less fzero (row_number r ''cost'')
                           \<and> or_else 1 (master_i64 r ''area'') = or_else 1 (master_i64 row ''area'')
                           \<and> to_lower (goods_type [] r) = to_lower (goods_type [] row)) rows);
                        cap = premium_upgrade_cap (upgrade_costs embedded_policy)
                                (final_upgrade_price offset row) (foldl fmin PInf prices) (foldl fmax NInf prices)
                    in premium_upgrade_increment (or_else 1 (master_i64 row ''maxlevel''))
                         (row_number row ''cost'') offset cap))"

text \<open>The furniture price table: the highest level and cost of each prop; a row without one of its
  columns makes the whole table useless.\<close>

definition prop_limit :: "master_row \<Rightarrow> (int, int \<times> f64) table \<Rightarrow> (int, int \<times> f64) table option" where
  "prop_limit row limits =
     (case (master_i64 row ''propid'', master_i64 row ''level'',
            Option.bind (tbl_get row ''cost'') master_f64_value) of
        (Some prop, Some level, Some cost) \<Rightarrow>
          let (l, c) = or_else (0, fzero) (tbl_get limits prop)
          in Some (tbl_put prop (max l level, fmax c cost) limits)
      | _ \<Rightarrow> None)"

definition prop_limits :: "master_row list \<Rightarrow> (int, int \<times> f64) table option" where
  "prop_limits rows = fold (\<lambda>row acc. Option.bind acc (prop_limit row)) rows (Some [])"

definition prop_price_curve :: "master_catalog \<Rightarrow> int \<Rightarrow> (int \<times> f64) option" where
  "prop_price_curve cat i =
     Option.bind (tbl_get (mc_game_data cat) ''Proplevel'') (\<lambda>rows.
     Option.bind (prop_limits rows) (\<lambda>limits.
     Option.bind (tbl_get limits i) (\<lambda>(maxlevel, final_price).
       let costs = map (snd \<circ> snd) limits;
           cap = premium_upgrade_cap (upgrade_costs embedded_policy) final_price
                   (foldl fmin PInf (filter (flt_less fzero) costs)) (foldl fmax fzero costs)
       in Some (maxlevel, premium_upgrade_increment maxlevel final_price 1 cap))))"

fun total_insert :: "f64 \<Rightarrow> f64 list \<Rightarrow> f64 list" where
  "total_insert x [] = [x]"
| "total_insert x (y # ys) = (if total_less x y then x # y # ys else y # total_insert x ys)"

text \<open>\<open>sort_by(total_cmp)\<close>, then \<open>dedup\<close>.\<close>

definition distinct_prices :: "f64 list \<Rightarrow> f64 list" where
  "distinct_prices xs = remdups_adj (fold total_insert xs [])"

definition mapped_upgrade_cost ::
  "master_catalog \<Rightarrow> string \<Rightarrow> master_row \<Rightarrow> master_scalar \<Rightarrow> master_scalar" where
  "mapped_upgrade_cost cat table row source =
     (case master_f64_value source of
        None \<Rightarrow> source
      | Some official \<Rightarrow>
          if flt_le official fzero then source
          else if \<not> single_digit_upgrade_row embedded_policy table row
               then scalar_like source (fmul official (progression_multiplier embedded_policy))
          else if table \<in> {''Skill'', ''Unit''} then scalar_like source (Fin 1)
          else if table = ''Proplevel'' then
            (case Option.bind (master_i64 row ''propid'') (prop_price_curve cat) of
               Some (_, increment) \<Rightarrow>
                 let level = or_else 1 (master_i64 row ''level'')
                 in scalar_like source (ftrunc (fadd32 (Fin 1)
                      (fmul32 (to_f32 increment) (f32_of_int (max (wrap_i64 (level - 1)) 0)))))
             | None \<Rightarrow> source)
          else (case tbl_get (mc_game_data cat) table of
                  None \<Rightarrow> source
                | Some rows \<Rightarrow>
                    let prices = distinct_prices (filter (flt_less fzero) (List.map_filter
                          (\<lambda>r. Option.bind (tbl_get r ''cost'') master_f64_value)
                          (filter (\<lambda>r. scalar_eq (tbl_get r ''goodstype'') (tbl_get row ''goodstype'')) rows)))
                    in (case position (\<lambda>x. x = official) prices of
                          None \<Rightarrow> source
                        | Some rank \<Rightarrow>
                            scalar_like source (f64_of_int (memorial_upgrade_cost rank (length prices))))))"

section \<open>Purchases\<close>

record purchase_spec =
  cps_kind :: content_kind
  cps_area :: int
  cps_content_id :: int
  cps_currency :: currency_kind
  cps_price :: f64
  cps_price_increment :: f64
  cps_max_level :: int

definition scaled_text :: "string \<Rightarrow> string option" where
  "scaled_text s = map_option utf8_encode (scaled_requirement_text (u_chars s))"

definition cosmetic_price_text :: "string \<Rightarrow> string \<Rightarrow> string" where
  "cosmetic_price_text currency official =
     (if official = ''0'' then ''0''
      else if eq_ignore_case currency ''GP'' \<or> eq_ignore_case currency ''GP2''
           then or_else official (scaled_text official)
      else show_int (cosmetic_price embedded_policy))"

definition currency_for_goods :: "string \<Rightarrow> int \<Rightarrow> gameplay_error + currency_kind" where
  "currency_for_goods goods area =
     (let g = to_lower goods
      in if g = ''cp'' then Inr Chocolate
         else if g = ''candy'' then Inr Candy
         else if g = ''gp'' then Inr (if area = 2 then Ch2Like else Ch1Like)
         else if g = ''gp2'' then Inr Ch2Note
         else Inl (Invalid (''goods type '' @ g @ '' is not directly purchasable'')))"

definition mapped_content_upgrade_price :: "master_catalog \<Rightarrow> string \<Rightarrow> int \<Rightarrow> gameplay_error + f64" where
  "mapped_content_upgrade_price cat table i =
     sum_bind (expect_some (Invalid (''missing '' @ table @ '' master row '' @ show_int i))
                 (find_row cat table i)) (\<lambda>row.
     sum_bind (expect_some (Invalid (table @ '' row '' @ show_int i @ '' has no cost''))
                 (tbl_get row ''cost'')) (\<lambda>official.
     expect_some (Invalid (table @ '' row '' @ show_int i @ '' has a non-numeric cost''))
       (master_f64_value (mapped_upgrade_cost cat table row official))))"

definition cosmetic_spec ::
  "string \<Rightarrow> content_kind \<Rightarrow> int \<Rightarrow> int \<Rightarrow> string \<Rightarrow> string \<Rightarrow> gameplay_error + purchase_spec" where
  "cosmetic_spec name kind i area currency official =
     sum_bind (currency_for_goods currency area) (\<lambda>cur.
     sum_bind (expect_some (Invalid (''invalid '' @ name @ '' price''))
                 (parse_f64 (cosmetic_price_text currency official))) (\<lambda>price.
     Inr \<lparr>cps_kind = kind, cps_area = area, cps_content_id = i, cps_currency = cur,
          cps_price = price, cps_price_increment = fzero, cps_max_level = 1\<rparr>))"

definition upgrade_spec ::
  "master_catalog \<Rightarrow> string \<Rightarrow> content_kind \<Rightarrow> int \<Rightarrow> int \<Rightarrow> string \<Rightarrow> f64 \<Rightarrow> int
   \<Rightarrow> gameplay_error + purchase_spec" where
  "upgrade_spec cat table kind i area currency increment max_level =
     sum_bind (currency_for_goods currency area) (\<lambda>cur.
     sum_bind (mapped_content_upgrade_price cat table i) (\<lambda>price.
     Inr \<lparr>cps_kind = kind, cps_area = area, cps_content_id = i, cps_currency = cur,
          cps_price = price, cps_price_increment = increment, cps_max_level = max_level\<rparr>))"

definition content_purchase_spec ::
  "master_catalog \<Rightarrow> string \<Rightarrow> int \<Rightarrow> gameplay_error + purchase_spec" where
  "content_purchase_spec cat requested_kind i =
     (let kind = filter (\<lambda>c. c \<noteq> CHR ''_'') (to_lower requested_kind)
      in if kind \<in> {''costume'', ''usercostume'', ''3''} then
           sum_bind (expect_some (Invalid (''costume '' @ show_int i @ '' retains its non-shop acquisition source''))
               (find (\<lambda>r. mcos_id r = i \<and> mcos_active r \<and> mcos_acquisition_type r = 0) (mc_costumes cat)))
             (\<lambda>r. cosmetic_spec ''costume'' Costume i (mcos_area r) (mcos_currency r) (mcos_official_cost r))
         else if kind \<in> {''guitar'', ''userguitar'', ''4''} then
           sum_bind (expect_some (Invalid (''guitar '' @ show_int i @ '' retains its non-shop acquisition source''))
               (find (\<lambda>r. mgui_id r = i \<and> mgui_active r \<and> mgui_acquisition_type r = 0) (mc_guitars cat)))
             (\<lambda>r. cosmetic_spec ''guitar'' Guitar i (mgui_area r) (mgui_currency r) (mgui_official_cost r))
         else if kind \<in> {''skill'', ''userskill'', ''1''} then
           sum_bind (expect_some (Invalid (''unknown skill '' @ show_int i))
               (find (\<lambda>r. mski_id r = i) (mc_skills cat)))
             (\<lambda>r. upgrade_spec cat ''Skill'' Skill i (mski_area r) (mski_currency r)
                    (premium_increment cat ''Skill'' i) (max (mski_max_level r) 1))
         else if kind \<in> {''unit'', ''userunit'', ''mate'', ''2''} then
           sum_bind (expect_some (Invalid (''unknown unit '' @ show_int i))
               (find (\<lambda>r. muni_id r = i) (mc_units cat)))
             (\<lambda>r. upgrade_spec cat ''Unit'' Unit i (muni_area r) (muni_currency r)
                    (premium_increment cat ''Unit'' i) (max (muni_max_level r) 1))
         else if kind = ''follower'' then
           sum_bind (expect_some (Invalid (''unknown follower '' @ show_int i)) (find_row cat ''Follower'' i)) (\<lambda>r.
           sum_bind (expect_some (Invalid (''follower '' @ show_int i @ '' has no purchase currency''))
               (Option.bind (tbl_get r ''goodstype'') master_string_value)) (\<lambda>currency.
             upgrade_spec cat ''Follower'' Follower i (clamp_int 1 i32_max (or_else 1 (master_i64 r ''area'')))
               currency fzero (max (or_else 1 (master_i64 r ''maxlevel'')) 1)))
         else Inl (Invalid (''unsupported buyContents type '' @ requested_kind)))"

section \<open>Published tables\<close>

record pass_overlay =
  po_active_season :: int
  po_local_month :: int

definition costume_bonus :: "master_catalog \<Rightarrow> master_costume \<Rightarrow> f64" where
  "costume_bonus cat row =
     (let same = filter (\<lambda>c. mcos_area c = mcos_area row) (mc_costumes cat);
          is_default = (same \<noteq> [] \<and> Min (set (map mcos_id same)) = mcos_id row)
      in costume_fan_bonus (mcos_area row) is_default (mcos_fan_multiplier row)
           (foldl fmax fzero (map mcos_fan_multiplier same)))"

definition memorial_skill_cooldown :: "memorial_policy \<Rightarrow> int \<Rightarrow> f64 \<Rightarrow> f64" where
  "memorial_skill_cooldown p skill_id official =
     (if skill_id \<in> {4, 24} then f64_of_int (policy_skill_reset_seconds p)
      else fmul official (skill_cooldown_multiplier p))"

definition transform_subscribe_value ::
  "string \<Rightarrow> int \<Rightarrow> master_scalar \<Rightarrow> pass_overlay \<Rightarrow> master_scalar option" where
  "transform_subscribe_value field i source overlay =
     (if field = ''isactive'' \<and> 1 \<le> i \<and> i \<le> 13
      then Some (scalar_like source (if i = po_active_season overlay then Fin 1 else fzero))
      else if field = ''repeatmonth'' \<and> i = po_active_season overlay
      then Some (scalar_like source (f64_of_int (po_local_month overlay)))
      else None)"

definition guitar_bonus :: "master_catalog \<Rightarrow> int \<Rightarrow> int \<Rightarrow> master_scalar \<Rightarrow> master_scalar" where
  "guitar_bonus cat i area source =
     (let same = filter (\<lambda>g. mgui_area g = area) (mc_guitars cat)
      in if same \<noteq> [] \<and> Min (set (map mgui_id same)) = i then source
         else if area = 1 then MReal (round64 (6 / 5))
         else MReal (foldl fmax fzero (map mgui_like_multiplier same)))"

text \<open>Every arm of \<open>transform_master_value\<close> but the descriptions, in the order of the code.\<close>

definition transform_plain ::
  "master_catalog \<Rightarrow> string \<Rightarrow> string \<Rightarrow> master_row \<Rightarrow> master_scalar \<Rightarrow> pass_overlay \<Rightarrow> master_scalar" where
  "transform_plain cat table field row source overlay =
     (let p = embedded_policy; i = or_else 0 (master_i64 row ''id'');
          area = wrap_i32 (or_else 0 (master_i64 row ''area''));
          number = or_else fzero (master_f64_value source);
          requirements = {''requirementcharacterlevel'', ''requirementfollowerlevel'', ''requirementpropcount''}
      in if table = ''SubscribeList'' \<and> transform_subscribe_value field i source overlay \<noteq> None
         then the (transform_subscribe_value field i source overlay)
         else if table = ''SubscribePass'' \<and> field \<in> {''paidpoint'', ''adpoint''} then
           (case source of MInteger points \<Rightarrow> MInteger (sat_i64 (points * policy_pass_point_multiplier p))
            | _ \<Rightarrow> source)
         else if table = ''Followergiftitem'' \<and> field = ''resourcename'' then
           (case tbl_get (follower_gift_icons p) i of Some name \<Rightarrow> MText name | None \<Rightarrow> source)
         else if table = ''Fan'' \<and> field = ''fancount'' then
           MInteger (as_i64 (scaled_fan_requirement number (Fin 1000)))
         else if table = ''Achievement'' \<and> starts_with ''condition'' field then
           (if i \<notin> set (scaled_achievement_ids p) then source
            else case source of
                MText t \<Rightarrow> (case scaled_text t of Some s \<Rightarrow> MText s | None \<Rightarrow> source)
              | _ \<Rightarrow> scalar_like source (scaled_requirement number False))
         else if table = ''Followerprofilelevel'' \<and> field = ''requireexp'' then source
         else if table = ''Costume'' \<and> field = ''cost'' then
           (case find (\<lambda>c. mcos_id c = i) (mc_costumes cat) of
              Some c \<Rightarrow> if mcos_acquisition_type c = 0 \<and> mcos_official_cost c \<noteq> ''0''
                then MText (cosmetic_price_text (mcos_currency c) (mcos_official_cost c)) else source
            | None \<Rightarrow> source)
         else if table = ''Costume'' \<and> field = ''fanmultiply'' then
           (case find (\<lambda>c. mcos_id c = i) (mc_costumes cat) of
              Some c \<Rightarrow> MReal (costume_bonus cat c) | None \<Rightarrow> source)
         else if table = ''Guitar'' \<and> field = ''cost'' then
           (case find (\<lambda>g. mgui_id g = i) (mc_guitars cat) of
              Some g \<Rightarrow> if mgui_acquisition_type g = 0 \<and> mgui_official_cost g \<noteq> ''0''
                then MText (cosmetic_price_text (mgui_currency g) (mgui_official_cost g)) else source
            | None \<Rightarrow> source)
         else if table = ''Guitar'' \<and> field = ''incrementvalue'' then guitar_bonus cat i area source
         else if field = ''cost'' \<and> table \<in> {''Character'', ''Follower'', ''Music'', ''Skill'', ''Unit'', ''Proplevel''}
         then mapped_upgrade_cost cat table row source
         else if field = ''costincreasevalue'' \<and> table \<in> {''Character'', ''Follower'', ''Music'', ''Skill'', ''Unit''}
         then (if single_digit_upgrade_row p table row
               then scalar_like source
                      (if table \<in> {''Skill'', ''Unit''} then premium_increment cat table i else fzero)
               else scalar_like source (fmul number (progression_multiplier p)))
         else if table = ''Skill'' \<and> field \<in> insert ''unlocklevel'' requirements
                \<and> preserve_skill_unlock_requirements p then source
         else if field \<in> {''unlocklevel'', ''unlockcost''} \<union> requirements
         then scalar_like source (scaled_requirement number False)
         else if table = ''Skill'' \<and> field = ''cooltime'' then MReal (memorial_skill_cooldown p i number)
         else if table = ''Music_level'' \<and> field = ''encorebonusappearcooltimesec''
         then MReal (encore_cooldown number (Fin 75600))
         else if table = ''Music_level'' \<and> field = ''encorebonusappearcooltimehour''
         then MReal (fdiv (encore_cooldown (fmul number (Fin 3600)) (Fin 75600)) (Fin 3600))
         else source)"

definition transform_description ::
  "string \<Rightarrow> master_scalar \<Rightarrow> master_scalar \<Rightarrow> master_scalar" where
  "transform_description table bonus source =
     (let base = (if table = ''Costume'' then fzero else Fin 1)
      in case (master_f64_value bonus, source) of
           (Some v, MText t) \<Rightarrow>
             if flt_less base v
             then MText (utf8_encode (rewrite_percentage (u_chars t)
                    (as_i32 (fround (fmul (fsub v base) (Fin 100))))))
             else source
         | _ \<Rightarrow> source)"

definition transform_master_value ::
  "master_catalog \<Rightarrow> string \<Rightarrow> string \<Rightarrow> master_row \<Rightarrow> master_scalar \<Rightarrow> pass_overlay \<Rightarrow> master_scalar" where
  "transform_master_value cat table field row source overlay =
     (if table \<in> {''Costume'', ''Guitar''} \<and> starts_with ''description'' field then
        (let bonus_field = (if table = ''Costume'' then ''fanmultiply'' else ''incrementvalue'')
         in case tbl_get row bonus_field of
              None \<Rightarrow> source
            | Some bonus_source \<Rightarrow>
                transform_description table (transform_plain cat table bonus_field row bonus_source overlay) source)
      else transform_plain cat table field row source overlay)"

section \<open>Rows on the wire\<close>

definition amount_i64 :: "f64 \<Rightarrow> int" where
  "amount_i64 value =
     (if \<not> is_finite value then 0
      else as_i64 (fclamp (fround value) (f64_of_int i64_min) (f64_of_int i64_max)))"

definition to_i32 :: "int \<Rightarrow> int" where "to_i32 value = clamp_int i32_min i32_max value"
definition to_i16 :: "int \<Rightarrow> int" where "to_i16 value = clamp_int i16_min i16_max value"

abbreviation v16 :: "int \<Rightarrow> wire_value" where "v16 i \<equiv> VI16 (word_of_int i)"
abbreviation v32 :: "int \<Rightarrow> wire_value" where "v32 i \<equiv> VI32 (word_of_int i)"
abbreviation v64 :: "int \<Rightarrow> wire_value" where "v64 i \<equiv> VI64 (word_of_int i)"
abbreviation vdouble :: "f64 \<Rightarrow> wire_value" where "vdouble x \<equiv> VDouble (f64_to_bits x)"
abbreviation vlist :: "wire_value list \<Rightarrow> wire_value" where "vlist vs \<equiv> VList kind_struct vs"

definition text_value :: "string \<Rightarrow> wire_value" where "text_value s = VString (as_bytes s)"

definition master_scalar_wire_value :: "string \<Rightarrow> master_scalar \<Rightarrow> gameplay_error + wire_value" where
  "master_scalar_wire_value wire_type value =
     (let n = as_i64 (or_else fzero (master_f64_value value))
      in if wire_type = ''bool'' then Inr (VBool (n \<noteq> 0))
         else if wire_type \<in> {''byte'', ''int8'', ''uint8''}
         then Inr (VByte (word_of_int (clamp_int (- 128) 127 n)))
         else if wire_type \<in> {''int16'', ''uint16''} then Inr (v16 (to_i16 n))
         else if wire_type \<in> {''int'', ''int32'', ''uint'', ''uint32''} then Inr (v32 (to_i32 n))
         else if wire_type \<in> {''int64'', ''uint64''} then Inr (v64 n)
         else if wire_type \<in> {''float32'', ''float64''}
         then Inr (vdouble (or_else fzero (master_f64_value value)))
         else if wire_type = ''string'' then Inr (text_value (case value of
              MText t \<Rightarrow> t | MInteger i \<Rightarrow> show_int i | MReal x \<Rightarrow> show_f64 x | MBlob b \<Rightarrow> b | MNull \<Rightarrow> []))
         else Inl (Invalid (''unsupported scalar master field type '' @ wire_type)))"

definition game_data_field ::
  "master_catalog \<Rightarrow> string \<Rightarrow> master_row \<Rightarrow> pass_overlay \<Rightarrow> field_spec
   \<Rightarrow> gameplay_error + (string \<times> wire_value) list" where
  "game_data_field cat table row overlay f =
     (let key = normalize_column_name (fs_name f)
      in case tbl_get row key of
           None \<Rightarrow> Inr []
         | Some source \<Rightarrow>
             (case transform_master_value cat table key row source overlay of
                MNull \<Rightarrow> Inr []
              | v \<Rightarrow> sum_bind (master_scalar_wire_value (fs_type f) v) (\<lambda>w. Inr [(fs_name f, w)])))"

definition game_data_row_value ::
  "protocol_schema \<Rightarrow> master_catalog \<Rightarrow> string \<Rightarrow> string \<Rightarrow> master_row \<Rightarrow> pass_overlay
   \<Rightarrow> gameplay_error + wire_value" where
  "game_data_row_value schema cat table wire_type row overlay =
     sum_bind (expect_some (Invalid (''missing master wire type '' @ wire_type))
                 (schema_type schema (''main_model::'' @ wire_type))) (\<lambda>spec.
     sum_bind (sum_collect (game_data_field cat table row overlay) (ts_fields spec)) (\<lambda>values.
     protocol (struct_value schema ''main_model'' wire_type (concat values))))"

section \<open>The variety store\<close>

record variety_store_row =
  vsr_id :: int
  vsr_area :: int
  vsr_cost :: int
  vsr_price_increment :: f64
  vsr_reward_id :: int
  vsr_max_level :: int
  vsr_source :: master_row

definition variety_store_row_of :: "master_catalog \<Rightarrow> master_row \<Rightarrow> variety_store_row option" where
  "variety_store_row_of cat row =
     Option.bind (master_i64 row ''id'') (\<lambda>i.
     Option.bind (prop_price_curve cat i) (\<lambda>(_, increment).
       Some \<lparr>vsr_id = i, vsr_area = wrap_i32 (or_else 1 (master_i64 row ''area'')), vsr_cost = 1,
             vsr_price_increment = increment, vsr_reward_id = i,
             vsr_max_level = wrap_i32 (max (or_else 20 (master_i64 row ''maxlevel'')) 1),
             vsr_source = row\<rparr>))"

definition variety_store_rows :: "master_catalog \<Rightarrow> gameplay_error + variety_store_row list" where
  "variety_store_rows cat =
     sum_bind (expect_some (Invalid ''master data has no Prop table'') (tbl_get (mc_game_data cat) ''Prop'')) (\<lambda>rows.
     Inr (List.map_filter (variety_store_row_of cat)
            (filter (\<lambda>row. or_else 0 (master_i64 row ''isactive'') \<noteq> 0) rows)))"

definition variety_store_cell :: "variety_store_row \<Rightarrow> string \<Rightarrow> master_scalar option" where
  "variety_store_cell row key =
     (if key = ''id'' then Some (MInteger (vsr_id row))
      else if key = ''cost'' then Some (MInteger (vsr_cost row))
      else if key = ''rewardtype'' then Some (MInteger 4)
      else if key = ''rewardid'' then Some (MInteger (vsr_reward_id row))
      else if key = ''rewardquantity'' then Some (MInteger 1)
      else if starts_with ''title'' key then tbl_get (vsr_source row) (''name'' @ drop 5 key)
      else tbl_get (vsr_source row) key)"

definition variety_store_field ::
  "variety_store_row \<Rightarrow> field_spec \<Rightarrow> gameplay_error + (string \<times> wire_value) list" where
  "variety_store_field row f =
     (case variety_store_cell row (normalize_column_name (fs_name f)) of
        None \<Rightarrow> Inr []
      | Some MNull \<Rightarrow> Inr []
      | Some v \<Rightarrow> sum_bind (master_scalar_wire_value (fs_type f) v) (\<lambda>w. Inr [(fs_name f, w)]))"

definition variety_store_wire_value ::
  "protocol_schema \<Rightarrow> variety_store_row \<Rightarrow> gameplay_error + wire_value" where
  "variety_store_wire_value schema row =
     sum_bind (expect_some (Panic ''audited variety store wire type'')
                 (schema_type schema ''store_model::GetVarietyStoreRetDataInfo'')) (\<lambda>spec.
     sum_bind (sum_collect (variety_store_field row) (ts_fields spec)) (\<lambda>values.
     protocol (struct_value schema ''store_model'' ''GetVarietyStoreRetDataInfo'' (concat values))))"

definition variety_store_price :: "int \<Rightarrow> variety_store_row \<Rightarrow> variety_store_row" where
  "variety_store_price level row =
     row\<lparr>vsr_cost := as_i32 (ftrunc (fadd32 (Fin 1)
            (fmul32 (to_f32 (vsr_price_increment row)) (f32_of_int level))))\<rparr>"

section \<open>Facts\<close>

lemma protocol_Inr: "protocol r = Inr x \<longleftrightarrow> r = Inr x"
  by (auto simp: protocol_def split: sum.splits)

lemma expect_some_Inr: "expect_some e x = Inr v \<longleftrightarrow> x = Some v"
  by (auto simp: expect_some_def split: option.splits)

lemma find_SomeD: "find p xs = Some x \<Longrightarrow> x \<in> set xs \<and> p x"
  by (induction xs) (auto split: if_splits)

lemma sum_collect_length: "sum_collect f xs = Inr ys \<Longrightarrow> length ys = length xs"
  by (induction xs arbitrary: ys) (auto simp: sum_bind_Inr)

lemmas price_simps = sum_bind_Inr expect_some_Inr protocol_Inr

lemma find_row_id:
  "find_row cat table i = Some row \<Longrightarrow> master_i64 row ''id'' = Some i
     \<and> (\<exists>rows. tbl_get (mc_game_data cat) table = Some rows
            \<and> find (\<lambda>r. master_i64 r ''id'' = Some i) rows = Some row)"
  by (auto simp: find_row_def find_Some_iff split: Option.bind_splits)

definition kind_table :: "content_kind \<Rightarrow> string option" where
  "kind_table k = (case k of Skill \<Rightarrow> Some ''Skill'' | Unit \<Rightarrow> Some ''Unit''
     | Follower \<Rightarrow> Some ''Follower'' | _ \<Rightarrow> None)"

lemma upgrade_spec_Inr:
  assumes "upgrade_spec cat table kind i area currency inc ml = Inr spec"
  shows "cps_kind spec = kind \<and> cps_price_increment spec = inc
    \<and> (\<exists>row source. find_row cat table i = Some row \<and> tbl_get row ''cost'' = Some source
        \<and> master_f64_value (mapped_upgrade_cost cat table row source) = Some (cps_price spec))"
  using assms by (auto simp: upgrade_spec_def mapped_content_upgrade_price_def price_simps)

lemma cosmetic_spec_Inr:
  "cosmetic_spec name kind i area currency official = Inr spec \<Longrightarrow>
     cps_kind spec = kind \<and> cps_max_level spec = 1 \<and> cps_price_increment spec = fzero
     \<and> parse_f64 (cosmetic_price_text currency official) = Some (cps_price spec)"
  by (auto simp: cosmetic_spec_def price_simps)

lemma transform_cost:
  "table \<in> {''Skill'', ''Unit'', ''Follower''} \<Longrightarrow>
     transform_master_value cat table ''cost'' row source ov = mapped_upgrade_cost cat table row source"
  by (auto simp: transform_master_value_def transform_plain_def Let_def starts_with_def)

lemma transform_increment:
  assumes "table \<in> {''Skill'', ''Unit'', ''Follower''}" "master_i64 row ''id'' = Some i"
  shows "transform_master_value cat table ''costincreasevalue'' row (MReal x) ov =
    MReal (if single_digit_upgrade_row embedded_policy table row
           then (if table = ''Follower'' then fzero else premium_increment cat table i)
           else fmul x (progression_multiplier embedded_policy))"
  using assms
  by (auto simp: transform_master_value_def transform_plain_def Let_def starts_with_def or_else_def
      scalar_like_def master_f64_value_def)

lemma premium_increment_other:
  assumes "find_row cat table i = Some row" "\<not> single_digit_upgrade_row embedded_policy table row"
  shows "premium_increment cat table i = fzero"
  using find_row_id [OF assms(1)] assms(2) by (auto simp: premium_increment_def)

text \<open>The rows a purchase can come from.\<close>

lemma content_purchase_spec_cases:
  assumes "content_purchase_spec cat requested i = Inr spec"
  shows "(\<exists>c. c \<in> set (mc_costumes cat) \<and> mcos_id c = i
        \<and> cosmetic_spec ''costume'' Costume i (mcos_area c) (mcos_currency c) (mcos_official_cost c) = Inr spec)
    \<or> (\<exists>g. g \<in> set (mc_guitars cat) \<and> mgui_id g = i
        \<and> cosmetic_spec ''guitar'' Guitar i (mgui_area g) (mgui_currency g) (mgui_official_cost g) = Inr spec)
    \<or> (\<exists>table kind area currency inc ml. kind_table kind = Some table
        \<and> inc = (if table = ''Follower'' then fzero else premium_increment cat table i)
        \<and> upgrade_spec cat table kind i area currency inc ml = Inr spec)"
  (is "?c \<or> ?g \<or> ?u")
proof -
  have u: ?u if "upgrade_spec cat table kind i area currency inc ml = Inr spec"
      "kind_table kind = Some table" "inc = (if table = ''Follower'' then fzero else premium_increment cat table i)"
    for table kind area currency inc ml
    using that by blast
  have k: "kind_table Skill = Some ''Skill''" "kind_table Unit = Some ''Unit''"
    "kind_table Follower = Some ''Follower''" by (simp_all add: kind_table_def)
  define k where "k = filter (\<lambda>c. c \<noteq> CHR ''_'') (to_lower requested)"
  note spec = assms [unfolded content_purchase_spec_def Let_def, folded k_def]
  consider "k \<in> {''costume'', ''usercostume'', ''3''}" | "k \<in> {''guitar'', ''userguitar'', ''4''}"
    | "k \<in> {''skill'', ''userskill'', ''1''}" | "k \<in> {''unit'', ''userunit'', ''mate'', ''2''}"
    | "k = ''follower''"
    using spec by (simp split: if_splits)
  then show ?thesis
  proof cases
    case 1
    then obtain r where "find (\<lambda>r. mcos_id r = i \<and> mcos_active r \<and> mcos_acquisition_type r = 0) (mc_costumes cat) = Some r"
        "cosmetic_spec ''costume'' Costume i (mcos_area r) (mcos_currency r) (mcos_official_cost r) = Inr spec"
      using spec by (elim insertE emptyE; simp add: price_simps; blast)
    then show ?thesis by (blast dest: find_SomeD)
  next
    case 2
    then obtain r where "find (\<lambda>r. mgui_id r = i \<and> mgui_active r \<and> mgui_acquisition_type r = 0) (mc_guitars cat) = Some r"
        "cosmetic_spec ''guitar'' Guitar i (mgui_area r) (mgui_currency r) (mgui_official_cost r) = Inr spec"
      using spec by (elim insertE emptyE; simp add: price_simps; blast)
    then show ?thesis by (blast dest: find_SomeD)
  next
    case 3
    then obtain r :: master_skill where "upgrade_spec cat ''Skill'' Skill i (mski_area r) (mski_currency r)
        (premium_increment cat ''Skill'' i) (max (mski_max_level r) 1) = Inr spec"
      using spec by (elim insertE emptyE) (auto simp: price_simps)
    from u [OF this k(1)] show ?thesis by simp
  next
    case 4
    then obtain r :: master_unit where "upgrade_spec cat ''Unit'' Unit i (muni_area r) (muni_currency r)
        (premium_increment cat ''Unit'' i) (max (muni_max_level r) 1) = Inr spec"
      using spec by (elim insertE emptyE) (auto simp: price_simps)
    from u [OF this k(2)] show ?thesis by simp
  next
    case 5
    then obtain a c m where "upgrade_spec cat ''Follower'' Follower i a c fzero m = Inr spec"
      using spec by (auto simp: price_simps)
    from u [OF this k(3)] show ?thesis by simp
  qed
qed

section \<open>Properties\<close>

text \<open>equivalence. The price \<open>buyContents\<close> charges for a skill, a unit or a follower is the number
  \<open>getGameDataList\<close> publishes in the row's cost cell, and the increment per level it charges is
  the published one where the currency has single-digit prices; a costume or guitar costs its
  published text, once.\<close>

lemma published_price_is_charged:
  "case content_purchase_spec cat requested i of
     Inl e \<Rightarrow> True
   | Inr spec \<Rightarrow>
       (case kind_table (cps_kind spec) of
          None \<Rightarrow> cps_max_level spec = 1 \<and> cps_price_increment spec = fzero
            \<and> ((\<exists>c\<in>set (mc_costumes cat). mcos_id c = i \<and> parse_f64
                   (cosmetic_price_text (mcos_currency c) (mcos_official_cost c)) = Some (cps_price spec))
               \<or> (\<exists>g\<in>set (mc_guitars cat). mgui_id g = i \<and> parse_f64
                   (cosmetic_price_text (mgui_currency g) (mgui_official_cost g)) = Some (cps_price spec)))
        | Some table \<Rightarrow>
            (\<exists>row source. find_row cat table i = Some row \<and> tbl_get row ''cost'' = Some source
               \<and> master_f64_value (transform_master_value cat table ''cost'' row source ov) = Some (cps_price spec)
               \<and> (\<forall>x. transform_master_value cat table ''costincreasevalue'' row (MReal x) ov =
                    MReal (if single_digit_upgrade_row embedded_policy table row
                           then cps_price_increment spec
                           else fmul x (progression_multiplier embedded_policy)))))"
proof (cases "content_purchase_spec cat requested i")
  case (Inr spec)
  from content_purchase_spec_cases [OF Inr] consider (costume) c where "c \<in> set (mc_costumes cat)"
      "mcos_id c = i" "cosmetic_spec ''costume'' Costume i (mcos_area c) (mcos_currency c) (mcos_official_cost c) = Inr spec"
    | (guitar) g where "g \<in> set (mc_guitars cat)" "mgui_id g = i"
      "cosmetic_spec ''guitar'' Guitar i (mgui_area g) (mgui_currency g) (mgui_official_cost g) = Inr spec"
    | (upgrade) table kind area currency inc ml where "kind_table kind = Some table"
      "inc = (if table = ''Follower'' then fzero else premium_increment cat table i)"
      "upgrade_spec cat table kind i area currency inc ml = Inr spec"
    by blast
  then show ?thesis
  proof cases
    case costume
    then show ?thesis using Inr cosmetic_spec_Inr [OF costume(3)] by (auto simp: kind_table_def)
  next
    case guitar
    then show ?thesis using Inr cosmetic_spec_Inr [OF guitar(3)] by (auto simp: kind_table_def)
  next
    case upgrade
    from upgrade(1) have t: "table \<in> {''Skill'', ''Unit'', ''Follower''}"
      by (cases kind) (auto simp: kind_table_def)
    from upgrade_spec_Inr [OF upgrade(3)] obtain row source where r: "cps_kind spec = kind"
      "cps_price_increment spec = inc" "find_row cat table i = Some row" "tbl_get row ''cost'' = Some source"
      "master_f64_value (mapped_upgrade_cost cat table row source) = Some (cps_price spec)" by blast
    have "transform_master_value cat table ''costincreasevalue'' row (MReal x) ov =
        MReal (if single_digit_upgrade_row embedded_policy table row then cps_price_increment spec
               else fmul x (progression_multiplier embedded_policy))" for x
      using transform_increment [OF t, of row i] find_row_id [OF r(3)] upgrade(2) r(2) by simp
    then show ?thesis
      using Inr upgrade(1) r transform_cost [OF t] by simp
  qed
qed simp

end
