(* ===== verification/Overlay.thy ===== *)
theory Overlay
  imports Prices
begin

text \<open>
  What \<open>start\<close> adds to the catalog before it serves it (\<open>crates/transport-http/src/lib.rs\<close>): the
  items of the memorial shop, and what the catalog offers as discontinued content.
\<close>

section \<open>Cells\<close>

definition master_row_i64 :: "master_row \<Rightarrow> string \<Rightarrow> int option" where
  "master_row_i64 row field = Option.bind (tbl_get row field) (\<lambda>v. case v of
       MInteger i \<Rightarrow> Some i | MReal x \<Rightarrow> Some (as_i64 x) | MText t \<Rightarrow> parse_i64 t | _ \<Rightarrow> None)"

definition row_has :: "string \<Rightarrow> int \<Rightarrow> master_row \<Rightarrow> bool" where
  "row_has field i row \<longleftrightarrow> master_row_i64 row field = Some i"

section \<open>The memorial shop\<close>

definition localized_or_english :: "(string, string) table \<Rightarrow> string \<Rightarrow> string" where
  "localized_or_english values locale =
     (case tbl_get values locale of Some t \<Rightarrow> t
      | None \<Rightarrow> (case tbl_get values ''en'' of Some t \<Rightarrow> t | None \<Rightarrow> []))"

definition shop_locales :: "(string \<times> string) list" where
  "shop_locales =
     [(''ko'', ''ko''), (''en'', ''en''), (''ja'', ''ja''), (''zhchs'', ''zhChs''), (''zhcht'', ''zhCht''),
      (''vi'', ''vi''), (''es'', ''es''), (''it'', ''it''), (''id'', ''id''), (''th'', ''th''),
      (''pt'', ''pt''), (''hi'', ''hi'')]"

definition shop_texts :: "memorial_shop_item \<Rightarrow> string \<times> string \<Rightarrow> master_row \<Rightarrow> master_row" where
  "shop_texts item locale row =
     (case locale of (suffix, key) \<Rightarrow>
        let title = MText (localized_or_english (shi_title item) key);
            description = MText (localized_or_english (shi_description item) key)
        in tbl_put (''altdescription'' @ suffix) description
             (tbl_put (''description'' @ suffix) description
               (tbl_put (''title'' @ suffix) title row)))"

definition shop_columns :: "memorial_shop_policy \<Rightarrow> memorial_shop_item \<Rightarrow> master_row" where
  "shop_columns shop item = collect_map
     [(''id'', MInteger (shi_id item)), (''productidios'', MText (shi_product_id_ios item)),
      (''productidaos'', MText (shi_product_id_android item)),
      (''shopcategory'', MInteger (shp_shop_category shop)),
      (''producttype'', MInteger (shp_product_type shop)),
      (''resourcename'', MText (shi_resource_name item)),
      (''rewardgroup'', MInteger (shi_reward_group item)), (''tag'', MInteger 0),
      (''selltype'', MInteger (shp_sell_type shop)), (''sellvalue'', MInteger (shp_sell_value shop)),
      (''isactive'', MInteger 1), (''condition'', MInteger 0), (''conditionvalue'', MInteger 0),
      (''storepriceaos'', MText ''$0.00''), (''storepriceios'', MText ''$0.00''),
      (''korstorepriceaos'', MText ''$0.00''), (''korstorepriceios'', MText ''$0.00''),
      (''sortindex'', MInteger (shi_sort_index item)), (''arealist'', MText (shp_area_list shop)),
      (''altresourcename'', MText []), (''islimittime'', MInteger 0), (''uistarttime'', MText []),
      (''starttime'', MText []), (''endtime'', MText [])]"

definition memorial_shop_master_row :: "memorial_shop_policy \<Rightarrow> memorial_shop_item \<Rightarrow> master_row" where
  "memorial_shop_master_row shop item = fold (shop_texts item) shop_locales (shop_columns shop item)"

definition shop_row :: "memorial_shop_policy \<Rightarrow> memorial_shop_item \<Rightarrow> master_shop" where
  "shop_row shop item =
     \<lparr>msho_id = shi_id item, msho_product_type = wrap_i32 (shp_product_type shop),
      msho_reward_group = shi_reward_group item, msho_sell_type = wrap_i32 (shp_sell_type shop),
      msho_sell_value = shp_sell_value shop, msho_active = True, msho_condition = 0,
      msho_condition_value = 0\<rparr>"

definition reward_row :: "int \<Rightarrow> int \<Rightarrow> memorial_shop_reward \<Rightarrow> master_reward" where
  "reward_row row_id grp r =
     \<lparr>mrew_row_id = row_id, mrew_group = grp, mrew_reward_type = shr_reward_type r,
      mrew_reward_id = shr_id r, mrew_quantity = shr_quantity r, mrew_first_purchase_quantity = fzero\<rparr>"

definition reward_master_row :: "int \<Rightarrow> int \<Rightarrow> memorial_shop_reward \<Rightarrow> master_row" where
  "reward_master_row row_id grp r = collect_map
     [(''id'', MInteger row_id), (''group'', MInteger grp), (''rewardtype'', MInteger (shr_reward_type r)),
      (''rewardid'', MInteger (shr_id r)), (''rewardquantity'', MReal (shr_quantity r)),
      (''buyfirstquantity'', MInteger 0)]"

text \<open>An overlay that is there already must be the one of the policy.\<close>

definition overlay_present :: "memorial_shop_policy \<Rightarrow> master_catalog \<Rightarrow> nat \<times> nat" where
  "overlay_present shop cat =
     (length (filter (\<lambda>r. msho_id r \<in> shi_id ` set (shp_items shop)) (mc_shops cat)),
      length (filter (\<lambda>r. mrew_group r \<in> shi_reward_group ` set (shp_items shop)) (mc_reward_groups cat)))"

definition check_shop_item ::
  "memorial_shop_policy \<Rightarrow> master_catalog \<Rightarrow> master_row list \<Rightarrow> master_row list \<Rightarrow> memorial_shop_item
   \<Rightarrow> string + unit" where
  "check_shop_item shop cat shop_table reward_table item =
     (case find (\<lambda>r. msho_id r = shi_id item) (mc_shops cat) of
        None \<Rightarrow> Inl (''missing memorial shop item '' @ show_int (shi_id item))
      | Some r \<Rightarrow>
          if msho_product_type r \<noteq> wrap_i32 (shp_product_type shop)
             \<or> msho_reward_group r \<noteq> shi_reward_group item
             \<or> msho_sell_type r \<noteq> wrap_i32 (shp_sell_type shop)
             \<or> msho_sell_value r \<noteq> shp_sell_value shop \<or> \<not> msho_active r
          then Inl (''memorial shop item '' @ show_int (shi_id item) @ '' does not match the policy manifest'')
          else if map (\<lambda>r. (mrew_reward_type r, mrew_reward_id r, mrew_quantity r))
                    (filter (\<lambda>r. mrew_group r = shi_reward_group item) (mc_reward_groups cat))
                  \<noteq> map (\<lambda>r. (shr_reward_type r, shr_id r, shr_quantity r)) (shi_rewards item)
          then Inl (''memorial reward group '' @ show_int (shi_reward_group item)
                      @ '' does not match the policy manifest'')
          else if \<not> list_ex (row_has ''id'' (shi_id item)) shop_table
                  \<or> length (filter (row_has ''group'' (shi_reward_group item)) reward_table)
                      \<noteq> length (shi_rewards item)
          then Inl (''memorial shop projection is incomplete for item '' @ show_int (shi_id item))
          else Inr ())"

definition free_shop_item ::
  "master_catalog \<Rightarrow> master_row list \<Rightarrow> master_row list \<Rightarrow> memorial_shop_item \<Rightarrow> string + unit" where
  "free_shop_item cat shop_table reward_table item =
     (if list_ex (\<lambda>r. msho_id r = shi_id item) (mc_shops cat)
         \<or> list_ex (row_has ''id'' (shi_id item)) shop_table
      then Inl (''memorial shop id '' @ show_int (shi_id item) @ '' collides with source master'')
      else if list_ex (\<lambda>r. mrew_group r = shi_reward_group item) (mc_reward_groups cat)
         \<or> list_ex (row_has ''group'' (shi_reward_group item)) reward_table
      then Inl (''memorial reward group '' @ show_int (shi_reward_group item)
                  @ '' collides with source master'')
      else Inr ())"

definition push_row :: "string \<Rightarrow> master_row \<Rightarrow> master_catalog \<Rightarrow> master_catalog" where
  "push_row table row cat =
     cat\<lparr>mc_game_data := tbl_at table (\<lambda>rows. rows @ [row]) (mc_game_data cat)\<rparr>"

fun push_rewards ::
  "memorial_shop_item \<Rightarrow> int \<Rightarrow> memorial_shop_reward list \<Rightarrow> master_catalog \<Rightarrow> string + master_catalog" where
  "push_rewards item index [] cat = Inr cat"
| "push_rewards item index (r # rs) cat =
     (let base = shi_reward_group item * 100; row_id = base + (index + 1); grp = shi_reward_group item
      in if \<not> in_i64 base \<or> \<not> in_i64 row_id
         then Inl (''memorial reward row id overflow for item '' @ show_int (shi_id item))
         else push_rewards item (index + 1) rs (push_row ''Reward_group'' (reward_master_row row_id grp r)
                (cat\<lparr>mc_reward_groups := mc_reward_groups cat @ [reward_row row_id grp r]\<rparr>)))"

fun push_items ::
  "memorial_shop_policy \<Rightarrow> memorial_shop_item list \<Rightarrow> master_catalog \<Rightarrow> string + master_catalog" where
  "push_items shop [] cat = Inr cat"
| "push_items shop (item # items) cat =
     sum_bind (push_rewards item 0 (shi_rewards item) (push_row ''Shop'' (memorial_shop_master_row shop item)
                 (cat\<lparr>mc_shops := mc_shops cat @ [shop_row shop item]\<rparr>)))
       (push_items shop items)"

definition sort_overlay :: "master_catalog \<Rightarrow> master_catalog" where
  "sort_overlay cat =
     cat\<lparr>mc_shops := sort_key msho_id (mc_shops cat),
         mc_reward_groups := sort_key (\<lambda>r. (mrew_group r, mrew_row_id r)) (mc_reward_groups cat)\<rparr>"

definition apply_memorial_shop_policy :: "memorial_shop_policy \<Rightarrow> master_catalog \<Rightarrow> string + master_catalog" where
  "apply_memorial_shop_policy shop cat =
     sum_bind (expect_some ''master projection has no Shop table'' (tbl_get (mc_game_data cat) ''Shop'')) (\<lambda>shop_table.
     sum_bind (expect_some ''master projection has no Reward_group table''
                 (tbl_get (mc_game_data cat) ''Reward_group'')) (\<lambda>reward_table.
     let (shops, rewards) = overlay_present shop cat;
         expected = sum_list (map (length \<circ> shi_rewards) (shp_items shop))
     in if shops \<noteq> 0 \<or> rewards \<noteq> 0
        then if shops \<noteq> length (shp_items shop) \<or> rewards \<noteq> expected
             then Inl (''partial memorial shop overlay: '' @ show_nat shops @ ''/''
                    @ show_nat (length (shp_items shop)) @ '' shops and '' @ show_nat rewards @ ''/''
                    @ show_nat expected @ '' rewards'')
             else sum_bind (sum_collect (check_shop_item shop cat shop_table reward_table) (shp_items shop))
                    (\<lambda>_. Inr cat)
        else sum_bind (sum_collect (free_shop_item cat shop_table reward_table) (shp_items shop)) (\<lambda>_.
             sum_bind (push_items shop (shp_items shop) cat) (\<lambda>cat'. Inr (sort_overlay cat')))))"

section \<open>Discontinued content\<close>

record legacy_item_view =
  liv_kind :: content_kind
  liv_area :: int
  liv_id :: int
  liv_names :: "(string, string) table"
  liv_source :: string
  liv_owned :: bool
  liv_pending_mail :: bool
  liv_can_send :: bool

definition content_reward :: "int \<Rightarrow> int \<Rightarrow> (content_kind \<times> int) option" where
  "content_reward reward_type reward_id =
     (if reward_type = 2 then Some (Music, reward_id)
      else if reward_type = 3 then Some (Costume, reward_id)
      else if reward_type = 9 then Some (Guitar, reward_id) else None)"

definition live_reward_groups :: "master_catalog \<Rightarrow> int list" where
  "live_reward_groups cat =
     concat (map (\<lambda>r. [mprw_free_reward_group r, mprw_paid_reward_group r]) (mc_pass_rewards cat))
     @ map mstg_reward_group_id (mc_ch3_stages cat) @ concat (map mcha_reward_groups (mc_ch3_chapters cat))"

definition protected_reward_content :: "master_catalog \<Rightarrow> (content_kind \<times> int) set" where
  "protected_reward_content cat =
     set (List.map_filter (\<lambda>r. content_reward (mrew_reward_type r) (mrew_reward_id r))
       (filter (\<lambda>r. mrew_group r \<in> set (live_reward_groups cat)) (mc_reward_groups cat)))"

definition name_locales :: "(string \<times> string) list" where
  "name_locales =
     [(''en'', ''en''), (''ko'', ''ko''), (''ja'', ''ja''), (''zh-Hans'', ''zhchs''), (''zh-Hant'', ''zhcht''),
      (''vi'', ''vi''), (''es'', ''es''), (''it'', ''it''), (''id'', ''id''), (''th'', ''th''),
      (''pt'', ''pt''), (''hi'', ''hi'')]"

definition cell_text :: "master_row \<Rightarrow> string \<Rightarrow> string option" where
  "cell_text row field =
     (case tbl_get row field of Some (MText t) \<Rightarrow> if t = [] then None else Some t | _ \<Rightarrow> None)"

definition localized_names :: "master_row \<Rightarrow> (string, string) table" where
  "localized_names row = fold (\<lambda>(locale, suffix) result.
     case cell_text row (''name'' @ suffix) of Some t \<Rightarrow> tbl_put locale t result
     | None \<Rightarrow> (case cell_text row (''title'' @ suffix) of
                 Some t \<Rightarrow> tbl_put locale t result | None \<Rightarrow> result)) name_locales []"

definition legacy_item :: "master_catalog \<Rightarrow> content_kind \<Rightarrow> string \<Rightarrow> int \<Rightarrow> int \<Rightarrow> legacy_item_view" where
  "legacy_item cat kind table area i =
     \<lparr>liv_kind = kind, liv_area = area, liv_id = i,
      liv_names = (case Option.bind (tbl_get (mc_game_data cat) table) (find (row_has ''id'' i)) of
                     None \<Rightarrow> [] | Some row \<Rightarrow> localized_names row),
      liv_source = ''legacy-no-longer-distributed'', liv_owned = False, liv_pending_mail = False,
      liv_can_send = False\<rparr>"

definition legacy_present :: "master_catalog \<Rightarrow> content_kind \<Rightarrow> int \<Rightarrow> int \<Rightarrow> string option" where
  "legacy_present cat kind area i =
     (case kind of
        Costume \<Rightarrow> if list_ex (\<lambda>r. mcos_active r \<and> mcos_id r = i \<and> mcos_area r = area) (mc_costumes cat)
                    then Some ''Costume'' else None
      | Guitar \<Rightarrow> if list_ex (\<lambda>r. mgui_active r \<and> mgui_id r = i \<and> mgui_area r = area) (mc_guitars cat)
                    then Some ''Guitar'' else None
      | Music \<Rightarrow> if list_ex (\<lambda>r. mmus_active r \<and> mmus_id r = i \<and> mmus_area r = area) (mc_music cat)
                    then Some ''Music'' else None
      | _ \<Rightarrow> None)"

definition legacy_catalog :: "master_catalog \<Rightarrow> legacy_item_view list" where
  "legacy_catalog cat = List.map_filter (\<lambda>item.
     let kind = lip_kind item; area = lip_area item; i = lip_id item
     in if (kind, i) \<in> protected_reward_content cat then None
        else map_option (\<lambda>table. legacy_item cat kind table area i) (legacy_present cat kind area i))
     (legacy_items embedded_policy)"

section \<open>Facts\<close>

lemma sum_collect_unit: "sum_collect f xs = Inr ys \<Longrightarrow> x \<in> set xs \<Longrightarrow> \<exists>y. f x = Inr y"
  by (induction xs arbitrary: ys) (auto simp: sum_bind_Inr)

lemma sum_collect_units: "\<forall>x\<in>set xs. f x = Inr () \<Longrightarrow> \<exists>ys. sum_collect f xs = Inr ys"
  by (induction xs) (auto simp: sum_bind_def)

fun item_rewards :: "memorial_shop_item \<Rightarrow> int \<Rightarrow> memorial_shop_reward list \<Rightarrow> master_reward list" where
  "item_rewards item k [] = []"
| "item_rewards item k (r # rs) =
     reward_row (shi_reward_group item * 100 + (k + 1)) (shi_reward_group item) r # item_rewards item (k + 1) rs"

fun item_reward_rows :: "memorial_shop_item \<Rightarrow> int \<Rightarrow> memorial_shop_reward list \<Rightarrow> master_row list" where
  "item_reward_rows item k [] = []"
| "item_reward_rows item k (r # rs) =
     reward_master_row (shi_reward_group item * 100 + (k + 1)) (shi_reward_group item) r
       # item_reward_rows item (k + 1) rs"

lemma push_row_simps [simp]:
  "mc_shops (push_row t r cat) = mc_shops cat" "mc_reward_groups (push_row t r cat) = mc_reward_groups cat"
  "tbl_get (mc_game_data (push_row t r cat)) u =
     map_option (\<lambda>rows. if u = t then rows @ [r] else rows) (tbl_get (mc_game_data cat) u)"
  by (auto simp: push_row_def tbl_get_at option.map_ident)

lemma push_rewards_effect:
  assumes "push_rewards item k rs cat = Inr c"
  shows "mc_shops c = mc_shops cat \<and> mc_reward_groups c = mc_reward_groups cat @ item_rewards item k rs
    \<and> tbl_get (mc_game_data c) ''Shop'' = tbl_get (mc_game_data cat) ''Shop''
    \<and> tbl_get (mc_game_data c) ''Reward_group'' =
        map_option (\<lambda>rows. rows @ item_reward_rows item k rs) (tbl_get (mc_game_data cat) ''Reward_group'')"
  using assms
proof (induction rs arbitrary: k cat)
  case Nil
  then show ?case by (simp add: option.map_ident)
next
  case (Cons r rs)
  from Cons.prems have p: "push_rewards item (k + 1) rs (push_row ''Reward_group''
      (reward_master_row (shi_reward_group item * 100 + (k + 1)) (shi_reward_group item) r)
      (cat\<lparr>mc_reward_groups := mc_reward_groups cat
         @ [reward_row (shi_reward_group item * 100 + (k + 1)) (shi_reward_group item) r]\<rparr>)) = Inr c"
    by (simp add: Let_def split: if_splits)
  show ?case using Cons.IH [OF p] by (simp add: option.map_comp comp_def option.map_ident)
qed

lemma push_items_effect:
  assumes "push_items shop items cat = Inr c"
  shows "mc_shops c = mc_shops cat @ map (shop_row shop) items
    \<and> mc_reward_groups c = mc_reward_groups cat @ concat (map (\<lambda>i. item_rewards i 0 (shi_rewards i)) items)
    \<and> tbl_get (mc_game_data c) ''Shop'' =
        map_option (\<lambda>rows. rows @ map (memorial_shop_master_row shop) items) (tbl_get (mc_game_data cat) ''Shop'')
    \<and> tbl_get (mc_game_data c) ''Reward_group'' =
        map_option (\<lambda>rows. rows @ concat (map (\<lambda>i. item_reward_rows i 0 (shi_rewards i)) items))
          (tbl_get (mc_game_data cat) ''Reward_group'')"
  using assms
proof (induction items arbitrary: cat)
  case Nil
  then show ?case by (simp add: option.map_ident)
next
  case (Cons item items)
  then obtain c' where p: "push_rewards item 0 (shi_rewards item) (push_row ''Shop'' (memorial_shop_master_row shop item)
      (cat\<lparr>mc_shops := mc_shops cat @ [shop_row shop item]\<rparr>)) = Inr c'" and q: "push_items shop items c' = Inr c"
    by (auto simp: sum_bind_Inr)
  show ?case
    using Cons.IH [OF q] push_rewards_effect [OF p] by (simp add: option.map_comp comp_def option.map_ident)
qed

lemma item_rewards_facts:
  "r \<in> set (item_rewards item k rs) \<Longrightarrow> mrew_group r = shi_reward_group item"
  "map (\<lambda>r. (mrew_reward_type r, mrew_reward_id r, mrew_quantity r)) (item_rewards item k rs)
     = map (\<lambda>r. (shr_reward_type r, shr_id r, shr_quantity r)) rs"
  "length (item_rewards item k rs) = length rs" "length (item_reward_rows item k rs) = length rs"
  by (induction rs arbitrary: k) (auto simp: reward_row_def)

lemma item_rewards_rows: "r \<in> set (item_rewards item k rs) \<Longrightarrow> shi_reward_group item * 100 + k < mrew_row_id r"
proof (induction rs arbitrary: k)
  case (Cons r' rs)
  from Cons.prems have "r = reward_row (shi_reward_group item * 100 + (k + 1)) (shi_reward_group item) r'
      \<or> r \<in> set (item_rewards item (k + 1) rs)" by simp
  then show ?case
  proof
    assume "r \<in> set (item_rewards item (k + 1) rs)"
    from Cons.IH [OF this] show ?thesis by simp
  qed (simp add: reward_row_def)
qed simp

lemma item_rewards_sorted:
  "sorted (map (\<lambda>r. (mrew_group r, mrew_row_id r)) (item_rewards item k rs))"
proof (induction rs arbitrary: k)
  case (Cons r rs)
  have "\<forall>x\<in>set (item_rewards item (k + 1) rs).
      (shi_reward_group item, shi_reward_group item * 100 + (k + 1)) \<le> (mrew_group x, mrew_row_id x)"
  proof
    fix x assume x: "x \<in> set (item_rewards item (k + 1) rs)"
    show "(shi_reward_group item, shi_reward_group item * 100 + (k + 1)) \<le> (mrew_group x, mrew_row_id x)"
      using item_rewards_facts(1) [OF x] item_rewards_rows [OF x] by (simp add: less_eq_prod_def)
  qed
  with Cons.IH [of "k + 1"] show ?case by (simp add: reward_row_def)
qed simp

lemma sort_key_sorted: "sorted (map f xs) \<Longrightarrow> sort_key f xs = xs"
proof (induction xs)
  case (Cons x xs)
  then show ?case by (cases xs) auto
qed simp

lemma reward_master_row_group: "row_has ''group'' i (reward_master_row row_id grp r) \<longleftrightarrow> grp = i"
  by (simp add: row_has_def master_row_i64_def reward_master_row_def collect_map_def tbl_get_def)

lemma shop_texts_id: "tbl_get (shop_texts item locale row) ''id'' = tbl_get row ''id''"
  by (simp add: shop_texts_def Let_def split: prod.splits)

lemma memorial_shop_master_row_id: "row_has ''id'' i (memorial_shop_master_row shop item) \<longleftrightarrow> shi_id item = i"
proof -
  have "tbl_get (fold (shop_texts item) ls row) ''id'' = tbl_get row ''id''" for ls row
    by (induction ls arbitrary: row) (simp_all add: shop_texts_id)
  moreover have "tbl_get (shop_columns shop item) ''id'' = Some (MInteger (shi_id item))"
    by (simp add: shop_columns_def collect_map_def tbl_get_def)
  ultimately show ?thesis by (simp add: row_has_def master_row_i64_def memorial_shop_master_row_def)
qed

lemma find_filter: "find P xs = (case filter P xs of [] \<Rightarrow> None | x # _ \<Rightarrow> Some x)"
  by (induction xs) auto

lemma item_reward_rows_group:
  "r \<in> set (item_reward_rows item k rs) \<Longrightarrow> row_has ''group'' g r \<longleftrightarrow> shi_reward_group item = g"
  by (induction rs arbitrary: k) (auto simp: reward_master_row_group)

lemma filter_concat_item:
  assumes "distinct (map f items)" "item \<in> set items"
    and "\<And>i x. i \<in> set items \<Longrightarrow> x \<in> set (g i) \<Longrightarrow> P x \<longleftrightarrow> f i = f item"
  shows "filter P (concat (map g items)) = g item"
  using assms
proof (induction items)
  case (Cons i items)
  show ?case
  proof (cases "i = item")
    case True
    have "filter P (g item) = g item" using Cons.prems(3) [of item] True by (simp add: filter_id_conv)
    moreover have "\<forall>j\<in>set items. \<forall>x\<in>set (g j). \<not> P x"
      using Cons.prems True by (fastforce simp: image_iff)
    then have "filter P (concat (map g items)) = []" by (auto simp: filter_empty_conv)
    ultimately show ?thesis using True by simp
  next
    case False
    then have m: "item \<in> set items" using Cons.prems(2) by simp
    then have "f i \<noteq> f item" using Cons.prems(1) by (auto simp: image_iff)
    then have "filter P (g i) = []" using Cons.prems(3) [of i] by (auto simp: filter_empty_conv)
    with Cons.IH [OF _ m] Cons.prems show ?thesis by simp
  qed
qed simp

definition shop_distinct :: "memorial_shop_policy \<Rightarrow> bool" where
  "shop_distinct shop \<longleftrightarrow> shp_items shop \<noteq> [] \<and> distinct (map shi_id (shp_items shop))
     \<and> distinct (map shi_reward_group (shp_items shop))"

lemma embedded_shop_distinct: "shop_distinct (memorial_shop embedded_policy)"
  by (simp add: shop_distinct_def embedded_policy_def embedded_shop_items_def shop_item_def)

lemma filter_map_item:
  assumes "distinct (map f items)" "item \<in> set items" "\<And>i. P (h i) \<longleftrightarrow> f i = f item"
  shows "filter P (map h items) = [h item]"
  using filter_concat_item [of f items item "\<lambda>i. [h i]" P] assms by (simp add: comp_def)

lemma overlay_absent:
  assumes "overlay_present shop cat = (0, 0)"
  shows "filter (\<lambda>r. msho_id r \<in> shi_id ` set (shp_items shop)) (mc_shops cat) = []"
    and "filter (\<lambda>r. mrew_group r \<in> shi_reward_group ` set (shp_items shop)) (mc_reward_groups cat) = []"
  using assms by (simp_all add: overlay_present_def)

lemma length_filter_sort: "length (filter P (sort_key f xs)) = length (filter P xs)"
  by (simp add: filter_sort)

lemma overlay_counts:
  assumes absent: "overlay_present shop cat = (0, 0)"
    and pushed: "push_items shop (shp_items shop) cat = Inr c"
  shows "overlay_present shop (sort_overlay c) =
    (length (shp_items shop), sum_list (map (length \<circ> shi_rewards) (shp_items shop)))"
proof -
  note e = push_items_effect [OF pushed]
  have s: "filter (\<lambda>r. msho_id r \<in> shi_id ` set (shp_items shop)) (mc_shops c)
      = map (shop_row shop) (shp_items shop)"
    using e overlay_absent(1) [OF absent] by (auto simp: filter_id_conv shop_row_def)
  have "filter (\<lambda>r. mrew_group r \<in> shi_reward_group ` set (shp_items shop))
      (concat (map (\<lambda>i. item_rewards i 0 (shi_rewards i)) (shp_items shop)))
    = concat (map (\<lambda>i. item_rewards i 0 (shi_rewards i)) (shp_items shop))"
    by (auto simp: filter_id_conv item_rewards_facts(1))
  then have r: "filter (\<lambda>r. mrew_group r \<in> shi_reward_group ` set (shp_items shop)) (mc_reward_groups c)
      = concat (map (\<lambda>i. item_rewards i 0 (shi_rewards i)) (shp_items shop))"
    using e overlay_absent(2) [OF absent] by simp
  show ?thesis
    by (simp add: overlay_present_def sort_overlay_def length_filter_sort s r length_concat comp_def
      item_rewards_facts(3))
qed

lemma overlay_shop_found:
  assumes d: "shop_distinct shop" and absent: "overlay_present shop cat = (0, 0)"
    and pushed: "push_items shop (shp_items shop) cat = Inr c" and item: "item \<in> set (shp_items shop)"
  shows "find (\<lambda>r. msho_id r = shi_id item) (mc_shops (sort_overlay c)) = Some (shop_row shop item)"
proof -
  have "filter (\<lambda>r. msho_id r = shi_id item) (mc_shops cat) = []"
    using overlay_absent(1) [OF absent] item by (auto simp: filter_empty_conv)
  moreover have "filter (\<lambda>r. msho_id r = shi_id item) (map (shop_row shop) (shp_items shop)) = [shop_row shop item]"
    by (rule filter_map_item [where f = shi_id]) (use d item in \<open>auto simp: shop_distinct_def shop_row_def\<close>)
  ultimately have "filter (\<lambda>r. msho_id r = shi_id item) (mc_shops c) = [shop_row shop item]"
    using push_items_effect [OF pushed] by simp
  then show ?thesis by (simp add: find_filter sort_overlay_def filter_sort)
qed

lemma overlay_rewards_found:
  assumes d: "shop_distinct shop" and absent: "overlay_present shop cat = (0, 0)"
    and pushed: "push_items shop (shp_items shop) cat = Inr c" and item: "item \<in> set (shp_items shop)"
  shows "filter (\<lambda>r. mrew_group r = shi_reward_group item) (mc_reward_groups (sort_overlay c))
    = item_rewards item 0 (shi_rewards item)"
proof -
  have "filter (\<lambda>r. mrew_group r = shi_reward_group item) (mc_reward_groups cat) = []"
    using overlay_absent(2) [OF absent] item by (auto simp: filter_empty_conv)
  moreover have "filter (\<lambda>r. mrew_group r = shi_reward_group item)
      (concat (map (\<lambda>i. item_rewards i 0 (shi_rewards i)) (shp_items shop)))
    = item_rewards item 0 (shi_rewards item)"
    by (rule filter_concat_item [where f = shi_reward_group])
      (use d item in \<open>auto simp: shop_distinct_def item_rewards_facts(1)\<close>)
  ultimately have "filter (\<lambda>r. mrew_group r = shi_reward_group item) (mc_reward_groups c)
      = item_rewards item 0 (shi_rewards item)"
    using push_items_effect [OF pushed] by simp
  then show ?thesis by (simp add: sort_overlay_def filter_sort sort_key_sorted item_rewards_sorted)
qed

lemma overlay_checks:
  assumes d: "shop_distinct shop" and absent: "overlay_present shop cat = (0, 0)"
    and pushed: "push_items shop (shp_items shop) cat = Inr c" and item: "item \<in> set (shp_items shop)"
    and free: "free_shop_item cat shop_rows reward_rows item = Inr ()"
  shows "check_shop_item shop (sort_overlay c) (shop_rows @ map (memorial_shop_master_row shop) (shp_items shop))
    (reward_rows @ concat (map (\<lambda>i. item_reward_rows i 0 (shi_rewards i)) (shp_items shop))) item = Inr ()"
proof -
  have "filter (row_has ''group'' (shi_reward_group item)) reward_rows = []"
    using free by (auto simp: free_shop_item_def list_ex_iff filter_empty_conv split: if_splits)
  moreover have "filter (row_has ''group'' (shi_reward_group item))
      (concat (map (\<lambda>i. item_reward_rows i 0 (shi_rewards i)) (shp_items shop)))
    = item_reward_rows item 0 (shi_rewards item)"
    by (rule filter_concat_item [where f = shi_reward_group])
      (use d item in \<open>auto simp: shop_distinct_def item_reward_rows_group\<close>)
  moreover have "list_ex (row_has ''id'' (shi_id item)) (map (memorial_shop_master_row shop) (shp_items shop))"
    using item by (auto simp: list_ex_iff memorial_shop_master_row_id)
  ultimately show ?thesis
    unfolding check_shop_item_def overlay_shop_found [OF d absent pushed item]
      overlay_rewards_found [OF d absent pushed item] item_rewards_facts(2)
    by (simp add: item_rewards_facts(4)) (simp add: shop_row_def)
qed

lemma shop_overlay_reapplied:
  assumes d: "shop_distinct shop"
  shows "case apply_memorial_shop_policy shop cat of Inl _ \<Rightarrow> True
   | Inr cat' \<Rightarrow> apply_memorial_shop_policy shop cat' = Inr cat'
       \<and> mset (mc_shops cat) \<subseteq># mset (mc_shops cat')
       \<and> mset (mc_reward_groups cat) \<subseteq># mset (mc_reward_groups cat')"
proof (cases "apply_memorial_shop_policy (shop) cat")
  case (Inr cat')
  obtain shop_rows where st: "tbl_get (mc_game_data cat) ''Shop'' = Some shop_rows"
    using Inr by (cases "tbl_get (mc_game_data cat) ''Shop''")
      (auto simp: apply_memorial_shop_policy_def expect_some_def sum_bind_def)
  obtain reward_rows where rt: "tbl_get (mc_game_data cat) ''Reward_group'' = Some reward_rows"
    using Inr st by (cases "tbl_get (mc_game_data cat) ''Reward_group''")
      (auto simp: apply_memorial_shop_policy_def expect_some_def sum_bind_def)
  have unfolded: "(let (shops, rewards) = overlay_present shop cat;
         expected = sum_list (map (length \<circ> shi_rewards) (shp_items shop))
     in if shops \<noteq> 0 \<or> rewards \<noteq> 0
        then if shops \<noteq> length (shp_items shop) \<or> rewards \<noteq> expected
             then Inl (''partial memorial shop overlay: '' @ show_nat shops @ ''/''
                    @ show_nat (length (shp_items shop)) @ '' shops and '' @ show_nat rewards @ ''/''
                    @ show_nat expected @ '' rewards'')
             else sum_bind (sum_collect (check_shop_item shop cat shop_rows reward_rows) (shp_items shop))
                    (\<lambda>_. Inr cat)
        else sum_bind (sum_collect (free_shop_item cat shop_rows reward_rows) (shp_items shop)) (\<lambda>_.
             sum_bind (push_items shop (shp_items shop) cat) (\<lambda>cat'. Inr (sort_overlay cat')))) = Inr cat'"
    using Inr st rt by (simp add: apply_memorial_shop_policy_def expect_some_def sum_bind_def)
  show ?thesis
  proof (cases "overlay_present shop cat = (0, 0)")
    case False
    then have "cat' = cat" using unfolded
      by (cases "overlay_present shop cat") (auto simp: Let_def sum_bind_Inr split: if_splits)
    with Inr show ?thesis by simp
  next
    case absent: True
    then obtain us c where free: "sum_collect (free_shop_item cat shop_rows reward_rows) (shp_items shop) = Inr us"
      and pushed: "push_items shop (shp_items shop) cat = Inr c" and c': "cat' = sort_overlay c"
      using unfolded by (auto simp: Let_def sum_bind_Inr)
    note e = push_items_effect [OF pushed]
    have "check_shop_item shop cat' (shop_rows @ map (memorial_shop_master_row shop) (shp_items shop))
        (reward_rows @ concat (map (\<lambda>i. item_reward_rows i 0 (shi_rewards i)) (shp_items shop))) item = Inr ()"
      if "item \<in> set (shp_items shop)" for item
      using overlay_checks [OF d absent pushed that] sum_collect_unit [OF free that] by (auto simp: c')
    then have "\<forall>item\<in>set (shp_items shop). check_shop_item shop cat'
        (shop_rows @ map (memorial_shop_master_row shop) (shp_items shop))
        (reward_rows @ concat (map (\<lambda>i. item_reward_rows i 0 (shi_rewards i)) (shp_items shop))) item = Inr ()"
      by blast
    from sum_collect_units [OF this] obtain ys where ok: "sum_collect (check_shop_item shop cat'
        (shop_rows @ map (memorial_shop_master_row shop) (shp_items shop))
        (reward_rows @ concat (map (\<lambda>i. item_reward_rows i 0 (shi_rewards i)) (shp_items shop))))
        (shp_items shop) = Inr ys" ..
    have "tbl_get (mc_game_data cat') ''Shop'' = Some (shop_rows @ map (memorial_shop_master_row shop) (shp_items shop))"
      "tbl_get (mc_game_data cat') ''Reward_group'' = Some (reward_rows
         @ concat (map (\<lambda>i. item_reward_rows i 0 (shi_rewards i)) (shp_items shop)))"
      using e st rt by (simp_all add: c' sort_overlay_def)
    moreover have "overlay_present shop cat' =
        (length (shp_items shop), sum_list (map (length \<circ> shi_rewards) (shp_items shop)))"
      using overlay_counts [OF absent pushed] c' by simp
    moreover have "shp_items shop \<noteq> []" using d by (simp add: shop_distinct_def)
    ultimately have "apply_memorial_shop_policy shop cat' = Inr cat'"
      using ok by (simp add: apply_memorial_shop_policy_def expect_some_def sum_bind_def)
    moreover have "mset (mc_shops cat) \<subseteq># mset (mc_shops cat')"
      "mset (mc_reward_groups cat) \<subseteq># mset (mc_reward_groups cat')"
      using e by (simp_all add: c' sort_overlay_def)
    ultimately show ?thesis using Inr by simp
  qed
qed simp

text \<open>The shop overlay is applied once. Starting on a catalog to which the embedded shop has been
applied accepts it as it is and adds nothing, and every shop and reward of the source is kept.\<close>

theorem shop_overlay_idempotent:
  "case apply_memorial_shop_policy (memorial_shop embedded_policy) cat of Inl _ \<Rightarrow> True
   | Inr cat' \<Rightarrow> apply_memorial_shop_policy (memorial_shop embedded_policy) cat' = Inr cat'
       \<and> mset (mc_shops cat) \<subseteq># mset (mc_shops cat')
       \<and> mset (mc_reward_groups cat) \<subseteq># mset (mc_reward_groups cat')"
  by (rule shop_overlay_reapplied [OF embedded_shop_distinct])

end
