(* ===== verification/Requests.thy ===== *)
theory Requests
  imports Prices
begin

text \<open>
  What the gameplay handlers read from a request (\<open>crates/transport-http/src/gameplay.rs\<close>): the
  fields of nested structs, the rows of the music records, and the snapshot that \<open>userSave\<close> sends.
  The integers of the wire are read as \<open>i64\<close> and narrowed by \<open>as\<close>.
\<close>

section \<open>Fields\<close>

definition struct_fields :: "wire_value \<Rightarrow> field list option" where
  "struct_fields v = (case v of VStruct fs \<Rightarrow> Some fs | _ \<Rightarrow> None)"

definition field_value_at :: "field list \<Rightarrow> int \<Rightarrow> wire_value option" where
  "field_value_at fs i = map_option field_value (find (\<lambda>f. field_id f = word_of_int i) fs)"

definition nested_field :: "wire_value \<Rightarrow> int \<Rightarrow> wire_value option" where
  "nested_field v i = Option.bind (struct_fields v) (\<lambda>fs. field_value_at fs i)"

definition value_integer :: "wire_value option \<Rightarrow> int option" where
  "value_integer v = Option.bind v wire_integer"

definition value_double :: "wire_value option \<Rightarrow> f64 option" where
  "value_double v = Option.bind v (\<lambda>w. case w of
       VDouble b \<Rightarrow> Some (f64_from_bits b) | _ \<Rightarrow> map_option f64_of_int (wire_integer w))"

definition value_text :: "wire_value option \<Rightarrow> string option" where
  "value_text v = Option.bind v (\<lambda>w. case w of VString b \<Rightarrow> from_utf8 b | _ \<Rightarrow> None)"

definition list_values :: "wire_value option \<Rightarrow> wire_value list" where
  "list_values v = (case v of Some (VList _ values) \<Rightarrow> values | _ \<Rightarrow> [])"

definition field_integer :: "field list \<Rightarrow> int \<Rightarrow> int option" where
  "field_integer fs i = Option.bind (field_value_at fs i) wire_integer"

definition field_number :: "field list \<Rightarrow> int \<Rightarrow> f64 option" where
  "field_number fs i = Option.bind (field_value_at fs i) (\<lambda>w. case w of
       VDouble b \<Rightarrow> Some (f64_from_bits b) | _ \<Rightarrow> map_option f64_of_int (wire_integer w))"

definition field_text :: "field list \<Rightarrow> int \<Rightarrow> string option" where
  "field_text fs i = Option.bind (field_value_at fs i) (\<lambda>w.
     case w of VString b \<Rightarrow> from_utf8 b | _ \<Rightarrow> None)"

definition tutorial_step_from_text :: "string \<Rightarrow> int option" where
  "tutorial_step_from_text value =
     (let steps = List.map_filter parse_i64 (split_at (\<lambda>c. \<not> is_digit c) value)
      in if steps = [] then None else Some (Max (set steps)))"

section \<open>Music records\<close>

abbreviation missing :: "string \<Rightarrow> 'a option \<Rightarrow> gameplay_error + 'a" where
  "missing what v \<equiv> expect_some (Invalid what) v"

definition parse_music_review :: "wire_value \<Rightarrow> gameplay_error + music_review_snapshot" where
  "parse_music_review v =
     sum_bind (missing ''review row missing Music_idx'' (value_integer (nested_field v 1))) (\<lambda>music.
     sum_bind (missing ''review row missing Point'' (value_double (nested_field v 2))) (\<lambda>point.
     sum_bind (missing ''review row missing Difficulty'' (value_integer (nested_field v 3))) (\<lambda>difficulty.
     Inr \<lparr>mr_music_id = wrap_i32 music, mr_difficulty = wrap_i16 difficulty, mr_point = point\<rparr>)))"

definition parse_music_reviews :: "named_request \<Rightarrow> gameplay_error + music_review_snapshot list" where
  "parse_music_reviews request =
     sum_collect parse_music_review (or_else [] (request_list request ''Review_point''))"

definition parse_bookmark :: "wire_value \<Rightarrow> gameplay_error + bookmark_snapshot" where
  "parse_bookmark v =
     sum_bind (missing ''bookmark row missing Flag'' (value_integer (nested_field v 2))) (\<lambda>n.
     let flag = wrap_i16 n
     in if flag \<noteq> 0 \<and> flag \<noteq> 1 then Inl (Invalid (''invalid bookmark flag '' @ show_int flag))
        else sum_bind (missing ''bookmark row missing Music_idx'' (value_integer (nested_field v 1))) (\<lambda>music.
             Inr \<lparr>bm_music_id = wrap_i32 music, bm_flag = flag\<rparr>))"

definition parse_bookmarks :: "named_request \<Rightarrow> gameplay_error + bookmark_snapshot list" where
  "parse_bookmarks request = sum_collect parse_bookmark (or_else [] (request_list request ''Bookmark_list''))"

definition parse_music_score :: "wire_value \<Rightarrow> music_score_snapshot" where
  "parse_music_score v =
     (let n32 = (\<lambda>i. wrap_i32 (or_else 0 (value_integer (nested_field v i))));
          n16 = (\<lambda>i. wrap_i16 (or_else 0 (value_integer (nested_field v i))))
      in \<lparr>ms_music_id = n32 1, ms_difficulty = n16 5, ms_score = n32 2, ms_grade = n16 3,
          ms_play_count = n32 4, ms_combo_grade = n16 12, ms_gp = n32 7,
          ms_multiple = or_else (Fin 1) (value_double (nested_field v 6)), ms_achievement = n16 8,
          ms_play_type = n16 9, ms_played_at = or_else [] (value_text (nested_field v 10)),
          ms_mission_clear = n16 11, ms_is_credit = n16 13\<rparr>)"

definition parse_music_scores :: "named_request \<Rightarrow> music_score_snapshot list" where
  "parse_music_scores request = map parse_music_score (or_else [] (request_list request ''Score_list''))"

section \<open>The snapshot of userSave\<close>

definition content_area_exact :: "master_catalog \<Rightarrow> content_kind \<Rightarrow> int \<Rightarrow> int option" where
  "content_area_exact cat kind i =
     (case kind of
        Costume \<Rightarrow> map_option mcos_area (find (\<lambda>r. mcos_id r = i) (mc_costumes cat))
      | Guitar \<Rightarrow> map_option mgui_area (find (\<lambda>r. mgui_id r = i) (mc_guitars cat))
      | Music \<Rightarrow> map_option mmus_area (find (\<lambda>r. mmus_id r = i) (mc_music cat))
      | _ \<Rightarrow> Some 1)"

definition content_area :: "master_catalog \<Rightarrow> content_kind \<Rightarrow> int \<Rightarrow> int" where
  "content_area cat kind i = or_else 1 (content_area_exact cat kind i)"

definition validated_equipped_id :: "master_catalog \<Rightarrow> content_kind \<Rightarrow> int \<Rightarrow> int option \<Rightarrow> int option" where
  "validated_equipped_id cat kind expected_area content =
     Option.bind content (\<lambda>i.
       if 0 < i \<and> content_area_exact cat kind i = Some expected_area then Some i else None)"

definition only_i32 :: "int option \<Rightarrow> int option" where
  "only_i32 v = Option.bind v (\<lambda>i. if in_i32 i then Some i else None)"

definition save_rows :: "named_request \<Rightarrow> string \<Rightarrow> field list list" where
  "save_rows request name = List.map_filter struct_fields (list_values (request_value request name))"

definition parse_core :: "master_catalog \<Rightarrow> field list \<Rightarrow> core_save_patch" where
  "parse_core cat fs =
     \<lparr>csp_ch1_like = field_number fs 1, csp_fans = field_integer fs 2,
      csp_fan_level = only_i32 (field_integer fs 3),
      csp_current_costume = validated_equipped_id cat Costume 1 (field_integer fs 4),
      csp_current_music = validated_equipped_id cat Music 1 (field_integer fs 5)\<rparr>"

definition parse_area :: "master_catalog \<Rightarrow> field list \<Rightarrow> area_save_patch option" where
  "parse_area cat fs =
     map_option (\<lambda>area.
       \<lparr>asp_area = area, asp_like_amount = field_number fs 2, asp_fans = field_integer fs 3,
        asp_fan_level = only_i32 (field_integer fs 4),
        asp_current_costume = validated_equipped_id cat Costume area (field_integer fs 5),
        asp_current_music = validated_equipped_id cat Music area (field_integer fs 6),
        asp_current_guitar = validated_equipped_id cat Guitar area (field_integer fs 7),
        asp_candy = field_number fs 8, asp_tutorial_list = field_text fs 9,
        asp_gp1 = field_text fs 10, asp_gp2 = field_text fs 11\<rparr>)
     (only_i32 (field_integer fs 1))"

definition saved_content_fields :: "(string \<times> content_kind) list" where
  "saved_content_fields =
     [(''User_character'', Character), (''User_costume'', Costume), (''User_follower'', Follower),
      (''User_music'', Music), (''User_guitar'', Guitar)]"

definition parse_content :: "master_catalog \<Rightarrow> content_kind \<Rightarrow> field list \<Rightarrow> content_save_patch option" where
  "parse_content cat kind fs =
     Option.bind (field_integer fs 1) (\<lambda>i.
     Option.bind (content_area_exact cat kind i) (\<lambda>area.
     Some \<lparr>cnp_kind = kind, cnp_area = area, cnp_content_id = i, cnp_level = field_integer fs 2,
           cnp_reward_level = field_integer fs 3\<rparr>))"

definition parse_music_state :: "field list \<Rightarrow> music_state_save_patch option" where
  "parse_music_state fs =
     Option.bind (field_integer fs 1) (\<lambda>i.
     Some \<lparr>msp_music_id = i, msp_encore_appears = (or_else 0 (field_integer fs 4) \<noteq> 0),
           msp_encore_follower_id =
             Option.bind (field_integer fs 5) (\<lambda>f. if 0 < f then Some f else None)\<rparr>)"

definition parse_progress_row :: "bool \<Rightarrow> field list \<Rightarrow> progress_save_patch option" where
  "parse_progress_row text_quantity fs =
     Option.bind (field_integer fs 1) (\<lambda>i.
     Option.bind (field_number fs 2) (\<lambda>quantity.
     Some \<lparr>prp_id = i, prp_quantity = quantity,
           prp_quantity_text = (if text_quantity then field_text fs 3 else None)\<rparr>))"

definition parse_progress :: "named_request \<Rightarrow> string \<Rightarrow> bool \<Rightarrow> progress_save_patch list" where
  "parse_progress request name text_quantity =
     List.map_filter (parse_progress_row text_quantity) (save_rows request name)"

definition parse_skill :: "field list \<Rightarrow> skill_activation_save_patch option" where
  "parse_skill fs =
     Option.bind (field_integer fs 1) (\<lambda>i.
     Some \<lparr>sap_skill_id = i, sap_active = (or_else 0 (field_integer fs 2) \<noteq> 0),
           sap_active_from = or_else 0 (field_integer fs 3),
           sap_active_until = or_else 0 (field_integer fs 4)\<rparr>)"

definition parse_messenger :: "field list \<Rightarrow> messenger_save_patch option" where
  "parse_messenger fs =
     Option.bind (field_integer fs 1) (\<lambda>i.
     Some \<lparr>mgp_room_id = i, mgp_last_confirm_index = or_else 0 (field_integer fs 2),
           mgp_unlock_group_list = or_else [] (field_text fs 3),
           mgp_update_time_ticks = or_else 0 (field_integer fs 4)\<rparr>)"

definition parse_pass_progress :: "field list \<Rightarrow> pass_progress_save_patch option" where
  "parse_pass_progress fs =
     Option.bind (field_integer fs 2) (\<lambda>season.
     Some \<lparr>ppp_event_type = or_else [] (field_text fs 1), ppp_season = season,
           ppp_points = or_else 0 (field_integer fs 3),
           ppp_step = clamp_int 0 i32_max (or_else 0 (field_integer fs 4)),
           ppp_version = clamp_int 0 i32_max (or_else 0 (field_integer fs 5))\<rparr>)"

definition parse_quest :: "field list \<Rightarrow> follower_quest_save_patch option" where
  "parse_quest fs =
     Option.bind (field_integer fs 1) (\<lambda>i.
     Some \<lparr>fqp_current_id = i,
           fqp_condition_values = (or_else fzero (field_number fs 2), or_else fzero (field_number fs 3),
                                   or_else fzero (field_number fs 4))\<rparr>)"

definition parse_user_save :: "master_catalog \<Rightarrow> named_request \<Rightarrow> user_save_patch" where
  "parse_user_save cat request =
     \<lparr>usp_core = (case list_values (request_value request ''User_info'') of
         [] \<Rightarrow> None | v # _ \<Rightarrow> map_option (parse_core cat) (struct_fields v)),
      usp_areas = List.map_filter (parse_area cat) (save_rows request ''User_area_info''),
      usp_content = concat (map (\<lambda>(name, kind).
         List.map_filter (parse_content cat kind) (save_rows request name)) saved_content_fields),
      usp_music_states = List.map_filter parse_music_state (save_rows request ''User_music''),
      usp_achievements = parse_progress request ''User_achievement'' True,
      usp_daily_missions = parse_progress request ''User_daily_mission'' False,
      usp_skill_activations = List.map_filter parse_skill (save_rows request ''User_skill''),
      usp_messengers = List.map_filter parse_messenger (save_rows request ''User_messenger''),
      usp_pass_progress = List.map_filter parse_pass_progress (save_rows request ''User_event_point''),
      usp_follower_quests = List.map_filter parse_quest (save_rows request ''User_follower_quest'')\<rparr>"

section \<open>Facts\<close>

lemma map_filter_list_all:
  "(\<And>x y. f x = Some y \<Longrightarrow> P y) \<Longrightarrow> list_all P (List.map_filter f xs)"
  by (auto simp: List.map_filter_def list_all_iff)

lemma sum_collect_set: "sum_collect f xs = Inr ys \<Longrightarrow> y \<in> set ys \<Longrightarrow> \<exists>x\<in>set xs. f x = Inr y"
  by (induction xs arbitrary: ys) (auto simp: sum_bind_Inr)

text \<open>An equipped item, when there is one, is one of the catalog and of that area.\<close>

definition worn_in :: "master_catalog \<Rightarrow> content_kind \<Rightarrow> int \<Rightarrow> int option \<Rightarrow> bool" where
  "worn_in cat kind area worn =
     (case worn of None \<Rightarrow> True | Some i \<Rightarrow> 0 < i \<and> content_area_exact cat kind i = Some area)"

lemma validated_worn: "worn_in cat kind area (validated_equipped_id cat kind area content)"
  by (cases content) (auto simp: worn_in_def validated_equipped_id_def)

lemma parse_content_Some:
  "parse_content cat kind fs = Some c \<Longrightarrow>
     cnp_kind c = kind \<and> content_area_exact cat kind (cnp_content_id c) = Some (cnp_area c)"
  by (auto simp: parse_content_def bind_eq_Some_conv)

lemma parse_area_Some:
  "parse_area cat fs = Some a \<Longrightarrow> in_i32 (asp_area a) \<and> worn_in cat Costume (asp_area a) (asp_current_costume a)
     \<and> worn_in cat Music (asp_area a) (asp_current_music a) \<and> worn_in cat Guitar (asp_area a) (asp_current_guitar a)"
  by (auto simp: parse_area_def only_i32_def bind_eq_Some_conv validated_worn split: if_splits)

text \<open>What a client saves is of this world. Every item of a snapshot that names a costume, a guitar or
a piece of music is in the catalog and carries the area the catalog gives it, whatever the client wrote, and
what is worn in an area belongs to that area.\<close>

lemma user_save_in_catalog:
  "let patch = parse_user_save cat request
   in list_all (\<lambda>c. content_area_exact cat (cnp_kind c) (cnp_content_id c) = Some (cnp_area c)) (usp_content patch)
      \<and> list_all (\<lambda>a. in_i32 (asp_area a) \<and> worn_in cat Costume (asp_area a) (asp_current_costume a)
             \<and> worn_in cat Music (asp_area a) (asp_current_music a)
             \<and> worn_in cat Guitar (asp_area a) (asp_current_guitar a)) (usp_areas patch)
      \<and> (case usp_core patch of None \<Rightarrow> True
           | Some c \<Rightarrow> worn_in cat Costume 1 (csp_current_costume c) \<and> worn_in cat Music 1 (csp_current_music c))"
proof -
  have "list_all (\<lambda>c. content_area_exact cat (cnp_kind c) (cnp_content_id c) = Some (cnp_area c))
      (concat (map (\<lambda>(name, kind). List.map_filter (parse_content cat kind) (save_rows request name)) ks))" for ks
    by (induction ks) (auto intro!: map_filter_list_all dest: parse_content_Some)
  moreover have "list_all (\<lambda>a. in_i32 (asp_area a) \<and> worn_in cat Costume (asp_area a) (asp_current_costume a)
       \<and> worn_in cat Music (asp_area a) (asp_current_music a) \<and> worn_in cat Guitar (asp_area a) (asp_current_guitar a))
      (usp_areas (parse_user_save cat request))"
    by (simp add: parse_user_save_def map_filter_list_all parse_area_Some)
  ultimately show ?thesis
    by (auto simp: Let_def parse_user_save_def parse_core_def validated_worn split: list.splits option.splits)
qed

text \<open>The range of a bookmark flag is checked after it is narrowed to 16 bits: 65536 passes as 0.\<close>

lemma bookmark_flag_narrowed:
  "parse_bookmark (VStruct [Field 1 (VI32 7), Field 2 (VI32 65536)]) = Inr \<lparr>bm_music_id = 7, bm_flag = 0\<rparr>"
  by (simp add: parse_bookmark_def nested_field_def struct_fields_def field_value_at_def value_integer_def
    expect_some_def sum_bind_def wrap_i16_def wrap_i32_def)

end
