(* ===== verification/Notices.thy ===== *)
theory Notices
  imports Prices
begin

text \<open>
  The texts the server writes in the language of the client (\<open>crates/transport-http/src/lib.rs\<close> and
  \<open>mail_copy.rs\<close>): the memorial notice, the start notice, and the mail whose subject and body are keys.
  A text outside ASCII is given by its UTF-8 bytes.
\<close>

definition utf8 :: "nat list \<Rightarrow> string" where
  "utf8 bs = map char_of bs"

definition ends_with :: "string \<Rightarrow> string \<Rightarrow> bool" where
  "ends_with p s \<longleftrightarrow> starts_with (rev p) (rev s)"

section \<open>Languages\<close>

definition dashes :: "string \<Rightarrow> string" where
  "dashes s = map (\<lambda>c. if c = CHR ''_'' then CHR ''-'' else c) s"

definition trimmed :: "string \<Rightarrow> string" where
  "trimmed s = utf8_encode (u_trim (u_chars s))"

definition normalized_notice_locale :: "string \<Rightarrow> string" where
  "normalized_notice_locale l =
     (let v = dashes (to_lower (trimmed l))
      in if v = ''ko'' \<or> starts_with ''ko-'' v \<or> v = ''kr'' then ''ko''
         else if v = ''ja'' \<or> starts_with ''ja-'' v \<or> v = ''jp'' then ''ja''
         else if v \<in> {''zh-hans'', ''zh-chs'', ''zh-cn'', ''zh-sg'', ''chs'', ''cn''} then ''zh-Hans''
         else if v \<in> {''zh-hant'', ''zh-cht'', ''zh-tw'', ''zh-hk'', ''zh-mo'', ''cht'', ''tw''} then ''zh-Hant''
         else if v = ''vi'' \<or> starts_with ''vi-'' v then ''vi''
         else if v = ''it'' \<or> starts_with ''it-'' v then ''it''
         else if v = ''es'' \<or> starts_with ''es-'' v then ''es''
         else if v = ''pt'' \<or> starts_with ''pt-'' v then ''pt''
         else if v = ''hi'' \<or> starts_with ''hi-'' v then ''hi''
         else if v = ''th'' \<or> starts_with ''th-'' v then ''th''
         else if v = ''id'' \<or> starts_with ''id-'' v \<or> v = ''in'' \<or> starts_with ''in-'' v then ''id''
         else ''en'')"

section \<open>Texts\<close>

definition memorial_notice_copy :: "string \<Rightarrow> string \<times> string" where
  "memorial_notice_copy l =
     (if l = ''ko''
      then (''Guitar Girl '' @ utf8 [237, 140, 172, 32, 235, 169, 148, 235, 170, 168, 235, 166, 172,
            236, 150, 188, 32, 235, 185, 140, 235, 147, 156], utf8 [235, 185, 132, 234, 179, 181,
            236, 139, 157, 194, 183, 235, 185, 132, 236, 131, 129, 236, 151, 133, 236, 154, 169, 32,
            235, 179, 180, 236, 161, 180, 237, 140, 144, 236, 158, 133, 235, 139, 136, 235, 139,
            164, 46, 32, 234, 178, 140, 236, 158, 132, 32, 236, 132, 156, 235, 185, 132, 236, 138,
            164, 235, 138, 148, 32, 234, 184, 176, 234, 184, 176, 32, 236, 149, 136, 236, 151, 144,
            236, 132, 156, 235, 167, 140, 32, 236, 139, 164, 237, 150, 137, 235, 144, 169, 235, 139,
            136, 235, 139, 164, 46])
      else if l = ''ja''
      then (''Guitar Girl '' @ utf8 [227, 131, 149, 227, 130, 161, 227, 131, 179, 227, 131, 161,
            227, 131, 162, 227, 131, 170, 227, 130, 162, 227, 131, 171, 227, 131, 147, 227, 131,
            171, 227, 131, 137], utf8 [233, 157, 158, 229, 133, 172, 229, 188, 143, 227, 131, 187,
            233, 157, 158, 229, 150, 182, 229, 136, 169, 227, 129, 174, 228, 191, 157, 229, 173,
            152, 231, 137, 136, 227, 129, 167, 227, 129, 153, 227, 128, 130, 227, 130, 178, 227,
            131, 188, 227, 131, 160, 227, 130, 181, 227, 131, 188, 227, 131, 147, 227, 130, 185,
            227, 129, 175, 231, 171, 175, 230, 156, 171, 229, 134, 133, 227, 129, 160, 227, 129,
            145, 227, 129, 167, 229, 139, 149, 228, 189, 156, 227, 129, 151, 227, 129, 190, 227,
            129, 153, 227, 128, 130])
      else if l = ''zh-Hans''
      then (utf8 [229, 144, 137, 228, 187, 150, 229, 176, 145, 229, 165, 179] @
            '' Fan Memorial Build'' , utf8 [233, 157, 158, 229, 174, 152, 230, 150, 185, 227, 128,
            129, 233, 157, 158, 229, 149, 134, 228, 184, 154, 231, 154, 132, 229, 129, 156, 232,
            191, 144, 231, 186, 170, 229, 191, 181, 231, 137, 136, 227, 128, 130, 230, 137, 128,
            230, 156, 137, 230, 184, 184, 230, 136, 143, 230, 156, 141, 229, 138, 161, 228, 187,
            133, 229, 156, 168, 230, 156, 172, 230, 156, 186, 232, 191, 144, 232, 161, 140, 227,
            128, 130])
      else if l = ''zh-Hant''
      then (utf8 [229, 144, 137, 228, 187, 150, 229, 176, 145, 229, 165, 179] @
            '' Fan Memorial Build'' , utf8 [233, 157, 158, 229, 174, 152, 230, 150, 185, 227, 128,
            129, 233, 157, 158, 229, 149, 134, 230, 165, 173, 231, 154, 132, 229, 129, 156, 233,
            129, 139, 231, 180, 128, 229, 191, 181, 231, 137, 136, 227, 128, 130, 230, 137, 128,
            230, 156, 137, 233, 129, 138, 230, 136, 178, 230, 156, 141, 229, 139, 153, 229, 131,
            133, 229, 156, 168, 230, 156, 172, 230, 169, 159, 229, 159, 183, 232, 161, 140, 227,
            128, 130])
      else if l = ''vi''
      then (utf8 [66, 225, 186, 163, 110, 32, 116, 198, 176, 225, 187, 159, 110, 103, 32, 110, 105,
            225, 187, 135] @ ''m Guitar Girl'' , utf8 [66, 225, 186, 163, 110, 32, 108, 198, 176,
            117, 32, 110, 105, 225, 187, 135, 109, 32, 107, 104, 195, 180, 110, 103, 32, 99, 104,
            195, 173, 110, 104, 32, 116, 104, 225, 187, 169] @ ''c, phi th'' @ utf8 [198, 176, 198,
            161, 110, 103, 32, 109, 225, 186, 161, 105, 46, 32, 68, 225, 187, 139, 99, 104, 32, 118,
            225, 187, 165, 32, 99, 104, 225, 187, 137, 32, 99, 104, 225, 186, 161, 121, 32, 116,
            114, 195, 170, 110, 32, 116, 104, 105, 225, 186, 191, 116, 32, 98, 225, 187, 139, 46])
      else if l = ''it''
      then (''Guitar Girl Fan Memorial Build'' ,
            ''Edizione non ufficiale e non commerciale. Servizi solo sul dispositivo.'')
      else if l = ''es''
      then (''Guitar Girl Fan Memorial Build'' , utf8 [69, 100, 105, 99, 105, 195, 179] @
            ''n no oficial y no comercial. Servicios solo en este dispositivo.'')
      else if l = ''pt''
      then (''Guitar Girl Fan Memorial Build'' , utf8 [69, 100, 105, 195, 167, 195, 163, 111, 32,
            110, 195, 163] @ ''o oficial e n'' @ utf8 [195, 163] @ ''o comercial. Servi'' @ utf8
            [195, 167] @ ''os apenas neste dispositivo.'')
      else if l = ''hi''
      then (''Guitar Girl Fan Memorial Build'' , utf8 [224, 164, 133, 224, 164, 168, 224, 165, 140,
            224, 164, 170, 224, 164, 154, 224, 164, 190, 224, 164, 176, 224, 164, 191, 224, 164,
            149, 44, 32, 224, 164, 151, 224, 165, 136, 224, 164, 176, 45, 224, 164, 181, 224, 165,
            141, 224, 164, 175, 224, 164, 190, 224, 164, 181, 224, 164, 184, 224, 164, 190, 224,
            164, 175, 224, 164, 191, 224, 164, 149, 32, 224, 164, 184, 224, 165, 141, 224, 164, 174,
            224, 164, 190, 224, 164, 176, 224, 164, 149, 32, 224, 164, 184, 224, 164, 130, 224, 164,
            184, 224, 165, 141, 224, 164, 149, 224, 164, 176, 224, 164, 163, 224, 165, 164, 32, 224,
            164, 184, 224, 164, 173, 224, 165, 128, 32, 224, 164, 184, 224, 165, 135, 224, 164, 181,
            224, 164, 190, 224, 164, 143, 224, 164, 129, 32, 224, 164, 149, 224, 165, 135, 224, 164,
            181, 224, 164, 178, 32, 224, 164, 135, 224, 164, 184, 32, 224, 164, 161, 224, 164, 191,
            224, 164, 181, 224, 164, 190, 224, 164, 135, 224, 164, 184, 32, 224, 164, 170, 224, 164,
            176, 32, 224, 164, 154, 224, 164, 178, 224, 164, 164, 224, 165, 128, 32, 224, 164, 185,
            224, 165, 136, 224, 164, 130, 224, 165, 164])
      else if l = ''th''
      then (''Guitar Girl Fan Memorial Build'' , utf8 [224, 184, 137, 224, 184, 154, 224, 184, 177,
            224, 184, 154, 224, 184, 173, 224, 184, 153, 224, 184, 184, 224, 184, 170, 224, 184,
            163, 224, 184, 147, 224, 185, 140, 224, 185, 132, 224, 184, 161, 224, 185, 136, 224,
            185, 128, 224, 184, 155, 224, 185, 135, 224, 184, 153, 224, 184, 151, 224, 184, 178,
            224, 184, 135, 224, 184, 129, 224, 184, 178, 224, 184, 163, 224, 185, 129, 224, 184,
            165, 224, 184, 176, 224, 185, 132, 224, 184, 161, 224, 185, 136, 224, 185, 131, 224,
            184, 138, 224, 185, 136, 224, 185, 128, 224, 184, 138, 224, 184, 180, 224, 184, 135,
            224, 184, 158, 224, 184, 178, 224, 184, 147, 224, 184, 180, 224, 184, 138, 224, 184,
            162, 224, 185, 140, 32, 224, 184, 154, 224, 184, 163, 224, 184, 180, 224, 184, 129, 224,
            184, 178, 224, 184, 163, 224, 184, 151, 224, 184, 179, 224, 184, 135, 224, 184, 178,
            224, 184, 153, 224, 184, 154, 224, 184, 153, 224, 184, 173, 224, 184, 184, 224, 184,
            155, 224, 184, 129, 224, 184, 163, 224, 184, 147, 224, 185, 140, 224, 184, 153, 224,
            184, 181, 224, 185, 137, 224, 185, 128, 224, 184, 151, 224, 185, 136, 224, 184, 178,
            224, 184, 153, 224, 184, 177, 224, 185, 137, 224, 184, 153])
      else if l = ''id''
      then (''Guitar Girl Fan Memorial Build'' ,
            ''Edisi tidak resmi dan nonkomersial. Semua layanan hanya di perangkat ini.'')
      else (''Guitar Girl Fan Memorial Build'' ,
            ''Unofficial, non-commercial preservation build. Game services run only on this device.''))"

definition memorial_notice_features :: "string \<Rightarrow> string" where
  "memorial_notice_features l =
     (if l = ''ko''
      then utf8 [236, 132, 164, 236, 160, 149, 32, 226, 134, 146, 32, 235, 169, 148, 235, 170, 168,
            235, 166, 172, 236, 150, 188, 32, 234, 184, 176, 235, 138, 165, 58, 32, 235, 139, 168,
            236, 162, 133, 32, 236, 157, 152, 236, 131, 129, 194, 183, 234, 184, 176, 237, 131, 128,
            236, 153, 128, 32, 236, 158, 172, 237, 153, 148, 235, 165, 188, 32, 236, 154, 176, 237,
            142, 184, 236, 156, 188, 235, 161, 156, 32, 235, 176, 155, 234, 184, 176, 46, 32, 237,
            140, 168, 236, 138, 164, 32, 236, 139, 156, 236, 166, 140, 32, 235, 179, 128, 234, 178,
            189, 236, 157, 128, 32, 236, 158, 172, 236, 139, 156, 236, 158, 145, 32, 237, 155, 132,
            32, 236, 160, 129, 236, 154, 169, 235, 144, 169, 235, 139, 136, 235, 139, 164, 46]
      else if l = ''ja''
      then utf8 [232, 168, 173, 229, 174, 154, 32, 226, 134, 146, 32, 227, 131, 161, 227, 131, 162,
            227, 131, 170, 227, 130, 162, 227, 131, 171, 230, 169, 159, 232, 131, 189, 239, 188,
            154, 233, 153, 144, 229, 174, 154, 232, 161, 163, 232, 163, 133, 227, 131, 187, 227,
            130, 174, 227, 130, 191, 227, 131, 188, 227, 129, 168, 232, 179, 135, 230, 186, 144,
            227, 130, 146, 227, 131, 161, 227, 131, 188, 227, 131, 171, 227, 129, 167, 229, 143,
            151, 229, 143, 150, 227, 128, 130, 227, 131, 145, 227, 130, 185, 227, 129, 174, 230,
            156, 159, 229, 164, 137, 230, 155, 180, 227, 129, 175, 229, 134, 141, 232, 181, 183,
            229, 139, 149, 227, 129, 167, 229, 143, 141, 230, 152, 160, 227, 128, 130]
      else if l = ''zh-Hans''
      then utf8 [232, 174, 190, 231, 189, 174, 32, 226, 134, 146, 32, 231, 186, 170, 229, 191, 181,
            231, 137, 136, 229, 138, 159, 232, 131, 189, 239, 188, 154, 233, 130, 174, 228, 187,
            182, 233, 162, 134, 229, 143, 150, 231, 187, 157, 231, 137, 136, 230, 156, 141, 232,
            163, 133, 227, 128, 129, 229, 144, 137, 228, 187, 150, 229, 143, 138, 232, 181, 132,
            230, 186, 144, 239, 188, 155, 229, 136, 135, 230, 141, 162, 233, 128, 154, 232, 161,
            140, 232, 175, 129, 230, 156, 159, 230, 149, 176, 239, 188, 136, 233, 135, 141, 229,
            144, 175, 231, 148, 159, 230, 149, 136, 239, 188, 137, 227, 128, 130]
      else if l = ''zh-Hant''
      then utf8 [232, 168, 173, 229, 174, 154, 32, 226, 134, 146, 32, 231, 180, 128, 229, 191, 181,
            231, 137, 136, 229, 138, 159, 232, 131, 189, 239, 188, 154, 233, 131, 181, 228, 187,
            182, 233, 160, 152, 229, 143, 150, 231, 181, 149, 231, 137, 136, 230, 156, 141, 232,
            163, 157, 227, 128, 129, 229, 144, 137, 228, 187, 150, 229, 143, 138, 232, 179, 135,
            230, 186, 144, 239, 188, 155, 229, 136, 135, 230, 143, 155, 233, 128, 154, 232, 161,
            140, 232, 173, 137, 230, 156, 159, 230, 149, 184, 239, 188, 136, 233, 135, 141, 229,
            149, 159, 229, 165, 151, 231, 148, 168, 239, 188, 137, 227, 128, 130]
      else if l = ''vi''
      then utf8 [67, 195, 160, 105, 32, 196, 145, 225, 186, 183, 116, 32, 226, 134, 146, 32, 84,
            195, 173, 110, 104, 32, 110, 196, 131, 110, 103, 32, 116, 198, 176, 225, 187, 159, 110,
            103, 32, 110, 105, 225, 187, 135, 109, 58, 32, 110, 104, 225, 186, 173, 110, 32, 196,
            145, 225, 187, 147, 32, 104, 105, 225, 186, 191, 109, 32, 118, 195, 160, 32, 116, 195,
            160] @ ''i nguy'' @ utf8 [195, 170] @ ''n qua th'' @ utf8 [198, 176, 46, 32, 196, 144,
            225, 187, 149, 105, 32, 109, 195, 185] @ ''a pass: kh'' @ utf8 [225, 187, 159, 105, 32,
            196, 145, 225, 187, 153, 110, 103, 32, 108, 225, 186, 161, 105, 46]
      else if l = ''it''
      then ''Impostazioni '' @ utf8 [226, 134, 146] @
            '' Funzioni commemorative: abiti e chitarre ritirati, risorse via posta. Cambio pass: riavvia.''
      else if l = ''es''
      then ''Ajustes '' @ utf8 [226, 134, 146] @
            '' Funciones conmemorativas: ropa y guitarras retiradas, recursos por correo. Cambiar pase: reinicia.''
      else if l = ''pt''
      then ''Configura'' @ utf8 [195, 167, 195, 181, 101, 115, 32, 226, 134, 146] @
            '' Recursos comemorativos: roupas e guitarras antigas, recursos por correio. Trocar passe: reinicie.''
      else if l = ''hi''
      then utf8 [224, 164, 184, 224, 165, 135, 224, 164, 159, 224, 164, 191, 224, 164, 130, 224,
            164, 151, 224, 165, 141, 224, 164, 184, 32, 226, 134, 146, 32, 224, 164, 184, 224, 165,
            141, 224, 164, 174, 224, 165, 131, 224, 164, 164, 224, 164, 191, 32, 224, 164, 184, 224,
            165, 129, 224, 164, 181, 224, 164, 191, 224, 164, 167, 224, 164, 190, 224, 164, 143,
            224, 164, 129, 58, 32, 224, 164, 170, 224, 165, 129, 224, 164, 176, 224, 164, 190, 224,
            164, 168, 224, 165, 135, 32, 224, 164, 170, 224, 164, 176, 224, 164, 191, 224, 164, 167,
            224, 164, 190, 224, 164, 168, 44, 32, 224, 164, 151, 224, 164, 191, 224, 164, 159, 224,
            164, 190, 224, 164, 176, 32, 224, 164, 148, 224, 164, 176, 32, 224, 164, 184, 224, 164,
            130, 224, 164, 184, 224, 164, 190, 224, 164, 167, 224, 164, 168, 32, 224, 164, 174, 224,
            165, 135, 224, 164, 178, 32, 224, 164, 184, 224, 165, 135, 32, 224, 164, 178, 224, 165,
            135, 224, 164, 130, 224, 165, 164, 32, 224, 164, 170, 224, 164, 190, 224, 164, 184, 32,
            224, 164, 184, 224, 165, 128, 224, 164, 156, 224, 164, 188, 224, 164, 168, 32, 224, 164,
            172, 224, 164, 166, 224, 164, 178, 224, 164, 149, 224, 164, 176, 32, 224, 164, 151, 224,
            165, 135, 224, 164, 174, 32, 224, 164, 171, 224, 164, 191, 224, 164, 176, 32, 224, 164,
            150, 224, 165, 139, 224, 164, 178, 224, 165, 135, 224, 164, 130, 224, 165, 164]
      else if l = ''th''
      then utf8 [224, 184, 129, 224, 184, 178, 224, 184, 163, 224, 184, 149, 224, 184, 177, 224,
            185, 137, 224, 184, 135, 224, 184, 132, 224, 185, 136, 224, 184, 178, 32, 226, 134, 146,
            32, 224, 184, 159, 224, 184, 181, 224, 185, 128, 224, 184, 136, 224, 184, 173, 224, 184,
            163, 224, 185, 140, 224, 184, 173, 224, 184, 153, 224, 184, 184, 224, 184, 170, 224,
            184, 163, 224, 184, 147, 224, 185, 140, 58, 32, 224, 184, 163, 224, 184, 177, 224, 184,
            154, 224, 184, 138, 224, 184, 184, 224, 184, 148, 32, 224, 184, 129, 224, 184, 181, 224,
            184, 149, 224, 184, 178, 224, 184, 163, 224, 185, 140, 224, 185, 128, 224, 184, 165,
            224, 184, 180, 224, 184, 129, 224, 185, 129, 224, 184, 136, 224, 184, 129, 32, 224, 185,
            129, 224, 184, 165, 224, 184, 176, 224, 184, 151, 224, 184, 163, 224, 184, 177, 224,
            184, 158, 224, 184, 162, 224, 184, 178, 224, 184, 129, 224, 184, 163, 224, 184, 151,
            224, 184, 178, 224, 184, 135, 224, 184, 136, 224, 184, 148, 224, 184, 171, 224, 184,
            161, 224, 184, 178, 224, 184, 162, 32, 224, 185, 128, 224, 184, 155, 224, 184, 165, 224,
            184, 181, 224, 185, 136, 224, 184, 162, 224, 184, 153, 224, 184, 164, 224, 184, 148,
            224, 184, 185, 224, 184, 158, 224, 184, 178, 224, 184, 170, 224, 185, 129, 224, 184,
            165, 224, 185, 137, 224, 184, 167, 224, 185, 128, 224, 184, 163, 224, 184, 180, 224,
            185, 136, 224, 184, 161, 224, 185, 128, 224, 184, 129, 224, 184, 161, 224, 185, 131,
            224, 184, 171, 224, 184, 161, 224, 185, 136]
      else if l = ''id''
      then ''Pengaturan '' @ utf8 [226, 134, 146] @
            '' Fitur Memorial: kostum/gitar langka dan sumber daya lewat surat. Ganti musim pass: mulai ulang.''
      else ''Settings '' @ utf8 [226, 134, 146] @
            '' Memorial Features: retired outfits/guitars and resources by mail. Switch pass season, then restart.'')"

definition mail_texts :: "string \<Rightarrow> string \<times> string \<times> string" where
  "mail_texts l =
     (if l = ''zh-Hans''
      then (utf8 [231, 186, 170, 229, 191, 181, 231, 137, 136, 231, 164, 188, 231, 137, 169], utf8
            [232, 175, 183, 233, 162, 134, 229, 143, 150, 233, 153, 132, 228, 187, 182, 228, 184,
            173, 231, 154, 132, 229, 165, 150, 229, 138, 177, 227, 128, 130, 230, 175, 143, 229,
            176, 129, 233, 130, 174, 228, 187, 182, 229, 140, 133, 229, 144, 171, 228, 184, 128,
            233, 161, 185, 229, 165, 150, 229, 138, 177, 227, 128, 130], utf8 [229, 150, 181, 229,
            150, 181, 230, 180, 187, 229, 138, 168, 229, 165, 150, 229, 138, 177])
      else if l = ''zh-Hant''
      then (utf8 [231, 180, 128, 229, 191, 181, 231, 137, 136, 231, 166, 174, 231, 137, 169], utf8
            [232, 171, 139, 233, 160, 152, 229, 143, 150, 233, 153, 132, 228, 187, 182, 228, 184,
            173, 231, 154, 132, 231, 141, 142, 229, 139, 181, 227, 128, 130, 230, 175, 143, 229,
            176, 129, 233, 131, 181, 228, 187, 182, 229, 140, 133, 229, 144, 171, 228, 184, 128,
            233, 160, 133, 231, 141, 142, 229, 139, 181, 227, 128, 130], utf8 [229, 150, 181, 229,
            150, 181, 230, 180, 187, 229, 139, 149, 231, 141, 142, 229, 139, 181])
      else if l = ''ko''
      then (utf8 [235, 169, 148, 235, 170, 168, 235, 166, 172, 236, 150, 188, 32, 236, 132, 160,
            235, 172, 188], utf8 [236, 178, 168, 235, 182, 128, 235, 144, 156, 32, 235, 179, 180,
            236, 131, 129, 236, 157, 132, 32, 235, 176, 155, 236, 156, 188, 236, 132, 184, 236, 154,
            148, 46, 32, 236, 154, 176, 237, 142, 184, 32, 237, 149, 156, 32, 237, 134, 181, 236,
            151, 144, 32, 235, 179, 180, 236, 131, 129, 32, 237, 149, 152, 235, 130, 152, 234, 176,
            128, 32, 235, 147, 164, 236, 150, 180, 32, 236, 158, 136, 236, 138, 181, 235, 139, 136,
            235, 139, 164, 46], utf8 [234, 179, 160, 236, 150, 145, 236, 157, 180, 32, 236, 157,
            180, 235, 178, 164, 237, 138, 184, 32, 235, 179, 180, 236, 131, 129])
      else if l = ''ja'' \<or> l = ''jp''
      then (utf8 [227, 131, 161, 227, 131, 162, 227, 131, 170, 227, 130, 162, 227, 131, 171, 227,
            130, 174, 227, 131, 149, 227, 131, 136], utf8 [230, 183, 187, 228, 187, 152, 227, 129,
            174, 229, 160, 177, 233, 133, 172, 227, 130, 146, 229, 143, 151, 227, 129, 145, 229,
            143, 150, 227, 129, 163, 227, 129, 166, 227, 129, 143, 227, 129, 160, 227, 129, 149,
            227, 129, 132, 227, 128, 130, 227, 131, 161, 227, 131, 188, 227, 131, 171, 49, 233, 128,
            154, 227, 129, 171, 227, 129, 164, 227, 129, 141, 229, 160, 177, 233, 133, 172, 49, 227,
            129, 164, 227, 129, 167, 227, 129, 153, 227, 128, 130], utf8 [227, 129, 171, 227, 130,
            131, 227, 130, 147, 227, 129, 147, 227, 130, 164, 227, 131, 153, 227, 131, 179, 227,
            131, 136, 229, 160, 177, 233, 133, 172])
      else if l = ''vi''
      then (utf8 [81, 117, 195, 160, 32, 107, 225, 187, 183, 32, 110, 105, 225, 187, 135, 109], utf8
            [72, 195, 163, 121, 32, 110, 104, 225, 186, 173, 110, 32, 112, 104, 225, 186, 167, 110,
            32, 116, 104, 198, 176, 225, 187, 159, 110, 103, 32, 196, 145, 195, 173, 110, 104, 32,
            107, 195, 168, 109, 46, 32, 77, 225, 187, 151, 105, 32, 116, 104, 198, 176, 32, 99, 195,
            179, 32, 109, 225, 187, 153, 116, 32, 112, 104, 225, 186, 167, 110, 32, 116, 104, 198,
            176, 225, 187, 159, 110, 103, 46], utf8 [84, 104, 198, 176, 225, 187, 159, 110, 103, 32,
            115, 225, 187, 177, 32, 107, 105, 225, 187, 135, 110, 32, 109, 195, 168, 111])
      else if l = ''es''
      then (''Regalo conmemorativo'' ,
            ''Recoge la recompensa adjunta. Cada mensaje contiene una recompensa.'' ,
            ''Recompensa del evento felino'')
      else if l = ''it''
      then (''Regalo commemorativo'' ,
            ''Ritira la ricompensa allegata. Ogni messaggio contiene una ricompensa.'' ,
            ''Ricompensa dell'' @ utf8 [39] @ ''evento dei gatti'')
      else if l = ''id''
      then (''Hadiah memorial'' , ''Ambil hadiah terlampir. Setiap surat berisi satu hadiah.'' ,
            ''Hadiah acara kucing'')
      else if l = ''th''
      then (utf8 [224, 184, 130, 224, 184, 173, 224, 184, 135, 224, 184, 130, 224, 184, 167, 224,
            184, 177, 224, 184, 141, 224, 184, 137, 224, 184, 154, 224, 184, 177, 224, 184, 154,
            224, 184, 173, 224, 184, 153, 224, 184, 184, 224, 184, 170, 224, 184, 163, 224, 184,
            147, 224, 185, 140], utf8 [224, 184, 163, 224, 184, 177, 224, 184, 154, 224, 184, 163,
            224, 184, 178, 224, 184, 135, 224, 184, 167, 224, 184, 177, 224, 184, 165, 224, 184,
            151, 224, 184, 181, 224, 185, 136, 224, 185, 129, 224, 184, 153, 224, 184, 154, 224,
            184, 161, 224, 184, 178, 32, 224, 184, 136, 224, 184, 148, 224, 184, 171, 224, 184, 161,
            224, 184, 178, 224, 184, 162, 224, 185, 129, 224, 184, 149, 224, 185, 136, 224, 184,
            165, 224, 184, 176, 224, 184, 137, 224, 184, 154, 224, 184, 177, 224, 184, 154, 224,
            184, 161, 224, 184, 181, 224, 184, 163, 224, 184, 178, 224, 184, 135, 224, 184, 167,
            224, 184, 177, 224, 184, 165, 224, 184, 171, 224, 184, 153, 224, 184, 182, 224, 185,
            136, 224, 184, 135, 224, 184, 163, 224, 184, 178, 224, 184, 162, 224, 184, 129, 224,
            184, 178, 224, 184, 163], utf8 [224, 184, 163, 224, 184, 178, 224, 184, 135, 224, 184,
            167, 224, 184, 177, 224, 184, 165, 224, 184, 129, 224, 184, 180, 224, 184, 136, 224,
            184, 129, 224, 184, 163, 224, 184, 163, 224, 184, 161, 224, 185, 129, 224, 184, 161,
            224, 184, 167])
      else if l = ''pt''
      then (''Presente comemorativo'' , ''Resgate a recompensa anexada. Cada mensagem cont'' @ utf8
            [195, 169] @ ''m uma recompensa.'' , ''Recompensa do evento dos gatos'')
      else if l = ''hi''
      then (utf8 [224, 164, 184, 224, 165, 141, 224, 164, 174, 224, 165, 131, 224, 164, 164, 224,
            164, 191, 32, 224, 164, 137, 224, 164, 170, 224, 164, 185, 224, 164, 190, 224, 164,
            176], utf8 [224, 164, 184, 224, 164, 130, 224, 164, 178, 224, 164, 151, 224, 165, 141,
            224, 164, 168, 32, 224, 164, 170, 224, 165, 129, 224, 164, 176, 224, 164, 184, 224, 165,
            141, 224, 164, 149, 224, 164, 190, 224, 164, 176, 32, 224, 164, 170, 224, 165, 141, 224,
            164, 176, 224, 164, 190, 224, 164, 170, 224, 165, 141, 224, 164, 164, 32, 224, 164, 149,
            224, 164, 176, 224, 165, 135, 224, 164, 130, 224, 165, 164, 32, 224, 164, 170, 224, 165,
            141, 224, 164, 176, 224, 164, 164, 224, 165, 141, 224, 164, 175, 224, 165, 135, 224,
            164, 149, 32, 224, 164, 184, 224, 164, 130, 224, 164, 166, 224, 165, 135, 224, 164, 182,
            32, 224, 164, 174, 224, 165, 135, 224, 164, 130, 32, 224, 164, 143, 224, 164, 149, 32,
            224, 164, 170, 224, 165, 129, 224, 164, 176, 224, 164, 184, 224, 165, 141, 224, 164,
            149, 224, 164, 190, 224, 164, 176, 32, 224, 164, 185, 224, 165, 136, 224, 165, 164],
            utf8 [224, 164, 172, 224, 164, 191, 224, 164, 178, 224, 165, 141, 224, 164, 178, 224,
            165, 128, 32, 224, 164, 149, 224, 164, 190, 224, 164, 176, 224, 165, 141, 224, 164, 175,
            224, 164, 149, 224, 165, 141, 224, 164, 176, 224, 164, 174, 32, 224, 164, 149, 224, 164,
            190, 32, 224, 164, 170, 224, 165, 129, 224, 164, 176, 224, 164, 184, 224, 165, 141, 224,
            164, 149, 224, 164, 190, 224, 164, 176])
      else (''Memorial gift'' , ''Claim the attached reward. Each message contains one reward.'' ,
            ''Cat event reward''))"

definition memorial_notice :: "string \<Rightarrow> string" where
  "memorial_notice requested =
     (let l = normalized_notice_locale requested; (title, body) = memorial_notice_copy l
      in ''<!doctype html><html lang='' @ utf8 [39] @ l @ utf8 [39] @
         ''><meta charset=utf-8><meta name=viewport content='' @ utf8 [39] @ ''width=device-width''
         @ utf8 [39] @ ''><title>'' @ title @
         ''</title><style>body{font-family:sans-serif;background:#fff6f8;color:#542b3a;max-width:42rem;margin:3rem auto;padding:0 1.5rem;line-height:1.7}h1{color:#e64f79}</style><h1>''
         @ title @ ''</h1><p>'' @ body @ ''</p></html>'')"

definition memorial_maintenance_value :: "protocol_schema \<Rightarrow> string \<Rightarrow> envelope_error + wire_value" where
  "memorial_maintenance_value schema requested =
     (let l = normalized_notice_locale requested; (title, body) = memorial_notice_copy l;
          description = body @ utf8 [10, 10] @ memorial_notice_features l
      in sparse_struct_value schema ''common_model'' ''MaintenanceData''
           [(''Code'', v16 1), (''Title'', text_value title), (''Description'', text_value description),
            (''Utc_time'', v16 9), (''Facebook_url'', VString []),
            (''Start_datetime'', text_value ''2026-09-04 00:00:00''),
            (''End_datetime'', text_value ''2099-12-31 23:59:59'')])"

section \<open>Mail keys\<close>

definition resolve_mail :: "string \<Rightarrow> string \<Rightarrow> string" where
  "resolve_mail raw requested =
     (if \<not> starts_with ''memorial.'' raw then raw
      else let (subject, body, cat) = mail_texts (normalized_notice_locale requested)
           in if raw = ''memorial.samseck.subject'' then cat
              else if ends_with ''.subject'' raw then subject
              else if ends_with ''.body'' raw then body
              else raw)"

section \<open>Facts\<close>

definition no_key :: "string \<Rightarrow> bool" where
  "no_key s \<longleftrightarrow> \<not> starts_with ''memorial.'' s"

definition notice_locales :: "string list" where
  "notice_locales = [''ko'', ''ja'', ''zh-Hans'', ''zh-Hant'', ''vi'', ''it'', ''es'', ''pt'', ''hi'', ''th'',
     ''id'', ''en'']"

lemma notice_locale_known: "normalized_notice_locale l \<in> set notice_locales"
  by (simp add: normalized_notice_locale_def notice_locales_def Let_def)

lemma no_key_Cons: "c \<noteq> CHR ''m'' \<Longrightarrow> no_key (c # s)"
  by (simp add: no_key_def starts_with_def)

lemma no_key_utf8: "n < 256 \<Longrightarrow> n \<noteq> 109 \<Longrightarrow> no_key (utf8 (n # ns)) \<and> no_key (utf8 (n # ns) @ s)"
  by (auto simp: no_key_def starts_with_def utf8_def char_of_eq_iff take_bit_eq_mod)

lemma mail_texts_no_key:
  "list_all (\<lambda>l. case mail_texts l of (a, b, c) \<Rightarrow> no_key a \<and> no_key b \<and> no_key c) notice_locales"
  by (simp add: notice_locales_def mail_texts_def no_key_utf8 no_key_Cons)

text \<open>No key of the server reaches the client: whatever language it names, a mail text that is a
subject or body key is replaced by a text that is no key, every other text is left as its author wrote it,
and resolving twice, in any two languages, is resolving once.\<close>

lemma mail_keys_resolved:
  "(if no_key raw then resolve_mail raw l = raw
    else if ends_with ''.subject'' raw \<or> ends_with ''.body'' raw then no_key (resolve_mail raw l)
    else resolve_mail raw l = raw)
   \<and> resolve_mail (resolve_mail raw l) k = resolve_mail (resolve_mail raw l) l"
proof -
  obtain a b c where t: "mail_texts (normalized_notice_locale l) = (a, b, c)"
    using prod_cases3 by blast
  have "no_key a \<and> no_key b \<and> no_key c"
    using mail_texts_no_key notice_locale_known [of l] t by (auto simp: list_all_iff)
  moreover have "ends_with ''.subject'' ''memorial.samseck.subject''" by (simp add: ends_with_def starts_with_def)
  moreover have "no_key s \<Longrightarrow> resolve_mail s m = s" for s m by (simp add: resolve_mail_def no_key_def)
  ultimately show ?thesis
    by (cases "no_key raw"; cases "raw = ''memorial.samseck.subject''"; cases "ends_with ''.subject'' raw";
        cases "ends_with ''.body'' raw")
      (auto simp: t resolve_mail_def no_key_def)
qed

end
