(* ===== verification/Views.thy ===== *)
theory Views
  imports Prices Notices Snapshot
begin

text \<open>
  What the server tells the client (\<open>crates/transport-http/src/gameplay.rs\<close>): one definition per wire
  value, built by field name from the schema, up to the whole player snapshot of \<open>userLogin\<close>.
\<close>

section \<open>Rows\<close>

definition music_review_wire_value :: "protocol_schema \<Rightarrow> music_review_snapshot \<Rightarrow> envelope_error + wire_value" where
  "music_review_wire_value schema r = sparse_struct_value schema ''user_model'' ''MusicPointReviewRetDataInfo''
     [(''Music_idx'', v32 (mr_music_id r)), (''Point'', vdouble (mr_point r)),
      (''Difficulty'', v16 (mr_difficulty r))]"

definition bookmark_wire_value :: "protocol_schema \<Rightarrow> bookmark_snapshot \<Rightarrow> envelope_error + wire_value" where
  "bookmark_wire_value schema r = sparse_struct_value schema ''user_model'' ''SetBookmarkRetDataInfo''
     [(''Music_idx'', v32 (bm_music_id r)), (''Flag'', v16 (bm_flag r))]"

definition music_score_wire_value :: "protocol_schema \<Rightarrow> music_score_snapshot \<Rightarrow> envelope_error + wire_value" where
  "music_score_wire_value schema r = sparse_struct_value schema ''user_model'' ''UpdateScoreDataList''
     [(''Music_idx'', v32 (ms_music_id r)), (''Score'', v32 (ms_score r)), (''Grade'', v16 (ms_grade r)),
      (''Play_cnt'', v32 (ms_play_count r)), (''Difficulty'', v16 (ms_difficulty r)),
      (''Combo_grade'', v16 (ms_combo_grade r)), (''Collection'', vlist [])]"

definition follower_gift_wire_value :: "protocol_schema \<Rightarrow> int \<Rightarrow> int \<Rightarrow> envelope_error + wire_value" where
  "follower_gift_wire_value schema gift_id remaining =
     sparse_struct_value schema ''user_model'' ''UserFollowerGiftItem''
       [(''I_id'', v32 gift_id), (''I_Value'', v32 remaining)]"

definition user_reward_wire_value :: "protocol_schema \<Rightarrow> reward_grant \<Rightarrow> envelope_error + wire_value" where
  "user_reward_wire_value schema r = sparse_struct_value schema ''user_model'' ''RetReward''
     [(''Reward_type'', v16 (rg_reward_type r)), (''Reward_id'', v32 (rg_reward_id r)),
      (''Reward_value'', vdouble (rg_amount r))]"

definition store_reward_wire_value :: "protocol_schema \<Rightarrow> reward_grant \<Rightarrow> envelope_error + wire_value" where
  "store_reward_wire_value schema r = sparse_struct_value schema ''store_model'' ''RetReward''
     [(''Reward_type'', v16 (rg_reward_type r)), (''Reward_id'', v32 (rg_reward_id r)),
      (''Reward_value'', v64 (amount_i64 (rg_amount r)))]"

definition post_reward_fields :: "reward_grant \<Rightarrow> (string \<times> wire_value) list" where
  "post_reward_fields r = [(''I_RewardType'', v32 (rg_reward_type r)), (''I_RewardId'', v32 (rg_reward_id r)),
     (''D_RewardQuantity'', vdouble (rg_amount r))]"

definition post_reward_item_wire_value :: "protocol_schema \<Rightarrow> reward_grant \<Rightarrow> envelope_error + wire_value" where
  "post_reward_item_wire_value schema r = struct_value schema ''post_model'' ''ItemList'' (post_reward_fields r)"

definition post_reward_wire_value :: "protocol_schema \<Rightarrow> reward_grant \<Rightarrow> envelope_error + wire_value" where
  "post_reward_wire_value schema r =
     struct_value schema ''post_model'' ''ProvidePostRetDataInfo'' (post_reward_fields r)"

definition ch3_profile_wire_value :: "protocol_schema \<Rightarrow> follower_profile_snapshot \<Rightarrow> envelope_error + wire_value" where
  "ch3_profile_wire_value schema p = sparse_struct_value schema ''user_model'' ''UserFollowerProfile''
     [(''I_id'', v32 (fp_profile_id p)), (''I_Level'', v32 (fp_level p)), (''D_Exp'', v64 (fp_experience p)),
      (''I_AddCandy'', v32 (fp_add_candy p))]"

definition follower_profile_reward_wire_value ::
  "protocol_schema \<Rightarrow> follower_profile_reward_outcome \<Rightarrow> envelope_error + wire_value" where
  "follower_profile_reward_wire_value schema outcome =
     sum_bind (sum_collect (user_reward_wire_value schema) (fpro_rewards outcome)) (\<lambda>rewards.
     sum_bind (ch3_profile_wire_value schema (fpro_profile outcome)) (\<lambda>profile.
     sparse_struct_value schema ''user_model'' ''SetUserFollowerProfileRewardRetDataInfo''
       [(''I_id'', v32 (fpro_profile_id outcome)), (''I_level'', v32 (fpro_level outcome)),
        (''Reward_data'', vlist rewards), (''User_follower_profile'', profile)]))"

definition quest_condition_fields :: "follower_quest_snapshot \<Rightarrow> (string \<times> wire_value) list" where
  "quest_condition_fields q =
     (case (fq_condition_values q, fq_claimed q) of ((a, b, c), (x, y, z)) \<Rightarrow>
        [(''D_ConditionValue1'', vdouble a), (''D_ConditionValue2'', vdouble b), (''D_ConditionValue3'', vdouble c),
         (''I_RewardReceived1'', v16 (of_bool x)), (''I_RewardReceived2'', v16 (of_bool y)),
         (''I_RewardReceived3'', v16 (of_bool z))])"

definition follower_quest_response ::
  "protocol_schema \<Rightarrow> rpc_spec \<Rightarrow> follower_quest_outcome \<Rightarrow> envelope_error + wire_value" where
  "follower_quest_response schema spec outcome =
     sum_bind (sum_collect (user_reward_wire_value schema) (fqo_rewards outcome)) (\<lambda>rewards.
     response_sparse_struct spec schema
       ([(''I_CurrentID'', v32 (fq_current_id (fqo_quest outcome))),
         (''I_CompleteID'', v32 (fqo_complete_id outcome))]
        @ quest_condition_fields (fqo_quest outcome)
        @ [(''Next_flg'', v16 (of_bool (fqo_next outcome))), (''Reward_data'', vlist rewards)]))"

definition follower_quest_wire_value :: "protocol_schema \<Rightarrow> follower_quest_snapshot \<Rightarrow> envelope_error + wire_value" where
  "follower_quest_wire_value schema q = sparse_struct_value schema ''user_model'' ''UserFollowerQuest''
     ([(''I_id'', v64 1), (''I_CurrentID'', v64 (fq_current_id q)), (''I_CompleteID'', v64 (fq_complete_id q))]
      @ quest_condition_fields q @ [(''I_isInfinity'', v16 (of_bool (fq_infinite q)))])"

text \<open>\<open>max_by_key\<close>: of several newest rows the last.\<close>

definition newest_quest :: "follower_quest_snapshot list \<Rightarrow> follower_quest_snapshot option" where
  "newest_quest quests = fold (\<lambda>q best. case best of None \<Rightarrow> Some q
     | Some b \<Rightarrow> if fq_current_id b \<le> fq_current_id q then Some q else Some b) quests None"

definition follower_quest_wire_values ::
  "protocol_schema \<Rightarrow> follower_quest_snapshot list \<Rightarrow> envelope_error + wire_value list" where
  "follower_quest_wire_values schema quests =
     sum_collect (follower_quest_wire_value schema)
       (case newest_quest quests of None \<Rightarrow> [] | Some q \<Rightarrow> [q])"

definition ad_state_wire_value :: "protocol_schema \<Rightarrow> ad_reward_outcome \<Rightarrow> envelope_error + wire_value" where
  "ad_state_wire_value schema o1 = sparse_struct_value schema ''user_model'' ''UserAdList''
     [(''I_id'', v32 (aro_ad_id o1)), (''I_Count'', v32 (aro_day_count o1)),
      (''I_TotalCount'', v32 (aro_total_count o1)), (''I_LastViewTime'', v32 (aro_last_view_time o1))]"

definition sam_seck_reward :: "int \<Rightarrow> reward_grant option" where
  "sam_seck_reward event_id =
     (if event_id = 1 then Some \<lparr>rg_reward_type = 1, rg_reward_id = 2, rg_amount = Fin 100\<rparr>
      else if event_id = 2 then Some \<lparr>rg_reward_type = 9, rg_reward_id = 10, rg_amount = Fin 1\<rparr>
      else if event_id = 3 then Some \<lparr>rg_reward_type = 3, rg_reward_id = 13, rg_amount = Fin 1\<rparr>
      else None)"

definition sam_seck_reward_wire_value ::
  "protocol_schema \<Rightarrow> int \<Rightarrow> reward_grant \<Rightarrow> envelope_error + wire_value" where
  "sam_seck_reward_wire_value schema event_id r =
     sparse_struct_value schema ''eventMode_model'' ''RewardListData'' ((''I_id'', v64 event_id) # post_reward_fields r)"

definition event_reward_wire_value ::
  "protocol_schema \<Rightarrow> master_daily_reward \<Rightarrow> bool \<Rightarrow> envelope_error + wire_value" where
  "event_reward_wire_value schema row claimed =
     sparse_struct_value schema ''main_model'' ''GetEventRewardListData''
       [(''Idx'', v64 (mdrw_id row)), (''Event_name'', text_value ''Guitar Girl Memorial''),
        (''Event_type'', text_value ''DailyReward''), (''Reward_idx'', v64 (mdrw_id row)),
        (''Reward_num'', v32 (mdrw_day row)), (''Reward_type'', v32 (mdrw_reward_type row)),
        (''Reward_id'', v32 (mdrw_reward_id row)), (''Reward_value'', v32 (as_i32 (mdrw_quantity row))),
        (''Reward_flg'', text_value (if claimed then ''Y'' else ''N'')), (''Get_date'', v32 (mdrw_day row)),
        (''S_CustomIconType'', text_value (mdrw_custom_icon_type row)),
        (''S_CustomIconSprite'', text_value (mdrw_custom_icon_sprite row))]"

section \<open>Chapter 3\<close>

text \<open>The time of full energy is told as a deadline, one energy a second after the last calculation.\<close>

definition full_energy_time :: "ch3_energy_snapshot \<Rightarrow> int" where
  "full_energy_time e = to_i32 (sat_i64 (ce_calculated_at e + max (sat_i32 (ce_cap e - ce_amount e)) 1))"

definition ch3_energy_wire_value :: "protocol_schema \<Rightarrow> ch3_energy_snapshot \<Rightarrow> envelope_error + wire_value" where
  "ch3_energy_wire_value schema e = sparse_struct_value schema ''user_model'' ''UserApData''
     [(''I_Ap'', v32 (ce_amount e)), (''I_FullApTime'', v32 (full_energy_time e)), (''I_MaxAp'', v32 (ce_cap e))]"

definition ch3_stage_wire_value :: "protocol_schema \<Rightarrow> ch3_stage_snapshot \<Rightarrow> envelope_error + wire_value" where
  "ch3_stage_wire_value schema s = sparse_struct_value schema ''user_model'' ''UserChThirdStage''
     [(''I_id'', v32 (cs_stage_id s)), (''I_ChapterId'', v32 (cs_chapter s)),
      (''I_StageIndex'', v32 (cs_stage_index s)), (''I_Star'', v32 (cs_best_star s))]"

definition ch3_completed_stage_values ::
  "protocol_schema \<Rightarrow> ch3_stage_snapshot list \<Rightarrow> envelope_error + wire_value list" where
  "ch3_completed_stage_values schema stages =
     sum_collect (ch3_stage_wire_value schema) (filter cs_completed stages)"

definition ch3_chapter_wire_value ::
  "protocol_schema \<Rightarrow> int \<Rightarrow> ch3_chapter_claim_snapshot list \<Rightarrow> envelope_error + wire_value" where
  "ch3_chapter_wire_value schema chapter claims =
     (let claimed = (\<lambda>n. v32 (of_bool (list_ex (\<lambda>r. ccc_chapter r = chapter \<and> ccc_reward_num r = n) claims)))
      in sparse_struct_value schema ''user_model'' ''UserChThirdChapterReward''
           [(''I_id'', v32 chapter), (''I_ReceivedReward1'', claimed 1), (''I_ReceivedReward2'', claimed 2),
            (''I_ReceivedReward3'', claimed 3)])"

definition ch3_music_wire_value :: "protocol_schema \<Rightarrow> int \<Rightarrow> int \<Rightarrow> envelope_error + wire_value" where
  "ch3_music_wire_value schema music_id level = sparse_struct_value schema ''user_model'' ''UserMusic''
     [(''I_id'', v64 music_id), (''I_Level'', v64 level), (''I_BonusLevel'', v64 0),
      (''B_EncoreBonusAppear'', v64 0), (''L_EncoreBonusActivateTime'', v64 0),
      (''I_EncoreBonusFollowerId'', v64 0), (''I_ChThirdActiveTime'', v64 0)]"

section \<open>Settings and mail\<close>

definition default_setting_wire_value :: "protocol_schema \<Rightarrow> string \<Rightarrow> string \<Rightarrow> envelope_error + wire_value" where
  "default_setting_wire_value schema key value =
     sparse_struct_value schema ''main_model'' ''DefaultSettingDataList''
       [(''Setting_key'', text_value key), (''Setting_value'', text_value value)]"

definition main_game_info_wire_value ::
  "protocol_schema \<Rightarrow> string \<Rightarrow> string \<Rightarrow> envelope_error + wire_value" where
  "main_game_info_wire_value schema endpoint requested =
     (let l = normalized_notice_locale requested
      in sum_bind (sparse_struct_value schema ''main_model'' ''GetNoticeListRetDataInfo''
             [(''Seq'', v32 1), (''Notice_name'', text_value (fst (memorial_notice_copy l))),
              (''Location_url'', text_value (endpoint @ ''/memorial/notice/'' @ l)), (''Img_url'', text_value [])])
           (\<lambda>notice.
         sum_bind (struct_value schema ''main_model'' ''GetDefaultSettingRetDataInfo'' []) (\<lambda>setting.
         sparse_struct_value schema ''main_model'' ''MainGameInfo''
           [(''Album_list'', vlist []), (''Music_list'', vlist []),
            (''Album_language'', VMap kind_i32 kind_struct []), (''Music_language'', VMap kind_i32 kind_struct []),
            (''Tab'', VMap kind_i16 kind_struct []), (''Notice'', vlist [notice]), (''Default_setting'', setting)])))"

definition mail_title_fields :: "string list" where
  "mail_title_fields = [''ko'', ''en'', ''jp'', ''zh_chs'', ''zh_cht'', ''vi'', ''es'', ''it'', ''id'', ''th'',
     ''pt'', ''hi'']"

definition mail_wire_value :: "protocol_schema \<Rightarrow> mail_snapshot \<Rightarrow> envelope_error + wire_value" where
  "mail_wire_value schema ml =
     sum_bind (post_reward_item_wire_value schema (ml_reward ml)) (\<lambda>item.
     struct_value schema ''post_model'' ''GetPostList''
       ([(''Idx'', v64 (ml_post_id ml)), (''Notice_type'', v16 0), (''Have_reward'', v16 1),
         (''Status'', v16 (of_bool (ml_claimed ml))), (''Unlimit_flg'', v16 1),
         (''Flg'', v16 (of_bool (ml_read ml))), (''Create_time'', v64 (ml_created_at ml)),
         (''Del_time'', v64 (i64_max div 2)), (''Item_list'', vlist [item])]
        @ map (\<lambda>l. (''Title_'' @ l, text_value (resolve_mail (ml_subject ml) l))) mail_title_fields
        @ map (\<lambda>l. (''Memo_'' @ l, text_value (resolve_mail (ml_body ml) l))) mail_title_fields))"

definition subscribe_wire_value :: "protocol_schema \<Rightarrow> int \<Rightarrow> int \<Rightarrow> envelope_error + wire_value" where
  "subscribe_wire_value schema season active_at = sparse_struct_value schema ''user_model'' ''UserSubscribeList''
     [(''I_SubscribeID'', v64 season), (''I_ActiveTime'', v64 active_at), (''I_isActive'', v64 1)]"

definition select_reward_wire_value :: "protocol_schema \<Rightarrow> select_reward_snapshot \<Rightarrow> envelope_error + wire_value" where
  "select_reward_wire_value schema s = sparse_struct_value schema ''user_model'' ''UserSelectReward''
     [(''I_GroupId'', v32 (sr_group_id s)), (''I_RewardGroupId'', v32 (sr_reward_group_id s)),
      (''I_AltRewardGroupId'', v32 (sr_alternate_reward_group_id s))]"

definition choice_user_value :: "protocol_schema \<Rightarrow> player_snapshot \<Rightarrow> envelope_error + wire_value" where
  "choice_user_value schema snap =
     (let girl_level = (case find (\<lambda>l. cl_kind l = Character \<and> cl_content_id l = 1) (pl_content_levels snap) of
                          None \<Rightarrow> 1 | Some l \<Rightarrow> cl_level l)
      in sparse_struct_value schema ''user_model'' ''ChoiceUserData''
           [(''U_girl_level'', v64 girl_level), (''U_fans'', v64 (amount_i64 (player_currency snap Fans))),
            (''U_fans_grade'', v16 (to_i16 (pl_fan_level snap))),
            (''U_cp'', v64 (amount_i64 (player_currency snap Chocolate))),
            (''U_candy'', vdouble (player_currency snap Candy)), (''U_like'', vdouble (player_currency snap Ch1Like)),
            (''U_last_login'', text_value (show_int (pl_last_save_time snap)))])"

section \<open>Facts\<close>

text \<open>The deadline the client is told is the true one: energy that is not full is full again at a time
if and only if the time told has come, for every clock value an \<open>i32\<close> can tell.\<close>

lemma full_energy_time_exact:
  assumes "0 \<le> ce_amount e" "ce_amount e < ce_cap e" "ce_cap e \<le> i32_max" "0 \<le> ce_calculated_at e"
    and "ce_calculated_at e + ce_cap e \<le> i32_max" "ce_calculated_at e \<le> now"
  shows "regenerated (ce_amount e) (ce_calculated_at e) now (ce_cap e) = ce_cap e
    \<longleftrightarrow> full_energy_time e \<le> now"
proof -
  have s: "sat_i32 (ce_cap e - ce_amount e) = ce_cap e - ce_amount e"
    using assms by (simp add: sat_i32_def clamp_int_def)
  have "sat_i64 (ce_calculated_at e + (ce_cap e - ce_amount e)) = ce_calculated_at e + (ce_cap e - ce_amount e)"
    using assms by (intro sat_i64_id) (simp_all add: in_i64_def)
  moreover have "max (ce_cap e - ce_amount e) 1 = ce_cap e - ce_amount e" using assms by simp
  ultimately have "full_energy_time e = ce_calculated_at e + (ce_cap e - ce_amount e)"
    using assms by (simp add: full_energy_time_def s to_i32_def clamp_int_def del: max.absorb_iff1 max.absorb_iff2)
  then show ?thesis using regenerated_eq [of "ce_amount e" "ce_calculated_at e" now "ce_cap e"] assms by auto
qed

theorem full_energy_time_exact_witness:
  "regenerated 3 1000 1007 10 = 10 \<and> full_energy_time \<lparr>ce_amount = 3, ce_cap = 10, ce_calculated_at = 1000\<rparr> = 1007"
  using full_energy_time_exact [of "\<lparr>ce_amount = 3, ce_cap = 10, ce_calculated_at = 1000\<rparr>" 1007]
  by (simp add: full_energy_time_def to_i32_def clamp_int_def sat_i64_def sat_i32_def)

end
