(* ===== verification/Player_View.thy ===== *)
theory Player_View
  imports Views
begin

text \<open>
  The snapshot of a player as the client loads it (\<open>player_response\<close> and the functions it calls in
  \<open>crates/transport-http/src/gameplay.rs\<close>).
\<close>

section \<open>Contents\<close>

definition content_levels_of :: "player_snapshot \<Rightarrow> (content_kind \<times> int, int \<times> int) table" where
  "content_levels_of snap =
     collect_map (map (\<lambda>l. ((cl_kind l, cl_content_id l), (cl_level l, cl_reward_level l))) (pl_content_levels snap))"

definition id_level :: "int \<Rightarrow> int \<Rightarrow> (string \<times> wire_value) list" where
  "id_level i level = [(''I_id'', v64 i), (''I_Level'', v64 level)]"

definition music_fields :: "player_snapshot \<Rightarrow> int \<Rightarrow> (string \<times> wire_value) list" where
  "music_fields snap i =
     (let state = find (\<lambda>m. mst_music_id m = i) (pl_music_states snap)
      in [(''B_EncoreBonusAppear'', v64 (case state of None \<Rightarrow> 0 | Some m \<Rightarrow> of_bool (mst_encore_appears m))),
          (''L_EncoreBonusActivateTime'', v64 (case state of None \<Rightarrow> 0 | Some m \<Rightarrow> mst_encore_ready_at m)),
          (''I_EncoreBonusFollowerId'', v64 (or_else 0 (Option.bind state mst_encore_follower_id))),
          (''I_ChThirdActiveTime'', v64 (case state of None \<Rightarrow> 0 | Some m \<Rightarrow> mst_ch3_active_until m))])"

definition skill_fields :: "player_snapshot \<Rightarrow> int \<Rightarrow> (string \<times> wire_value) list" where
  "skill_fields snap i =
     (let activation = find (\<lambda>a. sa_skill_id a = i) (pl_skill_activations snap)
      in [(''B_Activate'', v16 (case activation of None \<Rightarrow> 0 | Some a \<Rightarrow> of_bool (sa_active a))),
          (''L_ActivateOnTicks'', v64 (case activation of None \<Rightarrow> 0 | Some a \<Rightarrow> sa_active_from a)),
          (''L_ActivateOffTicks'', v64 (case activation of None \<Rightarrow> 0 | Some a \<Rightarrow> sa_active_until a))])"

definition buff_fields :: "player_snapshot \<Rightarrow> int \<Rightarrow> (string \<times> wire_value) list" where
  "buff_fields snap i =
     (let timer = find (\<lambda>t. bt_buff_id t = i) (pl_buff_timers snap)
      in [(''I_ActiveTime'', v64 (case timer of None \<Rightarrow> 0 | Some t \<Rightarrow> bt_active_at t)),
          (''I_EndTime'', v64 (case timer of None \<Rightarrow> 0 | Some t \<Rightarrow> bt_expires_at t))])"

text \<open>The wire type and fields of an owned item; a gift has none.\<close>

definition owned_view ::
  "player_snapshot \<Rightarrow> content_kind \<Rightarrow> int \<Rightarrow> int \<Rightarrow> int \<Rightarrow> (string \<times> (string \<times> wire_value) list) option" where
  "owned_view snap kind i level reward_level =
     (let bonus = [(''I_BonusLevel'', v64 reward_level)]
      in case kind of
           Costume \<Rightarrow> Some (''UserCostume'', id_level i level @ bonus)
         | Guitar \<Rightarrow> Some (''UserGuitar'', id_level i level @ bonus)
         | Music \<Rightarrow> Some (''UserMusic'', id_level i level @ bonus @ music_fields snap i)
         | Skill \<Rightarrow> Some (''UserSkill'', id_level i level @ skill_fields snap i)
         | Unit \<Rightarrow> Some (''UserUnit'', id_level i level)
         | Character \<Rightarrow> Some (''UserCharacter'', id_level i level @ bonus)
         | Follower \<Rightarrow> Some (''UserFollower'', id_level i level @ bonus)
         | Prop \<Rightarrow> Some (''UserProp'', id_level i level)
         | Buff \<Rightarrow> Some (''UserBuff'', id_level i level @ buff_fields snap i)
         | Gift \<Rightarrow> None)"

definition owned_value ::
  "protocol_schema \<Rightarrow> player_snapshot \<Rightarrow> (content_kind \<times> int, int \<times> int) table \<Rightarrow> owned_content_snapshot
   \<Rightarrow> envelope_error + (content_kind \<times> wire_value) list" where
  "owned_value schema snap levels owned =
     (case or_else (1, 0) (tbl_get levels (oc_kind owned, oc_content_id owned)) of (level, reward_level) \<Rightarrow>
        (case owned_view snap (oc_kind owned) (oc_content_id owned) level reward_level of
           None \<Rightarrow> Inr []
         | Some (wire_type, fs) \<Rightarrow>
             sum_bind (struct_value schema ''user_model'' wire_type fs) (\<lambda>v. Inr [(oc_kind owned, v)])))"

definition contents_fields :: "(string \<times> content_kind) list" where
  "contents_fields =
     [(''User_costume'', Costume), (''User_guitar'', Guitar), (''User_music'', Music), (''User_skill'', Skill),
      (''User_unit'', Unit), (''User_character'', Character), (''User_follower'', Follower),
      (''User_prop'', Prop), (''User_buff'', Buff)]"

definition of_kind :: "content_kind \<Rightarrow> (content_kind \<times> wire_value) list \<Rightarrow> wire_value list" where
  "of_kind kind by_kind = map snd (filter (\<lambda>kv. fst kv = kind) by_kind)"

definition achievement_value :: "protocol_schema \<Rightarrow> progress_snapshot \<Rightarrow> envelope_error + wire_value" where
  "achievement_value schema p = sparse_struct_value schema ''user_model'' ''UserAchievement''
     (id_level (pr_id p) (pr_level p)
      @ [(''D_Quantity'', vdouble (pr_quantity p)), (''S_Quantity'', text_value (pr_quantity_text p))])"

definition daily_value :: "protocol_schema \<Rightarrow> progress_snapshot \<Rightarrow> envelope_error + wire_value" where
  "daily_value schema p = struct_value schema ''user_model'' ''UserDailyMission''
     (id_level (pr_id p) (pr_level p) @ [(''D_Quantity'', v64 (amount_i64 (pr_quantity p)))])"

definition ad_level_value :: "protocol_schema \<Rightarrow> ad_level_snapshot \<Rightarrow> envelope_error + wire_value" where
  "ad_level_value schema l = struct_value schema ''user_model'' ''UserAdLevel''
     [(''I_id'', v32 (to_i32 (al_ad_level_id l))), (''I_Level'', v32 (al_level l)), (''I_EXP'', v32 (al_experience l))]"

definition ad_list_value :: "protocol_schema \<Rightarrow> ad_state_snapshot \<Rightarrow> envelope_error + wire_value" where
  "ad_list_value schema a = struct_value schema ''user_model'' ''UserAdList''
     [(''I_id'', v32 (to_i32 (as_ad_id a))), (''I_Count'', v32 (as_day_count a)),
      (''I_TotalCount'', v32 (as_total_count a)), (''I_LastViewTime'', v32 (to_i32 (as_last_view_time a)))]"

text \<open>Lily's first level is kept from the client until she has played; Joie's is added when he is owned.\<close>

definition shown_profiles :: "player_snapshot \<Rightarrow> follower_profile_snapshot list" where
  "shown_profiles snap =
     (let kept = filter (\<lambda>p. fp_profile_id p \<noteq> 100000 \<or> 1 < fp_level p \<or> 0 < fp_experience p)
                   (c3_profiles (pl_ch3 snap));
          joie = list_ex (\<lambda>c. oc_kind c = Follower \<and> oc_content_id c = 1) (pl_owned_content snap)
                 \<and> \<not> list_ex (\<lambda>p. fp_profile_id p = 1) kept
      in sort_key fp_profile_id (kept @ (if joie then
           [\<lparr>fp_profile_id = 1, fp_level = 1, fp_experience = 0, fp_add_candy = 0\<rparr>] else [])))"

definition affection_claim_value ::
  "protocol_schema \<Rightarrow> follower_affection_claim_snapshot \<Rightarrow> envelope_error + wire_value" where
  "affection_claim_value schema c = sparse_struct_value schema ''user_model'' ''UserFollowerProfileReward''
     [(''I_id'', v32 (to_i32 (fac_profile_id c))), (''I_RewardLevel'', v32 (fac_level c))]"

definition messenger_value :: "protocol_schema \<Rightarrow> messenger_snapshot \<Rightarrow> envelope_error + wire_value" where
  "messenger_value schema r = sparse_struct_value schema ''user_model'' ''UserMessenger''
     [(''I_MessengerChatRoomId'', v64 (mg_room_id r)), (''I_LastConfirmIndex'', v64 (mg_last_confirm_index r)),
      (''S_UnlockGroupList'', text_value (mg_unlock_group_list r)),
      (''L_UpdateTimeTicks'', v64 (mg_update_time_ticks r))]"

definition subscription_start :: "device_clock \<Rightarrow> int" where
  "subscription_start clock = wrap_i64 (wrap_i64 (local_epoch_day clock * 86400) - utc_offset_minutes clock * 60)"

definition shown_subscriptions :: "player_snapshot \<Rightarrow> device_clock \<Rightarrow> int list" where
  "shown_subscriptions snap clock =
     filter (\<lambda>season. season = pass_season clock (pa_anchor_day (ps_anchor (pl_pass snap)))
                                 (pa_anchor_season (ps_anchor (pl_pass snap))))
       (ps_premium_seasons (pl_pass snap))"

definition event_point_value :: "protocol_schema \<Rightarrow> pass_progress_snapshot \<Rightarrow> envelope_error + wire_value" where
  "event_point_value schema p = sparse_struct_value schema ''user_model'' ''UserEventPoint''
     [(''S_EventType'', text_value ''Pass''), (''I_DataID'', v64 (pp_season p)), (''I_Point'', v64 (pp_points p)),
      (''I_Step'', v64 (pp_step p)), (''I_ADViewTime'', v64 0), (''I_Version'', v32 (pp_version p))]"

definition pass_claim_value :: "protocol_schema \<Rightarrow> pass_claim_snapshot \<Rightarrow> envelope_error + wire_value" where
  "pass_claim_value schema c = sparse_struct_value schema ''user_model'' ''UserSubscribePassReward''
     [(''I_SubscribeID'', v64 (pc_season c)), (''I_Type'', v64 (pc_lane c)), (''I_Step'', v64 (pc_step c)),
      (''I_UpdateTime'', v64 (pc_claimed_at c)), (''I_Version'', v32 (pc_version c))]"

definition response_contents ::
  "protocol_schema \<Rightarrow> (content_kind \<times> wire_value) list \<Rightarrow> wire_value list \<Rightarrow> player_snapshot \<Rightarrow> device_clock
   \<Rightarrow> envelope_error + wire_value" where
  "response_contents schema by_kind tutorials snap clock =
     sum_bind (sum_collect (achievement_value schema) (pl_achievements snap)) (\<lambda>achievements.
     sum_bind (sum_collect (daily_value schema) (pl_daily_missions snap)) (\<lambda>daily.
     sum_bind (sum_collect (ad_level_value schema) (pl_ad_levels snap)) (\<lambda>ad_levels.
     sum_bind (sum_collect (ad_list_value schema) (pl_ad_state snap)) (\<lambda>ad_state.
     sum_bind (sum_collect (ch3_profile_wire_value schema) (shown_profiles snap)) (\<lambda>profiles.
     sum_bind (sum_collect (\<lambda>g. follower_gift_wire_value schema (fg_gift_id g) (fg_quantity g)) (pl_gifts snap)) (\<lambda>gifts.
     sum_bind (sum_collect (affection_claim_value schema) (pl_affection_claims snap)) (\<lambda>affection.
     sum_bind (ch3_completed_stage_values schema (c3_stages (pl_ch3 snap))) (\<lambda>stages.
     sum_bind (sum_collect (messenger_value schema) (pl_messengers snap)) (\<lambda>messengers.
     sum_bind (follower_quest_wire_values schema (pl_follower_quests snap)) (\<lambda>quests.
     sum_bind (sum_collect (\<lambda>season. subscribe_wire_value schema season (subscription_start clock))
                 (shown_subscriptions snap clock)) (\<lambda>subscriptions.
     sum_bind (sum_collect (event_point_value schema) (ps_progress (pl_pass snap))) (\<lambda>progress.
     sum_bind (sum_collect (pass_claim_value schema) (ps_claims (pl_pass snap))) (\<lambda>claims.
     sum_bind (sum_collect (\<lambda>t. sparse_struct_value schema ''user_model'' ''UserTicketCollection''
                                   [(''I_id'', v64 t)]) (ps_tickets (pl_pass snap))) (\<lambda>tickets.
     sum_bind (sum_collect (select_reward_wire_value schema) (pl_selected_rewards snap)) (\<lambda>selected.
     struct_value schema ''user_model'' ''UserContentsData''
       (map (\<lambda>(field, kind). (field, vlist (of_kind kind by_kind))) contents_fields
        @ [(''User_tutorial'', vlist tutorials), (''User_achievement'', vlist achievements),
           (''User_daily_mission'', vlist daily), (''User_ad_level'', vlist ad_levels),
           (''User_ad_list'', vlist ad_state), (''User_follower_profile'', vlist profiles),
           (''User_follower_giftitem'', vlist gifts), (''User_follower_profile_reward'', vlist affection),
           (''User_chthird_stage'', vlist stages), (''User_messenger'', vlist messengers),
           (''User_follower_quest'', vlist quests), (''User_subscribe_list'', vlist subscriptions),
           (''User_event_point'', vlist progress), (''User_subscribe_pass_reward'', vlist claims),
           (''User_ticketcollection'', vlist tickets), (''User_select_reward'', vlist selected)]))))))))))))))))"

definition user_contents ::
  "protocol_schema \<Rightarrow> player_snapshot \<Rightarrow> device_clock \<Rightarrow> envelope_error + wire_value" where
  "user_contents schema snap clock =
     sum_bind (sum_collect (owned_value schema snap (content_levels_of snap)) (pl_owned_content snap)) (\<lambda>by_kind.
     sum_bind (sum_collect (\<lambda>i. struct_value schema ''user_model'' ''UserTutorial'' [(''I_id'', v32 (to_i32 i))])
                 (pl_tutorials snap)) (\<lambda>tutorials.
     response_contents schema (concat by_kind) tutorials snap clock))"

section \<open>The user\<close>

definition user_value :: "protocol_schema \<Rightarrow> player_snapshot \<Rightarrow> envelope_error + wire_value" where
  "user_value schema snap =
     (let primary = find (\<lambda>a. ar_area a = 1) (pl_areas snap)
      in struct_value schema ''user_model'' ''UserData''
           [(''U_seq'', v32 (to_i32 (id_usn (pl_identity snap)))), (''U_id'', text_value (id_user_id (pl_identity snap))),
            (''U_name'', text_value ''Guitar Girl''), (''U_nick'', text_value (pl_nickname snap)),
            (''U_cp'', v64 (amount_i64 (player_currency snap Chocolate))),
            (''U_candy'', vdouble (player_currency snap Candy)), (''U_like'', vdouble (player_currency snap Ch1Like)),
            (''U_fans'', v64 (amount_i64 (player_currency snap Fans))),
            (''U_fans_grade'', v16 (to_i16 (pl_fan_level snap))),
            (''U_selected_costume_id'', v64 (or_else 1 (Option.bind primary ar_current_costume))),
            (''U_selected_music_id'', v64 (or_else 1 (Option.bind primary ar_current_music))),
            (''U_save_date'', text_value []), (''U_samseck_step'', v16 (to_i16 (pl_samseck_step snap))),
            (''U_last_login'', text_value ''2026-09-03 00:00:00''),
            (''U_create_time'', text_value (show_int (pl_last_save_time snap))),
            (''U_review_popup'', text_value ''N''), (''Device_uuid'', text_value (pl_device_uuid snap))])"

definition area_value :: "protocol_schema \<Rightarrow> player_snapshot \<Rightarrow> area_snapshot \<Rightarrow> envelope_error + wire_value" where
  "area_value schema snap a =
     (let like = player_currency snap (if ar_area a = 2 then Ch2Like else Ch1Like);
          second = player_currency snap (if ar_area a = 2 then Ch2Note else Candy)
      in struct_value schema ''user_model'' ''UserAreaData''
           [(''U_area_num'', v16 (to_i16 (ar_area a))), (''D_Candy'', vdouble (ar_candy a)),
            (''D_Like'', vdouble like), (''I_UserFanCount'', v64 (amount_i64 (ar_fans a))),
            (''I_UserFanGrade'', v16 (to_i16 (ar_area_level a))),
            (''I_SelectedCostumeId'', v64 (or_else 1 (ar_current_costume a))),
            (''I_SelectedMusicId'', v64 (or_else 1 (ar_current_music a))),
            (''I_SelectedGuitarId'', v64 (or_else 1 (ar_current_guitar a))),
            (''S_Gp1'', text_value (format_int like)), (''S_Gp2'', text_value (format_int second))])"

definition area_entry ::
  "protocol_schema \<Rightarrow> player_snapshot \<Rightarrow> area_snapshot \<Rightarrow> envelope_error + wire_value \<times> wire_value" where
  "area_entry schema snap a = sum_bind (area_value schema snap a) (\<lambda>v. Inr (v32 (ar_area a), v))"

definition player_response_projected ::
  "protocol_schema \<Rightarrow> rpc_spec \<Rightarrow> player_snapshot \<Rightarrow> bool \<Rightarrow> device_clock \<Rightarrow> envelope_error + wire_value" where
  "player_response_projected schema spec snap include_area clock =
     sum_bind (user_value schema snap) (\<lambda>user.
     sum_bind (sum_collect (area_entry schema snap) (pl_areas snap)) (\<lambda>areas.
     sum_bind (if include_area then user_contents schema snap clock
               else sparse_struct_value schema ''user_model'' ''UserContentsData'' []) (\<lambda>contents.
     response_sparse_struct spec schema
       ([(''User'', user)]
        @ (if include_area then [(''Area_data'', VMap kind_i32 kind_struct areas)] else [])
        @ [(''User_contents'', contents)]))))"

definition player_response ::
  "protocol_schema \<Rightarrow> rpc_spec \<Rightarrow> player_snapshot \<Rightarrow> device_clock \<Rightarrow> envelope_error + wire_value" where
  "player_response schema spec snap clock = player_response_projected schema spec snap True clock"

definition user_login_identity_response ::
  "protocol_schema \<Rightarrow> rpc_spec \<Rightarrow> user_identity \<Rightarrow> envelope_error + wire_value" where
  "user_login_identity_response schema spec identity =
     sum_bind (sparse_struct_value schema ''user_model'' ''UserData''
       [(''U_seq'', v32 (to_i32 (id_usn identity))), (''U_id'', text_value (id_user_id identity))]) (\<lambda>user.
     response_sparse_struct spec schema [(''User'', user)])"

end
