(* ===== verification/Scores.thy ===== *)
theory Scores
  imports Requests Snapshot
begin

text \<open>
  Playing a stage of chapter 3 (\<open>calculate_ch3_score\<close>, \<open>ch3_rewards\<close> and the helpers around them in
  \<open>crates/transport-http/src/gameplay.rs\<close>): the score of a run, its stars, and the rewards drawn for it.
  The score is computed in \<open>f32\<close>. SHA-256 is a parameter.
\<close>

section \<open>The score\<close>

record ch3_profile_score =
  cps3_profile_id :: int
  cps3_score :: int
  cps3_bonus_score :: int

record ch3_score_result =
  csr_story :: bool
  csr_clear :: bool
  csr_star :: int
  csr_music_id :: int
  csr_character_score :: int
  csr_music_score :: int
  csr_follower_score :: int
  csr_bonus_score :: int
  csr_bonus_music_score :: int
  csr_total_score :: int
  csr_bonus_profile_ids :: "int list"
  csr_profile_scores :: "ch3_profile_score list"

definition is_story :: "master_ch3_stage \<Rightarrow> bool" where
  "is_story stage \<longleftrightarrow> eq_ignore_case (mstg_stage_type stage) ''story''"

definition stage_definition :: "master_ch3_stage \<Rightarrow> ch3_stage_definition" where
  "stage_definition stage =
     \<lparr>csd_stage_id = mstg_id stage, csd_chapter = mstg_chapter stage,
      csd_stage_index = mstg_stage_index stage, csd_story = is_story stage\<rparr>"

definition story_result :: ch3_score_result where
  "story_result =
     \<lparr>csr_story = True, csr_clear = True, csr_star = 0, csr_music_id = 0, csr_character_score = 0,
      csr_music_score = 0, csr_follower_score = 0, csr_bonus_score = 0, csr_bonus_music_score = 0,
      csr_total_score = 0, csr_bonus_profile_ids = [], csr_profile_scores = []\<rparr>"

definition played_music :: "player_snapshot \<Rightarrow> named_request \<Rightarrow> int" where
  "played_music snap request =
     (case request_integer request ''Music_id'' of
        Some i \<Rightarrow> if 0 < i then i else max (or_else 1 (Option.bind (find (\<lambda>a. ar_area a = 1) (pl_areas snap))
                                                  ar_current_music)) 1
      | None \<Rightarrow> max (or_else 1 (Option.bind (find (\<lambda>a. ar_area a = 1) (pl_areas snap)) ar_current_music)) 1)"

definition snapshot_profile_level :: "player_snapshot \<Rightarrow> int \<Rightarrow> int" where
  "snapshot_profile_level snap i =
     (case find (\<lambda>p. fp_profile_id p = i) (c3_profiles (pl_ch3 snap)) of None \<Rightarrow> 1 | Some p \<Rightarrow> fp_level p)"

definition played_music_level :: "player_snapshot \<Rightarrow> int \<Rightarrow> int" where
  "played_music_level snap i =
     (case find (\<lambda>l. cl_kind l = Music \<and> cl_content_id l = i) (pl_content_levels snap) of
        None \<Rightarrow> 1 | Some l \<Rightarrow> wrap_i32 (cl_level l))"

definition score_at :: "master_catalog \<Rightarrow> int \<Rightarrow> master_ch3_score option" where
  "score_at cat level = find (\<lambda>r. msco_active r \<and> msco_level r = level) (mc_ch3_scores cat)"

definition per_mille :: "int \<Rightarrow> f32" where
  "per_mille n = (case f32_of_int n of Fin q \<Rightarrow> round32 (q / 1000) | x \<Rightarrow> x)"

text \<open>The positive ids of a text, each once, in the order of their first occurrence.\<close>

fun first_seen :: "int list \<Rightarrow> int list \<Rightarrow> int list" where
  "first_seen seen [] = []"
| "first_seen seen (i # is) =
     (if i \<in> set seen then first_seen seen is else i # first_seen (i # seen) is)"

definition digit_numbers :: "string \<Rightarrow> int list" where
  "digit_numbers s = List.map_filter parse_i64 (split_at (\<lambda>c. \<not> is_digit c) s)"

definition selected_profiles :: "named_request \<Rightarrow> int list" where
  "selected_profiles request =
     first_seen [] (filter (\<lambda>i. 0 < i) (digit_numbers (or_else [] (request_string request ''Profile_ids''))))"

definition follower_score_at :: "master_catalog \<Rightarrow> player_snapshot \<Rightarrow> int \<Rightarrow> int" where
  "follower_score_at cat snap i =
     (case score_at cat (snapshot_profile_level snap i) of None \<Rightarrow> 0 | Some r \<Rightarrow> msco_follower_score r)"

definition stars_of :: "int list \<Rightarrow> int \<Rightarrow> int" where
  "stars_of goals points = int (length (takeWhile (\<lambda>goal. goal \<le> points) goals))"

definition calculate_ch3_score ::
  "master_catalog \<Rightarrow> player_snapshot \<Rightarrow> master_ch3_stage \<Rightarrow> named_request \<Rightarrow> ch3_score_result" where
  "calculate_ch3_score cat snap stage request =
     (if is_story stage then story_result
      else let music_id = played_music snap request;
        character = (case score_at cat (snapshot_profile_level snap 100000) of
                       None \<Rightarrow> 0 | Some r \<Rightarrow> msco_character_score r);
        multiplier = (case score_at cat (played_music_level snap music_id) of
                        None \<Rightarrow> fzero | Some r \<Rightarrow> per_mille (msco_music_score r));
        music = as_i32 (fmul32 (f32_of_int character) multiplier);
        with_bonus = as_i32 (fmul32 (f32_of_int character)
          (fadd32 multiplier (if music_id = mstg_bonus_music_id stage then round32 (1 / 5) else fzero)));
        bonus = sat_i32 (with_bonus - music);
        selected = selected_profiles request;
        follower = foldl (\<lambda>acc i. sat_i32 (acc + follower_score_at cat snap i)) 0 selected;
        points = character + music + follower + bonus;
        star = stars_of (mstg_goal_scores stage) points
      in \<lparr>csr_story = False, csr_clear = (0 < star), csr_star = star, csr_music_id = music_id,
          csr_character_score = character, csr_music_score = music, csr_follower_score = follower,
          csr_bonus_score = bonus, csr_bonus_music_score = bonus, csr_total_score = points,
          csr_bonus_profile_ids = map wrap_i32 (filter (\<lambda>i. i \<in> set (mstg_bonus_profile_ids stage)) selected),
          csr_profile_scores = map (\<lambda>i. \<lparr>cps3_profile_id = wrap_i32 i, cps3_score = follower_score_at cat snap i,
                                         cps3_bonus_score = 0\<rparr>) selected\<rparr>)"

definition ch3_profile_score_wire_value ::
  "protocol_schema \<Rightarrow> ch3_profile_score \<Rightarrow> envelope_error + wire_value" where
  "ch3_profile_score_wire_value schema s = sparse_struct_value schema ''user_model'' ''StageFollowerProfileScore''
     [(''I_id'', v32 (cps3_profile_id s)), (''Score'', v32 (cps3_score s)),
      (''Bonus_score'', v32 (cps3_bonus_score s))]"

section \<open>Rewards\<close>

definition percent_grant :: "f64 \<Rightarrow> master_percent \<Rightarrow> reward_grant list" where
  "percent_grant multiplier row =
     (if flt_less fzero (mpct_quantity row)
      then [\<lparr>rg_reward_type = mpct_reward_type row, rg_reward_id = mpct_reward_id row,
             rg_amount = fmul (mpct_quantity row) multiplier\<rparr>]
      else [])"

text \<open>The first row whose share of the hundred contains the roll; the sum is an \<open>i32\<close>.\<close>

fun drawn_row :: "int \<Rightarrow> int \<Rightarrow> master_percent list \<Rightarrow> master_percent option" where
  "drawn_row roll cumulative [] = None"
| "drawn_row roll cumulative (row # rows) =
     (let c = wrap_i32 (cumulative + max (mpct_percent row) 0)
      in if roll < c then Some row else drawn_row roll c rows)"

definition drop_roll :: "(bytes \<Rightarrow> bytes) \<Rightarrow> string \<Rightarrow> int" where
  "drop_roll sha256 seed = uint (sha256 (as_bytes seed) ! 0) * 100 div 256"

definition ch3_rewards ::
  "(bytes \<Rightarrow> bytes) \<Rightarrow> master_catalog \<Rightarrow> master_ch3_stage \<Rightarrow> int \<Rightarrow> string \<Rightarrow> reward_grant list" where
  "ch3_rewards sha256 cat stage star seed =
     (let groups = digit_numbers (mstg_percent_reward_groups stage);
          multiplier = f64_of_int (ch3_reward_multiplier embedded_policy)
      in (case groups of
            [] \<Rightarrow> []
          | g # _ \<Rightarrow>
              let rows = catalog_percent_rewards cat g; k = nat (clamp_int 0 3 star)
              in if k < length rows then percent_grant multiplier (rows ! k) else [])
         @ (case groups of
              _ # g # _ \<Rightarrow>
                (case drawn_row (drop_roll sha256 seed) 0 (catalog_percent_rewards cat g) of
                   None \<Rightarrow> [] | Some row \<Rightarrow> percent_grant multiplier row)
            | _ \<Rightarrow> []))"

definition reward_group :: "master_catalog \<Rightarrow> int \<Rightarrow> f64 \<Rightarrow> reward_grant list" where
  "reward_group cat grp multiplier =
     map (\<lambda>r. \<lparr>rg_reward_type = mrew_reward_type r, rg_reward_id = mrew_reward_id r,
               rg_amount = fmul (mrew_quantity r) multiplier\<rparr>)
       (filter (\<lambda>r. flt_less fzero (mrew_quantity r)) (catalog_rewards cat grp))"

definition to_upper :: "string \<Rightarrow> string" where
  "to_upper s = map (\<lambda>c. let n = of_char c :: nat in if 97 \<le> n \<and> n \<le> 122 then char_of (n - 32) else c) s"

definition reward_from_named_currency :: "string \<Rightarrow> f64 \<Rightarrow> reward_grant option" where
  "reward_from_named_currency kind amount =
     (let k = to_upper kind
      in if k = ''CP'' \<or> k = ''CHOCOLATE'' then Some \<lparr>rg_reward_type = 1, rg_reward_id = 1, rg_amount = amount\<rparr>
         else if k = ''MP'' \<or> k = ''CANDY'' then Some \<lparr>rg_reward_type = 1, rg_reward_id = 2, rg_amount = amount\<rparr>
         else None)"

definition follower_profile_thresholds :: "master_catalog \<Rightarrow> int \<Rightarrow> (int \<times> int \<times> int) list" where
  "follower_profile_thresholds cat profile_id =
     map (\<lambda>r. (mfpl_level r, as_i64 (fmax (mfpl_required_exp r) fzero), mfpl_add_candy r))
       (filter (\<lambda>r. mfpl_active r \<and> mfpl_profile_id r = profile_id) (mc_follower_profile_levels cat))"

definition ch3_profile_thresholds :: "master_catalog \<Rightarrow> (int \<times> int \<times> int) list" where
  "ch3_profile_thresholds cat = follower_profile_thresholds cat 100000"

section \<open>Facts\<close>

lemma first_seen_distinct:
  "distinct (first_seen seen is) \<and> set (first_seen seen is) = set is - set seen"
proof (induction "is" arbitrary: seen)
  case (Cons i "is")
  then show ?case using Cons.IH [of seen] Cons.IH [of "i # seen"] by auto
qed simp

lemma takeWhile_count:
  "length (takeWhile P xs) < length xs \<Longrightarrow> \<not> P (xs ! length (takeWhile P xs))"
  by (rule nth_length_takeWhile)

text \<open>A run is scored soundly. The score of a stage that is no story is the sum of its four parts;
each follower the client names counts once, however often it is named; the stars are exactly the goals
reached before the first one missed, and the stage is cleared with at least one star.\<close>

lemma stage_score_sound:
  "let r = calculate_ch3_score cat snap stage request; goals = mstg_goal_scores stage; n = nat (csr_star r)
   in if is_story stage then r = story_result
      else csr_total_score r = csr_character_score r + csr_music_score r + csr_follower_score r + csr_bonus_score r
        \<and> (\<exists>ids. distinct ids
             \<and> set ids = {i \<in> set (digit_numbers (or_else [] (request_string request ''Profile_ids''))). 0 < i}
             \<and> csr_profile_scores r = map (\<lambda>i. \<lparr>cps3_profile_id = wrap_i32 i,
                   cps3_score = follower_score_at cat snap i, cps3_bonus_score = 0\<rparr>) ids
             \<and> csr_follower_score r = foldl (\<lambda>acc i. sat_i32 (acc + follower_score_at cat snap i)) 0 ids)
        \<and> 0 \<le> csr_star r \<and> n \<le> length goals
        \<and> list_all (\<lambda>g. g \<le> csr_total_score r) (take n goals) \<and> (n = length goals \<or> csr_total_score r < goals ! n)
        \<and> (csr_clear r \<longleftrightarrow> 0 < csr_star r)"
proof (cases "is_story stage")
  case False
  let ?r = "calculate_ch3_score cat snap stage request"
  let ?P = "\<lambda>goal. goal \<le> csr_total_score ?r"
  have star: "csr_star ?r = int (length (takeWhile ?P (mstg_goal_scores stage)))"
    using False by (simp add: calculate_ch3_score_def Let_def stars_of_def)
  have ids: "distinct (selected_profiles request) \<and> set (selected_profiles request)
      = {i \<in> set (digit_numbers (or_else [] (request_string request ''Profile_ids''))). 0 < i}"
    by (simp add: selected_profiles_def first_seen_distinct)
  have "csr_profile_scores ?r = map (\<lambda>i. \<lparr>cps3_profile_id = wrap_i32 i,
      cps3_score = follower_score_at cat snap i, cps3_bonus_score = 0\<rparr>) (selected_profiles request)
    \<and> csr_follower_score ?r = foldl (\<lambda>acc i. sat_i32 (acc + follower_score_at cat snap i)) 0 (selected_profiles request)
    \<and> csr_total_score ?r = csr_character_score ?r + csr_music_score ?r + csr_follower_score ?r + csr_bonus_score ?r
    \<and> (csr_clear ?r \<longleftrightarrow> 0 < csr_star ?r)"
    using False by (simp add: calculate_ch3_score_def Let_def)
  moreover have "list_all ?P (take (length (takeWhile ?P (mstg_goal_scores stage))) (mstg_goal_scores stage))"
    by (metis list_all_iff set_takeWhileD takeWhile_eq_take)
  moreover have "length (takeWhile ?P (mstg_goal_scores stage)) \<noteq> length (mstg_goal_scores stage)
      \<Longrightarrow> csr_total_score ?r < mstg_goal_scores stage ! length (takeWhile ?P (mstg_goal_scores stage))"
    using takeWhile_count [of ?P "mstg_goal_scores stage"] length_takeWhile_le [of ?P "mstg_goal_scores stage"]
    by simp
  ultimately show ?thesis
    using False ids length_takeWhile_le [of ?P "mstg_goal_scores stage"]
    unfolding Let_def star by auto
qed (simp add: calculate_ch3_score_def)

lemma drop_roll_range: "0 \<le> drop_roll sha256 seed \<and> drop_roll sha256 seed < 100"
proof -
  have "uint (sha256 (as_bytes seed) ! 0) < 256" using uint_bounded [of "sha256 (as_bytes seed) ! 0"] by simp
  moreover have "0 \<le> uint (sha256 (as_bytes seed) ! 0)" by simp
  ultimately show ?thesis unfolding drop_roll_def by (simp add: pos_imp_zdiv_nonneg_iff div_less_iff_less_mult)
qed

abbreviation percent_sum :: "master_percent list \<Rightarrow> int" where
  "percent_sum rows \<equiv> sum_list (map (\<lambda>r. max (mpct_percent r) 0) rows)"

lemma percent_sum_nonneg: "0 \<le> percent_sum rows"
  by (induction rows) auto

lemma drawn_row_interval:
  assumes "0 \<le> c" "c \<le> roll" "c + percent_sum rows \<le> i32_max"
  shows "case drawn_row roll c rows of
      None \<Rightarrow> c + percent_sum rows \<le> roll
    | Some row \<Rightarrow> \<exists>k < length rows. rows ! k = row \<and> c + percent_sum (take k rows) \<le> roll
        \<and> roll < c + percent_sum (take k rows) + max (mpct_percent row) 0"
  using assms
proof (induction rows arbitrary: c)
  case (Cons row rows)
  let ?c = "c + max (mpct_percent row) 0"
  have w: "wrap_i32 ?c = ?c"
    using Cons.prems percent_sum_nonneg [of rows] by (intro wrap_i32_id) (simp_all add: in_i32_def)
  have d: "drawn_row roll c (row # rows) = (if roll < ?c then Some row else drawn_row roll ?c rows)"
    by (simp only: drawn_row.simps w Let_def)
  show ?case
  proof (cases "roll < ?c")
    case True
    then have "0 < length (row # rows) \<and> (row # rows) ! 0 = row \<and> c + percent_sum (take 0 (row # rows)) \<le> roll
        \<and> roll < c + percent_sum (take 0 (row # rows)) + max (mpct_percent row) 0"
      using Cons.prems by simp
    then show ?thesis unfolding d using True by auto
  next
    case False
    have "0 \<le> ?c" "?c \<le> roll" "?c + percent_sum rows \<le> i32_max" using False Cons.prems by auto
    note IH = Cons.IH [OF this]
    show ?thesis
    proof (cases "drawn_row roll ?c rows")
      case None
      then show ?thesis unfolding d using IH False by (simp add: add.assoc)
    next
      case (Some r)
      with IH obtain k where "k < length rows" "rows ! k = r" "?c + percent_sum (take k rows) \<le> roll"
        "roll < ?c + percent_sum (take k rows) + max (mpct_percent r) 0" by auto
      then have "Suc k < length (row # rows) \<and> (row # rows) ! Suc k = r
          \<and> c + percent_sum (take (Suc k) (row # rows)) \<le> roll
          \<and> roll < c + percent_sum (take (Suc k) (row # rows)) + max (mpct_percent r) 0"
        by (simp add: add.assoc)
      then show ?thesis unfolding d using Some False by auto
    qed
  qed
qed simp

text \<open>A drop is drawn fairly by its table: whatever the digest, the roll lies in the hundred, and in a
table whose shares add up to a hundred exactly one row's interval contains it, the row that is drawn.\<close>

lemma drop_always_drawn:
  assumes "percent_sum rows = 100"
  shows "\<exists>k < length rows. drawn_row (drop_roll sha256 seed) 0 rows = Some (rows ! k)
    \<and> percent_sum (take k rows) \<le> drop_roll sha256 seed
    \<and> drop_roll sha256 seed < percent_sum (take (k + 1) rows)"
proof -
  note r = drop_roll_range [of sha256 seed]
  have i: "case drawn_row (drop_roll sha256 seed) 0 rows of
      None \<Rightarrow> percent_sum rows \<le> drop_roll sha256 seed
    | Some row \<Rightarrow> \<exists>k < length rows. rows ! k = row \<and> percent_sum (take k rows) \<le> drop_roll sha256 seed
        \<and> drop_roll sha256 seed < percent_sum (take k rows) + max (mpct_percent row) 0"
    by (rule drawn_row_interval [of 0 "drop_roll sha256 seed" rows, unfolded add_0])
      (use r assms in simp_all)
  show ?thesis
  proof (cases "drawn_row (drop_roll sha256 seed) 0 rows")
    case None
    then show ?thesis using i r assms by simp
  next
    case (Some row)
    then show ?thesis using i by (auto simp: take_Suc_conv_app_nth)
  qed
qed

definition sample_percents :: "master_percent list" where
  "sample_percents = map (\<lambda>(i, p). \<lparr>mpct_row_id = i, mpct_group = 1, mpct_percent = p, mpct_reward_type = 1,
     mpct_reward_id = 2, mpct_quantity = Fin 5, mpct_active = True\<rparr>) [(1, 30), (2, 70)]"

lemma drop_always_drawn_witness:
  "\<exists>k < length sample_percents. drawn_row (drop_roll (\<lambda>_. [200]) ''x'') 0 sample_percents = Some (sample_percents ! k)
    \<and> percent_sum (take k sample_percents) \<le> drop_roll (\<lambda>_. [200]) ''x''
    \<and> drop_roll (\<lambda>_. [200]) ''x'' < percent_sum (take (k + 1) sample_percents)"
  by (rule drop_always_drawn) (simp add: sample_percents_def)

end
