(* ===== verification/Gameplay.thy ===== *)
theory Gameplay
  imports Commands Requests Player_View Scores Calendar
begin

text \<open>
  What the handlers of \<open>crates/transport-http/src/gameplay.rs\<close> share: an action reads and commits jobs
  of the database one after the other and may fail between them, which undoes nothing; the call it
  answers; the mutation of a command, with its idempotency key; the compatibility responses.

  The JSON codecs of the results, SHA-256 and the hexadecimal text are parameters.
\<close>

section \<open>Actions\<close>

type_synonym 'a action = "db \<Rightarrow> (gameplay_error + 'a) \<times> db"

definition act_return :: "'a \<Rightarrow> 'a action" where
  "act_return x s = (Inr x, s)"

definition act_lift :: "gameplay_error + 'a \<Rightarrow> 'a action" where
  "act_lift r s = (r, s)"

definition act_bind :: "'a action \<Rightarrow> ('a \<Rightarrow> 'b action) \<Rightarrow> 'b action" where
  "act_bind m f s = (case m s of (Inl e, t) \<Rightarrow> (Inl e, t) | (Inr x, t) \<Rightarrow> f x t)"

text \<open>A job of the database actor: \<open>job\<close> commits, \<open>job_read\<close> only reads, \<open>job_commits\<close> commits by itself.\<close>

definition job :: "'a store \<Rightarrow> 'a action" where
  "job op s = (case tx_commit op s of (Inl e, t) \<Rightarrow> (Inl (Store e), t) | (Inr x, t) \<Rightarrow> (Inr x, t))"

definition job_read :: "'a store \<Rightarrow> 'a action" where
  "job_read op s = (case op s of Inl e \<Rightarrow> (Inl (Store e), s) | Inr (x, _) \<Rightarrow> (Inr x, s))"

definition job_commits :: "(db \<Rightarrow> (store_error + 'a) \<times> db) \<Rightarrow> 'a action" where
  "job_commits op s = (case op s of (Inl e, t) \<Rightarrow> (Inl (Store e), t) | (Inr x, t) \<Rightarrow> (Inr x, t))"

definition act_rel :: "(db \<Rightarrow> db \<Rightarrow> bool) \<Rightarrow> 'a action \<Rightarrow> bool" where
  "act_rel R m \<longleftrightarrow> (\<forall>s. R s (snd (m s)))"

locale action_relation =
  fixes R :: "db \<Rightarrow> db \<Rightarrow> bool"
  assumes refl: "R s s"
    and trans: "R s t \<Longrightarrow> R t v \<Longrightarrow> R s v"
begin

lemma return: "act_rel R (act_return x)"
  by (simp add: act_rel_def act_return_def refl)

lemma lift: "act_rel R (act_lift r)"
  by (simp add: act_rel_def act_lift_def refl)

lemma bind:
  assumes m: "act_rel R m" and f: "\<And>x. act_rel R (f x)"
  shows "act_rel R (act_bind m f)"
  unfolding act_rel_def
proof
  fix s
  obtain r t where p: "m s = (r, t)" by (cases "m s")
  then have "R s t" using m by (metis act_rel_def snd_conv)
  then show "R s (snd (act_bind m f s))"
    using p f trans by (cases r) (auto simp: act_bind_def act_rel_def)
qed

lemma read: "act_rel R (job_read op)"
  by (simp add: act_rel_def job_read_def refl split: sum.split prod.split)

lemma job: "tx_rel R op \<Longrightarrow> act_rel R (job op)"
  by (auto simp: act_rel_def job_def tx_commit_def refl dest: tx_relD split: sum.split prod.split)

lemma commits: "(\<And>s. R s (snd (op s))) \<Longrightarrow> act_rel R (job_commits op)"
  by (simp add: act_rel_def job_commits_def case_prod_unfold split: sum.split)

lemma cond: "act_rel R m \<Longrightarrow> act_rel R n \<Longrightarrow> act_rel R (if b then m else n)"
  by simp

lemma option_case: "act_rel R m \<Longrightarrow> (\<And>x. act_rel R (f x)) \<Longrightarrow> act_rel R (case v of None \<Rightarrow> m | Some x \<Rightarrow> f x)"
  by (cases v) simp_all

lemma pair_case: "(\<And>x y. act_rel R (f x y)) \<Longrightarrow> act_rel R (case p of (x, y) \<Rightarrow> f x y)"
  by (cases p) simp

lemmas rules = return lift bind read cond option_case pair_case

end

section \<open>The server and the call\<close>

type_synonym 'a codec = "('a \<Rightarrow> string + string) \<times> (string \<Rightarrow> string + 'a)"

record codecs =
  cd_accepted :: "unit codec"
  cd_unit :: "unit codec"
  cd_int :: "int codec"
  cd_string :: "string codec"
  cd_ints :: "int list codec"
  cd_identity :: "user_identity codec"
  cd_grant :: "reward_grant option codec"
  cd_purchase :: "purchase_outcome codec"
  cd_content :: "content_purchase_outcome codec"
  cd_package :: "package_purchase_outcome codec"
  cd_fill :: "pass_fill_outcome codec"
  cd_pass_claim :: "pass_claim_outcome codec"
  cd_settlement :: "ch3_settlement codec"
  cd_chapter :: "(ch3_energy_snapshot \<times> reward_grant list) codec"
  cd_stream :: "ch3_stream_settlement codec"
  cd_gift :: "follower_gift_outcome codec"
  cd_selected :: "select_reward_snapshot list codec"
  cd_encore :: "music_encore_reward_outcome codec"
  cd_profile_rewards :: "follower_profile_reward_outcome list codec"
  cd_quest_outcome :: "follower_quest_outcome codec"
  cd_quest :: "follower_quest_snapshot codec"
  cd_attendance :: "attendance_result codec"
  cd_game_reward :: "(int \<times> reward_grant list) codec"
  cd_event_reward :: "(reward_grant list \<times> f64 \<times> f64 \<times> f64 \<times> f64) codec"
  cd_ad :: "ad_reward_outcome codec"
  cd_reviews :: "music_review_snapshot list codec"
  cd_bookmarks :: "bookmark_snapshot list codec"
  cd_scores :: "music_score_snapshot list codec"

definition coded :: "'a codec \<Rightarrow> (('a \<Rightarrow> string + string) \<Rightarrow> (string \<Rightarrow> string + 'a) \<Rightarrow> 'b) \<Rightarrow> 'b" where
  "coded c f = f (fst c) (snd c)"

text \<open>The part of \<open>AppState\<close> the handlers use; the database is the state of the actions.\<close>

record game_env =
  ge_schema :: protocol_schema
  ge_master :: master_catalog
  ge_endpoint :: string
  ge_rules :: reward_rules
  ge_achievement_ids :: "int list"
  ge_codecs :: codecs
  ge_sha256 :: "bytes \<Rightarrow> bytes"
  ge_hex :: "bytes \<Rightarrow> string"

text \<open>\<open>GameplayCall\<close> with the session and the specification that \<open>execute\<close> has beside it.\<close>

record game_call =
  gc_rpc :: string
  gc_spec :: rpc_spec
  gc_session :: login_session
  gc_locale :: string
  gc_request :: named_request
  gc_clock :: device_clock
  gc_sequence :: "int option"
  gc_raw :: bytes

abbreviation call_usn :: "game_call \<Rightarrow> int" where
  "call_usn c \<equiv> id_usn (ls_identity (gc_session c))"

abbreviation arg_int :: "game_call \<Rightarrow> string \<Rightarrow> int" where
  "arg_int c name \<equiv> or_else 0 (request_integer (gc_request c) name)"

abbreviation arg_text :: "game_call \<Rightarrow> string \<Rightarrow> string" where
  "arg_text c name \<equiv> or_else [] (request_string (gc_request c) name)"

definition respond :: "game_env \<Rightarrow> game_call \<Rightarrow> (string \<times> wire_value) list \<Rightarrow> wire_value action" where
  "respond env c fs = act_lift (protocol (response_struct (gc_spec c) (ge_schema env) fs))"

definition respond_sparse :: "game_env \<Rightarrow> game_call \<Rightarrow> (string \<times> wire_value) list \<Rightarrow> wire_value action" where
  "respond_sparse env c fs = act_lift (protocol (response_sparse_struct (gc_spec c) (ge_schema env) fs))"

definition wire :: "envelope_error + 'a \<Rightarrow> 'a action" where
  "wire r = act_lift (protocol r)"

definition found :: "string \<Rightarrow> 'a option \<Rightarrow> 'a action" where
  "found what v = act_lift (expect_some (Invalid what) v)"

definition invalid :: "string \<Rightarrow> 'a action" where
  "invalid what = act_lift (Inl (Invalid what))"

section \<open>Mutations\<close>

definition request_key :: "game_env \<Rightarrow> int \<Rightarrow> int \<Rightarrow> string \<Rightarrow> bytes \<Rightarrow> string" where
  "request_key env nonce sequence rpc raw =
     show_int nonce @ '':'' @ show_int sequence @ '':'' @ rpc @ '':'' @ ge_hex env (ge_sha256 env raw)"

definition positive_sequence :: "game_call \<Rightarrow> gameplay_error + int" where
  "positive_sequence c =
     expect_some (Invalid (''mutating RPC '' @ gc_rpc c @ '' is missing a positive request sequence''))
       (case gc_sequence c of None \<Rightarrow> None | Some v \<Rightarrow> if 0 < v then Some v else None)"

definition mutation_key :: "game_env \<Rightarrow> game_call \<Rightarrow> string action" where
  "mutation_key env c = act_bind (act_lift (positive_sequence c)) (\<lambda>sequence.
     act_return (request_key env (ls_nonce (gc_session c)) sequence (gc_rpc c) (gc_raw c)))"

definition mutation_of :: "game_env \<Rightarrow> game_call \<Rightarrow> int \<Rightarrow> rpc_mutation" where
  "mutation_of env c sequence =
     \<lparr>mu_nonce = ls_nonce (gc_session c), mu_identity = ls_identity (gc_session c), mu_request_seq = sequence,
      mu_rpc = gc_rpc c,
      mu_idempotency_key = request_key env (ls_nonce (gc_session c)) sequence (gc_rpc c) (gc_raw c),
      mu_committed_at = unix_seconds (gc_clock c)\<rparr>"

definition mutation :: "game_env \<Rightarrow> game_call \<Rightarrow> rpc_mutation action" where
  "mutation env c = act_bind (act_lift (positive_sequence c)) (\<lambda>sequence.
     act_return (mutation_of env c sequence))"

text \<open>\<open>record_noop\<close> commits \<open>{"accepted":true}\<close>.\<close>

definition record_noop :: "game_env \<Rightarrow> rpc_mutation \<Rightarrow> unit action" where
  "record_noop env m = job (coded (cd_accepted (ge_codecs env)) (\<lambda>enc dec. commit_rpc_mutation enc dec m (tx_return ())))"

text \<open>A command: its mutation, one job, the answer.\<close>

definition command :: "game_env \<Rightarrow> game_call \<Rightarrow> (rpc_mutation \<Rightarrow> 'a store) \<Rightarrow> 'a action" where
  "command env c op = act_bind (mutation env c) (\<lambda>m. job (op m))"

section \<open>Compatibility responses\<close>

fun contains :: "string \<Rightarrow> string \<Rightarrow> bool" where
  "contains p [] \<longleftrightarrow> p = []"
| "contains p (c # s) \<longleftrightarrow> starts_with p (c # s) \<or> contains p s"

definition trimmed_type :: "string \<Rightarrow> string" where
  "trimmed_type t = dropWhile (\<lambda>c. c = CHR ''*'') (trimmed t)"

definition compatibility_identifier :: "string \<Rightarrow> bool" where
  "compatibility_identifier field \<longleftrightarrow> field = ''id'' \<or> field = ''idx'' \<or> field = ''i_id'' \<or> field = ''u_area_num''
     \<or> ends_with ''_id'' field \<or> ends_with ''_idx'' field \<or> ends_with ''id'' field \<or> ends_with ''idx'' field"

definition baseline_compatibility_integer :: "string \<Rightarrow> int option \<Rightarrow> login_session \<Rightarrow> int" where
  "baseline_compatibility_integer field entry_id session =
     (let now = unix_seconds (ls_clock session)
      in if field \<in> {''u_seq'', ''user_seq''} then id_usn (ls_identity session)
         else if field \<in> {''u_fans_grade'', ''i_userfangrade''} then 1
         else if field \<in> {''u_avatar'', ''avatar_idx'', ''u_title'', ''title_idx''} then 1
         else if field \<in> {''is_owner'', ''is_purchased'', ''is_buy'', ''buy_flg''} then 1
         else if field \<in> {''server_time'', ''update_time'', ''i_updatetime''} then now
         else if field \<in> {''start_time'', ''i_activetime'', ''i_purchasetime''} then sat_i64 (now - 60)
         else if field \<in> {''end_time'', ''i_endtime''} then sat_i64 (now + 365 * 24 * 60 * 60)
         else if contains ''level'' field \<or> ends_with ''_grade'' field \<or> field = ''grade'' then 1
         else if compatibility_identifier field then or_else 1 entry_id
         else if contains ''reward_value'' field \<or> contains ''quantity'' field \<or> ends_with ''_count'' field
                 \<or> ends_with ''_cnt'' field \<or> starts_with ''is_'' field \<or> starts_with ''i_is'' field
                 \<or> starts_with ''b_is'' field then 1
         else if field \<in> {''result'', ''status'', ''success''} then 1
         else 0)"

definition baseline_compatibility_string :: "string \<Rightarrow> login_session \<Rightarrow> string" where
  "baseline_compatibility_string field session =
     (if field \<in> {''u_id'', ''userid'', ''user_id''} then id_user_id (ls_identity session)
      else if field \<in> {''u_name'', ''u_nick'', ''nickname'', ''nick_name''} then ''Guitar Girl''
      else if field \<in> {''status'', ''result'', ''ret'', ''success'', ''is_success''} then ''Y''
      else if field = ''u_review_popup'' then ''N''
      else if field = ''u_create_time'' then show_int (unix_seconds (ls_clock session))
      else if field = ''u_last_login'' then ''2026-09-03 00:00:00''
      else if field \<in> {''u_country'', ''country'', ''country_code'', ''u_state''} then ''US''
      else if field \<in> {''buy_datetime'', ''reg_datetime'', ''update_datetime''} then ''2099-12-31 23:59:59''
      else if field = ''device_uuid'' then []
      else if field = ''transfer_id'' then ''reborn-'' @ show_int (id_usn (ls_identity session))
      else if field \<in> {''mode'', ''sub_mode'', ''s_type''} then ''normal''
      else if contains ''title'' field \<or> contains ''name'' field then ''Reborn''
      else if contains ''description'' field \<or> starts_with ''desc_'' field then ''Restored offline service''
      else [])"

definition compatibility_type :: "protocol_schema \<Rightarrow> string \<Rightarrow> string \<Rightarrow> envelope_error + type_spec" where
  "compatibility_type schema ns t =
     (let (rns, rname) = (case rsplit_dot t of Some p \<Rightarrow> p | None \<Rightarrow> (ns, t)); q = rns @ ''::'' @ rname
      in case schema_type schema q of None \<Rightarrow> Inl (MissingType q) | Some spec \<Rightarrow> Inr spec)"

definition compatibility_wire_kind :: "protocol_schema \<Rightarrow> string \<Rightarrow> string \<Rightarrow> envelope_error + byte" where
  "compatibility_wire_kind schema ns wire_type =
     (let t = trimmed_type wire_type
      in if starts_with ''[]'' t then Inr kind_list
         else if starts_with ''map['' t then Inr kind_map
         else case scalar_kind t of
                Some k \<Rightarrow> Inr k
              | None \<Rightarrow> sum_bind (compatibility_type schema ns t) (\<lambda>_. Inr kind_struct))"

definition compatibility_scalar ::
  "string \<Rightarrow> string \<Rightarrow> int option \<Rightarrow> login_session \<Rightarrow> wire_value option" where
  "compatibility_scalar t field entry_id session =
     (let n = baseline_compatibility_integer field entry_id session
      in if t = ''bool'' then Some (VBool (field \<notin> {''is_error'', ''error'', ''failed'', ''is_failed'', ''maintenance''}))
         else if t \<in> {''byte'', ''int8'', ''uint8''} then Some (VByte (word_of_int (clamp_int (- 128) 127 n)))
         else if t \<in> {''int16'', ''uint16''} then Some (v16 (to_i16 n))
         else if t \<in> {''int'', ''int32'', ''uint'', ''uint32''} then Some (v32 (to_i32 n))
         else if t \<in> {''int64'', ''uint64''} then Some (v64 n)
         else if t \<in> {''float32'', ''float64''} then Some (vdouble (if contains ''quantity'' field then Fin 1 else fzero))
         else if t = ''string'' then Some (text_value (baseline_compatibility_string field session))
         else if t \<in> {''any'', ''interface{}'', ''interface {}''} then Some (VStruct [])
         else None)"

function (sequential) baseline_compatibility_value ::
  "protocol_schema \<Rightarrow> login_session \<Rightarrow> int option \<Rightarrow> string \<Rightarrow> string \<Rightarrow> string \<Rightarrow> nat \<Rightarrow> envelope_error + wire_value"
  and baseline_compatibility_fields ::
  "protocol_schema \<Rightarrow> login_session \<Rightarrow> int option \<Rightarrow> string \<Rightarrow> field_spec list \<Rightarrow> nat \<Rightarrow> envelope_error + field list"
where
  "baseline_compatibility_value schema session entry_id ns wire_type field depth =
     (if 32 < depth then Inl (RecursionLimit wire_type)
      else let t = trimmed_type wire_type
        in case strip_prefix ''[]'' t of
             Some element \<Rightarrow> sum_bind (compatibility_wire_kind schema ns element) (\<lambda>k. Inr (VList k []))
           | None \<Rightarrow>
        (case split_map t of
             Some (k, v) \<Rightarrow> sum_bind (compatibility_wire_kind schema ns k) (\<lambda>kk.
                sum_bind (compatibility_wire_kind schema ns v) (\<lambda>vk. Inr (VMap kk vk [])))
           | None \<Rightarrow>
        (case compatibility_scalar t (to_lower field) entry_id session of
             Some v \<Rightarrow> Inr v
           | None \<Rightarrow>
        (case compatibility_type schema ns t of
             Inl e \<Rightarrow> Inl e
           | Inr spec \<Rightarrow>
               (case baseline_compatibility_fields schema session entry_id (ts_namespace spec) (ts_fields spec)
                       (depth + 1) of
                  Inl e \<Rightarrow> Inl e | Inr fs \<Rightarrow> Inr (VStruct fs))))))"
| "baseline_compatibility_fields schema session entry_id ns [] depth = Inr []"
| "baseline_compatibility_fields schema session entry_id ns (f # fs) depth =
     (case baseline_compatibility_value schema session entry_id ns (fs_type f) (fs_name f) depth of
        Inl e \<Rightarrow> Inl e
      | Inr v \<Rightarrow> (case baseline_compatibility_fields schema session entry_id ns fs depth of
                    Inl e \<Rightarrow> Inl e | Inr rest \<Rightarrow> Inr (Field (fs_id f) v # rest)))"
  by pat_completeness auto

termination
  by (relation "measures
      [case_sum (\<lambda>(schema, session, entry_id, ns, t, field, depth). 2 * (34 - depth))
                (\<lambda>(schema, session, entry_id, ns, fs, depth). 2 * (34 - depth) + 1),
       case_sum (\<lambda>_. 0) (\<lambda>(schema, session, entry_id, ns, fs, depth). length fs)]") auto

declare baseline_compatibility_value.simps [simp del]

definition singleton_list ::
  "protocol_schema \<Rightarrow> login_session \<Rightarrow> string \<Rightarrow> string \<Rightarrow> envelope_error + wire_value" where
  "singleton_list schema session ns t =
     sum_bind (baseline_compatibility_value schema session (Some 1) ns t ''Data'' 0) (\<lambda>v. Inr (vlist [v]))"

definition singleton_map ::
  "protocol_schema \<Rightarrow> login_session \<Rightarrow> string \<Rightarrow> string \<Rightarrow> byte \<Rightarrow> envelope_error + wire_value" where
  "singleton_map schema session ns t kt =
     sum_bind (baseline_compatibility_value schema session (Some 1) ns t ''Data'' 0) (\<lambda>v.
     Inr (VMap kt kind_struct [(if kt = kind_i16 then v16 1 else v32 1, v)]))"

definition compatibility_baseline_response ::
  "protocol_schema \<Rightarrow> rpc_spec \<Rightarrow> login_session \<Rightarrow> envelope_error + wire_value" where
  "compatibility_baseline_response schema spec session =
     (let rpc = rpc_name spec; music_list = singleton_list schema session ''music_model'';
          tab_map = (\<lambda>t. singleton_map schema session ''main_model'' t kind_i16)
      in if rpc = ''getAlbum'' then music_list ''GetAlbumRetDataInfo''
         else if rpc = ''getAlbumList'' then music_list ''GetAlbumListRetDataInfo''
         else if rpc = ''getMusicList'' then music_list ''GetMusicListRetDataInfo''
         else if rpc = ''getProfileMusic'' then singleton_list schema session ''user_model'' ''GetProfileMusicRetDataInfo''
         else if rpc = ''itemStoreList'' then singleton_list schema session ''store_model'' ''ItemStoreListRetDataInfo''
         else if rpc = ''getAlbumInfoList''
         then singleton_map schema session ''music_model'' ''GetAlbumInfoListRetDataInfo'' kind_i32
         else if rpc = ''getMusicInfoList''
         then singleton_map schema session ''music_model'' ''GetMusicInfoListRetDataInfo'' kind_i32
         else if rpc = ''getTabList'' then tab_map ''GetTabListRetDataInfo''
         else if rpc = ''newStoreList'' then tab_map ''NewStoreListRetDataInfo''
         else if rpc = ''storeList'' then tab_map ''StoreListRetDataInfo''
         else if rpc = ''userAvatarList''
         then response_struct spec schema [(''U_seq'', v32 (to_i32 (id_usn (ls_identity session)))),
                (''Avatar'', VList kind_i32 [v32 1])]
         else if rpc = ''userPurchase''
         then sum_bind (singleton_list schema session ''user_model'' ''UserPurchaseMusicIdx'') (\<lambda>v.
              response_struct spec schema [(''Music_data'', v)])
         else sum_bind (response_wire spec) (\<lambda>w.
              baseline_compatibility_value schema session None (ws_namespace w) (ws_type w) ''Data'' 0))"

end
