(* ===== verification/Game_Queries.thy ===== *)
theory Game_Queries
  imports Gameplay
begin

text \<open>
  The arms of \<open>execute\<close> (\<open>crates/transport-http/src/gameplay.rs\<close>) that only read the database. One of
  them, \<open>getChThird\<close>, writes back the energy it computes.
\<close>

section \<open>Start and catalogue\<close>

definition arm_init :: "game_env \<Rightarrow> game_call \<Rightarrow> wire_value action" where
  "arm_init env c = respond env c
     [(''Idx'', v16 1), (''Game_url'', text_value (ge_endpoint env)),
      (''Cdn_url'', text_value (ge_endpoint env @ ''/AssetBundles/''))]"

definition arm_update_time :: "game_env \<Rightarrow> game_call \<Rightarrow> wire_value action" where
  "arm_update_time env c =
     act_bind (job_read (tx_gets (\<lambda>s. state_revision (call_usn c) ''master-data'' s))) (\<lambda>revision.
     respond_sparse env c [(''Upd_time'', v64 (master_update_time (gc_clock c) revision))])"

definition arm_server_time :: "game_env \<Rightarrow> game_call \<Rightarrow> wire_value action" where
  "arm_server_time env c = respond env c
     [(''Time'', v64 (unix_seconds (gc_clock c))), (''Datetime'', v64 (device_datetime_number (gc_clock c)))]"

definition arm_default_settings :: "game_env \<Rightarrow> game_call \<Rightarrow> wire_value action" where
  "arm_default_settings env c =
     act_bind (wire (sum_collect (\<lambda>(key, value). default_setting_wire_value (ge_schema env) key value)
                       default_settings)) (\<lambda>values.
     respond env c [(''Status'', text_value ''Y''), (''Setting_list'', vlist values)])"

definition pass_overlay_of :: "device_clock \<Rightarrow> pass_snapshot \<Rightarrow> pass_overlay" where
  "pass_overlay_of clock pass =
     \<lparr>po_active_season = pass_season clock (pa_anchor_day (ps_anchor pass)) (pa_anchor_season (ps_anchor pass)),
      po_local_month = fst (snd (civil_from_days (local_epoch_day clock)))\<rparr>"

definition game_data_type :: "protocol_schema \<Rightarrow> string \<Rightarrow> string option" where
  "game_data_type schema name =
     Option.bind (schema_type schema ''main_model::GetGameDataListRetDataInfo'') (\<lambda>spec.
     Option.bind (find_spec name (ts_fields spec)) (\<lambda>f. strip_prefix ''[]'' (fs_type f)))"

definition game_data_table ::
  "game_env \<Rightarrow> pass_overlay \<Rightarrow> string \<times> master_row list \<Rightarrow> gameplay_error + string \<times> wire_value" where
  "game_data_table env overlay table =
     (case table of (name, rows) \<Rightarrow>
        sum_bind (expect_some (Invalid (''missing getGameDataList schema field '' @ name))
                    (game_data_type (ge_schema env) name)) (\<lambda>result_type.
        sum_bind (sum_collect (\<lambda>row. game_data_row_value (ge_schema env) (ge_master env) name result_type row overlay)
                    rows) (\<lambda>values. Inr (name, vlist values))))"

definition arm_game_data :: "game_env \<Rightarrow> game_call \<Rightarrow> wire_value action" where
  "arm_game_data env c =
     act_bind (job_read (pass_snapshot (call_usn c))) (\<lambda>pass.
     act_bind (act_lift (sum_collect (game_data_table env (pass_overlay_of (gc_clock c) pass))
                 (mc_game_data (ge_master env)))) (\<lambda>tables.
     act_bind (wire (struct_value (ge_schema env) ''main_model'' ''GetGameDataListRetDataInfo'' tables)) (\<lambda>payload.
     act_return (VMap kind_string kind_struct [(text_value ''ret'', payload)]))))"

definition owned_prop_level :: "player_snapshot \<Rightarrow> int \<Rightarrow> int" where
  "owned_prop_level snap i =
     (case find (\<lambda>l. cl_kind l = Prop \<and> cl_content_id l = i) (pl_content_levels snap) of
        None \<Rightarrow> 0 | Some l \<Rightarrow> cl_level l)"

definition arm_variety_store :: "game_env \<Rightarrow> game_call \<Rightarrow> wire_value action" where
  "arm_variety_store env c =
     act_bind (act_lift (variety_store_rows (ge_master env))) (\<lambda>rows.
     act_bind (job_read (player_snapshot (call_usn c))) (\<lambda>snap.
     act_bind (act_lift (sum_collect (variety_store_wire_value (ge_schema env))
                 (map (\<lambda>r. variety_store_price (owned_prop_level snap (vsr_reward_id r)) r) rows))) (\<lambda>values.
     act_return (vlist values))))"

definition arm_title_list :: "game_env \<Rightarrow> game_call \<Rightarrow> wire_value action" where
  "arm_title_list env c =
     act_bind (job_read (player_snapshot (call_usn c))) (\<lambda>snap.
     respond_sparse env c [(''U_seq'', v32 (to_i32 (call_usn c))),
       (''Title'', VList kind_i32 (case pl_title_id snap of None \<Rightarrow> [] | Some i \<Rightarrow> [v32 i]))])"

definition arm_main :: "game_env \<Rightarrow> game_call \<Rightarrow> wire_value action" where
  "arm_main env c =
     act_bind (wire (main_game_info_wire_value (ge_schema env) (ge_endpoint env) (gc_locale c))) (\<lambda>info.
     respond_sparse env c [(''GameInfo'', info), (''Features'', vlist [])])"

section \<open>The player\<close>

definition echoed_device :: "string option \<Rightarrow> player_snapshot \<Rightarrow> player_snapshot" where
  "echoed_device device snap =
     (case device of None \<Rightarrow> snap
      | Some d \<Rightarrow> if d \<noteq> [] \<and> length d \<le> 256 then snap\<lparr>pl_device_uuid := d\<rparr> else snap)"

definition arm_login :: "game_env \<Rightarrow> game_call \<Rightarrow> wire_value action" where
  "arm_login env c =
     (if request_integer (gc_request c) ''U_seq'' \<noteq> Some (call_usn c)
      then wire (user_login_identity_response (ge_schema env) (gc_spec c) (ls_identity (gc_session c)))
      else act_bind (job_read (player_snapshot (call_usn c))) (\<lambda>snap.
           wire (player_response (ge_schema env) (gc_spec c)
                   (echoed_device (request_string (gc_request c) ''Device_uuid'') snap) (gc_clock c))))"

definition arm_load :: "game_env \<Rightarrow> game_call \<Rightarrow> wire_value action" where
  "arm_load env c =
     act_bind (job_read (player_snapshot (call_usn c))) (\<lambda>snap.
     wire (player_response_projected (ge_schema env) (gc_spec c) snap
             (request_string (gc_request c) ''Type'' \<noteq> Some ''buff'') (gc_clock c)))"

definition choice_snapshots :: "int \<Rightarrow> string \<Rightarrow> (player_snapshot \<times> player_snapshot) store" where
  "choice_snapshots u selector =
     tx_bind (player_snapshot u) (\<lambda>current.
     if selector = [] then tx_return (current, current)
     else tx_bind (resolve_slot selector) (\<lambda>identity.
          tx_bind (player_snapshot (id_usn identity)) (\<lambda>choice. tx_return (current, choice))))"

definition arm_choice_user :: "game_env \<Rightarrow> game_call \<Rightarrow> wire_value action" where
  "arm_choice_user env c =
     act_bind (job_read (choice_snapshots (call_usn c) (arg_text c ''Choice_uuid''))) (\<lambda>(current, choice).
     act_bind (wire (choice_user_value (ge_schema env) current)) (\<lambda>user.
     act_bind (wire (choice_user_value (ge_schema env) choice)) (\<lambda>other.
     respond_sparse env c [(''User'', user), (''Choice_user'', other)])))"

definition arm_all_point :: "game_env \<Rightarrow> game_call \<Rightarrow> wire_value action" where
  "arm_all_point env c =
     act_bind (job_read (player_snapshot (call_usn c))) (\<lambda>snap.
     respond env c
       [(''U_cp'', v64 (amount_i64 (player_currency snap Chocolate))),
        (''U_mp'', v64 (amount_i64 (player_currency snap Candy))), (''U_credit'', v64 0),
        (''Next_credit_time'', v64 0), (''Max_credit_time'', v64 0)])"

definition arm_last_save :: "game_env \<Rightarrow> game_call \<Rightarrow> wire_value action" where
  "arm_last_save env c =
     act_bind (job_read (last_save_time (call_usn c))) (\<lambda>(saved_at, device_uuid).
     respond env c [(''Last_save_time'', v64 saved_at), (''Device_uuid'', text_value device_uuid)])"

section \<open>Mail and events\<close>

definition arm_post_time :: "game_env \<Rightarrow> game_call \<Rightarrow> wire_value action" where
  "arm_post_time env c =
     act_bind (job_read (mailbox (call_usn c))) (\<lambda>box. respond env c [(''Time'', v64 (mb_cursor box))])"

definition arm_post :: "game_env \<Rightarrow> game_call \<Rightarrow> wire_value action" where
  "arm_post env c =
     act_bind (job_read (mailbox (call_usn c))) (\<lambda>box.
     act_bind (wire (sum_collect (mail_wire_value (ge_schema env)) (mb_mail box))) (\<lambda>posts.
     respond env c [(''Server_time'', v64 (unix_seconds (gc_clock c))), (''Post_list'', vlist posts)]))"

definition sam_seck_row :: "protocol_schema \<Rightarrow> master_sam_seck \<Rightarrow> gameplay_error + wire_value" where
  "sam_seck_row schema row =
     sum_bind (expect_some (Invalid (''missing memorial SamSeck reward '' @ show_int (msam_id row)))
                 (sam_seck_reward (msam_id row)))
       (\<lambda>reward. protocol (sam_seck_reward_wire_value schema (msam_id row) reward))"

definition arm_sam_seck_list :: "game_env \<Rightarrow> game_call \<Rightarrow> wire_value action" where
  "arm_sam_seck_list env c =
     act_bind (act_lift (sum_collect (sam_seck_row (ge_schema env))
                 (filter msam_active (mc_sam_seck (ge_master env))))) (\<lambda>values.
     respond_sparse env c [(''Event_type'', text_value ''samseck''), (''RewardList'', vlist values)])"

definition arm_event_list :: "game_env \<Rightarrow> game_call \<Rightarrow> wire_value action" where
  "arm_event_list env c =
     (let grp = arg_int c ''Event_idx''
      in act_bind (job_read (tx_gets (\<lambda>s. claimed_event_rewards s (call_usn c)))) (\<lambda>claimed.
         act_bind (wire (sum_collect (\<lambda>row. event_reward_wire_value (ge_schema env) row (mdrw_id row \<in> set claimed))
                     (filter (\<lambda>row. mdrw_group row = grp) (mc_daily_rewards (ge_master env))))) (\<lambda>rows.
         act_bind (wire (sparse_struct_value (ge_schema env) ''main_model'' ''GetEventRewardListRetDataInfo''
                     [(''Reward_list'', vlist rows), (''Group_idx'', v32 grp)])) (\<lambda>value.
         act_return (VMap kind_i32 kind_struct [(v32 grp, value)])))))"

section \<open>Chapter 3\<close>

definition energy_cap :: int where
  "energy_cap = wrap_i32 (memorial_ch3_energy_cap embedded_policy)"

definition arm_ch3 :: "game_env \<Rightarrow> game_call \<Rightarrow> wire_value action" where
  "arm_ch3 env c =
     act_bind (job_commits (ch3_snapshot_at (call_usn c) (unix_seconds (gc_clock c)) energy_cap)) (\<lambda>snap.
     act_bind (wire (ch3_energy_wire_value (ge_schema env) (c3_energy snap))) (\<lambda>energy.
     act_bind (wire (ch3_completed_stage_values (ge_schema env) (c3_stages snap))) (\<lambda>stages.
     act_bind (wire (sum_collect (\<lambda>ch. ch3_chapter_wire_value (ge_schema env) (mcha_chapter ch) (c3_chapter_claims snap))
                 (filter mcha_active (mc_ch3_chapters (ge_master env))))) (\<lambda>chapters.
     respond_sparse env c
       [(''U_seq'', v32 (to_i32 (call_usn c))), (''User_ap'', energy), (''User_ch_third_stage'', vlist stages),
        (''User_ch_third_chapter_reward'', vlist chapters)]))))"

end
