(* ===== verification/Game_Shop.thy ===== *)
theory Game_Shop
  imports Game_Queries
begin

text \<open>
  The arms of \<open>execute\<close> (\<open>crates/transport-http/src/gameplay.rs\<close>) that sell: content, music, packages,
  the shop, and the season pass.
\<close>

section \<open>Content\<close>

definition content_command :: "purchase_spec \<Rightarrow> content_purchase_command" where
  "content_command p =
     \<lparr>cpc_kind = cps_kind p, cpc_area = cps_area p, cpc_content_id = cps_content_id p,
      cpc_currency = cps_currency p, cpc_price = cps_price p, cpc_price_increment = cps_price_increment p,
      cpc_max_level = cps_max_level p\<rparr>"

definition buy_content :: "game_env \<Rightarrow> game_call \<Rightarrow> content_purchase_command \<Rightarrow> content_purchase_outcome action" where
  "buy_content env c cmd =
     command env c (\<lambda>m. coded (cd_content (ge_codecs env)) (\<lambda>enc dec. purchase_content enc dec m cmd))"

definition variety_command :: "variety_store_row \<Rightarrow> content_purchase_command" where
  "variety_command row =
     \<lparr>cpc_kind = Prop, cpc_area = vsr_area row, cpc_content_id = vsr_reward_id row, cpc_currency = Candy,
      cpc_price = Fin 1, cpc_price_increment = vsr_price_increment row, cpc_max_level = vsr_max_level row\<rparr>"

definition arm_buy_variety :: "game_env \<Rightarrow> game_call \<Rightarrow> wire_value action" where
  "arm_buy_variety env c =
     (let store_id = arg_int c ''Idx''
      in act_bind (act_lift (variety_store_rows (ge_master env))) (\<lambda>rows.
         act_bind (found (''unknown variety store item '' @ show_int store_id)
                     (find (\<lambda>r. vsr_id r = store_id) rows)) (\<lambda>row.
         act_bind (buy_content env c (variety_command row)) (\<lambda>outcome.
         respond_sparse env c
           [(''U_cp'', v64 (amount_i64 (cpo_chocolate outcome))), (''U_candy'', vdouble (cpo_candy outcome)),
            (''Reward_type'', v16 4), (''Reward_id'', v32 (to_i32 (cpo_content_id outcome))),
            (''Reward_value'', v64 1), (''Status'', text_value ''Y'')]))))"

definition bought_value :: "protocol_schema \<Rightarrow> content_purchase_outcome \<Rightarrow> envelope_error + (string \<times> wire_value) list" where
  "bought_value schema result =
     (let fs = [(''I_id'', v64 (cpo_content_id result)), (''I_Level'', v64 (cpo_level result))]
      in case cpo_kind result of
           Skill \<Rightarrow> sum_bind (sparse_struct_value schema ''user_model'' ''UserSkill'' fs) (\<lambda>v. Inr [(''User_skill'', v)])
         | Unit \<Rightarrow> sum_bind (sparse_struct_value schema ''user_model'' ''UserUnit'' fs) (\<lambda>v. Inr [(''User_unit'', v)])
         | _ \<Rightarrow> Inr [])"

definition arm_buy_contents :: "game_env \<Rightarrow> game_call \<Rightarrow> wire_value action" where
  "arm_buy_contents env c =
     act_bind (act_lift (content_purchase_spec (ge_master env) (arg_text c ''Type'') (arg_int c ''Idx''))) (\<lambda>purchase.
     act_bind (buy_content env c (content_command purchase)) (\<lambda>result.
     act_bind (wire (bought_value (ge_schema env) result)) (\<lambda>bought.
     respond_sparse env c ([(''U_cp'', v64 (amount_i64 (cpo_chocolate result))),
       (''U_candy'', vdouble (cpo_candy result))] @ bought))))"

definition music_price :: "master_music \<Rightarrow> f64" where
  "music_price row = (if flt_le (mmus_unlock_cost row) fzero then fzero
                      else scaled_requirement (mmus_unlock_cost row) False)"

definition music_command :: "master_music \<Rightarrow> int \<Rightarrow> currency_kind \<Rightarrow> content_purchase_command" where
  "music_command row i currency =
     \<lparr>cpc_kind = Music, cpc_area = mmus_area row, cpc_content_id = i, cpc_currency = currency,
      cpc_price = music_price row, cpc_price_increment = fzero, cpc_max_level = max (mmus_max_level row) 1\<rparr>"

definition arm_buy_music :: "game_env \<Rightarrow> game_call \<Rightarrow> wire_value action" where
  "arm_buy_music env c =
     (let i = arg_int c ''Idx''
      in act_bind (found (''music '' @ show_int i @ '' is not directly purchasable'')
           (find (\<lambda>r. mmus_id r = i \<and> mmus_active r \<and> mmus_acquisition_type r = 0) (mc_music (ge_master env)))) (\<lambda>row.
         act_bind (act_lift (currency_for_goods (mmus_currency row) (mmus_area row))) (\<lambda>currency.
         act_bind (buy_content env c (music_command row i currency)) (\<lambda>result.
         act_bind (wire (sparse_struct_value (ge_schema env) ''user_model'' ''MusicData''
                     [(''Music_idx'', v32 (to_i32 i))])) (\<lambda>music.
         respond_sparse env c
           [(''U_gold'', v32 0), (''U_cp'', v32 (to_i32 (amount_i64 (cpo_chocolate result)))),
            (''U_mp'', v32 (to_i32 (amount_i64 (cpo_candy result)))),
            (''Music'', VMap kind_i32 kind_struct [(v32 (to_i32 i), music)])])))))"

section \<open>Packages\<close>

definition package_contents :: "master_catalog \<Rightarrow> int list \<Rightarrow> (content_kind \<times> int \<times> int) list" where
  "package_contents cat ids =
     (let item = (\<lambda>kind i. (kind, content_area cat kind i, i)); any = (\<lambda>xs. list_ex (\<lambda>i. i \<in> set xs) ids)
      in remdups_adj (sort
           ((if any [5, 12] then [item Music 12] else [])
            @ (if any [6, 10] then [item Guitar 6, item Costume 10] else [])
            @ (if any [19, 211] then [item Music 211] else [])
            @ (if any [23, 209, 214] then [item Guitar 214, item Costume 209] else []))))"

definition package_music :: "int list \<Rightarrow> int list" where
  "package_music ids =
     (let any = (\<lambda>xs. list_ex (\<lambda>i. i \<in> set xs) ids)
      in remdups_adj (sort ((if any [5, 12] then [12] else []) @ (if any [19, 211] then [211] else []))))"

definition arm_buy_package :: "game_env \<Rightarrow> game_call \<Rightarrow> wire_value action" where
  "arm_buy_package env c =
     (let ids = [arg_int c ''Store_idx'', arg_int c ''Product_id'']
      in act_bind (command env c (\<lambda>m. coded (cd_package (ge_codecs env)) (\<lambda>enc dec.
           grant_package_contents enc dec m (package_contents (ge_master env) ids) (package_music ids)))) (\<lambda>result.
         act_bind (wire (sum_collect (\<lambda>i. sparse_struct_value (ge_schema env) ''user_model'' ''BuyPackageMusic''
                     [(''Music_idx'', v64 i)]) (ppo_music_ids result))) (\<lambda>music.
         respond env c
           [(''U_gold'', v64 0), (''U_cp'', v64 (amount_i64 (ppo_chocolate result))),
            (''U_mp'', v64 (amount_i64 (ppo_candy result))), (''U_credit'', v64 0), (''Music_data'', vlist music)])))"

section \<open>The shop\<close>

definition plain_grant :: "master_reward \<Rightarrow> reward_grant" where
  "plain_grant r = \<lparr>rg_reward_type = mrew_reward_type r, rg_reward_id = mrew_reward_id r, rg_amount = mrew_quantity r\<rparr>"

definition shop_progression :: "master_catalog \<Rightarrow> master_shop \<Rightarrow> ad_level_progression option" where
  "shop_progression cat shop =
     (let rows = filter (\<lambda>r. malv_group r = msho_reward_group shop \<and> malv_active r) (mc_ad_levels cat)
      in if msho_product_type shop = 5 \<and> rows \<noteq> []
         then Some \<lparr>alp_group_id = msho_reward_group shop,
                    alp_thresholds = map (\<lambda>r. (malv_level r, malv_required_experience r)) rows\<rparr>
         else None)"

text \<open>The reward group of a product that levels up is the one of the level reached so far.\<close>

definition shop_reward_group :: "game_env \<Rightarrow> game_call \<Rightarrow> master_shop \<Rightarrow> int action" where
  "shop_reward_group env c shop =
     (case shop_progression (ge_master env) shop of
        None \<Rightarrow> act_return (msho_reward_group shop)
      | Some p \<Rightarrow>
          act_bind (job_read (read_ad_level (call_usn c) (alp_group_id p))) (\<lambda>current.
          act_return (case find (\<lambda>r. malv_group r = alp_group_id p \<and> malv_level r = al_level current \<and> malv_active r)
                             (mc_ad_levels (ge_master env)) of
                        None \<Rightarrow> msho_reward_group shop | Some r \<Rightarrow> malv_reward_group r)))"

definition permanent_reward :: "reward_grant \<Rightarrow> bool" where
  "permanent_reward g \<longleftrightarrow> (2 \<le> rg_reward_type g \<and> rg_reward_type g \<le> 5) \<or> (7 \<le> rg_reward_type g \<and> rg_reward_type g \<le> 10)"

definition nonempty :: "string option \<Rightarrow> string option" where
  "nonempty s = (case s of Some t \<Rightarrow> if t = [] then None else Some t | None \<Rightarrow> None)"

definition shop_transaction :: "game_call \<Rightarrow> int \<Rightarrow> reward_grant list \<Rightarrow> string" where
  "shop_transaction c shop_id rewards =
     (let receipt = (case nonempty (request_string (gc_request c) ''Purchase_id'') of Some r \<Rightarrow> Some r
                     | None \<Rightarrow> nonempty (request_string (gc_request c) ''Purchase_token''))
      in case receipt of
           Some r \<Rightarrow> ''receipt:'' @ r
         | None \<Rightarrow>
             if list_ex permanent_reward rewards then ''shop-once:'' @ show_int shop_id
             else ''shop:'' @ show_int shop_id @ '':'' @ show_int (or_else 0 (gc_sequence c)))"

definition shop_command ::
  "game_call \<Rightarrow> int \<Rightarrow> reward_grant list \<Rightarrow> ad_level_progression option \<Rightarrow> reward_purchase_command" where
  "shop_command c shop_id rewards progression =
     \<lparr>rpc_transaction_id = shop_transaction c shop_id rewards, rpc_purchase_kind = ''shop'',
      rpc_target_id = shop_id, rpc_cost = None, rpc_rewards = rewards, rpc_ad_progression = progression\<rparr>"

definition buy_rewards :: "game_env \<Rightarrow> game_call \<Rightarrow> reward_purchase_command \<Rightarrow> purchase_outcome action" where
  "buy_rewards env c cmd =
     act_bind (command env c (\<lambda>m. coded (cd_purchase (ge_codecs env)) (\<lambda>enc dec.
       purchase_rewards enc dec (ge_rules env) m cmd))) (\<lambda>outcome.
     case po_ad_level outcome of
       Some _ \<Rightarrow> act_return outcome
     | None \<Rightarrow> act_bind (job_read (read_ad_level (call_usn c) 210010)) (\<lambda>l.
                act_return (outcome\<lparr>po_ad_level := Some l\<rparr>)))"

definition shop_level_field ::
  "protocol_schema \<Rightarrow> ad_level_snapshot option \<Rightarrow> envelope_error + (string \<times> wire_value) list" where
  "shop_level_field schema level =
     (case level of None \<Rightarrow> Inr []
      | Some l \<Rightarrow> sum_bind (ad_level_value schema l) (\<lambda>v. Inr [(''User_ad_level'', v)]))"

definition arm_buy_shop :: "game_env \<Rightarrow> game_call \<Rightarrow> wire_value action" where
  "arm_buy_shop env c =
     (let shop_id = arg_int c ''Idx''
      in act_bind (found (''unknown shop item '' @ show_int shop_id) (catalog_shop (ge_master env) shop_id)) (\<lambda>shop.
         act_bind (shop_reward_group env c shop) (\<lambda>grp.
         act_bind (buy_rewards env c (shop_command c shop_id (map plain_grant (catalog_rewards (ge_master env) grp))
                     (shop_progression (ge_master env) shop))) (\<lambda>result.
         act_bind (wire (sum_collect (store_reward_wire_value (ge_schema env)) (po_rewards result))) (\<lambda>rewards.
         act_bind (wire (shop_level_field (ge_schema env) (po_ad_level result))) (\<lambda>level.
         respond_sparse env c
           ([(''U_cp'', v64 (amount_i64 (po_chocolate result))), (''U_candy'', vdouble (po_candy result)),
             (''Reward_data'', vlist rewards)] @ level)))))))"

section \<open>The pass\<close>

definition season_of :: "master_catalog \<Rightarrow> int \<Rightarrow> master_pass_season option" where
  "season_of cat season = find (\<lambda>r. mpse_subscribe_id r = season) (mc_pass_seasons cat)"

definition pass_steps :: "master_catalog \<Rightarrow> int \<Rightarrow> master_pass_reward list" where
  "pass_steps cat season = filter (\<lambda>r. mprw_group r = season) (mc_pass_rewards cat)"

definition arm_paid_event_point :: "game_env \<Rightarrow> game_call \<Rightarrow> wire_value action" where
  "arm_paid_event_point env c =
     (let season = arg_int c ''I_SubscribeID''; version = clamp_int 0 i32_max (arg_int c ''I_Version'');
          paid = (arg_int c ''Type'' = 1)
      in act_bind (found (''unknown pass '' @ show_int season) (season_of (ge_master env) season)) (\<lambda>pass.
         let cost = (if paid then f64_of_int (mpse_point_price pass) else fzero);
             added = sat_i64 ((if paid then mpse_paid_point pass else mpse_ad_point pass)
                              * policy_pass_point_multiplier embedded_policy);
             thresholds = map (\<lambda>r. (mprw_step r, mprw_goal r)) (pass_steps (ge_master env) season)
         in act_bind (command env c (\<lambda>m. coded (cd_fill (ge_codecs env)) (\<lambda>enc dec.
              fill_pass enc dec m season version cost added thresholds))) (\<lambda>result.
            respond_sparse env c
              [(''U_cp'', v64 (amount_i64 (pfo_chocolate result))), (''U_candy'', vdouble (pfo_candy result)),
               (''I_SubscribeID'', v64 (pfo_season result)), (''I_Point'', v64 (pfo_points result)),
               (''I_Version'', v32 (pfo_version result))])))"

definition arm_pass_reward :: "game_env \<Rightarrow> game_call \<Rightarrow> wire_value action" where
  "arm_pass_reward env c =
     (let season = arg_int c ''Group''; step = wrap_i32 (or_else (- 1) (request_integer (gc_request c) ''Step''));
          lane = wrap_i16 (or_else (- 1) (request_integer (gc_request c) ''Type''));
          version = wrap_i32 (max (or_else 1 (request_integer (gc_request c) ''I_Version'')) 1)
      in if lane < 0 \<or> 1 < lane then invalid (''invalid pass lane '' @ show_int lane)
         else act_bind (found (''unknown pass reward '' @ show_int season @ '':'' @ show_int step)
                (catalog_pass_reward (ge_master env) season step)) (\<lambda>row.
           let grp = (if lane = 0 then mprw_free_reward_group row else mprw_paid_reward_group row);
               rewards = map plain_grant (catalog_rewards (ge_master env) grp)
           in act_bind (found (''unknown pass '' @ show_int season) (season_of (ge_master env) season)) (\<lambda>pass.
              act_bind (command env c (\<lambda>m. coded (cd_pass_claim (ge_codecs env)) (\<lambda>enc dec.
                claim_pass_reward enc dec (ge_rules env) m season version lane step (mprw_goal row) rewards
                  (int (length (pass_steps (ge_master env) season))) (mpse_ticket_collection_id pass)))) (\<lambda>result.
              act_bind (wire (sparse_struct_value (ge_schema env) ''user_model'' ''UserSubscribePassReward''
                [(''I_SubscribeID'', v64 (pco_season result)), (''I_Type'', v64 (pco_lane result)),
                 (''I_Step'', v64 (pco_step result)), (''I_UpdateTime'', v64 (pco_claimed_at result)),
                 (''I_Version'', v32 (pco_version result))])) (\<lambda>claim.
              act_bind (wire (sum_collect (user_reward_wire_value (ge_schema env)) (pco_rewards result))) (\<lambda>values.
              respond_sparse env c [(''Subscribe_pass_reward'', claim), (''Reward_data'', vlist values)]))))))"

definition arm_subscribe :: "game_env \<Rightarrow> game_call \<Rightarrow> wire_value action" where
  "arm_subscribe env c =
     act_bind (command env c (\<lambda>m. coded (cd_ints (ge_codecs env)) (\<lambda>enc dec.
       activate_passes enc dec m (or_else [] (request_integers (gc_request c) ''I_ids''))))) (\<lambda>active.
     act_bind (wire (sum_collect (\<lambda>season. subscribe_wire_value (ge_schema env) season (unix_seconds (gc_clock c)))
                 active)) (\<lambda>values.
     respond_sparse env c [(''U_seq'', v32 (to_i32 (call_usn c))), (''User_subscribe_list'', vlist values)]))"

end
