(* ===== verification/Game_Followers.thy ===== *)
theory Game_Followers
  imports Game_Queries
begin

text \<open>
  The arms of \<open>execute\<close> (\<open>crates/transport-http/src/gameplay.rs\<close>) about music records, followers and
  their quests.
\<close>

section \<open>Music records\<close>

definition arm_review :: "game_env \<Rightarrow> game_call \<Rightarrow> wire_value action" where
  "arm_review env c =
     act_bind (act_lift (parse_music_reviews (gc_request c))) (\<lambda>reviews.
     act_bind (command env c (\<lambda>m. coded (cd_reviews (ge_codecs env)) (\<lambda>enc dec. save_music_reviews enc dec m reviews))) (\<lambda>rows.
     act_bind (wire (sum_collect (music_review_wire_value (ge_schema env)) rows)) (\<lambda>values.
     act_return (vlist values))))"

definition arm_bookmark :: "game_env \<Rightarrow> game_call \<Rightarrow> wire_value action" where
  "arm_bookmark env c =
     act_bind (act_lift (parse_bookmarks (gc_request c))) (\<lambda>bookmarks.
     act_bind (command env c (\<lambda>m. coded (cd_bookmarks (ge_codecs env)) (\<lambda>enc dec. save_bookmarks enc dec m bookmarks))) (\<lambda>rows.
     act_bind (wire (sum_collect (bookmark_wire_value (ge_schema env)) rows)) (\<lambda>values.
     act_return (vlist values))))"

text \<open>Only the rows that the client sent are answered.\<close>

definition arm_score :: "game_env \<Rightarrow> game_call \<Rightarrow> wire_value action" where
  "arm_score env c =
     (let scores = parse_music_scores (gc_request c); key = (\<lambda>r. (ms_music_id r, ms_difficulty r))
      in act_bind (command env c (\<lambda>m. coded (cd_scores (ge_codecs env)) (\<lambda>enc dec. merge_music_scores enc dec m scores))) (\<lambda>merged.
         act_bind (wire (sum_collect (music_score_wire_value (ge_schema env))
                     (filter (\<lambda>r. key r \<in> set (map key scores)) merged))) (\<lambda>rows.
         respond_sparse env c [(''Update_list'', vlist rows), (''U_gold'', v64 0), (''U_ep'', v64 0),
           (''Event_flg'', v16 0)])))"

section \<open>Encores\<close>

definition encore_level :: "master_music \<Rightarrow> int \<Rightarrow> int" where
  "encore_level music requested =
     clamp_int 1 (max (mmus_max_level music) 1) (if in_i32 requested then requested else i32_max)"

definition encore_ready_at :: "device_clock \<Rightarrow> master_music_level \<Rightarrow> int" where
  "encore_ready_at clock level =
     (let cooldown = as_i64 (fround (encore_cooldown (mmlv_official_encore_cooldown_seconds level) (Fin 75600)))
      in sat_i64 (unix_seconds clock
           + max cooldown (tdiv (as_i64 (policy_encore_base_seconds embedded_policy)) 21)))"

definition encore_request_of ::
  "master_catalog \<Rightarrow> device_clock \<Rightarrow> int \<times> int \<Rightarrow> gameplay_error + encore_request" where
  "encore_request_of cat clock request =
     (case request of (i, requested) \<Rightarrow>
        sum_bind (expect_some (Invalid (''unknown music '' @ show_int i))
                    (find (\<lambda>r. mmus_id r = i \<and> mmus_active r) (mc_music cat))) (\<lambda>music.
        let level = encore_level music requested
        in sum_bind (expect_some (Invalid (''missing music level '' @ show_int level))
                       (find (\<lambda>r. mmlv_level r = level) (mc_music_levels cat))) (\<lambda>row.
           Inr (i, mmlv_gift_amount row, mmlv_follower_profile_exp row, encore_ready_at clock row))))"

definition all_profile_thresholds :: "master_catalog \<Rightarrow> (int \<times> int \<times> int \<times> int) list" where
  "all_profile_thresholds cat =
     map (\<lambda>r. (mfpl_profile_id r, mfpl_level r, as_i64 (fmax (mfpl_required_exp r) fzero), mfpl_add_candy r))
       (filter mfpl_active (mc_follower_profile_levels cat))"

definition encore_error :: "protocol_schema \<Rightarrow> int \<Rightarrow> envelope_error + wire_value \<times> wire_value" where
  "encore_error schema i =
     sum_bind (sparse_struct_value schema ''common_model'' ''ErrorRetCode''
                 [(''Code'', v32 100103), (''Errmsg'', text_value ''encore reward unavailable'')])
       (\<lambda>v. Inr (v32 i, v))"

definition arm_music_reward :: "game_env \<Rightarrow> game_call \<Rightarrow> wire_value action" where
  "arm_music_reward env c =
     (let music_ids = or_else [] (request_integers (gc_request c) ''I_ids'');
          levels = or_else [] (request_integers (gc_request c) ''I_levels'')
      in if length music_ids \<noteq> length levels
         then invalid ''getMusicReward requires positional I_ids/I_levels pairs''
         else act_bind (act_lift (sum_collect (encore_request_of (ge_master env) (gc_clock c)) (zip music_ids levels))) (\<lambda>requested.
           act_bind (command env c (\<lambda>m. coded (cd_encore (ge_codecs env)) (\<lambda>enc dec.
             claim_music_encore_rewards enc dec m requested (all_profile_thresholds (ge_master env))))) (\<lambda>outcome.
           act_bind (wire (sum_collect (ch3_profile_wire_value (ge_schema env)) (mero_profiles outcome))) (\<lambda>profiles.
           act_bind (wire (sum_collect (encore_error (ge_schema env)) (mero_rejected_music_ids outcome))) (\<lambda>errors.
           respond_sparse env c
             [(''Total_reward_value'', v32 (wrap_i32 (sum_list (map snd (mero_rewards outcome))))),
              (''Reward_music_id'', VList kind_i32 (map (\<lambda>r. v32 (fst r)) (mero_rewards outcome))),
              (''Reward_value'', VList kind_i32 (map (\<lambda>r. v32 (snd r)) (mero_rewards outcome))),
              (''User_follower_profile'', vlist profiles),
              (''Error_data'', VMap kind_i32 kind_struct errors)])))))"

section \<open>Followers\<close>

definition arm_gift :: "game_env \<Rightarrow> game_call \<Rightarrow> wire_value action" where
  "arm_gift env c =
     (let profile_id = arg_int c ''Profile_id''; gift_id = arg_int c ''Gift_id''; quantity = arg_int c ''Use_gitf_value''
      in act_bind (found (''unknown follower gift '' @ show_int gift_id)
           (find (\<lambda>r. mgif_id r = gift_id \<and> mgif_active r) (mc_follower_gifts (ge_master env)))) (\<lambda>gift.
         act_bind (command env c (\<lambda>m. coded (cd_gift (ge_codecs env)) (\<lambda>enc dec.
           give_follower_gift enc dec m profile_id gift_id quantity (mgif_experience gift)
             (follower_profile_thresholds (ge_master env) profile_id)))) (\<lambda>outcome.
         act_bind (wire (follower_gift_wire_value (ge_schema env) gift_id (fgo_remaining outcome))) (\<lambda>item.
         act_bind (wire (ch3_profile_wire_value (ge_schema env) (fgo_profile outcome))) (\<lambda>profile.
         respond_sparse env c
           [(''I_gift_type'', v32 (mgif_gift_type gift)), (''User_follower_giftitem'', item),
            (''User_follower_profile'', profile)])))))"

definition reward_levels :: "string \<Rightarrow> int list" where
  "reward_levels s = remdups_adj (sort (filter in_i32 (digit_numbers s)))"

definition profile_reward_of ::
  "master_catalog \<Rightarrow> int \<Rightarrow> int \<Rightarrow> gameplay_error + int \<times> reward_grant list" where
  "profile_reward_of cat profile_id level =
     sum_bind (expect_some (Invalid (''unknown profile '' @ show_int profile_id @ '' reward level '' @ show_int level))
        (find (\<lambda>r. mfpl_active r \<and> mfpl_profile_id r = profile_id \<and> mfpl_level r = level)
           (mc_follower_profile_levels cat)))
       (\<lambda>row. Inr (level, reward_group cat (mfpl_reward_group row) (Fin 1)))"

definition arm_profile_reward :: "game_env \<Rightarrow> game_call \<Rightarrow> wire_value action" where
  "arm_profile_reward env c =
     (let profile_id = arg_int c ''I_id''
      in act_bind (act_lift (sum_collect (profile_reward_of (ge_master env) profile_id)
                     (reward_levels (arg_text c ''S_level'')))) (\<lambda>requested.
         act_bind (command env c (\<lambda>m. coded (cd_profile_rewards (ge_codecs env)) (\<lambda>enc dec.
           claim_follower_profile_rewards enc dec (ge_rules env) m profile_id requested))) (\<lambda>outcomes.
         act_bind (wire (sum_collect (follower_profile_reward_wire_value (ge_schema env)) outcomes)) (\<lambda>values.
         act_return (vlist values)))))"

section \<open>Quests\<close>

definition arm_quest_infinite :: "game_env \<Rightarrow> game_call \<Rightarrow> wire_value action" where
  "arm_quest_infinite env c =
     act_bind (command env c (\<lambda>m. coded (cd_quest (ge_codecs env)) (\<lambda>enc dec. set_follower_quest_infinite enc dec m))) (\<lambda>quest.
     act_bind (wire (follower_quest_wire_value (ge_schema env) quest)) (\<lambda>v.
     respond_sparse env c [(''U_seq'', v32 (to_i32 (call_usn c))), (''User_follower_quest'', v)]))"

definition quest_sub_index :: "int \<Rightarrow> nat option" where
  "quest_sub_index sub_id =
     (let i = wrap_i64 (sub_id - 1) in if 0 \<le> i \<and> i < 3 then Some (nat i) else None)"

definition quest_thresholds :: "master_quest \<Rightarrow> f64 \<times> f64 \<times> f64" where
  "quest_thresholds q = (mque_thresholds q ! 0, mque_thresholds q ! 1, mque_thresholds q ! 2)"

definition arm_quest :: "game_env \<Rightarrow> game_call \<Rightarrow> wire_value action" where
  "arm_quest env c =
     (let current_id = arg_int c ''I_CurrentID''; sub_id = arg_int c ''I_SubID'';
          v = or_else fzero (value_double (request_value (gc_request c) ''D_ConditionValue''))
      in act_bind (found (''unknown follower quest '' @ show_int current_id)
           (find (\<lambda>r. mque_id r = current_id \<and> mque_active r) (mc_follower_quests (ge_master env)))) (\<lambda>quest.
         act_bind (found (''invalid follower quest sub id '' @ show_int sub_id) (quest_sub_index sub_id)) (\<lambda>i.
         act_bind (command env c (\<lambda>m. coded (cd_quest_outcome (ge_codecs env)) (\<lambda>enc dec.
           advance_follower_quest enc dec (ge_rules env) m current_id sub_id v (quest_thresholds quest)
             (reward_group (ge_master env) (mque_reward_groups quest ! i) (Fin 1))
             (Some (sat_i64 (current_id + 1)))))) (\<lambda>outcome.
         wire (follower_quest_response (ge_schema env) (gc_spec c) outcome)))))"

end
