(* ===== verification/Game_Activities.thy ===== *)
theory Game_Activities
  imports Game_Queries
begin

text \<open>
  The arms of \<open>execute\<close> (\<open>crates/transport-http/src/gameplay.rs\<close>) about attendance, flags, claims of
  achievements, missions, advertisements and events, the profile, tutorials and the snapshot of the
  client.
\<close>

section \<open>Attendance and flags\<close>

definition arm_attendance :: "game_env \<Rightarrow> game_call \<Rightarrow> wire_value action" where
  "arm_attendance env c =
     act_bind (command env c (\<lambda>m. coded (cd_attendance (ge_codecs env)) (\<lambda>enc dec.
       attendance enc dec m (gc_clock c) (or_else ''check'' (request_string (gc_request c) ''Type''))))) (\<lambda>result.
     respond_sparse env c
       [(''Status'', text_value (at_status result)), (''Attendance_count'', v32 (at_attendance_count result)),
        (''Attendance_date'', v32 (wrap_i32 (tdiv (device_datetime_number (gc_clock c)) 1000000))),
        (''Max_coutinuous_attendance_count'', v32 (at_max_continuous_count result))])"

definition set_flag :: "game_env \<Rightarrow> game_call \<Rightarrow> string \<Rightarrow> int \<Rightarrow> int action" where
  "set_flag env c flag v =
     command env c (\<lambda>m. coded (cd_int (ge_codecs env)) (\<lambda>enc dec. set_one_time_flag enc dec m flag v))"

definition arm_review_popup :: "game_env \<Rightarrow> game_call \<Rightarrow> wire_value action" where
  "arm_review_popup env c =
     act_bind (set_flag env c ''review-popup'' 1) (\<lambda>_. respond env c [(''Status'', text_value ''OK'')])"

definition arm_achievement :: "game_env \<Rightarrow> game_call \<Rightarrow> wire_value action" where
  "arm_achievement env c =
     act_bind (set_flag env c ''achievement-popup-index'' (arg_int c ''Achievement'')) (\<lambda>achievement.
     respond_sparse env c [(''Achievement'', v16 (wrap_i16 achievement))])"

section \<open>Achievements and missions\<close>

definition reward_kind :: "game_call \<Rightarrow> string" where
  "reward_kind c =
     (let kind = to_lower (arg_text c ''Type'') in if kind = ''dailymission'' then ''daily_mission'' else kind)"

definition reward_quantity :: "game_call \<Rightarrow> f64" where
  "reward_quantity c =
     (case Option.bind (request_string (gc_request c) ''S_quantity'') parse_f64 of
        Some v \<Rightarrow> if is_finite v \<and> flt_le fzero v then v
                  else or_else fzero (value_double (request_value (gc_request c) ''Quantity''))
      | None \<Rightarrow> or_else fzero (value_double (request_value (gc_request c) ''Quantity'')))"

text \<open>Threshold, named currency, value and grant of a claim.\<close>

type_synonym reward_terms = "f64 \<times> string \<times> int \<times> reward_grant option"

definition achievement_terms :: "master_catalog \<Rightarrow> int \<Rightarrow> int \<Rightarrow> gameplay_error + reward_terms" where
  "achievement_terms cat i level =
     sum_bind (expect_some (Invalid (''unknown achievement '' @ show_int i))
                 (find (\<lambda>r. mach_id r = i \<and> mach_active r) (mc_achievements cat))) (\<lambda>row.
     let k = wrap_i32 (level - 1)
     in if 0 \<le> k \<and> nat k < length (mach_conditions row) \<and> level \<le> mach_max_level row
        then let v = mach_reward_values row ! nat k
             in Inr (achievement_requirement embedded_policy i (mach_conditions row ! nat k), mach_reward_type row, v,
                     reward_from_named_currency (mach_reward_type row) (f64_of_int v))
        else Inl (Invalid (''invalid achievement '' @ show_int i @ '' level '' @ show_int level)))"

definition mission_terms :: "master_catalog \<Rightarrow> int \<Rightarrow> gameplay_error + reward_terms" where
  "mission_terms cat i =
     sum_bind (expect_some (Invalid (''unknown daily mission '' @ show_int i))
                 (find (\<lambda>r. mmis_id r = i \<and> mmis_active r) (mc_daily_missions cat))) (\<lambda>row.
     Inr (mmis_condition row, mmis_reward_type row, mmis_reward_value row,
          reward_from_named_currency (mmis_reward_type row) (f64_of_int (mmis_reward_value row))))"

definition reward_terms_of :: "master_catalog \<Rightarrow> string \<Rightarrow> int \<Rightarrow> int \<Rightarrow> gameplay_error + reward_terms" where
  "reward_terms_of cat kind i level =
     (if kind = ''achievement'' then achievement_terms cat i level
      else if kind = ''daily_mission'' then mission_terms cat i
      else Inl (Invalid (''unknown game reward type '' @ kind)))"

definition game_reward_answer ::
  "game_env \<Rightarrow> game_call \<Rightarrow> string \<Rightarrow> int \<Rightarrow> int \<Rightarrow> string \<Rightarrow> int \<Rightarrow> string \<Rightarrow> wire_value action" where
  "game_reward_answer env c kind i level reward_type reward_value status = respond_sparse env c
     [(''Type'', text_value kind), (''Id'', v32 (wrap_i32 i)), (''Level'', v16 (wrap_i16 level)),
      (''Reward_type'', text_value reward_type), (''Reward_value'', v64 reward_value), (''Status'', text_value status)]"

definition reward_claim :: "game_call \<Rightarrow> string \<Rightarrow> int \<Rightarrow> int \<Rightarrow> f64 \<Rightarrow> reward_grant option \<Rightarrow> game_reward_claim_command" where
  "reward_claim c kind i level threshold reward =
     \<lparr>grc_kind = kind, grc_id = i, grc_level = level, grc_quantity = reward_quantity c, grc_threshold = threshold,
      grc_local_day = local_epoch_day (gc_clock c), grc_reward = reward\<rparr>"

definition arm_game_reward :: "game_env \<Rightarrow> game_call \<Rightarrow> wire_value action" where
  "arm_game_reward env c =
     (let kind = reward_kind c; i = arg_int c ''Id''; level = wrap_i32 (arg_int c ''Level'')
      in if kind = ''music''
         then act_bind (act_bind (mutation env c) (record_noop env)) (\<lambda>_. game_reward_answer env c kind i level [] 0 ''N'')
         else act_bind (act_lift (reward_terms_of (ge_master env) kind i level)) (\<lambda>(threshold, reward_type, v, reward).
           act_bind (command env c (\<lambda>m. coded (cd_game_reward (ge_codecs env)) (\<lambda>enc dec.
             claim_game_reward enc dec (ge_rules env) m (reward_claim c kind i level threshold reward)))) (\<lambda>outcome.
           game_reward_answer env c kind i (fst outcome) reward_type v ''Y'')))"

section \<open>Advertisements and events\<close>

definition ad_profile :: "game_env \<Rightarrow> game_call \<Rightarrow> ad_profile_grant" where
  "ad_profile env c =
     (let profile_id = or_else 1 (Option.bind (request_string (gc_request c) ''Param1'') parse_i64)
      in \<lparr>apg_profile_id = profile_id, apg_experience = 100,
          apg_level_thresholds = follower_profile_thresholds (ge_master env) profile_id\<rparr>)"

definition arm_ad_reward :: "game_env \<Rightarrow> game_call \<Rightarrow> wire_value action" where
  "arm_ad_reward env c =
     (let ad_id = arg_int c ''I_id''
      in act_bind (found (''unknown ad reward '' @ show_int ad_id)
           (find (\<lambda>r. mads_id r = ad_id \<and> mads_active r) (mc_ads (ge_master env)))) (\<lambda>ad.
         let on_profile = eq_ignore_case (mads_reward_type ad) ''PROFILE_EXP'';
             rewards = (if on_profile then [] else reward_group (ge_master env) (mads_reward_group ad) (Fin 1))
         in act_bind (command env c (\<lambda>m. coded (cd_ad (ge_codecs env)) (\<lambda>enc dec.
              grant_ad_reward enc dec (ge_rules env) m ad_id (local_epoch_day (gc_clock c)) rewards
                (if on_profile then Some (ad_profile env c) else None)))) (\<lambda>outcome.
            act_bind (wire (ad_state_wire_value (ge_schema env) outcome)) (\<lambda>ad_list.
            act_bind (wire (sum_collect (user_reward_wire_value (ge_schema env)) (aro_rewards outcome))) (\<lambda>values.
            act_bind (wire (case aro_profile outcome of None \<Rightarrow> Inr []
                            | Some p \<Rightarrow> sum_bind (ch3_profile_wire_value (ge_schema env) p)
                                          (\<lambda>v. Inr [(''User_follower_profile'', v)]))) (\<lambda>profile.
            respond_sparse env c ([(''I_id'', v32 (wrap_i32 ad_id)), (''User_ad_list'', ad_list),
              (''Reward_data'', vlist values)] @ profile)))))))"

definition arm_sam_seck_reward :: "game_env \<Rightarrow> game_call \<Rightarrow> wire_value action" where
  "arm_sam_seck_reward env c =
     (let event_id = arg_int c ''I_id''
      in act_bind (found (''unknown SamSeck reward '' @ show_int event_id)
           (find (\<lambda>r. msam_id r = event_id \<and> msam_active r) (mc_sam_seck (ge_master env)))) (\<lambda>row.
         act_bind (found (''missing memorial SamSeck reward '' @ show_int event_id) (sam_seck_reward event_id)) (\<lambda>reward.
         act_bind (command env c (\<lambda>m. coded (cd_int (ge_codecs env)) (\<lambda>enc dec.
           claim_sam_seck enc dec m event_id (msam_mail_reward_id row) reward))) (\<lambda>step.
         respond_sparse env c [(''Step'', v16 (wrap_i16 step))]))))"

definition arm_event_reward :: "game_env \<Rightarrow> game_call \<Rightarrow> wire_value action" where
  "arm_event_reward env c =
     (let row_id = arg_int c ''Event_idx''
      in act_bind (found (''unknown event reward '' @ show_int row_id)
           (find (\<lambda>r. mdrw_id r = row_id) (mc_daily_rewards (ge_master env)))) (\<lambda>row.
         let reward = \<lparr>rg_reward_type = mdrw_reward_type row, rg_reward_id = mdrw_reward_id row,
                       rg_amount = mdrw_quantity row\<rparr>;
             consume = (mdrw_reward_type row = 13)
         in act_bind (command env c (\<lambda>m. coded (cd_event_reward (ge_codecs env)) (\<lambda>enc dec.
              claim_event_reward enc dec (ge_rules env) m row_id reward))) (\<lambda>(rewards, chocolate, candy, like, fans).
            act_bind (wire (sum_collect (user_reward_wire_value (ge_schema env)) (if consume then rewards else []))) (\<lambda>values.
            respond_sparse env c
              ([(''U_cp'', v64 (amount_i64 chocolate)), (''U_candy'', vdouble candy), (''U_like'', vdouble like),
                (''U_fans'', v64 (amount_i64 fans)), (''Reward_type'', v16 (mdrw_reward_type row)),
                (''Reward_id'', v32 (mdrw_reward_id row)), (''Reward_value'', v32 (as_i32 (mdrw_quantity row))),
                (''Status'', text_value ''Y'')]
               @ (if consume then [(''Reward_data'', vlist values)] else []))))))"

definition arm_select_reward :: "game_env \<Rightarrow> game_call \<Rightarrow> wire_value action" where
  "arm_select_reward env c =
     (let selection_id = arg_int c ''I_id''
      in act_bind (found (''unknown select reward '' @ show_int selection_id)
           (find (\<lambda>r. msel_id r = selection_id \<and> msel_active r) (mc_select_rewards (ge_master env)))) (\<lambda>row.
         act_bind (command env c (\<lambda>m. coded (cd_selected (ge_codecs env)) (\<lambda>enc dec.
           select_reward enc dec m selection_id (to_i32 (msel_group row)) (to_i32 (msel_reward_group row))
             (to_i32 (msel_alternate_reward_group row))))) (\<lambda>selected.
         act_bind (wire (sum_collect (select_reward_wire_value (ge_schema env)) selected)) (\<lambda>values.
         respond_sparse env c
           [(''U_seq'', v32 (to_i32 (call_usn c))), (''User_select_reward_list'', vlist values)]))))"

section \<open>The profile and the snapshot\<close>

definition arm_nickname :: "game_env \<Rightarrow> game_call \<Rightarrow> wire_value action" where
  "arm_nickname env c =
     act_bind (command env c (\<lambda>m. coded (cd_string (ge_codecs env)) (\<lambda>enc dec.
       update_nickname enc dec m (arg_text c ''Nickname'')))) (\<lambda>nickname.
     respond env c [(''Nickname'', text_value nickname)])"

definition arm_title :: "game_env \<Rightarrow> game_call \<Rightarrow> wire_value action" where
  "arm_title env c =
     act_bind (command env c (\<lambda>m. coded (cd_int (ge_codecs env)) (\<lambda>enc dec.
       update_user_title enc dec m (arg_int c ''U_title'')))) (\<lambda>title.
     respond env c [(''U_title'', v16 (to_i16 title))])"

definition arm_gp :: "game_env \<Rightarrow> game_call \<Rightarrow> wire_value action" where
  "arm_gp env c =
     act_bind (command env c (\<lambda>m. coded (cd_int (ge_codecs env)) (\<lambda>enc dec.
       update_user_gp enc dec m (arg_int c ''Gp'')))) (\<lambda>gp.
     respond env c [(''Gp'', v32 (to_i32 gp))])"

definition arm_avatar :: "game_env \<Rightarrow> game_call \<Rightarrow> wire_value action" where
  "arm_avatar env c =
     act_bind (command env c (\<lambda>m. coded (cd_int (ge_codecs env)) (\<lambda>enc dec.
       update_avatar enc dec m (arg_int c ''U_avatar'')))) (\<lambda>avatar.
     respond env c [(''U_avatar'', v16 (to_i16 avatar))])"

definition merge_ids :: "game_env \<Rightarrow> game_call \<Rightarrow> int list \<Rightarrow> int list action" where
  "merge_ids env c ids =
     command env c (\<lambda>m. coded (cd_ints (ge_codecs env)) (\<lambda>enc dec. merge_tutorials enc dec m ids))"

definition tutorial_step :: "game_call \<Rightarrow> int" where
  "tutorial_step c =
     clamp_int 0 i16_max
       (case request_integer (gc_request c) ''Step'' of
          Some v \<Rightarrow> v | None \<Rightarrow> or_else 0 (tutorial_step_from_text (arg_text c ''Step'')))"

definition arm_tutorial :: "game_env \<Rightarrow> game_call \<Rightarrow> wire_value action" where
  "arm_tutorial env c =
     act_bind (merge_ids env c [1..tutorial_step c]) (\<lambda>_.
     respond env c [(''Step'', text_value (arg_text c ''Step''))])"

definition arm_tutorial_new :: "game_env \<Rightarrow> game_call \<Rightarrow> wire_value action" where
  "arm_tutorial_new env c =
     act_bind (merge_ids env c (or_else [] (request_integers (gc_request c) ''I_ids''))) (\<lambda>tutorials.
     act_bind (wire (sum_collect (\<lambda>i. struct_value (ge_schema env) ''user_model'' ''UserTutorial''
                 [(''I_id'', v32 (to_i32 i))]) tutorials)) (\<lambda>values.
     respond env c [(''U_seq'', v32 (to_i32 (call_usn c))), (''Tutorial'', vlist values)]))"

definition save_thresholds :: "master_catalog \<Rightarrow> (int \<times> int \<times> int) list" where
  "save_thresholds cat = map (\<lambda>r. (mprw_group r, mprw_step r, mprw_goal r)) (mc_pass_rewards cat)"

definition arm_save :: "game_env \<Rightarrow> game_call \<Rightarrow> wire_value action" where
  "arm_save env c =
     act_bind (command env c (\<lambda>m. coded (cd_string (ge_codecs env)) (\<lambda>enc dec.
       merge_user_save enc dec m (parse_user_save (ge_master env) (gc_request c)) (arg_text c ''Device_uuid'')
         (policy_pass_point_multiplier embedded_policy) (save_thresholds (ge_master env))))) (\<lambda>status.
     respond env c [(''Status'', text_value status)])"

section \<open>Accounts\<close>

definition arm_noop :: "game_env \<Rightarrow> game_call \<Rightarrow> (string \<times> wire_value) list \<Rightarrow> wire_value action" where
  "arm_noop env c answer = act_bind (act_bind (mutation env c) (record_noop env)) (\<lambda>_. respond env c answer)"

definition arm_join :: "game_env \<Rightarrow> game_call \<Rightarrow> wire_value action" where
  "arm_join env c = arm_noop env c [(''U_seq'', v32 (to_i32 (call_usn c))),
     (''U_id'', text_value (id_user_id (ls_identity (gc_session c))))]"

definition arm_change_user :: "game_env \<Rightarrow> game_call \<Rightarrow> wire_value action" where
  "arm_change_user env c =
     act_bind (command env c (\<lambda>m. coded (cd_identity (ge_codecs env)) (\<lambda>enc dec.
       request_switch_rpc enc dec m (arg_text c ''Change_uuid'')))) (\<lambda>_.
     respond env c [(''Result'', text_value ''Y'')])"

end
