(* ===== verification/Game_Stages.thy ===== *)
theory Game_Stages
  imports Game_Queries
begin

text \<open>
  The arms of \<open>execute\<close> (\<open>crates/transport-http/src/gameplay.rs\<close>) that play chapter 3, and those that
  change the mailbox.
\<close>

section \<open>Playing a stage\<close>

text \<open>\<open>position\<close> and \<open>get(position + 1)\<close>: the active stage after the first with the id.\<close>

fun stage_after :: "int \<Rightarrow> master_ch3_stage list \<Rightarrow> master_ch3_stage option option" where
  "stage_after i [] = None"
| "stage_after i (r # rows) =
     (if mstg_id r = i then Some (case rows of [] \<Rightarrow> None | n # _ \<Rightarrow> Some n) else stage_after i rows)"

definition stage_rewards ::
  "game_env \<Rightarrow> game_call \<Rightarrow> master_ch3_stage \<Rightarrow> ch3_score_result \<Rightarrow> reward_grant list action" where
  "stage_rewards env c stage scoring =
     (if csr_clear scoring \<and> \<not> is_story stage
      then act_bind (mutation_key env c) (\<lambda>key.
           act_return (ch3_rewards (ge_sha256 env) (ge_master env) stage (csr_star scoring) key))
      else act_return [])"

definition stage_answer ::
  "game_env \<Rightarrow> game_call \<Rightarrow> player_snapshot \<Rightarrow> ch3_score_result \<Rightarrow> ch3_settlement \<Rightarrow> wire_value action" where
  "stage_answer env c snap scoring outcome =
     (let schema = ge_schema env;
          music_level = (case find (\<lambda>r. cl_kind r = Music \<and> cl_content_id r = csr_music_id scoring) (pl_content_levels snap) of
                           None \<Rightarrow> 1 | Some r \<Rightarrow> cl_level r)
      in act_bind (wire (ch3_energy_wire_value schema (cst_energy outcome))) (\<lambda>energy.
         act_bind (wire (ch3_stage_wire_value schema (cst_stage outcome))) (\<lambda>stage.
         act_bind (wire (ch3_music_wire_value schema (csr_music_id scoring) music_level)) (\<lambda>music.
         act_bind (wire (sum_collect (user_reward_wire_value schema) (cst_rewards outcome))) (\<lambda>rewards.
         act_bind (wire (ch3_profile_wire_value schema (cst_profile outcome))) (\<lambda>profile.
         act_bind (wire (sum_collect (ch3_profile_score_wire_value schema) (csr_profile_scores scoring))) (\<lambda>scores.
         respond_sparse env c
           [(''Star'', v32 (csr_star scoring)), (''Character_score'', v32 (csr_character_score scoring)),
            (''Music_score'', v32 (csr_music_score scoring)),
            (''Follower_profile_score'', v32 (csr_follower_score scoring)),
            (''Bonus_score'', v32 (csr_bonus_score scoring)), (''Total_score'', v64 (csr_total_score scoring)),
            (''Clear'', v32 (if csr_clear scoring then 1 else 0)), (''User_ap'', energy),
            (''User_ch_third_stage'', stage), (''User_music'', music), (''Reward_data'', vlist rewards),
            (''Bonus_follower_profile_ids'', VList kind_i32 (map v32 (csr_bonus_profile_ids scoring))),
            (''User_follower_profile'', profile), (''Bonus_music_score'', v32 (csr_bonus_music_score scoring)),
            (''User_follower_profile_score'', vlist scores)])))))))"

definition settle_stage ::
  "game_env \<Rightarrow> game_call \<Rightarrow> master_ch3_stage \<Rightarrow> master_ch3_stage option \<Rightarrow> ch3_score_result \<Rightarrow> reward_grant list
   \<Rightarrow> ch3_settlement action" where
  "settle_stage env c stage nxt scoring rewards =
     command env c (\<lambda>m. coded (cd_settlement (ge_codecs env)) (\<lambda>enc dec.
       settle_ch3_stage enc dec (ge_rules env) m (stage_definition stage) (map_option stage_definition nxt)
         (csr_star scoring) (csr_total_score scoring) (if csr_story scoring then 0 else 5) energy_cap rewards
         (ch3_profile_exp_per_clear embedded_policy) (ch3_profile_thresholds (ge_master env))))"

definition arm_stage :: "game_env \<Rightarrow> game_call \<Rightarrow> wire_value action" where
  "arm_stage env c =
     act_bind (found ''chThirdStage missing I_id'' (request_integer (gc_request c) ''I_id'')) (\<lambda>stage_id.
     act_bind (found (''unknown CH3 stage '' @ show_int stage_id)
       (find (\<lambda>r. mstg_id r = stage_id \<and> mstg_active r) (mc_ch3_stages (ge_master env)))) (\<lambda>stage.
     act_bind (job_read (player_snapshot (call_usn c))) (\<lambda>snap.
     let scoring = calculate_ch3_score (ge_master env) snap stage (gc_request c)
     in act_bind (found ''CH3 stage ordering is incomplete''
          (stage_after (mstg_id stage) (filter mstg_active (mc_ch3_stages (ge_master env))))) (\<lambda>nxt.
        act_bind (stage_rewards env c stage scoring) (\<lambda>rewards.
        act_bind (settle_stage env c stage nxt scoring rewards) (\<lambda>outcome.
        stage_answer env c snap scoring outcome))))))"

section \<open>Repeating a stage\<close>

definition best_star :: "player_snapshot \<Rightarrow> int \<Rightarrow> int" where
  "best_star snap stage_id =
     (case find (\<lambda>r. cs_stage_id r = stage_id \<and> cs_completed r) (c3_stages (pl_ch3 snap)) of
        None \<Rightarrow> 0 | Some r \<Rightarrow> cs_best_star r)"

definition stream_rolls :: "game_env \<Rightarrow> master_ch3_stage \<Rightarrow> int \<Rightarrow> string \<Rightarrow> int \<Rightarrow> (int \<times> reward_grant list) list" where
  "stream_rolls env stage star seed repeats =
     map (\<lambda>roll. (roll, ch3_rewards (ge_sha256 env) (ge_master env) stage star (seed @ '':'' @ show_int roll))) [1..repeats]"

definition roll_entry :: "protocol_schema \<Rightarrow> int \<times> reward_grant list \<Rightarrow> envelope_error + wire_value \<times> wire_value" where
  "roll_entry schema entry =
     (case entry of (roll, rewards) \<Rightarrow>
        sum_bind (sum_collect (user_reward_wire_value schema) rewards) (\<lambda>vs. Inr (v32 roll, vlist vs)))"

definition arm_stream :: "game_env \<Rightarrow> game_call \<Rightarrow> wire_value action" where
  "arm_stream env c =
     (let stage_id = arg_int c ''I_id''; repeats = wrap_i32 (arg_int c ''Count'')
      in if repeats < 1 \<or> 5 < repeats
         then invalid (''CH3 repeat count '' @ show_int repeats @ '' is outside 1..=5'')
         else act_bind (found (''CH3 stage '' @ show_int stage_id @ '' cannot be repeated'')
             (find (\<lambda>r. mstg_id r = stage_id \<and> mstg_active r \<and> \<not> is_story r) (mc_ch3_stages (ge_master env)))) (\<lambda>stage.
           act_bind (job_read (player_snapshot (call_usn c))) (\<lambda>snap.
           let star = best_star snap stage_id
           in if star \<le> 0 then invalid (''CH3 stage '' @ show_int stage_id @ '' has not been cleared'')
              else act_bind (mutation_key env c) (\<lambda>seed.
                act_bind (command env c (\<lambda>m. coded (cd_stream (ge_codecs env)) (\<lambda>enc dec.
                  settle_ch3_stream enc dec (ge_rules env) m stage_id repeats 5 energy_cap
                    (stream_rolls env stage star seed repeats) (ch3_profile_exp_per_clear embedded_policy)
                    (ch3_profile_thresholds (ge_master env))))) (\<lambda>outcome.
                act_bind (wire (sum_collect (roll_entry (ge_schema env)) (css_reward_rolls outcome))) (\<lambda>entries.
                act_bind (wire (ch3_energy_wire_value (ge_schema env) (css_energy outcome))) (\<lambda>energy.
                act_bind (wire (ch3_profile_wire_value (ge_schema env) (css_profile outcome))) (\<lambda>profile.
                respond_sparse env c
                  [(''I_id'', v32 (wrap_i32 stage_id)), (''User_ap'', energy), (''User_follower_profile'', profile),
                   (''Reward_data'', VMap kind_i32 kind_list entries)]))))))))"

definition reward_index :: "int \<Rightarrow> nat option" where
  "reward_index reward_num =
     (let i = wrap_i32 (reward_num - 1) in if 0 \<le> i \<and> i < 3 then Some (nat i) else None)"

definition arm_star_reward :: "game_env \<Rightarrow> game_call \<Rightarrow> wire_value action" where
  "arm_star_reward env c =
     (let chapter_id = wrap_i32 (arg_int c ''I_id''); reward_num = wrap_i32 (arg_int c ''Reward_num'')
      in act_bind (found (''unknown CH3 chapter '' @ show_int chapter_id)
           (find (\<lambda>r. mcha_chapter r = chapter_id \<and> mcha_active r) (mc_ch3_chapters (ge_master env)))) (\<lambda>chapter.
         act_bind (found (''invalid CH3 chapter reward '' @ show_int reward_num) (reward_index reward_num)) (\<lambda>i.
         act_bind (command env c (\<lambda>m. coded (cd_chapter (ge_codecs env)) (\<lambda>enc dec.
           claim_ch3_chapter_reward enc dec (ge_rules env) m chapter_id reward_num (mcha_goal_stars chapter ! i)
             (reward_group (ge_master env) (mcha_reward_groups chapter ! i) (Fin 1)) energy_cap))) (\<lambda>outcome.
         act_bind (wire (ch3_energy_wire_value (ge_schema env) (fst outcome))) (\<lambda>energy.
         act_bind (wire (sum_collect (user_reward_wire_value (ge_schema env)) (snd outcome))) (\<lambda>rewards.
         respond_sparse env c
           [(''I_id'', v32 chapter_id), (''Reward_num'', v32 reward_num), (''User_ap'', energy),
            (''Reward_data'', vlist rewards)]))))))"

section \<open>Mail\<close>

definition arm_read_post :: "game_env \<Rightarrow> game_call \<Rightarrow> wire_value action" where
  "arm_read_post env c =
     act_bind (command env c (\<lambda>m. coded (cd_int (ge_codecs env)) (\<lambda>enc dec.
       read_mail enc dec m (arg_int c ''Idx'')))) (\<lambda>post_id.
     respond env c [(''Idx'', v64 post_id)])"

definition arm_provide_post :: "game_env \<Rightarrow> game_call \<Rightarrow> wire_value action" where
  "arm_provide_post env c =
     act_bind (command env c (\<lambda>m. coded (cd_grant (ge_codecs env)) (\<lambda>enc dec.
       claim_mail_rpc enc dec (ge_rules env) m (arg_int c ''Idx'')))) (\<lambda>reward.
     act_bind (wire (sum_collect (post_reward_wire_value (ge_schema env))
                 (case reward of None \<Rightarrow> [] | Some g \<Rightarrow> [g]))) (\<lambda>values.
     act_return (vlist values)))"

definition arm_delete_post :: "game_env \<Rightarrow> game_call \<Rightarrow> wire_value action" where
  "arm_delete_post env c =
     act_bind (command env c (\<lambda>m. coded (cd_int (ge_codecs env)) (\<lambda>enc dec.
       delete_mail enc dec m (arg_int c ''Idx'') (arg_int c ''Type'' = 1)))) (\<lambda>post_id.
     respond env c [(''Idx'', v64 post_id)])"

end
