(* ===== verification/Handlers.thy ===== *)
theory Handlers
  imports Envelope
begin

text \<open>
  The registry of handlers of \<open>crates/transport-http/src/handlers.rs\<close>: the domain of every active RPC and
  whether it mutates; the other calls are compatibility handlers and never mutate. The enum \<open>RpcName\<close>
  is generated, its variants are the names of the calls.
\<close>

datatype domain_handler =
    BootstrapDomain | AccountDomain | SaveDomain | CatalogueDomain | PurchaseDomain | MailDomain | AchievementDomain
  | FollowerDomain | PassDomain | ChapterThreeDomain | EventDomain | TelemetryDomain | CompatibilityDomain

record handler_spec =
  hs_domain :: domain_handler
  hs_mutating :: bool

definition handler_groups :: "(string list \<times> domain_handler \<times> bool) list" where
  "handler_groups =
    [([''init'', ''main'', ''defaultSettingList'', ''getServerTime'', ''getUpdateTime''],
      BootstrapDomain, False),
     ([''userJoin''],
      AccountDomain, True),
     ([''userLogin'', ''getChoiceUser''],
      AccountDomain, False),
     ([''changeUser'', ''userDel''],
      AccountDomain, True),
     ([''userLoad'', ''lastSaveTime''],
      SaveDomain, False),
     ([''userSave''],
      SaveDomain, True),
     ([''avatarList'', ''titleList'', ''userTitleList'', ''getCollection'', ''getUserCollection'',
      ''getVarietyStore'', ''getGameDataList''],
      CatalogueDomain, False),
     ([''buyCheck'', ''checkBuyShop'', ''checkPurchased''],
      PurchaseDomain, False),
     ([''buyContents'', ''buyMusic'', ''buyPackage'', ''buyShop'', ''buyVarietyStore'',
      ''userPurchaseErrorLog''],
      PurchaseDomain, True),
     ([''getPost'', ''getPostTime''],
      MailDomain, False),
     ([''providePost'', ''readPost'', ''deletePost''],
      MailDomain, True),
     ([''getAllPoint'', ''getReviewPoint''],
      AchievementDomain, False),
     ([''musicPointReview''],
      AchievementDomain, True),
     ([''updateAchievement'', ''updateAvatar'', ''updateScore'', ''setReviewPopup''],
      AchievementDomain, True),
     ([''setFollowerProfileGift'', ''setFollowerQuestInfinite'', ''setUserFollowerProfileReward'',
      ''setUserFollowerQuest''],
      FollowerDomain, True),
     ([''setPassReward'', ''setSubscribe''],
      PassDomain, True),
     ([''getChThird''],
      ChapterThreeDomain, False),
     ([''chThirdStage'', ''chThirdStreamStage'', ''getChThirdStarReward''],
      ChapterThreeDomain, True),
     ([''getEventRewardList'', ''getLocalPush'', ''getSamSeckList''],
      EventDomain, False),
     ([''getSamSeckReward''],
      EventDomain, True),
     ([''getMusicReward''],
      EventDomain, True),
     ([''paidEventPoint'', ''setAdReward'', ''setAttendance'', ''setBookmark'', ''setEventReward'',
      ''setGameReward'', ''setSelectReward'', ''setTutorial'', ''setTutorialNew''],
      EventDomain, True),
     ([''setUserGP''],
      SaveDomain, True),
     ([''updateNickName''],
      AccountDomain, True),
     ([''updateUserTitle''],
      AchievementDomain, True),
     ([''completeLog''],
      TelemetryDomain, False)]"

definition active_handler :: "string \<Rightarrow> handler_spec option" where
  "active_handler name =
     map_option (\<lambda>(_, domain, mutating). \<lparr>hs_domain = domain, hs_mutating = mutating\<rparr>)
       (find (\<lambda>(names, _). name \<in> set names) handler_groups)"

definition handler_for :: "rpc_spec \<Rightarrow> handler_spec option" where
  "handler_for spec =
     (if rpc_class spec = Some Active then active_handler (rpc_name spec)
      else Some \<lparr>hs_domain = CompatibilityDomain, hs_mutating = False\<rparr>)"

definition handled_names :: "string list" where
  "handled_names = concat (map fst handler_groups)"

definition mutating_names :: "string list" where
  "mutating_names = concat (map (\<lambda>(names, _, mutating). if mutating then names else []) handler_groups)"

end
