(* ===== verification/Effects.thy ===== *)
theory Effects
  imports Execute Handlers
begin

text \<open>
  What a request does to the store. \<open>request_step\<close> is what the commit of one mutation can do, a
  relation every operation of the store satisfies; a locale proves for every arm of \<open>execute\<close> that it
  stays within any reflexive and transitive relation that contains these steps.
\<close>

section \<open>The effect of one commit\<close>

inductive served :: "int \<Rightarrow> db \<Rightarrow> db \<Rightarrow> bool" where
  nothing: "served u s s"
| command: "player_command u s t \<Longrightarrow> served u s t"
| switch: "request_switch v s = Inr ((), t) \<Longrightarrow> served u s t"

inductive request_step :: "rpc_mutation \<Rightarrow> db \<Rightarrow> db \<Rightarrow> bool" where
  replayed: "ledger_entry s (mu_usn m) (mu_idempotency_key m) = Some r \<Longrightarrow> request_step m s s"
| performed: "active_session s m \<Longrightarrow> last_seq s (mu_nonce m) < mu_request_seq m \<Longrightarrow>
    ledger_entry s (mu_usn m) (mu_idempotency_key m) = None \<Longrightarrow>
    served (mu_usn m) (advanced m s) s' \<Longrightarrow> record_mutation m j s' = Inr ((), t) \<Longrightarrow> request_step m s t"

lemma replay_step:
  assumes "\<And>s y t. work s = Inr (y, t) \<Longrightarrow> served (mu_usn m) s t"
  shows "tx_rel (request_step m) (commit_rpc_mutation_with_replay enc dec m work)"
proof (rule tx_relI)
  fix s x t
  assume run: "commit_rpc_mutation_with_replay enc dec m work s = Inr (x, t)"
  show "request_step m s t"
  proof (cases "ledger_entry s (mu_usn m) (mu_idempotency_key m)")
    case (Some r)
    with run have "t = s" by (simp add: commit_with_replay_Inr)
    with Some show ?thesis by (simp add: request_step.replayed)
  next
    case None
    with run obtain replay j s' where "work (advanced m s) = Inr ((x, replay), s')"
      "record_mutation m j s' = Inr ((), t)" "active_session s m" "last_seq s (mu_nonce m) < mu_request_seq m"
      by (auto simp: commit_with_replay_Inr)
    with None assms show ?thesis by (blast intro: request_step.performed)
  qed
qed

lemma commit_step:
  assumes "\<And>s y t. work s = Inr (y, t) \<Longrightarrow> served (mu_usn m) s t"
  shows "tx_rel (request_step m) (commit_rpc_mutation enc dec m work)"
  unfolding commit_rpc_mutation_def
  by (rule replay_step) (auto simp: tx_simps intro: assms)

lemma tx_rel_mono: "tx_rel R op \<Longrightarrow> (\<And>s t. R s t \<Longrightarrow> R' s t) \<Longrightarrow> tx_rel R' op"
  by (auto simp: tx_rel_def)

lemma guarded_step: "tx_rel R op \<Longrightarrow> tx_rel R (tx_then (domain_require b e) op)"
  by (auto simp: tx_rel_def tx_simps)

lemma commits_1:
  "tx_rel (request_step m) (read_mail enc1 dec1 m p1)"
  "tx_rel (request_step m) (claim_mail_rpc enc2 dec2 rules m p2)"
  "tx_rel (request_step m) (delete_mail enc3 dec3 m p3 b3)"
  "tx_rel (request_step m) (purchase_rewards enc4 dec4 rules m rc4)"
  "tx_rel (request_step m) (purchase_content enc5 dec5 m cc5)"
  "tx_rel (request_step m) (grant_package_contents enc6 dec6 m cs6 ids6)"
  "tx_rel (request_step m) (fill_pass enc7 dec7 m sn7 v7 cost7 pts7 ths7)"
  "tx_rel (request_step m) (claim_pass_reward enc8 dec8 rules m sn8 v8 lane8 st8 req8 grants8 n8 ticket8)"
  unfolding read_mail_def claim_mail_rpc_def delete_mail_def purchase_rewards_def purchase_content_def grant_package_contents_def fill_pass_def claim_pass_reward_def
  by (intro guarded_step commit_step replay_step served.command, rule player_command.intros; assumption)+

lemma commits_2:
  "tx_rel (request_step m) (activate_passes enc1 dec1 m seasons1)"
  "tx_rel (request_step m) (settle_ch3_stage enc2 dec2 rules m sd2 nxt2 star2 score2 ecost2 cap2 grants2 gain2 ls2)"
  "tx_rel (request_step m) (claim_ch3_chapter_reward enc3 dec3 rules m ch3 num3 need3 grants3 cap3)"
  "tx_rel (request_step m) (settle_ch3_stream enc4 dec4 rules m i4 num4 ecost4 cap4 rolls4 gain4 ls4)"
  "tx_rel (request_step m) (give_follower_gift enc5 dec5 m p5 g5 qn5 e5 ls5)"
  "tx_rel (request_step m) (select_reward enc6 dec6 m i6 g6 rg6 alt6)"
  "tx_rel (request_step m) (claim_music_encore_rewards enc7 dec7 m ers7 eths7)"
  "tx_rel (request_step m) (claim_follower_profile_rewards enc8 dec8 rules m p8 prs8)"
  unfolding activate_passes_def settle_ch3_stage_def claim_ch3_chapter_reward_def settle_ch3_stream_def give_follower_gift_def select_reward_def claim_music_encore_rewards_def claim_follower_profile_rewards_def
  by (intro guarded_step commit_step replay_step served.command, rule player_command.intros; assumption)+

lemma commits_3:
  "tx_rel (request_step m) (advance_follower_quest enc1 dec1 rules m i1 sub1 cv1 qths1 grants1 nxq1)"
  "tx_rel (request_step m) (set_follower_quest_infinite enc2 dec2 m)"
  "tx_rel (request_step m) (attendance enc3 dec3 m clock3 mode3)"
  "tx_rel (request_step m) (claim_game_reward enc4 dec4 rules m gc4)"
  "tx_rel (request_step m) (claim_sam_seck enc5 dec5 m e5 p5 grant5)"
  "tx_rel (request_step m) (claim_event_reward enc6 dec6 rules m i6 grant6)"
  "tx_rel (request_step m) (update_avatar enc7 dec7 m i7)"
  "tx_rel (request_step m) (update_nickname enc8 dec8 m nick8)"
  unfolding advance_follower_quest_def set_follower_quest_infinite_def attendance_def claim_game_reward_def claim_sam_seck_def claim_event_reward_def update_avatar_def update_nickname_def
  by (intro guarded_step commit_step replay_step served.command, rule player_command.intros; assumption)+

lemma commits_4:
  "tx_rel (request_step m) (update_user_title enc1 dec1 m i1)"
  "tx_rel (request_step m) (update_user_gp enc2 dec2 m gp2)"
  "tx_rel (request_step m) (merge_tutorials enc3 dec3 m ids3)"
  "tx_rel (request_step m) (set_one_time_flag enc4 dec4 m fl4 fv4)"
  "tx_rel (request_step m) (save_music_reviews enc5 dec5 m rvs5)"
  "tx_rel (request_step m) (save_bookmarks enc6 dec6 m bms6)"
  "tx_rel (request_step m) (merge_music_scores enc7 dec7 m scs7)"
  "tx_rel (request_step m) (grant_ad_reward enc8 dec8 rules m i8 d8 grants8 prof8)"
  unfolding update_user_title_def update_user_gp_def merge_tutorials_def set_one_time_flag_def save_music_reviews_def save_bookmarks_def merge_music_scores_def grant_ad_reward_def
  by (intro guarded_step commit_step replay_step served.command, rule player_command.intros; assumption)+

lemma noop_step: "tx_rel (request_step m) (commit_rpc_mutation enc dec m (tx_return x))"
  by (rule commit_step) (auto simp: tx_simps intro: served.nothing)

lemma find_slot_has: "find_slot selector s = Some i \<Longrightarrow> tbl_has (save_slots s) (id_usn i)"
  by (auto simp: find_slot_def tbl_has_def tbl_get_None_iff find_Some_iff image_iff intro!: bexI nth_mem)

lemma switch_step: "tx_rel (request_step m) (request_switch_rpc enc dec m selector)"
  unfolding request_switch_rpc_def
  by (rule commit_step)
     (auto simp: resolve_slot_def request_switch_def tx_simps intro!: served.switch dest: find_slot_has)

lemma bits_double: "nonneg_amount (f64_from_bits w) \<Longrightarrow> f64_ok (f64_from_bits w)"
  using f64_from_bits_ok [of w] by (auto simp: nonneg_amount_def)

lemma field_double: "field_number fs i = Some v \<Longrightarrow> nonneg_amount v \<Longrightarrow> f64_ok v"
proof -
  assume v: "field_number fs i = Some v" "nonneg_amount v"
  then obtain w where w: "(case w of VDouble b \<Rightarrow> Some (f64_from_bits b)
      | _ \<Rightarrow> map_option f64_of_int (wire_integer w)) = Some v"
    by (cases "field_value_at fs i") (simp_all add: field_number_def)
  show "f64_ok v"
  proof (cases w)
    case (VDouble b)
    with w v(2) show ?thesis using bits_double [of b] by simp
  qed (use w in \<open>auto simp: f64_of_int_def f64_ok_round64\<close>)
qed

lemma field_number_double:
  "case field_number fs i of None \<Rightarrow> True | Some v \<Rightarrow> nonneg_amount v \<longrightarrow> f64_ok v"
proof (cases "field_number fs i")
  case (Some v)
  from field_double [OF this] show ?thesis by (simp add: Some)
qed simp

lemma parse_core_double:
  "case csp_ch1_like (parse_core cat fs) of None \<Rightarrow> True | Some v \<Rightarrow> nonneg_amount v \<longrightarrow> f64_ok v"
  using field_number_double [of fs 1] by (simp add: parse_core_def)

lemma parse_area_double:
  "parse_area cat fs = Some a \<Longrightarrow> case asp_like_amount a of None \<Rightarrow> True | Some v \<Rightarrow> nonneg_amount v \<longrightarrow> f64_ok v"
  using field_number_double [of fs 2] by (cases "only_i32 (field_integer fs 1)") (auto simp only: parse_area_def
    option.simps area_save_patch.simps option.map)

lemma parse_user_save_doubles: "saved_doubles (parse_user_save cat request)"
proof -
  have core: "usp_core (parse_user_save cat request) = Some p \<Longrightarrow> \<exists>fs. p = parse_core cat fs" for p
    by (auto simp: parse_user_save_def split: list.splits)
  have "usp_areas (parse_user_save cat request) = List.map_filter (parse_area cat) (save_rows request ''User_area_info'')"
    by (simp add: parse_user_save_def)
  then have "list_all (\<lambda>a. case asp_like_amount a of None \<Rightarrow> True | Some v \<Rightarrow> nonneg_amount v \<longrightarrow> f64_ok v)
      (usp_areas (parse_user_save cat request))"
    by (simp only:) (rule map_filter_list_all, rule parse_area_double)
  moreover have "case usp_core (parse_user_save cat request) of None \<Rightarrow> True
     | Some p \<Rightarrow> (case csp_ch1_like p of None \<Rightarrow> True | Some v \<Rightarrow> nonneg_amount v \<longrightarrow> f64_ok v)"
    using core parse_core_double by (cases "usp_core (parse_user_save cat request)") auto
  ultimately show ?thesis unfolding saved_doubles_def by simp
qed

lemma save_step:
  "tx_rel (request_step m) (merge_user_save enc dec m (parse_user_save cat request) uuid k ths)"
  unfolding merge_user_save_def
  by (rule commit_step, rule served.command, rule player_command.save, rule parse_user_save_doubles)

lemmas commit_steps = commits_1 commits_2 commits_3 commits_4 noop_step switch_step save_step

section \<open>Requests within a relation\<close>

context action_relation
begin

lemma respond: "act_rel R (respond env c fs)" "act_rel R (respond_sparse env c fs)"
  by (simp_all add: respond_def respond_sparse_def lift)

lemma fallible: "act_rel R (wire r)" "act_rel R (found what v)" "act_rel R (invalid what)" "act_rel R (mutation_key env c)"
  by (simp_all add: wire_def found_def invalid_def mutation_key_def lift return bind)

lemmas answer_rules = rules respond fallible

lemma queries:
  "act_rel R (arm_init env c)"
  "act_rel R (arm_update_time env c)"
  "act_rel R (arm_server_time env c)"
  "act_rel R (arm_default_settings env c)"
  "act_rel R (arm_game_data env c)"
  "act_rel R (arm_variety_store env c)"
  "act_rel R (arm_title_list env c)"
  "act_rel R (arm_main env c)"
  "act_rel R (arm_login env c)"
  "act_rel R (arm_load env c)"
  "act_rel R (arm_choice_user env c)"
  "act_rel R (arm_all_point env c)"
  "act_rel R (arm_last_save env c)"
  "act_rel R (arm_post_time env c)"
  "act_rel R (arm_post env c)"
  "act_rel R (arm_sam_seck_list env c)"
  "act_rel R (arm_event_list env c)"
  unfolding arm_init_def arm_update_time_def arm_server_time_def arm_default_settings_def arm_game_data_def arm_variety_store_def arm_title_list_def arm_main_def arm_login_def arm_load_def arm_choice_user_def arm_all_point_def arm_last_save_def arm_post_time_def arm_post_def arm_sam_seck_list_def arm_event_list_def Let_def coded_def
  by (intro answer_rules)+

lemma plain_answers: "act_rel R (answer_only fs env c)" "act_rel R (empty_list env c)"
  unfolding answer_only_def empty_list_def by (intro answer_rules)+

end

locale request_relation = action_relation R for R :: "db \<Rightarrow> db \<Rightarrow> bool" +
  fixes env :: game_env and c :: game_call
  assumes commit: "gc_sequence c = Some q \<Longrightarrow> 0 < q \<Longrightarrow> request_step (mutation_of env c q) s t \<Longrightarrow> R s t"
begin

lemma with_mutation:
  assumes "\<And>m. (\<And>s t. request_step m s t \<Longrightarrow> R s t) \<Longrightarrow> act_rel R (f m)"
  shows "act_rel R (act_bind (mutation env c) f)"
proof (cases "positive_sequence c")
  case (Inl e)
  then show ?thesis by (simp add: act_rel_def act_bind_def mutation_def act_lift_def refl)
next
  case (Inr q)
  then have q: "gc_sequence c = Some q" "0 < q"
    by (auto simp: positive_sequence_def expect_some_def split: option.splits if_splits)
  have "act_rel R (f (mutation_of env c q))" by (rule assms) (rule commit [OF q])
  then show ?thesis
    by (simp add: act_rel_def act_bind_def mutation_def act_lift_def act_return_def Inr)
qed

lemma commands: "(\<And>m. tx_rel (request_step m) (op m)) \<Longrightarrow> act_rel R (command env c op)"
  unfolding command_def
  by (rule with_mutation, rule job, rule tx_rel_mono)

lemma noop: "act_rel R (act_bind (mutation env c) (record_noop env))"
  unfolding record_noop_def coded_def
  by (rule with_mutation, rule job, rule tx_rel_mono [OF noop_step])

lemmas request_rules = answer_rules commands noop commit_steps

lemma helpers:
  "act_rel R (buy_content env c cmd)" "act_rel R (shop_reward_group env c shop)" "act_rel R (buy_rewards env c rc)"
  "act_rel R (set_flag env c flag v)" "act_rel R (merge_ids env c ids)"
  "act_rel R (game_reward_answer env c kind i level reward_type v status)"
  "act_rel R (stage_rewards env c stage scoring)" "act_rel R (settle_stage env c stage nxt scoring rewards)"
  "act_rel R (stage_answer env c snap scoring outcome)"
  unfolding buy_content_def shop_reward_group_def buy_rewards_def set_flag_def merge_ids_def game_reward_answer_def
    stage_rewards_def settle_stage_def stage_answer_def Let_def coded_def
  by (intro request_rules)+

lemma purchases:
  "act_rel R (arm_buy_variety env c)"
  "act_rel R (arm_buy_contents env c)"
  "act_rel R (arm_buy_music env c)"
  "act_rel R (arm_buy_package env c)"
  "act_rel R (arm_buy_shop env c)"
  "act_rel R (arm_paid_event_point env c)"
  "act_rel R (arm_pass_reward env c)"
  "act_rel R (arm_subscribe env c)"
  unfolding arm_buy_variety_def arm_buy_contents_def arm_buy_music_def arm_buy_package_def arm_buy_shop_def arm_paid_event_point_def arm_pass_reward_def arm_subscribe_def Let_def coded_def
  by (intro request_rules helpers)+

lemma followers:
  "act_rel R (arm_review env c)"
  "act_rel R (arm_bookmark env c)"
  "act_rel R (arm_score env c)"
  "act_rel R (arm_music_reward env c)"
  "act_rel R (arm_gift env c)"
  "act_rel R (arm_profile_reward env c)"
  "act_rel R (arm_quest_infinite env c)"
  "act_rel R (arm_quest env c)"
  unfolding arm_review_def arm_bookmark_def arm_score_def arm_music_reward_def arm_gift_def arm_profile_reward_def arm_quest_infinite_def arm_quest_def Let_def coded_def
  by (intro request_rules)+

lemma activities:
  "act_rel R (arm_attendance env c)"
  "act_rel R (arm_review_popup env c)"
  "act_rel R (arm_achievement env c)"
  "act_rel R (arm_game_reward env c)"
  "act_rel R (arm_ad_reward env c)"
  "act_rel R (arm_sam_seck_reward env c)"
  "act_rel R (arm_event_reward env c)"
  "act_rel R (arm_select_reward env c)"
  "act_rel R (arm_nickname env c)"
  "act_rel R (arm_title env c)"
  "act_rel R (arm_gp env c)"
  "act_rel R (arm_avatar env c)"
  "act_rel R (arm_tutorial env c)"
  "act_rel R (arm_tutorial_new env c)"
  "act_rel R (arm_save env c)"
  "act_rel R (arm_join env c)"
  "act_rel R (arm_change_user env c)"
  "act_rel R (arm_noop env c fs)"
  unfolding arm_attendance_def arm_review_popup_def arm_achievement_def arm_game_reward_def arm_ad_reward_def arm_sam_seck_reward_def arm_event_reward_def arm_select_reward_def arm_nickname_def arm_title_def arm_gp_def arm_avatar_def arm_tutorial_def arm_tutorial_new_def arm_save_def arm_join_def arm_change_user_def arm_noop_def Let_def coded_def
  by (intro request_rules helpers)+

lemma stages:
  "act_rel R (arm_stage env c)"
  "act_rel R (arm_stream env c)"
  "act_rel R (arm_star_reward env c)"
  "act_rel R (arm_read_post env c)"
  "act_rel R (arm_provide_post env c)"
  "act_rel R (arm_delete_post env c)"
  unfolding arm_stage_def arm_stream_def arm_star_reward_def arm_read_post_def arm_provide_post_def arm_delete_post_def Let_def coded_def
  by (intro request_rules helpers)+

lemma recorded_answer: "act_rel R (recorded_only fs env c)"
  unfolding recorded_only_def by (rule activities)

lemmas arm_rules = queries plain_answers purchases followers activities stages recorded_answer

lemma arms: "list_all (\<lambda>(name, arm). name = ''getChThird'' \<or> act_rel R (arm env c)) game_arms"
  by (simp add: game_arms_def arm_rules)

lemma execute_rel:
  assumes "gc_rpc c \<noteq> ''getChThird''"
  shows "act_rel R (execute env c)"
proof (cases "map_of game_arms (gc_rpc c)")
  case (Some arm)
  then have "(gc_rpc c, arm) \<in> set game_arms" by (rule map_of_SomeD)
  with arms assms have "act_rel R (arm env c)" by (auto simp: list_all_iff)
  then show ?thesis unfolding execute_def by (simp add: Some bind return)
qed (simp add: execute_def, intro conjI impI answer_rules)

end

text \<open>\<open>getChThird\<close> writes the regenerated energy back without a mutation.\<close>

locale reading_relation = request_relation R env c for R :: "db \<Rightarrow> db \<Rightarrow> bool" and env c +
  assumes restore: "restore_ch3_energy (call_usn c) now cap s = Inr (x, t) \<Longrightarrow> R s t"
begin

lemma ch3_read: "R s (snd (ch3_snapshot_at (call_usn c) now cap s))"
proof (cases "restore_ch3_energy (call_usn c) now cap s")
  case (Inl e)
  then show ?thesis by (simp add: ch3_snapshot_at_def tx_commit_def refl)
next
  case (Inr r)
  obtain x t where r: "r = (x, t)" by (cases r)
  have "snd (tx_commit (ch3_snapshot_raw (call_usn c)) t) = t"
    using tx_relD [OF snapshot_reads(4), of "call_usn c" t] by (cases "ch3_snapshot_raw (call_usn c) t") (auto simp: tx_commit_def)
  with restore Inr r show ?thesis by (simp add: ch3_snapshot_at_def tx_commit_def)
qed

lemma arm_ch3: "act_rel R (arm_ch3 env c)"
  unfolding arm_ch3_def by (intro answer_rules commits ch3_read)

lemma execute_all: "act_rel R (execute env c)"
proof (cases "gc_rpc c = ''getChThird''")
  case True
  then have "map_of game_arms (gc_rpc c) = Some arm_ch3" by (simp add: game_arms_def)
  then show ?thesis unfolding execute_def by (simp add: bind return arm_ch3)
qed (rule execute_rel)

end

section \<open>Three readings\<close>

text \<open>A request is a run of the program.\<close>

lemma served_runs: "served u s t \<Longrightarrow> program_step\<^sup>*\<^sup>* s t"
  by (induction rule: served.induct) (auto intro: program_step.command program_step.switch)

lemma request_step_runs: "request_step m s t \<Longrightarrow> program_step\<^sup>*\<^sup>* s t"
proof (induction rule: request_step.induct)
  case (performed s m s' j t)
  from program_step.advance [OF performed(1,2)] served_runs [OF performed(4)] program_step.ledger [OF performed(5)]
  show ?case by (meson converse_rtranclp_into_rtranclp rtranclp.rtrancl_into_rtrancl)
qed simp

interpretation program: reading_relation "program_step\<^sup>*\<^sup>*" env c for env c
proof
  show "restore_ch3_energy (call_usn c) now cap s = Inr (x, t) \<Longrightarrow> program_step\<^sup>*\<^sup>* s t" for now cap s x t
    by (blast intro: program_step.command player_command.energy)
qed (auto intro: request_step_runs)

text \<open>It stays with the rows of its player and its session; of the selection it may change the slot of the next
login, never the active one or the session number.\<close>

definition request_frame :: "int \<Rightarrow> int \<Rightarrow> db \<Rightarrow> db \<Rightarrow> bool" where
  "request_frame u n s t \<longleftrightarrow> player_rows u s t
     \<and> (\<forall>v. v \<noteq> u \<longrightarrow> tbl_get (save_slots t) v = tbl_get (save_slots s) v)
     \<and> (\<forall>k. fst k \<noteq> u \<longrightarrow> tbl_get (mutation_ledger t) k = tbl_get (mutation_ledger s) k)
     \<and> (\<forall>k. k \<noteq> n \<longrightarrow> tbl_get (login_sessions t) k = tbl_get (login_sessions s) k)
     \<and> rsr_active_usn (runtime_selection t) = rsr_active_usn (runtime_selection s)
     \<and> rsr_session_nonce (runtime_selection t) = rsr_session_nonce (runtime_selection s)"

lemma step_request_frame: "player_step u s t \<Longrightarrow> request_frame u n s t"
  by (simp add: player_step_def frame_def request_frame_def)

lemma served_frame: "served u s t \<Longrightarrow> request_frame u n s t"
proof (induction rule: served.induct)
  case (command u s t)
  then show ?case using player_command_facts step_request_frame by blast
qed (auto simp: request_frame_def request_switch_def set_pending_def tx_simps player_rows_def)

lemma request_frame_trans: "request_frame u n s t \<Longrightarrow> request_frame u n t v \<Longrightarrow> request_frame u n s v"
  unfolding request_frame_def by (metis player_rows_trans)

lemma request_step_frame: "request_step m s t \<Longrightarrow> request_frame (mu_usn m) (mu_nonce m) s t"
proof (induction rule: request_step.induct)
  case (performed s m s' j t)
  have "request_frame (mu_usn m) (mu_nonce m) s (advanced m s)"
    by (simp add: request_frame_def advanced_def player_rows_def)
  moreover have "request_frame (mu_usn m) (mu_nonce m) (advanced m s) s'"
    by (rule served_frame) (rule performed)
  moreover have "request_frame (mu_usn m) (mu_nonce m) s' t"
    using performed(5) by (auto simp: record_mutation_Inr recorded_def request_frame_def player_rows_def)
  ultimately show ?case by (blast intro: request_frame_trans)
qed (simp add: request_frame_def player_rows_refl)

interpretation framed: reading_relation "request_frame (call_usn c) (ls_nonce (gc_session c))" env c for env c
proof
  show "restore_ch3_energy (call_usn c) now cap s = Inr (x, t)
      \<Longrightarrow> request_frame (call_usn c) (ls_nonce (gc_session c)) s t" for now cap s x t
    using player_command_facts [OF player_command.energy] step_request_frame by blast
  show "request_step (mutation_of env c q) s t \<Longrightarrow> request_frame (call_usn c) (ls_nonce (gc_session c)) s t" for q s t
    using request_step_frame [of "mutation_of env c q" s t] by (simp add: mutation_of_def)
qed (simp add: request_frame_def player_rows_refl, rule request_frame_trans)

text \<open>Sent again, it finds its own entry in the ledger.\<close>

definition call_entry :: "game_env \<Rightarrow> game_call \<Rightarrow> db \<Rightarrow> ledger_row option" where
  "call_entry env c s =
     ledger_entry s (call_usn c)
       (request_key env (ls_nonce (gc_session c)) (or_else 0 (gc_sequence c)) (gc_rpc c) (gc_raw c))"

lemma request_step_entry: "request_step m s t \<Longrightarrow> t = s \<or> ledger_entry t (mu_usn m) (mu_idempotency_key m) \<noteq> None"
  by (induction rule: request_step.induct) (auto simp: record_mutation_Inr ledger_entry_recorded)

lemma request_step_again: "request_step m s t \<Longrightarrow> ledger_entry s (mu_usn m) (mu_idempotency_key m) \<noteq> None \<Longrightarrow> t = s"
  by (induction rule: request_step.induct) auto

interpretation remembered: request_relation "\<lambda>s t. t = s \<or> call_entry env c t \<noteq> None" env c for env c
proof
  show "gc_sequence c = Some q \<Longrightarrow> request_step (mutation_of env c q) s t \<Longrightarrow> t = s \<or> call_entry env c t \<noteq> None" for q s t
    using request_step_entry [of "mutation_of env c q" s t] by (simp add: mutation_of_def call_entry_def or_else_def)
qed auto

interpretation replayed: request_relation "\<lambda>s t. call_entry env c s \<noteq> None \<longrightarrow> t = s" env c for env c
proof
  show "gc_sequence c = Some q \<Longrightarrow> request_step (mutation_of env c q) s t \<Longrightarrow> call_entry env c s \<noteq> None \<longrightarrow> t = s" for q s t
    using request_step_again [of "mutation_of env c q" s t] by (simp add: mutation_of_def call_entry_def or_else_def)
qed auto

text \<open>A query reads.\<close>

interpretation unchanged: action_relation "\<lambda>s t. t = s"
  by unfold_locales auto

lemma query_arms:
  "list_all (\<lambda>(name, arm). name \<in> set mutating_names \<or> name = ''getChThird'' \<or> act_rel (\<lambda>s t. t = s) (arm env c)) game_arms"
  by (simp add: game_arms_def mutating_names_def handler_groups_def unchanged.queries unchanged.plain_answers)

text \<open>Where each name of the two other lists stands among the arms.\<close>

definition implemented_places :: "nat list" where
  "implemented_places =
    [0, 1, 2, 3, 4, 15, 8, 9, 10, 11, 12, 13, 14, 16, 19, 17, 18, 20, 21, 22, 23, 44, 45, 43, 46,
     47, 48, 49, 50, 5, 51, 6, 7, 24, 25, 26, 27, 60, 28, 29, 30, 31, 32, 33, 34, 35, 36, 37, 38,
     39, 62, 63, 64, 65, 40, 41, 66, 67, 68, 42, 55, 56, 57, 54, 58, 59, 61, 52, 53]"

definition handled_places :: "nat list" where
  "handled_places =
    [0, 15, 3, 2, 1, 24, 25, 27, 60, 61, 26, 29, 58, 8, 9, 14, 10, 13, 6, 5, 30, 31, 32, 33, 34, 35,
     36, 7, 59, 41, 40, 67, 66, 68, 28, 12, 16, 44, 56, 18, 43, 20, 21, 22, 23, 38, 39, 62, 63, 64,
     65, 49, 11, 47, 48, 19, 37, 46, 42, 17, 50, 45, 51, 55, 57, 54, 52, 53, 4]"

lemma permuted_names:
  assumes "ns = map (nth xs) ks" "sort ks = [0..<length xs]"
  shows "mset ns = mset xs"
proof -
  have "mset ks = mset [0..<length xs]" using assms(2) by (metis mset_sort)
  then have "mset (map (nth xs) ks) = mset (map (nth xs) [0..<length xs])" by (simp only: mset_map)
  then show ?thesis by (simp add: assms(1) map_nth)
qed

lemma arm_count: "length (map fst game_arms) = 69"
  by (simp add: game_arms_def)

lemma implemented_permuted: "mset implemented_names = mset (map fst game_arms)"
proof (rule permuted_names)
  show "implemented_names = map (nth (map fst game_arms)) implemented_places"
    by (simp add: implemented_names_def game_arms_def implemented_places_def)
  show "sort implemented_places = [0..<length (map fst game_arms)]"
    unfolding arm_count by code_simp
qed

lemma handled_permuted: "mset handled_names = mset (map fst game_arms)"
proof (rule permuted_names)
  show "handled_names = map (nth (map fst game_arms)) handled_places"
    by (simp add: handled_names_def handler_groups_def game_arms_def handled_places_def)
  show "sort handled_places = [0..<length (map fst game_arms)]"
    unfolding arm_count by code_simp
qed

section \<open>A concrete request\<close>

definition demo_codec :: "'a codec" where
  "demo_codec = (\<lambda>_. Inr ''{}'', \<lambda>_. Inl ''unread'')"

definition demo_master :: master_catalog where
  "demo_master = \<lparr>mc_metadata = \<lparr>mmd_version = 0, mmd_source_asset_count = 0, mmd_source_table_count = 0\<rparr>,
     mc_fan_requirements = [], mc_costumes = [], mc_guitars = [], mc_skills = [], mc_units = [],
     mc_music = [], mc_music_levels = [], mc_ch3_stages = [], mc_pass_seasons = [], mc_reward_groups = [],
     mc_shops = [], mc_pass_rewards = [], mc_follower_profile_levels = [], mc_ch3_scores = [],
     mc_ch3_chapters = [], mc_percent_rewards = [], mc_follower_gifts = [], mc_follower_quests = [],
     mc_select_rewards = [], mc_sam_seck = [], mc_achievements = [], mc_daily_missions = [], mc_ads = [],
     mc_ad_levels = [], mc_daily_rewards = [], mc_game_data = []\<rparr>"

definition demo_env :: game_env where
  "demo_env = \<lparr>ge_schema = demo_schema, ge_master = demo_master, ge_endpoint = ''http://127.0.0.1:8080'',
     ge_rules = empty_rules, ge_achievement_ids = [],
     ge_codecs = \<lparr>
       cd_accepted = demo_codec, cd_unit = demo_codec, cd_int = demo_codec, cd_string = demo_codec,
       cd_ints = demo_codec, cd_identity = demo_codec, cd_grant = demo_codec, cd_purchase = demo_codec,
       cd_content = demo_codec, cd_package = demo_codec, cd_fill = demo_codec, cd_pass_claim = demo_codec,
       cd_settlement = demo_codec, cd_chapter = demo_codec, cd_stream = demo_codec, cd_gift = demo_codec,
       cd_selected = demo_codec, cd_encore = demo_codec, cd_profile_rewards = demo_codec,
       cd_quest_outcome = demo_codec, cd_quest = demo_codec, cd_attendance = demo_codec,
       cd_game_reward = demo_codec, cd_event_reward = demo_codec, cd_ad = demo_codec,
       cd_reviews = demo_codec, cd_bookmarks = demo_codec, cd_scores = demo_codec\<rparr>,
     ge_sha256 = id, ge_hex = \<lambda>_. []\<rparr>"

definition demo_call :: "string \<Rightarrow> game_call" where
  "demo_call rpc = \<lparr>gc_rpc = rpc, gc_spec = demo_rpc\<lparr>rpc_name := rpc\<rparr>,
     gc_session = \<lparr>ls_identity = \<lparr>id_usn = 1, id_user_id = ''1788360000001''\<rparr>, ls_nonce = 1, ls_capability = [],
                    ls_clock = \<lparr>unix_seconds = 10, utc_offset_minutes = 540\<rparr>\<rparr>,
     gc_locale = ''en'', gc_request = \<lparr>nr_call = rpc, nr_fields = [], nr_raw_fields = []\<rparr>,
     gc_clock = \<lparr>unix_seconds = 10, utc_offset_minutes = 540\<rparr>, gc_sequence = Some 1, gc_raw = []\<rparr>"

lemma demo_del_performed: "last_seq (snd (execute demo_env (demo_call ''userDel'') demo_db)) 1 = 1"
proof -
  have arm: "map_of game_arms ''userDel'' = Some (recorded_only [(''Result'', text_value ''N'')])"
    by (simp add: game_arms_def)
  obtain q where q: "mutation_of demo_env (demo_call ''userDel'') 1 = q" "mu_nonce q = 1" "mu_usn q = 1"
    "mu_request_seq q = 1" "mu_identity q = mu_identity demo_mutation" "mu_committed_at q = 10"
    by (simp add: mutation_of_def demo_call_def demo_mutation_def)
  have active: "active_session demo_db q"
    using demo_simps(1) q by (simp add: active_session_def demo_mutation_def)
  have "\<exists>t. commit_rpc_mutation (fst demo_codec) (snd demo_codec) q (tx_return ()) demo_db = Inr ((), t) \<and> last_seq t 1 = 1"
    using active q
    by (simp add: commit_Inr demo_simps tx_simps record_mutation_Inr demo_codec_def)
       (simp add: demo_db_def advanced_def recorded_def next_ledger_id_def ledger_entry_def
         max_or_zero_def in_i64_def last_seq_def tbl_get_Cons tbl_has_Cons)
  then obtain t where t: "commit_rpc_mutation (fst demo_codec) (snd demo_codec) q (tx_return ()) demo_db = Inr ((), t)"
    "last_seq t 1 = 1" by blast
  have "act_bind (mutation demo_env (demo_call ''userDel'')) (record_noop demo_env) demo_db = (Inr (), t)"
    using t(1) q(1)
    by (simp add: act_bind_def mutation_def act_lift_def act_return_def positive_sequence_def expect_some_def
        record_noop_def job_def tx_commit_def coded_def demo_env_def demo_call_def)
  then show ?thesis
    using t(2)
    by (simp add: execute_def arm demo_call_def recorded_only_def arm_noop_def act_bind_def respond_def act_lift_def
        act_return_def split: sum.split)
qed

section \<open>Properties\<close>

text \<open>The registry of handlers, the list of implemented calls and the match of \<open>execute\<close> hold the same
names, each as often.\<close>

lemma dispatch_complete:
  "mset implemented_names = mset (map fst game_arms) \<and> mset handled_names = mset (map fst game_arms)"
  by (simp only: implemented_permuted handled_permuted)

text \<open>Whatever a request holds, serving it is a run of the program: the store it leaves is one the steps
of the program reach.\<close>

lemma request_runs_program: "program_step\<^sup>*\<^sup>* s (snd (execute env c s))"
  using program.execute_all [of env c] by (simp add: act_rel_def)

text \<open>A request touches the rows of its own player, its own session and its own ledger only.\<close>

lemma request_isolated: "request_frame (call_usn c) (ls_nonce (gc_session c)) s (snd (execute env c s))"
  using framed.execute_all [of c env] by (simp add: act_rel_def)

text \<open>A request sent twice has the effect of one, whatever happened the first time; \<open>getChThird\<close>, which
writes without a mutation, is the one exception.\<close>

lemma request_idempotent:
  assumes "gc_rpc c \<noteq> ''getChThird''"
  shows "snd (execute env c (snd (execute env c s))) = snd (execute env c s)"
proof -
  have "snd (execute env c s) = s \<or> call_entry env c (snd (execute env c s)) \<noteq> None"
    using remembered.execute_rel [OF assms, of env] by (simp add: act_rel_def)
  moreover have "call_entry env c t \<noteq> None \<longrightarrow> snd (execute env c t) = t" for t
    using replayed.execute_rel [OF assms, of env] by (simp add: act_rel_def)
  ultimately show ?thesis by metis
qed

lemma request_idempotent_witness:
  "last_seq (snd (execute demo_env (demo_call ''userDel'') demo_db)) 1 = 1
   \<and> snd (execute demo_env (demo_call ''userDel'') (snd (execute demo_env (demo_call ''userDel'') demo_db)))
     = snd (execute demo_env (demo_call ''userDel'') demo_db)"
  using demo_del_performed request_idempotent [of "demo_call ''userDel''" demo_env demo_db]
  by (simp add: demo_call_def)

text \<open>C35: A call that the registry does not declare mutating leaves the store as it was; \<open>getChThird\<close> is
the one exception.\<close>

theorem queries_read_only:
  assumes "gc_rpc c \<notin> set mutating_names" and "gc_rpc c \<noteq> ''getChThird''"
  shows "snd (execute env c s) = s"
proof (cases "map_of game_arms (gc_rpc c)")
  case (Some arm)
  then have "(gc_rpc c, arm) \<in> set game_arms" by (rule map_of_SomeD)
  with query_arms [of env c] assms have "act_rel (\<lambda>s t. t = s) (arm env c)" by (auto simp: list_all_iff)
  then have "act_rel (\<lambda>s t. t = s) (execute env c)"
    unfolding execute_def by (simp add: Some unchanged.bind unchanged.return)
  then show ?thesis by (simp add: act_rel_def)
next
  case None
  have "act_rel (\<lambda>s t. t = s) (execute env c)"
    unfolding execute_def by (simp add: None, intro conjI impI unchanged.answer_rules)
  then show ?thesis by (simp add: act_rel_def)
qed

theorem queries_read_only_witness: "snd (execute demo_env (demo_call ''getAllPoint'') demo_db) = demo_db"
  by (rule queries_read_only) (simp_all add: demo_call_def mutating_names_def handler_groups_def)

end
