(* ===== verification/Http.thy ===== *)
theory Http
  imports Notices Requests Overlay
begin

text \<open>
  What \<open>crates/transport-http/src/lib.rs\<close> reads of an HTTP request before any handler runs: the
  headers, the capability, the clock of the device, the form of a game call, the identity it claims,
  the kinds and amounts of the settings page and the names of packaged assets; and the texts of the
  errors a game call answers with.

  The bodies and paths are given decoded: routing, percent-decoding and JSON are axum's and serde's.
\<close>

section \<open>Headers\<close>

text \<open>The headers in the order they came, their names in lower case as \<open>HeaderMap\<close> stores them.\<close>

type_synonym headers = "(string \<times> string) list"

definition session_header :: string where "session_header = ''x-ggfm-session''"
definition request_seq_header :: string where "request_seq_header = ''x-ggfm-request-seq''"
definition device_time_header :: string where "device_time_header = ''x-ggfm-device-time''"
definition utc_offset_header :: string where "utc_offset_header = ''x-ggfm-utc-offset''"

text \<open>\<open>HeaderValue::to_str\<close>: visible ASCII, spaces and tabs only.\<close>

definition header_char :: "char \<Rightarrow> bool" where
  "header_char c \<longleftrightarrow> 32 \<le> (of_char c :: nat) \<and> (of_char c :: nat) < 127 \<or> (of_char c :: nat) = 9"

definition header_text :: "headers \<Rightarrow> string \<Rightarrow> string option" where
  "header_text hs name = Option.bind (map_of hs name) (\<lambda>v. if list_all header_char v then Some v else None)"

definition header_i64 :: "headers \<Rightarrow> string \<Rightarrow> int option" where
  "header_i64 hs name = Option.bind (header_text hs name) parse_i64"

definition request_sequence :: "headers \<Rightarrow> int option" where
  "request_sequence hs = Option.bind (header_i64 hs request_seq_header) (\<lambda>v. if 0 < v then Some v else None)"

definition request_clock :: "headers \<Rightarrow> device_clock \<Rightarrow> bool \<Rightarrow> string + device_clock" where
  "request_clock hs fallback required =
     (case (header_i64 hs device_time_header, only_i32 (header_i64 hs utc_offset_header)) of
        (Some unix, Some offset) \<Rightarrow>
          (case device_clock_new unix offset of Inl _ \<Rightarrow> Inl ''invalid device clock'' | Inr clock \<Rightarrow> Inr clock)
      | (None, None) \<Rightarrow> if required then Inl ''missing device time headers'' else Inr fallback
      | _ \<Rightarrow> Inl ''missing device time headers'')"

section \<open>The capability\<close>

definition constant_time_equal :: "bytes \<Rightarrow> bytes \<Rightarrow> bool" where
  "constant_time_equal left right =
     (if length left \<noteq> length right then False
      else foldl (\<lambda>difference (a, b). or difference (xor a b)) 0 (zip left right) = 0)"

definition authorized :: "string \<Rightarrow> headers \<Rightarrow> bool" where
  "authorized capability hs =
     (case header_text hs session_header of
        None \<Rightarrow> False
      | Some v \<Rightarrow> constant_time_equal (as_bytes v) (as_bytes capability))"

section \<open>The form of a game call\<close>

record game_form =
  gf_call :: "string option"
  gf_tapsonic_data :: "string option"

text \<open>The argument is what \<open>form_urlencoded::parse\<close> yields; a later pair replaces an earlier one.\<close>

definition parse_game_form :: "(string \<times> string) list \<Rightarrow> game_form" where
  "parse_game_form pairs =
     fold (\<lambda>(key, v) form.
         if key = ''call'' then form\<lparr>gf_call := Some v\<rparr>
         else if key = ''tapsonic_data'' then form\<lparr>gf_tapsonic_data := Some v\<rparr>
         else form)
       pairs \<lparr>gf_call = None, gf_tapsonic_data = None\<rparr>"

definition resolve_wire_rpc :: "string \<Rightarrow> game_form \<Rightarrow> string option" where
  "resolve_wire_rpc route_rpc form =
     (if eq_ignore_case route_rpc ''request'' then gf_call form else Some route_rpc)"

definition validate_request_identity :: "named_request \<Rightarrow> user_identity \<Rightarrow> bool \<Rightarrow> string + unit" where
  "validate_request_identity request identity allow_identity_discovery =
     (if \<not> allow_identity_discovery \<and>
         (case request_integer request ''U_seq'' of Some usn \<Rightarrow> usn \<noteq> id_usn identity | None \<Rightarrow> False)
      then Inl ''U_seq does not match the active save slot''
      else if \<not> allow_identity_discovery \<and>
         (case request_string request ''U_id'' of
            Some user_id \<Rightarrow> user_id \<noteq> [] \<and> user_id \<noteq> id_user_id identity | None \<Rightarrow> False)
      then Inl ''U_id does not match the active save slot''
      else Inr ())"

section \<open>Kinds and amounts\<close>

definition parse_content_kind :: "string \<Rightarrow> content_kind option" where
  "parse_content_kind value =
     (let v = to_lower value
      in if v = ''costume'' then Some Costume else if v = ''guitar'' then Some Guitar
         else if v = ''music'' then Some Music else None)"

definition parse_currency_kind :: "string \<Rightarrow> currency_kind option" where
  "parse_currency_kind value = find (\<lambda>candidate. currency_key candidate = to_lower value) all_currencies"

text \<open>A whole number of at most 64 digits: a count for candy and chocolate, which fits an \<open>i32\<close>.\<close>

definition parse_currency_amount :: "currency_kind \<Rightarrow> string \<Rightarrow> f64 option" where
  "parse_currency_amount currency value =
     (if value = [] \<or> 64 < length value then None
      else if \<not> list_all is_digit value then None
      else case parse_f64 value of
        None \<Rightarrow> None
      | Some result \<Rightarrow>
          if is_finite result \<and> flt_less fzero result
             \<and> (currency \<notin> {Candy, Chocolate} \<or> flt_le result (f64_of_int i32_max))
          then Some result else None)"

section \<open>Packaged assets\<close>

definition bundles :: string where "bundles = ''AssetBundles''"

fun bundle_root :: "string list \<Rightarrow> string list" where
  "bundle_root (a # b # cs) = (if a = bundles \<and> b = bundles then bundle_root (b # cs) else a # b # cs)"
| "bundle_root cs = cs"

definition safe_component :: "string \<Rightarrow> bool" where
  "safe_component w \<longleftrightarrow> w \<noteq> ''.'' \<and> w \<noteq> ''..''
     \<and> list_all (\<lambda>c. (of_char c :: nat) \<notin> {92, 37, 58, 0}) w"

definition normalize_asset_name :: "string \<Rightarrow> string option" where
  "normalize_asset_name path =
     (let components = bundle_root (filter (\<lambda>w. w \<noteq> []) (split_at (\<lambda>c. c = CHR ''/'') path))
      in case components of
           a # _ # _ \<Rightarrow>
             if a = bundles \<and> list_all safe_component components
             then Some (join_with (CHR ''/'') components) else None
         | _ \<Rightarrow> None)"

definition packaged_asset_is_head :: "string \<Rightarrow> bool option" where
  "packaged_asset_is_head http_method =
     (if http_method = ''GET'' then Some False else if http_method = ''HEAD'' then Some True else None)"

section \<open>The texts of errors\<close>

text \<open>The \<open>#[error]\<close> texts; those of \<open>rusqlite\<close> are a parameter. The model's own values have none.\<close>

fun thrift_text :: "thrift_error \<Rightarrow> string" where
  "thrift_text (Base64 e) = ''transport base64 is invalid: '' @ utf8_encode e"
| "thrift_text (thrift_error.Io e) = ''transport or thrift I/O failed: '' @ utf8_encode e"
| "thrift_text (UnsupportedType b) = ''unsupported thrift type '' @ show_int (uint b)"
| "thrift_text (InvalidSize n) = ''invalid collection size '' @ show_int (sint n)"
| "thrift_text (TrailingBytes n) = ''trailing thrift bytes: '' @ show_int (int n)"
| "thrift_text EmptyPayload = ''decoded thrift payload is empty''"
| "thrift_text PayloadTooLarge = ''decompressed payload exceeds 32 MiB''"
| "thrift_text OutOfFuel = []"

fun envelope_text :: "envelope_error \<Rightarrow> string" where
  "envelope_text (Thrift e) = thrift_text e"
| "envelope_text MissingCall = ''request is missing Call field 1''"
| "envelope_text MissingData = ''request is missing Data struct field 2''"
| "envelope_text (CallMismatch expected actual) =
     ''request call '' @ actual @ '' does not match route call '' @ expected"
| "envelope_text (MissingWire name) = ''RPC '' @ name @ '' has no wire candidate''"
| "envelope_text (MissingType name) = ''wire type '' @ name @ '' is not present in the protocol schema''"
| "envelope_text (RecursionLimit name) = ''wire type recursion exceeded the safety limit at '' @ name"
| "envelope_text (ExpectedStruct name) = ''wire type '' @ name @ '' is not a struct''"
| "envelope_text (UnknownField t f) = ''field '' @ f @ '' is not present in wire type '' @ t"
| "envelope_text Panicked = []"

fun domain_text :: "domain_error \<Rightarrow> string" where
  "domain_text (InvalidUtcOffset offset) =
     ''UTC offset '' @ show_int offset @ '' minutes is outside Android'' @ utf8 [39] @ ''s supported range''"
| "domain_text InvalidAmount = ''amount must be finite and non-negative''"
| "domain_text IdentityMismatch = ''identity does not belong to this login session''"
| "domain_text StaleRequest = ''request sequence is stale''"
| "domain_text AlreadyClaimed = ''reward was already claimed''"
| "domain_text AlreadyOwned = ''unique content is already owned''"
| "domain_text InsufficientBalance = ''insufficient balance''"
| "domain_text Locked = ''content is locked''"
| "domain_text InvalidStage = ''invalid stage''"
| "domain_text InsufficientEnergy = ''insufficient CH3 energy''"

fun store_text :: "(sql_error \<Rightarrow> string) \<Rightarrow> store_error \<Rightarrow> string" where
  "store_text sql_text (store_error.Io e) = e"
| "store_text sql_text (Sql e) = sql_text e"
| "store_text sql_text (Domain e) = domain_text e"
| "store_text sql_text (MissingSlot u) = ''slot '' @ show_int u @ '' does not exist''"
| "store_text sql_text NoActiveSlot = ''no active save slot''"
| "store_text sql_text (MissingMail i) = ''mail '' @ show_int i @ '' does not exist''"
| "store_text sql_text (MailAlreadyClaimed i) = ''mail '' @ show_int i @ '' was already claimed''"
| "store_text sql_text (ActorUnavailable e) = ''database actor unavailable: '' @ e"
| "store_text sql_text (InvalidReplay e) = ''mutation replay payload is invalid: '' @ e"
| "store_text sql_text IdempotencyConflict = ''idempotency key was reused for a different request''"
| "store_text sql_text (ActiveSlot u) = ''active or pending slot '' @ show_int u @ '' cannot be deleted''"
| "store_text sql_text (Integrity e) = ''database integrity check failed: '' @ e"
| "store_text sql_text (UnsupportedSchema actual expected) =
     ''save database schema '' @ show_int actual @ '' is unsupported (expected '' @ show_int expected @
     ''); this development build intentionally does not migrate test saves''"
| "store_text sql_text (UnsupportedReward name) =
     ''reward type '' @ name @ '' is not supported by the memorial inventory''"

fun gameplay_text :: "(sql_error \<Rightarrow> string) \<Rightarrow> gameplay_error \<Rightarrow> string" where
  "gameplay_text sql_text (Protocol e) = envelope_text e"
| "gameplay_text sql_text (Store e) = store_text sql_text e"
| "gameplay_text sql_text (Invalid text) = text"
| "gameplay_text sql_text (Panic text) = text"

section \<open>Facts\<close>

lemma differences_zero:
  fixes d :: byte
  shows "foldl (\<lambda>difference (a, b). or difference (xor a b)) d ps = 0 \<longleftrightarrow> d = 0 \<and> (\<forall>(a, b)\<in>set ps. a = b)"
proof (induction ps arbitrary: d)
  case (Cons p ps)
  obtain a b where p: "p = (a, b)" by (cases p)
  have "or d (xor a b) = 0 \<longleftrightarrow> d = 0 \<and> a = b"
    by (auto simp: bit_eq_iff bit_or_iff bit_xor_iff)
  then show ?case using Cons.IH by (simp add: p)
qed simp

lemma zip_equal: "length a = length b \<Longrightarrow> (\<forall>(x, y)\<in>set (zip a b). x = y) \<longleftrightarrow> a = b"
  by (induction a b rule: list_induct2) auto

lemma constant_time_equal_iff: "constant_time_equal a b \<longleftrightarrow> a = b"
  by (auto simp: constant_time_equal_def differences_zero zip_equal)

lemma as_bytes_inject: "as_bytes a = as_bytes b \<longleftrightarrow> a = b"
proof
  assume "as_bytes a = as_bytes b"
  then have "map (\<lambda>b. char_of (unat b)) (as_bytes a) = (map (\<lambda>b. char_of (unat b)) (as_bytes b) :: string)" by simp
  then show "a = b"
    by (simp add: as_bytes_def comp_def unat_of_nat take_bit_nat_def flip: take_bit_eq_mod)
qed simp

lemma bundle_root_suffix: "\<exists>ps. cs = ps @ bundle_root cs"
  by (induction cs rule: bundle_root.induct) (auto, metis append_Cons)

lemma bundle_root_twice: "bundle_root (bundle_root cs) = bundle_root cs"
  by (induction cs rule: bundle_root.induct) simp_all

lemma normalize_Some:
  assumes "normalize_asset_name path = Some name"
  obtains w ws where "name = join_with (CHR ''/'') (bundles # w # ws)"
    "bundle_root (bundles # w # ws) = bundles # w # ws"
    "\<forall>v\<in>set (bundles # w # ws). safe_component v \<and> v \<noteq> [] \<and> CHR ''/'' \<notin> set v"
proof -
  let ?ps = "filter (\<lambda>w. w \<noteq> []) (split_at (\<lambda>c. c = CHR ''/'') path)"
  from assms obtain a w ws where c: "bundle_root ?ps = a # w # ws" "a = bundles"
    "list_all safe_component (a # w # ws)" "name = join_with (CHR ''/'') (a # w # ws)"
    by (auto simp: normalize_asset_name_def Let_def split: list.splits if_splits)
  obtain ps where "?ps = ps @ bundle_root ?ps" using bundle_root_suffix by blast
  then have "set (a # w # ws) \<subseteq> set ?ps" using c(1) by (metis set_append sup_ge2)
  then have "\<forall>v\<in>set (a # w # ws). v \<noteq> [] \<and> CHR ''/'' \<notin> set v" using split_at_parts by fastforce
  moreover have "bundle_root (a # w # ws) = a # w # ws" using c(1) bundle_root_twice by metis
  ultimately show ?thesis using that c by (auto simp: list_all_iff)
qed

section \<open>Properties\<close>

text \<open>The comparison of the capability, whose time does not depend on the bytes, decides equality: a
request is authorized exactly when its session header is the capability.\<close>

lemma authorized_exact: "authorized capability hs \<longleftrightarrow> header_text hs session_header = Some capability"
  by (auto simp: authorized_def constant_time_equal_iff as_bytes_inject split: option.split)

text \<open>C34: A path that names a packaged asset stays inside the bundles: its name is \<open>AssetBundles\<close> and at least
one more component, none of them empty, a dot or two dots, none with a slash, a backslash, a percent sign,
a colon or a NUL; and naming it again gives the same name.\<close>

theorem asset_name_safe:
  assumes "normalize_asset_name path = Some name"
  shows "normalize_asset_name name = Some name
    \<and> (\<exists>ws. ws \<noteq> [] \<and> split_at (\<lambda>c. c = CHR ''/'') name = bundles # ws
        \<and> (\<forall>v\<in>set ws. safe_component v \<and> v \<noteq> []))"
proof -
  from normalize_Some [OF assms] obtain w ws where n: "name = join_with (CHR ''/'') (bundles # w # ws)"
    and root: "bundle_root (bundles # w # ws) = bundles # w # ws"
    and parts: "\<forall>v\<in>set (bundles # w # ws). safe_component v \<and> v \<noteq> [] \<and> CHR ''/'' \<notin> set v"
    by blast
  have split: "split_at (\<lambda>c. c = CHR ''/'') name = bundles # w # ws"
    unfolding n by (rule split_at_join) (use parts in auto)
  have "filter (\<lambda>w. w \<noteq> []) (bundles # w # ws) = bundles # w # ws"
    using parts by (intro filter_True) auto
  then have "normalize_asset_name name = Some name"
    using parts unfolding normalize_asset_name_def split
    by (simp add: root list_all_iff n del: join_with.simps filter.simps bundle_root.simps)
  with split parts show ?thesis by (intro conjI exI [of _ "w # ws"]) auto
qed

theorem asset_name_safe_witness:
  "normalize_asset_name ''AssetBundles/AssetBundles/ui'' = Some ''AssetBundles/ui''
   \<and> normalize_asset_name ''AssetBundles/ui'' = Some ''AssetBundles/ui''"
proof -
  have "normalize_asset_name ''AssetBundles/AssetBundles/ui'' = Some ''AssetBundles/ui''" by code_simp
  then show ?thesis using asset_name_safe by blast
qed

lemma round64_int_bounds:
  assumes "1 \<le> n" "n < 10 ^ 64"
  shows "\<exists>w. round64 (of_int n) = Fin w \<and> 1 \<le> w \<and> (w \<le> of_int i32_max \<longrightarrow> n \<le> i32_max \<and> w = of_int n)"
proof -
  have up: "representable 53 (- 1074) 1024 (2 powi 213)"
    unfolding representable_def by (intro conjI exI [of _ 213] exI [of _ 1]) auto
  have "(10::int) ^ 64 \<le> 2 ^ 213" by simp
  with assms have "(of_int n :: rat) \<le> of_int (2 ^ 213)" by (subst of_int_le_iff) linarith
  then have "of_int n \<le> (2::rat) powi 213" by simp
  from round_fmt_upper [OF up _ this] assms obtain w where w: "round64 (of_int n) = Fin w"
    by (auto simp: round64_def)
  have low: "representable 53 (- 1074) 1024 (of_int k)" if "\<bar>k\<bar> < 9007199254740992" for k :: int
    using that by (intro representable_int) (simp_all add: of_int_less_iff flip: of_int_abs)
  have ge: "of_int k \<le> w" if "0 \<le> k" "k \<le> n" "\<bar>k\<bar> < 9007199254740992" for k :: int
    using round_fmt_lower [OF low _ _ w [unfolded round64_def], of k] that by simp
  have "n \<le> i32_max \<and> w = of_int n" if le: "w \<le> of_int i32_max"
  proof (cases "n \<le> i32_max")
    case True
    with assms w round64_int [of n] show ?thesis by simp
  next
    case False
    then have "of_int (i32_max + 1) \<le> w" by (intro ge) simp_all
    with le show ?thesis by simp
  qed
  moreover have "1 \<le> w" using ge [of 1] assms by simp
  ultimately show ?thesis using w by blast
qed

lemma dec_val_digits: "list_all is_digit s \<Longrightarrow> dec_val s < 10 ^ length s"
proof (induction s rule: rev_induct)
  case (snoc c s)
  then have "dec_val s < 10 ^ length s" "digit_val c \<le> 9" by (auto simp: is_digit_def digit_val_def)
  then show ?case by (simp add: dec_val_snoc)
qed (simp add: dec_val_def)

text \<open>An amount of the settings page is accepted exactly when it is 1 to 64 digits, not all zero, and for
candy and chocolate at most the largest \<open>i32\<close>. The amount credited is finite and at least one; where the
\<open>i32\<close> bound applies, it is the very number that was typed.\<close>

lemma currency_amount_bounds:
  "parse_currency_amount k s =
     (if s \<noteq> [] \<and> length s \<le> 64 \<and> list_all is_digit s \<and> 0 < dec_val s
         \<and> (k \<notin> {Candy, Chocolate} \<or> int (dec_val s) \<le> i32_max)
      then Some (round64 (of_nat (dec_val s))) else None)
   \<and> (case parse_currency_amount k s of None \<Rightarrow> True
      | Some x \<Rightarrow> flt_le (Fin 1) x \<and> is_finite x
          \<and> (k \<notin> {Candy, Chocolate} \<or> x = Fin (of_int (int (dec_val s))) \<and> int (dec_val s) \<le> i32_max))"
proof (cases "s \<noteq> [] \<and> length s \<le> 64 \<and> list_all is_digit s")
  case True
  have pow: "(10::nat) ^ length s \<le> 10 ^ 64" using True by (intro power_increasing) simp_all
  with True dec_val_digits [of s] have small: "dec_val s < 10 ^ 64" by linarith
  have parsed: "parse_f64 s = Some (round64 (of_nat (dec_val s)))" using True parse_f64_digits by blast
  have top: "f64_of_int i32_max = Fin (of_int i32_max)" by (rule f64_of_int_exact) simp
  show ?thesis
  proof (cases "dec_val s = 0")
    case True
    then have "round64 (of_nat (dec_val s)) = fzero" using round64_int [of 0] by (simp add: fzero_def)
    with \<open>s \<noteq> [] \<and> length s \<le> 64 \<and> list_all is_digit s\<close> True parsed show ?thesis
      by (simp add: parse_currency_amount_def fzero_def)
  next
    case False
    from small have "int (dec_val s) < int (10 ^ 64)" by (simp only: of_nat_less_iff)
    with False round64_int_bounds [of "int (dec_val s)"] obtain w where
      w: "round64 (of_nat (dec_val s)) = Fin w" "1 \<le> w"
        "w \<le> of_int i32_max \<Longrightarrow> int (dec_val s) \<le> i32_max \<and> w = of_int (int (dec_val s))" by auto
    have exact: "int (dec_val s) \<le> i32_max \<Longrightarrow> w = of_int (int (dec_val s))"
      using round64_int [of "int (dec_val s)"] w(1) False by simp
    have le: "flt_le (Fin w) (f64_of_int i32_max) \<longleftrightarrow> int (dec_val s) \<le> i32_max"
      using w(3) exact by (auto simp: top flt_le_def)
    have pos: "flt_less fzero (Fin w)" using w(2) by (simp add: fzero_def)
    have one: "flt_le (Fin 1) (Fin w)" using w(2) by (auto simp: flt_le_def)
    have p: "parse_currency_amount k s =
        (if k \<notin> {Candy, Chocolate} \<or> int (dec_val s) \<le> i32_max then Some (Fin w) else None)"
      using True unfolding parse_currency_amount_def parsed w(1) option.case le by (simp add: pos)
    show ?thesis using True False w(1) exact one unfolding p by auto
  qed
qed (auto simp: parse_currency_amount_def)

theorem currency_amount_bounds_witness:
  "parse_currency_amount Candy ''2147483647'' = Some (Fin 2147483647) \<and> parse_currency_amount Candy ''2147483648'' = None"
proof -
  have v: "dec_val ''2147483647'' = 2147483647" "dec_val ''2147483648'' = 2147483648"
    by (simp_all add: dec_val_def digit_val_def)
  have d: "list_all is_digit ''2147483647''" "list_all is_digit ''2147483648''" by code_simp+
  have r: "round64 (of_nat 2147483647) = Fin 2147483647" using round64_int [of 2147483647] by simp
  have l: "length ''2147483647'' \<le> 64" "length ''2147483648'' \<le> 64" by simp_all
  have "parse_currency_amount Candy ''2147483647'' = Some (round64 (of_nat 2147483647))"
    unfolding currency_amount_bounds [THEN conjunct1] v using d l by simp
  moreover have "parse_currency_amount Candy ''2147483648'' = None"
    unfolding currency_amount_bounds [THEN conjunct1] v using d l by simp
  ultimately show ?thesis by (simp only: r simp_thms)
qed

end
