(* ===== verification/Admin.thy ===== *)
theory Admin
  imports Effects Http
begin

text \<open>
  The state of the server between requests and the endpoints of the settings page
  (\<open>crates/transport-http/src/lib.rs\<close>): the session, the slots, the discontinued items, the mails of
  currency and the season of the star pass. A write goes through one mutation whose key has the name
  of the endpoint and the request sequence, and not the nonce of the session.
\<close>

section \<open>The server\<close>

text \<open>
  What \<open>AppState\<close> holds and never changes. The form parser, base64, bzip2, the reader of packaged
  assets and the texts of \<open>rusqlite\<close> are parameters.
\<close>

record asset_source =
  as_read :: "string \<Rightarrow> string + bytes option"
  as_len :: "string \<Rightarrow> string + nat option"

record http_env =
  he_game :: game_env
  he_capability :: string
  he_capability_hash :: "nat list"
  he_asset_source :: "asset_source option"
  he_form :: "bytes \<Rightarrow> (string \<times> string) list"
  he_b64_decode :: "ustr \<Rightarrow> ustr + bytes"
  he_b64_encode :: "bytes \<Rightarrow> ustr"
  he_bunzip :: "bytes \<Rightarrow> bytes \<times> ustr option"
  he_bzip :: "bytes \<Rightarrow> ustr + bytes"
  he_sql_text :: "sql_error \<Rightarrow> string"

text \<open>What it changes: the login session, the flag of the start notice, the database.\<close>

record server =
  se_session :: "login_session option"
  se_notice_emitted :: bool
  se_db :: db

record session_view =
  sev_usn :: int
  sev_user_id :: string
  sev_nonce :: int
  sev_protocol_version :: int
  sev_master_schema_version :: int
  sev_master_source_tables :: int

record star_pass_view =
  spv_seasons :: "int list"
  spv_active_season :: int
  spv_anchor_day :: int
  spv_restart_required_after_selection :: bool

datatype body =
    NoBody
  | Plain string
  | Html string
  | Healthy
  | SessionBody session_view
  | SlotsBody "slot_view list"
  | IdentityBody user_identity
  | SelectedSlot int
  | LegacyBody "legacy_item_view list"
  | PostBody int
  | StarPassBody star_pass_view
  | SelectedSeason int int
  | Payload ustr
  | Asset bytes
  | AssetLength nat

text \<open>\<open>Dropped\<close> is the end of a request whose handler panicked: no response is sent.\<close>

datatype reply = Reply nat body | Dropped

type_synonym endpoint = "server \<Rightarrow> reply \<times> server"

definition answer :: "nat \<Rightarrow> body \<Rightarrow> endpoint" where
  "answer status b v = (Reply status b, v)"

text \<open>One job of the database actor, committed or rolled back before its reply is built.\<close>

definition served_job :: "(db \<Rightarrow> (store_error + 'a) \<times> db) \<Rightarrow> (store_error + 'a \<Rightarrow> reply) \<Rightarrow> endpoint" where
  "served_job op f v = (case op (se_db v) of (r, t) \<Rightarrow> (f r, v\<lparr>se_db := t\<rparr>))"

definition with_capability :: "http_env \<Rightarrow> headers \<Rightarrow> endpoint \<Rightarrow> endpoint" where
  "with_capability env hs next_step v =
     (if authorized (he_capability env) hs then next_step v else answer 401 NoBody v)"

definition with_session :: "(login_session \<Rightarrow> endpoint) \<Rightarrow> endpoint" where
  "with_session next_step v =
     (case se_session v of None \<Rightarrow> answer 503 NoBody v | Some session \<Rightarrow> next_step session v)"

text \<open>\<open>begin_login\<close> of \<open>ServerHandle\<close>: the one place that sets the session.\<close>

definition server_login :: "http_env \<Rightarrow> device_clock \<Rightarrow> server \<Rightarrow> (string + login_session) \<times> server" where
  "server_login env clock v =
     (case begin_login (he_capability_hash env) clock (se_db v) of
        (Inl e, t) \<Rightarrow> (Inl (store_text (he_sql_text env) e), v\<lparr>se_db := t\<rparr>)
      | (Inr session, t) \<Rightarrow>
          let opened = session\<lparr>ls_capability := he_capability env\<rparr>
          in (Inr opened, v\<lparr>se_session := Some opened, se_db := t\<rparr>))"

section \<open>Mutations of the settings page\<close>

definition admin_key :: "string \<Rightarrow> int \<Rightarrow> string" where
  "admin_key rpc request_seq = ''admin:'' @ rpc @ '':'' @ show_int request_seq"

definition admin_mutation :: "login_session \<Rightarrow> device_clock \<Rightarrow> string \<Rightarrow> int \<Rightarrow> rpc_mutation" where
  "admin_mutation session clock rpc request_seq =
     \<lparr>mu_nonce = ls_nonce session, mu_identity = ls_identity session, mu_request_seq = request_seq, mu_rpc = rpc,
      mu_idempotency_key = admin_key rpc request_seq, mu_committed_at = unix_seconds clock\<rparr>"

definition admin_write_context ::
  "login_session option \<Rightarrow> headers \<Rightarrow> string \<Rightarrow> string + login_session \<times> device_clock \<times> rpc_mutation" where
  "admin_write_context current hs rpc =
     (case current of
        None \<Rightarrow> Inl ''no active login session''
      | Some session \<Rightarrow>
        (case request_clock hs (ls_clock session) True of
           Inl message \<Rightarrow> Inl message
         | Inr clock \<Rightarrow>
           (case request_sequence hs of
              None \<Rightarrow> Inl ''missing or invalid request sequence''
            | Some request_seq \<Rightarrow> Inr (session, clock, admin_mutation session clock rpc request_seq))))"

definition admin_write ::
  "headers \<Rightarrow> string \<Rightarrow> (device_clock \<Rightarrow> rpc_mutation \<Rightarrow> db \<Rightarrow> (store_error + 'a) \<times> db)
   \<Rightarrow> (device_clock \<Rightarrow> store_error + 'a \<Rightarrow> reply) \<Rightarrow> endpoint" where
  "admin_write hs rpc op f v =
     (case admin_write_context (se_session v) hs rpc of
        Inl message \<Rightarrow> answer 400 (Plain message) v
      | Inr (_, clock, m) \<Rightarrow> served_job (op clock m) (f clock) v)"

definition internal_error :: reply where
  "internal_error = Reply 500 NoBody"

definition admin_mutation_error :: "store_error \<Rightarrow> reply" where
  "admin_mutation_error error =
     (case error of
        Domain StaleRequest \<Rightarrow> Reply 409 (Plain ''stale request sequence'')
      | IdempotencyConflict \<Rightarrow> Reply 409 (Plain ''idempotency conflict'')
      | _ \<Rightarrow> internal_error)"

definition mail_enqueue_response :: "store_error + int \<Rightarrow> reply" where
  "mail_enqueue_response result =
     (case result of
        Inr post_id \<Rightarrow> Reply 201 (PostBody post_id)
      | Inl (Domain AlreadyOwned) \<Rightarrow> Reply 409 (Plain ''already owned'')
      | Inl error \<Rightarrow> admin_mutation_error error)"

section \<open>Endpoints\<close>

definition protocol_version :: int where "protocol_version = 1"

definition current_session :: "http_env \<Rightarrow> headers \<Rightarrow> endpoint" where
  "current_session env hs = with_capability env hs (with_session (\<lambda>session. answer 200 (SessionBody
     \<lparr>sev_usn = id_usn (ls_identity session), sev_user_id = id_user_id (ls_identity session),
      sev_nonce = ls_nonce session, sev_protocol_version = protocol_version,
      sev_master_schema_version = mmd_version (mc_metadata (ge_master (he_game env))),
      sev_master_source_tables = mmd_source_table_count (mc_metadata (ge_master (he_game env)))\<rparr>)))"

definition list_slots_endpoint :: "http_env \<Rightarrow> headers \<Rightarrow> endpoint" where
  "list_slots_endpoint env hs = with_capability env hs (\<lambda>v. answer 200 (SlotsBody (slot_views (se_db v))) v)"

definition create_slot_endpoint :: "http_env \<Rightarrow> headers \<Rightarrow> string \<Rightarrow> endpoint" where
  "create_slot_endpoint env hs display_name = with_capability env hs
     (let name = trimmed display_name
      in if name = [] \<or> 32 < length (u_chars name) then answer 400 (Plain ''invalid displayName'')
         else admin_write hs ''memorial.createSlot''
           (\<lambda>_ m. coded (cd_identity (ge_codecs (he_game env)))
              (\<lambda>enc dec. create_slot_rpc enc dec m name (ge_achievement_ids (he_game env))))
           (\<lambda>_ r. case r of Inr identity \<Rightarrow> Reply 201 (IdentityBody identity) | Inl e \<Rightarrow> admin_mutation_error e))"

definition select_slot_endpoint :: "http_env \<Rightarrow> headers \<Rightarrow> int \<Rightarrow> endpoint" where
  "select_slot_endpoint env hs usn = with_capability env hs
     (admin_write hs ''memorial.selectSlot''
       (\<lambda>_ m. coded (cd_identity (ge_codecs (he_game env)))
          (\<lambda>enc dec. tx_commit (request_switch_rpc enc dec m (show_int usn))))
       (\<lambda>_ r. case r of
          Inr _ \<Rightarrow> Reply 200 (SelectedSlot usn)
        | Inl (MissingSlot _) \<Rightarrow> Reply 404 NoBody
        | Inl e \<Rightarrow> admin_mutation_error e))"

definition delete_slot_endpoint :: "http_env \<Rightarrow> headers \<Rightarrow> int \<Rightarrow> string \<Rightarrow> endpoint" where
  "delete_slot_endpoint env hs usn confirm_display_name = with_capability env hs
     (admin_write hs ''memorial.deleteSlot''
       (\<lambda>_ m. coded (cd_unit (ge_codecs (he_game env)))
          (\<lambda>enc dec. tx_commit (delete_inactive_slot_rpc enc dec m usn (trimmed confirm_display_name))))
       (\<lambda>_ r. case r of
          Inr _ \<Rightarrow> Reply 204 NoBody
        | Inl (MissingSlot _) \<Rightarrow> Reply 404 NoBody
        | Inl (ActiveSlot _) \<Rightarrow> Reply 409 (Plain ''active or pending slot cannot be deleted'')
        | Inl (Domain IdentityMismatch) \<Rightarrow> Reply 400 (Plain ''typed confirmation does not match'')
        | Inl e \<Rightarrow> admin_mutation_error e))"

text \<open>The states of all items are read in one job.\<close>

definition list_legacy_items :: "http_env \<Rightarrow> headers \<Rightarrow> endpoint" where
  "list_legacy_items env hs = with_capability env hs (with_session (\<lambda>session v.
     answer 200 (LegacyBody (map (\<lambda>item.
       let (owned, pending) = content_delivery_state (se_db v) (id_usn (ls_identity session))
             (liv_kind item) (liv_area item) (liv_id item)
       in item\<lparr>liv_owned := owned, liv_pending_mail := pending, liv_can_send := \<not> owned \<and> \<not> pending\<rparr>)
       (legacy_catalog (ge_master (he_game env))))) v))"

definition send_mail :: "http_env \<Rightarrow> headers \<Rightarrow> string \<Rightarrow> string \<Rightarrow> string \<Rightarrow> reward \<Rightarrow> endpoint" where
  "send_mail env hs rpc subject_key body_key rwd =
     admin_write hs rpc
       (\<lambda>_ m. coded (cd_int (ge_codecs (he_game env)))
          (\<lambda>enc dec. tx_commit (queue_generated_mail_rpc enc dec m subject_key body_key rwd)))
       (\<lambda>_. mail_enqueue_response)"

definition send_legacy_item :: "http_env \<Rightarrow> headers \<Rightarrow> string \<Rightarrow> int \<Rightarrow> int \<Rightarrow> endpoint" where
  "send_legacy_item env hs kind area i = with_capability env hs
     (case parse_content_kind kind of
        None \<Rightarrow> answer 400 (Plain ''unknown content kind'')
      | Some content \<Rightarrow>
          if list_ex (\<lambda>item. liv_kind item = content \<and> liv_area item = area \<and> liv_id item = i)
               (legacy_catalog (ge_master (he_game env)))
          then send_mail env hs ''memorial.sendLegacyItem'' ''memorial.legacy.subject'' ''memorial.legacy.body''
                 (RContent content area i)
          else answer 404 NoBody)"

definition send_currency_mail :: "http_env \<Rightarrow> headers \<Rightarrow> string \<Rightarrow> string \<Rightarrow> endpoint" where
  "send_currency_mail env hs kind amount_text = with_capability env hs
     (case parse_currency_kind kind of
        None \<Rightarrow> answer 400 (Plain ''unknown currency kind'')
      | Some currency \<Rightarrow>
        (case parse_currency_amount currency amount_text of
           None \<Rightarrow> answer 400 (Plain ''invalid amount'')
         | Some amount \<Rightarrow>
             send_mail env hs ''memorial.sendCurrency'' ''memorial.currency.subject'' ''memorial.currency.body''
               (RCurrency currency amount)))"

definition list_star_passes :: "http_env \<Rightarrow> headers \<Rightarrow> endpoint" where
  "list_star_passes env hs = with_capability env hs (with_session (\<lambda>session v.
     let clock = (case request_clock hs (ls_clock session) False of Inl _ \<Rightarrow> ls_clock session | Inr c \<Rightarrow> c)
     in case pass_snapshot (id_usn (ls_identity session)) (se_db v) of
          Inl _ \<Rightarrow> (internal_error, v)
        | Inr (pass, _) \<Rightarrow> answer 200 (StarPassBody
            \<lparr>spv_seasons = map mpse_season (mc_pass_seasons (ge_master (he_game env))),
             spv_active_season = pass_season clock (pa_anchor_day (ps_anchor pass)) (pa_anchor_season (ps_anchor pass)),
             spv_anchor_day = pa_anchor_day (ps_anchor pass),
             spv_restart_required_after_selection = True\<rparr>) v))"

definition select_star_pass :: "http_env \<Rightarrow> headers \<Rightarrow> int \<Rightarrow> endpoint" where
  "select_star_pass env hs season = with_capability env hs
     (if list_ex (\<lambda>row. mpse_season row = season) (mc_pass_seasons (ge_master (he_game env)))
      then admin_write hs ''memorial.selectPass''
        (\<lambda>clock m. coded (cd_unit (ge_codecs (he_game env)))
           (\<lambda>enc dec. tx_commit (select_pass_season_rpc enc dec m clock season)))
        (\<lambda>clock r. case r of
           Inr _ \<Rightarrow> Reply 200 (SelectedSeason season (local_epoch_day clock)) | Inl e \<Rightarrow> admin_mutation_error e)
      else answer 404 NoBody)"

end
