(* ===== verification/Server.thy ===== *)
theory Server
  imports Admin
begin

text \<open>
  The HTTP server as a whole (\<open>crates/transport-http/src/lib.rs\<close>): \<open>legacy_rpc\<close>, which serves the game,
  the packaged assets and the routes.

  Requests are served one after the other. The code serves them concurrently, but what it shares is
  the database, one job at a time, the session, read once per request, and the flag of the start
  notice, swapped atomically.
\<close>

section \<open>Answers of a game call\<close>

definition encoded :: "http_env \<Rightarrow> envelope_error + bytes \<Rightarrow> envelope_error + ustr" where
  "encoded env reply_bytes =
     (case reply_bytes of
        Inl e \<Rightarrow> Inl e
      | Inr raw \<Rightarrow>
        (case encode_transport (he_b64_encode env) (he_bzip env) raw of Inl e \<Rightarrow> Inl (Thrift e) | Inr text \<Rightarrow> Inr text))"

definition text_payload :: "envelope_error + ustr \<Rightarrow> reply" where
  "text_payload result =
     (case result of
        Inr text \<Rightarrow> Reply 200 (Payload text)
      | Inl e \<Rightarrow> if e = Panicked then Dropped else internal_error)"

definition thrift_error_reply :: "http_env \<Rightarrow> rpc_spec \<Rightarrow> int \<Rightarrow> int \<Rightarrow> string \<Rightarrow> reply" where
  "thrift_error_reply env spec now code message = text_payload (encoded env (error_response spec now code message))"

definition gameplay_panic :: "gameplay_error \<Rightarrow> bool" where
  "gameplay_panic e = (case e of Panic _ \<Rightarrow> True | Protocol p \<Rightarrow> p = Panicked | _ \<Rightarrow> False)"

section \<open>Game calls\<close>

record game_route =
  gr_category :: string
  gr_rpc :: string
  gr_locale :: string
  gr_body :: bytes

text \<open>
  The call a request resolves to, in the order of the code's early returns: its specification, its
  handler and its session, or the reply. The registry of names that the build script generates holds
  the calls of the schema.
\<close>

definition call_name :: "string \<Rightarrow> string \<Rightarrow> string" where
  "call_name category wire_rpc = (if category = ''main'' \<and> eq_ignore_case wire_rpc ''Request'' then ''init'' else wire_rpc)"

definition resolve_call ::
  "http_env \<Rightarrow> game_route \<Rightarrow> game_form \<Rightarrow> login_session option
   \<Rightarrow> reply + string \<times> rpc_spec \<times> handler_spec \<times> login_session" where
  "resolve_call env route form current =
     (case resolve_wire_rpc (gr_rpc route) form of
        None \<Rightarrow> Inl (Reply 400 (Plain ''missing call''))
      | Some wire_rpc \<Rightarrow>
     (case schema_call (ge_schema (he_game env)) (call_name (gr_category route) wire_rpc) of
        None \<Rightarrow> Inl (Reply 404 NoBody)
      | Some spec \<Rightarrow>
     (if rpc_category spec \<noteq> gr_category route then Inl (Reply 404 NoBody)
      else case handler_for spec of
        None \<Rightarrow> Inl (Reply 501 NoBody)
      | Some handler \<Rightarrow>
     (case current of
        None \<Rightarrow> Inl (Reply 503 NoBody)
      | Some session \<Rightarrow>
     (if rpc_class spec = Some Active \<and> \<not> is_implemented spec
      then Inl (thrift_error_reply env spec (unix_seconds (ls_clock session)) 992
             ''active RPC is not implemented by this development build'')
      else if \<not> eq_ignore_case (gr_rpc route) ''request''
              \<and> (case gf_call form of None \<Rightarrow> False | Some call \<Rightarrow> call \<noteq> wire_rpc)
      then Inl (thrift_error_reply env spec (unix_seconds (ls_clock session)) 997 ''form call mismatch'')
      else Inr (call_name (gr_category route) wire_rpc, spec, handler, session))))))"

definition read_call ::
  "http_env \<Rightarrow> rpc_spec \<Rightarrow> game_form \<Rightarrow> string + bytes \<times> named_request" where
  "read_call env spec form =
     (case gf_tapsonic_data form of
        None \<Rightarrow> Inl ''missing tapsonic_data''
      | Some text \<Rightarrow>
     (case decode_transport (he_b64_decode env) (he_bunzip env) (u_chars text) of
        Inl e \<Rightarrow> Inl (thrift_text e)
      | Inr raw \<Rightarrow>
     (case decode_request raw spec (ge_schema (he_game env)) of
        Inl e \<Rightarrow> Inl (envelope_text e)
      | Inr request \<Rightarrow> Inr (raw, request))))"

definition identity_discovery :: "string \<Rightarrow> bool" where
  "identity_discovery rpc \<longleftrightarrow> rpc = ''userLogin'' \<or> rpc = ''userJoin''"

definition admit_call ::
  "http_env \<Rightarrow> headers \<Rightarrow> game_route \<Rightarrow> login_session option \<Rightarrow> reply + game_call" where
  "admit_call env hs route current =
     (let form = parse_game_form (he_form env (gr_body route))
      in sum_bind (resolve_call env route form current) (\<lambda>(rpc, spec, handler, session).
         case read_call env spec form of
           Inl message \<Rightarrow> Inl (thrift_error_reply env spec (unix_seconds (ls_clock session)) 997 message)
         | Inr (raw, request) \<Rightarrow>
         (case validate_request_identity request (ls_identity session) (identity_discovery rpc) of
           Inl message \<Rightarrow> Inl (thrift_error_reply env spec (unix_seconds (ls_clock session)) 996 message)
         | Inr _ \<Rightarrow>
         (case request_clock hs (ls_clock session) (hs_mutating handler) of
           Inl message \<Rightarrow> Inl (thrift_error_reply env spec (unix_seconds (ls_clock session)) 995 message)
         | Inr clock \<Rightarrow>
           if hs_mutating handler \<and> request_sequence hs = None
           then Inl (thrift_error_reply env spec (unix_seconds clock) 994 ''missing request sequence'')
           else Inr \<lparr>gc_rpc = rpc, gc_spec = spec, gc_session = session, gc_locale = gr_locale route,
                     gc_request = request, gc_clock = clock, gc_sequence = request_sequence hs, gc_raw = raw\<rparr>))))"

text \<open>The answer to a call that was served; the first \<open>getUpdateTime\<close> of the process has the start notice.\<close>

definition success_reply :: "http_env \<Rightarrow> game_call \<Rightarrow> bool \<Rightarrow> wire_value option \<Rightarrow> reply" where
  "success_reply env c notice data =
     (let schema = ge_schema (he_game env); now = unix_seconds (gc_clock c)
      in text_payload (encoded env
        (if notice
         then (case memorial_maintenance_value schema (gc_locale c) of
                 Inl e \<Rightarrow> Inl e
               | Inr maintenance \<Rightarrow> success_response_with_maintenance (gc_spec c) schema now data maintenance)
         else success_response (gc_spec c) schema now data)))"

definition serve_call :: "http_env \<Rightarrow> game_call \<Rightarrow> endpoint" where
  "serve_call env c v =
     (case execute (he_game env) c (se_db v) of
        (Inl e, t) \<Rightarrow>
          (if gameplay_panic e then Dropped
           else thrift_error_reply env (gc_spec c) (unix_seconds (gc_clock c)) 993 (gameplay_text (he_sql_text env) e),
           v\<lparr>se_db := t\<rparr>)
      | (Inr data, t) \<Rightarrow>
          if data = None \<and> rpc_class (gc_spec c) = Some Active
          then (thrift_error_reply env (gc_spec c) (unix_seconds (gc_clock c)) 992
                  ''active RPC is not implemented by this development build'', v\<lparr>se_db := t\<rparr>)
          else (success_reply env c (gc_rpc c = ''getUpdateTime'' \<and> \<not> se_notice_emitted v) data,
                v\<lparr>se_db := t, se_notice_emitted := (se_notice_emitted v \<or> gc_rpc c = ''getUpdateTime'')\<rparr>))"

definition legacy_rpc :: "http_env \<Rightarrow> headers \<Rightarrow> game_route \<Rightarrow> endpoint" where
  "legacy_rpc env hs route = with_capability env hs (\<lambda>v.
     case admit_call env hs route (se_session v) of Inl r \<Rightarrow> (r, v) | Inr c \<Rightarrow> serve_call env c v)"

section \<open>Assets and routes\<close>

definition asset_reply :: "string + body option \<Rightarrow> reply" where
  "asset_reply result =
     (case result of Inl _ \<Rightarrow> internal_error | Inr None \<Rightarrow> Reply 404 NoBody | Inr (Some b) \<Rightarrow> Reply 200 b)"

definition packaged_asset :: "http_env \<Rightarrow> string \<Rightarrow> string \<Rightarrow> reply" where
  "packaged_asset env http_method path =
     (case (packaged_asset_is_head http_method, normalize_asset_name path, he_asset_source env) of
        (Some is_head, Some name, Some source) \<Rightarrow>
          asset_reply (if is_head then map_sum id (map_option AssetLength) (as_len source name)
                       else map_sum id (map_option Asset) (as_read source name))
      | _ \<Rightarrow> Reply 404 NoBody)"

datatype request =
    Health
  | Notice string
  | Session
  | ListSlots
  | CreateSlot string
  | DeleteSlot int string
  | SelectSlot int
  | ListLegacy
  | SendLegacy string int int
  | SendCurrency string string
  | ListPasses
  | SelectPass int
  | Game game_route
  | AssetFile string string

fun serve :: "http_env \<Rightarrow> headers \<Rightarrow> request \<Rightarrow> endpoint" where
  "serve env hs Health = answer 200 Healthy"
| "serve env hs (Notice locale) = answer 200 (Html (memorial_notice locale))"
| "serve env hs Session = current_session env hs"
| "serve env hs ListSlots = list_slots_endpoint env hs"
| "serve env hs (CreateSlot display_name) = create_slot_endpoint env hs display_name"
| "serve env hs (DeleteSlot usn confirmation) = delete_slot_endpoint env hs usn confirmation"
| "serve env hs (SelectSlot usn) = select_slot_endpoint env hs usn"
| "serve env hs ListLegacy = list_legacy_items env hs"
| "serve env hs (SendLegacy kind area i) = send_legacy_item env hs kind area i"
| "serve env hs (SendCurrency kind amount) = send_currency_mail env hs kind amount"
| "serve env hs ListPasses = list_star_passes env hs"
| "serve env hs (SelectPass season) = select_star_pass env hs season"
| "serve env hs (Game route) = legacy_rpc env hs route"
| "serve env hs (AssetFile http_method path) = (\<lambda>v. (packaged_asset env http_method path, v))"

definition public_request :: "request \<Rightarrow> bool" where
  "public_request r = (case r of Health \<Rightarrow> True | Notice _ \<Rightarrow> True | AssetFile _ _ \<Rightarrow> True | _ \<Rightarrow> False)"

end
