(* ===== verification/Traffic.thy ===== *)
theory Traffic
  imports Server
begin

text \<open>
  What any request can do to the server. A locale proves for every route of \<open>serve\<close> that the database
  stays within any reflexive and transitive relation that contains the game call the request is
  admitted as and the mutation the settings page writes; four interpretations read off that a request
  is a run of the program, stays with its player, leaves its key in the ledger and is a no-op when the
  key is there. The login, and what an admitted call satisfies.
\<close>

section \<open>What a write of the settings page does\<close>

text \<open>The flag tells the two endpoints that create and delete slots from the others.\<close>

inductive admin_step :: "bool \<Rightarrow> rpc_mutation \<Rightarrow> db \<Rightarrow> db \<Rightarrow> bool" where
  command: "request_step m s t \<Longrightarrow> admin_step b m s t"
| create: "commit_rpc_mutation enc dec m (create_slot_in_transaction name now ids) s = Inr (i, t) \<Longrightarrow>
    admin_step True m s t"
| delete: "commit_rpc_mutation enc' dec' m (delete_inactive_slot_in_transaction u confirmation) s = Inr ((), t)
    \<Longrightarrow> admin_step True m s t"

lemma mail_step: "tx_rel (request_step m) (queue_generated_mail_rpc enc dec m subject_key body_key rwd)"
  unfolding queue_generated_mail_rpc_def
  by (rule commit_step, rule served.command, rule player_command.generated_mail)

lemma season_step: "tx_rel (request_step m) (select_pass_season_rpc enc dec m clock season)"
  unfolding select_pass_season_rpc_def
  by (rule commit_step, rule served.command, rule player_command.select_season) simp

lemma admin_commits:
  "tx_rel (admin_step b m) (queue_generated_mail_rpc enc1 dec1 m subject_key body_key rwd)"
  "tx_rel (admin_step b m) (select_pass_season_rpc enc2 dec2 m clock season)"
  "tx_rel (admin_step b m) (request_switch_rpc enc3 dec3 m selector)"
  "tx_rel (admin_step True m) (delete_inactive_slot_rpc enc4 dec4 m u confirmation)"
  "tx_rel (admin_step True m) (commit_rpc_mutation enc5 dec5 m (create_slot_in_transaction name now ids))"
  using mail_step season_step switch_step
  by (auto simp: tx_rel_def delete_inactive_slot_rpc_def intro: admin_step.intros)

lemma committed_runs:
  assumes "commit_rpc_mutation enc dec m op s = Inr (x, t)"
    and "\<And>s y t. op s = Inr (y, t) \<Longrightarrow> program_step\<^sup>*\<^sup>* s t"
  shows "program_step\<^sup>*\<^sup>* s t"
proof (cases "ledger_entry s (mu_usn m) (mu_idempotency_key m)")
  case None
  with assms(1) obtain j s' where a: "active_session s m" "last_seq s (mu_nonce m) < mu_request_seq m"
    and c: "op (advanced m s) = Inr (x, s')" and r: "record_mutation m j s' = Inr ((), t)"
    by (auto simp: commit_Inr)
  from program_step.advance [OF a] assms(2) [OF c] program_step.ledger [OF r] show ?thesis
    by (meson converse_rtranclp_into_rtranclp rtranclp.rtrancl_into_rtrancl)
qed (use assms(1) in \<open>auto simp: commit_Inr\<close>)

lemma admin_step_runs: "admin_step b m s t \<Longrightarrow> program_step\<^sup>*\<^sup>* s t"
proof (induction rule: admin_step.induct)
  case (create enc dec m name now ids s i t)
  then show ?case by (rule committed_runs) (blast intro: program_step.create)
next
  case (delete enc dec m u confirmation s t)
  then show ?case by (rule committed_runs) (auto intro!: r_into_rtranclp program_step.delete)
qed (rule request_step_runs)

lemma committed_entry: "commit_rpc_mutation enc dec m op s = Inr (x, t) \<Longrightarrow>
    t = s \<or> ledger_entry t (mu_usn m) (mu_idempotency_key m) \<noteq> None"
  by (auto simp: commit_Inr record_mutation_Inr ledger_entry_recorded split: option.splits)

lemma committed_again: "commit_rpc_mutation enc dec m op s = Inr (x, t) \<Longrightarrow>
    ledger_entry s (mu_usn m) (mu_idempotency_key m) \<noteq> None \<Longrightarrow> t = s"
  by (auto simp: commit_Inr)

lemma admin_step_entry: "admin_step b m s t \<Longrightarrow> t = s \<or> ledger_entry t (mu_usn m) (mu_idempotency_key m) \<noteq> None"
  by (induction rule: admin_step.induct) (blast dest: request_step_entry committed_entry)+

lemma admin_step_again: "admin_step b m s t \<Longrightarrow> ledger_entry s (mu_usn m) (mu_idempotency_key m) \<noteq> None \<Longrightarrow> t = s"
  by (induction rule: admin_step.induct) (blast dest: request_step_again committed_again)+

section \<open>Any request within a relation\<close>

text \<open>The name a request writes under: its RPC, or the endpoint of the settings page.\<close>

definition request_name :: "http_env \<Rightarrow> request \<Rightarrow> string" where
  "request_name env r =
     (case r of
        Game route \<Rightarrow> (case resolve_wire_rpc (gr_rpc route) (parse_game_form (he_form env (gr_body route))) of
                         None \<Rightarrow> [] | Some wire_rpc \<Rightarrow> call_name (gr_category route) wire_rpc)
      | CreateSlot _ \<Rightarrow> ''memorial.createSlot''
      | DeleteSlot _ _ \<Rightarrow> ''memorial.deleteSlot''
      | SelectSlot _ \<Rightarrow> ''memorial.selectSlot''
      | SendLegacy _ _ _ \<Rightarrow> ''memorial.sendLegacyItem''
      | SendCurrency _ _ \<Rightarrow> ''memorial.sendCurrency''
      | SelectPass _ \<Rightarrow> ''memorial.selectPass''
      | _ \<Rightarrow> [])"

lemma sum_bind_name: "sum_bind m f = Inr c \<longleftrightarrow> (\<exists>x. m = Inr x \<and> f x = Inr c)"
  by (simp add: sum_bind_Inr)

lemma resolve_call_Inr:
  assumes "resolve_call env route form current = Inr (rpc, spec, handler, session)"
  shows "\<exists>wire_rpc. resolve_wire_rpc (gr_rpc route) form = Some wire_rpc \<and> rpc = call_name (gr_category route) wire_rpc"
    "current = Some session" "schema_call (ge_schema (he_game env)) rpc = Some spec"
    "rpc_category spec = gr_category route" "handler_for spec = Some handler"
  using assms by (auto simp: resolve_call_def split: option.splits if_splits)

lemma admit_call_Inr:
  assumes "admit_call env hs route current = Inr c"
  obtains handler where "current = Some (gc_session c)"
    "request_name env (Game route) = gc_rpc c" "handler_for (gc_spec c) = Some handler"
    "schema_call (ge_schema (he_game env)) (gc_rpc c) = Some (gc_spec c)"
    "rpc_category (gc_spec c) = gr_category route"
    "validate_request_identity (gc_request c) (ls_identity (gc_session c)) (identity_discovery (gc_rpc c)) = Inr ()"
    "request_clock hs (ls_clock (gc_session c)) (hs_mutating handler) = Inr (gc_clock c)"
    "gc_sequence c = request_sequence hs" "\<not> (hs_mutating handler \<and> gc_sequence c = None)"
proof -
  let ?form = "parse_game_form (he_form env (gr_body route))"
  from assms obtain rpc spec handler session where r: "resolve_call env route ?form current = Inr (rpc, spec, handler, session)"
    and rest: "(case read_call env spec ?form of
           Inl message \<Rightarrow> Inl (thrift_error_reply env spec (unix_seconds (ls_clock session)) 997 message)
         | Inr (raw, request) \<Rightarrow>
         (case validate_request_identity request (ls_identity session) (identity_discovery rpc) of
           Inl message \<Rightarrow> Inl (thrift_error_reply env spec (unix_seconds (ls_clock session)) 996 message)
         | Inr _ \<Rightarrow>
         (case request_clock hs (ls_clock session) (hs_mutating handler) of
           Inl message \<Rightarrow> Inl (thrift_error_reply env spec (unix_seconds (ls_clock session)) 995 message)
         | Inr clock \<Rightarrow>
           if hs_mutating handler \<and> request_sequence hs = None
           then Inl (thrift_error_reply env spec (unix_seconds clock) 994 ''missing request sequence'')
           else Inr \<lparr>gc_rpc = rpc, gc_spec = spec, gc_session = session, gc_locale = gr_locale route,
                     gc_request = request, gc_clock = clock, gc_sequence = request_sequence hs, gc_raw = raw\<rparr>))) = Inr c"
    unfolding admit_call_def Let_def sum_bind_name by (elim exE conjE, simp only: split_paired_all prod.case)
  obtain raw request where q: "read_call env spec ?form = Inr (raw, request)"
    using rest by (cases "read_call env spec ?form") auto
  have v: "validate_request_identity request (ls_identity session) (identity_discovery rpc) = Inr ()"
    using rest by (cases "validate_request_identity request (ls_identity session) (identity_discovery rpc)") (simp_all add: q)
  obtain clock where k: "request_clock hs (ls_clock session) (hs_mutating handler) = Inr clock"
    using rest by (cases "request_clock hs (ls_clock session) (hs_mutating handler)") (simp_all add: q v)
  have s: "\<not> (hs_mutating handler \<and> request_sequence hs = None)" using rest by (auto simp: q v k split: if_splits)
  have c: "c = \<lparr>gc_rpc = rpc, gc_spec = spec, gc_session = session, gc_locale = gr_locale route,
      gc_request = request, gc_clock = clock, gc_sequence = request_sequence hs, gc_raw = raw\<rparr>"
    using rest by (auto simp: q v k split: if_splits)
  show ?thesis
    using that [of handler] resolve_call_Inr [OF r] v k s by (auto simp: c request_name_def)
qed

text \<open>The endpoints that touch the slots of others.\<close>

definition slot_names :: "string list" where
  "slot_names = [''memorial.createSlot'', ''memorial.deleteSlot'']"

locale http_relation = action_relation R for R :: "db \<Rightarrow> db \<Rightarrow> bool" +
  fixes env :: http_env and hs :: headers and r :: request and current :: "login_session option"
  assumes game: "r = Game route \<Longrightarrow> admit_call env hs route current = Inr c \<Longrightarrow> R s (snd (execute (he_game env) c s))"
    and admin: "\<forall>route. r \<noteq> Game route \<Longrightarrow> admin_write_context current hs (request_name env r) = Inr (session, clock, m) \<Longrightarrow>
      admin_step (request_name env r \<in> set slot_names) m s t \<Longrightarrow> R s t"
begin

definition stays :: "endpoint \<Rightarrow> bool" where
  "stays f \<longleftrightarrow> (\<forall>v. se_session v = current \<longrightarrow> R (se_db v) (se_db (snd (f v))))"

lemma answered: "stays (answer status b)" "stays (Pair x)" "stays (\<lambda>v. (h v, v))" "stays (\<lambda>v. answer status (g v) v)"
  by (simp_all add: stays_def answer_def refl)

lemma guarded:
  "stays f \<Longrightarrow> stays (with_capability env hs f)"
  "(\<And>session. stays (g session)) \<Longrightarrow> stays (with_session g)"
  by (auto simp: stays_def with_capability_def with_session_def answer_def refl split: option.split)

lemma choices:
  "stays f \<Longrightarrow> stays g \<Longrightarrow> stays (if b then f else g)"
  "stays f \<Longrightarrow> (\<And>x. stays (h x)) \<Longrightarrow> stays (case w of None \<Rightarrow> f | Some x \<Rightarrow> h x)"
  by (auto split: option.split)

lemma written:
  assumes "rpc = request_name env r \<and> (\<forall>route. r \<noteq> Game route)"
    and "\<And>clock m s. admin_step (request_name env r \<in> set slot_names) m s (snd (op clock m s)) \<or> snd (op clock m s) = s"
  shows "stays (admin_write hs rpc op f)"
  unfolding stays_def
proof (intro allI impI)
  fix v :: server
  assume v: "se_session v = current"
  show "R (se_db v) (se_db (snd (admin_write hs rpc op f v)))"
  proof (cases "admin_write_context current hs (request_name env r)")
    case (Inr x)
    obtain session clock m where x: "x = (session, clock, m)" by (cases x)
    show ?thesis
      using admin [OF _ Inr [unfolded x]] assms(2) [of m "se_db v" clock] refl
      by (auto simp: admin_write_def v Inr x served_job_def assms(1) split: prod.split)
  qed (simp add: admin_write_def v answer_def refl assms(1))
qed

lemma committed:
  assumes "tx_rel (admin_step b m) op"
  shows "admin_step b m s (snd (tx_commit op s)) \<or> snd (tx_commit op s) = s"
  using assms by (auto simp: tx_commit_def tx_rel_def split: sum.split)

lemma game_call:
  assumes "r = Game route"
  shows "stays (legacy_rpc env hs route)"
  unfolding legacy_rpc_def
proof (rule guarded)
  show "stays (\<lambda>v. case admit_call env hs route (se_session v) of Inl r \<Rightarrow> (r, v) | Inr c \<Rightarrow> serve_call env c v)"
    unfolding stays_def
  proof (intro allI impI)
    fix v :: server
    assume v: "se_session v = current"
    show "R (se_db v) (se_db (snd (case admit_call env hs route (se_session v) of
        Inl r \<Rightarrow> (r, v) | Inr c \<Rightarrow> serve_call env c v)))"
    proof (cases "admit_call env hs route current")
      case (Inr c)
      then have "R (se_db v) (snd (execute (he_game env) c (se_db v)))"
        by (rule game [OF assms])
      then show ?thesis by (auto simp: v Inr serve_call_def split: prod.split sum.split)
    qed (simp add: v refl)
  qed
qed

lemma mailed: "rpc = request_name env r \<and> (\<forall>route. r \<noteq> Game route) \<Longrightarrow> stays (send_mail env hs rpc subject_key body_key rwd)"
  unfolding send_mail_def coded_def by (intro written committed admin_commits)

lemma reads: "stays (current_session env hs)" "stays (list_slots_endpoint env hs)" "stays (list_legacy_items env hs)"
  "stays (list_star_passes env hs)"
  unfolding current_session_def list_slots_endpoint_def list_legacy_items_def list_star_passes_def
  by (intro guarded answered; simp add: stays_def answer_def Let_def refl split: sum.split prod.split)+

lemma slot_committed: "request_name env r \<in> set slot_names \<Longrightarrow> tx_rel (admin_step True m) op \<Longrightarrow>
    admin_step (request_name env r \<in> set slot_names) m s (snd (tx_commit op s)) \<or> snd (tx_commit op s) = s"
  by (simp only: committed simp_thms)

lemma slot_writes:
  "r = CreateSlot display_name \<Longrightarrow> stays (create_slot_endpoint env hs display_name)"
  "r = DeleteSlot usn confirmation \<Longrightarrow> stays (delete_slot_endpoint env hs usn confirmation)"
  unfolding create_slot_endpoint_def delete_slot_endpoint_def Let_def create_slot_rpc_def coded_def
  by (intro guarded choices answered written slot_committed admin_commits; simp add: request_name_def slot_names_def)+

lemma writes:
  "r = SelectSlot usn \<Longrightarrow> stays (select_slot_endpoint env hs usn)"
  "r = SelectPass season \<Longrightarrow> stays (select_star_pass env hs season)"
  unfolding select_slot_endpoint_def select_star_pass_def coded_def
  by (intro guarded choices answered written committed admin_commits; simp add: request_name_def)+

lemma mails:
  "r = SendLegacy kind area i \<Longrightarrow> stays (send_legacy_item env hs kind area i)"
  "r = SendCurrency kind amount \<Longrightarrow> stays (send_currency_mail env hs kind amount)"
  unfolding send_legacy_item_def send_currency_mail_def
  by (intro guarded choices answered mailed; simp add: request_name_def)+

lemma serve_stays: "stays (serve env hs r)"
  by (cases r) (simp_all add: reads slot_writes writes mails answered game_call)

end

section \<open>Four readings\<close>

interpretation http_program: http_relation "program_step\<^sup>*\<^sup>*" env hs r current for env hs r current
proof
  show "program_step\<^sup>*\<^sup>* s (snd (execute (he_game env) c s))" for c s
    using program.execute_all [of "he_game env" c] by (simp add: act_rel_def)
  show "admin_step b m s t \<Longrightarrow> program_step\<^sup>*\<^sup>* s t" for b m s t
    by (rule admin_step_runs)
qed

text \<open>A request stays with the rows of its player and its session, unless it creates or deletes a slot.\<close>

lemma admin_context_Inr: "admin_write_context current hs rpc = Inr (session, clock, m) \<longleftrightarrow>
    current = Some session \<and> request_clock hs (ls_clock session) True = Inr clock
    \<and> (\<exists>q. request_sequence hs = Some q \<and> m = admin_mutation session clock rpc q)"
  by (auto simp: admin_write_context_def split: option.splits sum.splits)

interpretation http_framed: http_relation
  "\<lambda>s t. request_name env r \<in> set slot_names
     \<or> (case current of None \<Rightarrow> t = s | Some session \<Rightarrow> request_frame (id_usn (ls_identity session)) (ls_nonce session) s t)"
  env hs r current for env hs r current
proof
  fix route c s
  assume "admit_call env hs route current = Inr c"
  then have "current = Some (gc_session c)" by (rule admit_call_Inr)
  then show "request_name env r \<in> set slot_names \<or> (case current of None \<Rightarrow> snd (execute (he_game env) c s) = s
      | Some session \<Rightarrow> request_frame (id_usn (ls_identity session)) (ls_nonce session) s (snd (execute (he_game env) c s)))"
    using framed.execute_all [of c "he_game env"] by (simp add: act_rel_def)
next
  fix session clock m s t
  assume "admin_write_context current hs (request_name env r) = Inr (session, clock, m)"
    and step: "admin_step (request_name env r \<in> set slot_names) m s t"
  then have m: "current = Some session" "mu_usn m = id_usn (ls_identity session)" "mu_nonce m = ls_nonce session"
    by (auto simp: admin_context_Inr admin_mutation_def)
  have "request_name env r \<in> set slot_names \<or> request_step m s t"
    using step by (auto elim: admin_step.cases)
  then show "request_name env r \<in> set slot_names \<or> (case current of None \<Rightarrow> t = s
      | Some session \<Rightarrow> request_frame (id_usn (ls_identity session)) (ls_nonce session) s t)"
    using request_step_frame [of m s t] m by auto
next
  show "request_name env r \<in> set slot_names
     \<or> (case current of None \<Rightarrow> s = s | Some session \<Rightarrow> request_frame (id_usn (ls_identity session)) (ls_nonce session) s s)" for s
    by (simp add: request_frame_def player_rows_refl split: option.split)
qed (auto split: option.splits dest: request_frame_trans)

text \<open>Sent again in the same session, it finds its entry in the ledger.\<close>

definition http_key :: "http_env \<Rightarrow> headers \<Rightarrow> request \<Rightarrow> login_session option \<Rightarrow> string" where
  "http_key env hs r current =
     (case r of
        Game route \<Rightarrow> (case admit_call env hs route current of
            Inl _ \<Rightarrow> []
          | Inr c \<Rightarrow> request_key (he_game env) (ls_nonce (gc_session c)) (or_else 0 (gc_sequence c)) (gc_rpc c) (gc_raw c))
      | _ \<Rightarrow> admin_key (request_name env r) (or_else 0 (request_sequence hs)))"

definition http_entry :: "http_env \<Rightarrow> headers \<Rightarrow> request \<Rightarrow> login_session option \<Rightarrow> db \<Rightarrow> ledger_row option" where
  "http_entry env hs r current s =
     Option.bind current (\<lambda>session. ledger_entry s (id_usn (ls_identity session)) (http_key env hs r current))"

lemma game_entry:
  assumes "r = Game route" "admit_call env hs route current = Inr c"
  shows "http_entry env hs r current = call_entry (he_game env) c" "request_name env r = gc_rpc c"
proof -
  from assms(2) have "current = Some (gc_session c)" "request_name env (Game route) = gc_rpc c"
    by (blast elim: admit_call_Inr)+
  then show "http_entry env hs r current = call_entry (he_game env) c" "request_name env r = gc_rpc c"
    using assms by (simp_all add: fun_eq_iff http_entry_def call_entry_def http_key_def)
qed

lemma admin_entry:
  assumes "\<forall>route. r \<noteq> Game route" "admin_write_context current hs (request_name env r) = Inr (session, clock, m)"
  shows "http_entry env hs r current s = ledger_entry s (mu_usn m) (mu_idempotency_key m)"
  using assms by (auto simp: http_entry_def http_key_def admin_context_Inr admin_mutation_def or_else_def split: request.split)

interpretation http_remembered: http_relation
  "\<lambda>s t. request_name env r = ''getChThird'' \<or> t = s \<or> http_entry env hs r current t \<noteq> None" env hs r current
  for env hs r current
proof
  show "r = Game route \<Longrightarrow> admit_call env hs route current = Inr c \<Longrightarrow>
      request_name env r = ''getChThird'' \<or> snd (execute (he_game env) c s) = s
      \<or> http_entry env hs r current (snd (execute (he_game env) c s)) \<noteq> None" for route c s
    using remembered.execute_rel [of c "he_game env"] by (simp only: game_entry act_rel_def) blast
  show "\<forall>route. r \<noteq> Game route \<Longrightarrow> admin_write_context current hs (request_name env r) = Inr (session, clock, m) \<Longrightarrow>
      admin_step (request_name env r \<in> set slot_names) m s t \<Longrightarrow>
      request_name env r = ''getChThird'' \<or> t = s \<or> http_entry env hs r current t \<noteq> None" for session clock m s t
    using admin_step_entry [of "request_name env r \<in> set slot_names" m s t] by (auto simp: admin_entry)
qed auto

interpretation http_replayed: http_relation
  "\<lambda>s t. request_name env r = ''getChThird'' \<or> http_entry env hs r current s = None \<or> t = s" env hs r current
  for env hs r current
proof
  show "r = Game route \<Longrightarrow> admit_call env hs route current = Inr c \<Longrightarrow>
      request_name env r = ''getChThird'' \<or> http_entry env hs r current s = None
      \<or> snd (execute (he_game env) c s) = s" for route c s
    using replayed.execute_rel [of c "he_game env"] by (simp only: game_entry act_rel_def) blast
  show "\<forall>route. r \<noteq> Game route \<Longrightarrow> admin_write_context current hs (request_name env r) = Inr (session, clock, m) \<Longrightarrow>
      admin_step (request_name env r \<in> set slot_names) m s t \<Longrightarrow>
      request_name env r = ''getChThird'' \<or> http_entry env hs r current s = None \<or> t = s" for session clock m s t
    using admin_step_again [of "request_name env r \<in> set slot_names" m s t]
    by (cases "ledger_entry s (mu_usn m) (mu_idempotency_key m)") (simp_all add: admin_entry)
qed auto

lemmas endpoint_defs = current_session_def list_slots_endpoint_def list_legacy_items_def list_star_passes_def
  create_slot_endpoint_def select_slot_endpoint_def delete_slot_endpoint_def send_legacy_item_def
  send_currency_mail_def send_mail_def select_star_pass_def with_capability_def with_session_def
  admin_write_def served_job_def answer_def Let_def

lemma serve_call_session: "se_session (snd (serve_call env c v)) = se_session v"
  by (simp add: serve_call_def split: prod.split sum.split)

lemma serve_session: "se_session (snd (serve env hs r v)) = se_session v"
proof (cases r)
  case (Game route)
  then show ?thesis
    by (auto simp: legacy_rpc_def with_capability_def answer_def serve_call_session split: sum.split)
qed (simp_all add: endpoint_defs
    split: option.split sum.split prod.split)

text \<open>The flag of the start notice has no effect on the database.\<close>

lemma serve_db_cong:
  assumes "se_session u = se_session v" "se_db u = se_db v"
  shows "se_db (snd (serve env hs r u)) = se_db (snd (serve env hs r v))"
proof (cases r)
  case (Game route)
  have "se_db (snd (serve_call env c u)) = se_db (snd (serve_call env c v))" for c
    by (simp add: serve_call_def assms split: prod.split sum.split)
  with Game show ?thesis
    by (simp add: legacy_rpc_def with_capability_def answer_def assms split: sum.split)
qed (simp_all add: assms endpoint_defs
    split: option.split sum.split prod.split)

lemma serve_without_session: "se_session v = None \<Longrightarrow> snd (serve env hs r v) = v"
proof (cases r)
  case (Game route)
  assume v: "se_session v = None"
  obtain e where "admit_call env hs route None = Inl e"
    by (cases "admit_call env hs route None") (auto elim: admit_call_Inr)
  with Game v show ?thesis by (simp add: legacy_rpc_def with_capability_def answer_def)
qed (simp_all add: endpoint_defs
    admin_write_context_def split: option.split)

lemma serve_remembers:
  assumes "request_name env r \<noteq> ''getChThird''"
  shows "se_db (snd (serve env hs r v)) = se_db v \<or> http_entry env hs r (se_session v) (se_db (snd (serve env hs r v))) \<noteq> None"
  using assms http_remembered.serve_stays [of env r hs "se_session v"]
  unfolding http_remembered.stays_def by simp

lemma serve_replays:
  assumes "request_name env r \<noteq> ''getChThird''"
  shows "http_entry env hs r (se_session v) (se_db v) = None \<or> se_db (snd (serve env hs r v)) = se_db v"
  using assms http_replayed.serve_stays [of env r hs "se_session v"]
  unfolding http_replayed.stays_def by simp

section \<open>Properties\<close>

text \<open>Whatever the headers and the request, serving it is a run of the program: the database it leaves is
one the steps of the program reach.\<close>

lemma http_runs_program: "program_step\<^sup>*\<^sup>* (se_db v) (se_db (snd (serve env hs r v)))"
  using http_program.serve_stays [of "se_session v" env hs r]
  unfolding http_program.stays_def by simp

text \<open>C20: Without the capability a request is answered 401 and changes nothing, except on the three public routes
(health, notice, packaged asset), which are answered without it and change nothing either; before the first login no
request changes anything; and no request changes the session.\<close>

theorem http_guard:
  "(authorized (he_capability env) hs \<or> public_request r \<or> serve env hs r v = (Reply 401 NoBody, v))
   \<and> (\<not> public_request r \<or> snd (serve env hs r v) = v)
   \<and> (se_session v \<noteq> None \<or> snd (serve env hs r v) = v)
   \<and> se_session (snd (serve env hs r v)) = se_session v"
proof (intro conjI)
  show "authorized (he_capability env) hs \<or> public_request r \<or> serve env hs r v = (Reply 401 NoBody, v)"
    by (cases r) (simp_all add: public_request_def legacy_rpc_def endpoint_defs)
  show "\<not> public_request r \<or> snd (serve env hs r v) = v"
    by (cases r) (simp_all add: public_request_def answer_def)
  show "se_session v \<noteq> None \<or> snd (serve env hs r v) = v"
    using serve_without_session by (cases "se_session v") simp_all
qed (rule serve_session)

text \<open>C21: A request of a session touches the rows of its player, its session and its ledger only, and of the
selection no more than the slot of the next login: the active slot and the session number stay. The two endpoints that
create and delete slots are the exception.\<close>

theorem http_isolated:
  assumes "se_session v = Some session" and "request_name env r \<notin> set slot_names"
  shows "request_frame (id_usn (ls_identity session)) (ls_nonce session) (se_db v) (se_db (snd (serve env hs r v)))"
  using assms http_framed.serve_stays [of env r "se_session v" hs]
  unfolding http_framed.stays_def by simp

text \<open>C22: A request sent twice has the effect of one, game call or settings page, whatever happened the first
time; \<open>getChThird\<close> is the one exception.\<close>

theorem http_idempotent:
  assumes "request_name env r \<noteq> ''getChThird''"
  shows "se_db (snd (serve env hs r (snd (serve env hs r v)))) = se_db (snd (serve env hs r v))"
proof -
  let ?w = "snd (serve env hs r v)"
  have "se_db ?w = se_db v \<Longrightarrow> se_db (snd (serve env hs r ?w)) = se_db (snd (serve env hs r v))"
    by (rule serve_db_cong [OF serve_session])
  with serve_remembers [OF assms, of hs v] serve_replays [OF assms, of hs ?w] show ?thesis
    by (elim disjE) (simp_all add: serve_session)
qed

section \<open>A login, and a write of the settings page\<close>

lemma begin_login_success:
  assumes "server_login env clock v = (Inr session, w)"
  shows "se_session w = Some session" "mutation_ledger (se_db w) = mutation_ledger (se_db v)"
    "mu_nonce m = ls_nonce session \<Longrightarrow> mu_identity m = ls_identity session \<Longrightarrow>
       active_session (se_db w) m \<and> last_seq (se_db w) (ls_nonce session) = 0"
proof -
  from assms obtain l where b: "begin_login_tx (he_capability_hash env) clock (se_db v) = Inr (l, se_db w)"
    and l: "session = l\<lparr>ls_capability := he_capability env\<rparr>" "se_session w = Some session"
    by (auto simp: server_login_def begin_login_def tx_commit_def Let_def split: sum.splits prod.splits)
  from b obtain u sl where t: "tbl_get (save_slots (se_db v)) u = Some sl" "save_slots (se_db w) = save_slots (se_db v)"
    "mutation_ledger (se_db w) = mutation_ledger (se_db v)"
    "login_sessions (se_db w) = tbl_put (session_nonce (se_db v) + 1) (new_session u (he_capability_hash env) clock)
        (end_all (unix_seconds clock) (login_sessions (se_db v)))"
    "l = \<lparr>ls_identity = \<lparr>id_usn = u, id_user_id = slr_user_id sl\<rparr>, ls_nonce = session_nonce (se_db v) + 1,
          ls_capability = [], ls_clock = clock\<rparr>"
    by (rule begin_login_Inr)
  show "se_session w = Some session" "mutation_ledger (se_db w) = mutation_ledger (se_db v)" by (fact l(2), fact t(3))
  show "active_session (se_db w) m \<and> last_seq (se_db w) (ls_nonce session) = 0"
    if "mu_nonce m = ls_nonce session" "mu_identity m = ls_identity session"
    using that t by (simp add: l(1) active_session_def session_open_def slot_has_user_def last_seq_def new_session_def)
qed

lemma required_clock:
  "request_clock hs fallback True = Inr now \<Longrightarrow> header_i64 hs device_time_header = Some (unix_seconds now)
     \<and> header_i64 hs utc_offset_header = Some (utc_offset_minutes now)
     \<and> - 840 \<le> utc_offset_minutes now \<and> utc_offset_minutes now \<le> 840"
  by (auto simp: request_clock_def device_clock_new_def only_i32_def bind_eq_Some_conv
      split: option.splits if_splits sum.splits)

lemma season_selected:
  assumes active: "active_session s m" and seq: "last_seq s (mu_nonce m) < mu_request_seq m"
    and new: "ledger_entry s (mu_usn m) (mu_idempotency_key m) = None" "in_i64 (next_ledger_id s (mu_usn m))"
    and j: "enc () = Inr j" and season: "1 \<le> season" "season \<le> 13"
    and offset: "- 840 \<le> utc_offset_minutes now" "utc_offset_minutes now \<le> 840"
    and revision: "case tbl_get (state_revisions s) (mu_usn m, ''master-data'') of None \<Rightarrow> True
       | Some r \<Rightarrow> in_i64 (revr_revision r + 1)"
  shows "\<exists>t row. select_pass_season_rpc enc dec m now season s = Inr ((), t)
    \<and> tbl_get (pass_anchors t) (mu_usn m) = Some row \<and> anr_season row = season \<and> anr_local_day row = local_epoch_day now"
proof -
  have slot: "tbl_has (save_slots s) (mu_usn m)"
    using active by (auto simp: active_session_def slot_has_user_def tbl_has_def split: option.splits)
  have "\<exists>s' row. select_pass_season_in_transaction (mu_usn m) now season (advanced m s) = Inr ((), s')
      \<and> mutation_ledger s' = mutation_ledger s \<and> save_slots s' = save_slots s
      \<and> tbl_get (pass_anchors s') (mu_usn m) = Some row \<and> anr_season row = season \<and> anr_local_day row = local_epoch_day now"
    using season offset slot revision
    by (auto simp: select_pass_season_in_transaction_def Let_def advanced_def tx_simps split: option.split)
  then obtain s' row where w: "select_pass_season_in_transaction (mu_usn m) now season (advanced m s) = Inr ((), s')"
    "mutation_ledger s' = mutation_ledger s" "save_slots s' = save_slots s"
    "tbl_get (pass_anchors s') (mu_usn m) = Some row" "anr_season row = season" "anr_local_day row = local_epoch_day now"
    by blast
  have rec: "record_mutation m j s' = Inr ((), recorded m j s')"
    using new slot w(2,3) by (simp add: record_mutation_Inr ledger_entry_def next_ledger_id_def)
  have "select_pass_season_rpc enc dec m now season s = Inr ((), recorded m j s')"
    unfolding select_pass_season_rpc_def commit_Inr new(1) option.case using active seq w(1) j rec by blast
  with w(4-6) show ?thesis
    by (intro exI [of _ "recorded m j s'"] exI [of _ row]) (simp add: recorded_def)
qed

text \<open>C24: After a login the settings page works at once: a request with the capability, a clock and a positive
sequence that selects a season between 1 and 13 which the master data lists is answered 200, and the player's pass is
anchored at that season on that day, provided that the key of the request (its name and sequence) is not in the player's
ledger yet, that the next ledger id and the next revision of the master data fit an \<open>i64\<close>, and that the unit result
can be encoded.\<close>

theorem login_then_season:
  assumes login: "server_login env clock v = (Inr session, w)"
    and hs: "authorized (he_capability env) hs" "request_clock hs (ls_clock session) True = Inr now"
      "request_sequence hs = Some q"
    and season: "list_ex (\<lambda>row. mpse_season row = season) (mc_pass_seasons (ge_master (he_game env)))" "1 \<le> season" "season \<le> 13"
    and new: "ledger_entry (se_db v) (id_usn (ls_identity session)) (admin_key ''memorial.selectPass'' q) = None"
      "in_i64 (next_ledger_id (se_db v) (id_usn (ls_identity session)))"
    and j: "fst (cd_unit (ge_codecs (he_game env))) () = Inr j"
    and revision: "case tbl_get (state_revisions (se_db w)) (id_usn (ls_identity session), ''master-data'') of None \<Rightarrow> True
       | Some r \<Rightarrow> in_i64 (revr_revision r + 1)"
  shows "\<exists>x row. serve env hs (SelectPass season) w = (Reply 200 (SelectedSeason season (local_epoch_day now)), x)
    \<and> tbl_get (pass_anchors (se_db x)) (id_usn (ls_identity session)) = Some row
    \<and> anr_season row = season \<and> anr_local_day row = local_epoch_day now"
proof -
  let ?m = "admin_mutation session now ''memorial.selectPass'' q" and ?c = "cd_unit (ge_codecs (he_game env))"
  have m: "mu_nonce ?m = ls_nonce session" "mu_identity ?m = ls_identity session" "mu_request_seq ?m = q"
    "mu_usn ?m = id_usn (ls_identity session)" "mu_idempotency_key ?m = admin_key ''memorial.selectPass'' q"
    by (simp_all add: admin_mutation_def)
  have q: "0 < q" using hs(3) by (auto simp: request_sequence_def bind_eq_Some_conv split: if_splits)
  note facts = begin_login_success [OF login]
  have same: "ledger_entry (se_db w) = ledger_entry (se_db v)" "next_ledger_id (se_db w) = next_ledger_id (se_db v)"
    by (simp_all add: fun_eq_iff ledger_entry_def next_ledger_id_def facts(2))
  have "\<exists>t row. select_pass_season_rpc (fst ?c) (snd ?c) ?m now season (se_db w) = Inr ((), t)
      \<and> tbl_get (pass_anchors t) (mu_usn ?m) = Some row \<and> anr_season row = season \<and> anr_local_day row = local_epoch_day now"
  proof (rule season_selected)
    show "fst ?c () = Inr j" by (rule j)
  qed (use facts(3) [OF m(1,2)] q season(2,3) new revision required_clock [OF hs(2)] in \<open>simp_all add: m same\<close>)
  then obtain t row where t: "select_pass_season_rpc (fst ?c) (snd ?c) ?m now season (se_db w) = Inr ((), t)"
    "tbl_get (pass_anchors t) (mu_usn ?m) = Some row" "anr_season row = season" "anr_local_day row = local_epoch_day now" by blast
  have "serve env hs (SelectPass season) w = (Reply 200 (SelectedSeason season (local_epoch_day now)), w\<lparr>se_db := t\<rparr>)"
    using season(1) by (simp add: select_star_pass_def with_capability_def hs(1) admin_write_def admin_write_context_def
        facts(1) hs(2,3) served_job_def coded_def tx_commit_def t(1))
  with t(2-4) show ?thesis by (intro exI [of _ "w\<lparr>se_db := t\<rparr>"] exI [of _ row]) (simp add: m)
qed

text \<open>C25: A write of the settings page finds its key in the ledger whatever session wrote it: with the sequence
of a write an earlier session of the player made under the same name, nothing is performed.\<close>

theorem settings_write_swallowed:
  assumes "\<forall>route. r \<noteq> Game route" and "se_session v = Some session" and "request_sequence hs = Some q"
    and "ledger_entry (se_db v) (id_usn (ls_identity session)) (admin_key (request_name env r) q) \<noteq> None"
  shows "se_db (snd (serve env hs r v)) = se_db v"
proof -
  have "http_key env hs r (Some session) = admin_key (request_name env r) q"
    using assms(1,3) by (cases r) (simp_all add: http_key_def or_else_def)
  with assms(2,4) have "http_entry env hs r (se_session v) (se_db v) \<noteq> None" by (simp add: http_entry_def)
  moreover have "request_name env r \<noteq> ''getChThird''"
    using assms(1) by (cases r) (simp_all add: request_name_def)
  ultimately have A: "http_entry env hs r (se_session v) (se_db v) \<noteq> None" "request_name env r \<noteq> ''getChThird''" by simp_all
  have B: "http_entry env hs r (se_session v) (se_db v) = None \<or> se_db (snd (serve env hs r v)) = se_db v"
    using serve_replays [OF A(2)] by this
  show ?thesis
  proof (rule disjE [OF B])
    assume "http_entry env hs r (se_session v) (se_db v) = None"
    with A(1) show ?thesis ..
  qed
qed

section \<open>A concrete server\<close>

definition demo_season :: master_pass_season where
  "demo_season = \<lparr>mpse_season = 3, mpse_subscribe_id = 0, mpse_ticket_collection_id = 0, mpse_point_price = 0,
     mpse_paid_point = 0, mpse_ad_cooldown_seconds = 0, mpse_ad_point = 0\<rparr>"

definition demo_http :: http_env where
  "demo_http = \<lparr>he_game = demo_env\<lparr>ge_master := demo_master\<lparr>mc_pass_seasons := [demo_season]\<rparr>\<rparr>,
     he_capability = ''cap'', he_capability_hash = [8], he_asset_source = None, he_form = \<lambda>_. [],
     he_b64_decode = \<lambda>_. Inl [], he_b64_encode = \<lambda>_. [], he_bunzip = \<lambda>bs. (bs, None), he_bzip = Inr,
     he_sql_text = \<lambda>_. []\<rparr>"

definition demo_headers :: headers where
  "demo_headers = [(''x-ggfm-session'', ''cap''), (''x-ggfm-request-seq'', ''1''), (''x-ggfm-device-time'', ''10''),
     (''x-ggfm-utc-offset'', ''540'')]"

definition demo_session :: "int \<Rightarrow> login_session" where
  "demo_session nonce = \<lparr>ls_identity = \<lparr>id_usn = 1, id_user_id = ''1788360000001''\<rparr>, ls_nonce = nonce, ls_capability = ''cap'',
     ls_clock = \<lparr>unix_seconds = 100, utc_offset_minutes = 0\<rparr>\<rparr>"

definition demo_server :: "int \<Rightarrow> server" where
  "demo_server nonce = \<lparr>se_session = Some (demo_session nonce), se_notice_emitted = False, se_db = demo_db\<rparr>"

lemma demo_request:
  "request_sequence demo_headers = Some 1" "authorized (he_capability demo_http) demo_headers"
  "request_clock demo_headers fallback True = Inr \<lparr>unix_seconds = 10, utc_offset_minutes = 540\<rparr>"
proof -
  have texts: "header_i64 demo_headers ''x-ggfm-request-seq'' = Some 1" "header_i64 demo_headers ''x-ggfm-device-time'' = Some 10"
    "header_i64 demo_headers ''x-ggfm-utc-offset'' = Some 540" "header_text demo_headers ''x-ggfm-session'' = Some ''cap''"
    by code_simp+
  then show "request_sequence demo_headers = Some 1" "authorized (he_capability demo_http) demo_headers"
    "request_clock demo_headers fallback True = Inr \<lparr>unix_seconds = 10, utc_offset_minutes = 540\<rparr>"
    by (simp_all add: request_sequence_def request_seq_header_def authorized_def session_header_def demo_http_def
        constant_time_equal_iff request_clock_def device_time_header_def utc_offset_header_def only_i32_def in_i32_def
        device_clock_new_def)
qed

theorem http_guard_witness: "serve demo_http [] ListSlots (demo_server 1) = (Reply 401 NoBody, demo_server 1)"
  using http_guard [of demo_http "[]" ListSlots "demo_server 1"]
  by (simp add: authorized_def header_text_def public_request_def)

theorem http_isolated_witness:
  "request_frame 1 1 demo_db (se_db (snd (serve demo_http demo_headers (SelectPass 3) (demo_server 1))))"
  using http_isolated [of "demo_server 1" "demo_session 1" demo_http "SelectPass 3" demo_headers]
  by (simp add: demo_server_def demo_session_def request_name_def slot_names_def)

theorem http_idempotent_witness:
  "se_db (snd (serve demo_http demo_headers (SelectPass 3) (snd (serve demo_http demo_headers (SelectPass 3) (demo_server 1)))))
   = se_db (snd (serve demo_http demo_headers (SelectPass 3) (demo_server 1)))"
  by (rule http_idempotent) (simp add: request_name_def)

theorem login_then_season_witness:
  "\<exists>session w x row. server_login demo_http \<lparr>unix_seconds = 100, utc_offset_minutes = 0\<rparr>
       \<lparr>se_session = None, se_notice_emitted = False, se_db = demo_db\<rparr> = (Inr session, w)
     \<and> ls_nonce session = 2
     \<and> serve demo_http demo_headers (SelectPass 3) w = (Reply 200 (SelectedSeason 3 0), x)
     \<and> tbl_get (pass_anchors (se_db x)) 1 = Some row \<and> anr_season row = 3"
proof -
  let ?clock = "\<lparr>unix_seconds = 100, utc_offset_minutes = 0\<rparr>"
  let ?v = "\<lparr>se_session = None, se_notice_emitted = False, se_db = demo_db\<rparr>"
  have "\<exists>l t. begin_login_tx [8] ?clock demo_db = Inr (l, t) \<and> state_revisions t = []
      \<and> l\<lparr>ls_capability := ''cap''\<rparr> = demo_session 2"
    by (simp add: begin_login_tx_def select_session_Inr open_session_Inr anchor_pass_def Let_def demo_session_def
        tx_simps tbl_has_Cons tbl_has_Nil tbl_get_Cons next_active_def in_i64_def end_all_def tbl_set_def demo_db_def)
  then obtain l t where l: "begin_login_tx [8] ?clock demo_db = Inr (l, t)" "state_revisions t = []"
    "l\<lparr>ls_capability := ''cap''\<rparr> = demo_session 2" by blast
  have login: "server_login demo_http ?clock ?v
      = (Inr (demo_session 2), \<lparr>se_session = Some (demo_session 2), se_notice_emitted = False, se_db = t\<rparr>)"
    using l(1,3) by (simp add: server_login_def begin_login_def tx_commit_def demo_http_def Let_def)
  have codec: "fst (cd_unit (ge_codecs (he_game demo_http))) () = Inr ''{}''"
    by (simp add: demo_http_def demo_env_def demo_codec_def)
  have "\<exists>x row. serve demo_http demo_headers (SelectPass 3) \<lparr>se_session = Some (demo_session 2), se_notice_emitted = False, se_db = t\<rparr>
      = (Reply 200 (SelectedSeason 3 (local_epoch_day \<lparr>unix_seconds = 10, utc_offset_minutes = 540\<rparr>)), x)
    \<and> tbl_get (pass_anchors (se_db x)) (id_usn (ls_identity (demo_session 2))) = Some row
    \<and> anr_season row = 3 \<and> anr_local_day row = local_epoch_day \<lparr>unix_seconds = 10, utc_offset_minutes = 540\<rparr>"
    by (rule login_then_season [OF login demo_request(2,3,1) _ _ _ _ _ codec])
       (simp_all add: demo_simps in_i64_def l(2) tbl_get_Nil demo_http_def demo_season_def demo_env_def demo_session_def)
  moreover have "local_epoch_day \<lparr>unix_seconds = 10, utc_offset_minutes = 540\<rparr> = 0" by (simp add: local_epoch_day_def wrap_i64_def)
  ultimately show ?thesis using login by (auto simp: demo_session_def)
qed

definition demo_entry :: ledger_row where
  "demo_entry = ledger_row_of \<lparr>mu_nonce = 1, mu_identity = \<lparr>id_usn = 1, id_user_id = ''1788360000001''\<rparr>, mu_request_seq = 1,
     mu_rpc = ''memorial.selectPass'', mu_idempotency_key = ''admin:memorial.selectPass:1'', mu_committed_at = 10\<rparr> ''{}''"

theorem settings_write_swallowed_witness:
  "se_db (snd (serve demo_http demo_headers (SelectPass 3)
      ((demo_server 2)\<lparr>se_db := demo_db\<lparr>mutation_ledger := [((1, 1), demo_entry)]\<rparr>\<rparr>)))
   = demo_db\<lparr>mutation_ledger := [((1, 1), demo_entry)]\<rparr>"
proof -
  have key: "admin_key ''memorial.selectPass'' 1 = ''admin:memorial.selectPass:1''"
    by (simp add: admin_key_def show_int_def show_nat.simps digit_char_def) code_simp
  let ?v = "(demo_server 2)\<lparr>se_db := demo_db\<lparr>mutation_ledger := [((1, 1), demo_entry)]\<rparr>\<rparr>"
  have "se_db (snd (serve demo_http demo_headers (SelectPass 3) ?v)) = se_db ?v"
    by (rule settings_write_swallowed [of _ _ "demo_session 2" _ 1])
       (simp_all add: demo_server_def demo_session_def demo_request request_name_def key ledger_entry_def demo_entry_def ledger_row_of_def)
  then show ?thesis by simp
qed

section \<open>What an admitted call satisfies\<close>

text \<open>C23: A game call reaches its handler only when the session of the server is its session, the schema has it in
the category of the route, the identity in its payload is that of the session or the call is one of the two that
discover it, and, when its handler is declared mutating, it has a positive sequence and the clock of the device's
own headers.\<close>

theorem admitted_call_checked:
  assumes "admit_call env hs route current = Inr c"
  shows "current = Some (gc_session c)
    \<and> schema_call (ge_schema (he_game env)) (gc_rpc c) = Some (gc_spec c) \<and> rpc_category (gc_spec c) = gr_category route
    \<and> (identity_discovery (gc_rpc c)
       \<or> (case request_integer (gc_request c) ''U_seq'' of None \<Rightarrow> True | Some u \<Rightarrow> u = id_usn (ls_identity (gc_session c)))
         \<and> (case request_string (gc_request c) ''U_id'' of None \<Rightarrow> True
            | Some i \<Rightarrow> i = [] \<or> i = id_user_id (ls_identity (gc_session c))))
    \<and> (case handler_for (gc_spec c) of None \<Rightarrow> False
       | Some handler \<Rightarrow> \<not> hs_mutating handler
           \<or> header_i64 hs device_time_header = Some (unix_seconds (gc_clock c))
             \<and> header_i64 hs utc_offset_header = Some (utc_offset_minutes (gc_clock c))
             \<and> (\<exists>q. gc_sequence c = Some q \<and> 0 < q))"
proof -
  from assms obtain handler where a: "current = Some (gc_session c)" "request_name env (Game route) = gc_rpc c" "handler_for (gc_spec c) = Some handler"
    "schema_call (ge_schema (he_game env)) (gc_rpc c) = Some (gc_spec c)" "rpc_category (gc_spec c) = gr_category route"
    and v: "validate_request_identity (gc_request c) (ls_identity (gc_session c)) (identity_discovery (gc_rpc c)) = Inr ()"
    and k: "request_clock hs (ls_clock (gc_session c)) (hs_mutating handler) = Inr (gc_clock c)"
    and q: "gc_sequence c = request_sequence hs" "\<not> (hs_mutating handler \<and> gc_sequence c = None)"
    by (rule admit_call_Inr)
  have "identity_discovery (gc_rpc c)
       \<or> (case request_integer (gc_request c) ''U_seq'' of None \<Rightarrow> True | Some u \<Rightarrow> u = id_usn (ls_identity (gc_session c)))
         \<and> (case request_string (gc_request c) ''U_id'' of None \<Rightarrow> True
            | Some i \<Rightarrow> i = [] \<or> i = id_user_id (ls_identity (gc_session c)))"
    using v by (auto simp: validate_request_identity_def split: option.splits if_splits)
  moreover have "header_i64 hs device_time_header = Some (unix_seconds (gc_clock c))
      \<and> header_i64 hs utc_offset_header = Some (utc_offset_minutes (gc_clock c))
      \<and> (\<exists>q. gc_sequence c = Some q \<and> 0 < q)" if "hs_mutating handler"
    using that k q required_clock [of hs "ls_clock (gc_session c)" "gc_clock c"]
    by (auto simp: request_sequence_def bind_eq_Some_conv split: if_splits)
  ultimately show ?thesis using a by auto
qed

definition demo_raw :: bytes where
  "demo_raw = write_fields [Field 1 (VString (as_bytes ''userLoad'')), Field 2 (VStruct [Field 1 (VI32 1)])]"

definition demo_game_http :: http_env where
  "demo_game_http = demo_http\<lparr>he_form := \<lambda>_. [(''tapsonic_data'', ''Qlpo'')], he_b64_decode := \<lambda>_. Inr [66],
     he_bunzip := \<lambda>_. (demo_raw, None)\<rparr>"

definition demo_route :: game_route where
  "demo_route = \<lparr>gr_category = ''user'', gr_rpc = ''userLoad'', gr_locale = ''en'', gr_body = []\<rparr>"

lemma demo_read: "\<exists>r. read_call demo_game_http demo_rpc \<lparr>gf_call = None, gf_tapsonic_data = Some ''Qlpo''\<rparr> = Inr (demo_raw, r)
    \<and> request_integer r ''U_seq'' = Some 1 \<and> request_string r ''U_id'' = None"
proof -
  have bytes: "demo_raw \<noteq> []" "length demo_raw \<le> max_decompressed_bytes"
    by (simp_all add: demo_raw_def max_decompressed_bytes_def as_bytes_def be_bytes_def len_bytes_def)
  have "normalize_transport (u_chars ''Qlpo'') \<noteq> []" by code_simp
  then have raw: "decode_transport (he_b64_decode demo_game_http) (he_bunzip demo_game_http) (u_chars ''Qlpo'') = Inr demo_raw"
    using bytes by (simp add: decode_transport_def demo_game_http_def)
  have "\<exists>r. decode_request (write_fields [Field 1 (VString (as_bytes (rpc_name demo_rpc))), Field 2 (VStruct [Field 1 (VI32 1)])])
        demo_rpc demo_schema = Inr r \<and> nr_call r = rpc_name demo_rpc \<and> nr_raw_fields r = [Field 1 (VI32 1)]
     \<and> (\<forall>name. request_value r name =
          Option.bind (find_spec name (ts_fields demo_type)) (\<lambda>f. map_option field_value (find_field (fs_id f) [Field 1 (VI32 1)])))"
    by (rule request_read_by_name [OF _ demo_resolves, where wires = "[]"])
      (simp_all add: demo_rpc_def demo_type_def demo_wire_def as_bytes_def)
  then obtain r where r: "decode_request demo_raw demo_rpc demo_schema = Inr r"
    "\<forall>name. request_value r name =
        Option.bind (find_spec name (ts_fields demo_type)) (\<lambda>f. map_option field_value (find_field (fs_id f) [Field 1 (VI32 1)]))"
    by (auto simp: demo_raw_def demo_rpc_def)
  from r(2) have "request_value r ''U_seq'' = Some (VI32 1)" "request_value r ''U_id'' = None"
    by (simp_all add: demo_type_def find_spec_def)
  moreover have "ge_schema (he_game demo_game_http) = demo_schema" by (simp add: demo_game_http_def demo_http_def demo_env_def)
  ultimately show ?thesis
    using r(1) raw by (intro exI [of _ r]) (simp add: read_call_def request_integer_def request_string_def request_value_def)
qed

theorem admitted_call_checked_witness:
  "\<exists>c. admit_call demo_game_http demo_headers demo_route (Some (demo_session 1)) = Inr c
     \<and> gc_rpc c = ''userLoad'' \<and> gc_session c = demo_session 1 \<and> rpc_category (gc_spec c) = ''user''"
proof -
  have "handler_for demo_rpc = Some \<lparr>hs_domain = SaveDomain, hs_mutating = False\<rparr> \<or> (\<exists>d. handler_for demo_rpc = Some \<lparr>hs_domain = d, hs_mutating = False\<rparr>)"
    by (simp add: handler_for_def rpc_class_def demo_rpc_def active_handler_def handler_groups_def)
  then obtain d where h: "handler_for demo_rpc = Some \<lparr>hs_domain = d, hs_mutating = False\<rparr>" by blast
  have schema: "schema_call demo_schema ''userLoad'' = Some demo_rpc" by code_simp
  have form: "parse_game_form (he_form demo_game_http (gr_body demo_route)) = \<lparr>gf_call = None, gf_tapsonic_data = Some ''Qlpo''\<rparr>"
    by (simp add: parse_game_form_def demo_game_http_def)
  have same: "ge_schema (he_game demo_game_http) = demo_schema" by (simp add: demo_game_http_def demo_http_def demo_env_def)
  have names: "\<not> eq_ignore_case ''userLoad'' ''request''" "call_name ''user'' ''userLoad'' = ''userLoad''"
    "is_implemented demo_rpc" "rpc_category demo_rpc = ''user''"
    by (code_simp, simp add: call_name_def, simp add: is_implemented_def rpc_class_def demo_rpc_def implemented_names_def,
        simp add: demo_rpc_def)
  obtain r where r: "read_call demo_game_http demo_rpc \<lparr>gf_call = None, gf_tapsonic_data = Some ''Qlpo''\<rparr> = Inr (demo_raw, r)"
    "request_integer r ''U_seq'' = Some 1" "request_string r ''U_id'' = None"
    using demo_read by blast
  have valid: "validate_request_identity r (ls_identity (demo_session 1)) (identity_discovery ''userLoad'') = Inr ()"
    using r(2,3) by (simp add: validate_request_identity_def demo_session_def)
  have clock: "\<exists>k. request_clock demo_headers fallback False = Inr k" for fallback
    using demo_request(3) [of fallback] by (auto simp: request_clock_def split: option.splits sum.splits)
  obtain k where k: "request_clock demo_headers (ls_clock (demo_session 1)) False = Inr k" using clock by blast
  have "resolve_call demo_game_http demo_route \<lparr>gf_call = None, gf_tapsonic_data = Some ''Qlpo''\<rparr> (Some (demo_session 1))
      = Inr (''userLoad'', demo_rpc, \<lparr>hs_domain = d, hs_mutating = False\<rparr>, demo_session 1)"
    by (simp add: resolve_call_def resolve_wire_rpc_def demo_route_def names same schema h)
  then have "\<exists>c. admit_call demo_game_http demo_headers demo_route (Some (demo_session 1)) = Inr c \<and> gc_rpc c = ''userLoad''"
    by (simp add: admit_call_def form sum_bind_def r(1) valid k)
  then obtain c where c: "admit_call demo_game_http demo_headers demo_route (Some (demo_session 1)) = Inr c"
    "gc_rpc c = ''userLoad''" by blast
  with admitted_call_checked [OF c(1)] show ?thesis by (auto simp: demo_route_def)
qed

end
