(* ===== verification/Migration.thy ===== *)
theory Migration
  imports Slots
begin

text \<open>
  Opening a database: \<open>Database::configure\<close> of \<open>crates/persistence-sqlite/src/lib.rs\<close> and the
  statements of \<open>migrations/0001_initial.sql\<close>. \<open>execute_batch\<close> runs them one by one, each in a transaction of its own,
  and the version of the schema is set after the last: whatever stops the batch (an error of SQLite, a full disk,
  the death of the process) leaves the objects created so far in a database of version 0. What stops which statement is
  a parameter.
\<close>

section \<open>A database file\<close>

text \<open>
  What SQLite finds in the file: the answer of \<open>quick_check\<close>, whether \<open>foreign_key_check\<close> lists nothing, the version,
  the entries of \<open>sqlite_schema\<close> (type, name, text) in the order they were created, and the rows. Of a table that
  is not among the entries there are no rows to read.
\<close>

record save_file =
  sf_bytes :: int
  sf_integrity :: string
  sf_foreign_keys_ok :: bool
  sf_version :: int
  sf_schema :: "(string \<times> string \<times> string option) list"
  sf_data :: db

section \<open>The migration\<close>

datatype migration_statement = SetForeignKeys | CreateObject string string | InsertRow string

definition migration_statements :: "migration_statement list" where
  "migration_statements =
    [SetForeignKeys, CreateObject ''table'' ''schema_migrations'', InsertRow ''schema_migrations'',
     CreateObject ''table'' ''save_slots'', CreateObject ''trigger'' ''immutable_slot_usn'',
     CreateObject ''trigger'' ''immutable_slot_uid'', CreateObject ''table'' ''device_bindings'',
     CreateObject ''table'' ''runtime_selection'', InsertRow ''runtime_selection'', CreateObject ''table'' ''login_sessions'',
     CreateObject ''table'' ''user_core'', CreateObject ''table'' ''area_state'', CreateObject ''table'' ''currencies'',
     CreateObject ''table'' ''owned_content'', CreateObject ''table'' ''equipped_content'',
     CreateObject ''table'' ''content_levels'', CreateObject ''table'' ''music_state'',
     CreateObject ''table'' ''skill_activation'', CreateObject ''table'' ''buff_timers'', CreateObject ''table'' ''ad_levels'',
     CreateObject ''table'' ''ad_state'', CreateObject ''table'' ''tutorial_completed'',
     CreateObject ''table'' ''one_time_flags'', CreateObject ''table'' ''achievement_progress'',
     CreateObject ''table'' ''achievement_claims'', CreateObject ''table'' ''daily_missions'',
     CreateObject ''table'' ''daily_mission_claims'', CreateObject ''table'' ''attendance_days'',
     CreateObject ''table'' ''attendance_state'', CreateObject ''table'' ''event_points'',
     CreateObject ''table'' ''selected_rewards'', CreateObject ''table'' ''followers'',
     CreateObject ''table'' ''follower_quests'', CreateObject ''table'' ''quest_conditions'', CreateObject ''table'' ''gifts'',
     CreateObject ''table'' ''affection'', CreateObject ''table'' ''affection_claims'',
     CreateObject ''table'' ''messenger_rooms'', CreateObject ''table'' ''messenger_progress'',
     CreateObject ''table'' ''gallery_unlocks'', CreateObject ''table'' ''music_reviews'',
     CreateObject ''table'' ''music_bookmarks'', CreateObject ''table'' ''music_scores'',
     CreateObject ''table'' ''user_collections'', CreateObject ''table'' ''pass_anchors'',
     CreateObject ''table'' ''pass_progress'', CreateObject ''table'' ''pass_claims'',
     CreateObject ''table'' ''pass_entitlements'', CreateObject ''table'' ''mail'', CreateObject ''table'' ''mail_rewards'',
     CreateObject ''table'' ''mail_state'', CreateObject ''table'' ''ticket_collection'', CreateObject ''table'' ''ch3_energy'',
     CreateObject ''table'' ''ch3_stages'', CreateObject ''table'' ''ch3_drops'', CreateObject ''table'' ''ch3_chapter_claims'',
     CreateObject ''table'' ''purchase_transactions'', CreateObject ''table'' ''reward_transactions'',
     CreateObject ''table'' ''state_revisions'', CreateObject ''table'' ''mutation_ledger'',
     CreateObject ''index'' ''idx_mail_visible'', CreateObject ''index'' ''idx_mutation_seq'']"

text \<open>Tables and indexes share their names, triggers have names of their own; letters count without their case.\<close>

definition object_exists :: "string \<Rightarrow> string \<Rightarrow> (string \<times> string \<times> string option) list \<Rightarrow> bool" where
  "object_exists kind name schema \<longleftrightarrow>
     list_ex (\<lambda>(k, n, _). (k = ''trigger'') = (kind = ''trigger'') \<and> eq_ignore_case n name) schema"

text \<open>The tables have no \<open>IF NOT EXISTS\<close>. The rows that are inserted are in tables just created.\<close>

fun run_statement :: "(string \<Rightarrow> string) \<Rightarrow> migration_statement \<Rightarrow> save_file \<Rightarrow> store_error + save_file" where
  "run_statement object_text SetForeignKeys f = Inr f"
| "run_statement object_text (CreateObject kind name) f =
     (if object_exists kind name (sf_schema f) then Inl (Sql ObjectExists)
      else Inr (f\<lparr>sf_schema := sf_schema f @ [(kind, name, Some (object_text name))]\<rparr>))"
| "run_statement object_text (InsertRow table) f = Inr f"

text \<open>The batch from its statement number \<open>k\<close> on; each statement is committed before the next.\<close>

fun run_migration ::
  "(nat \<Rightarrow> string option) \<Rightarrow> (string \<Rightarrow> string) \<Rightarrow> nat \<Rightarrow> migration_statement list \<Rightarrow> save_file
   \<Rightarrow> (store_error + unit) \<times> save_file" where
  "run_migration fault object_text k [] f = (Inr (), f)"
| "run_migration fault object_text k (statement # rest) f =
     (case fault k of
        Some e \<Rightarrow> (Inl (store_error.Io e), f)
      | None \<Rightarrow>
        (case run_statement object_text statement f of
           Inl e \<Rightarrow> (Inl e, f)
         | Inr g \<Rightarrow> run_migration fault object_text (Suc k) rest g))"

text \<open>The version is set by the step after the last statement. A completed batch has created every table, so they
hold what \<open>MIGRATION_1\<close> leaves in them.\<close>

definition configure ::
  "(nat \<Rightarrow> string option) \<Rightarrow> (string \<Rightarrow> string) \<Rightarrow> save_file \<Rightarrow> (store_error + db) \<times> save_file" where
  "configure fault object_text f =
     (if sf_integrity f \<noteq> ''ok'' then (Inl (Integrity (sf_integrity f)), f)
      else if sf_version f = 0 then
        (case run_migration fault object_text 0 migration_statements f of
           (Inl e, g) \<Rightarrow> (Inl e, g)
         | (Inr _, g) \<Rightarrow>
           (case fault (length migration_statements) of
              Some e \<Rightarrow> (Inl (store_error.Io e), g)
            | None \<Rightarrow> (Inr migration_1, g\<lparr>sf_version := database_schema_version, sf_data := migration_1\<rparr>)))
      else if sf_version f \<noteq> database_schema_version
           then (Inl (UnsupportedSchema (sf_version f) database_schema_version), f)
      else (Inr (sf_data f), f))"

section \<open>What a batch leaves\<close>

fun created_objects :: "migration_statement list \<Rightarrow> (string \<times> string) list" where
  "created_objects [] = []"
| "created_objects (CreateObject kind name # rest) = (kind, name) # created_objects rest"
| "created_objects (_ # rest) = created_objects rest"

definition schema_entries :: "(string \<Rightarrow> string) \<Rightarrow> (string \<times> string) list \<Rightarrow> (string \<times> string \<times> string option) list" where
  "schema_entries object_text = map (\<lambda>(kind, name). (kind, name, Some (object_text name)))"

definition migrated_schema :: "(string \<Rightarrow> string) \<Rightarrow> (string \<times> string \<times> string option) list" where
  "migrated_schema object_text = schema_entries object_text (created_objects migration_statements)"

lemma run_created:
  assumes "distinct (map (to_lower \<circ> snd) (before @ created_objects sts))" "sf_schema f = schema_entries object_text before"
  shows "\<exists>i\<le>length sts. snd (run_migration fault object_text k sts f)
        = f\<lparr>sf_schema := schema_entries object_text (before @ created_objects (take i sts))\<rparr>
    \<and> (\<forall>j<i. fault (k + j) = None)
    \<and> (if i = length sts then fst (run_migration fault object_text k sts f) = Inr ()
       else \<exists>e. fault (k + i) = Some e \<and> fst (run_migration fault object_text k sts f) = Inl (store_error.Io e))"
  using assms
proof (induction sts arbitrary: k f before)
  case Nil
  then show ?case by simp
next
  case (Cons st sts)
  show ?case
  proof (cases "fault k")
    case (Some e)
    then show ?thesis using Cons.prems(2) by (intro exI [of _ 0]) simp
  next
    case None
    let ?new = "created_objects [st]"
    let ?g = "f\<lparr>sf_schema := schema_entries object_text (before @ ?new)\<rparr>"
    have split: "created_objects (st # xs) = ?new @ created_objects xs" for xs by (cases st) simp_all
    have run: "run_statement object_text st f = Inr ?g"
    proof (cases st)
      case (CreateObject kind name)
      have "\<forall>x\<in>set before. to_lower (snd x) \<noteq> to_lower name" using Cons.prems(1) CreateObject by force
      then have "\<not> object_exists kind name (sf_schema f)"
        by (auto simp: object_exists_def list_ex_iff Cons.prems(2) schema_entries_def eq_ignore_case_def)
      with CreateObject Cons.prems(2) show ?thesis by (simp add: schema_entries_def)
    qed (use Cons.prems(2) in simp_all)
    have "distinct (map (to_lower \<circ> snd) ((before @ ?new) @ created_objects sts))"
      using Cons.prems(1) unfolding split [of sts] append_assoc .
    from Cons.IH [OF this, of ?g "Suc k"] obtain i where i: "i \<le> length sts"
      "snd (run_migration fault object_text (Suc k) sts ?g)
        = ?g\<lparr>sf_schema := schema_entries object_text ((before @ ?new) @ created_objects (take i sts))\<rparr>"
      "\<forall>j<i. fault (Suc k + j) = None"
      "if i = length sts then fst (run_migration fault object_text (Suc k) sts ?g) = Inr ()
       else \<exists>e. fault (Suc k + i) = Some e \<and> fst (run_migration fault object_text (Suc k) sts ?g) = Inl (store_error.Io e)"
      by auto
    have step: "run_migration fault object_text k (st # sts) f = run_migration fault object_text (Suc k) sts ?g"
      by (simp add: None run)
    show ?thesis
    proof (intro exI [of _ "Suc i"] conjI)
      show "Suc i \<le> length (st # sts)" using i(1) by simp
      show "snd (run_migration fault object_text k (st # sts) f)
          = f\<lparr>sf_schema := schema_entries object_text (before @ created_objects (take (Suc i) (st # sts)))\<rparr>"
        unfolding step i(2) by (simp add: split [of "take i sts"])
      show "\<forall>j<Suc i. fault (k + j) = None" using i(3) None by (auto simp: less_Suc_eq_0_disj)
      show "if Suc i = length (st # sts) then fst (run_migration fault object_text k (st # sts) f) = Inr ()
          else \<exists>e. fault (k + Suc i) = Some e \<and> fst (run_migration fault object_text k (st # sts) f) = Inl (store_error.Io e)"
        unfolding step using i(4) by (cases "i = length sts") simp_all
    qed
  qed
qed

lemma migration_names: "distinct (map (to_lower \<circ> snd) (created_objects migration_statements))"
  by code_simp

lemma migration_start:
  obtains rest where "migration_statements = SetForeignKeys # CreateObject ''table'' ''schema_migrations'' # rest"
  by (simp add: migration_statements_def)

lemma run_migration_kept:
  "sf_integrity (snd (run_migration fault object_text k sts f)) = sf_integrity f
   \<and> sf_version (snd (run_migration fault object_text k sts f)) = sf_version f"
proof (induction sts arbitrary: k f)
  case (Cons st sts)
  have "run_statement object_text st f = Inr g \<Longrightarrow> sf_integrity g = sf_integrity f \<and> sf_version g = sf_version f" for g
    by (cases st) (auto split: if_splits)
  with Cons show ?case by (auto split: option.split sum.split)
qed simp

lemma migration_run:
  assumes "sf_schema f = []"
  shows "\<exists>i\<le>length migration_statements. snd (run_migration fault object_text 0 migration_statements f)
        = f\<lparr>sf_schema := schema_entries object_text (created_objects (take i migration_statements))\<rparr>
    \<and> (\<forall>j<i. fault j = None)
    \<and> (if i = length migration_statements then fst (run_migration fault object_text 0 migration_statements f) = Inr ()
       else \<exists>e. fault i = Some e \<and> fst (run_migration fault object_text 0 migration_statements f) = Inl (store_error.Io e))"
proof -
  have "distinct (map (to_lower \<circ> snd) ([] @ created_objects migration_statements))"
    by (simp only: append_Nil migration_names)
  moreover have "sf_schema f = schema_entries object_text []" using assms by (simp add: schema_entries_def)
  ultimately show ?thesis
    using run_created [of "[]" migration_statements f object_text fault 0] unfolding append_Nil add_0 by blast
qed

text \<open>Once the first table is there, a batch fails at the statement that creates it and changes nothing.\<close>

lemma migration_again:
  assumes "object_exists ''table'' ''schema_migrations'' (sf_schema f)"
  shows "\<exists>e. run_migration fault object_text 0 migration_statements f = (Inl e, f)"
proof -
  obtain rest where m: "migration_statements = SetForeignKeys # CreateObject ''table'' ''schema_migrations'' # rest"
    by (rule migration_start)
  show ?thesis
    unfolding m using assms by (cases "fault 0"; cases "fault (Suc 0)") simp_all
qed

text \<open>What a batch that was stopped leaves: a database of version 0 with the first of the objects.\<close>

definition migration_remains :: "save_file \<Rightarrow> bool" where
  "migration_remains f \<longleftrightarrow> sf_version f = 0
     \<and> (\<exists>i\<le>length migration_statements. map (\<lambda>(kind, name, _). (kind, name)) (sf_schema f) = created_objects (take i migration_statements))"

lemma entries_objects: "map (\<lambda>(kind, name, _). (kind, name)) (schema_entries object_text xs) = xs"
  by (induction xs) (auto simp: schema_entries_def)

lemma object_entries: "object_exists kind name schema \<longleftrightarrow>
    list_ex (\<lambda>(k, n). (k = ''trigger'') = (kind = ''trigger'') \<and> eq_ignore_case n name) (map (\<lambda>(k, n, _). (k, n)) schema)"
  by (induction schema) (auto simp: object_exists_def)

lemma objects_started:
  "created_objects (take i migration_statements) = [] \<or> object_exists ''table'' ''schema_migrations'' schema"
  if "map (\<lambda>(kind, name, _). (kind, name)) schema = created_objects (take i migration_statements)"
proof -
  obtain rest where m: "migration_statements = SetForeignKeys # CreateObject ''table'' ''schema_migrations'' # rest"
    by (rule migration_start)
  show ?thesis
  proof (cases "i < 2")
    case True
    then have "i = 0 \<or> i = 1" by auto
    then show ?thesis by (auto simp: m)
  next
    case False
    then have "i = Suc (Suc (i - 2))" by simp
    then have "take i migration_statements = SetForeignKeys # CreateObject ''table'' ''schema_migrations'' # take (i - 2) rest"
      by (metis m take_Suc_Cons)
    with that show ?thesis unfolding object_entries by (simp add: eq_ignore_case_def)
  qed
qed

text \<open>A database that was opened is of the current version; one that was not is as it was or has the remains of a batch.\<close>

lemma configure_opened:
  assumes "configure fault object_text f = (Inr s, g)"
  shows "sf_integrity g = ''ok'' \<and> sf_version g = database_schema_version \<and> sf_data g = s
    \<and> (if sf_version f = 0 then s = migration_1 else g = f)"
  using assms run_migration_kept [of fault object_text 0 migration_statements f]
  by (auto simp: configure_def database_schema_version_def split: if_splits sum.splits prod.splits option.splits)

lemma configure_remains:
  assumes "migration_remains f" "configure fault object_text f = (r, g)" "sf_integrity f = ''ok''"
  shows "sf_integrity g = ''ok'' \<and> (migration_remains g \<or> r = Inr migration_1
    \<and> sf_version g = database_schema_version \<and> sf_data g = migration_1
    \<and> map (\<lambda>(kind, name, _). (kind, name)) (sf_schema g) = created_objects migration_statements)"
proof -
  from assms(1) obtain i where v: "sf_version f = 0"
    and i: "map (\<lambda>(kind, name, _). (kind, name)) (sf_schema f) = created_objects (take i migration_statements)"
    by (auto simp: migration_remains_def)
  obtain r1 g1 where b: "run_migration fault object_text 0 migration_statements f = (r1, g1)" by fastforce
  have g1: "migration_remains g1 \<and> sf_integrity g1 = ''ok''
      \<and> (r1 = Inr () \<longrightarrow> map (\<lambda>(kind, name, _). (kind, name)) (sf_schema g1) = created_objects migration_statements)"
  proof (cases "sf_schema f = []")
    case True
    from migration_run [OF True, of fault object_text] b v assms(3) show ?thesis
      by (auto simp: migration_remains_def entries_objects split: if_splits)
  next
    case False
    with i objects_started [OF i] have "object_exists ''table'' ''schema_migrations'' (sf_schema f)" by auto
    from migration_again [OF this, of fault object_text] b assms show ?thesis by auto
  qed
  with assms(2,3) v b show ?thesis
    by (auto simp: configure_def split: sum.splits option.splits)
qed

lemma configure_kept:
  "configure fault object_text f = (Inl e, g) \<Longrightarrow> sf_version f \<noteq> 0 \<Longrightarrow> g = f"
  by (auto simp: configure_def split: if_splits)

lemma configure_current:
  "sf_integrity f = ''ok'' \<Longrightarrow> sf_version f = database_schema_version \<Longrightarrow> configure fault object_text f = (Inr (sf_data f), f)"
  by (simp add: configure_def database_schema_version_def)

lemma configure_new:
  assumes "sf_integrity f = ''ok''" "sf_version f = 0" "sf_schema f = []" "\<forall>k\<le>length migration_statements. fault k = None"
  shows "configure fault object_text f = (Inr migration_1, f\<lparr>sf_schema := migrated_schema object_text,
    sf_version := database_schema_version, sf_data := migration_1\<rparr>)"
proof -
  obtain r g where b: "run_migration fault object_text 0 migration_statements f = (r, g)" by fastforce
  from migration_run [OF assms(3), of fault object_text] assms(4) b
  have "r = Inr () \<and> g = f\<lparr>sf_schema := migrated_schema object_text\<rparr>"
    by (auto simp: migrated_schema_def split: if_splits)
  with assms b show ?thesis by (simp add: configure_def)
qed

end
