(* ===== verification/Files.thy ===== *)
theory Files
  imports Http Migration
begin

text \<open>
  The save on disk: the recovery of a damaged database from its backups and the publication of a new
  backup (\<open>crates/transport-http/src/lib.rs\<close>).

  A disk maps a path to a file. Every operation on it may fail for reasons of its own: the parameter
  \<open>faults\<close> decides which ones do, with which
  error and, for a copy or the creation of a file, whether part of it was done; the statements hold for all of them. A
  crash is the case in which every operation from some point on fails.

  A database is its file and the two side files of SQLite's write-ahead log beside it: what was committed is the
  content of the file, wherever its pages are.
\<close>

section \<open>The disk\<close>

text \<open>What SQLite finds in a file: nothing yet, a database, or the error of the first statement on it.\<close>

datatype disk_file = Empty | Garbage int store_error | Saved save_file

type_synonym disk = "string \<Rightarrow> disk_file option"

datatype fs_op = OpenDatabase string | RunStatement string nat | RemoveFile string | RenameFile string string | CopyFile string string
  | Checkpoint string | VacuumInto string | CreateFile string | CopyPages string string | FinishFile string

type_synonym faults = "fs_op \<Rightarrow> disk \<Rightarrow> (string \<times> bool) option"

definition path_exists :: "disk \<Rightarrow> string \<Rightarrow> bool" where
  "path_exists d p \<longleftrightarrow> d p \<noteq> None"

definition fs_rename :: "faults \<Rightarrow> string \<Rightarrow> string \<Rightarrow> disk \<Rightarrow> (string + unit) \<times> disk" where
  "fs_rename faults p q d =
     (case (faults (RenameFile p q) d, d p) of
        (Some (e, _), _) \<Rightarrow> (Inl e, d)
      | (None, None) \<Rightarrow> (Inl ''not found'', d)
      | (None, Some f) \<Rightarrow> (Inr (), (d(p := None))(q := Some f)))"

definition fs_remove :: "faults \<Rightarrow> string \<Rightarrow> disk \<Rightarrow> (string + unit) \<times> disk" where
  "fs_remove faults p d =
     (case (faults (RemoveFile p) d, d p) of
        (Some (e, _), _) \<Rightarrow> (Inl e, d)
      | (None, None) \<Rightarrow> (Inl ''not found'', d)
      | (None, Some _) \<Rightarrow> (Inr (), d(p := None)))"

text \<open>A copy that fails may leave part of the file, which is not a database.\<close>

definition fs_copy :: "faults \<Rightarrow> string \<Rightarrow> string \<Rightarrow> disk \<Rightarrow> (string + unit) \<times> disk" where
  "fs_copy faults p q d =
     (case (faults (CopyFile p q) d, d p) of
        (Some (e, partial), _) \<Rightarrow> (Inl e, if partial then d(q := Some (Garbage 1 (Sql InvalidColumnType))) else d)
      | (None, None) \<Rightarrow> (Inl ''not found'', d)
      | (None, Some f) \<Rightarrow> (Inr (), d(q := Some f)))"

section \<open>Names\<close>

text \<open>\<open>Path::with_extension\<close>: the extension of the last component is replaced.\<close>

definition file_name :: "string \<Rightarrow> string" where
  "file_name p = rev (takeWhile (\<lambda>c. c \<noteq> CHR ''/'') (rev p))"

definition file_stem :: "string \<Rightarrow> string" where
  "file_stem name =
     (case rsplit_dot name of None \<Rightarrow> name | Some (before, _) \<Rightarrow> if before = [] \<or> name = ''..'' then name else before)"

definition with_extension :: "string \<Rightarrow> string \<Rightarrow> string" where
  "with_extension p ext = take (length p - length (file_name p)) p @ file_stem (file_name p) @ ''.'' @ ext"

definition sidecar_path :: "string \<Rightarrow> string \<Rightarrow> string" where
  "sidecar_path database suffix = database @ suffix"

definition backup_path :: "string \<Rightarrow> string" where
  "backup_path database = with_extension database ''sqlite3.backup''"

definition previous_path :: "string \<Rightarrow> string" where
  "previous_path backup = with_extension backup ''backup.previous''"

definition archive_path :: "int \<Rightarrow> string \<Rightarrow> string" where
  "archive_path now original = original @ ''.corrupt.'' @ show_int now"

definition temporary_path :: "string \<Rightarrow> int \<Rightarrow> int \<Rightarrow> string" where
  "temporary_path database process_id now =
     with_extension database (''sqlite3.backup.'' @ show_int process_id @ ''.'' @ show_int now @ ''.new'')"

section \<open>Publishing a backup\<close>

definition publish_backup :: "faults \<Rightarrow> string \<Rightarrow> string \<Rightarrow> disk \<Rightarrow> (string + unit) \<times> disk" where
  "publish_backup faults temporary destination d =
     (let previous = previous_path destination
      in case (if path_exists d previous then fs_remove faults previous d else (Inr (), d)) of
           (Inl e, d1) \<Rightarrow> (Inl e, d1)
         | (Inr _, d1) \<Rightarrow>
           (let had_current = path_exists d1 destination
            in case (if had_current then fs_rename faults destination previous d1 else (Inr (), d1)) of
                 (Inl e, d2) \<Rightarrow> (Inl e, d2)
               | (Inr _, d2) \<Rightarrow>
                 (case fs_rename faults temporary destination d2 of
                    (Inr _, d3) \<Rightarrow> (Inr (), d3)
                  | (Inl e, d3) \<Rightarrow>
                      (Inl e, if had_current then snd (fs_rename faults previous destination d3) else d3))))"

section \<open>Opening with recovery\<close>

text \<open>
  \<open>DatabaseActor::open\<close>: the file is created when it is missing, and a database of version 0 is migrated, statement
  by statement. A failing open may leave what it has created and migrated; when the connection is closed SQLite may
  move the pages of the log into the file and remove the side files. The actor
  reports the text of the error that its thread met. The size of a file that SQLite wrote, the text it keeps of an object and
  whether closing removes the side files are parameters.
\<close>

record disk_env =
  de_faults :: faults
  de_sql_text :: "sql_error \<Rightarrow> string"
  de_text :: "string \<Rightarrow> string"
  de_size :: "db \<Rightarrow> int"
  de_closes :: "string \<Rightarrow> disk \<Rightarrow> bool"

definition new_save :: "disk_env \<Rightarrow> db \<Rightarrow> save_file" where
  "new_save env s = \<lparr>sf_bytes = de_size env s, sf_integrity = ''ok'', sf_foreign_keys_ok = True,
     sf_version = database_schema_version, sf_schema = migrated_schema (de_text env), sf_data = s\<rparr>"

definition blank_save :: "disk_env \<Rightarrow> save_file" where
  "blank_save env = \<lparr>sf_bytes = de_size env migration_1, sf_integrity = ''ok'', sf_foreign_keys_ok = True,
     sf_version = 0, sf_schema = [], sf_data = migration_1\<rparr>"

definition statement_fault :: "disk_env \<Rightarrow> string \<Rightarrow> disk \<Rightarrow> nat \<Rightarrow> string option" where
  "statement_fault env p d k = map_option fst (de_faults env (RunStatement p k) d)"

definition close_failed :: "disk_env \<Rightarrow> string \<Rightarrow> disk \<Rightarrow> disk" where
  "close_failed env p d =
     (if de_closes env p d then d(sidecar_path p ''-wal'' := None, sidecar_path p ''-shm'' := None) else d)"

definition open_actor :: "disk_env \<Rightarrow> string \<Rightarrow> disk \<Rightarrow> (string + db) \<times> disk" where
  "open_actor env p d =
     (let fail = (\<lambda>e. Inl (store_text (de_sql_text env) (ActorUnavailable (store_text (de_sql_text env) e))))
      in case de_faults env (OpenDatabase p) d of
           Some (e, created) \<Rightarrow>
             (fail (store_error.Io e), close_failed env p (if created \<and> d p = None then d(p := Some Empty) else d))
         | None \<Rightarrow>
           (case d p of
              Some (Garbage _ e) \<Rightarrow> (fail e, close_failed env p d)
            | file \<Rightarrow>
              (case configure (statement_fault env p d) (de_text env)
                      (case file of Some (Saved f) \<Rightarrow> f | _ \<Rightarrow> blank_save env) of
                 (Inl e, f) \<Rightarrow> (fail e, close_failed env p (d(p := Some (Saved f))))
               | (Inr s, f) \<Rightarrow> (Inr s, d(p := Some (Saved f))))))"

text \<open>The files set aside, with the names they got.\<close>

fun preserve_files :: "faults \<Rightarrow> int \<Rightarrow> string list \<Rightarrow> disk \<Rightarrow> (string + (string \<times> string) list) \<times> disk" where
  "preserve_files faults now [] d = (Inr [], d)"
| "preserve_files faults now (original # rest) d =
     (if \<not> path_exists d original then preserve_files faults now rest d
      else case fs_rename faults original (archive_path now original) d of
        (Inl e, d1) \<Rightarrow> (Inl e, d1)
      | (Inr _, d1) \<Rightarrow>
        (case preserve_files faults now rest d1 of
           (Inl e, d2) \<Rightarrow> (Inl e, d2)
         | (Inr preserved, d2) \<Rightarrow> (Inr ((original, archive_path now original) # preserved), d2)))"

text \<open>\<open>Inl\<close> is an early return, \<open>Inr (Inl _)\<close> the errors of the candidates tried.\<close>

fun try_candidates :: "disk_env \<Rightarrow> string \<Rightarrow> string list \<Rightarrow> disk \<Rightarrow> (string + string list + db) \<times> disk" where
  "try_candidates env p [] d = (Inr (Inl []), d)"
| "try_candidates env p (candidate # rest) d =
     (if \<not> path_exists d candidate then try_candidates env p rest d
      else case (if path_exists d p then fs_remove (de_faults env) p d else (Inr (), d)) of
        (Inl e, d1) \<Rightarrow> (Inl e, d1)
      | (Inr _, d1) \<Rightarrow>
      (case fs_copy (de_faults env) candidate p d1 of
        (Inl e, d2) \<Rightarrow> (Inl e, d2)
      | (Inr _, d2) \<Rightarrow>
      (case open_actor env p d2 of
        (Inr s, d3) \<Rightarrow> (Inr (Inr s), d3)
      | (Inl e, d3) \<Rightarrow>
        (case try_candidates env p rest d3 of
           (Inr (Inl errors), d4) \<Rightarrow> (Inr (Inl ((candidate @ '': '' @ e) # errors)), d4)
         | result \<Rightarrow> result))))"

definition restore_files :: "faults \<Rightarrow> (string \<times> string) list \<Rightarrow> disk \<Rightarrow> disk" where
  "restore_files faults preserved d =
     fold (\<lambda>(original, archived) d. snd (fs_rename faults archived original d)) (rev preserved) d"

fun join_text :: "string \<Rightarrow> string list \<Rightarrow> string" where
  "join_text sep [] = []"
| "join_text sep [w] = w"
| "join_text sep (w # ws) = w @ sep @ join_text sep ws"

definition database_files :: "string \<Rightarrow> string list" where
  "database_files p = [p, sidecar_path p ''-wal'', sidecar_path p ''-shm'']"

definition open_database_with_recovery :: "disk_env \<Rightarrow> string \<Rightarrow> int \<Rightarrow> disk \<Rightarrow> (string + db) \<times> disk" where
  "open_database_with_recovery env p now d =
     (case open_actor env p d of
        (Inr s, d1) \<Rightarrow> (Inr s, d1)
      | (Inl first_error, d1) \<Rightarrow>
        (let backup = backup_path p; candidates = [backup, previous_path backup]
         in if \<not> path_exists d1 p then (Inl first_error, d1)
            else if \<not> list_ex (path_exists d1) candidates then (Inl first_error, d1)
            else case preserve_files (de_faults env) now (database_files p) d1 of
              (Inl e, d2) \<Rightarrow> (Inl e, d2)
            | (Inr preserved, d2) \<Rightarrow>
              (case try_candidates env p candidates d2 of
                 (Inl e, d3) \<Rightarrow> (Inl e, d3)
               | (Inr (Inr s), d3) \<Rightarrow> (Inr s, d3)
               | (Inr (Inl errors), d3) \<Rightarrow>
                   (Inl (''primary database failed ('' @ first_error @ ''); backups failed ('' @
                         join_text ''; '' errors @ '')''),
                    restore_files (de_faults env) preserved
                      (if path_exists d3 p then snd (fs_remove (de_faults env) p d3) else d3)))))"

definition no_faults :: faults where
  "no_faults op d = None"

section \<open>Facts\<close>

lemma fs_rename_cases:
  assumes "fs_rename faults p q d = (r, d')"
  obtains e where "r = Inl e" "d' = d"
  | f where "r = Inr ()" "d p = Some f" "d' = (d(p := None))(q := Some f)"
  using assms by (cases "faults (RenameFile p q) d"; cases "d p") (auto simp: fs_rename_def)

lemma fs_remove_cases:
  assumes "fs_remove faults p d = (r, d')"
  obtains e where "r = Inl e" "d' = d" | "r = Inr ()" "d p \<noteq> None" "d' = d(p := None)"
  using assms by (cases "faults (RemoveFile p) d"; cases "d p") (auto simp: fs_remove_def)

lemma fs_copy_other: "fs_copy faults p q d = (r, d') \<Longrightarrow> x \<noteq> q \<Longrightarrow> d' x = d x"
  by (auto simp: fs_copy_def split: option.splits)

lemma path_in_files: "p \<in> set (database_files p)"
  by (simp add: database_files_def)

lemma side_paths: "sidecar_path p x = p \<longleftrightarrow> x = []" "sidecar_path p x = sidecar_path p y \<longleftrightarrow> x = y"
  by (simp_all add: sidecar_path_def)

lemma close_failed_at: "x \<notin> {sidecar_path p ''-wal'', sidecar_path p ''-shm''} \<Longrightarrow> close_failed env p d x = d x"
  by (simp add: close_failed_def)

lemma close_failed_own [simp]: "close_failed env p d p = d p"
proof -
  have "p \<noteq> sidecar_path p ''-wal''" "p \<noteq> sidecar_path p ''-shm''" by (simp_all add: sidecar_path_def)
  then show ?thesis by (simp add: close_failed_def)
qed

lemma open_actor_other: "open_actor env p d = (r, d') \<Longrightarrow> x \<notin> set (database_files p) \<Longrightarrow> d' x = d x"
  by (auto simp: open_actor_def Let_def database_files_def close_failed_at
      split: option.splits disk_file.splits sum.splits prod.splits if_splits)

lemma open_actor_opened: "open_actor env p d = (Inr s, d') \<Longrightarrow> x \<noteq> p \<Longrightarrow> d' x = d x"
  by (auto simp: open_actor_def Let_def split: option.splits disk_file.splits sum.splits prod.splits if_splits)

lemma open_actor_sides:
  assumes "open_actor env p d = (r, d')" "d (sidecar_path p ''-wal'') = None" "d (sidecar_path p ''-shm'') = None" "x \<noteq> p"
  shows "d' x = d x"
proof -
  have "close_failed env p d0 x = d0 x" if "d0 (sidecar_path p ''-wal'') = None" "d0 (sidecar_path p ''-shm'') = None" for d0
    using that by (auto simp: close_failed_def)
  with assms show ?thesis
    by (auto simp: open_actor_def Let_def side_paths split: option.splits disk_file.splits sum.splits prod.splits if_splits)
qed

text \<open>A failing open of a file that is no database of version 0 leaves it as it is.\<close>

lemma open_actor_failed:
  assumes "open_actor env p d = (Inl e, d')"
  shows "(d p \<noteq> None \<longrightarrow> d' p \<noteq> None)
    \<and> ((\<exists>n x. d p = Some (Garbage n x)) \<or> (\<exists>f. d p = Some (Saved f) \<and> sf_version f \<noteq> 0) \<longrightarrow> d' p = d p)"
  using assms
  by (auto simp: open_actor_def Let_def dest: configure_kept split: option.splits disk_file.splits sum.splits prod.splits if_splits)

lemma show_int_inject: "show_int i = show_int j \<longleftrightarrow> i = j"
proof -
  have "CHR ''-'' # xs \<noteq> show_nat n" for xs n
  proof
    assume "CHR ''-'' # xs = show_nat n"
    with show_nat_digits [of n] have "list_all is_digit (CHR ''-'' # xs)" by simp
    then show False by (simp add: is_digit_def)
  qed
  then show ?thesis by (auto simp: show_int_def show_nat_inject dest: sym)
qed

text \<open>A missing or empty file becomes a new save; a save of the current version opens as its store.\<close>

lemma opened_new:
  assumes "d p = None \<or> d p = Some Empty" "de_faults env (OpenDatabase p) d = None" "\<forall>k. de_faults env (RunStatement p k) d = None"
  shows "open_actor env p d = (Inr migration_1, d(p := Some (Saved (new_save env migration_1))))"
proof -
  have "configure (statement_fault env p d) (de_text env) (blank_save env) = (Inr migration_1, new_save env migration_1)"
    using configure_new [of "blank_save env" "statement_fault env p d" "de_text env"] assms(3)
    by (simp add: blank_save_def new_save_def statement_fault_def)
  with assms(1,2) show ?thesis by (auto simp: open_actor_def Let_def)
qed

lemma opened_current:
  assumes "d p = Some (Saved f)" "sf_integrity f = ''ok''" "sf_version f = database_schema_version" "de_faults env (OpenDatabase p) d = None"
  shows "open_actor env p d = (Inr (sf_data f), d)"
  using assms by (auto simp: open_actor_def Let_def configure_current)

text \<open>The names of a database that are set aside at different times are different.\<close>

lemma archives_apart:
  assumes "t \<noteq> now" "x \<in> set (database_files p)"
  shows "archive_path t x \<notin> set (database_files p) \<union> archive_path now ` set (database_files p)"
  using assms by (auto simp: database_files_def archive_path_def sidecar_path_def show_int_inject)

lemma archive_inject [simp]: "archive_path now p = archive_path now q \<longleftrightarrow> p = q"
  by (simp add: archive_path_def)

lemma preserved:
  assumes "preserve_files faults now os d = (r, d')" "distinct (os @ map (archive_path now) os)"
  shows "(\<forall>q. q \<notin> set os \<union> archive_path now ` set os \<longrightarrow> d' q = d q)
    \<and> (\<forall>q\<in>set os. d' q = d q \<or> d' q = None \<and> d' (archive_path now q) = d q)
    \<and> (\<forall>ps. r = Inr ps \<longrightarrow> ps = map (\<lambda>q. (q, archive_path now q)) (filter (\<lambda>q. d q \<noteq> None) os)
         \<and> (\<forall>q\<in>set os. d' q = None \<and> (d q = None \<or> d' (archive_path now q) = d q)))
    \<and> (\<forall>q\<in>set os. d q = None \<longrightarrow> d' (archive_path now q) = d (archive_path now q))"
  using assms
proof (induction os arbitrary: d r d')
  case (Cons o' os)
  let ?A = "archive_path now"
  show ?case
  proof (cases "path_exists d o'")
    case False
    then have none: "d o' = None" by (simp add: path_exists_def)
    from False Cons.prems(1) have run: "preserve_files faults now os d = (r, d')" by simp
    from Cons.IH [OF run] Cons.prems(2) none show ?thesis by auto
  next
    case True
    then obtain f where f: "d o' = Some f" by (auto simp: path_exists_def)
    obtain r1 d1 where mv: "fs_rename faults o' (?A o') d = (r1, d1)" by fastforce
    from mv show ?thesis
    proof (cases rule: fs_rename_cases)
      case (1 e)
      with Cons.prems(1) True mv have "r = Inl e" "d' = d" by auto
      then show ?thesis by auto
    next
      case (2 g)
      then have d1: "r1 = Inr ()" "d1 = (d(o' := None))(?A o' := Some f)" using f by auto
      obtain r2 d2 where rest: "preserve_files faults now os d1 = (r2, d2)" by fastforce
      from Cons.prems(1) True mv d1(1) rest have d': "d' = d2"
        and r: "r = (case r2 of Inl e \<Rightarrow> Inl e | Inr ps \<Rightarrow> Inr ((o', ?A o') # ps))"
        by (auto split: sum.splits)
      have dist: "distinct (os @ map ?A os)" "o' \<notin> set os" "o' \<notin> ?A ` set os" "?A o' \<notin> set os" "?A o' \<notin> ?A ` set os" "?A o' \<noteq> o'"
        using Cons.prems(2) by auto
      note ih = Cons.IH [OF rest dist(1)]
      have same: "d1 q = d q" if "q \<in> set os" for q using that dist by (auto simp: d1(2))
      have sameA: "d1 (?A q) = d (?A q)" if "q \<in> set os" for q using that dist by (auto simp: d1(2))
      have filt: "filter (\<lambda>q. \<exists>y. d1 q = Some y) os = filter (\<lambda>q. \<exists>y. d q = Some y) os"
        by (rule filter_cong) (simp_all add: same)
      have o: "d2 o' = None" "d2 (?A o') = Some f" using ih dist by (auto simp: d1(2))
      show ?thesis
        unfolding d'
      proof (intro conjI allI ballI impI)
        fix q assume "q \<notin> set (o' # os) \<union> ?A ` set (o' # os)"
        then show "d2 q = d q" using ih by (auto simp: d1(2))
      next
        fix q assume "q \<in> set (o' # os)"
        then show "d2 q = d q \<or> d2 q = None \<and> d2 (?A q) = d q" using ih o f same by auto
      next
        fix ps assume "r = Inr ps"
        with r obtain ps2 where "r2 = Inr ps2" "ps = (o', ?A o') # ps2" by (cases r2) auto
        with ih f filt show "ps = map (\<lambda>q. (q, ?A q)) (filter (\<lambda>q. d q \<noteq> None) (o' # os))" by simp
      next
        fix ps q assume "r = Inr ps" "q \<in> set (o' # os)"
        with r obtain ps2 where "r2 = Inr ps2" by (cases r2) auto
        with ih have ih2: "\<forall>q\<in>set os. d2 q = None \<and> (d1 q = None \<or> d2 (?A q) = d1 q)" by blast
        from \<open>q \<in> set (o' # os)\<close> show "d2 q = None" using ih2 o by auto
        from \<open>q \<in> set (o' # os)\<close> show "d q = None \<or> d2 (?A q) = d q" using ih2 o f same by auto
      next
        fix q assume "q \<in> set (o' # os)" "d q = None"
        then show "d2 (?A q) = d (?A q)" using ih f same sameA by auto
      qed
    qed
  qed
qed simp

lemma try_candidates_other: "try_candidates env p cs d = (r, d') \<Longrightarrow> x \<notin> set (database_files p) \<Longrightarrow> d' x = d x"
proof (induction cs arbitrary: d r d')
  case (Cons c cs)
  show ?case
  proof (cases "path_exists d c")
    case True
    obtain r1 d1 where r1: "(if path_exists d p then fs_remove (de_faults env) p d else (Inr (), d)) = (r1, d1)" by fastforce
    have x: "x \<noteq> p" using Cons.prems(2) path_in_files by auto
    from r1 have d1: "d1 x = d x" using x by (auto elim!: fs_remove_cases split: if_splits)
    obtain r2 d2 where r2: "fs_copy (de_faults env) c p d1 = (r2, d2)" by fastforce
    have d2: "d2 x = d x" using fs_copy_other [OF r2 x] d1 by simp
    obtain r3 d3 where r3: "open_actor env p d2 = (r3, d3)" by fastforce
    have d3: "d3 x = d x" using open_actor_other [OF r3] Cons.prems(2) d2 by simp
    obtain r4 d4 where r4: "try_candidates env p cs d3 = (r4, d4)" by fastforce
    have d4: "d4 x = d x" using Cons.IH [OF r4] Cons.prems(2) d3 by simp
    from Cons.prems(1) True r1 r2 r3 r4 d1 d2 d3 d4 show ?thesis
      by (cases r1; cases r2; cases r3; cases r4) (auto split: sum.splits)
  qed (use Cons in auto)
qed simp

lemma restored:
  assumes "distinct (os @ map (archive_path now) os)"
  shows "(\<forall>q. q \<notin> set os \<union> archive_path now ` set os \<longrightarrow> restore_files faults (map (\<lambda>q. (q, archive_path now q)) os) d q = d q)
    \<and> (\<forall>q\<in>set os. restore_files faults (map (\<lambda>q. (q, archive_path now q)) os) d q = d (archive_path now q)
        \<or> restore_files faults (map (\<lambda>q. (q, archive_path now q)) os) d (archive_path now q) = d (archive_path now q))"
  using assms
proof (induction os arbitrary: d rule: rev_induct)
  case (snoc o' os)
  let ?A = "archive_path now" and ?r = "\<lambda>os. restore_files faults (map (\<lambda>q. (q, archive_path now q)) os)"
  obtain r1 d1 where mv: "fs_rename faults (?A o') o' d = (r1, d1)" by fastforce
  have step: "?r (os @ [o']) d = ?r os d1" by (simp add: restore_files_def mv)
  have dist: "distinct (os @ map ?A os)" "o' \<notin> set os" "o' \<notin> ?A ` set os" "?A o' \<notin> set os" "?A o' \<notin> ?A ` set os" "?A o' \<noteq> o'"
    using snoc.prems by auto
  have d1: "d1 q = d q" if "q \<noteq> o'" "q \<noteq> ?A o'" for q using mv that by (auto elim!: fs_rename_cases)
  have moved: "d1 o' = d (?A o') \<or> d1 (?A o') = d (?A o')" using mv dist(6) by (auto elim!: fs_rename_cases)
  have keep: "?r os d1 o' = d1 o'" "?r os d1 (?A o') = d1 (?A o')" using snoc.IH [OF dist(1)] dist by auto
  show ?case
    unfolding step
  proof (intro conjI allI ballI impI)
    fix q assume "q \<notin> set (os @ [o']) \<union> ?A ` set (os @ [o'])"
    then show "?r os d1 q = d q" using snoc.IH [OF dist(1), of d1] d1 by auto
  next
    fix q assume q: "q \<in> set (os @ [o'])"
    show "?r os d1 q = d (?A q) \<or> ?r os d1 (?A q) = d (?A q)"
    proof (cases "q = o'")
      case False
      with q have "q \<in> set os" by simp
      then have "?A q \<noteq> o'" "?A q \<noteq> ?A o'" using dist by auto
      with \<open>q \<in> set os\<close> show ?thesis using snoc.IH [OF dist(1), of d1] d1 by metis
    qed (use keep moved in simp)
  qed
qed (simp add: restore_files_def)

text \<open>The run of a recovery, step by step.\<close>

lemma recovery_cases:
  assumes run: "open_database_with_recovery env p now d0 = (r, d')" and o: "open_actor env p d0 = (Inl e, d)"
  obtains "d' = d" "r = Inl e" "d p = None \<or> d (backup_path p) = None \<and> d (previous_path (backup_path p)) = None"
  | x where "preserve_files (de_faults env) now (database_files p) d = (Inl x, d')" "r = Inl x"
  | ps d2 x where "preserve_files (de_faults env) now (database_files p) d = (Inr ps, d2)"
      "try_candidates env p [backup_path p, previous_path (backup_path p)] d2 = (x, d')" "\<forall>errors. x \<noteq> Inr (Inl errors)"
      "r = (case x of Inl y \<Rightarrow> Inl y | Inr (Inr s) \<Rightarrow> Inr s | Inr (Inl errors) \<Rightarrow> r)" "d p \<noteq> None"
  | ps d2 d3 errors where "preserve_files (de_faults env) now (database_files p) d = (Inr ps, d2)"
      "try_candidates env p [backup_path p, previous_path (backup_path p)] d2 = (Inr (Inl errors), d3)"
      "d' = restore_files (de_faults env) ps (if path_exists d3 p then snd (fs_remove (de_faults env) p d3) else d3)"
      "\<exists>x. r = Inl x" "d p \<noteq> None"
proof -
  let ?c = "[backup_path p, previous_path (backup_path p)]"
  show ?thesis
  proof (cases "path_exists d p \<and> list_ex (path_exists d) ?c")
    case False
    then have "r = Inl e \<and> d' = d"
      using run by (cases "path_exists d p") (auto simp: open_database_with_recovery_def o Let_def)
    with False show ?thesis by (intro that(1)) (auto simp: path_exists_def)
  next
    case True
    then have p: "d p \<noteq> None" by (simp add: path_exists_def)
    from True have go: "path_exists d p = True" "list_ex (path_exists d) ?c = True" by simp_all
    note eq = run [unfolded open_database_with_recovery_def o prod.case sum.case Let_def go not_True_eq_False if_False]
    obtain r2 d2 where pre: "preserve_files (de_faults env) now (database_files p) d = (r2, d2)" by fastforce
    show ?thesis
    proof (cases r2)
      case (Inl x)
      then have "r = Inl x" "d' = d2"
        using eq by (simp_all add: pre)
      with pre Inl show ?thesis using that(2) by simp
    next
      case (Inr ps)
      obtain x d3 where tries: "try_candidates env p ?c d2 = (x, d3)" by fastforce
      show ?thesis
      proof (cases "\<exists>errors. x = Inr (Inl errors)")
        case False
        then have "r = (case x of Inl y \<Rightarrow> Inl y | Inr (Inr s) \<Rightarrow> Inr s | Inr (Inl errors) \<Rightarrow> r)" "d' = d3"
          using eq by (auto simp: pre Inr tries simp del: try_candidates.simps split: sum.splits)
        with pre Inr tries False p show ?thesis using that(3) by blast
      next
        case True2: True
        then obtain errors where x: "x = Inr (Inl errors)" by blast
        have "(\<exists>x. r = Inl x) \<and> d' = restore_files (de_faults env) ps (if path_exists d3 p then snd (fs_remove (de_faults env) p d3) else d3)"
          using eq by (auto simp: pre Inr tries x simp del: try_candidates.simps)
        with pre Inr tries x p show ?thesis using that(4) by blast
      qed
    qed
  qed
qed

lemma removed_other: "x \<noteq> p \<Longrightarrow> (if path_exists d p then snd (fs_remove faults p d) else d) x = d x"
  by (cases "fs_remove faults p d") (auto elim: fs_remove_cases)

text \<open>The three files of the database are where they were or where they were set aside; no other file changes.\<close>

lemma recovery_keeps:
  assumes run: "open_database_with_recovery env p now d0 = (r, d')" and failed: "open_actor env p d0 = (Inl e, d)"
    and names: "distinct (database_files p @ map (archive_path now) (database_files p) @ [backup_path p, previous_path (backup_path p)])"
  shows "(\<forall>q\<in>set (database_files p). d q = None \<or> d' q = d q \<or> d' (archive_path now q) = d q)
    \<and> (\<forall>q. q \<notin> set (database_files p) \<union> archive_path now ` set (database_files p) \<longrightarrow> d' q = d q)"
proof -
  let ?A = "archive_path now" and ?f = "database_files p"
  have dist: "distinct (?f @ map ?A ?f)" using names by auto
  have arch: "?A q \<notin> set ?f" if "q \<in> set ?f" for q using dist that by auto
  from run failed show ?thesis
  proof (cases rule: recovery_cases)
    case 1
    then show ?thesis by simp
  next
    case (2 x)
    from preserved [OF 2(1) dist] show ?thesis by blast
  next
    case (3 ps d2 x)
    note pre = preserved [OF 3(1) dist] and other = try_candidates_other [OF 3(2)]
    have "d' (?A q) = d q \<or> d q = None" if "q \<in> set ?f" for q using pre other [OF arch [OF that]] 3(1) that by metis
    moreover have "d' q = d q" if "q \<notin> set ?f \<union> ?A ` set ?f" for q
      using pre other that by simp
    ultimately show ?thesis by blast
  next
    case (4 ps d2 d3 errors)
    let ?d3 = "if path_exists d3 p then snd (fs_remove (de_faults env) p d3) else d3"
      and ?os = "filter (\<lambda>q. d q \<noteq> None) ?f"
    note pre = preserved [OF 4(1) dist]
    have other: "?d3 q = d2 q" if q: "q \<notin> set ?f" for q
    proof -
      have "q \<noteq> p" using q path_in_files by auto
      with try_candidates_other [OF 4(2) q] show ?thesis using removed_other [of q p d3 "de_faults env"] by simp
    qed
    have "ps = map (\<lambda>q. (q, ?A q)) ?os" using pre by simp
    then have d': "d' = restore_files (de_faults env) (map (\<lambda>q. (q, ?A q)) ?os) ?d3" using 4(3) by simp
    have "distinct (?os @ map ?A ?os)" using dist by (auto simp: distinct_map inj_on_def)
    note res = restored [OF this, of "de_faults env" ?d3, folded d']
    have "d' q = d q \<or> d' (?A q) = d q" if "q \<in> set ?f" "d q \<noteq> None" for q
    proof -
      have "?d3 (?A q) = d q" using pre other [OF arch [OF that(1)]] that by auto
      moreover have "q \<in> set ?os" using that by simp
      ultimately show ?thesis using res by metis
    qed
    moreover have "d' q = d q" if q: "q \<notin> set ?f \<union> ?A ` set ?f" for q
    proof -
      have "q \<notin> set ?os \<union> ?A ` set ?os" using q by auto
      then have "d' q = ?d3 q" using res by blast
      then show ?thesis using pre other [of q] q by auto
    qed
    ultimately show ?thesis by blast
  qed
qed

section \<open>Properties\<close>

text \<open>Whatever fails while a backup is published, and wherever the process stops, the backup that was there is
still on the disk, as the backup or, with no backup beside it, as the previous one; when the publication returns,
the backup is the new file and the previous one is what was the backup.\<close>

lemma publish_backup_keeps:
  assumes run: "publish_backup faults temporary destination d = (r, d')"
    and names: "distinct [temporary, destination, previous_path destination]"
  shows "(r \<noteq> Inr () \<longrightarrow> d' destination = d destination
         \<or> d' destination = None \<and> d' (previous_path destination) = d destination)
    \<and> (r = Inr () \<longrightarrow> d temporary \<noteq> None \<and> d' destination = d temporary
         \<and> (d destination = None \<or> d' (previous_path destination) = d destination))
    \<and> (\<forall>q. q \<in> {temporary, destination, previous_path destination} \<or> d' q = d q)"
proof -
  let ?p = "previous_path destination"
  obtain r1 d1 where s1: "(if path_exists d ?p then fs_remove faults ?p d else (Inr (), d)) = (r1, d1)" by fastforce
  have d1: "d1 q = d q" if "q \<noteq> ?p" for q using s1 that by (auto elim!: fs_remove_cases split: if_splits)
  obtain r2 d2 where s2: "(if path_exists d1 destination then fs_rename faults destination ?p d1 else (Inr (), d1)) = (r2, d2)" by fastforce
  obtain r3 d3 where s3: "fs_rename faults temporary destination d2 = (r3, d3)" by fastforce
  obtain r4 d4 where s4: "fs_rename faults ?p destination d3 = (r4, d4)" by fastforce
  show ?thesis
  proof (cases r1)
    case (Inl e)
    then have "r = Inl e" "d' = d1" using run by (simp_all add: publish_backup_def s1 Let_def)
    with names d1 show ?thesis by auto
  next
    case one: (Inr u)
    show ?thesis
    proof (cases r2)
      case (Inl e)
      then have "r = Inl e" "d' = d2" "d2 = d1"
        using run s2 one by (auto simp: publish_backup_def s1 Let_def elim!: fs_rename_cases split: if_splits)
      with names d1 show ?thesis by auto
    next
      case two: (Inr v)
      have d2: "(d destination = None \<longrightarrow> d2 destination = None) \<and> (d destination \<noteq> None \<longrightarrow> d2 ?p = d destination \<and> d2 destination = None)
          \<and> (\<forall>q. q \<noteq> ?p \<and> q \<noteq> destination \<longrightarrow> d2 q = d q)"
        using s2 two names d1 by (auto simp: path_exists_def elim!: fs_rename_cases split: if_splits)
      show ?thesis
      proof (cases r3)
        case (Inr w)
        then have "r = Inr ()" "d' = d3" using run s2 one two by (auto simp: publish_backup_def s1 s3 Let_def)
        with s3 Inr d2 names show ?thesis by (elim fs_rename_cases) auto
      next
        case (Inl e)
        then have "d3 = d2" using s3 by (elim fs_rename_cases) auto
        moreover have "r = Inl e" "d' = (if path_exists d1 destination then d4 else d3)"
          using run s2 one two Inl by (auto simp: publish_backup_def s1 s3 s4 Let_def)
        moreover have "path_exists d1 destination \<longleftrightarrow> d destination \<noteq> None" using d1 names by (simp add: path_exists_def)
        ultimately show ?thesis using s4 d2 names by (elim fs_rename_cases) auto
      qed
    qed
  qed
qed

text \<open>C32: Whatever fails while a damaged database is recovered, no file is lost. With the names of this recovery's
archives free, every file the failed open has left, under any name, is still there with its content, under its
name or, for the database and its two side files, under the name it was set aside with; every file
but these is untouched, the backups and the archives of every other time among them; and the failed open has not touched
a file that is no database of version 0.\<close>

theorem recovery_loses_nothing:
  assumes run: "open_database_with_recovery env p now d = (r, d')" and failed: "open_actor env p d = (Inl e, d1)"
    and names: "distinct (database_files p @ map (archive_path now) (database_files p) @ [backup_path p, previous_path (backup_path p)])"
    and free: "\<forall>q\<in>set (database_files p). d (archive_path now q) = None"
  shows "(\<forall>q f. d1 q = Some f \<longrightarrow> d' q = Some f \<or> q \<in> set (database_files p) \<and> d' (archive_path now q) = Some f)
    \<and> (\<forall>q. q \<notin> set (database_files p) \<union> archive_path now ` set (database_files p) \<longrightarrow> d' q = d q)
    \<and> d' (backup_path p) = d (backup_path p) \<and> d' (previous_path (backup_path p)) = d (previous_path (backup_path p))
    \<and> (\<forall>t q. t \<noteq> now \<longrightarrow> q \<in> set (database_files p) \<longrightarrow> d' (archive_path t q) = d (archive_path t q))
    \<and> ((\<exists>n x. d p = Some (Garbage n x)) \<or> (\<exists>f. d p = Some (Saved f) \<and> sf_version f \<noteq> 0) \<longrightarrow> d1 p = d p)"
proof -
  let ?A = "archive_path now" and ?f = "database_files p"
  note kept = recovery_keeps [OF run failed names]
  have d1: "d1 q = d q" if "q \<notin> set ?f" for q using open_actor_other [OF failed that] .
  have "d1 (?A q) = None" if "q \<in> set ?f" for q using free names that by (subst d1) auto
  then have first: "\<forall>q f. d1 q = Some f \<longrightarrow> d' q = Some f \<or> q \<in> set ?f \<and> d' (?A q) = Some f"
    using kept by (metis (no_types, lifting) UnE imageE option.distinct(1))
  have others: "\<forall>q. q \<notin> set ?f \<union> ?A ` set ?f \<longrightarrow> d' q = d q" using kept d1 by simp
  moreover have "backup_path p \<notin> set ?f \<union> ?A ` set ?f" "previous_path (backup_path p) \<notin> set ?f \<union> ?A ` set ?f"
    using names by auto
  ultimately show ?thesis using first archives_apart open_actor_failed [OF failed] by blast
qed

section \<open>A concrete disk\<close>

definition demo_disk_env :: disk_env where
  "demo_disk_env = \<lparr>de_faults = no_faults, de_sql_text = \<lambda>_. ''file is not a database'', de_text = \<lambda>_. [], de_size = \<lambda>_. 4096,
     de_closes = \<lambda>_ _. True\<rparr>"

definition demo_disk :: disk where
  "demo_disk = [''ggfm.sqlite3'' \<mapsto> Garbage 7 (Sql InvalidColumnType),
     ''ggfm.sqlite3.backup'' \<mapsto> Saved (new_save demo_disk_env migration_1), ''new'' \<mapsto> Saved (new_save demo_disk_env migration_1)]"

lemma demo_names:
  "backup_path ''ggfm.sqlite3'' = ''ggfm.sqlite3.backup''"
  "previous_path ''ggfm.sqlite3.backup'' = ''ggfm.sqlite3.backup.previous''"
  "database_files ''ggfm.sqlite3'' = [''ggfm.sqlite3'', ''ggfm.sqlite3-wal'', ''ggfm.sqlite3-shm'']"
  "archive_path 9 p = p @ ''.corrupt.9''"
  by (code_simp, code_simp, simp add: database_files_def sidecar_path_def,
      simp add: archive_path_def show_int_def show_nat.simps digit_char_def, code_simp)

theorem recovery_loses_nothing_witness:
  "\<exists>r d'. open_database_with_recovery demo_disk_env ''ggfm.sqlite3'' 9 demo_disk = (r, d')
     \<and> (d' ''ggfm.sqlite3'' = demo_disk ''ggfm.sqlite3'' \<or> d' ''ggfm.sqlite3.corrupt.9'' = demo_disk ''ggfm.sqlite3'')
     \<and> d' ''new'' = demo_disk ''new''"
proof -
  let ?p = "''ggfm.sqlite3''"
  obtain r d' where run: "open_database_with_recovery demo_disk_env ?p 9 demo_disk = (r, d')" by fastforce
  have "\<exists>e d1. open_actor demo_disk_env ?p demo_disk = (Inl e, d1)"
    by (simp add: open_actor_def demo_disk_env_def no_faults_def demo_disk_def)
  then obtain e d1 where failed: "open_actor demo_disk_env ?p demo_disk = (Inl e, d1)" by blast
  have names: "distinct (database_files ?p @ map (archive_path 9) (database_files ?p) @ [backup_path ?p, previous_path (backup_path ?p)])"
    and free: "\<forall>q\<in>set (database_files ?p). demo_disk (archive_path 9 q) = None"
    by (simp_all add: demo_names demo_disk_def)
  note kept = recovery_loses_nothing [OF run failed names free]
  have p: "demo_disk ?p = Some (Garbage 7 (Sql InvalidColumnType))" by (simp add: demo_disk_def)
  with kept have "d1 ?p = Some (Garbage 7 (Sql InvalidColumnType))" by metis
  with kept p have "d' ?p = demo_disk ?p \<or> d' (archive_path 9 ?p) = demo_disk ?p" by metis
  moreover have "''new'' \<notin> set (database_files ?p) \<union> archive_path 9 ` set (database_files ?p)" by (simp add: demo_names)
  then have "d' ''new'' = demo_disk ''new''" using kept by blast
  ultimately show ?thesis using run by (simp add: demo_names)
qed

section \<open>An interrupted recovery\<close>

text \<open>C33: A recovery that cannot copy the backup returns with the damaged database set aside and nothing in its
place, so the next start opens a new, empty database instead of the backup that is still there.\<close>

theorem interrupted_recovery_starts_empty:
  assumes damaged: "fst (open_actor env p d) = Inl e" "d p \<noteq> None" "de_faults env (OpenDatabase p) d = None"
    and copy: "de_faults env = (\<lambda>op _. if op = CopyFile (backup_path p) p then Some (message, False) else None)"
    and disk: "d (backup_path p) \<noteq> None" "d (sidecar_path p ''-wal'') = None" "d (sidecar_path p ''-shm'') = None"
    and names: "distinct (database_files p @ map (archive_path now) (database_files p) @ [backup_path p, previous_path (backup_path p)])"
  shows "\<exists>d'. open_database_with_recovery env p now d = (Inl message, d') \<and> d' (backup_path p) = d (backup_path p)
    \<and> fst (open_database_with_recovery (env\<lparr>de_faults := no_faults\<rparr>) p later d') = Inr migration_1"
proof -
  let ?A = "archive_path now"
  obtain d1 where o: "open_actor env p d = (Inl e, d1)"
    using damaged(1) by (cases "open_actor env p d") auto
  have same: "d1 x = d x" if "x \<noteq> p" for x using open_actor_sides [OF o disk(2,3) that] .
  obtain f where f: "d1 p = Some f" using open_actor_failed [OF o] damaged(2) by blast
  let ?d = "(d1(p := None))(?A p := Some f)"
  have ne: "?A p \<noteq> p" "backup_path p \<noteq> p" "backup_path p \<noteq> ?A p" "sidecar_path p ''-wal'' \<noteq> ?A p" "sidecar_path p ''-shm'' \<noteq> ?A p"
    "sidecar_path p ''-wal'' \<noteq> p" "sidecar_path p ''-shm'' \<noteq> p"
    using names by (auto simp: database_files_def)
  have sides: "d1 (sidecar_path p ''-wal'') = None" "d1 (sidecar_path p ''-shm'') = None" "d1 (backup_path p) \<noteq> None"
    using same ne disk by simp_all
  have go: "path_exists d1 p = True" "list_ex (path_exists d1) [backup_path p, previous_path (backup_path p)] = True"
    using f sides(3) by (simp_all add: path_exists_def)
  have moved: "fs_rename (de_faults env) p (?A p) d1 = (Inr (), ?d)" by (simp add: fs_rename_def copy f)
  have pre: "preserve_files (de_faults env) now (database_files p) d1 = (Inr [(p, ?A p)], ?d)"
    using ne sides by (simp add: database_files_def moved go(1)) (simp add: path_exists_def)
  have tries: "try_candidates env p [backup_path p, previous_path (backup_path p)] ?d = (Inl message, ?d)"
    using ne sides(3) by (simp add: path_exists_def fs_copy_def copy)
  have run: "open_database_with_recovery env p now d = (Inl message, ?d)"
    unfolding open_database_with_recovery_def o prod.case sum.case Let_def go not_True_eq_False if_False pre tries by simp
  have "?d p = None" using ne by simp
  then have "open_actor (env\<lparr>de_faults := no_faults\<rparr>) p ?d
      = (Inr migration_1, ?d(p := Some (Saved (new_save (env\<lparr>de_faults := no_faults\<rparr>) migration_1))))"
    by (intro opened_new) (simp_all add: no_faults_def)
  then have "fst (open_database_with_recovery (env\<lparr>de_faults := no_faults\<rparr>) p later ?d) = Inr migration_1"
    by (simp only: open_database_with_recovery_def prod.case sum.case fst_conv)
  with run ne same show ?thesis by (intro exI [of _ ?d]) simp
qed

theorem interrupted_recovery_starts_empty_witness:
  "\<exists>d'. open_database_with_recovery
        (demo_disk_env\<lparr>de_faults := \<lambda>op _. if op = CopyFile (backup_path ''ggfm.sqlite3'') ''ggfm.sqlite3'' then Some (''denied'', False) else None\<rparr>)
        ''ggfm.sqlite3'' 9 demo_disk = (Inl ''denied'', d')
     \<and> d' (backup_path ''ggfm.sqlite3'') = demo_disk (backup_path ''ggfm.sqlite3'')
     \<and> fst (open_database_with_recovery
          (demo_disk_env\<lparr>de_faults := \<lambda>op _. if op = CopyFile (backup_path ''ggfm.sqlite3'') ''ggfm.sqlite3'' then Some (''denied'', False) else None,
             de_faults := no_faults\<rparr>) ''ggfm.sqlite3'' 10 d') = Inr migration_1"
proof -
  let ?env = "demo_disk_env\<lparr>de_faults := \<lambda>op _. if op = CopyFile (backup_path ''ggfm.sqlite3'') ''ggfm.sqlite3'' then Some (''denied'', False) else None\<rparr>"
  have "\<exists>e. fst (open_actor ?env ''ggfm.sqlite3'' demo_disk) = Inl e"
    by (simp add: open_actor_def demo_disk_env_def demo_disk_def)
  then obtain e where e: "fst (open_actor ?env ''ggfm.sqlite3'' demo_disk) = Inl e" ..
  show ?thesis
    by (rule interrupted_recovery_starts_empty [OF e])
       (simp_all add: demo_names, simp_all add: demo_disk_def sidecar_path_def)
qed

section \<open>An interrupted migration\<close>

text \<open>The remains of a migration, with no backup beside them: no open gets further.\<close>

definition blocked :: "string \<Rightarrow> save_file \<Rightarrow> disk \<Rightarrow> bool" where
  "blocked p f d \<longleftrightarrow> d p = Some (Saved f) \<and> sf_integrity f = ''ok'' \<and> sf_version f = 0
     \<and> object_exists ''table'' ''schema_migrations'' (sf_schema f)
     \<and> d (backup_path p) = None \<and> d (previous_path (backup_path p)) = None"

lemma blocked_open:
  assumes b: "blocked p f d" and names: "distinct (database_files p @ [backup_path p, previous_path (backup_path p)])"
  shows "\<exists>x d'. open_database_with_recovery env p now d = (Inl x, d') \<and> blocked p f d'"
proof -
  have f: "d p = Some (Saved f)" "sf_integrity f = ''ok''" "sf_version f = 0" "object_exists ''table'' ''schema_migrations'' (sf_schema f)"
    using b by (simp_all add: blocked_def)
  obtain x where "run_migration (statement_fault env p d) (de_text env) 0 migration_statements f = (Inl x, f)"
    using migration_again [OF f(4)] by blast
  then have c: "configure (statement_fault env p d) (de_text env) f = (Inl x, f)" using f by (simp add: configure_def)
  have "\<exists>y d1. open_actor env p d = (Inl y, d1) \<and> d1 p = Some (Saved f)"
    using f(1) c by (auto simp: open_actor_def Let_def split: option.splits)
  then obtain y d1 where o: "open_actor env p d = (Inl y, d1)" "d1 p = Some (Saved f)" by blast
  have "d1 (backup_path p) = None" "d1 (previous_path (backup_path p)) = None"
    using open_actor_other [OF o(1)] names b by (auto simp: blocked_def)
  with o f b show ?thesis by (simp add: open_database_with_recovery_def blocked_def path_exists_def)
qed

lemma blocked_opens:
  assumes names: "distinct (database_files p @ [backup_path p, previous_path (backup_path p)])"
  shows "blocked p f d \<Longrightarrow> blocked p f (fold (\<lambda>(env, now) d. snd (open_database_with_recovery env p now d)) attempts d)"
proof (induction attempts arbitrary: d)
  case (Cons a attempts)
  obtain env now where a: "a = (env, now)" by fastforce
  obtain x d' where "open_database_with_recovery env p now d = (Inl x, d')" "blocked p f d'"
    using blocked_open [OF Cons.prems names] by blast
  with Cons.IH a show ?case by simp
qed simp

text \<open>C38: A first start that is stopped inside the migration (an error of SQLite, a full disk, the death of the
process), once the first table is there, has spoiled the save for good: the file is a database of version 0 with tables, and
since no backup exists yet every later open, however often and without any fault, is refused. Stopped before the first
table, it does no harm.\<close>

theorem interrupted_migration_blocks:
  assumes fresh: "d p = None" "d (backup_path p) = None" "d (previous_path (backup_path p)) = None"
    and opens: "de_faults env (OpenDatabase p) d = None"
    and stopped: "k \<le> length migration_statements" "\<forall>j<k. de_faults env (RunStatement p j) d = None"
      "de_faults env (RunStatement p k) d = Some (message, partial)"
    and names: "distinct (database_files p @ [backup_path p, previous_path (backup_path p)])"
  shows "\<exists>x d1. open_database_with_recovery env p now d = (Inl x, d1)
    \<and> (if k < 2 then fst (open_database_with_recovery (env\<lparr>de_faults := no_faults\<rparr>) p later d1) = Inr migration_1
       else \<forall>attempts. \<exists>y. fst (open_database_with_recovery later_env p later
              (fold (\<lambda>(env, now) d. snd (open_database_with_recovery env p now d)) attempts d1)) = Inl y)"
proof -
  let ?fault = "statement_fault env p d"
  let ?g = "(blank_save env)\<lparr>sf_schema := schema_entries (de_text env) (created_objects (take k migration_statements))\<rparr>"
  have fault: "?fault k = Some message" "\<forall>j<k. ?fault j = None" using stopped by (simp_all add: statement_fault_def)
  obtain i where i: "i \<le> length migration_statements" "\<forall>j<i. ?fault j = None"
    "snd (run_migration ?fault (de_text env) 0 migration_statements (blank_save env))
      = (blank_save env)\<lparr>sf_schema := schema_entries (de_text env) (created_objects (take i migration_statements))\<rparr>"
    "if i = length migration_statements then fst (run_migration ?fault (de_text env) 0 migration_statements (blank_save env)) = Inr ()
     else \<exists>e. ?fault i = Some e \<and> fst (run_migration ?fault (de_text env) 0 migration_statements (blank_save env)) = Inl (store_error.Io e)"
    using migration_run [of "blank_save env" ?fault "de_text env"] by (auto simp: blank_save_def)
  have "i = k"
  proof (rule linorder_cases [of i k])
    assume "i < k"
    with i(4) fault(2) stopped(1) show ?thesis by simp
  next
    assume "k < i"
    with i(2) fault(1) show ?thesis by simp
  qed
  obtain r g where b: "run_migration ?fault (de_text env) 0 migration_statements (blank_save env) = (r, g)" by fastforce
  with i(3) \<open>i = k\<close> have g: "g = ?g" by simp
  have r: "k = length migration_statements \<and> r = Inr () \<or> (\<exists>e. r = Inl e)"
    using i(4) b \<open>i = k\<close> by (auto split: if_splits)
  have "\<exists>e. configure ?fault (de_text env) (blank_save env) = (Inl e, ?g)"
    using r b g fault(1) by (auto simp: configure_def blank_save_def)
  then obtain e where "configure ?fault (de_text env) (blank_save env) = (Inl e, ?g)" ..
  then have "\<exists>x. open_actor env p d = (Inl x, close_failed env p (d(p := Some (Saved ?g))))"
    by (simp add: open_actor_def Let_def fresh(1) opens)
  then obtain x where o: "open_actor env p d = (Inl x, close_failed env p (d(p := Some (Saved ?g))))" ..
  let ?d1 = "close_failed env p (d(p := Some (Saved ?g)))"
  have d1: "?d1 p = Some (Saved ?g)" "?d1 (backup_path p) = None" "?d1 (previous_path (backup_path p)) = None"
    using fresh names by (auto simp: close_failed_def database_files_def)
  then have run: "open_database_with_recovery env p now d = (Inl x, ?d1)"
    by (simp add: open_database_with_recovery_def o path_exists_def)
  show ?thesis
  proof (cases "k < 2")
    case True
    then have "k = 0 \<or> k = 1" by auto
    moreover obtain rest where m: "migration_statements = SetForeignKeys # CreateObject ''table'' ''schema_migrations'' # rest"
      by (rule migration_start)
    ultimately have blank: "?g = blank_save env" by (auto simp: m schema_entries_def blank_save_def)
    let ?env = "env\<lparr>de_faults := no_faults\<rparr>"
    have "configure (statement_fault ?env p ?d1) (de_text env) (blank_save env) = (Inr migration_1, new_save env migration_1)"
      using configure_new [of "blank_save env" "statement_fault ?env p ?d1" "de_text env"]
      by (simp add: blank_save_def new_save_def statement_fault_def no_faults_def)
    then have "fst (open_actor ?env p ?d1) = Inr migration_1"
      using d1(1) blank by (simp add: open_actor_def Let_def no_faults_def)
    then have "fst (open_database_with_recovery ?env p later ?d1) = Inr migration_1"
      by (cases "open_actor ?env p ?d1") (simp add: open_database_with_recovery_def)
    with run True show ?thesis by simp
  next
    case False
    have "created_objects (take k migration_statements) \<noteq> []"
    proof -
      obtain rest where m: "migration_statements = SetForeignKeys # CreateObject ''table'' ''schema_migrations'' # rest"
        by (rule migration_start)
      have "k = Suc (Suc (k - 2))" using False by simp
      then show ?thesis by (metis m take_Suc_Cons created_objects.simps(2,3) list.distinct(1))
    qed
    then have "object_exists ''table'' ''schema_migrations'' (sf_schema ?g)"
      using objects_started [of "sf_schema ?g" k] by (auto simp: entries_objects)
    then have blocked: "blocked p ?g ?d1" using d1 by (simp add: blocked_def blank_save_def)
    have "\<exists>y. fst (open_database_with_recovery later_env p later
        (fold (\<lambda>(env, now) d. snd (open_database_with_recovery env p now d)) attempts ?d1)) = Inl y" for attempts
      using blocked_open [OF blocked_opens [OF names blocked, of attempts] names, of later_env later] by fastforce
    with run False show ?thesis by auto
  qed
qed

text \<open>Stopped at the third of its statements.\<close>

theorem interrupted_migration_blocks_witness:
  "\<exists>x d1. open_database_with_recovery
        (demo_disk_env\<lparr>de_faults := \<lambda>op _. if op = RunStatement ''ggfm.sqlite3'' 2 then Some (''disk full'', False) else None\<rparr>)
        ''ggfm.sqlite3'' 9 (\<lambda>_. None) = (Inl x, d1)
     \<and> (\<exists>y. fst (open_database_with_recovery demo_disk_env ''ggfm.sqlite3'' 10 d1) = Inl y)"
proof -
  let ?env = "demo_disk_env\<lparr>de_faults := \<lambda>op _. if op = RunStatement ''ggfm.sqlite3'' 2 then Some (''disk full'', False) else None\<rparr>"
  obtain rest where m: "migration_statements = SetForeignKeys # CreateObject ''table'' ''schema_migrations'' # rest"
    by (rule migration_start)
  have "\<exists>x d1. open_database_with_recovery ?env ''ggfm.sqlite3'' 9 (\<lambda>_. None) = (Inl x, d1)
      \<and> (if (2::nat) < 2 then fst (open_database_with_recovery (?env\<lparr>de_faults := no_faults\<rparr>) ''ggfm.sqlite3'' 10 d1) = Inr migration_1
         else \<forall>attempts. \<exists>y. fst (open_database_with_recovery demo_disk_env ''ggfm.sqlite3'' 10
              (fold (\<lambda>(env, now) d. snd (open_database_with_recovery env ''ggfm.sqlite3'' now d)) attempts d1)) = Inl y)"
    by (rule interrupted_migration_blocks [where message = "''disk full''" and partial = False]) (simp_all add: demo_names m)
  then obtain x d1 where run: "open_database_with_recovery ?env ''ggfm.sqlite3'' 9 (\<lambda>_. None) = (Inl x, d1)"
    and again: "\<forall>attempts. \<exists>y. fst (open_database_with_recovery demo_disk_env ''ggfm.sqlite3'' 10
        (fold (\<lambda>(env, now) d. snd (open_database_with_recovery env ''ggfm.sqlite3'' now d)) attempts d1)) = Inl y"
    by auto
  from again [rule_format, of "[]"] run show ?thesis by auto
qed

end
