(* ===== verification/Startup.thy ===== *)
theory Startup
  imports Server Files
begin

text \<open>
  The life of a server: \<open>start\<close> on a disk, the login, the backup made before it stops
  (\<open>crates/transport-http/src/lib.rs\<close>), and the transfer of a save to and from another file while no server
  runs (\<open>crates/persistence-sqlite/src/transfer.rs\<close>).

  The file at the path of the database holds what the server last committed; the statements about a
  start, a backup or a recovery are about that file and the ones beside it.
\<close>

section \<open>Start\<close>

text \<open>
  What a start is given. The file of the master data is the error of opening it or its content; the
  template of the environment has the parts that do not come from the configuration.
\<close>

record server_config =
  sc_database_path :: string
  sc_master :: "master_error + master_file"
  sc_capability :: string
  sc_clock :: device_clock
  sc_asset_source :: "asset_source option"

record start_env =
  su_disk :: disk_env
  su_http :: http_env
  su_hash :: "string \<Rightarrow> nat list"
  su_address :: "string + string"

record server_handle =
  sh_env :: http_env
  sh_server :: server
  sh_path :: string

fun master_text :: "(sql_error \<Rightarrow> string) \<Rightarrow> master_error \<Rightarrow> string" where
  "master_text sql (MasterSql e) = sql e"
| "master_text sql MasterStatement = sql InvalidColumnType"
| "master_text sql (MasterSchema actual expected) =
     ''master.sqlite schema '' @ show_int actual @ '' is not supported (expected '' @ show_int expected @ '')''"
| "master_text sql (MasterIntegrity result) = ''master.sqlite failed integrity_check: '' @ result"
| "master_text sql (MasterMissing table) = ''master.sqlite is missing required table '' @ table"

definition start_catalog ::
  "(sql_error \<Rightarrow> string) \<Rightarrow> master_error + master_file \<Rightarrow> string + master_catalog" where
  "start_catalog sql file =
     (case sum_bind file (\<lambda>m. sum_bind (open_read_only m) (\<lambda>metadata. load_catalog metadata m)) of
        Inl e \<Rightarrow> Inl (master_text sql e)
      | Inr cat \<Rightarrow> apply_memorial_shop_policy (memorial_shop embedded_policy) cat)"

text \<open>The map keeps the last row of an id.\<close>

definition start_rules :: "master_catalog \<Rightarrow> reward_rules" where
  "start_rules cat =
     \<lparr>costume_fan_bonuses =
        fold (\<lambda>row. tbl_put (mcos_id row) (mcos_area row, to_f32 (costume_bonus cat row))) (mc_costumes cat) []\<rparr>"

definition start_achievements :: "master_catalog \<Rightarrow> int list" where
  "start_achievements cat = map mach_id (filter mach_active (mc_achievements cat))"

definition start_store ::
  "master_catalog \<Rightarrow> int \<Rightarrow> db \<Rightarrow> (store_error + reward_rules \<times> int list) \<times> db" where
  "start_store cat now s =
     (case configure_reward_rules (start_rules cat) of
        Inl e \<Rightarrow> (Inl e, s)
      | Inr rules \<Rightarrow>
      (case tx_commit (configure_achievement_catalog (start_achievements cat) now) s of
        (Inl e, s1) \<Rightarrow> (Inl e, s1)
      | (Inr (_, ids), s1) \<Rightarrow>
      (case ensure_default_slot now ids s1 of
        (Inl e, s2) \<Rightarrow> (Inl e, s2)
      | (Inr _, s2) \<Rightarrow> (Inr (rules, ids), s2))))"

text \<open>What the disk holds once the database at a path has committed a store.\<close>

definition save_db :: "disk_env \<Rightarrow> string \<Rightarrow> db \<Rightarrow> disk \<Rightarrow> disk" where
  "save_db env p s d =
     (case d p of
        Some (Saved f) \<Rightarrow> d(p := Some (Saved (f\<lparr>sf_bytes := de_size env s, sf_data := s\<rparr>)))
      | _ \<Rightarrow> d)"

definition start_http :: "start_env \<Rightarrow> server_config \<Rightarrow> master_catalog \<Rightarrow> reward_rules \<Rightarrow> int list \<Rightarrow> string \<Rightarrow> http_env" where
  "start_http env config cat rules ids address =
     (su_http env)\<lparr>he_game := (he_game (su_http env))\<lparr>ge_master := cat, ge_endpoint := ''http://'' @ address,
                     ge_rules := rules, ge_achievement_ids := ids\<rparr>,
        he_capability := sc_capability config, he_capability_hash := su_hash env (sc_capability config),
        he_asset_source := sc_asset_source config, he_sql_text := de_sql_text (su_disk env)\<rparr>"

definition start :: "start_env \<Rightarrow> server_config \<Rightarrow> disk \<Rightarrow> (string + server_handle) \<times> disk" where
  "start env config d =
     (let p = sc_database_path config; now = unix_seconds (sc_clock config); sql = de_sql_text (su_disk env)
      in case start_catalog sql (sc_master config) of
           Inl e \<Rightarrow> (Inl e, d)
         | Inr cat \<Rightarrow>
         (case open_database_with_recovery (su_disk env) p now d of
           (Inl e, d1) \<Rightarrow> (Inl e, d1)
         | (Inr s, d1) \<Rightarrow>
         (case start_store cat now s of
           (r, t) \<Rightarrow>
             (case r of
                Inl e \<Rightarrow> Inl (store_text sql e)
              | Inr (rules, ids) \<Rightarrow>
                (case su_address env of
                   Inl e \<Rightarrow> Inl e
                 | Inr address \<Rightarrow>
                     Inr \<lparr>sh_env = start_http env config cat rules ids address,
                          sh_server = \<lparr>se_session = None, se_notice_emitted = False, se_db = t\<rparr>,
                          sh_path = p\<rparr>),
              save_db (su_disk env) p t d1))))"

text \<open>
  The command line server (\<open>crates/server-cli/src/main.rs\<close>): a start and one login. What the environment
  variables and the random source give are arguments.
\<close>

definition cli_main ::
  "start_env \<Rightarrow> string option \<Rightarrow> string \<Rightarrow> (master_error + master_file) option \<Rightarrow> string option \<Rightarrow> int \<Rightarrow> disk
   \<Rightarrow> (string + server_handle) \<times> disk" where
  "cli_main env capability random master database now d =
     (case master of
        None \<Rightarrow> (Inl ''GGFM_MASTER_SQLITE must point to a Patcher-generated master.sqlite'', d)
      | Some file \<Rightarrow>
        (let clock = \<lparr>unix_seconds = now, utc_offset_minutes = 0\<rparr>;
             config = \<lparr>sc_database_path = or_else ''ggfm.sqlite3'' database, sc_master = file,
               sc_capability = or_else random capability, sc_clock = clock, sc_asset_source = None\<rparr>
         in case start env config d of
              (Inl e, d1) \<Rightarrow> (Inl e, d1)
            | (Inr h, d1) \<Rightarrow>
              (case server_login (sh_env h) clock (sh_server h) of
                 (r, v) \<Rightarrow>
                   (case r of Inl e \<Rightarrow> Inl e | Inr _ \<Rightarrow> Inr (h\<lparr>sh_server := v\<rparr>),
                    save_db (su_disk env) (sh_path h) (se_db v) d1))))"

section \<open>The backup before a stop\<close>

text \<open>\<open>VACUUM INTO\<close> refuses a file that exists and holds something.\<close>

definition backup_to :: "disk_env \<Rightarrow> db \<Rightarrow> string \<Rightarrow> disk \<Rightarrow> (string + unit) \<times> disk" where
  "backup_to env s p d =
     (case de_faults env (VacuumInto p) d of
        Some (e, partial) \<Rightarrow> (Inl e, if partial \<and> d p = None then d(p := Some (Garbage 1 (Sql InvalidColumnType))) else d)
      | None \<Rightarrow>
          if d p = None \<or> d p = Some Empty then (Inr (), d(p := Some (Saved (new_save env s))))
          else (Inl ''output file already exists'', d))"

definition checkpoint :: "disk_env \<Rightarrow> string \<Rightarrow> disk \<Rightarrow> string + unit" where
  "checkpoint env p d = (case de_faults env (Checkpoint p) d of Some (e, _) \<Rightarrow> Inl e | None \<Rightarrow> Inr ())"

definition prepare_shutdown ::
  "disk_env \<Rightarrow> string \<Rightarrow> int \<Rightarrow> int \<Rightarrow> server \<Rightarrow> disk \<Rightarrow> (string + unit) \<times> disk" where
  "prepare_shutdown env p process_id now v d =
     (if se_session v = None then (Inr (), d)
      else case checkpoint env p d of
        Inl e \<Rightarrow> (Inl e, d)
      | Inr _ \<Rightarrow>
        (let temporary = temporary_path p process_id now
         in case backup_to env (se_db v) temporary d of
              (Inl e, d1) \<Rightarrow> (Inl e, d1)
            | (Inr _, d1) \<Rightarrow> publish_backup (de_faults env) temporary (backup_path p) d1))"

section \<open>Transfer\<close>

definition max_save_bytes :: int where
  "max_save_bytes = 256 * 1024 * 1024"

fun file_bytes :: "disk_file \<Rightarrow> int" where
  "file_bytes Empty = 0"
| "file_bytes (Garbage n _) = n"
| "file_bytes (Saved f) = sf_bytes f"

fun saved_content :: "disk_file \<Rightarrow> store_error + save_file" where
  "saved_content (Saved f) = Inr f"
| "saved_content (Garbage _ e) = Inl e"
| "saved_content Empty = Inl (UnsupportedSchema 0 database_schema_version)"

text \<open>The objects by type and name, without those of SQLite itself; in \<open>LIKE 'sqlite_%'\<close> the underscore is any character.\<close>

definition listed_schema :: "(string \<times> string \<times> string option) list \<Rightarrow> (string \<times> string \<times> string option) list" where
  "listed_schema schema = sort_key (\<lambda>(kind, name, _). (kind, name))
     (filter (\<lambda>(_, name, _). \<not> (6 < length name \<and> eq_ignore_case (take 6 name) ''sqlite'')) schema)"

definition validated :: "disk_env \<Rightarrow> string \<Rightarrow> disk \<Rightarrow> store_error + save_file" where
  "validated env p d =
     (case d p of
        None \<Rightarrow> Inl (store_error.Io ''not found'')
      | Some file \<Rightarrow>
          if file_bytes file = 0 \<or> max_save_bytes < file_bytes file
          then Inl (Integrity ''save size outside supported limits'')
          else case de_faults env (OpenDatabase p) d of
            Some (e, _) \<Rightarrow> Inl (store_error.Io e)
          | None \<Rightarrow>
            sum_bind (saved_content file) (\<lambda>f.
              if sf_version f \<noteq> database_schema_version
              then Inl (UnsupportedSchema (sf_version f) database_schema_version)
              else if listed_schema (sf_schema f) \<noteq> listed_schema (migrated_schema (de_text env))
              then Inl (Integrity ''save schema does not match this build'')
              else if sf_integrity f \<noteq> ''ok'' \<or> \<not> sf_foreign_keys_ok f
              then Inl (Integrity ''save integrity or foreign key check failed'')
              else Inr f))"

text \<open>
  The copy is one transaction on the destination: it is done or has not happened. A destination that
  is not a database refuses the transaction.
\<close>

definition copy_transaction ::
  "disk_env \<Rightarrow> string \<Rightarrow> save_file \<Rightarrow> string \<Rightarrow> disk \<Rightarrow> (store_error + unit) \<times> disk" where
  "copy_transaction env p f q d =
     (case de_faults env (CopyPages p q) d of
        Some (e, _) \<Rightarrow> (Inl (store_error.Io e), d)
      | None \<Rightarrow> (case d q of Some (Garbage _ e) \<Rightarrow> (Inl e, d) | _ \<Rightarrow> (Inr (), d(q := Some (Saved f)))))"

text \<open>\<open>Connection::open\<close> on a path without a file creates it.\<close>

definition open_connection :: "disk_env \<Rightarrow> string \<Rightarrow> disk \<Rightarrow> (store_error + unit) \<times> disk" where
  "open_connection env p d =
     (case de_faults env (OpenDatabase p) d of
        Some (e, _) \<Rightarrow> (Inl (store_error.Io e), d)
      | None \<Rightarrow> (Inr (), if d p = None then d(p := Some Empty) else d))"

definition finish_file :: "disk_env \<Rightarrow> string \<Rightarrow> disk \<Rightarrow> store_error + unit" where
  "finish_file env p d = (case de_faults env (FinishFile p) d of Some (e, _) \<Rightarrow> Inl (store_error.Io e) | None \<Rightarrow> Inr ())"

definition export_save :: "disk_env \<Rightarrow> string \<Rightarrow> string \<Rightarrow> disk \<Rightarrow> (store_error + unit) \<times> disk" where
  "export_save env source output d =
     (case validated env source d of
        Inl e \<Rightarrow> (Inl e, d)
      | Inr f \<Rightarrow>
        if path_exists d output then (Inl (store_error.Io ''file exists''), d)
        else case de_faults env (CreateFile output) d of
          Some (e, _) \<Rightarrow> (Inl (store_error.Io e), d)
        | None \<Rightarrow>
          (case open_connection env output (d(output := Some Empty)) of
             (Inl e, d1) \<Rightarrow> (Inl e, d1)
           | (Inr _, d1) \<Rightarrow>
             (case copy_transaction env source f output d1 of
                (Inl e, d2) \<Rightarrow> (Inl e, d2)
              | (Inr _, d2) \<Rightarrow> (finish_file env output d2, d2))))"

text \<open>Paths are canonical, so the two files are the same exactly when their paths are.\<close>

definition import_save :: "disk_env \<Rightarrow> string \<Rightarrow> string \<Rightarrow> disk \<Rightarrow> (store_error + unit) \<times> disk" where
  "import_save env source destination d =
     (case validated env source d of
        Inl e \<Rightarrow> (Inl e, d)
      | Inr f \<Rightarrow>
        if path_exists d destination \<and> source = destination
        then (Inl (Integrity ''source and destination must differ''), d)
        else case open_connection env destination d of
          (Inl e, d1) \<Rightarrow> (Inl e, d1)
        | (Inr _, d1) \<Rightarrow> copy_transaction env source f destination d1)"


section \<open>Facts\<close>

lemma backup_to_cases:
  assumes "backup_to env s p d = (r, d')"
  shows "(x \<noteq> p \<longrightarrow> d' x = d x) \<and> (r = Inr () \<longrightarrow> d' p = Some (Saved (new_save env s)))"
  using assms by (auto simp: backup_to_def split: option.splits if_splits)

lemma prepare_shutdown_cases:
  assumes run: "prepare_shutdown env p process_id now v d = (r, d')"
    and names: "distinct [temporary_path p process_id now, backup_path p, previous_path (backup_path p)]"
  shows "(r = Inr () \<and> se_session v \<noteq> None \<and> d' (backup_path p) = Some (Saved (new_save env (se_db v))))
    \<or> ((r \<noteq> Inr () \<or> se_session v = None) \<and> (d' (backup_path p) = d (backup_path p)
         \<or> d' (backup_path p) = None \<and> d' (previous_path (backup_path p)) = d (backup_path p)))"
proof (cases "se_session v = None")
  case True
  with run show ?thesis by (simp add: prepare_shutdown_def)
next
  case session: False
  let ?T = "temporary_path p process_id now" and ?B = "backup_path p"
  obtain r1 d1 where b: "backup_to env (se_db v) ?T d = (r1, d1)" by fastforce
  obtain r2 d2 where q: "publish_backup (de_faults env) ?T ?B d1 = (r2, d2)" by fastforce
  have d1: "d1 ?B = d ?B" using backup_to_cases [OF b, of ?B] names by auto
  show ?thesis
  proof (cases "checkpoint env p d")
    case (Inl e)
    with run session show ?thesis by (auto simp: prepare_shutdown_def)
  next
    case ready: (Inr u)
    show ?thesis
    proof (cases r1)
      case (Inl e)
      with run session ready b d1 show ?thesis by (auto simp: prepare_shutdown_def Let_def)
    next
      case (Inr w)
      then have "r = r2" "d' = d2" using run session ready b q by (simp_all add: prepare_shutdown_def Let_def)
      moreover have "d1 ?T = Some (Saved (new_save env (se_db v)))" using backup_to_cases [OF b] Inr by simp
      ultimately show ?thesis using publish_backup_keeps [OF q names] d1 session by metis
    qed
  qed
qed

lemma preserve_returns: "faults = no_faults \<Longrightarrow> \<exists>ps d'. preserve_files faults now os d = (Inr ps, d')"
proof (induction os arbitrary: d)
  case (Cons o' os)
  show ?case
  proof (cases "d o'")
    case None
    then show ?thesis using Cons by (simp add: path_exists_def)
  next
    case (Some f)
    let ?d = "(d(o' := None))(archive_path now o' := Some f)"
    obtain ps d' where "preserve_files faults now os ?d = (Inr ps, d')" using Cons by blast
    then show ?thesis using Some Cons.prems by (simp add: path_exists_def fs_rename_def no_faults_def)
  qed
qed simp

text \<open>A damaged database opens as the first backup that is there, when that is a save.\<close>

lemma recovered_from:
  assumes fine: "de_faults env = no_faults" and damaged: "d p = Some (Garbage n e)"
    and names: "distinct (database_files p @ map (archive_path now) (database_files p) @ [backup_path p, previous_path (backup_path p)])"
    and good: "sf_integrity f = ''ok''" "sf_version f = database_schema_version"
    and there: "d (backup_path p) = Some (Saved f)
      \<or> d (backup_path p) = None \<and> d (previous_path (backup_path p)) = Some (Saved f)"
  shows "fst (open_database_with_recovery env p now d) = Inr (sf_data f)"
proof -
  let ?B = "backup_path p" and ?P = "previous_path (backup_path p)" and ?f = "database_files p"
  have "\<exists>x. fst (open_actor env p d) = Inl x" by (simp add: open_actor_def Let_def fine no_faults_def damaged)
  then obtain x d1 where o: "open_actor env p d = (Inl x, d1)" by (metis prod.collapse)
  have ne: "?B \<noteq> p" "?P \<noteq> p" using names path_in_files by auto
  have "?B \<notin> set ?f" "?P \<notin> set ?f" using names by auto
  note d1 = open_actor_other [OF o this(1)] open_actor_other [OF o this(2)] open_actor_failed [OF o]
  obtain ps d2 where pre: "preserve_files (de_faults env) now ?f d1 = (Inr ps, d2)"
    using preserve_returns [OF fine] by blast
  have dist: "distinct (?f @ map (archive_path now) ?f)" using names by auto
  note facts = preserved [OF pre dist]
  have "?B \<notin> set ?f \<union> archive_path now ` set ?f" "?P \<notin> set ?f \<union> archive_path now ` set ?f" using names by auto
  then have d2: "d2 ?B = d ?B" "d2 ?P = d ?P" using facts d1(1,2) by metis+
  have p: "d2 p = None" using facts path_in_files by blast
  have opened: "open_actor env p (d2(p := Some (Saved f))) = (Inr (sf_data f), d2(p := Some (Saved f)))"
    using good by (intro opened_current) (simp_all add: fine no_faults_def)
  have tries: "try_candidates env p [?B, ?P] d2 = (Inr (Inr (sf_data f)), d2(p := Some (Saved f)))"
    using there p opened by (elim disjE) (auto simp: path_exists_def d2 fs_copy_def fine no_faults_def)
  have go: "path_exists d1 p = True" "list_ex (path_exists d1) [?B, ?P] = True"
    using damaged there d1 by (auto simp: path_exists_def)
  show ?thesis
    unfolding open_database_with_recovery_def o prod.case sum.case Let_def go not_True_eq_False if_False pre tries by simp
qed

lemma validated_Inr:
  "validated env p d = Inr f \<Longrightarrow> d p = Some (Saved f) \<and> sf_integrity f = ''ok'' \<and> sf_foreign_keys_ok f
     \<and> sf_version f = database_schema_version \<and> listed_schema (sf_schema f) = listed_schema (migrated_schema (de_text env)) \<and> 0 \<noteq> sf_bytes f \<and> sf_bytes f \<le> max_save_bytes"
  by (auto simp: validated_def sum_bind_Inr split: option.splits if_splits elim!: saved_content.elims)

lemma copy_cases:
  "copy_transaction env p f q d = (r, d') \<Longrightarrow> r = Inr () \<and> d' = d(q := Some (Saved f)) \<or> r \<noteq> Inr () \<and> d' = d"
  by (auto simp: copy_transaction_def split: option.splits disk_file.splits)

lemma open_connection_cases:
  "open_connection env p d = (r, d') \<Longrightarrow> d' = d \<or> d p = None \<and> d' = d(p := Some Empty)"
  by (auto simp: open_connection_def split: option.splits if_splits)

text \<open>An import is done or has not happened, and what it imports is a save of this build.\<close>

lemma import_cases:
  assumes run: "import_save env x q d = (r, d')"
  shows "(\<exists>f. r = Inr () \<and> validated env x d = Inr f \<and> x \<noteq> q \<and> d' = d(q := Some (Saved f)))
    \<or> (r \<noteq> Inr () \<and> (d' = d \<or> d q = None \<and> d' = d(q := Some Empty)))"
proof (cases "validated env x d")
  case (Inl e)
  with run show ?thesis by (auto simp: import_save_def)
next
  case (Inr f)
  note v = this
  show ?thesis
  proof (cases "path_exists d q \<and> x = q")
    case True
    with run v show ?thesis by (auto simp: import_save_def)
  next
    case False
    then have ne: "x \<noteq> q" using validated_Inr [OF v] by (auto simp: path_exists_def)
    obtain r1 d1 where o: "open_connection env q d = (r1, d1)" by fastforce
    show ?thesis
    proof (cases r1)
      case (Inl e)
      with run v False o open_connection_cases [OF o] show ?thesis by (auto simp: import_save_def)
    next
      case (Inr u)
      then have "copy_transaction env x f q d1 = (r, d')" using run v False o by (simp add: import_save_def)
      from copy_cases [OF this] open_connection_cases [OF o] v ne show ?thesis by auto
    qed
  qed
qed

lemma export_Inr:
  assumes run: "export_save env p x d = (Inr (), d')"
  shows "\<exists>f. validated env p d = Inr f \<and> d x = None \<and> d' = d(x := Some (Saved f))"
proof -
  from run obtain f where f: "validated env p d = Inr f" by (cases "validated env p d") (auto simp: export_save_def)
  with run have none: "d x = None" by (auto simp: export_save_def path_exists_def split: if_splits)
  obtain r1 d1 where o: "open_connection env x (d(x := Some Empty)) = (r1, d1)" by fastforce
  obtain r2 d2 where c: "copy_transaction env p f x d1 = (r2, d2)" by fastforce
  have "r1 = Inr () \<and> r2 = Inr () \<and> d' = d2"
    using run by (auto simp: export_save_def f none path_exists_def o c split: option.splits sum.splits prod.splits)
  with o open_connection_cases [OF o] copy_cases [OF c] f none show ?thesis by auto
qed

text \<open>An export that fails after it has reserved its file blocks every later one to that path.\<close>

lemma failed_export_blocks:
  assumes "export_save env p x d = (Inl e, d')" "d' x \<noteq> d x"
  shows "\<exists>e'. export_save env' p x d' = (Inl e', d')"
proof (cases "d' x")
  case None
  from assms(1) have "d' = d \<or> d' x \<noteq> None"
    by (auto simp: export_save_def open_connection_def copy_transaction_def path_exists_def
        split: sum.splits option.splits if_splits disk_file.splits prod.splits)
  with None assms(2) show ?thesis by simp
next
  case (Some f)
  then show ?thesis by (cases "validated env' p d'") (simp_all add: export_save_def path_exists_def)
qed

text \<open>A capability opens one session: once it is in the store, a login with it is refused, in a later process too.\<close>

lemma capability_used_once:
  assumes "begin_login_tx h c s = Inr (l, t)"
  shows "\<exists>e. begin_login_tx h c' t = Inl e"
proof (rule ccontr)
  assume "\<not> ?thesis"
  then obtain l' t' where again: "begin_login_tx h c' t = Inr (l', t')" by (cases "begin_login_tx h c' t") auto
  obtain u where t: "login_sessions t = tbl_put (session_nonce s + 1) (new_session u h c) (end_all (unix_seconds c) (login_sessions s))"
    by (rule begin_login_Inr [OF assms])
  have "(session_nonce s + 1, new_session u h c) \<in> set (login_sessions t)"
    unfolding t by (rule tbl_get_SomeD) simp
  then have "\<exists>x\<in>set (end_all (unix_seconds c') (login_sessions t)). ser_capability_hash (snd x) = h"
    by (force simp: end_all_def tbl_set_def new_session_def)
  moreover have "list_all (\<lambda>(n, r). ser_capability_hash r \<noteq> h) (end_all (unix_seconds c') (login_sessions t))"
    using again by (auto simp: begin_login_tx_def select_session_Inr open_session_Inr tx_simps)
  ultimately show False by (auto simp: list_all_iff)
qed

section \<open>Properties\<close>

text \<open>C29: A backup survives every stop. Whatever failed while a server made its backup, and whatever then damaged
the database, the next start opens it as the store of the server that stopped or as the one of the backup before;
when the backup was reported as made, as the former.\<close>

theorem backup_recovers:
  assumes run: "prepare_shutdown env p process_id now v d = (r, d')"
    and before: "d (backup_path p) = Some (Saved f)" "sf_integrity f = ''ok''" "sf_version f = database_schema_version"
    and names: "distinct (database_files p @ map (archive_path later) (database_files p)
        @ [temporary_path p process_id now, backup_path p, previous_path (backup_path p)])"
    and fine: "de_faults later_env = no_faults"
  shows "\<exists>s. fst (open_database_with_recovery later_env p later (d'(p := Some (Garbage n e)))) = Inr s
    \<and> (s = se_db v \<or> s = sf_data f) \<and> (r \<noteq> Inr () \<or> se_session v = None \<or> s = se_db v)"
proof -
  let ?d = "d'(p := Some (Garbage n e))" and ?B = "backup_path p"
  have ne: "?B \<noteq> p" "previous_path ?B \<noteq> p" using names path_in_files by auto
  have names': "distinct (database_files p @ map (archive_path later) (database_files p) @ [?B, previous_path ?B])"
    "distinct [temporary_path p process_id now, ?B, previous_path ?B]" using names by auto
  have opens: "fst (open_database_with_recovery later_env p later ?d) = Inr (sf_data g)"
    if "sf_integrity g = ''ok''" "sf_version g = database_schema_version"
      "d' ?B = Some (Saved g) \<or> d' ?B = None \<and> d' (previous_path ?B) = Some (Saved g)" for g
    using that ne by (intro recovered_from [OF fine _ names'(1)]) auto
  have new: "sf_integrity (new_save env s) = ''ok''" "sf_version (new_save env s) = database_schema_version"
    "sf_data (new_save env s) = s" for s by (simp_all add: new_save_def)
  from prepare_shutdown_cases [OF run names'(2)] show ?thesis
  proof (elim disjE conjE)
    assume "d' ?B = Some (Saved (new_save env (se_db v)))"
    with opens [OF new(1,2)] show ?thesis by (simp add: new(3))
  qed (use opens [OF before(2,3)] before(1) in auto)
qed

text \<open>C30: A save that is exported and imported is the save: the destination holds exactly the content of the
source and opens as its store, no other file changes, and an import that fails leaves the destination as it was
(or an empty file where there was none).\<close>

theorem transfer_exact:
  assumes exp: "export_save env p x d = (Inr (), d1)" and imp: "import_save env2 x q d1 = (r, d2)"
  shows "\<exists>f. d p = Some (Saved f) \<and> d x = None \<and> d1 = d(x := Some (Saved f))
    \<and> (r = Inr () \<and> x \<noteq> q \<and> d2 = d1(q := Some (Saved f))
         \<and> fst (open_actor (env2\<lparr>de_faults := no_faults\<rparr>) q d2) = Inr (sf_data f)
       \<or> r \<noteq> Inr () \<and> (d2 = d1 \<or> d1 q = None \<and> d2 = d1(q := Some Empty)))"
proof -
  from export_Inr [OF exp] obtain f where f: "validated env p d = Inr f" "d x = None" "d1 = d(x := Some (Saved f))" by blast
  have p: "d p = Some (Saved f)" using validated_Inr [OF f(1)] by simp
  from import_cases [OF imp] show ?thesis
  proof (elim disjE exE conjE)
    fix g assume g: "r = Inr ()" "validated env2 x d1 = Inr g" "x \<noteq> q" "d2 = d1(q := Some (Saved g))"
    note ok = validated_Inr [OF g(2)]
    then have "g = f" using f(3) by simp
    moreover have "fst (open_actor (env2\<lparr>de_faults := no_faults\<rparr>) q d2) = Inr (sf_data g)"
      using ok opened_current [of d2 q g "env2\<lparr>de_faults := no_faults\<rparr>"] by (simp add: g(4) no_faults_def)
    ultimately show ?thesis using f p g by blast
  qed (use f p in blast)+
qed


section \<open>A concrete stop and transfer\<close>

definition stopping_server :: server where
  "stopping_server = \<lparr>se_session = Some \<lparr>ls_identity = \<lparr>id_usn = 1, id_user_id = ''1''\<rparr>, ls_nonce = 1, ls_capability = [],
     ls_clock = \<lparr>unix_seconds = 0, utc_offset_minutes = 0\<rparr>\<rparr>, se_notice_emitted = False, se_db = demo_db\<rparr>"

lemma demo_temporary: "temporary_path ''ggfm.sqlite3'' 5 9 = ''ggfm.sqlite3.backup.5.9.new''"
proof -
  have "show_int 5 = ''5''" "show_int 9 = ''9''" by (simp_all add: show_int_def show_nat.simps digit_char_def) (code_simp, code_simp)
  moreover have "with_extension ''ggfm.sqlite3'' ''sqlite3.backup.5.9.new'' = ''ggfm.sqlite3.backup.5.9.new''" by code_simp
  ultimately show ?thesis by (simp add: temporary_path_def)
qed

theorem backup_recovers_witness:
  "\<exists>d'. prepare_shutdown demo_disk_env ''ggfm.sqlite3'' 5 9 stopping_server demo_disk = (Inr (), d')
     \<and> fst (open_database_with_recovery demo_disk_env ''ggfm.sqlite3'' 9
           (d'(''ggfm.sqlite3'' := Some (Garbage 7 (Sql InvalidColumnType))))) = Inr demo_db"
proof -
  have "\<exists>d'. prepare_shutdown demo_disk_env ''ggfm.sqlite3'' 5 9 stopping_server demo_disk = (Inr (), d')"
    by (simp add: prepare_shutdown_def checkpoint_def backup_to_def publish_backup_def demo_names demo_temporary
        no_faults_def demo_disk_def demo_disk_env_def path_exists_def fs_rename_def stopping_server_def)
  then obtain d' where d': "prepare_shutdown demo_disk_env ''ggfm.sqlite3'' 5 9 stopping_server demo_disk = (Inr (), d')" by blast
  have b: "demo_disk (backup_path ''ggfm.sqlite3'') = Some (Saved (new_save demo_disk_env migration_1))"
    by (simp add: demo_names demo_disk_def)
  from backup_recovers [OF d' b, of 9 demo_disk_env 7 "Sql InvalidColumnType"] d' show ?thesis
    by (simp add: demo_names demo_temporary new_save_def) (auto simp: demo_disk_env_def stopping_server_def)
qed

theorem transfer_exact_witness:
  "\<exists>d1 d2. export_save demo_disk_env ''new'' ''copy'' demo_disk = (Inr (), d1)
     \<and> import_save demo_disk_env ''copy'' ''ggfm.sqlite3.backup'' d1 = (Inr (), d2)
     \<and> d2 ''ggfm.sqlite3.backup'' = demo_disk ''new''"
proof -
  have "\<exists>d1. export_save demo_disk_env ''new'' ''copy'' demo_disk = (Inr (), d1)
      \<and> (\<exists>d2. import_save demo_disk_env ''copy'' ''ggfm.sqlite3.backup'' d1 = (Inr (), d2))"
    by (simp add: export_save_def import_save_def validated_def sum_bind_def open_connection_def copy_transaction_def
        finish_file_def path_exists_def no_faults_def demo_disk_def demo_disk_env_def new_save_def max_save_bytes_def)
  then obtain d1 d2 where run: "export_save demo_disk_env ''new'' ''copy'' demo_disk = (Inr (), d1)"
    "import_save demo_disk_env ''copy'' ''ggfm.sqlite3.backup'' d1 = (Inr (), d2)" by blast
  from transfer_exact [OF run] run show ?thesis by auto
qed

end
