(* ===== verification/Console.thy ===== *)
theory Console
  imports Files
begin

text \<open>
  What the library shows before and while a server starts (\<open>crates/android-ffi/src/terminal_banner.rs\<close> and the
  log of \<open>crates/android-ffi/src/lib.rs\<close>): the banner for a width, the log of the last 256 lines and its
  transfer into a buffer of the caller.
\<close>

section \<open>The banner\<close>

text \<open>The glyphs are drawn with seven box characters; here each has an ASCII letter of its own.\<close>

definition box_char :: "char \<Rightarrow> nat" where
  "box_char c =
     (if c = CHR ''#'' then 0x2588 else if c = CHR ''='' then 0x2550 else if c = CHR ''|'' then 0x2551
      else if c = CHR ''r'' then 0x2554 else if c = CHR ''7'' then 0x2557 else if c = CHR ''L'' then 0x255A
      else if c = CHR ''J'' then 0x255D else 0x20)"

definition glyph :: "char \<Rightarrow> string list" where
  "glyph c =
    (if c = CHR ''A'' then ['' #####7 '', ''##r==##7'', ''#######|'', ''##r==##|'', ''##|  ##|'', ''L=J  L=J'']
     else if c = CHR ''I'' then [''##7'', ''##|'', ''##|'', ''##|'', ''##|'', ''L=J'']
     else if c = CHR ''R'' then [''######7 '', ''##r==##7'', ''######rJ'', ''##r==##7'', ''##|  ##|'', ''L=J  L=J'']
     else if c = CHR ''S'' then [''#######7'', ''##r====J'', ''#######7'', ''L====##|'', ''#######|'', ''L======J'']
     else if c = CHR ''U'' then [''##7   ##7'', ''##|   ##|'', ''##|   ##|'', ''##|   ##|'', ''L######rJ'', '' L=====J '']
     else if c = CHR ''T'' then [''########7'', ''L==##r==J'', ''   ##|   '', ''   ##|   '', ''   ##|   '', ''   L=J   '']
     else if c = CHR ''E'' then [''#######7'', ''##r====J'', ''#####7  '', ''##r==J  '', ''#######7'', ''L======J'']
     else if c = CHR ''K'' then [''##7  ##7'', ''##| ##rJ'', ''#####rJ '', ''##r=##7 '', ''##|  ##7'', ''L=J  L=J'']
     else [[], [], [], [], [], []])"

definition trim_end :: "ustr \<Rightarrow> ustr" where
  "trim_end line = rev (dropWhile (\<lambda>c. c = 0x20) (rev line))"

definition banner_row :: "string \<Rightarrow> nat \<Rightarrow> ustr" where
  "banner_row word row = trim_end (map box_char (concat (map (\<lambda>c. glyph c ! row) word)))"

definition banner_word :: "string \<Rightarrow> ustr" where
  "banner_word word = concat (map (\<lambda>row. banner_row word row @ [10]) [0..<6])"

definition banner_words :: "int \<Rightarrow> string list" where
  "banner_words columns = (if 66 \<le> columns then [''AIRISUTEK''] else [''AIRISU'', ''TEK''])"

definition render :: "int \<Rightarrow> ustr" where
  "render columns =
     concat (map (\<lambda>(index, word). (if index \<noteq> 0 then [10] else []) @ banner_word word)
       (enumerate 0 (banner_words columns)))"

text \<open>
  \<open>ggfm_server_startup_banner\<close>: the capacity that is needed, and the buffer afterwards. \<open>None\<close> is a null
  pointer.
\<close>

definition startup_banner :: "int \<Rightarrow> string option \<Rightarrow> nat \<times> string option" where
  "startup_banner columns buffer =
     (let text = utf8_encode (render columns); required = length text + 1
      in (required,
          case buffer of
            None \<Rightarrow> None
          | Some memory \<Rightarrow>
              Some (if required \<le> length memory then text @ [CHR 0x00] @ drop required memory else memory)))"

section \<open>The log\<close>

definition boot_line :: "string \<Rightarrow> string" where
  "boot_line message =
     (if starts_with ''['' message then message
      else if starts_with ''fatal.'' message then ''[ERROR] '' @ message
      else ''[INFO] '' @ message)"

definition boot_log :: "string \<Rightarrow> string list \<Rightarrow> string list" where
  "boot_log message logs = (if length logs = 256 then tl logs else logs) @ [boot_line message]"

definition boot_logs :: "string list \<Rightarrow> string list \<Rightarrow> string list" where
  "boot_logs messages logs = fold boot_log messages logs"

text \<open>The loop of \<open>ggfm_server_drain_logs\<close>: whole lines while they fit with the final NUL.\<close>

fun drain_lines :: "nat \<Rightarrow> string \<Rightarrow> string list \<Rightarrow> string \<times> string list" where
  "drain_lines capacity bytes [] = (bytes, [])"
| "drain_lines capacity bytes (line # rest) =
     (let required = length line + (if bytes = [] then 0 else 1)
      in if capacity \<le> length bytes + required then (bytes, line # rest)
         else drain_lines capacity ((if bytes = [] then [] else bytes @ [CHR 0x0A]) @ line) rest)"

definition drain_logs :: "string option \<Rightarrow> string list \<Rightarrow> nat \<times> string option \<times> string list" where
  "drain_logs buffer logs =
     (case buffer of
        None \<Rightarrow> (0, None, logs)
      | Some memory \<Rightarrow>
          if length memory < 2 then (0, Some memory, logs)
          else case drain_lines (length memory) [] logs of
            (bytes, rest) \<Rightarrow> (length bytes, Some (bytes @ [CHR 0x00] @ drop (length bytes + 1) memory), rest))"

section \<open>Facts\<close>

text \<open>What every log of the library is: at most 256 lines, each with its level.\<close>

definition log_ok :: "string list \<Rightarrow> bool" where
  "log_ok logs \<longleftrightarrow> length logs \<le> 256 \<and> list_all (starts_with ''['') logs"

lemma boot_line_level: "starts_with ''['' (boot_line message)"
  by (simp add: boot_line_def starts_with_def)

lemma log_ok_Nil: "log_ok []"
  by (simp add: log_ok_def)

lemma log_ok_boot_log: "log_ok logs \<Longrightarrow> log_ok (boot_log message logs)"
  by (cases logs) (auto simp: log_ok_def boot_log_def boot_line_level)

lemma log_ok_boot_logs: "log_ok logs \<Longrightarrow> log_ok (boot_logs messages logs)"
  unfolding boot_logs_def by (induction messages arbitrary: logs) (simp_all add: log_ok_boot_log)

lemma boot_log_last: "length logs \<le> 256 \<Longrightarrow> boot_log message logs = rev (take 256 (boot_line message # rev logs))"
  by (cases logs) (auto simp: boot_log_def take_rev)

text \<open>The log is the last 256 of all its lines.\<close>

lemma boot_logs_last:
  "length logs \<le> 256 \<Longrightarrow> boot_logs messages logs = rev (take 256 (rev (logs @ map boot_line messages)))"
proof (induction messages rule: rev_induct)
  case (snoc message messages)
  let ?all = "rev (logs @ map boot_line messages)" and ?l = "boot_logs messages logs"
  have l: "?l = rev (take 256 ?all)" using snoc by simp
  have "boot_logs (messages @ [message]) logs = boot_log message ?l" by (simp add: boot_logs_def)
  also have "\<dots> = rev (take 256 (boot_line message # rev ?l))" by (rule boot_log_last) (simp add: l)
  also have "\<dots> = rev (take 256 (boot_line message # ?all))" by (simp add: l del: rev_append)
  finally show ?case by simp
qed (simp add: boot_logs_def)

lemma drain_lines_rest: "drain_lines capacity bytes logs = (bytes', rest) \<Longrightarrow> \<exists>taken. logs = taken @ rest"
proof (induction capacity bytes logs rule: drain_lines.induct)
  case (2 capacity bytes line logs)
  show ?case
  proof (cases "capacity \<le> length bytes + (length line + (if bytes = [] then 0 else 1))")
    case True
    with 2(2) show ?thesis by (auto simp: Let_def)
  next
    case False
    from 2(1) [OF refl False] 2(2) False have "\<exists>taken. logs = taken @ rest" by (simp add: Let_def)
    then show ?thesis by (metis append_Cons)
  qed
qed auto

lemma log_ok_drain:
  assumes "log_ok logs" "drain_logs buffer logs = (n, buffer', rest)"
  shows "log_ok rest"
proof -
  have "\<exists>taken. logs = taken @ rest"
    using assms(2) by (auto simp: drain_logs_def split: option.splits if_splits prod.splits dest: drain_lines_rest)
  with assms(1) show ?thesis by (auto simp: log_ok_def)
qed

lemma join_text_snoc: "ws \<noteq> [] \<Longrightarrow> join_text sep (ws @ [w]) = join_text sep ws @ sep @ w"
  by (induction sep ws rule: join_text.induct) simp_all

text \<open>The lines taken so far are nonempty, so the buffer is empty exactly before the first.\<close>

lemma drain_lines_taken:
  assumes "drain_lines capacity bytes logs = (bytes', rest)" "list_all (\<lambda>l. l \<noteq> []) logs" "list_all (\<lambda>l. l \<noteq> []) before"
    and "bytes = join_text [CHR 0x0A] before" "length bytes < capacity"
  shows "\<exists>taken. logs = taken @ rest \<and> bytes' = join_text [CHR 0x0A] (before @ taken) \<and> length bytes' < capacity
    \<and> (rest \<noteq> [] \<longrightarrow> capacity \<le> length bytes' + length (hd rest) + (if before @ taken = [] then 0 else 1))"
  using assms
proof (induction capacity bytes logs arbitrary: before bytes' rest rule: drain_lines.induct)
  case (2 capacity bytes line logs)
  have empty: "bytes = [] \<longleftrightarrow> before = []"
    using 2(4,5) by (cases before rule: rev_cases) (auto simp: join_text_snoc, metis append_is_Nil_conv join_text_snoc self_append_conv2 join_text.simps(2))
  let ?full = "capacity \<le> length bytes + (length line + (if bytes = [] then 0 else 1))"
  show ?case
  proof (cases ?full)
    case True
    with 2(2) have "bytes' = bytes" "rest = line # logs" by (auto simp: Let_def)
    with True 2(5,6) empty show ?thesis by (intro exI [of _ "[]"]) auto
  next
    case False
    let ?b = "(if bytes = [] then [] else bytes @ [CHR 0x0A]) @ line"
    have b: "?b = join_text [CHR 0x0A] (before @ [line])" using 2(5) empty by (auto simp: join_text_snoc)
    have "drain_lines capacity ?b logs = (bytes', rest)" using 2(2) False by (simp add: Let_def)
    from 2(1) [OF refl False this _ _ b] 2(3,4) False obtain taken where
      "logs = taken @ rest \<and> bytes' = join_text [CHR 0x0A] ((before @ [line]) @ taken) \<and> length bytes' < capacity
        \<and> (rest \<noteq> [] \<longrightarrow> capacity \<le> length bytes' + length (hd rest) + (if (before @ [line]) @ taken = [] then 0 else 1))"
      by (auto split: if_splits)
    then show ?thesis by (intro exI [of _ "line # taken"]) auto
  qed
qed auto

lemma trim_end_shorter: "length (trim_end l) \<le> length l" "set (trim_end l) \<subseteq> set l"
  using length_dropWhile_le [of "\<lambda>c. c = 0x20" "rev l"] set_dropWhileD [of _ "\<lambda>c. c = 0x20" "rev l"]
  by (auto simp: trim_end_def)

lemma box_char_range: "box_char c \<noteq> 0" "box_char c \<noteq> 10"
  by (simp_all add: box_char_def)

lemma rows_fit:
  assumes "list_all (\<lambda>row. length (concat (map (\<lambda>c. glyph c ! row) word)) \<le> w) rows"
  shows "list_all (\<lambda>l. length l \<le> w \<and> (10::nat) \<notin> set l \<and> 0 \<notin> set l) (map (banner_row word) rows)"
proof -
  have "length (banner_row word row) \<le> w \<and> 10 \<notin> set (banner_row word row) \<and> 0 \<notin> set (banner_row word row)"
    if "length (concat (map (\<lambda>c. glyph c ! row) word)) \<le> w" for row
  proof -
    let ?l = "map box_char (concat (map (\<lambda>c. glyph c ! row) word))"
    have "length (banner_row word row) \<le> w"
      using that trim_end_shorter(1) [of ?l] unfolding banner_row_def length_map by (rule order_trans [rotated])
    moreover have "set (banner_row word row) \<subseteq> range box_char"
      using trim_end_shorter(2) [of ?l] unfolding banner_row_def by auto
    ultimately show ?thesis using box_char_range by (metis (no_types, lifting) image_iff subsetD)
  qed
  with assms show ?thesis by (simp add: list_all_iff)
qed

section \<open>Properties\<close>

text \<open>The banner fits: on 66 columns or more it is six lines of at most 66 characters, on fewer thirteen of at
most 46, none with a NUL. The caller's buffer gets the whole text and a NUL or stays untouched, and never a byte
beyond its end.\<close>

lemma banner_fits:
  "(\<exists>ls. render columns = concat (map (\<lambda>l. l @ [10]) ls) \<and> length ls = (if 66 \<le> columns then 6 else 13)
      \<and> list_all (\<lambda>l. length l \<le> (if 66 \<le> columns then 66 else 46) \<and> 10 \<notin> set l \<and> 0 \<notin> set l) ls)
   \<and> (let text = utf8_encode (render columns) in
        startup_banner columns (Some memory) =
          (length text + 1, Some (if length text < length memory
             then text @ [CHR 0x00] @ drop (length text + 1) memory else memory)))"
proof -
  let ?ok = "\<lambda>w ls. list_all (\<lambda>l. length l \<le> w \<and> (10::nat) \<notin> set l \<and> 0 \<notin> set l) ls"
  have "\<exists>ls. render columns = concat (map (\<lambda>l. l @ [10]) ls) \<and> length ls = (if 66 \<le> columns then 6 else 13)
      \<and> ?ok (if 66 \<le> columns then 66 else 46) ls"
  proof (cases "66 \<le> columns")
    case True
    let ?ls = "map (banner_row ''AIRISUTEK'') [0..<6]"
    have "render columns = concat (map (\<lambda>l. l @ [10]) ?ls)"
      using True by (simp add: render_def banner_words_def banner_word_def comp_def)
    moreover have "?ok 66 ?ls" by (rule rows_fit) code_simp
    ultimately show ?thesis using True by (intro exI [of _ ?ls]) simp
  next
    case False
    let ?ls = "map (banner_row ''AIRISU'') [0..<6] @ [[]] @ map (banner_row ''TEK'') [0..<6]"
    have "render columns = concat (map (\<lambda>l. l @ [10]) ?ls)"
      using False by (simp add: render_def banner_words_def banner_word_def comp_def)
    moreover have "?ok 46 ?ls" unfolding list_all_append by (intro conjI rows_fit) (code_simp, simp, code_simp)
    ultimately show ?thesis using False by (intro exI [of _ ?ls]) simp
  qed
  then show ?thesis by (simp add: startup_banner_def Let_def Suc_le_eq)
qed

text \<open>C31: Draining the log hands over whole lines in order and loses none: the buffer keeps its length and its
tail, gets the first lines joined by newlines and a NUL, and the others stay. A line of the log that does not fit in
the whole buffer stays at the front: from then on nothing is ever handed over.\<close>

theorem drain_keeps_lines:
  assumes "log_ok logs" and "2 \<le> length memory" and "drain_logs (Some memory) logs = (n, buffer, rest)"
  shows "\<exists>taken. logs = taken @ rest \<and> n < length memory \<and> n = length (join_text [CHR 0x0A] taken)
    \<and> buffer = Some (join_text [CHR 0x0A] taken @ [CHR 0x00] @ drop (n + 1) memory)
    \<and> (taken = [] \<longleftrightarrow> logs = [] \<or> length memory \<le> length (hd logs))"
proof -
  obtain bytes r where "drain_lines (length memory) [] logs = (bytes, r)" by fastforce
  then have run: "drain_lines (length memory) [] logs = (bytes, rest)"
    and out: "n = length bytes" "buffer = Some (bytes @ [CHR 0x00] @ drop (length bytes + 1) memory)"
    using assms(2,3) by (auto simp: drain_logs_def split: prod.splits)
  have full: "list_all (\<lambda>l. l \<noteq> []) logs"
    using assms(1) by (auto simp: log_ok_def list_all_iff starts_with_def)
  have "\<exists>taken. logs = taken @ rest \<and> bytes = join_text [CHR 0x0A] ([] @ taken) \<and> length bytes < length memory
      \<and> (rest \<noteq> [] \<longrightarrow> length memory \<le> length bytes + length (hd rest) + (if [] @ taken = [] then 0 else 1))"
    using assms(2) by (intro drain_lines_taken [OF run full]) auto
  then obtain taken where t: "logs = taken @ rest" "bytes = join_text [CHR 0x0A] taken" "length bytes < length memory"
    "rest \<noteq> [] \<longrightarrow> length memory \<le> length bytes + length (hd rest) + (if taken = [] then 0 else 1)"
    by auto
  have "length (hd taken) \<le> length bytes" if "taken \<noteq> []"
    using that t(2) by (cases taken; cases "tl taken") auto
  then have "taken = [] \<longleftrightarrow> logs = [] \<or> length memory \<le> length (hd logs)"
    using t by (cases taken) auto
  with t out show ?thesis by blast
qed

theorem drain_keeps_lines_witness:
  "\<exists>taken rest. [''[INFO] a'', ''[INFO] b''] = taken @ rest
     \<and> drain_logs (Some (replicate 10 CHR ''x'')) [''[INFO] a'', ''[INFO] b''] = (length (join_text [CHR 0x0A] taken),
         Some (join_text [CHR 0x0A] taken @ [CHR 0x00] @ drop (length (join_text [CHR 0x0A] taken) + 1) (replicate 10 CHR ''x'')), rest)
     \<and> taken \<noteq> []"
proof -
  let ?l = "[''[INFO] a'', ''[INFO] b'']" and ?m = "replicate 10 CHR ''x''"
  obtain n buffer rest where run: "drain_logs (Some ?m) ?l = (n, buffer, rest)" by (cases "drain_logs (Some ?m) ?l") auto
  have "log_ok ?l" by (simp add: log_ok_def starts_with_def)
  from drain_keeps_lines [OF this _ run] obtain taken where t: "?l = taken @ rest" "n = length (join_text [CHR 0x0A] taken)"
    "buffer = Some (join_text [CHR 0x0A] taken @ [CHR 0x00] @ drop (n + 1) ?m)" "taken = [] \<longleftrightarrow> length ?m \<le> length ''[INFO] a''"
    by auto
  show ?thesis
    by (rule exI [of _ taken], rule exI [of _ rest]) (use t run in auto)
qed

end
