(* ===== verification/Runtime.thy ===== *)
theory Runtime
  imports Traffic Startup Console
begin

text \<open>
  The library as the host of the game calls it (\<open>crates/android-ffi/src/lib.rs\<close>): start, login, backup, stop,
  transfer and log, over one state, the running server and the log, and the disk. The server thread
  handles one command at a time, so a call is one step. The assets of the host, the text of its
  strings that are not UTF-8, what a start reports on the way and the clock are parameters.
\<close>

section \<open>The state\<close>

record running =
  rn_handle :: server_handle
  rn_active_usn :: int
  rn_alive :: bool

record runtime =
  rt_running :: "running option"
  rt_logs :: "string list"

record host =
  ho_start :: start_env
  ho_lossy :: "bytes \<Rightarrow> string"
  ho_materialize :: "string \<Rightarrow> string + (master_error + master_file)"
  ho_thread :: "string + unit"
  ho_tokio :: "string + unit"
  ho_progress :: "string list"
  ho_asset_source :: "asset_source option"
  ho_process_id :: int

definition abi_version :: int where
  "abi_version = 1"

definition log_line :: "string \<Rightarrow> runtime \<Rightarrow> runtime" where
  "log_line message rt = rt\<lparr>rt_logs := boot_log message (rt_logs rt)\<rparr>"

definition log_all :: "string list \<Rightarrow> runtime \<Rightarrow> runtime" where
  "log_all messages rt = rt\<lparr>rt_logs := boot_logs messages (rt_logs rt)\<rparr>"

text \<open>\<open>PathBuf::join\<close> with a relative name.\<close>

definition join_path :: "string \<Rightarrow> string \<Rightarrow> string" where
  "join_path dir name = (if dir = [] then name else if last dir = CHR ''/'' then dir @ name else dir @ ''/'' @ name)"

definition database_name :: string where
  "database_name = ''ggfm.sqlite3''"

text \<open>Seconds before 1970 read as zero.\<close>

definition unix_now :: "int \<Rightarrow> int" where
  "unix_now seconds = min (max seconds 0) i64_max"

section \<open>Start\<close>

definition is_hex_digit :: "char \<Rightarrow> bool" where
  "is_hex_digit c \<longleftrightarrow> is_digit c \<or> c \<in> set ''abcdefABCDEF''"

definition capability_ok :: "string \<Rightarrow> bool" where
  "capability_ok capability \<longleftrightarrow> length capability = 64 \<and> list_all is_hex_digit capability"

text \<open>The arguments in the order they are refused: a code and a line of the log, or the start's configuration.\<close>

definition start_arguments ::
  "bytes option \<Rightarrow> int \<Rightarrow> int \<Rightarrow> bytes option \<Rightarrow> int \<times> string + string \<times> device_clock \<times> string" where
  "start_arguments data_dir seconds offset capability =
     (case (data_dir, capability) of
        (Some dir_bytes, Some capability_bytes) \<Rightarrow>
          (case from_utf8 dir_bytes of
             None \<Rightarrow> Inl (- 2, ''[ERROR] arguments: data directory is not UTF-8 (code=-2)'')
           | Some dir \<Rightarrow>
          (case from_utf8 capability_bytes of
             None \<Rightarrow> Inl (- 2, ''[ERROR] arguments: capability encoding invalid (code=-2; value omitted)'')
           | Some text \<Rightarrow>
             if \<not> capability_ok text
             then Inl (- 2, ''[ERROR] arguments: capability format invalid (code=-2; value omitted)'')
             else case device_clock_new seconds offset of
               Inl _ \<Rightarrow> Inl (- 3, ''[ERROR] clock: unix='' @ show_int seconds @ '' offset_minutes='' @ show_int offset
                                    @ '' invalid (code=-3)'')
             | Inr clock \<Rightarrow> Inr (dir, clock, to_ascii_lowercase text)))
      | _ \<Rightarrow> Inl (- 1, ''fatal.startup_argument''))"

text \<open>The server thread: what it logs, and the handle or the error it sends back.\<close>

definition server_thread ::
  "host \<Rightarrow> server_config \<Rightarrow> disk \<Rightarrow> (string + server_handle) \<times> disk \<times> string list" where
  "server_thread h config d =
     (case ho_tokio h of
        Inl e \<Rightarrow> (Inl e, d, [''runtime.tokio.start'', ''[ERROR] runtime.tokio.create: '' @ e])
      | Inr _ \<Rightarrow>
        (case start (ho_start h) config d of
           (Inl e, d1) \<Rightarrow> (Inl e, d1, [''runtime.tokio.start''] @ ho_progress h @ [''fatal.server_start'' @ [CHR 0x09] @ e])
         | (Inr handle, d1) \<Rightarrow>
             (Inr handle, d1, [''runtime.tokio.start''] @ ho_progress h @ [''server.handle.ready''])))"

definition server_start ::
  "host \<Rightarrow> bytes option \<Rightarrow> int \<Rightarrow> int \<Rightarrow> bytes option \<Rightarrow> runtime \<Rightarrow> disk \<Rightarrow> int \<times> runtime \<times> disk" where
  "server_start h data_dir seconds offset capability rt0 d =
     (let rt = log_line ''runtime.abi.ready'' (rt0\<lparr>rt_logs := []\<rparr>)
      in case start_arguments data_dir seconds offset capability of
           Inl (code, message) \<Rightarrow> (code, log_line message rt, d)
         | Inr (dir, clock, lowered) \<Rightarrow>
           if rt_running rt \<noteq> None then (1, log_line ''runtime.already_running'' rt, d)
           else let rt = log_line ''assets.master.materialize'' rt
           in case ho_materialize h dir of
             Inl e \<Rightarrow> (- 7, log_line (''fatal.master_data'' @ [CHR 0x09] @ e) rt, d)
           | Inr master \<Rightarrow>
             (let rt = log_line ''assets.master.ready'' rt;
                  config = \<lparr>sc_database_path = join_path dir database_name, sc_master = master, sc_capability = lowered,
                            sc_clock = clock, sc_asset_source = ho_asset_source h\<rparr>
              in case ho_thread h of
                   Inl e \<Rightarrow> (- 5, log_line (''[ERROR] runtime.thread.spawn: '' @ e @ '' (code=-5)'') rt, d)
                 | Inr _ \<Rightarrow>
                   (case server_thread h config d of
                      (Inl e, d1, messages) \<Rightarrow>
                        (- 6, log_line (''[ERROR] startup.ready: '' @ e @ '' (code=-6)'') (log_all messages rt), d1)
                    | (Inr handle, d1, messages) \<Rightarrow>
                        (0, (log_line ''transport.endpoint.published'' (log_all messages rt))
                              \<lparr>rt_running := Some \<lparr>rn_handle = handle, rn_active_usn = 0, rn_alive = True\<rparr>\<rparr>, d1))))"

section \<open>Commands of a running server\<close>

definition ffi_active_usn :: "runtime \<Rightarrow> int" where
  "ffi_active_usn rt = (case rt_running rt of None \<Rightarrow> 0 | Some n \<Rightarrow> rn_active_usn n)"

definition server_endpoint :: "runtime \<Rightarrow> string option" where
  "server_endpoint rt = map_option (\<lambda>n. ge_endpoint (he_game (sh_env (rn_handle n)))) (rt_running rt)"

text \<open>The server of a handle and the file of its database move together.\<close>

definition with_server :: "server \<Rightarrow> running \<Rightarrow> running" where
  "with_server v n = n\<lparr>rn_handle := (rn_handle n)\<lparr>sh_server := v\<rparr>\<rparr>"

definition committed_disk :: "host \<Rightarrow> running \<Rightarrow> disk \<Rightarrow> disk" where
  "committed_disk h n = save_db (su_disk (ho_start h)) (sh_path (rn_handle n)) (se_db (sh_server (rn_handle n)))"

definition ffi_begin_login :: "host \<Rightarrow> int \<Rightarrow> int \<Rightarrow> runtime \<Rightarrow> disk \<Rightarrow> int \<times> runtime \<times> disk" where
  "ffi_begin_login h seconds offset rt d =
     (case device_clock_new seconds offset of
        Inl _ \<Rightarrow> (- 2, rt, d)
      | Inr clock \<Rightarrow>
      (case rt_running rt of
        None \<Rightarrow> (- 1, rt, d)
      | Some n \<Rightarrow>
        if \<not> rn_alive n then (- 3, rt, d)
        else let begun = log_all [''identity.login.begin'',
                   ''[INFO] identity: activating selected slot and creating local session''] rt
        in case server_login (sh_env (rn_handle n)) clock (sh_server (rn_handle n)) of
             (Inl e, v) \<Rightarrow>
               (let n' = with_server v n
                in (- 4, (log_line (''[ERROR] identity: session activation failed: '' @ e) begun)\<lparr>rt_running := Some n'\<rparr>,
                    committed_disk h n' d))
           | (Inr session, v) \<Rightarrow>
               (let n' = (with_server v n)\<lparr>rn_active_usn := id_usn (ls_identity session)\<rparr>
                in (0, (log_all [''[INFO] identity: slot activated; isolated local session ready'',
                           ''identity.login.ready''] begun)\<lparr>rt_running := Some n'\<rparr>,
                    committed_disk h n' d))))"

definition ffi_prepare_shutdown :: "host \<Rightarrow> int \<Rightarrow> runtime \<Rightarrow> disk \<Rightarrow> int \<times> runtime \<times> disk" where
  "ffi_prepare_shutdown h seconds rt d =
     (case rt_running rt of
        None \<Rightarrow> (- 1, rt, d)
      | Some n \<Rightarrow>
        if \<not> rn_alive n then (- 2, rt, d)
        else case prepare_shutdown (su_disk (ho_start h)) (sh_path (rn_handle n)) (ho_process_id h) (unix_now seconds)
                    (sh_server (rn_handle n)) d of
               (Inr _, d1) \<Rightarrow> (0, rt, d1)
             | (Inl _, d1) \<Rightarrow> (- 3, rt, d1))"

text \<open>\<open>Stop\<close> makes a backup and ignores its result.\<close>

definition ffi_stop :: "host \<Rightarrow> int \<Rightarrow> runtime \<Rightarrow> disk \<Rightarrow> int \<times> runtime \<times> disk" where
  "ffi_stop h seconds rt d =
     (0, rt\<lparr>rt_running := None\<rparr>, snd (snd (ffi_prepare_shutdown h seconds rt d)))"

definition transfer_save ::
  "host \<Rightarrow> bytes option \<Rightarrow> bytes option \<Rightarrow> bool \<Rightarrow> runtime \<Rightarrow> disk \<Rightarrow> int \<times> runtime \<times> disk" where
  "transfer_save h data_dir staging_path importing rt d =
     (case (data_dir, staging_path) of
        (Some dir_bytes, Some staging_bytes) \<Rightarrow>
          if rt_running rt \<noteq> None then (- 2, rt, d)
          else let env = su_disk (ho_start h); database = join_path (ho_lossy h dir_bytes) database_name;
                   staging = ho_lossy h staging_bytes
          in (case (if importing then import_save env staging database d else export_save env database staging d) of
                (Inr _, d1) \<Rightarrow>
                  (0, log_line (if importing then ''save.import.committed'' else ''save.export.snapshot.ready'') rt, d1)
              | (Inl e, d1) \<Rightarrow>
                  (- 3, log_line (''[ERROR] save.transfer.failed: '' @ store_text (de_sql_text env) e) rt, d1))
      | _ \<Rightarrow> (- 1, rt, d))"

definition ffi_drain_logs :: "string option \<Rightarrow> runtime \<Rightarrow> nat \<times> string option \<times> runtime" where
  "ffi_drain_logs buffer rt =
     (case drain_logs buffer (rt_logs rt) of (n, buffer', rest) \<Rightarrow> (n, buffer', rt\<lparr>rt_logs := rest\<rparr>))"

text \<open>Between the calls the server answers requests; each is committed before its reply.\<close>

definition runtime_request :: "host \<Rightarrow> headers \<Rightarrow> request \<Rightarrow> running \<Rightarrow> disk \<Rightarrow> reply \<times> running \<times> disk" where
  "runtime_request h hs r n d =
     (case serve (sh_env (rn_handle n)) hs r (sh_server (rn_handle n)) of
        (rep, v) \<Rightarrow> (rep, with_server v n, committed_disk h (with_server v n) d))"


section \<open>Everything the host can do\<close>

text \<open>\<open>died\<close> is the end of the server thread by a panic, \<open>killed\<close> the end of the process between two calls: the disk
is all that is left. A process can also end inside a call. Inside a request or a start it ends between two
transactions; the steps of the program from the store before lead to every store that was committed there. Inside the operations
on files (the migration, the recovery, a backup, a transfer) the end of the process is the call whose operations
fail from there on, and \<open>killed\<close> after it.\<close>

inductive runtime_step :: "host \<Rightarrow> runtime \<times> disk \<Rightarrow> runtime \<times> disk \<Rightarrow> bool" for h :: host where
  start: "server_start h data_dir seconds offset capability rt d = (code, rt', d') \<Longrightarrow> runtime_step h (rt, d) (rt', d')"
| login: "ffi_begin_login h seconds offset rt d = (code, rt', d') \<Longrightarrow> runtime_step h (rt, d) (rt', d')"
| prepare: "ffi_prepare_shutdown h seconds rt d = (code, rt', d') \<Longrightarrow> runtime_step h (rt, d) (rt', d')"
| stop: "ffi_stop h seconds rt d = (code, rt', d') \<Longrightarrow> runtime_step h (rt, d) (rt', d')"
| transfer: "transfer_save h data_dir staging importing rt d = (code, rt', d') \<Longrightarrow> runtime_step h (rt, d) (rt', d')"
| drain: "ffi_drain_logs buffer rt = (n, buffer', rt') \<Longrightarrow> runtime_step h (rt, d) (rt', d)"
| request: "rt_running rt = Some n \<Longrightarrow> rn_alive n \<Longrightarrow> runtime_request h hs r n d = (rep, n', d') \<Longrightarrow>
    runtime_step h (rt, d) (rt\<lparr>rt_running := Some n'\<rparr>, d')"
| died: "rt_running rt = Some n \<Longrightarrow> runtime_step h (rt, d) (rt\<lparr>rt_running := Some (n\<lparr>rn_alive := False\<rparr>)\<rparr>, d)"
| killed: "runtime_step h (rt, d) (\<lparr>rt_running = None, rt_logs = []\<rparr>, d)"
| killed_serving: "rt_running rt = Some n \<Longrightarrow> rn_alive n \<Longrightarrow> program_step\<^sup>*\<^sup>* (se_db (sh_server (rn_handle n))) t \<Longrightarrow>
    runtime_step h (rt, d) (\<lparr>rt_running = None, rt_logs = []\<rparr>, save_db (su_disk (ho_start h)) (sh_path (rn_handle n)) t d)"
| killed_starting: "rt_running rt = None \<Longrightarrow>
    open_database_with_recovery (su_disk (ho_start h)) (join_path dir database_name) now d = (Inr s, d1) \<Longrightarrow>
    program_step\<^sup>*\<^sup>* s t \<Longrightarrow>
    runtime_step h (rt, d) (\<lparr>rt_running = None, rt_logs = []\<rparr>, save_db (su_disk (ho_start h)) (join_path dir database_name) t d1)"

text \<open>The host and the faults of its disk may be others at every step.\<close>

definition library_step :: "runtime \<times> disk \<Rightarrow> runtime \<times> disk \<Rightarrow> bool" where
  "library_step x y \<longleftrightarrow> (\<exists>h. runtime_step h x y)"

definition idle :: runtime where
  "idle = \<lparr>rt_running = None, rt_logs = []\<rparr>"

section \<open>Names\<close>

lemma join_path_prefix: obtains pre where "join_path dir database_name = pre @ ''ggfm.sqlite3''"
  "pre = [] \<or> last pre = CHR ''/''"
proof (cases "dir = []")
  case True
  then show ?thesis using that [of "[]"] by (simp add: join_path_def database_name_def)
next
  case False
  show ?thesis
  proof (cases "last dir = CHR ''/''")
    case True
    with False show ?thesis using that [of dir] by (simp add: join_path_def database_name_def)
  next
    case other: False
    with False show ?thesis using that [of "dir @ ''/''"] by (simp add: join_path_def database_name_def)
  qed
qed

lemma with_extension_at:
  assumes "pre = [] \<or> last pre = CHR ''/''" "list_all (\<lambda>c. c \<noteq> CHR ''/'') name"
  shows "with_extension (pre @ name) ext = pre @ file_stem name @ ''.'' @ ext"
proof -
  have "takeWhile (\<lambda>c. c \<noteq> CHR ''/'') (rev name @ rev pre) = rev name"
  proof (cases pre rule: rev_cases)
    case Nil
    with assms(2) show ?thesis by (simp add: takeWhile_eq_all_conv list_all_iff)
  next
    case (snoc xs x)
    have "takeWhile (\<lambda>c. c \<noteq> CHR ''/'') (rev name @ rev pre) = rev name @ takeWhile (\<lambda>c. c \<noteq> CHR ''/'') (rev pre)"
      by (rule takeWhile_append2) (use assms(2) in \<open>auto simp: list_all_iff\<close>)
    with snoc assms(1) show ?thesis by simp
  qed
  then have "file_name (pre @ name) = name" by (simp add: file_name_def)
  then show ?thesis by (simp add: with_extension_def)
qed

lemma runtime_paths:
  assumes "p = join_path dir database_name"
  shows "backup_path p = p @ ''.backup''" "previous_path (backup_path p) = p @ ''.backup.previous''"
    "temporary_path p process_id now = p @ ''.backup.'' @ show_int process_id @ ''.'' @ show_int now @ ''.new''"
proof -
  obtain pre where p: "p = pre @ ''ggfm.sqlite3''" and pre: "pre = [] \<or> last pre = CHR ''/''"
    using join_path_prefix [of dir] assms by metis
  have stem: "file_stem ''ggfm.sqlite3'' = ''ggfm''" "file_stem ''ggfm.sqlite3.backup'' = ''ggfm.sqlite3''"
    by (code_simp, code_simp)
  have e: "with_extension p ext = pre @ ''ggfm.'' @ ext" for ext
    using with_extension_at [OF pre, of "''ggfm.sqlite3''" ext] by (simp add: p stem)
  then show b: "backup_path p = p @ ''.backup''" by (simp add: backup_path_def p)
  show "previous_path (backup_path p) = p @ ''.backup.previous''"
    using with_extension_at [OF pre, of "''ggfm.sqlite3.backup''" "''backup.previous''"]
    by (simp add: previous_path_def b [unfolded p] p stem)
  show "temporary_path p process_id now = p @ ''.backup.'' @ show_int process_id @ ''.'' @ show_int now @ ''.new''"
    by (simp add: temporary_path_def e [unfolded p] p)
qed

lemma last_new: "xs @ ''.new'' \<noteq> ys @ ''s''"
  by (auto dest: arg_cong [where f = last])

lemma runtime_names:
  assumes "p = join_path dir database_name"
  shows "distinct (database_files p @ map (archive_path later) (database_files p)
        @ [temporary_path p process_id now, backup_path p, previous_path (backup_path p)])"
proof -
  note q = runtime_paths [OF assms]
  have "show_int process_id @ ''.'' @ show_int now @ ''.new'' \<noteq> ''previous''"
    using last_new [of "show_int process_id @ ''.'' @ show_int now" "''previou''"] by simp
  then show ?thesis
    by (simp add: q(1,3) q(2) [unfolded q(1)] database_files_def sidecar_path_def archive_path_def)
qed


section \<open>Saves on the disk\<close>

text \<open>What every save on the disk satisfies, through every operation on files.\<close>

definition all_saves :: "(save_file \<Rightarrow> bool) \<Rightarrow> disk \<Rightarrow> bool" where
  "all_saves P d \<longleftrightarrow> (\<forall>q f. d q = Some (Saved f) \<longrightarrow> P f)"

lemma all_saves_files:
  "all_saves P d \<Longrightarrow> fs_rename faults p q d = (r, d') \<Longrightarrow> all_saves P d'"
  "all_saves P d \<Longrightarrow> fs_remove faults p d = (r, d') \<Longrightarrow> all_saves P d'"
  "all_saves P d \<Longrightarrow> fs_copy faults p q d = (r, d') \<Longrightarrow> all_saves P d'"
  "all_saves P d \<Longrightarrow> open_connection env p d = (r1, d') \<Longrightarrow> all_saves P d'"
  by (auto simp: all_saves_def fs_rename_def fs_remove_def fs_copy_def open_connection_def split: option.splits if_splits)

lemma all_saves_new: "all_saves P d \<Longrightarrow> P f \<Longrightarrow> all_saves P (d(q := Some (Saved f)))"
  by (simp add: all_saves_def)

lemma all_saves_at: "all_saves P d \<Longrightarrow> d q = Some (Saved f) \<Longrightarrow> P f"
  by (simp add: all_saves_def)

lemma all_saves_snd:
  "all_saves P d \<Longrightarrow> all_saves P (snd (fs_rename faults p q d))"
  "all_saves P d \<Longrightarrow> all_saves P (snd (fs_remove faults p d))"
  using all_saves_files by (metis surjective_pairing)+

text \<open>A save that opens: what \<open>configure\<close> accepts without a migration.\<close>

definition intact :: "save_file \<Rightarrow> bool" where
  "intact f \<longleftrightarrow> sf_integrity f = ''ok'' \<and> sf_version f = database_schema_version"

definition holds_store :: "string \<Rightarrow> db \<Rightarrow> disk \<Rightarrow> bool" where
  "holds_store p s d \<longleftrightarrow> (\<exists>f. d p = Some (Saved f) \<and> intact f \<and> sf_data f = s)"

lemma intact_new: "intact (new_save env s)"
  by (simp add: intact_def new_save_def)

lemma opened_file: "open_actor env p d = (Inr s, d') \<Longrightarrow> holds_store p s d'"
  by (auto simp: open_actor_def Let_def holds_store_def intact_def dest: configure_opened
      split: option.splits disk_file.splits sum.splits prod.splits)

text \<open>What a law of saves owes to an open: a new file has it, and what a migration makes of a save.\<close>

definition opens_keep :: "(save_file \<Rightarrow> bool) \<Rightarrow> disk_env \<Rightarrow> bool" where
  "opens_keep P env \<longleftrightarrow> P (blank_save env) \<and> (\<forall>f fault. P f \<longrightarrow> P (snd (configure fault (de_text env) f)))"

lemma all_saves_close: "all_saves P d \<Longrightarrow> all_saves P (close_failed env p d)"
  by (simp add: all_saves_def close_failed_def)

lemma all_saves_open:
  assumes "all_saves P d" "opens_keep P env" "open_actor env p d = (r, d')"
  shows "all_saves P d'"
proof -
  have "P f \<Longrightarrow> configure fault (de_text env) f = (x, g) \<Longrightarrow> P g" for f fault x g
    using assms(2) unfolding opens_keep_def by (metis snd_conv)
  moreover have "P (blank_save env)" using assms(2) by (simp add: opens_keep_def)
  moreover have "all_saves P (d(p := Some Empty))" using assms(1) by (simp add: all_saves_def)
  ultimately show ?thesis
    using assms(1,3) by (auto simp: open_actor_def Let_def intro!: all_saves_new all_saves_close dest: all_saves_at
        split: option.splits disk_file.splits sum.splits prod.splits if_splits)
qed

lemma all_saves_preserve: "all_saves P d \<Longrightarrow> preserve_files faults now os d = (r, d') \<Longrightarrow> all_saves P d'"
proof (induction os arbitrary: d r d')
  case (Cons o' os)
  obtain r1 d1 where mv: "fs_rename faults o' (archive_path now o') d = (r1, d1)" by fastforce
  obtain r2 d2 where rest: "preserve_files faults now os d1 = (r2, d2)" by fastforce
  have d1: "all_saves P d1" using Cons.prems(1) mv by (rule all_saves_files(1))
  have d2: "all_saves P d2" using Cons.IH [OF d1 rest] .
  have "preserve_files faults now os d = (r, d') \<or> d' = d1 \<or> d' = d2"
    using Cons.prems(2) unfolding preserve_files.simps mv prod.case
    by (cases "path_exists d o'"; cases r1; cases r2) (simp_all add: rest)
  with d1 d2 Cons.IH [OF Cons.prems(1)] show ?case by blast
qed simp

lemma try_candidates_saves:
  assumes "all_saves P d" "opens_keep P env" "try_candidates env p cs d = (r, d')"
  shows "all_saves P d' \<and> (\<forall>s. r = Inr (Inr s) \<longrightarrow> holds_store p s d')"
  using assms(1,3)
proof (induction cs arbitrary: d r d')
  case (Cons c cs)
  show ?case
  proof (cases "path_exists d c")
    case False
    with Cons.prems show ?thesis by (auto dest: Cons.IH)
  next
    case True
    obtain r1 d1 where r1: "(if path_exists d p then fs_remove (de_faults env) p d else (Inr (), d)) = (r1, d1)" by fastforce
    have d1: "all_saves P d1" using r1 Cons.prems(1) by (auto split: if_splits dest: all_saves_files(2))
    obtain r2 d2 where r2: "fs_copy (de_faults env) c p d1 = (r2, d2)" by fastforce
    have d2: "all_saves P d2" using d1 r2 by (rule all_saves_files(3))
    obtain r3 d3 where r3: "open_actor env p d2 = (r3, d3)" by fastforce
    have d3: "all_saves P d3" using d2 assms(2) r3 by (rule all_saves_open)
    obtain r4 d4 where r4: "try_candidates env p cs d3 = (r4, d4)" by fastforce
    note ih = Cons.IH [OF d3 r4]
    have opened: "holds_store p s d3" if "r3 = Inr s" for s using r3 that by (auto intro: opened_file)
    have go: "path_exists d c = True" using True by simp
    have "(\<exists>e. r = Inl e) \<and> (d' = d1 \<or> d' = d2) \<or> (\<exists>s. r3 = Inr s \<and> r = Inr (Inr s)) \<and> d' = d3
        \<or> d' = d4 \<and> (\<forall>s. r = Inr (Inr s) \<longrightarrow> r4 = Inr (Inr s))"
      using Cons.prems(2) unfolding try_candidates.simps go not_True_eq_False if_False r1 prod.case
      by (cases r1; cases r2; cases r3; cases r4) (auto simp: r2 r3 r4 simp del: try_candidates.simps split: sum.splits)
    with d1 d2 d3 ih opened show ?thesis by blast
  qed
qed auto

lemma all_saves_restore: "all_saves P d \<Longrightarrow> all_saves P (restore_files faults ps d)"
proof -
  have "all_saves P d \<Longrightarrow> all_saves P (fold (\<lambda>(original, archived) d. snd (fs_rename faults archived original d)) qs d)" for qs
    by (induction qs arbitrary: d) (auto simp: all_saves_snd)
  then show "all_saves P d \<Longrightarrow> ?thesis" by (simp add: restore_files_def)
qed

lemma recovery_saves:
  assumes ok: "all_saves P d" "opens_keep P env" and run: "open_database_with_recovery env p now d = (r, d')"
  shows "all_saves P d' \<and> (\<forall>s. r = Inr s \<longrightarrow> holds_store p s d')"
proof -
  obtain r1 d1 where o: "open_actor env p d = (r1, d1)" by fastforce
  note d1 = all_saves_open [OF ok o]
  show ?thesis
  proof (cases r1)
    case (Inr s)
    with run o have "r = Inr s" "d' = d1" by (simp_all add: open_database_with_recovery_def)
    with opened_file [of env p d s d1] o Inr d1 show ?thesis by simp
  next
    case (Inl e)
    with o have failed: "open_actor env p d = (Inl e, d1)" by simp
    from run failed show ?thesis
    proof (cases rule: recovery_cases)
      case 1
      with d1 show ?thesis by simp
    next
      case (2 x)
      with all_saves_preserve [OF d1 2(1)] show ?thesis by simp
    next
      case (3 ps d2 x)
      note d2 = all_saves_preserve [OF d1 3(1)]
      from try_candidates_saves [OF d2 ok(2) 3(2)] 3(3,4) show ?thesis by (auto split: sum.splits)
    next
      case (4 ps d2 d3 errors)
      note d2 = all_saves_preserve [OF d1 4(1)]
      have "all_saves P d3" using try_candidates_saves [OF d2 ok(2) 4(2)] by simp
      with 4(3,4) show ?thesis by (auto intro: all_saves_restore all_saves_snd)
    qed
  qed
qed

lemma all_saves_publish:
  assumes ok: "all_saves P d" and run: "publish_backup faults temporary destination d = (r, d')"
  shows "all_saves P d'"
proof -
  let ?p = "previous_path destination"
  obtain r1 d1 where s1: "(if path_exists d ?p then fs_remove faults ?p d else (Inr (), d)) = (r1, d1)" by fastforce
  obtain r2 d2 where s2: "(if path_exists d1 destination then fs_rename faults destination ?p d1 else (Inr (), d1)) = (r2, d2)" by fastforce
  obtain r3 d3 where s3: "fs_rename faults temporary destination d2 = (r3, d3)" by fastforce
  have d1: "all_saves P d1" using s1 ok by (auto split: if_splits dest: all_saves_files(2))
  have d2: "all_saves P d2" using s2 d1 by (auto split: if_splits dest: all_saves_files(1))
  have d3: "all_saves P d3" using d2 s3 by (rule all_saves_files(1))
  have "d' = d1 \<or> d' = d2 \<or> d' = d3 \<or> d' = snd (fs_rename faults ?p destination d3)"
    using run by (auto simp: publish_backup_def s1 s2 s3 Let_def split: sum.splits)
  with d1 d2 d3 show ?thesis by (auto intro: all_saves_snd)
qed

lemma all_saves_prepare:
  assumes ok: "all_saves P d" "P (new_save env (se_db v))" and run: "prepare_shutdown env p process_id now v d = (r, d')"
  shows "all_saves P d'"
proof -
  let ?T = "temporary_path p process_id now"
  obtain r1 d1 where b: "backup_to env (se_db v) ?T d = (r1, d1)" by fastforce
  have d1: "all_saves P d1"
    using b ok by (auto simp: backup_to_def all_saves_def split: option.splits if_splits)
  obtain r2 d2 where q: "publish_backup (de_faults env) ?T (backup_path p) d1 = (r2, d2)" by fastforce
  from run have "d' = d \<or> d' = d1 \<or> d' = d2" by (auto simp: prepare_shutdown_def Let_def b q split: if_splits sum.splits)
  with ok(1) d1 all_saves_publish [OF d1 q] show ?thesis by auto
qed

lemma all_saves_transfer:
  assumes ok: "all_saves P d"
  shows "import_save env x q d = (r, d') \<Longrightarrow> all_saves P d'" "export_save env p x d = (r, d') \<Longrightarrow> all_saves P d'"
proof -
  assume "import_save env x q d = (r, d')"
  from import_cases [OF this] ok show "all_saves P d'"
    by (auto dest!: validated_Inr simp: all_saves_def split: if_splits)
next
  assume run: "export_save env p x d = (r, d')"
  show "all_saves P d'"
  proof (cases "validated env p d")
    case (Inr f)
    have f: "P f" using validated_Inr [OF Inr] ok by (auto dest: all_saves_at)
    have new: "all_saves P (d(x := Some Empty))" using ok by (auto simp: all_saves_def)
    obtain r1 d1 where o: "open_connection env x (d(x := Some Empty)) = (r1, d1)" by fastforce
    have d1: "all_saves P d1" using new o by (rule all_saves_files(4))
    obtain r2 d2 where c: "copy_transaction env p f x d1 = (r2, d2)" by fastforce
    have d2: "all_saves P d2" using copy_cases [OF c] d1 f by (auto intro: all_saves_new)
    have "d' = d \<or> d' = d1 \<or> d' = d2"
      using run by (auto simp: export_save_def Inr o c split: option.splits sum.splits if_splits)
    with ok d1 d2 show ?thesis by auto
  qed (use run ok in \<open>simp add: export_save_def\<close>)
qed

lemma save_db_saves:
  assumes "holds_store p s d"
  shows "holds_store p t (save_db env p t d)" "q \<noteq> p \<Longrightarrow> save_db env p t d q = d q"
    "all_saves P d \<Longrightarrow> (\<And>f. P f \<Longrightarrow> P (f\<lparr>sf_bytes := de_size env t, sf_data := t\<rparr>)) \<Longrightarrow> all_saves P (save_db env p t d)"
  using assms by (auto simp: holds_store_def save_db_def intact_def all_saves_def split: if_splits)


section \<open>Runs of the library\<close>

lemma serve_runs: "program_step\<^sup>*\<^sup>* (se_db v) (se_db (snd (serve env hs r v)))"
  using http_program.serve_stays [of "se_session v" env hs r] unfolding http_program.stays_def by simp

lemma login_runs:
  assumes "server_login env clock v = (r, w)"
  shows "program_step\<^sup>*\<^sup>* (se_db v) (se_db w)"
    "(case r of Inl _ \<Rightarrow> se_session w = se_session v | Inr session \<Rightarrow> se_session w = Some session)"
  using assms by (auto simp: server_login_def begin_login_def tx_commit_def Let_def
      split: sum.splits prod.splits intro!: r_into_rtranclp intro: program_step.login)

lemma start_store_runs:
  assumes "start_store cat now s = (r, t)"
  shows "program_step\<^sup>*\<^sup>* s t"
proof -
  obtain r1 s1 where c: "tx_commit (configure_achievement_catalog (start_achievements cat) now) s = (r1, s1)" by fastforce
  have one: "program_step\<^sup>*\<^sup>* s s1"
    using c by (auto simp: tx_commit_def split: sum.splits intro!: r_into_rtranclp intro: program_step.catalog)
  have two: "program_step\<^sup>*\<^sup>* s1 s2" if "ensure_default_slot now ids s1 = (r2, s2)" for ids r2 s2
    using that by (auto simp: ensure_default_slot_def create_slot_def tx_commit_def
        split: list.splits sum.splits intro!: r_into_rtranclp intro: program_step.create)
  from assms c have "t = s \<or> t = s1 \<or> (\<exists>ids r2. ensure_default_slot now ids s1 = (r2, t))"
    by (cases r1) (auto simp: start_store_def split: sum.splits prod.splits)
  with one two show ?thesis by (auto intro: rtranclp_trans)
qed

lemma prepare_other:
  assumes run: "prepare_shutdown env p process_id now v d = (r, d')"
    and names: "distinct [temporary_path p process_id now, backup_path p, previous_path (backup_path p)]"
    and q: "q \<notin> {temporary_path p process_id now, backup_path p, previous_path (backup_path p)}"
  shows "d' q = d q"
proof -
  let ?T = "temporary_path p process_id now"
  obtain r1 d1 where b: "backup_to env (se_db v) ?T d = (r1, d1)" by fastforce
  obtain r2 d2 where u: "publish_backup (de_faults env) ?T (backup_path p) d1 = (r2, d2)" by fastforce
  have "d1 q = d q" using backup_to_cases [OF b, of q] q by auto
  moreover have "d2 q = d1 q" using publish_backup_keeps [OF u names] q by blast
  moreover have "d' = d \<or> d' = d1 \<or> d' = d2"
    using run by (auto simp: prepare_shutdown_def Let_def b u split: if_splits sum.splits)
  ultimately show ?thesis by auto
qed

text \<open>What a running server and the file of its database are to each other.\<close>

definition running_ok :: "running \<Rightarrow> disk \<Rightarrow> bool" where
  "running_ok n d \<longleftrightarrow> (\<exists>dir. sh_path (rn_handle n) = join_path dir database_name)
     \<and> holds_store (sh_path (rn_handle n)) (se_db (sh_server (rn_handle n))) d
     \<and> rn_active_usn n = (case se_session (sh_server (rn_handle n)) of None \<Rightarrow> 0 | Some s \<Rightarrow> id_usn (ls_identity s))"

text \<open>A law of saves: a new file has it, a migration keeps it wherever it is stopped, a store that moves on keeps it, and
so does a copy of a store.\<close>

locale save_law =
  fixes P :: "save_file \<Rightarrow> bool"
  assumes blank: "P (blank_save env)"
    and migrated: "P f \<Longrightarrow> P (snd (configure fault object_text f))"
    and moved: "P f \<Longrightarrow> intact f \<Longrightarrow> program_step\<^sup>*\<^sup>* (sf_data f) t \<Longrightarrow> P (f\<lparr>sf_bytes := de_size env t, sf_data := t\<rparr>)"
    and copied: "P f \<Longrightarrow> intact f \<Longrightarrow> P (new_save env (sf_data f))"
begin

lemma opens: "opens_keep P env"
  by (simp add: opens_keep_def blank migrated)

lemma save_moves: "all_saves P d \<Longrightarrow> holds_store p s d \<Longrightarrow> program_step\<^sup>*\<^sup>* s t \<Longrightarrow> all_saves P (save_db env p t d)"
  by (auto simp: save_db_def holds_store_def intro!: all_saves_new moved dest: all_saves_at)

lemma start_saves:
  assumes "su_disk senv = env" "all_saves P d" "start senv config d = (r, d')"
  shows "all_saves P d' \<and> (\<forall>h. r = Inr h \<longrightarrow> sh_path h = sc_database_path config
    \<and> se_session (sh_server h) = None \<and> holds_store (sh_path h) (se_db (sh_server h)) d')"
proof (cases "start_catalog (de_sql_text env) (sc_master config)")
  case (Inl e)
  with assms show ?thesis by (auto simp: start_def Let_def)
next
  case cat: (Inr cat)
  let ?p = "sc_database_path config" and ?now = "unix_seconds (sc_clock config)"
  obtain r1 d1 where o: "open_database_with_recovery env ?p ?now d = (r1, d1)" by fastforce
  note opened = recovery_saves [OF assms(2) opens o]
  show ?thesis
  proof (cases r1)
    case (Inl e)
    with assms cat o opened show ?thesis by (auto simp: start_def Let_def)
  next
    case (Inr s)
    then have held: "holds_store ?p s d1" using opened by simp
    obtain r2 t where st: "start_store cat ?now s = (r2, t)" by fastforce
    have d': "d' = save_db env ?p t d1" and r: "r = Inr h \<Longrightarrow> sh_path h = ?p \<and> se_session (sh_server h) = None \<and> se_db (sh_server h) = t" for h
      using assms(1,3) cat o Inr st by (auto simp: start_def Let_def split: sum.splits)
    have "all_saves P d'" unfolding d' using opened held start_store_runs [OF st] by (blast intro: save_moves)
    with r d' save_db_saves(1) [OF held, of t env] show ?thesis by auto
  qed
qed

text \<open>The state between two calls.\<close>

definition runtime_inv :: "runtime \<times> disk \<Rightarrow> bool" where
  "runtime_inv x \<longleftrightarrow> (case x of (rt, d) \<Rightarrow> all_saves P d \<and> log_ok (rt_logs rt)
     \<and> (case rt_running rt of None \<Rightarrow> True | Some n \<Rightarrow> running_ok n d))"

lemma moved_on:
  assumes "all_saves P d" "running_ok n d" "su_disk (ho_start h) = env" "program_step\<^sup>*\<^sup>* (se_db (sh_server (rn_handle n))) (se_db v)"
    "rn_handle n' = (rn_handle n)\<lparr>sh_server := v\<rparr>"
    "rn_active_usn n' = (case se_session v of None \<Rightarrow> 0 | Some s \<Rightarrow> id_usn (ls_identity s))"
  shows "all_saves P (committed_disk h n' d) \<and> running_ok n' (committed_disk h n' d)"
proof -
  have held: "holds_store (sh_path (rn_handle n)) (se_db (sh_server (rn_handle n))) d" using assms(2) by (simp add: running_ok_def)
  have "committed_disk h n' d = save_db env (sh_path (rn_handle n)) (se_db v) d"
    by (simp add: committed_disk_def assms(3,5))
  with save_moves [OF assms(1) held assms(4)] save_db_saves(1) [OF held, of "se_db v" env] assms(2,5,6)
  show ?thesis by (simp add: running_ok_def)
qed

lemma prepare_inv:
  assumes "all_saves P d" "running_ok n d"
    and run: "prepare_shutdown env (sh_path (rn_handle n)) process_id now (sh_server (rn_handle n)) d = (r, d')"
  shows "all_saves P d' \<and> running_ok n d'"
proof -
  let ?p = "sh_path (rn_handle n)" and ?v = "sh_server (rn_handle n)"
  obtain dir f where p: "?p = join_path dir database_name" and f: "d ?p = Some (Saved f)" "sf_data f = se_db ?v" "intact f"
    using assms(2) by (auto simp: running_ok_def holds_store_def)
  have "P (new_save env (se_db ?v))" using copied [OF all_saves_at [OF assms(1) f(1)] f(3)] f(2) by simp
  with all_saves_prepare [OF assms(1) _ run] have saves: "all_saves P d'" by simp
  have names: "distinct (database_files ?p @ map (archive_path 0) (database_files ?p)
      @ [temporary_path ?p process_id now, backup_path ?p, previous_path (backup_path ?p)])"
    by (rule runtime_names [OF p])
  then have "d' ?p = d ?p" using path_in_files [of ?p] by (intro prepare_other [OF run]) auto
  with saves assms(2) show ?thesis by (simp add: running_ok_def holds_store_def)
qed

lemma ffi_prepare_inv:
  assumes "runtime_inv (rt, d)" "su_disk (ho_start h) = env" "ffi_prepare_shutdown h seconds rt d = (code, rt', d')"
  shows "runtime_inv (rt', d')"
proof (cases "rt_running rt")
  case (Some n)
  show ?thesis
  proof (cases "rn_alive n")
    case True
    obtain r d1 where p: "prepare_shutdown env (sh_path (rn_handle n)) (ho_process_id h) (unix_now seconds) (sh_server (rn_handle n)) d = (r, d1)"
      by fastforce
    have "rt' = rt" "d' = d1" using assms(2,3) Some True p by (auto simp: ffi_prepare_shutdown_def split: sum.splits)
    with prepare_inv [OF _ _ p] assms(1) Some show ?thesis by (simp add: runtime_inv_def)
  qed (use assms Some in \<open>auto simp: ffi_prepare_shutdown_def\<close>)
qed (use assms in \<open>auto simp: ffi_prepare_shutdown_def\<close>)

lemma server_start_inv:
  assumes "runtime_inv (rt, d)" "su_disk (ho_start h) = env"
    and run: "server_start h data_dir seconds offset capability rt d = (code, rt', d')"
  shows "runtime_inv (rt', d')"
proof -
  have logs: "log_ok (rt_logs rt')"
    using run by (auto simp: server_start_def Let_def log_line_def log_all_def
        split: sum.splits prod.splits if_splits intro!: log_ok_boot_log log_ok_boot_logs log_ok_Nil)
  show ?thesis
  proof (cases "rt_running rt' = rt_running rt \<and> d' = d")
    case True
    with assms(1) logs show ?thesis by (simp add: runtime_inv_def)
  next
    case False
    have "\<exists>dir clock lowered master. start_arguments data_dir seconds offset capability = Inr (dir, clock, lowered)
        \<and> rt_running rt = None \<and> ho_materialize h dir = Inr master \<and> ho_thread h = Inr ()"
      using False run by (auto simp: server_start_def Let_def log_line_def log_all_def split: sum.splits prod.splits if_splits)
    then obtain dir clock lowered master where a: "start_arguments data_dir seconds offset capability = Inr (dir, clock, lowered)"
      "rt_running rt = None" "ho_materialize h dir = Inr master" "ho_thread h = Inr ()" by blast
    let ?config = "\<lparr>sc_database_path = join_path dir database_name, sc_master = master, sc_capability = lowered,
        sc_clock = clock, sc_asset_source = ho_asset_source h\<rparr>"
    obtain r d1 messages where th: "server_thread h ?config d = (r, d1, messages)" by (cases "server_thread h ?config d")
    have out: "d' = d1" "rt_running rt' = (case r of Inl _ \<Rightarrow> None | Inr handle \<Rightarrow>
        Some \<lparr>rn_handle = handle, rn_active_usn = 0, rn_alive = True\<rparr>)"
      using run by (auto simp: server_start_def Let_def log_line_def log_all_def a th split: sum.splits)
    obtain r2 d2 where st: "start (ho_start h) ?config d = (r2, d2)" by fastforce
    from assms(1) have saves: "all_saves P d" by (simp add: runtime_inv_def)
    have "all_saves P d1 \<and> (\<forall>handle. r = Inr handle \<longrightarrow> sh_path handle = join_path dir database_name
        \<and> se_session (sh_server handle) = None \<and> holds_store (sh_path handle) (se_db (sh_server handle)) d1)"
      using th start_saves [OF assms(2) saves st] saves by (auto simp: server_thread_def st split: sum.splits)
    with out logs show ?thesis by (cases r) (auto simp: runtime_inv_def running_ok_def)
  qed
qed

lemma ffi_login_inv:
  assumes inv: "runtime_inv (rt, d)" and env: "su_disk (ho_start h) = env"
    and run: "ffi_begin_login h seconds offset rt d = (code, rt', d')"
  shows "runtime_inv (rt', d')"
proof (cases "rt' = rt \<and> d' = d")
  case True
  with inv show ?thesis by simp
next
  case False
  then obtain clock n where clock: "device_clock_new seconds offset = Inr clock" and n: "rt_running rt = Some n" "rn_alive n"
    using run by (auto simp: ffi_begin_login_def Let_def split: sum.splits option.splits if_splits)
  obtain r v where l: "server_login (sh_env (rn_handle n)) clock (sh_server (rn_handle n)) = (r, v)" by fastforce
  have ok: "all_saves P d" "running_ok n d" "log_ok (rt_logs rt)" using inv n by (simp_all add: runtime_inv_def)
  define n' where "n' = (case r of Inl _ \<Rightarrow> with_server v n
      | Inr session \<Rightarrow> (with_server v n)\<lparr>rn_active_usn := id_usn (ls_identity session)\<rparr>)"
  have out: "rt_running rt' = Some n'" "d' = committed_disk h n' d" "log_ok (rt_logs rt')"
    using run clock n l ok(3) by (auto simp: ffi_begin_login_def Let_def n'_def log_line_def log_all_def
        split: sum.splits intro!: log_ok_boot_log log_ok_boot_logs)
  have "rn_active_usn n' = (case se_session v of None \<Rightarrow> 0 | Some s \<Rightarrow> id_usn (ls_identity s))"
    using login_runs(2) [OF l] ok(2) by (cases r) (auto simp: n'_def with_server_def running_ok_def)
  moreover have "rn_handle n' = (rn_handle n)\<lparr>sh_server := v\<rparr>" by (cases r) (simp_all add: n'_def with_server_def)
  ultimately have "all_saves P (committed_disk h n' d) \<and> running_ok n' (committed_disk h n' d)"
    by (intro moved_on [OF ok(1,2) env login_runs(1) [OF l]])
  with out show ?thesis by (simp add: runtime_inv_def)
qed

lemma transfer_inv:
  assumes "runtime_inv (rt, d)" and run: "transfer_save h data_dir staging importing rt d = (code, rt', d')"
  shows "runtime_inv (rt', d')"
proof (cases "rt' = rt \<and> d' = d")
  case False
  then have idle: "rt_running rt = None"
    using run by (auto simp: transfer_save_def Let_def split: option.splits if_splits)
  have saves: "all_saves P d" "log_ok (rt_logs rt)" using assms(1) by (simp_all add: runtime_inv_def)
  have "all_saves P d' \<and> rt_running rt' = None \<and> log_ok (rt_logs rt')"
    using run False idle by (auto simp: transfer_save_def Let_def log_line_def saves
        split: option.splits if_splits sum.splits prod.splits
        intro: log_ok_boot_log [OF saves(2)] all_saves_transfer [OF saves(1)])
  then show ?thesis by (simp add: runtime_inv_def)
qed (use assms in simp)

lemma step_inv: "runtime_step h x y \<Longrightarrow> su_disk (ho_start h) = env \<Longrightarrow> runtime_inv x \<Longrightarrow> runtime_inv y"
proof (induction rule: runtime_step.induct)
  case (start data_dir seconds offset capability rt d code rt' d')
  from server_start_inv [OF start(3,2,1)] show ?case .
next
  case (login seconds offset rt d code rt' d')
  from ffi_login_inv [OF login(3,2,1)] show ?case .
next
  case (prepare seconds rt d code rt' d')
  from ffi_prepare_inv [OF prepare(3,2,1)] show ?case .
next
  case (transfer data_dir staging importing rt d code rt' d')
  from transfer_inv [OF transfer(3,1)] show ?case .
next
  case (stop seconds rt d code rt' d')
  obtain c rt1 d1 where p: "ffi_prepare_shutdown h seconds rt d = (c, rt1, d1)" by (cases "ffi_prepare_shutdown h seconds rt d")
  from ffi_prepare_inv [OF stop(3,2) p] stop(1,3) p show ?case by (auto simp: ffi_stop_def runtime_inv_def)
next
  case (drain buffer rt n buffer' rt' d)
  then show ?case by (auto simp: ffi_drain_logs_def runtime_inv_def split: prod.splits dest: log_ok_drain)
next
  case (request rt n hs r d rep n' d')
  obtain v where sv: "serve (sh_env (rn_handle n)) hs r (sh_server (rn_handle n)) = (rep, v)"
    and out: "n' = with_server v n" "d' = committed_disk h n' d"
    using request(3) by (auto simp: runtime_request_def split: prod.splits)
  have ok: "all_saves P d" "running_ok n d" using request(1,5) by (simp_all add: runtime_inv_def)
  have "program_step\<^sup>*\<^sup>* (se_db (sh_server (rn_handle n))) (se_db v)" "se_session v = se_session (sh_server (rn_handle n))"
    using serve_runs [of "sh_server (rn_handle n)"] serve_session [of "sh_env (rn_handle n)" hs r "sh_server (rn_handle n)"]
    by (metis sv snd_conv)+
  then have "all_saves P (committed_disk h n' d) \<and> running_ok n' (committed_disk h n' d)"
    using ok(2) by (intro moved_on [where v = v, OF ok request(4)]) (simp_all add: out(1) with_server_def running_ok_def)
  with request(5) out show ?case by (simp add: runtime_inv_def)
next
  case (died rt n d)
  then show ?case by (simp add: runtime_inv_def running_ok_def)
next
  case (killed rt d)
  then show ?case by (simp add: runtime_inv_def log_ok_Nil)
next
  case (killed_serving rt n t d)
  then have ok: "all_saves P d" "holds_store (sh_path (rn_handle n)) (se_db (sh_server (rn_handle n))) d"
    by (simp_all add: runtime_inv_def running_ok_def)
  from save_moves [OF ok killed_serving(3)] show ?case by (simp add: runtime_inv_def log_ok_Nil)
next
  case (killed_starting rt dir now d s d1 t)
  have "all_saves P d" using killed_starting(5) by (simp add: runtime_inv_def)
  from recovery_saves [OF this opens killed_starting(2)]
  have ok: "all_saves P d1" "holds_store (join_path dir database_name) s d1" by simp_all
  from save_moves [OF ok killed_starting(3)] show ?case by (simp add: runtime_inv_def log_ok_Nil)
qed

lemma run_inv: "library_step\<^sup>*\<^sup>* x y \<Longrightarrow> runtime_inv x \<Longrightarrow> runtime_inv y"
  by (induction rule: rtranclp_induct) (auto simp: library_step_def intro: step_inv)

end


section \<open>Two laws of saves\<close>

interpretation any_save: save_law "\<lambda>_. True"
  by unfold_locales simp_all

text \<open>A store of the current version that the program reaches, or what a stopped migration left.\<close>

definition sound_save :: "save_file \<Rightarrow> bool" where
  "sound_save f \<longleftrightarrow> sf_integrity f = ''ok''
     \<and> (sf_version f = database_schema_version \<and> program_reachable (sf_data f)
          \<and> map (\<lambda>(kind, name, _). (kind, name)) (sf_schema f) = created_objects migration_statements
        \<or> migration_remains f)"

lemma sound_intact: "sound_save f \<Longrightarrow> intact f \<Longrightarrow> program_reachable (sf_data f)
    \<and> map (\<lambda>(kind, name, _). (kind, name)) (sf_schema f) = created_objects migration_statements"
  by (auto simp: sound_save_def intact_def migration_remains_def database_schema_version_def)

lemma sound_migrated:
  assumes "sound_save f"
  shows "sound_save (snd (configure fault object_text f))"
proof (cases "migration_remains f")
  case True
  obtain r g where c: "configure fault object_text f = (r, g)" by fastforce
  have "sf_integrity f = ''ok''" using assms by (simp add: sound_save_def)
  from configure_remains [OF True c this] show ?thesis
    by (auto simp: c sound_save_def program_reachable_def)
next
  case False
  with assms show ?thesis by (simp add: sound_save_def configure_current)
qed

interpretation sound_saves: save_law sound_save
proof
  show "sound_save (blank_save env)" for env
    by (simp add: sound_save_def blank_save_def migration_remains_def exI [of _ 0])
  fix f :: save_file and t :: db and env :: disk_env
  assume f: "sound_save f" "intact f"
  note here = sound_intact [OF f]
  show "sound_save (new_save env (sf_data f))"
    unfolding sound_save_def new_save_def save_file.simps migrated_schema_def entries_objects using here by blast
  assume "program_step\<^sup>*\<^sup>* (sf_data f) t"
  then have "program_reachable t" using here unfolding program_reachable_def by (blast intro: rtranclp_trans)
  with here f(2) show "sound_save (f\<lparr>sf_bytes := de_size env t, sf_data := t\<rparr>)"
    by (simp add: sound_save_def intact_def)
qed (rule sound_migrated)

section \<open>Properties\<close>

text \<open>C26: Whatever the host calls, in whatever order, whichever file operations fail and wherever the process is
killed (between two calls, between two transactions of a call, at a statement of the migration, or at an operation on
files), every save left on the disk (database, backup, export, or set aside) is sound: either it is of the current
version, has every table, and holds a store that the program reaches, so one with all its invariants (sessions and ledger in
order, balances finite and not negative, slots complete), or it is of version 0 and has no more than the first objects of
an interrupted migration.\<close>

theorem library_sound:
  assumes run: "library_step\<^sup>*\<^sup>* (idle, d0) (rt, d)" and before: "all_saves sound_save d0"
  shows "all_saves (\<lambda>f. sf_integrity f = ''ok''
    \<and> (sf_version f = database_schema_version \<and> program_reachable (sf_data f)
         \<and> store_inv (sf_data f) \<and> balances_ok (sf_data f) \<and> slots_complete (sf_data f)
         \<and> map (\<lambda>(kind, name, _). (kind, name)) (sf_schema f) = created_objects migration_statements
       \<or> sf_version f = 0 \<and> (\<exists>i\<le>length migration_statements.
           map (\<lambda>(kind, name, _). (kind, name)) (sf_schema f) = created_objects (take i migration_statements)))) d"
proof -
  have "sound_saves.runtime_inv (idle, d0)"
    using before by (simp add: sound_saves.runtime_inv_def idle_def log_ok_Nil)
  from sound_saves.run_inv [OF run this] have "all_saves sound_save d" by (simp add: sound_saves.runtime_inv_def)
  then show ?thesis
    unfolding all_saves_def sound_save_def migration_remains_def by (blast dest: program_inv)
qed

text \<open>C27: No answered request is lost. Whatever the host did before, the database of a running server opens, without
any call to stop it, as exactly the store of its last answer; the player it reports is the one of its session, zero
before the first login; and the log has at most 256 lines, each with its level.\<close>

theorem library_durable:
  assumes run: "library_step\<^sup>*\<^sup>* (idle, d0) (rt, d)"
  shows "log_ok (rt_logs rt)
    \<and> (case rt_running rt of
         None \<Rightarrow> ffi_active_usn rt = 0
       | Some n \<Rightarrow>
           ffi_active_usn rt = (case se_session (sh_server (rn_handle n)) of None \<Rightarrow> 0 | Some s \<Rightarrow> id_usn (ls_identity s))
           \<and> open_database_with_recovery (env\<lparr>de_faults := no_faults\<rparr>) (sh_path (rn_handle n)) later d
               = (Inr (se_db (sh_server (rn_handle n))), d))"
proof -
  have "any_save.runtime_inv (idle, d0)"
    by (simp add: any_save.runtime_inv_def idle_def log_ok_Nil all_saves_def)
  from any_save.run_inv [OF run this] have inv: "log_ok (rt_logs rt)"
    "case rt_running rt of None \<Rightarrow> True | Some n \<Rightarrow> running_ok n d" by (simp_all add: any_save.runtime_inv_def)
  show ?thesis
  proof (cases "rt_running rt")
    case (Some n)
    then obtain f where f: "d (sh_path (rn_handle n)) = Some (Saved f)" "intact f" "sf_data f = se_db (sh_server (rn_handle n))"
      "rn_active_usn n = (case se_session (sh_server (rn_handle n)) of None \<Rightarrow> 0 | Some s \<Rightarrow> id_usn (ls_identity s))"
      using inv(2) by (auto simp: running_ok_def holds_store_def)
    then have "open_actor (env\<lparr>de_faults := no_faults\<rparr>) (sh_path (rn_handle n)) d = (Inr (se_db (sh_server (rn_handle n))), d)"
      using opened_current [of d "sh_path (rn_handle n)" f "env\<lparr>de_faults := no_faults\<rparr>"] by (simp add: no_faults_def intact_def)
    with Some inv(1) f(4) show ?thesis by (simp add: open_database_with_recovery_def ffi_active_usn_def)
  qed (use inv(1) in \<open>simp add: ffi_active_usn_def\<close>)
qed

text \<open>While a server runs, no save is exported or imported: the transfer is refused and changes nothing.\<close>

lemma transfer_excluded:
  assumes "rt_running rt \<noteq> None"
  shows "\<exists>code. transfer_save h data_dir staging importing rt d = (code, rt, d) \<and> code < 0"
  using assms by (auto simp: transfer_save_def split: option.split)

end
