(* ===== verification/Launch.thy ===== *)
theory Launch
  imports Runtime
begin

text \<open>
  The first start on a device: with a catalog that loads and a disk without a save, the start
  returns a server with one slot, and the login opens its first session. A small master file for
  which all of it can be evaluated.
\<close>

section \<open>The first slot\<close>

lemma achievements_inserted:
  "distinct ids \<Longrightarrow> (\<forall>i\<in>set ids. \<not> tbl_has (achievement_progress s) (u, i)) \<Longrightarrow>
     tx_each (\<lambda>i. insert_row achievement_progress achievement_progress_update (u, i) v) ids s
       = Inr ((), achievement_progress_update (fold (\<lambda>i. tbl_put (u, i) v) ids) s)"
proof (induction ids arbitrary: s)
  case (Cons i ids)
  have "tx_each (\<lambda>i. insert_row achievement_progress achievement_progress_update (u, i) v) (i # ids) s
      = tx_each (\<lambda>i. insert_row achievement_progress achievement_progress_update (u, i) v) ids
          (achievement_progress_update (tbl_put (u, i) v) s)"
    using Cons.prems(2) by (simp add: tx_then_run insert_row_run)
  also have "\<dots> = Inr ((), achievement_progress_update (fold (\<lambda>i. tbl_put (u, i) v) ids)
      (achievement_progress_update (tbl_put (u, i) v) s))"
    using Cons.prems by (intro Cons.IH) auto
  finally show ?case by (simp add: comp_def)
qed (simp add: tx_return_def)

lemma first_slot_at:
  assumes "distinct ids"
  shows "\<exists>i t. create_slot_in_transaction nm now ids migration_1 = Inr (i, t) \<and> id_usn i = 1"
proof -
  let ?s = "save_slots_update (tbl_put 1 (new_slot ''1788360000001'' nm now)) migration_1"
  have "show_int (wrap_i64 (user_id_base + 1)) = ''1788360000001''"
    by (simp add: show_int_def wrap_i64_def user_id_base_def show_nat.simps digit_char_def) code_simp
  moreover have "list_all is_digit ''1788360000001''" by code_simp
  moreover have "\<exists>t. fill_slot 1 now ids ?s = Inr ((), t)"
    by (simp add: fill_slot_def insert_core_def insert_area_def insert_initial_content_def
        initial_kinds_def insert_balances_def all_currencies_def insert_counters_def achievements_inserted [OF assms]
        insert_activities_def insert_row_run tx_then_run tbl_has_Nil tbl_has_Cons tx_return_def)
  ultimately show ?thesis
    by (auto simp: create_slot_in_transaction_def insert_slot_def select_if_none_def tx_run sql_int_def
        sql_check_def user_id_ok_def insert_row_def tbl_has_Nil max_or_zero_def in_i64_def new_slot_def Let_def)
qed

lemma catalog_on_empty:
  assumes "list_all (\<lambda>i. 0 < i) ids"
  shows "tx_commit (configure_achievement_catalog ids now) migration_1
    = (Inr (0, remdups_adj (sort ids)), migration_1)"
proof -
  have seed: "seed_achievement now i migration_1 = Inr (0, migration_1)" for i
    by (simp add: seed_achievement_def tx_run)
  have "tx_collect (seed_achievement now) is migration_1 = Inr (map (\<lambda>_. 0) is, migration_1)" for "is"
    by (induction "is") (simp_all add: seed tx_run)
  moreover have "sum_list (map (\<lambda>_. 0) is) = (0::nat)" for "is" :: "int list" by (induction "is") simp_all
  ultimately show ?thesis
    using assms by (simp add: tx_commit_def configure_achievement_catalog_def Let_def tx_run)
qed

lemma distinct_remdups_sorted: "distinct (remdups_adj (sort (xs :: int list)))"
proof -
  have "sorted ys \<Longrightarrow> distinct (remdups_adj ys)" for ys :: "int list"
    by (induction ys rule: remdups_adj.induct) auto
  then show ?thesis by simp
qed

text \<open>The store after the first start: one slot, active, no session yet.\<close>

lemma first_start_store:
  assumes rules: "configure_reward_rules (start_rules cat) = Inr rules" and ids: "list_all (\<lambda>i. 0 < i) (start_achievements cat)"
  shows "\<exists>kept i t. start_store cat now migration_1 = (Inr (rules, kept), t)
    \<and> create_slot_in_transaction ''Save 1'' now kept migration_1 = Inr (i, t) \<and> id_usn i = 1"
proof -
  let ?kept = "remdups_adj (sort (start_achievements cat))"
  obtain i t where c: "create_slot_in_transaction ''Save 1'' now ?kept migration_1 = Inr (i, t)" "id_usn i = 1"
    using first_slot_at [OF distinct_remdups_sorted] by blast
  have "start_store cat now migration_1 = (Inr (rules, ?kept), t)"
    unfolding start_store_def rules sum.case catalog_on_empty [OF ids] prod.case
    by (simp add: ensure_default_slot_def list_slots_def create_slot_def tx_commit_def c(1))
  with c show ?thesis by blast
qed

lemma first_login:
  assumes c: "create_slot_in_transaction nm now ids migration_1 = Inr (i, t)" and i: "id_usn i = 1"
  shows "\<exists>l t'. begin_login_tx hash clock t = Inr (l, t') \<and> id_usn (ls_identity l) = 1"
proof -
  note t = create_slot_Inr [OF c, unfolded i]
  have r: "runtime_selection t = \<lparr>rsr_active_usn = Some 1, rsr_pending_usn = None, rsr_session_nonce = 0\<rparr>"
    by (simp add: t(8) activate_def)
  have slot: "tbl_get (save_slots t) 1 = Some (new_slot (id_user_id i) nm now)"
    by (simp add: t(5) tbl_get_Cons)
  have "\<exists>l t'. begin_login_tx hash clock t = Inr (l, t')"
    using t(6) r slot
    by (simp add: begin_login_tx_def select_session_Inr open_session_Inr anchor_pass_def Let_def
        tx_simps tbl_has_def next_active_def in_i64_def end_all_def tbl_set_def)
  then obtain l t' where l: "begin_login_tx hash clock t = Inr (l, t')" by blast
  have "id_usn (ls_identity l) = 1" by (rule begin_login_Inr [OF l]) (use r in \<open>simp add: next_active_def\<close>)
  with l show ?thesis by blast
qed


section \<open>The first start\<close>

lemma started_first:
  assumes cat: "start_catalog (de_sql_text (su_disk env)) (sc_master config) = Inr cat"
    and rules: "configure_reward_rules (start_rules cat) = Inr rules" and ids: "list_all (\<lambda>i. 0 < i) (start_achievements cat)"
    and disk: "d (sc_database_path config) = None" "de_faults (su_disk env) (OpenDatabase (sc_database_path config)) d = None"
      "\<forall>k. de_faults (su_disk env) (RunStatement (sc_database_path config) k) d = None"
    and address: "su_address env = Inr address"
  shows "\<exists>handle d' i ids. start env config d = (Inr handle, d')
    \<and> create_slot_in_transaction ''Save 1'' (unix_seconds (sc_clock config)) ids migration_1 = Inr (i, se_db (sh_server handle))
    \<and> id_usn i = 1 \<and> ge_endpoint (he_game (sh_env handle)) = ''http://'' @ address \<and> se_session (sh_server handle) = None"
proof -
  let ?p = "sc_database_path config" and ?now = "unix_seconds (sc_clock config)"
  obtain kept i t where st: "start_store cat ?now migration_1 = (Inr (rules, kept), t)"
    and c: "create_slot_in_transaction ''Save 1'' ?now kept migration_1 = Inr (i, t)" "id_usn i = 1"
    using first_start_store [OF rules ids] by blast
  have o: "open_database_with_recovery (su_disk env) ?p ?now d
      = (Inr migration_1, d(?p := Some (Saved (new_save (su_disk env) migration_1))))"
    using disk by (simp add: open_database_with_recovery_def opened_new)
  have "start env config d = (Inr \<lparr>sh_env = start_http env config cat rules kept address,
          sh_server = \<lparr>se_session = None, se_notice_emitted = False, se_db = t\<rparr>, sh_path = ?p\<rparr>,
        save_db (su_disk env) ?p t (d(?p := Some (Saved (new_save (su_disk env) migration_1)))))"
    unfolding start_def Let_def cat sum.case o prod.case st address by simp
  moreover have "ge_endpoint (he_game (start_http env config cat rules kept address)) = ''http://'' @ address"
    by (simp add: start_http_def)
  ultimately show ?thesis using c
    by (intro exI [of _ "\<lparr>sh_env = start_http env config cat rules kept address,
          sh_server = \<lparr>se_session = None, se_notice_emitted = False, se_db = t\<rparr>, sh_path = ?p\<rparr>"] exI [of _ i] exI [of _ kept]) auto
qed

lemma started_by_host:
  assumes arguments: "start_arguments data_dir seconds offset capability = Inr (dir, clock, lowered)"
    and host: "rt_running rt = None" "ho_materialize h dir = Inr master" "ho_thread h = Inr ()" "ho_tokio h = Inr ()"
    and started: "start (ho_start h) \<lparr>sc_database_path = join_path dir database_name, sc_master = master,
        sc_capability = lowered, sc_clock = clock, sc_asset_source = ho_asset_source h\<rparr> d = (Inr handle, d')"
  shows "\<exists>rt'. server_start h data_dir seconds offset capability rt d = (0, rt', d')
    \<and> rt_running rt' = Some \<lparr>rn_handle = handle, rn_active_usn = 0, rn_alive = True\<rparr>"
  using host(1) by (simp add: server_start_def Let_def arguments log_line_def log_all_def host server_thread_def started)

lemma host_starts:
  assumes arguments: "start_arguments data_dir seconds offset capability = Inr (dir, clock, lowered)"
    and host: "rt_running rt = None" "ho_materialize h dir = Inr master" "ho_thread h = Inr ()" "ho_tokio h = Inr ()"
    and cat: "start_catalog (de_sql_text (su_disk (ho_start h))) master = Inr cat" "configure_reward_rules (start_rules cat) = Inr rules"
      "list_all (\<lambda>i. 0 < i) (start_achievements cat)"
    and disk: "d (join_path dir database_name) = None"
      "de_faults (su_disk (ho_start h)) (OpenDatabase (join_path dir database_name)) d = None"
      "\<forall>k. de_faults (su_disk (ho_start h)) (RunStatement (join_path dir database_name) k) d = None"
    and address: "su_address (ho_start h) = Inr address"
  shows "\<exists>handle rt1 d1 i ids. server_start h data_dir seconds offset capability rt d = (0, rt1, d1)
    \<and> rt_running rt1 = Some \<lparr>rn_handle = handle, rn_active_usn = 0, rn_alive = True\<rparr>
    \<and> create_slot_in_transaction ''Save 1'' (unix_seconds clock) ids migration_1 = Inr (i, se_db (sh_server handle))
    \<and> id_usn i = 1 \<and> ge_endpoint (he_game (sh_env handle)) = ''http://'' @ address"
proof -
  let ?config = "\<lparr>sc_database_path = join_path dir database_name, sc_master = master, sc_capability = lowered,
      sc_clock = clock, sc_asset_source = ho_asset_source h\<rparr>"
  have "\<exists>handle d' i ids. start (ho_start h) ?config d = (Inr handle, d')
      \<and> create_slot_in_transaction ''Save 1'' (unix_seconds clock) ids migration_1 = Inr (i, se_db (sh_server handle))
      \<and> id_usn i = 1 \<and> ge_endpoint (he_game (sh_env handle)) = ''http://'' @ address \<and> se_session (sh_server handle) = None"
    using started_first [of "ho_start h" ?config cat rules d address] cat disk address by simp
  then obtain handle d1 i ids where st: "start (ho_start h) ?config d = (Inr handle, d1)"
    and c: "create_slot_in_transaction ''Save 1'' (unix_seconds clock) ids migration_1 = Inr (i, se_db (sh_server handle))" "id_usn i = 1"
      "ge_endpoint (he_game (sh_env handle)) = ''http://'' @ address" by blast
  from started_by_host [OF arguments host st] c show ?thesis by blast
qed

text \<open>C28: The game can start on a fresh device. With arguments that are accepted, a host whose services succeed
(master data, thread, runtime, socket, the opening and the migration of the file), a catalog that loads with valid costume
bonuses and achievement ids, no save yet and a login offset of at most 14 hours, the start returns 0 with an
endpoint and the login that follows returns 0: a session of player 1 is open.\<close>

theorem first_start_serves:
  assumes arguments: "start_arguments data_dir seconds offset capability = Inr (dir, clock, lowered)"
    and host: "rt_running rt = None" "ho_materialize h dir = Inr master" "ho_thread h = Inr ()" "ho_tokio h = Inr ()"
    and cat: "start_catalog (de_sql_text (su_disk (ho_start h))) master = Inr cat" "configure_reward_rules (start_rules cat) = Inr rules"
      "list_all (\<lambda>i. 0 < i) (start_achievements cat)"
    and disk: "d (join_path dir database_name) = None"
      "de_faults (su_disk (ho_start h)) (OpenDatabase (join_path dir database_name)) d = None"
      "\<forall>k. de_faults (su_disk (ho_start h)) (RunStatement (join_path dir database_name) k) d = None"
    and address: "su_address (ho_start h) = Inr address"
    and login: "- 840 \<le> login_offset" "login_offset \<le> 840"
  shows "\<exists>rt1 d1 rt2 d2 n session. server_start h data_dir seconds offset capability rt d = (0, rt1, d1)
    \<and> server_endpoint rt1 = Some (''http://'' @ address) \<and> ffi_active_usn rt1 = 0
    \<and> ffi_begin_login h login_seconds login_offset rt1 d1 = (0, rt2, d2) \<and> ffi_active_usn rt2 = 1
    \<and> rt_running rt2 = Some n \<and> se_session (sh_server (rn_handle n)) = Some session \<and> id_usn (ls_identity session) = 1"
proof -
  have "\<exists>handle rt1 d1 i ids. server_start h data_dir seconds offset capability rt d = (0, rt1, d1)
      \<and> rt_running rt1 = Some \<lparr>rn_handle = handle, rn_active_usn = 0, rn_alive = True\<rparr>
      \<and> create_slot_in_transaction ''Save 1'' (unix_seconds clock) ids migration_1 = Inr (i, se_db (sh_server handle))
      \<and> id_usn i = 1 \<and> ge_endpoint (he_game (sh_env handle)) = ''http://'' @ address"
    by (rule host_starts [where cat = cat and rules = rules]) (fact arguments host cat disk address)+
  then obtain handle rt1 d1 i ids where run: "server_start h data_dir seconds offset capability rt d = (0, rt1, d1)"
    and n: "rt_running rt1 = Some \<lparr>rn_handle = handle, rn_active_usn = 0, rn_alive = True\<rparr>"
    and c: "create_slot_in_transaction ''Save 1'' (unix_seconds clock) ids migration_1 = Inr (i, se_db (sh_server handle))" "id_usn i = 1"
    and e: "ge_endpoint (he_game (sh_env handle)) = ''http://'' @ address" by blast
  let ?clock = "\<lparr>unix_seconds = login_seconds, utc_offset_minutes = login_offset\<rparr>"
  have k: "device_clock_new login_seconds login_offset = Inr ?clock" using login by (simp add: device_clock_new_def)
  obtain l t where l: "begin_login_tx (he_capability_hash (sh_env handle)) ?clock (se_db (sh_server handle)) = Inr (l, t)"
    "id_usn (ls_identity l) = 1" using first_login [OF c] by blast
  have "\<exists>rt2 d2 n. ffi_begin_login h login_seconds login_offset rt1 d1 = (0, rt2, d2) \<and> ffi_active_usn rt2 = 1
      \<and> rt_running rt2 = Some n \<and> se_session (sh_server (rn_handle n)) = Some (l\<lparr>ls_capability := he_capability (sh_env handle)\<rparr>)"
    by (simp add: ffi_begin_login_def k n server_login_def begin_login_def tx_commit_def l Let_def with_server_def ffi_active_usn_def
        log_line_def log_all_def)
  then obtain rt2 d2 m where two: "ffi_begin_login h login_seconds login_offset rt1 d1 = (0, rt2, d2)" "ffi_active_usn rt2 = 1"
    "rt_running rt2 = Some m" "se_session (sh_server (rn_handle m)) = Some (l\<lparr>ls_capability := he_capability (sh_env handle)\<rparr>)" by blast
  have "server_endpoint rt1 = Some (''http://'' @ address)" "ffi_active_usn rt1 = 0"
    by (simp_all add: server_endpoint_def ffi_active_usn_def n e)
  with run two l(2) show ?thesis
    by (intro exI [of _ rt1] exI [of _ d1] exI [of _ rt2] exI [of _ d2] exI [of _ m]
        exI [of _ "l\<lparr>ls_capability := he_capability (sh_env handle)\<rparr>"]) simp
qed


section \<open>A small master file\<close>

text \<open>Every required table, without rows, with all columns of the queries.\<close>

definition master_columns :: "string list list" where
  "master_columns =
    [[''i_Area'', ''i_Grade'', ''i_FanCount''],
     [''i_Id'', ''i_Area'', ''s_GoodsType'', ''s_Cost'', ''f_FanMultiply'', ''i_AcquisitionType'', ''i_AcquisitionId'', ''b_IsActive''],
     [''i_Id'', ''i_Area'', ''s_GoodsType'', ''s_Cost'', ''d_IncrementValue'', ''i_AcquisitionType'', ''i_AcquisitionId'', ''b_IsActive''],
     [''i_Id'', ''i_Area'', ''i_MaxLevel'', ''s_GoodsType'', ''i_Cost'', ''f_CostIncreaseValue'', ''f_Cooltime''],
     [''i_Id'', ''i_Area'', ''i_MaxLevel'', ''s_GoodsType'', ''i_Cost'', ''f_CostIncreaseValue'', ''b_IsActive''],
     [''i_Id'', ''i_Area'', ''i_MaxLevel'', ''s_GoodsType'', ''d_UnlockCost'', ''i_AcquisitionType'', ''i_AcquisitionId'', ''b_IsActive''],
     [''i_Level'', ''f_EncoreBonusAppearCooltime_Sec'', ''i_EncoreBonusGiftAmount'', ''i_EncoreFollowerProfileExp''],
     [''i_Id'', ''i_Chapter'', ''i_StageIndex'', ''s_StageType'', ''i_RewardGroupID'', ''s_PercentRewardGroupID'', ''i_GoalScore1'', ''i_GoalScore2'', ''i_GoalScore3'', ''s_BonusProfileID'', ''i_BonusMusicID'', ''b_IsActive''],
     [''i_Id'', ''i_SubscribeID'', ''i_TicketCollectionId'', ''i_PointPrice'', ''i_PaidPoint'', ''i_ADCoolTime'', ''i_ADPoint''],
     [''i_Id'', ''i_Group'', ''i_RewardType'', ''i_RewardID'', ''l_RewardQuantity'', ''i_BuyFirstQuantity''],
     [''i_Id'', ''i_ProductType'', ''i_RewardGroup'', ''i_SellType'', ''i_SellValue'', ''b_IsActive'', ''i_Condition'', ''i_ConditionValue''],
     [''i_Id'', ''i_Group'', ''i_Step'', ''i_Goal'', ''i_FreeRewardGroup'', ''i_PaidRewardGroup''],
     [''i_Id'', ''i_ProfileID'', ''i_Level'', ''d_RequireEXP'', ''i_RewardGroup'', ''i_AddCandy'', ''i_AddMaxAp'', ''b_IsActive''],
     [''i_Level'', ''i_CharacterScore'', ''i_FollowerScore'', ''i_MusicScore'', ''b_IsActive''],
     [''i_Id'', ''i_unlockLevel'', ''i_RewardGroupID1'', ''i_GoalStar1'', ''i_RewardGroupID2'', ''i_GoalStar2'', ''i_RewardGroupID3'', ''i_GoalStar3'', ''b_IsActive''],
     [''i_Id'', ''i_GroupID'', ''i_Percent'', ''i_RewardType'', ''i_RewardID'', ''l_RewardQuantity'', ''b_IsActive''],
     [''i_Id'', ''i_GiftType'', ''d_Value'', ''b_IsActive''],
     [''i_Id'', ''d_Condition1_1'', ''d_Condition2_1'', ''d_Condition3_1'', ''i_RewardGroup1'', ''i_RewardGroup2'', ''i_RewardGroup3'', ''b_IsActive'', ''i_Type''],
     [''i_Id'', ''i_GroupId'', ''i_RewardGroupId'', ''i_AltRewardGroupId'', ''b_IsActive''],
     [''i_Id'', ''s_ConditionType'', ''d_Condition'', ''i_MailRewardID'', ''b_IsActive''],
     (''i_Id'' # map (\<lambda>i. ''s_Condition_'' @ show_nat i) [1..<21] @ ''s_RewardType'' # map (\<lambda>i. ''i_Reward_'' @ show_nat i) [1..<21] @ [''i_MaxLevel'', ''b_IsActive'']),
     [''i_Id'', ''d_Condition_1'', ''s_RewardType'', ''i_Reward_1'', ''b_IsActive''],
     [''i_Id'', ''s_RewardType'', ''i_RewardGroup'', ''b_IsActive''],
     [''i_Id'', ''i_GroupID'', ''i_Level'', ''i_RequireEXP'', ''i_RewardGroup'', ''b_IsActive''],
     [''i_Id'', ''i_Group'', ''i_Day'', ''i_RewardType'', ''i_RewardID'', ''l_RewardQuantity'', ''s_CustomIconType'', ''s_CustomIconSprite'']]"

definition bare_table :: sql_table where
  "bare_table = \<lparr>st_columns = concat master_columns, st_rows = []\<rparr>"

definition bare_master :: master_file where
  "bare_master = \<lparr>mf_integrity = ''ok'', mf_schema = [\<lparr>mmd_version = 2, mmd_source_asset_count = 0, mmd_source_table_count = 0\<rparr>],
     mf_listed = required_tables, mf_tables = map (\<lambda>n. (n, bare_table)) required_tables\<rparr>"

lemma find_ci_same: "n \<in> set names \<Longrightarrow> find_ci n (map (\<lambda>k. (k, t)) names) = Some t"
  by (induction names) (auto simp: find_ci_def eq_ignore_case_def)

lemma bare_found: "n \<in> set required_tables \<Longrightarrow> find_ci n (mf_tables bare_master) = Some bare_table"
  unfolding bare_master_def master_file.select_convs by (rule find_ci_same)

lemma select_none:
  assumes "find_ci table (mf_tables m) = Some t" "st_rows t = []" "set columns \<subseteq> set (st_columns t)"
  shows "select_rows m table columns keep keys reader = Inr []"
proof -
  have "list_all (\<lambda>c. list_ex (\<lambda>k. eq_ignore_case k c) (st_columns t)) columns"
    using assms(3) by (auto simp: list_all_iff list_ex_iff eq_ignore_case_def)
  then show ?thesis by (simp add: select_rows_def assms(1,2) table_rows_def order_rows_def)
qed

lemma bare_select:
  assumes "columns \<in> set master_columns" "table \<in> set required_tables"
  shows "select_rows bare_master table columns keep keys reader = Inr []"
proof (rule select_none [OF bare_found [OF assms(2)]])
  show "st_rows bare_table = []" by (simp add: bare_table_def)
  show "set columns \<subseteq> set (st_columns bare_table)" using assms(1) by (auto simp: bare_table_def)
qed

lemma game_data_none:
  assumes "\<forall>(field, table)\<in>set xs. find_ci table (mf_tables m) = Some t" "st_rows t = []"
  shows "foldl (\<lambda>acc (field, table). case acc of Inl e \<Rightarrow> Inl e | Inr result \<Rightarrow>
      (case find_ci table (mf_tables m) of None \<Rightarrow> Inl MasterStatement
       | Some t \<Rightarrow> Inr (tbl_put field (map master_row_of (table_rows t)) result))) (Inr r) xs
    = Inr (foldl (\<lambda>r (field, _). tbl_put field [] r) r xs)"
  using assms(1) by (induction xs arbitrary: r) (auto simp: table_rows_def assms(2))

lemma tbl_get_puts: "tbl_get (foldl (\<lambda>r (field, _). tbl_put field v r) r xs) k = (if k \<in> fst ` set xs then Some v else tbl_get r k)"
  by (induction xs arbitrary: r) auto

lemma bare_game_data: "\<exists>gd. load_game_data bare_master = Inr gd \<and> tbl_get gd ''Shop'' = Some [] \<and> tbl_get gd ''Reward_group'' = Some []"
proof -
  have "\<forall>(field, table)\<in>set game_data_tables. find_ci table (mf_tables bare_master) = Some bare_table"
    by (auto intro!: bare_found) (force simp: required_tables_def)
  from game_data_none [OF this, of "[]"]
  have "load_game_data bare_master = Inr (foldl (\<lambda>r (field, _). tbl_put field [] r) [] game_data_tables)"
    by (simp add: load_game_data_def bare_table_def)
  moreover have "''Shop'' \<in> fst ` set game_data_tables" "''Reward_group'' \<in> fst ` set game_data_tables"
    by (simp_all add: game_data_tables_def)
  ultimately show ?thesis by (simp add: tbl_get_puts)
qed

lemma bare_loads:
  "load_fan_requirements bare_master = Inr []"
  "load_costumes bare_master = Inr []"
  "load_guitars bare_master = Inr []"
  "load_skills bare_master = Inr []"
  "load_units bare_master = Inr []"
  "load_music bare_master = Inr []"
  "load_music_levels bare_master = Inr []"
  "load_ch3_stages bare_master = Inr []"
  "load_pass_seasons bare_master = Inr []"
  "load_reward_groups bare_master = Inr []"
  "load_shops bare_master = Inr []"
  "load_pass_rewards bare_master = Inr []"
  "load_follower_profile_levels bare_master = Inr []"
  "load_ch3_scores bare_master = Inr []"
  "load_ch3_chapters bare_master = Inr []"
  "load_percent_rewards bare_master = Inr []"
  "load_follower_gifts bare_master = Inr []"
  "load_follower_quests bare_master = Inr []"
  "load_select_rewards bare_master = Inr []"
  "load_sam_seck bare_master = Inr []"
  "load_achievements bare_master = Inr []"
  "load_daily_missions bare_master = Inr []"
  "load_ads bare_master = Inr []"
  "load_ad_levels bare_master = Inr []"
  "load_daily_rewards bare_master = Inr []"
  unfolding load_fan_requirements_def load_costumes_def load_guitars_def load_skills_def load_units_def
    load_music_def load_music_levels_def load_ch3_stages_def load_pass_seasons_def load_reward_groups_def
    load_shops_def load_pass_rewards_def load_follower_profile_levels_def load_ch3_scores_def load_ch3_chapters_def
    load_percent_rewards_def load_follower_gifts_def load_follower_quests_def load_select_rewards_def load_sam_seck_def
    load_achievements_def load_daily_missions_def load_ads_def load_ad_levels_def load_daily_rewards_def
  by (rule bare_select, (unfold master_columns_def, ((rule list.set_intros(1) | rule list.set_intros(2))+)[1]),
      simp add: required_tables_def game_data_tables_def)+

lemma bare_opens: "open_read_only bare_master = Inr \<lparr>mmd_version = 2, mmd_source_asset_count = 0, mmd_source_table_count = 0\<rparr>"
proof -
  have "find (\<lambda>t. t \<notin> set required_tables) required_tables = None" by (simp add: find_None_iff)
  then show ?thesis by (simp add: open_read_only_def bare_master_def master_schema_version_def)
qed

lemma bare_catalog:
  "\<exists>cat. load_catalog md bare_master = Inr cat \<and> mc_costumes cat = [] \<and> mc_achievements cat = [] \<and> mc_shops cat = []
     \<and> mc_reward_groups cat = [] \<and> tbl_get (mc_game_data cat) ''Shop'' = Some []
     \<and> tbl_get (mc_game_data cat) ''Reward_group'' = Some []"
proof -
  obtain gd where gd: "load_game_data bare_master = Inr gd" "tbl_get gd ''Shop'' = Some []" "tbl_get gd ''Reward_group'' = Some []"
    using bare_game_data by blast
  show ?thesis unfolding load_catalog_def bare_loads gd(1) sum_bind_def sum.case by (simp add: gd(2,3))
qed

section \<open>The memorial shop on it\<close>

lemma push_row_kept: "mc_costumes (push_row t r cat) = mc_costumes cat" "mc_achievements (push_row t r cat) = mc_achievements cat"
  by (simp_all add: push_row_def)

lemma push_rewards_returns:
  "in_i64 (shi_reward_group item * 100) \<Longrightarrow> in_i64 (shi_reward_group item * 100 + index + int (length rs)) \<Longrightarrow> 0 \<le> index \<Longrightarrow>
     \<exists>c. push_rewards item index rs cat = Inr c \<and> mc_costumes c = mc_costumes cat \<and> mc_achievements c = mc_achievements cat"
proof (induction rs arbitrary: index cat)
  case (Cons r rs)
  let ?cat = "push_row ''Reward_group'' (reward_master_row (shi_reward_group item * 100 + (index + 1)) (shi_reward_group item) r)
      (cat\<lparr>mc_reward_groups := mc_reward_groups cat
         @ [reward_row (shi_reward_group item * 100 + (index + 1)) (shi_reward_group item) r]\<rparr>)"
  have fits: "in_i64 (shi_reward_group item * 100 + (index + 1))" using Cons.prems by (auto simp: in_i64_def)
  have "\<exists>c. push_rewards item (index + 1) rs ?cat = Inr c \<and> mc_costumes c = mc_costumes ?cat \<and> mc_achievements c = mc_achievements ?cat"
    using Cons.prems by (intro Cons.IH) (simp_all add: algebra_simps)
  then show ?case using fits Cons.prems(1) by (simp add: Let_def push_row_kept)
qed simp

lemma push_items_returns:
  "list_all (\<lambda>i. in_i64 (shi_reward_group i * 100) \<and> in_i64 (shi_reward_group i * 100 + int (length (shi_rewards i)))) items \<Longrightarrow>
     \<exists>c. push_items shop items cat = Inr c \<and> mc_costumes c = mc_costumes cat \<and> mc_achievements c = mc_achievements cat"
proof (induction items arbitrary: cat)
  case (Cons item items)
  let ?cat = "push_row ''Shop'' (memorial_shop_master_row shop item) (cat\<lparr>mc_shops := mc_shops cat @ [shop_row shop item]\<rparr>)"
  have "\<exists>c. push_rewards item 0 (shi_rewards item) ?cat = Inr c \<and> mc_costumes c = mc_costumes ?cat \<and> mc_achievements c = mc_achievements ?cat"
    using Cons.prems by (intro push_rewards_returns) auto
  then obtain c where c: "push_rewards item 0 (shi_rewards item) ?cat = Inr c" "mc_costumes c = mc_costumes cat" "mc_achievements c = mc_achievements cat"
    by (auto simp: push_row_kept)
  have "\<exists>c'. push_items shop items c = Inr c' \<and> mc_costumes c' = mc_costumes c \<and> mc_achievements c' = mc_achievements c"
    using Cons.prems by (intro Cons.IH) simp
  with c show ?case by (simp add: sum_bind_def)
qed simp

lemma embedded_shop_range:
  "list_all (\<lambda>i. in_i64 (shi_reward_group i * 100) \<and> in_i64 (shi_reward_group i * 100 + int (length (shi_rewards i))))
     (shp_items (memorial_shop embedded_policy))"
  by (simp add: embedded_policy_def embedded_shop_items_def shop_item_def in_i64_def)

lemma bare_start: "\<exists>cat. start_catalog sql (Inr bare_master) = Inr cat \<and> mc_costumes cat = [] \<and> mc_achievements cat = []"
proof -
  let ?shop = "memorial_shop embedded_policy" and ?md = "\<lparr>mmd_version = 2, mmd_source_asset_count = 0, mmd_source_table_count = 0\<rparr>"
  obtain cat where cat: "load_catalog ?md bare_master = Inr cat" "mc_costumes cat = []" "mc_achievements cat = []" "mc_shops cat = []"
    "mc_reward_groups cat = []" "tbl_get (mc_game_data cat) ''Shop'' = Some []" "tbl_get (mc_game_data cat) ''Reward_group'' = Some []"
    using bare_catalog by blast
  obtain c where c: "push_items ?shop (shp_items ?shop) cat = Inr c" "mc_costumes c = []" "mc_achievements c = []"
    using push_items_returns [OF embedded_shop_range] cat(2,3) by metis
  have "\<forall>i\<in>set (shp_items ?shop). free_shop_item cat [] [] i = Inr ()" by (simp add: free_shop_item_def cat)
  then obtain ys where ys: "sum_collect (free_shop_item cat [] []) (shp_items ?shop) = Inr ys" using sum_collect_units by blast
  have "overlay_present ?shop cat = (0, 0)" by (simp add: overlay_present_def cat)
  then have "apply_memorial_shop_policy ?shop cat = Inr (sort_overlay c)"
    by (simp add: apply_memorial_shop_policy_def cat expect_some_def sum_bind_def ys c(1) del: push_items.simps)
  then show ?thesis
    by (simp add: start_catalog_def sum_bind_def bare_opens cat(1) sort_overlay_def c(2,3))
qed


section \<open>A concrete host\<close>

definition demo_host :: host where
  "demo_host = \<lparr>ho_start = \<lparr>su_disk = demo_disk_env, su_http = demo_http, su_hash = \<lambda>_. [7], su_address = Inr ''127.0.0.1:1''\<rparr>,
     ho_lossy = \<lambda>_. [], ho_materialize = \<lambda>_. Inr (Inr bare_master), ho_thread = Inr (), ho_tokio = Inr (),
     ho_progress = [], ho_asset_source = None, ho_process_id = 5\<rparr>"

definition demo_capability :: bytes where
  "demo_capability = replicate 64 48"

lemma demo_arguments:
  "start_arguments (Some []) 0 0 (Some demo_capability) = Inr ([], \<lparr>unix_seconds = 0, utc_offset_minutes = 0\<rparr>, replicate 64 CHR ''0'')"
proof -
  have "utf8_valid (replicate k 48)" for k by (induction k) simp_all
  moreover have zero: "char_of (unat (48 :: byte)) = CHR ''0''" by code_simp
  ultimately have "from_utf8 demo_capability = Some (replicate 64 CHR ''0'')"
    by (simp add: from_utf8_def demo_capability_def map_replicate_trivial)
  moreover have "is_hex_digit CHR ''0''" "ascii_lower CHR ''0'' = CHR ''0''" by code_simp+
  ultimately show ?thesis
    by (simp add: start_arguments_def from_utf8_def [of "[]"] capability_ok_def list_all_iff to_ascii_lowercase_def
        device_clock_new_def)
qed

lemma demo_parts:
  "\<exists>cat. start_catalog (de_sql_text (su_disk (ho_start demo_host))) (Inr bare_master) = Inr cat
     \<and> configure_reward_rules (start_rules cat) = Inr (start_rules cat) \<and> start_achievements cat = []"
proof -
  obtain cat where "start_catalog (de_sql_text (su_disk (ho_start demo_host))) (Inr bare_master) = Inr cat"
    "mc_costumes cat = []" "mc_achievements cat = []" using bare_start by blast
  then show ?thesis by (auto simp: start_rules_def start_achievements_def configure_reward_rules_def)
qed

lemma demo_host_simps:
  "ho_materialize demo_host dir = Inr (Inr bare_master)" "ho_thread demo_host = Inr ()" "ho_tokio demo_host = Inr ()"
  "su_address (ho_start demo_host) = Inr ''127.0.0.1:1''" "de_faults (su_disk (ho_start demo_host)) operation d = None"
  by (simp_all add: demo_host_def demo_disk_env_def no_faults_def)

theorem first_start_serves_witness:
  "\<exists>rt1 d1 rt2 d2. server_start demo_host (Some []) 0 0 (Some demo_capability) idle (\<lambda>_. None) = (0, rt1, d1)
     \<and> server_endpoint rt1 = Some ''http://127.0.0.1:1'' \<and> ffi_begin_login demo_host 0 0 rt1 d1 = (0, rt2, d2) \<and> ffi_active_usn rt2 = 1"
proof -
  obtain cat where cat: "start_catalog (de_sql_text (su_disk (ho_start demo_host))) (Inr bare_master) = Inr cat"
    "configure_reward_rules (start_rules cat) = Inr (start_rules cat)" "start_achievements cat = []" using demo_parts by blast
  have "\<exists>rt1 d1 rt2 d2 n session. server_start demo_host (Some []) 0 0 (Some demo_capability) idle (\<lambda>_. None) = (0, rt1, d1)
      \<and> server_endpoint rt1 = Some (''http://'' @ ''127.0.0.1:1'') \<and> ffi_active_usn rt1 = 0
      \<and> ffi_begin_login demo_host 0 0 rt1 d1 = (0, rt2, d2) \<and> ffi_active_usn rt2 = 1
      \<and> rt_running rt2 = Some n \<and> se_session (sh_server (rn_handle n)) = Some session \<and> id_usn (ls_identity session) = 1"
    by (rule first_start_serves [OF demo_arguments _ demo_host_simps(1-3) cat(1,2)])
      (simp_all add: cat(3) demo_host_simps idle_def)
  then show ?thesis by auto
qed

lemma demo_running:
  "\<exists>rt d n. runtime_step demo_host (idle, \<lambda>_. None) (rt, d) \<and> rt_running rt = Some n"
proof -
  obtain cat where cat: "start_catalog (de_sql_text (su_disk (ho_start demo_host))) (Inr bare_master) = Inr cat"
    "configure_reward_rules (start_rules cat) = Inr (start_rules cat)" "start_achievements cat = []" using demo_parts by blast
  have "\<exists>handle rt1 d1 i ids. server_start demo_host (Some []) 0 0 (Some demo_capability) idle (\<lambda>_. None) = (0, rt1, d1)
      \<and> rt_running rt1 = Some \<lparr>rn_handle = handle, rn_active_usn = 0, rn_alive = True\<rparr>
      \<and> create_slot_in_transaction ''Save 1'' (unix_seconds \<lparr>unix_seconds = 0, utc_offset_minutes = 0\<rparr>) ids migration_1
          = Inr (i, se_db (sh_server handle))
      \<and> id_usn i = 1 \<and> ge_endpoint (he_game (sh_env handle)) = ''http://'' @ ''127.0.0.1:1''"
    by (rule host_starts [OF demo_arguments _ demo_host_simps(1-3) cat(1,2)])
      (simp_all add: cat(3) demo_host_simps idle_def)
  then show ?thesis by (blast intro: runtime_step.start)
qed

lemma library_stepI: "runtime_step h x y \<Longrightarrow> library_step x y"
  by (auto simp: library_step_def)

theorem library_sound_witness:
  "\<exists>rt d n. library_step\<^sup>*\<^sup>* (idle, \<lambda>_. None) (rt, d) \<and> rt_running rt = Some n
     \<and> all_saves (\<lambda>f. sf_integrity f = ''ok''
         \<and> (sf_version f = database_schema_version \<and> program_reachable (sf_data f)
              \<and> store_inv (sf_data f) \<and> balances_ok (sf_data f) \<and> slots_complete (sf_data f)
              \<and> map (\<lambda>(kind, name, _). (kind, name)) (sf_schema f) = created_objects migration_statements
            \<or> sf_version f = 0 \<and> (\<exists>i\<le>length migration_statements.
                map (\<lambda>(kind, name, _). (kind, name)) (sf_schema f) = created_objects (take i migration_statements)))) d"
proof -
  obtain rt d n where run: "library_step\<^sup>*\<^sup>* (idle, \<lambda>_. None) (rt, d)" "rt_running rt = Some n"
    using demo_running by (blast intro: r_into_rtranclp library_stepI)
  have "all_saves sound_save (\<lambda>_. None)" by (simp add: all_saves_def)
  from library_sound [OF run(1) this] run show ?thesis by blast
qed

theorem library_durable_witness:
  "\<exists>(rt :: runtime) d n. rt_running rt = Some n \<and> log_ok (rt_logs rt)
     \<and> open_database_with_recovery (demo_disk_env\<lparr>de_faults := no_faults\<rparr>) (sh_path (rn_handle n)) 9 d
         = (Inr (se_db (sh_server (rn_handle n))), d)"
proof -
  obtain rt d n where run: "library_step\<^sup>*\<^sup>* (idle, \<lambda>_. None) (rt, d)" "rt_running rt = Some n"
    using demo_running by (blast intro: r_into_rtranclp library_stepI)
  from library_durable [OF run(1), of demo_disk_env 9] run(2) show ?thesis
    by (intro exI [of _ rt] exI [of _ d] exI [of _ n]) simp
qed

end
