(* ===== verification/Spec2Isabelle.thy ===== *)
theory Spec2Isabelle
  imports Policy Commands Envelope Text Master Calendar Prices Overlay Launch
begin

text \<open>
  Verification of the Guitar Girl Memorial Server, a Rust server embedded in the game client that
  answers the client's calls over a local socket and keeps the saves in SQLite. This development
  translates its crates into definitions of Isabelle/HOL and proves what they promise. All paths are
  under \<open>src/\<close>; a definition has the name of the function it models unless HOL or another crate has
  that name already (\<open>_tx\<close> is the closure that runs in a transaction, \<open>_rpc\<close> the transaction around it, \<open>arm_\<close>
  an arm of a match, \<open>ffi_\<close> an exported C function).

  \<^bold>\<open>The program and how its parts interact.\<close> A request enters at \<open>crates/transport-http\<close>: a route, its headers
  and a form (\<open>lib.rs\<close>). A game call carries a Thrift message, which \<open>crates/protocol\<close> decodes by the schema;
  the call is admitted when the session, the category, the identity, and for a mutating call the
  sequence and the clock, are right (\<open>admit_call\<close>). The dispatcher (\<open>gameplay.rs\<close>, \<open>handlers.rs\<close>) finds the arm of
  the call; an arm reads the catalog of \<open>crates/master-data\<close>, takes its prices and thresholds from
  \<open>crates/policy-memorial\<close>, and asks \<open>crates/persistence-sqlite\<close> for one or more jobs. A writing job is one
  transaction: the session is checked, a key already in the ledger is answered from it, the sequence
  must be new, the command runs, the result is recorded. The settings page takes the same way with its
  own keys. \<open>crates/android-ffi\<close> and \<open>crates/server-cli\<close> start the server, log in, make backups and
  move saves.

  \<^bold>\<open>Foundations.\<close>
  Prelude: integers of Rust at their widths (wrapping and saturating), tables as association lists sorted
  by key, the transaction monad \<open>tx\<close> (a state to an error or a value and a state), the locales
  \<open>keyed_store\<close> (read after write) and \<open>step_relation\<close> (a reflexive and transitive relation that every
  primitive keeps is kept by what is built from them), and the collections of rules the other theories
  share. Floats: \<open>f64\<close> and \<open>f32\<close> as rationals with infinities and NaN, each operation rounded to nearest even;
  the two zeros are one value, a limit of the model. Decimal, Text: the
  standard library on text, byte by byte or by code point. Domain: the structs and enums of
  \<open>crates/domain\<close>, the device clock, the Consume contract. Calendar: dates and the revision of the day.

  \<^bold>\<open>The store\<close> (\<open>crates/persistence-sqlite/src/lib.rs\<close>, \<open>migrations/0001_initial.sql\<close>). Schema: the rows, the
  record \<open>db\<close> of all tables, the errors; a constraint is checked where a statement can violate it, and a
  query is ordered as its \<open>ORDER BY\<close> says, ties by row id. Ledger: \<open>commit_rpc_mutation_with_replay\<close> and the
  locales \<open>rpc_command\<close> and \<open>plain_command\<close>, the contract of a command, interpreted on every command in its own theory.
  Migration: opening a database, \<open>configure\<close> and the statements of \<open>MIGRATION_1\<close> one by one, each committed for
  itself as \<open>execute_batch\<close> does it, so that a database can be left half migrated at version 0.
  Slots, Sessions: catalogs, slots, logins, and the step relation of the sessions. Rewards, Mail,
  Purchase, Passes, Ch3, Quests, Activities, Records, Saves: the commands. Snapshot:
  \<open>player_snapshot\<close>. Commands: the store as one machine, \<open>program_step\<close>, its reachable states and
  invariants, and the refinement of an abstract request log.

  \<^bold>\<open>Catalog and policy.\<close> Master: \<open>crates/master-data\<close>, a SQLite file as tables of typed cells and every query
  over it. Policy: \<open>crates/policy-memorial\<close>. Prices: what the policy makes of the catalog, in the shop and in the
  published tables. Overlay: the memorial shop added at the start, and the discontinued content.

  \<^bold>\<open>Protocol and calls.\<close> Wire, Envelope: \<open>crates/protocol\<close>, the binary format at its machine widths and the
  messages by name. Requests, Views, Player_View, Scores, Notices: the parsers, response values, stage
  scores and texts of \<open>gameplay.rs\<close> and \<open>lib.rs\<close>. Gameplay (with the locale \<open>action_relation\<close>), Game_Queries, Game_Shop,
  Game_Followers, Game_Activities, Game_Stages: the arms of \<open>execute\<close>. Execute: the table of the arms.
  Handlers: the registry. Effects: what any call does to the store, proved once in the locales
  \<open>request_relation\<close> and \<open>reading_relation\<close> for any relation that commits respect and read off in their interpretations.

  \<^bold>\<open>The server.\<close> Http: headers, capability, forms, identities, amounts, asset names. Admin: the state of the
  server (session, flag, store), the login and the settings page. Server: \<open>legacy_rpc\<close> with every early
  return, the assets, and \<open>serve\<close>, one request as a function from the server's state to a reply and its
  next state. Traffic: the locale \<open>http_relation\<close> and its four interpretations, for every route at once.

  \<^bold>\<open>Files, start and host.\<close> Files: a disk whose operations may fail, the opening of a database on it, recovery of a damaged
  database, publication of a backup, and what an interrupted recovery or migration leads to. A database is its file and the two side
  files of SQLite's log; what was committed is the content of the file, and an open that fails may leave what it has created and
  migrated and may remove the side files (\<open>de_closes\<close>). Startup: \<open>start\<close>, the backup before a stop, export and import
  (\<open>transfer.rs\<close>), the command line server. Console: the banner and the log. Runtime: the exported functions
  of \<open>crates/android-ffi\<close> as steps over the running server, the log and the disk. The end of the server thread is a step, and so is the end of
  the process between two calls and, between two transactions, inside a request or a start; inside an operation on files (the
  migration statement by statement, recovery, backup, transfer) it is the operation whose steps fail from there on, followed by
  the end of the process. Host and faults may change from step to step (\<open>library_step\<close>). The locale \<open>save_law\<close> proves once that
  a law of saves survives every step. Launch: the first start, evaluated on a small master file.

  \<^bold>\<open>What the lemmas show.\<close> About the store: every reachable state has its invariants (sessions, ledger,
  balances, complete slots); a mutation is performed once and in sequence, a closed session is fenced;
  mails, purchases, pass steps, quest conditions, achievements and missions pay once and the stated
  amounts; energy regenerates by the clock and stays in its bounds; scores and levels never drop; a
  snapshot from the client cannot touch what the server decides. About the codecs: reading what was
  written gives it back, reading always ends. About catalog and policy: types, dates, the rotation of
  the seasons. About the server: any request is a run of the store's steps, stays with its player, is
  idempotent, changes nothing without the capability or before a login, and a call reaches its handler only
  when the code's conditions hold. About files and the host: no file is lost in a recovery, a backup
  outlives every failure, export and import are exact, every save that any run leaves on the disk is
  a sound store or the remains of an interrupted migration, which every open refuses once a table is there, no answered request is lost
  when the process is killed, and a fresh device can start and log in. Some properties state what the code does against its intention; they are the findings.

  \<^bold>\<open>Bounds and fuel.\<close> The readers of Wire have three steps of fuel per byte, and every input is shown to end
  within them (\<open>read_struct_returns\<close>); the default values of Envelope follow the schema to the depth of
  32 that the code has. Every other recursion is structural or has its measure. Integers that can overflow
  wrap as in a release build where the code adds plainly, and saturate or fail where the code says so.

  \<^bold>\<open>Parameters.\<close> What is not in the repository is an argument: the JSON codec of ledger results (serde), base64,
  bzip2, SHA-256, hexadecimal, the form parser, the texts of SQLite's errors, the schema document and the enum of RPC
  names generated from it, the reader of packaged assets, the bound address, the clock, and the failures of the file
  system and of the statements of the migration (\<open>faults\<close>: any may fail at any time; the statements hold for all choices).

  \<^bold>\<open>Not modelled.\<close> Requests are served one after the other, and the jobs of one request follow each other
  without a job of another request between them; the database actor runs one job at a time, so only the order of
  jobs between concurrent requests is left out. Logging, progress messages and diagnostics have no effect on the
  state; only the log the host can drain is modelled. HTTP itself (axum: framing, routing of paths to handlers,
  shutdown of the listener), threads and channels, SQLite's page format, journal and file locks are third-party
  code. \<open>materialize_master\<close> and the asset reader of \<open>crates/android-ffi\<close> call Android's AssetManager and give the model a
  master file or an error. The build scripts, the example of \<open>crates/protocol\<close> and the tests have no logic that a
  running server uses. With these exceptions, every function of the crates that a request, a start or a call of the host
  can reach is a definition here.
\<close>

end
